(* ===== verification/Json.thy ===== *)
theory Json
  imports Go_Prelude "HOL-Library.Char_ord" "HOL-Library.List_Lexorder"
begin

text \<open>
  The part of package \<open>encoding/json\<close> the router uses.  A JSON document is its parse tree
  (\<^theory_text>\<open>json\<close>); a \<open>json.RawMessage\<close> is an optional tree (\<open>None\<close> for a nil or empty one), so
  two spellings of a document that differ in white space or in escapes are not told apart.
  Where the code looks at the text of a document it is the compact text \<open>json.Marshal\<close>
  writes (\<open>json_text\<close>), for strings that are valid UTF-8.

  \<open>json.Unmarshal\<close> writes into an existing Go value, leaves it alone on \<open>null\<close>, and after a
  type mismatch goes on with the other fields and reports the error at the end.  A decoder
  therefore has type \<open>json \<Rightarrow> 'a \<Rightarrow> 'a \<times> bool\<close>: the document and the target, giving the target
  after decoding and whether no error was met.  The locale \<open>codec\<close> is the contract between
  a struct's encoder and its decoder, and carries the round trip over to slices and pointers.
\<close>

section \<open>Documents\<close>

datatype number = NInt int | NLit string
  \<comment> \<open>an integer literal, or the text of any other number literal (\<open>0.7\<close>, \<open>1e3\<close>)\<close>

datatype json =
    JNull
  | JBool bool
  | JNum number
  | JStr string
  | JArr "json list"
  | JObj "(string \<times> json) list"

type_synonym raw = "json option"

section \<open>Decoding\<close>

type_synonym 'a decoder = "json \<Rightarrow> 'a \<Rightarrow> 'a \<times> bool"

fun dec_string :: "string decoder" where
  "dec_string (JStr s) cur = (s, True)"
| "dec_string JNull cur = (cur, True)"
| "dec_string j cur = (cur, False)"

fun dec_bool :: "bool decoder" where
  "dec_bool (JBool b) cur = (b, True)"
| "dec_bool JNull cur = (cur, True)"
| "dec_bool j cur = (cur, False)"

fun dec_int :: "int decoder" where
  "dec_int (JNum (NInt i)) cur =
     (if - max_int64 - 1 \<le> i \<and> i \<le> max_int64 then (i, True) else (cur, False))"
| "dec_int JNull cur = (cur, True)"
| "dec_int j cur = (cur, False)"

fun dec_float :: "number decoder" where
  "dec_float (JNum n) cur = (n, True)"
| "dec_float JNull cur = (cur, True)"
| "dec_float j cur = (cur, False)"

definition dec_raw :: "raw decoder" where
  "dec_raw j cur = (Some j, True)"

fun dec_ptr :: "'a \<Rightarrow> 'a decoder \<Rightarrow> 'a option decoder" where
  "dec_ptr zero d JNull cur = (None, True)"
| "dec_ptr zero d j cur =
     (let (x, ok) = d j (case cur of None \<Rightarrow> zero | Some c \<Rightarrow> c) in (Some x, ok))"

definition dec_elems :: "'a \<Rightarrow> 'a decoder \<Rightarrow> json list \<Rightarrow> 'a list \<times> bool" where
  "dec_elems zero d js =
     (map (\<lambda>j. fst (d j zero)) js, list_all (\<lambda>j. snd (d j zero)) js)"

fun dec_slice :: "'a \<Rightarrow> 'a decoder \<Rightarrow> 'a list decoder" where
  "dec_slice zero d (JArr js) cur = dec_elems zero d js"
| "dec_slice zero d JNull cur = ([], True)"
| "dec_slice zero d j cur = (cur, False)"

text \<open>A map is decoded into the map that is there; a value of the wrong type stores the zero value.\<close>

fun dec_map :: "'a \<Rightarrow> 'a decoder \<Rightarrow> 'a gomap decoder" where
  "dec_map zero d (JObj kvs) cur =
     foldl (\<lambda>(m, ok) (k, v). (mput k (fst (d v zero)) m, ok \<and> snd (d v zero))) (cur, True) kvs"
| "dec_map zero d JNull cur = ([], True)"
| "dec_map zero d j cur = (cur, False)"

definition dec_any :: "json decoder" where
  "dec_any j cur = (j, True)"

text \<open>
  A struct: the pairs of the object in order, each matched to a field by its name (letter
  case ignored); unknown names are skipped.
\<close>

definition dec_struct :: "(string \<times> 'r decoder) list \<Rightarrow> 'r decoder" where
  "dec_struct fields j r =
     (case j of
        JObj kvs \<Rightarrow>
          foldl (\<lambda>(r, ok) (k, v).
                   case map_of fields (ToLower k) of
                     None \<Rightarrow> (r, ok)
                   | Some d \<Rightarrow> (fst (d v r), ok \<and> snd (d v r)))
                (r, True) kvs
      | JNull \<Rightarrow> (r, True)
      | _ \<Rightarrow> (r, False))"

definition fld :: "('r \<Rightarrow> 'a) \<Rightarrow> (('a \<Rightarrow> 'a) \<Rightarrow> 'r \<Rightarrow> 'r) \<Rightarrow> 'a decoder \<Rightarrow> 'r decoder" where
  "fld get upd d v r = (let (x, ok) = d v (get r) in (upd (\<lambda>_. x) r, ok))"

section \<open>Encoding\<close>

definition enc_strs :: "string list \<Rightarrow> json" where
  "enc_strs ss = JArr (map JStr ss)"

text \<open>\<open>json.Marshal\<close> writes the keys of a map in sorted order.\<close>

definition enc_map :: "('a \<Rightarrow> json) \<Rightarrow> 'a gomap \<Rightarrow> json" where
  "enc_map e m = JObj (map (\<lambda>(k, v). (k, e v)) (sort_key fst m))"

definition enc_raw :: "raw \<Rightarrow> json" where
  "enc_raw r = (case r of None \<Rightarrow> JNull | Some j \<Rightarrow> j)"

text \<open>Fields with \<open>omitempty\<close>: left out when empty.\<close>

definition opt_str :: "string \<Rightarrow> string \<Rightarrow> (string \<times> json) list" where
  "opt_str k s = (if s = [] then [] else [(k, JStr s)])"

definition opt_int :: "string \<Rightarrow> int \<Rightarrow> (string \<times> json) list" where
  "opt_int k i = (if i = 0 then [] else [(k, JNum (NInt i))])"

definition opt_float :: "string \<Rightarrow> number \<Rightarrow> (string \<times> json) list" where
  "opt_float k n = (if n = NInt 0 then [] else [(k, JNum n)])"

definition opt_bool :: "string \<Rightarrow> bool \<Rightarrow> (string \<times> json) list" where
  "opt_bool k b = (if b then [(k, JBool True)] else [])"

definition opt_list :: "string \<Rightarrow> ('a \<Rightarrow> json) \<Rightarrow> 'a list \<Rightarrow> (string \<times> json) list" where
  "opt_list k e xs = (if xs = [] then [] else [(k, JArr (map e xs))])"

definition opt_map :: "string \<Rightarrow> ('a \<Rightarrow> json) \<Rightarrow> 'a gomap \<Rightarrow> (string \<times> json) list" where
  "opt_map k e m = (if m = [] then [] else [(k, enc_map e m)])"

definition opt_ptr :: "string \<Rightarrow> ('a \<Rightarrow> json) \<Rightarrow> 'a option \<Rightarrow> (string \<times> json) list" where
  "opt_ptr k e p = (case p of None \<Rightarrow> [] | Some x \<Rightarrow> [(k, e x)])"

definition opt_raw :: "string \<Rightarrow> raw \<Rightarrow> (string \<times> json) list" where
  "opt_raw k r = (case r of None \<Rightarrow> [] | Some j \<Rightarrow> [(k, j)])"

lemmas enc_simps =
  opt_str_def opt_int_def opt_float_def opt_bool_def opt_list_def opt_map_def opt_ptr_def opt_raw_def

section \<open>Struct decoding, one pair at a time\<close>

text \<open>
  \<open>dec_pairs\<close> is the loop of \<open>dec_struct\<close>; the rules below run it over a list of pairs that
  is built with \<open>@\<close> from optional fields.
\<close>

definition dec_pairs ::
    "(string \<times> 'r decoder) list \<Rightarrow> (string \<times> json) list \<Rightarrow> 'r \<times> bool \<Rightarrow> 'r \<times> bool" where
  "dec_pairs fields kvs s =
     foldl (\<lambda>(r, ok) (k, v).
              case map_of fields (ToLower k) of
                None \<Rightarrow> (r, ok)
              | Some d \<Rightarrow> (fst (d v r), ok \<and> snd (d v r))) s kvs"

lemma dec_struct_obj: "dec_struct fields (JObj kvs) r = dec_pairs fields kvs (r, True)"
  by (simp add: dec_struct_def dec_pairs_def)

lemma dec_pairs_Nil: "dec_pairs fields [] s = s"
  by (simp add: dec_pairs_def)

lemma dec_pairs_Cons: "dec_pairs fields ((k, v) # kvs) (r, ok) =
    (case map_of fields (ToLower k) of
       None \<Rightarrow> dec_pairs fields kvs (r, ok)
     | Some d \<Rightarrow> dec_pairs fields kvs (fst (d v r), ok \<and> snd (d v r)))"
  by (simp add: dec_pairs_def split: option.splits)

lemma dec_pairs_append: "dec_pairs fields (xs @ ys) s = dec_pairs fields ys (dec_pairs fields xs s)"
  by (simp add: dec_pairs_def)

lemmas dec_pairs_simps = dec_pairs_Nil dec_pairs_Cons dec_pairs_append

lemma fst_fld: "fst (fld get upd d v r) = upd (\<lambda>_. fst (d v (get r))) r"
  by (simp add: fld_def split: prod.split)

lemma snd_fld: "snd (fld get upd d v r) = snd (d v (get r))"
  by (simp add: fld_def split: prod.split)

lemmas fld_simps = fst_fld snd_fld

text \<open>
  One field at a time: a field that is written (or left out when empty) and read back into a
  target that holds the zero value there.
\<close>

lemma dec_pairs_single:
  "map_of fields (ToLower k) = Some (fld get upd d) \<Longrightarrow> d v (get r) = (x, True) \<Longrightarrow>
   dec_pairs fields [(k, v)] (r, ok) = (upd (\<lambda>_. x) r, ok)"
  by (simp add: dec_pairs_simps fld_simps)

section \<open>Round trips\<close>

locale codec =
  fixes wf :: "'a \<Rightarrow> bool" and enc :: "'a \<Rightarrow> json" and dec :: "'a decoder" and zero :: 'a
  assumes roundtrip: "wf x \<Longrightarrow> dec (enc x) zero = (x, True)"
    and not_null: "wf x \<Longrightarrow> enc x \<noteq> JNull"
begin

lemma elems: "list_all wf xs \<Longrightarrow> dec_elems zero dec (map enc xs) = (xs, True)"
  by (induction xs) (auto simp: dec_elems_def roundtrip)

lemma slice: "list_all wf xs \<Longrightarrow> dec_slice zero dec (JArr (map enc xs)) cur = (xs, True)"
  by (simp add: elems)

lemma ptr: "wf x \<Longrightarrow> dec_ptr zero dec (enc x) None = (Some x, True)"
  using roundtrip [of x] not_null [of x] by (cases "enc x") auto

lemma enc_inj: "wf x \<Longrightarrow> wf y \<Longrightarrow> enc x = enc y \<Longrightarrow> x = y"
  by (metis roundtrip prod.inject)

end

definition in_int64 :: "int \<Rightarrow> bool" where
  "in_int64 i \<longleftrightarrow> - max_int64 - 1 \<le> i \<and> i \<le> max_int64"

interpretation str_codec: codec "\<lambda>_. True" JStr dec_string "[]"
  by unfold_locales auto

interpretation int_codec: codec in_int64 "\<lambda>i. JNum (NInt i)" dec_int 0
  by unfold_locales (auto simp: in_int64_def)

interpretation float_codec: codec "\<lambda>_. True" JNum dec_float "NInt 0"
  by unfold_locales auto

interpretation bool_codec: codec "\<lambda>_. True" JBool dec_bool False
  by unfold_locales auto

lemma dec_strs: "dec_slice [] dec_string (enc_strs ss) cur = (ss, True)"
  unfolding enc_strs_def by (rule str_codec.slice) (simp add: list_all_iff)

lemma dec_map_enc:
  "\<forall>v \<in> snd ` set kvs. d (e v) zero = (v, True) \<Longrightarrow>
   foldl (\<lambda>(m, ok) (k, v). (mput k (fst (d v zero)) m, ok \<and> snd (d v zero)))
     (m0, True) (map (\<lambda>(k, v). (k, e v)) kvs)
   = (foldl (\<lambda>m (k, v). mput k v m) m0 kvs, True)"
  by (induction kvs arbitrary: m0) auto

lemma foldl_mput_distinct:
  "distinct (map fst (m0 @ kvs)) \<Longrightarrow> foldl (\<lambda>m (k, v). mput k v m) m0 kvs = m0 @ kvs"
proof (induction kvs arbitrary: m0)
  case Nil
  then show ?case by simp
next
  case (Cons kv kvs)
  then have "mput (fst kv) (snd kv) m0 = m0 @ [kv]"
    by (cases kv) (simp add: mput_new)
  with Cons show ?case by (cases kv) simp
qed

text \<open>A map comes back as the same map; its entries are then listed in sorted order.\<close>

definition sorted_map :: "'v gomap \<Rightarrow> bool" where
  "sorted_map m \<longleftrightarrow> wf_map m \<and> sorted (map fst m)"

lemma dec_map_roundtrip:
  assumes "sorted_map m" and "\<forall>v \<in> snd ` set m. d (e v) zero = (v, True)"
  shows "dec_map zero d (enc_map e m) [] = (m, True)"
proof -
  have "sort_key fst m = m"
    using assms(1) by (simp add: sorted_map_def sorted_sort_id sort_key_id_if_sorted)
  moreover have "distinct (map fst ([] @ m))"
    using assms(1) by (simp add: sorted_map_def wf_map_def)
  ultimately show ?thesis
    using dec_map_enc [of m d e zero "[]"] foldl_mput_distinct [of "[]" m] assms(2)
    by (simp add: enc_map_def)
qed

lemma dec_raw_Some: "dec_raw j cur = (Some j, True)"
  by (simp add: dec_raw_def)

section \<open>Text\<close>

definition hex_digit :: "nat \<Rightarrow> char" where
  "hex_digit n = (if n < 10 then char_of (48 + n) else char_of (87 + n))"

definition u_escape :: "nat \<Rightarrow> string" where
  "u_escape n = [CHR 0x5C, CHR ''u'', CHR ''0'', CHR ''0'', hex_digit (n div 16), hex_digit (n mod 16)]"

definition quote_char :: "char \<Rightarrow> string" where
  "quote_char c =
     (let n = (of_char c :: nat) in
      if c = CHR 0x22 \<or> c = CHR 0x5C then [CHR 0x5C, c]
      else if n = 8 then [CHR 0x5C, CHR ''b'']
      else if n = 12 then [CHR 0x5C, CHR ''f'']
      else if n = 10 then [CHR 0x5C, CHR ''n'']
      else if n = 13 then [CHR 0x5C, CHR ''r'']
      else if n = 9 then [CHR 0x5C, CHR ''t'']
      else if n < 32 \<or> c = CHR ''<'' \<or> c = CHR ''>'' \<or> c = CHR ''&'' then u_escape n
      else [c])"

definition json_quote :: "string \<Rightarrow> string" where
  "json_quote s = CHR 0x22 # concat (map quote_char s) @ [CHR 0x22]"

fun commas :: "string list \<Rightarrow> string" where
  "commas [] = []"
| "commas [s] = s"
| "commas (s # ss) = s @ '','' @ commas ss"

fun json_text :: "json \<Rightarrow> string" where
  "json_text JNull = ''null''"
| "json_text (JBool b) = (if b then ''true'' else ''false'')"
| "json_text (JNum (NInt i)) = Itoa i"
| "json_text (JNum (NLit l)) = l"
| "json_text (JStr s) = json_quote s"
| "json_text (JArr js) = ''['' @ commas (map json_text js) @ '']''"
| "json_text (JObj kvs) =
     ''{'' @ commas (map (\<lambda>(k, j). json_quote k @ '':'' @ json_text j) kvs) @ ''}''"

end
