(* ===== verification/Base64.thy ===== *)
theory Base64
  imports Go_Prelude
begin

text \<open>
  The two encodings of package \<open>encoding/base64\<close> the source uses, on byte strings:
  \<open>RawStdEncoding\<close> (no padding; the salt and the hash of a PHC string) and \<open>StdEncoding\<close>
  (padded; image data).  Decoding skips line breaks, refuses any other character outside the
  alphabet and a length that no encoder produces, and ignores surplus low bits, as the
  library does.  The lemmas show that each decoder inverts its encoder.
\<close>

definition byte_val :: "char \<Rightarrow> nat" where
  "byte_val c = of_char c"

lemma byte_val_less [simp]: "byte_val c < 256"
  by (simp add: byte_val_def)

lemma char_of_byte_val [simp]: "char_of (byte_val c) = c"
  by (simp add: byte_val_def)

lemma byte_val_char_of: "n < 256 \<Longrightarrow> byte_val (char_of n) = n"
  by (simp add: byte_val_def)

definition b64_char :: "nat \<Rightarrow> char" where
  "b64_char n =
     (if n < 26 then char_of (65 + n)
      else if n < 52 then char_of (71 + n)
      else if n < 62 then char_of (n - 4)
      else if n = 62 then CHR ''+'' else CHR ''/'')"

definition b64_val :: "char \<Rightarrow> nat option" where
  "b64_val c =
     (let n = byte_val c in
      if 65 \<le> n \<and> n \<le> 90 then Some (n - 65)
      else if 97 \<le> n \<and> n \<le> 122 then Some (n - 71)
      else if 48 \<le> n \<and> n \<le> 57 then Some (n + 4)
      else if c = CHR ''+'' then Some 62
      else if c = CHR ''/'' then Some 63
      else None)"

lemma b64_val_char: "n < 64 \<Longrightarrow> b64_val (b64_char n) = Some n"
  by (auto simp: b64_char_def b64_val_def byte_val_char_of Let_def byte_val_def)

lemma b64_char_props:
  assumes "n < 64"
  shows "b64_char n \<noteq> CHR ''$''" "b64_char n \<noteq> CHR ''=''"
    "b64_char n \<noteq> CHR 0x0A" "b64_char n \<noteq> CHR 0x0D"
proof -
  have n: "b64_val (b64_char n) = Some n"
    using assms by (rule b64_val_char)
  have none: "b64_val (CHR ''$'') = None" "b64_val (CHR ''='') = None"
    "b64_val (CHR 0x0A) = None" "b64_val (CHR 0x0D) = None"
    by (simp_all add: b64_val_def byte_val_def)
  show "b64_char n \<noteq> CHR ''$''" "b64_char n \<noteq> CHR ''=''"
    "b64_char n \<noteq> CHR 0x0A" "b64_char n \<noteq> CHR 0x0D"
    using n none by (metis option.distinct(1))+
qed

fun raw_encode :: "string \<Rightarrow> string" where
  "raw_encode [] = []"
| "raw_encode [a] =
     [b64_char (byte_val a div 4), b64_char (byte_val a mod 4 * 16)]"
| "raw_encode [a, b] =
     [b64_char (byte_val a div 4), b64_char (byte_val a mod 4 * 16 + byte_val b div 16),
      b64_char (byte_val b mod 16 * 4)]"
| "raw_encode (a # b # c # r) =
     b64_char (byte_val a div 4) # b64_char (byte_val a mod 4 * 16 + byte_val b div 16) #
     b64_char (byte_val b mod 16 * 4 + byte_val c div 64) # b64_char (byte_val c mod 64) #
     raw_encode r"

fun raw_groups :: "nat list \<Rightarrow> string option" where
  "raw_groups [] = Some []"
| "raw_groups [p] = None"
| "raw_groups [p, q] = Some [char_of (p * 4 + q div 16)]"
| "raw_groups [p, q, s] =
     Some [char_of (p * 4 + q div 16), char_of (q mod 16 * 16 + s div 4)]"
| "raw_groups (p # q # s # t # r) =
     map_option (\<lambda>bs. char_of (p * 4 + q div 16) # char_of (q mod 16 * 16 + s div 4) #
        char_of (s mod 4 * 64 + t) # bs) (raw_groups r)"

fun all_some :: "'a option list \<Rightarrow> 'a list option" where
  "all_some [] = Some []"
| "all_some (None # xs) = None"
| "all_some (Some x # xs) = map_option ((#) x) (all_some xs)"

definition skip_newlines :: "string \<Rightarrow> string" where
  "skip_newlines s = filter (\<lambda>c. c \<noteq> CHR 0x0A \<and> c \<noteq> CHR 0x0D) s"

definition raw_decode :: "string \<Rightarrow> string option" where
  "raw_decode s =
     (case all_some (map b64_val (skip_newlines s)) of None \<Rightarrow> None | Some ns \<Rightarrow> raw_groups ns)"

definition std_encode :: "string \<Rightarrow> string" where
  "std_encode bs =
     (let r = raw_encode bs in
      r @ (if length bs mod 3 = 1 then ''=='' else if length bs mod 3 = 2 then ''='' else []))"

definition std_decode :: "string \<Rightarrow> string option" where
  "std_decode s =
     (let t = skip_newlines s;
          body = (if HasSuffix t ''=='' then take (length t - 2) t
                  else if HasSuffix t ''='' then take (length t - 1) t else t)
      in if length t mod 4 \<noteq> 0 then None else raw_decode body)"

fun b64_vals :: "string \<Rightarrow> nat list" where
  "b64_vals [] = []"
| "b64_vals [a] = [byte_val a div 4, byte_val a mod 4 * 16]"
| "b64_vals [a, b] =
     [byte_val a div 4, byte_val a mod 4 * 16 + byte_val b div 16, byte_val b mod 16 * 4]"
| "b64_vals (a # b # c # r) =
     byte_val a div 4 # (byte_val a mod 4 * 16 + byte_val b div 16) #
     (byte_val b mod 16 * 4 + byte_val c div 64) # (byte_val c mod 64) # b64_vals r"

lemma raw_encode_vals: "raw_encode bs = map b64_char (b64_vals bs)"
  by (induction bs rule: raw_encode.induct) auto

lemma shift_div: "y < k \<Longrightarrow> (m * k + y) div k = (m :: nat)"
  by simp

lemma shift_mod: "y < k \<Longrightarrow> (m * k + y) mod k = (y :: nat)"
  by simp

lemma byte_parts:
  "byte_val a div 4 < 64" "byte_val a div 16 < 16" "byte_val a div 64 < 4"
  "byte_val a mod 4 < 4" "byte_val a mod 16 < 16" "byte_val a mod 64 < 64"
  using byte_val_less [of a] by (simp_all add: less_mult_imp_div_less)

lemma sextet_bounds:
  "byte_val a div 4 < 64" "byte_val a mod 4 * 16 < 64" "byte_val a mod 16 * 4 < 64"
  "byte_val a mod 4 * 16 + byte_val b div 16 < 64"
  "byte_val a mod 16 * 4 + byte_val b div 64 < 64"
  using byte_parts [of a] byte_parts [of b] by linarith+

lemma b64_vals_less: "list_all (\<lambda>n. n < 64) (b64_vals bs)"
  by (induction bs rule: b64_vals.induct) (auto simp: sextet_bounds)

lemma group_bytes:
  "byte_val a div 4 * 4 + (byte_val a mod 4 * 16) div 16 = byte_val a"
  "byte_val a div 4 * 4 + (byte_val a mod 4 * 16 + byte_val b div 16) div 16 = byte_val a"
  "(byte_val a mod 4 * 16 + byte_val b div 16) mod 16 * 16 + (byte_val b mod 16 * 4) div 4 = byte_val b"
  "(byte_val a mod 4 * 16 + byte_val b div 16) mod 16 * 16
     + (byte_val b mod 16 * 4 + byte_val c div 64) div 4 = byte_val b"
  "(byte_val b mod 16 * 4 + byte_val c div 64) mod 4 * 64 + byte_val c mod 64 = byte_val c"
  by (simp_all only: shift_div [OF byte_parts(2)] shift_mod [OF byte_parts(2)]
      shift_div [OF byte_parts(3)] shift_mod [OF byte_parts(3)] div_mult_self_is_m zero_less_numeral
      div_mult_mod_eq)

lemma raw_groups_vals: "raw_groups (b64_vals bs) = Some bs"
  by (induction bs rule: b64_vals.induct) (simp_all only: b64_vals.simps raw_groups.simps
      group_bytes char_of_byte_val option.map)

lemma all_some_map: "(\<And>x. x \<in> set xs \<Longrightarrow> f (g x) = Some x) \<Longrightarrow> all_some (map f (map g xs)) = Some xs"
  by (induction xs) auto

lemma raw_encode_chars:
  "c \<in> set (raw_encode bs) \<Longrightarrow>
   c \<noteq> CHR ''$'' \<and> c \<noteq> CHR ''='' \<and> c \<noteq> CHR 0x0A \<and> c \<noteq> CHR 0x0D"
  using b64_vals_less [of bs] by (auto simp: raw_encode_vals list_all_iff b64_char_props)

lemma skip_newlines_raw [simp]: "skip_newlines (raw_encode bs) = raw_encode bs"
  by (auto simp: skip_newlines_def filter_id_conv dest: raw_encode_chars)

lemma raw_roundtrip: "raw_decode (raw_encode bs) = Some bs"
proof -
  have "all_some (map b64_val (map b64_char (b64_vals bs))) = Some (b64_vals bs)"
    using b64_vals_less [of bs] by (intro all_some_map) (auto simp: b64_val_char list_all_iff)
  moreover have "skip_newlines (raw_encode bs) = map b64_char (b64_vals bs)"
    by (simp only: skip_newlines_raw) (rule raw_encode_vals)
  ultimately show ?thesis
    by (simp only: raw_decode_def option.case raw_groups_vals)
qed

lemma raw_no_dollar: "CHR ''$'' \<notin> set (raw_encode bs)"
  by (auto dest: raw_encode_chars)

lemma length_raw_encode_mod:
  "length (raw_encode bs) mod 4 =
     (if length bs mod 3 = 0 then 0 else if length bs mod 3 = 1 then 2 else 3)"
  by (induction bs rule: raw_encode.induct) (auto simp: mod_Suc)

lemma raw_encode_no_suffix: "\<not> HasSuffix (raw_encode bs) ''=''"
proof
  assume "HasSuffix (raw_encode bs) ''=''"
  then have "CHR ''='' \<in> set (raw_encode bs)"
    by (cases "rev (raw_encode bs)") (auto simp: HasSuffix_def rev_eq_Cons_iff)
  then show False by (auto dest: raw_encode_chars)
qed

lemma HasSuffix_append [simp]: "HasSuffix (s @ p) p"
  by (simp add: HasSuffix_def)

lemma skip_newlines_append: "skip_newlines (s @ t) = skip_newlines s @ skip_newlines t"
  by (simp add: skip_newlines_def)

lemma std_roundtrip: "std_decode (std_encode bs) = Some bs"
proof -
  have eq: "\<not> HasSuffix (raw_encode bs @ ''='') ''==''"
    using raw_encode_no_suffix [of bs] by (auto simp: HasSuffix_def)
  have eqs: "\<not> HasSuffix (raw_encode bs) ''==''"
    using raw_encode_no_suffix [of bs]
    by (cases "rev (raw_encode bs)") (auto simp: HasSuffix_def)
  consider "length bs mod 3 = 0" | "length bs mod 3 = 1" | "length bs mod 3 = 2"
    by linarith
  then show ?thesis
  proof cases
    case 1
    then show ?thesis
      using length_raw_encode_mod [of bs] eqs raw_encode_no_suffix [of bs]
      by (simp add: std_encode_def std_decode_def raw_roundtrip)
  next
    case 2
    then have "(length (raw_encode bs) + 2) mod 4 = 0"
      using length_raw_encode_mod [of bs] by presburger
    with 2 show ?thesis
      by (simp add: std_encode_def std_decode_def raw_roundtrip skip_newlines_append)
         (simp add: skip_newlines_def raw_roundtrip)
  next
    case 3
    then have "(length (raw_encode bs) + 1) mod 4 = 0"
      using length_raw_encode_mod [of bs] by presburger
    with 3 eq show ?thesis
      by (simp add: std_encode_def std_decode_def raw_roundtrip skip_newlines_append)
         (simp add: skip_newlines_def raw_roundtrip)
  qed
qed

end
