(* ===== verification/Protocol_Types.thy ===== *)
theory Protocol_Types
  imports Json Base64
begin

text \<open>
  The wire structs of \<open>pkg/protocol\<close> (\<open>messages.go\<close>, \<open>tools_messages.go\<close>): a record per struct,
  its zero value, its encoder (the JSON object \<open>json.Marshal\<close> writes, with the \<open>omitempty\<close>
  fields left out when empty) and its decoder (what \<open>json.Unmarshal\<close> does with the struct's
  tags).  Each pair is an instance of \<open>codec\<close>: decoding what was encoded gives the value
  back.  A nil and an empty slice or map are one value here.  \<open>wf_X\<close> states what the round
  trip needs: integers that fit 64 bits, raw fields that hold a document, maps in key order.
\<close>

section \<open>Rules that run a decoder over an encoder's fields\<close>

lemma lower_char_lits:
  "lower_char CHR ''a'' = CHR ''a'' \<and> lower_char CHR ''b'' = CHR ''b''"
  "lower_char CHR ''c'' = CHR ''c'' \<and> lower_char CHR ''d'' = CHR ''d''"
  "lower_char CHR ''e'' = CHR ''e'' \<and> lower_char CHR ''f'' = CHR ''f''"
  "lower_char CHR ''g'' = CHR ''g'' \<and> lower_char CHR ''h'' = CHR ''h''"
  "lower_char CHR ''i'' = CHR ''i'' \<and> lower_char CHR ''j'' = CHR ''j''"
  "lower_char CHR ''k'' = CHR ''k'' \<and> lower_char CHR ''l'' = CHR ''l''"
  "lower_char CHR ''m'' = CHR ''m'' \<and> lower_char CHR ''n'' = CHR ''n''"
  "lower_char CHR ''o'' = CHR ''o'' \<and> lower_char CHR ''p'' = CHR ''p''"
  "lower_char CHR ''q'' = CHR ''q'' \<and> lower_char CHR ''r'' = CHR ''r''"
  "lower_char CHR ''s'' = CHR ''s'' \<and> lower_char CHR ''t'' = CHR ''t''"
  "lower_char CHR ''u'' = CHR ''u'' \<and> lower_char CHR ''v'' = CHR ''v''"
  "lower_char CHR ''w'' = CHR ''w'' \<and> lower_char CHR ''x'' = CHR ''x''"
  "lower_char CHR ''y'' = CHR ''y'' \<and> lower_char CHR ''z'' = CHR ''z''"
  "lower_char CHR ''_'' = CHR ''_'' \<and> lower_char CHR ''I'' = CHR ''i''"
  "lower_char CHR ''S'' = CHR ''s''"
  by (simp_all add: lower_char_def char_of_eq_iff)

lemma ToLower_Nil: "ToLower [] = []"
  by (simp add: ToLower_def)

lemma ToLower_Cons: "ToLower (c # cs) = lower_char c # ToLower cs"
  by (simp add: ToLower_def)

lemma dec_req:
  "map_of fields (ToLower k) = Some (fld get upd d) \<Longrightarrow> d v (get r) = (x, True) \<Longrightarrow>
   dec_pairs fields ((k, v) # rest) (r, ok) = dec_pairs fields rest (upd (\<lambda>_. x) r, ok)"
  by (simp add: dec_pairs_simps fld_simps)

lemma dec_opt_str:
  "map_of fields (ToLower k) = Some (fld get upd dec_string) \<Longrightarrow> upd (\<lambda>_. []) r = r \<Longrightarrow>
   dec_pairs fields (opt_str k s @ rest) (r, ok) = dec_pairs fields rest (upd (\<lambda>_. s) r, ok)"
  by (simp add: opt_str_def dec_req)

lemma dec_opt_int:
  "map_of fields (ToLower k) = Some (fld get upd dec_int) \<Longrightarrow> upd (\<lambda>_. 0) r = r \<Longrightarrow> in_int64 i \<Longrightarrow>
   dec_pairs fields (opt_int k i @ rest) (r, ok) = dec_pairs fields rest (upd (\<lambda>_. i) r, ok)"
  by (simp add: opt_int_def dec_req in_int64_def)

lemma dec_opt_float:
  "map_of fields (ToLower k) = Some (fld get upd dec_float) \<Longrightarrow> upd (\<lambda>_. NInt 0) r = r \<Longrightarrow>
   dec_pairs fields (opt_float k n @ rest) (r, ok) = dec_pairs fields rest (upd (\<lambda>_. n) r, ok)"
  by (simp add: opt_float_def dec_req)

lemma dec_opt_bool:
  "map_of fields (ToLower k) = Some (fld get upd dec_bool) \<Longrightarrow> upd (\<lambda>_. False) r = r \<Longrightarrow>
   dec_pairs fields (opt_bool k b @ rest) (r, ok) = dec_pairs fields rest (upd (\<lambda>_. b) r, ok)"
  by (cases b) (simp_all add: opt_bool_def dec_req)

lemma dec_opt_list:
  "map_of fields (ToLower k) = Some (fld get upd (dec_slice z d)) \<Longrightarrow> upd (\<lambda>_. []) r = r \<Longrightarrow>
   dec_slice z d (JArr (map e xs)) (get r) = (xs, True) \<Longrightarrow>
   dec_pairs fields (opt_list k e xs @ rest) (r, ok) = dec_pairs fields rest (upd (\<lambda>_. xs) r, ok)"
  by (simp add: opt_list_def dec_req)

lemma dec_opt_map:
  "map_of fields (ToLower k) = Some (fld get upd (dec_map z d)) \<Longrightarrow> upd (\<lambda>_. []) r = r \<Longrightarrow>
   dec_map z d (enc_map e m) (get r) = (m, True) \<Longrightarrow>
   dec_pairs fields (opt_map k e m @ rest) (r, ok) = dec_pairs fields rest (upd (\<lambda>_. m) r, ok)"
  by (simp add: opt_map_def dec_req)

lemma opt_ptr_cases:
  "opt_ptr k e None = []" "opt_ptr k e (Some y) = [(k, e y)]"
  by (simp_all add: opt_ptr_def)

lemma dec_ptr_null: "dec_ptr z d JNull cur = (None, True)"
  by (simp add: dec_ptr.simps)

lemma dec_opt_raw:
  "map_of fields (ToLower k) = Some (fld get upd dec_raw) \<Longrightarrow> upd (\<lambda>_. None) r = r \<Longrightarrow>
   dec_pairs fields (opt_raw k p @ rest) (r, ok) = dec_pairs fields rest (upd (\<lambda>_. p) r, ok)"
  by (cases p) (simp_all add: opt_raw_def dec_req dec_raw_def)

lemma dec_raw_enc: "p \<noteq> None \<Longrightarrow> dec_raw (enc_raw p) cur = (p, True)"
  by (auto simp: dec_raw_def enc_raw_def)

lemma dec_int_enc: "in_int64 i \<Longrightarrow> dec_int (JNum (NInt i)) cur = (i, True)"
  by (simp add: in_int64_def)

lemma dec_strs_map: "dec_slice [] dec_string (JArr (map JStr ss)) cur = (ss, True)"
  using dec_strs by (simp add: enc_strs_def)

lemma dec_map_strs: "sorted_map m \<Longrightarrow> dec_map [] dec_string (enc_map JStr m) [] = (m, True)"
  by (rule dec_map_roundtrip) simp_all

lemma dec_map_anys: "sorted_map m \<Longrightarrow> dec_map JNull dec_any (enc_map id m) [] = (m, True)"
  by (rule dec_map_roundtrip) (simp_all add: dec_any_def)

lemma dec_ptr_int: "in_int64 i \<Longrightarrow>
    dec_ptr 0 dec_int (JNum (NInt i)) None = (Some i, True)"
  by (rule int_codec.ptr) simp

lemma dec_ptr_float: "dec_ptr (NInt 0) dec_float (JNum n) None = (Some n, True)"
  by (rule float_codec.ptr) simp

text \<open>A \<open>[]byte\<close> field: base64 text in a JSON string.\<close>

fun dec_bytes :: "string decoder" where
  "dec_bytes (JStr s) cur =
     (case std_decode s of Some bs \<Rightarrow> (bs, True) | None \<Rightarrow> (cur, False))"
| "dec_bytes JNull cur = ([], True)"
| "dec_bytes j cur = (cur, False)"

lemma dec_bytes_enc: "dec_bytes (JStr (std_encode bs)) cur = (bs, True)"
  by (simp add: std_roundtrip)

lemma list_all_True: "list_all (\<lambda>_. True) xs"
  by (simp add: list_all_iff)

declare dec_slice.simps [simp del] dec_ptr.simps [simp del] dec_map.simps [simp del]
  dec_int.simps(1) [simp del] dec_bytes.simps [simp del]

lemmas dec_opt_last =
  dec_opt_str [where rest = "[]", simplified append_Nil2 dec_pairs_Nil]
  dec_opt_int [where rest = "[]", simplified append_Nil2 dec_pairs_Nil]
  dec_opt_float [where rest = "[]", simplified append_Nil2 dec_pairs_Nil]
  dec_opt_bool [where rest = "[]", simplified append_Nil2 dec_pairs_Nil]
  dec_opt_list [where rest = "[]", simplified append_Nil2 dec_pairs_Nil]
  dec_opt_map [where rest = "[]", simplified append_Nil2 dec_pairs_Nil]
  dec_opt_raw [where rest = "[]", simplified append_Nil2 dec_pairs_Nil]

lemmas wire_simps = dec_opt_last list_all_True opt_ptr_cases dec_ptr_null
  dec_struct_obj dec_req dec_opt_str dec_opt_int dec_opt_float dec_opt_bool dec_opt_list dec_opt_map
  dec_opt_raw dec_raw_enc dec_int_enc dec_strs dec_strs_map dec_map_strs dec_map_anys
  dec_ptr_int dec_ptr_float dec_bytes_enc ToLower_Nil ToLower_Cons lower_char_lits dec_pairs_Nil

named_theorems wire_codecs \<comment> \<open>round trips of the structs proved so far\<close>

section \<open>The structs\<close>

record ToolFunction =
  tf_name :: "string"
  tf_args :: "string"

definition zero_ToolFunction :: ToolFunction where
  "zero_ToolFunction =
     \<lparr>tf_name = [], tf_args = []\<rparr>"

definition enc_ToolFunction :: "ToolFunction \<Rightarrow> json" where
  "enc_ToolFunction x = JObj
    ([(''name'', JStr (tf_name x)),
         (''arguments'', JStr (tf_args x))])"

definition dec_ToolFunction :: "ToolFunction decoder" where
  "dec_ToolFunction = dec_struct
    [(''name'', fld tf_name tf_name_update dec_string),
     (''arguments'', fld tf_args tf_args_update dec_string)]"

interpretation tf_codec: codec "(\<lambda>_. True)" enc_ToolFunction dec_ToolFunction zero_ToolFunction
proof (unfold_locales, goal_cases)
  case (1 x)
  then show ?case
    by (cases x) (simp add: enc_ToolFunction_def dec_ToolFunction_def zero_ToolFunction_def wire_simps wire_codecs)
next
  case (2 x)
  then show ?case by (simp add: enc_ToolFunction_def)
qed

lemmas tf_wire [wire_codecs] = tf_codec.roundtrip tf_codec.slice tf_codec.ptr

record ToolCall =
  tc_id :: "string"
  tc_type :: "string"
  tc_fn :: "ToolFunction"

definition zero_ToolCall :: ToolCall where
  "zero_ToolCall =
     \<lparr>tc_id = [], tc_type = [], tc_fn = zero_ToolFunction\<rparr>"

definition enc_ToolCall :: "ToolCall \<Rightarrow> json" where
  "enc_ToolCall x = JObj
    ([(''id'', JStr (tc_id x)),
         (''type'', JStr (tc_type x)),
         (''function'', enc_ToolFunction (tc_fn x))])"

definition dec_ToolCall :: "ToolCall decoder" where
  "dec_ToolCall = dec_struct
    [(''id'', fld tc_id tc_id_update dec_string),
     (''type'', fld tc_type tc_type_update dec_string),
     (''function'', fld tc_fn tc_fn_update dec_ToolFunction)]"

interpretation tc_codec: codec "(\<lambda>_. True)" enc_ToolCall dec_ToolCall zero_ToolCall
proof (unfold_locales, goal_cases)
  case (1 x)
  then show ?case
    by (cases x) (simp add: enc_ToolCall_def dec_ToolCall_def zero_ToolCall_def wire_simps wire_codecs)
next
  case (2 x)
  then show ?case by (simp add: enc_ToolCall_def)
qed

lemmas tc_wire [wire_codecs] = tc_codec.roundtrip tc_codec.slice tc_codec.ptr

record ToolDefinition =
  td_name :: "string"
  td_desc :: "string"
  td_params :: "raw"

definition zero_ToolDefinition :: ToolDefinition where
  "zero_ToolDefinition =
     \<lparr>td_name = [], td_desc = [], td_params = None\<rparr>"

definition enc_ToolDefinition :: "ToolDefinition \<Rightarrow> json" where
  "enc_ToolDefinition x = JObj
    ([(''name'', JStr (td_name x))] @
     opt_str ''description'' (td_desc x) @
     opt_raw ''parameters'' (td_params x) @ [])"

definition dec_ToolDefinition :: "ToolDefinition decoder" where
  "dec_ToolDefinition = dec_struct
    [(''name'', fld td_name td_name_update dec_string),
     (''description'', fld td_desc td_desc_update dec_string),
     (''parameters'', fld td_params td_params_update dec_raw)]"

interpretation td_codec: codec "(\<lambda>_. True)" enc_ToolDefinition dec_ToolDefinition zero_ToolDefinition
proof (unfold_locales, goal_cases)
  case (1 x)
  then show ?case
    by (cases x) (simp add: enc_ToolDefinition_def dec_ToolDefinition_def zero_ToolDefinition_def wire_simps wire_codecs)
next
  case (2 x)
  then show ?case by (simp add: enc_ToolDefinition_def)
qed

lemmas td_wire [wire_codecs] = td_codec.roundtrip td_codec.slice td_codec.ptr

record Tool =
  tl_type :: "string"
  tl_fn :: "ToolDefinition"

definition zero_Tool :: Tool where
  "zero_Tool =
     \<lparr>tl_type = [], tl_fn = zero_ToolDefinition\<rparr>"

definition enc_Tool :: "Tool \<Rightarrow> json" where
  "enc_Tool x = JObj
    ([(''type'', JStr (tl_type x)),
         (''function'', enc_ToolDefinition (tl_fn x))])"

definition dec_Tool :: "Tool decoder" where
  "dec_Tool = dec_struct
    [(''type'', fld tl_type tl_type_update dec_string),
     (''function'', fld tl_fn tl_fn_update dec_ToolDefinition)]"

interpretation tl_codec: codec "(\<lambda>_. True)" enc_Tool dec_Tool zero_Tool
proof (unfold_locales, goal_cases)
  case (1 x)
  then show ?case
    by (cases x) (simp add: enc_Tool_def dec_Tool_def zero_Tool_def wire_simps wire_codecs)
next
  case (2 x)
  then show ?case by (simp add: enc_Tool_def)
qed

lemmas tl_wire [wire_codecs] = tl_codec.roundtrip tl_codec.slice tl_codec.ptr

record ChatMessage =
  cm_role :: "string"
  cm_content :: "raw"
  cm_call_id :: "string"
  cm_calls :: "ToolCall list"

definition zero_ChatMessage :: ChatMessage where
  "zero_ChatMessage =
     \<lparr>cm_role = [], cm_content = None, cm_call_id = [], cm_calls = []\<rparr>"

definition enc_ChatMessage :: "ChatMessage \<Rightarrow> json" where
  "enc_ChatMessage x = JObj
    ([(''role'', JStr (cm_role x)),
         (''content'', enc_raw (cm_content x))] @
     opt_str ''tool_call_id'' (cm_call_id x) @
     opt_list ''tool_calls'' enc_ToolCall (cm_calls x) @ [])"

definition dec_ChatMessage :: "ChatMessage decoder" where
  "dec_ChatMessage = dec_struct
    [(''role'', fld cm_role cm_role_update dec_string),
     (''content'', fld cm_content cm_content_update dec_raw),
     (''tool_call_id'', fld cm_call_id cm_call_id_update dec_string),
     (''tool_calls'', fld cm_calls cm_calls_update (dec_slice zero_ToolCall dec_ToolCall))]"

definition wf_ChatMessage :: "ChatMessage \<Rightarrow> bool" where
  "wf_ChatMessage x \<longleftrightarrow> cm_content x \<noteq> None"

interpretation cm_codec: codec "wf_ChatMessage" enc_ChatMessage dec_ChatMessage zero_ChatMessage
proof (unfold_locales, goal_cases)
  case (1 x)
  then show ?case
    by (cases x) (simp add: enc_ChatMessage_def dec_ChatMessage_def zero_ChatMessage_def wf_ChatMessage_def wire_simps wire_codecs)
next
  case (2 x)
  then show ?case by (simp add: enc_ChatMessage_def)
qed

lemmas cm_wire [wire_codecs] = cm_codec.roundtrip cm_codec.slice cm_codec.ptr

record Capabilities =
  cap_backend :: "string"
  cap_model :: "string"
  cap_ctx :: "int"
  cap_vram :: "number"
  cap_params :: "string"
  cap_slots :: "int"
  cap_caps :: "string list"

definition zero_Capabilities :: Capabilities where
  "zero_Capabilities =
     \<lparr>cap_backend = [], cap_model = [], cap_ctx = 0, cap_vram = NInt 0, cap_params = [], cap_slots = 0, cap_caps = []\<rparr>"

definition enc_Capabilities :: "Capabilities \<Rightarrow> json" where
  "enc_Capabilities x = JObj
    ([(''backend'', JStr (cap_backend x)),
         (''model'', JStr (cap_model x)),
         (''ctx_size'', JNum (NInt (cap_ctx x)))] @
     opt_float ''vram_gb'' (cap_vram x) @
     opt_str ''parameters'' (cap_params x) @
     opt_int ''total_slots'' (cap_slots x) @
     opt_list ''model_capabilities'' JStr (cap_caps x) @ [])"

definition dec_Capabilities :: "Capabilities decoder" where
  "dec_Capabilities = dec_struct
    [(''backend'', fld cap_backend cap_backend_update dec_string),
     (''model'', fld cap_model cap_model_update dec_string),
     (''ctx_size'', fld cap_ctx cap_ctx_update dec_int),
     (''vram_gb'', fld cap_vram cap_vram_update dec_float),
     (''parameters'', fld cap_params cap_params_update dec_string),
     (''total_slots'', fld cap_slots cap_slots_update dec_int),
     (''model_capabilities'', fld cap_caps cap_caps_update (dec_slice [] dec_string))]"

definition wf_Capabilities :: "Capabilities \<Rightarrow> bool" where
  "wf_Capabilities x \<longleftrightarrow> in_int64 (cap_ctx x) \<and>
     in_int64 (cap_slots x)"

interpretation cap_codec: codec "wf_Capabilities" enc_Capabilities dec_Capabilities zero_Capabilities
proof (unfold_locales, goal_cases)
  case (1 x)
  then show ?case
    by (cases x) (simp add: enc_Capabilities_def dec_Capabilities_def zero_Capabilities_def wf_Capabilities_def wire_simps wire_codecs)
next
  case (2 x)
  then show ?case by (simp add: enc_Capabilities_def)
qed

lemmas cap_wire [wire_codecs] = cap_codec.roundtrip cap_codec.slice cap_codec.ptr

record ToolsCapabilities =
  tcap_tools :: "string list"

definition zero_ToolsCapabilities :: ToolsCapabilities where
  "zero_ToolsCapabilities =
     \<lparr>tcap_tools = []\<rparr>"

definition enc_ToolsCapabilities :: "ToolsCapabilities \<Rightarrow> json" where
  "enc_ToolsCapabilities x = JObj
    ([(''tools'', enc_strs (tcap_tools x))])"

definition dec_ToolsCapabilities :: "ToolsCapabilities decoder" where
  "dec_ToolsCapabilities = dec_struct
    [(''tools'', fld tcap_tools tcap_tools_update (dec_slice [] dec_string))]"

interpretation tcap_codec: codec "(\<lambda>_. True)" enc_ToolsCapabilities dec_ToolsCapabilities zero_ToolsCapabilities
proof (unfold_locales, goal_cases)
  case (1 x)
  then show ?case
    by (cases x) (simp add: enc_ToolsCapabilities_def dec_ToolsCapabilities_def zero_ToolsCapabilities_def wire_simps wire_codecs)
next
  case (2 x)
  then show ?case by (simp add: enc_ToolsCapabilities_def)
qed

lemmas tcap_wire [wire_codecs] = tcap_codec.roundtrip tcap_codec.slice tcap_codec.ptr

record HelloMessage =
  hm_type :: "string"
  hm_key :: "string"
  hm_worker :: "string"
  hm_caps :: "Capabilities"
  hm_tools :: "ToolsCapabilities option"

definition zero_HelloMessage :: HelloMessage where
  "zero_HelloMessage =
     \<lparr>hm_type = [], hm_key = [], hm_worker = [], hm_caps = zero_Capabilities, hm_tools = None\<rparr>"

definition enc_HelloMessage :: "HelloMessage \<Rightarrow> json" where
  "enc_HelloMessage x = JObj
    ([(''type'', JStr (hm_type x)),
         (''gpu_key'', JStr (hm_key x))] @
     opt_str ''worker_type'' (hm_worker x) @
     [(''capabilities'', enc_Capabilities (hm_caps x))] @
     opt_ptr ''tools_capabilities'' enc_ToolsCapabilities (hm_tools x) @ [])"

definition dec_HelloMessage :: "HelloMessage decoder" where
  "dec_HelloMessage = dec_struct
    [(''type'', fld hm_type hm_type_update dec_string),
     (''gpu_key'', fld hm_key hm_key_update dec_string),
     (''worker_type'', fld hm_worker hm_worker_update dec_string),
     (''capabilities'', fld hm_caps hm_caps_update dec_Capabilities),
     (''tools_capabilities'', fld hm_tools hm_tools_update (dec_ptr zero_ToolsCapabilities dec_ToolsCapabilities))]"

definition wf_HelloMessage :: "HelloMessage \<Rightarrow> bool" where
  "wf_HelloMessage x \<longleftrightarrow> wf_Capabilities (hm_caps x)"

interpretation hm_codec: codec "wf_HelloMessage" enc_HelloMessage dec_HelloMessage zero_HelloMessage
proof (unfold_locales, goal_cases)
  case (1 x)
  then show ?case
    by (cases x; cases "hm_tools x") (simp_all add: enc_HelloMessage_def dec_HelloMessage_def zero_HelloMessage_def wf_HelloMessage_def wire_simps wire_codecs)
next
  case (2 x)
  then show ?case by (simp add: enc_HelloMessage_def)
qed

lemmas hm_wire [wire_codecs] = hm_codec.roundtrip hm_codec.slice hm_codec.ptr

record ConfigMessage =
  cfgm_type :: "string"
  cfgm_caps :: "Capabilities"

definition zero_ConfigMessage :: ConfigMessage where
  "zero_ConfigMessage =
     \<lparr>cfgm_type = [], cfgm_caps = zero_Capabilities\<rparr>"

definition enc_ConfigMessage :: "ConfigMessage \<Rightarrow> json" where
  "enc_ConfigMessage x = JObj
    ([(''type'', JStr (cfgm_type x)),
         (''capabilities'', enc_Capabilities (cfgm_caps x))])"

definition dec_ConfigMessage :: "ConfigMessage decoder" where
  "dec_ConfigMessage = dec_struct
    [(''type'', fld cfgm_type cfgm_type_update dec_string),
     (''capabilities'', fld cfgm_caps cfgm_caps_update dec_Capabilities)]"

definition wf_ConfigMessage :: "ConfigMessage \<Rightarrow> bool" where
  "wf_ConfigMessage x \<longleftrightarrow> wf_Capabilities (cfgm_caps x)"

interpretation cfgm_codec: codec "wf_ConfigMessage" enc_ConfigMessage dec_ConfigMessage zero_ConfigMessage
proof (unfold_locales, goal_cases)
  case (1 x)
  then show ?case
    by (cases x) (simp add: enc_ConfigMessage_def dec_ConfigMessage_def zero_ConfigMessage_def wf_ConfigMessage_def wire_simps wire_codecs)
next
  case (2 x)
  then show ?case by (simp add: enc_ConfigMessage_def)
qed

lemmas cfgm_wire [wire_codecs] = cfgm_codec.roundtrip cfgm_codec.slice cfgm_codec.ptr

record TokenMessage =
  tm_type :: "string"
  tm_job :: "string"
  tm_token :: "string"
  tm_reasoning :: "bool"

definition zero_TokenMessage :: TokenMessage where
  "zero_TokenMessage =
     \<lparr>tm_type = [], tm_job = [], tm_token = [], tm_reasoning = False\<rparr>"

definition enc_TokenMessage :: "TokenMessage \<Rightarrow> json" where
  "enc_TokenMessage x = JObj
    ([(''type'', JStr (tm_type x)),
         (''job_id'', JStr (tm_job x)),
         (''token'', JStr (tm_token x))] @
     opt_bool ''reasoning'' (tm_reasoning x) @ [])"

definition dec_TokenMessage :: "TokenMessage decoder" where
  "dec_TokenMessage = dec_struct
    [(''type'', fld tm_type tm_type_update dec_string),
     (''job_id'', fld tm_job tm_job_update dec_string),
     (''token'', fld tm_token tm_token_update dec_string),
     (''reasoning'', fld tm_reasoning tm_reasoning_update dec_bool)]"

interpretation tm_codec: codec "(\<lambda>_. True)" enc_TokenMessage dec_TokenMessage zero_TokenMessage
proof (unfold_locales, goal_cases)
  case (1 x)
  then show ?case
    by (cases x) (simp add: enc_TokenMessage_def dec_TokenMessage_def zero_TokenMessage_def wire_simps wire_codecs)
next
  case (2 x)
  then show ?case by (simp add: enc_TokenMessage_def)
qed

lemmas tm_wire [wire_codecs] = tm_codec.roundtrip tm_codec.slice tm_codec.ptr

record ToolGeneratingMessage =
  tgm_type :: "string"
  tgm_job :: "string"

definition zero_ToolGeneratingMessage :: ToolGeneratingMessage where
  "zero_ToolGeneratingMessage =
     \<lparr>tgm_type = [], tgm_job = []\<rparr>"

definition enc_ToolGeneratingMessage :: "ToolGeneratingMessage \<Rightarrow> json" where
  "enc_ToolGeneratingMessage x = JObj
    ([(''type'', JStr (tgm_type x)),
         (''job_id'', JStr (tgm_job x))])"

definition dec_ToolGeneratingMessage :: "ToolGeneratingMessage decoder" where
  "dec_ToolGeneratingMessage = dec_struct
    [(''type'', fld tgm_type tgm_type_update dec_string),
     (''job_id'', fld tgm_job tgm_job_update dec_string)]"

interpretation tgm_codec: codec "(\<lambda>_. True)" enc_ToolGeneratingMessage dec_ToolGeneratingMessage zero_ToolGeneratingMessage
proof (unfold_locales, goal_cases)
  case (1 x)
  then show ?case
    by (cases x) (simp add: enc_ToolGeneratingMessage_def dec_ToolGeneratingMessage_def zero_ToolGeneratingMessage_def wire_simps wire_codecs)
next
  case (2 x)
  then show ?case by (simp add: enc_ToolGeneratingMessage_def)
qed

lemmas tgm_wire [wire_codecs] = tgm_codec.roundtrip tgm_codec.slice tgm_codec.ptr

record PromptProgressMessage =
  ppm_type :: "string"
  ppm_job :: "string"
  ppm_total :: "int"
  ppm_cached :: "int"
  ppm_processed :: "int"

definition zero_PromptProgressMessage :: PromptProgressMessage where
  "zero_PromptProgressMessage =
     \<lparr>ppm_type = [], ppm_job = [], ppm_total = 0, ppm_cached = 0, ppm_processed = 0\<rparr>"

definition enc_PromptProgressMessage :: "PromptProgressMessage \<Rightarrow> json" where
  "enc_PromptProgressMessage x = JObj
    ([(''type'', JStr (ppm_type x)),
         (''job_id'', JStr (ppm_job x)),
         (''total'', JNum (NInt (ppm_total x))),
         (''cached'', JNum (NInt (ppm_cached x))),
         (''processed'', JNum (NInt (ppm_processed x)))])"

definition dec_PromptProgressMessage :: "PromptProgressMessage decoder" where
  "dec_PromptProgressMessage = dec_struct
    [(''type'', fld ppm_type ppm_type_update dec_string),
     (''job_id'', fld ppm_job ppm_job_update dec_string),
     (''total'', fld ppm_total ppm_total_update dec_int),
     (''cached'', fld ppm_cached ppm_cached_update dec_int),
     (''processed'', fld ppm_processed ppm_processed_update dec_int)]"

definition wf_PromptProgressMessage :: "PromptProgressMessage \<Rightarrow> bool" where
  "wf_PromptProgressMessage x \<longleftrightarrow> in_int64 (ppm_total x) \<and>
     in_int64 (ppm_cached x) \<and>
     in_int64 (ppm_processed x)"

interpretation ppm_codec: codec "wf_PromptProgressMessage" enc_PromptProgressMessage dec_PromptProgressMessage zero_PromptProgressMessage
proof (unfold_locales, goal_cases)
  case (1 x)
  then show ?case
    by (cases x) (simp add: enc_PromptProgressMessage_def dec_PromptProgressMessage_def zero_PromptProgressMessage_def wf_PromptProgressMessage_def wire_simps wire_codecs)
next
  case (2 x)
  then show ?case by (simp add: enc_PromptProgressMessage_def)
qed

lemmas ppm_wire [wire_codecs] = ppm_codec.roundtrip ppm_codec.slice ppm_codec.ptr

record BuiltinToolMessage =
  btm_type :: "string"
  btm_job :: "string"
  btm_id :: "string"
  btm_name :: "string"
  btm_args :: "string"
  btm_result :: "string"

definition zero_BuiltinToolMessage :: BuiltinToolMessage where
  "zero_BuiltinToolMessage =
     \<lparr>btm_type = [], btm_job = [], btm_id = [], btm_name = [], btm_args = [], btm_result = []\<rparr>"

definition enc_BuiltinToolMessage :: "BuiltinToolMessage \<Rightarrow> json" where
  "enc_BuiltinToolMessage x = JObj
    ([(''type'', JStr (btm_type x)),
         (''job_id'', JStr (btm_job x)),
         (''id'', JStr (btm_id x)),
         (''name'', JStr (btm_name x)),
         (''arguments'', JStr (btm_args x)),
         (''result'', JStr (btm_result x))])"

definition dec_BuiltinToolMessage :: "BuiltinToolMessage decoder" where
  "dec_BuiltinToolMessage = dec_struct
    [(''type'', fld btm_type btm_type_update dec_string),
     (''job_id'', fld btm_job btm_job_update dec_string),
     (''id'', fld btm_id btm_id_update dec_string),
     (''name'', fld btm_name btm_name_update dec_string),
     (''arguments'', fld btm_args btm_args_update dec_string),
     (''result'', fld btm_result btm_result_update dec_string)]"

interpretation btm_codec: codec "(\<lambda>_. True)" enc_BuiltinToolMessage dec_BuiltinToolMessage zero_BuiltinToolMessage
proof (unfold_locales, goal_cases)
  case (1 x)
  then show ?case
    by (cases x) (simp add: enc_BuiltinToolMessage_def dec_BuiltinToolMessage_def zero_BuiltinToolMessage_def wire_simps wire_codecs)
next
  case (2 x)
  then show ?case by (simp add: enc_BuiltinToolMessage_def)
qed

lemmas btm_wire [wire_codecs] = btm_codec.roundtrip btm_codec.slice btm_codec.ptr

record BuiltinToolUse =
  btu_id :: "string"
  btu_name :: "string"
  btu_args :: "string"
  btu_result :: "string"

definition zero_BuiltinToolUse :: BuiltinToolUse where
  "zero_BuiltinToolUse =
     \<lparr>btu_id = [], btu_name = [], btu_args = [], btu_result = []\<rparr>"

definition enc_BuiltinToolUse :: "BuiltinToolUse \<Rightarrow> json" where
  "enc_BuiltinToolUse x = JObj
    ([(''id'', JStr (btu_id x)),
         (''name'', JStr (btu_name x)),
         (''arguments'', JStr (btu_args x))] @
     opt_str ''result'' (btu_result x) @ [])"

definition dec_BuiltinToolUse :: "BuiltinToolUse decoder" where
  "dec_BuiltinToolUse = dec_struct
    [(''id'', fld btu_id btu_id_update dec_string),
     (''name'', fld btu_name btu_name_update dec_string),
     (''arguments'', fld btu_args btu_args_update dec_string),
     (''result'', fld btu_result btu_result_update dec_string)]"

interpretation btu_codec: codec "(\<lambda>_. True)" enc_BuiltinToolUse dec_BuiltinToolUse zero_BuiltinToolUse
proof (unfold_locales, goal_cases)
  case (1 x)
  then show ?case
    by (cases x) (simp add: enc_BuiltinToolUse_def dec_BuiltinToolUse_def zero_BuiltinToolUse_def wire_simps wire_codecs)
next
  case (2 x)
  then show ?case by (simp add: enc_BuiltinToolUse_def)
qed

lemmas btu_wire [wire_codecs] = btu_codec.roundtrip btu_codec.slice btu_codec.ptr

record FileAttachment =
  fa_name :: "string"
  fa_mime :: "string"
  fa_data :: "string"

definition zero_FileAttachment :: FileAttachment where
  "zero_FileAttachment =
     \<lparr>fa_name = [], fa_mime = [], fa_data = []\<rparr>"

definition enc_FileAttachment :: "FileAttachment \<Rightarrow> json" where
  "enc_FileAttachment x = JObj
    ([(''name'', JStr (fa_name x))] @
     opt_str ''mime_type'' (fa_mime x) @
     [(''data'', JStr (fa_data x))])"

definition dec_FileAttachment :: "FileAttachment decoder" where
  "dec_FileAttachment = dec_struct
    [(''name'', fld fa_name fa_name_update dec_string),
     (''mime_type'', fld fa_mime fa_mime_update dec_string),
     (''data'', fld fa_data fa_data_update dec_string)]"

interpretation fa_codec: codec "(\<lambda>_. True)" enc_FileAttachment dec_FileAttachment zero_FileAttachment
proof (unfold_locales, goal_cases)
  case (1 x)
  then show ?case
    by (cases x) (simp add: enc_FileAttachment_def dec_FileAttachment_def zero_FileAttachment_def wire_simps wire_codecs)
next
  case (2 x)
  then show ?case by (simp add: enc_FileAttachment_def)
qed

lemmas fa_wire [wire_codecs] = fa_codec.roundtrip fa_codec.slice fa_codec.ptr

record CompleteMessage =
  com_type :: "string"
  com_job :: "string"
  com_full :: "string"
  com_post :: "string"
  com_reasoning :: "string"
  com_duration :: "int"
  com_cache :: "int"
  com_input :: "int"
  com_output :: "int"
  com_rtokens :: "int"
  com_calls :: "ToolCall list"
  com_builtins :: "BuiltinToolUse list"
  com_files :: "FileAttachment list"
  com_cost :: "number"
  com_session :: "string"
  com_rl_status :: "string"
  com_rl_resets :: "int"
  com_rl_type :: "string"

definition zero_CompleteMessage :: CompleteMessage where
  "zero_CompleteMessage =
     \<lparr>com_type = [], com_job = [], com_full = [], com_post = [], com_reasoning = [], com_duration = 0, com_cache = 0, com_input = 0, com_output = 0, com_rtokens = 0, com_calls = [], com_builtins = [], com_files = [], com_cost = NInt 0, com_session = [], com_rl_status = [], com_rl_resets = 0, com_rl_type = []\<rparr>"

definition enc_CompleteMessage :: "CompleteMessage \<Rightarrow> json" where
  "enc_CompleteMessage x = JObj
    ([(''type'', JStr (com_type x)),
         (''job_id'', JStr (com_job x)),
         (''full_response'', JStr (com_full x))] @
     opt_str ''post_tool_content'' (com_post x) @
     opt_str ''reasoning_content'' (com_reasoning x) @
     opt_int ''duration_ms'' (com_duration x) @
     opt_int ''cache_tokens'' (com_cache x) @
     opt_int ''input_tokens'' (com_input x) @
     opt_int ''output_tokens'' (com_output x) @
     opt_int ''reasoning_tokens'' (com_rtokens x) @
     opt_list ''tool_calls'' enc_ToolCall (com_calls x) @
     opt_list ''builtin_tool_uses'' enc_BuiltinToolUse (com_builtins x) @
     opt_list ''attachments'' enc_FileAttachment (com_files x) @
     opt_float ''total_cost_usd'' (com_cost x) @
     opt_str ''provider_session_id'' (com_session x) @
     opt_str ''rate_limit_status'' (com_rl_status x) @
     opt_int ''rate_limit_resets_at'' (com_rl_resets x) @
     opt_str ''rate_limit_type'' (com_rl_type x) @ [])"

definition dec_CompleteMessage :: "CompleteMessage decoder" where
  "dec_CompleteMessage = dec_struct
    [(''type'', fld com_type com_type_update dec_string),
     (''job_id'', fld com_job com_job_update dec_string),
     (''full_response'', fld com_full com_full_update dec_string),
     (''post_tool_content'', fld com_post com_post_update dec_string),
     (''reasoning_content'', fld com_reasoning com_reasoning_update dec_string),
     (''duration_ms'', fld com_duration com_duration_update dec_int),
     (''cache_tokens'', fld com_cache com_cache_update dec_int),
     (''input_tokens'', fld com_input com_input_update dec_int),
     (''output_tokens'', fld com_output com_output_update dec_int),
     (''reasoning_tokens'', fld com_rtokens com_rtokens_update dec_int),
     (''tool_calls'', fld com_calls com_calls_update (dec_slice zero_ToolCall dec_ToolCall)),
     (''builtin_tool_uses'', fld com_builtins com_builtins_update (dec_slice zero_BuiltinToolUse dec_BuiltinToolUse)),
     (''attachments'', fld com_files com_files_update (dec_slice zero_FileAttachment dec_FileAttachment)),
     (''total_cost_usd'', fld com_cost com_cost_update dec_float),
     (''provider_session_id'', fld com_session com_session_update dec_string),
     (''rate_limit_status'', fld com_rl_status com_rl_status_update dec_string),
     (''rate_limit_resets_at'', fld com_rl_resets com_rl_resets_update dec_int),
     (''rate_limit_type'', fld com_rl_type com_rl_type_update dec_string)]"

definition wf_CompleteMessage :: "CompleteMessage \<Rightarrow> bool" where
  "wf_CompleteMessage x \<longleftrightarrow> in_int64 (com_duration x) \<and>
     in_int64 (com_cache x) \<and>
     in_int64 (com_input x) \<and>
     in_int64 (com_output x) \<and>
     in_int64 (com_rtokens x) \<and>
     in_int64 (com_rl_resets x)"

interpretation com_codec: codec "wf_CompleteMessage" enc_CompleteMessage dec_CompleteMessage zero_CompleteMessage
proof (unfold_locales, goal_cases)
  case (1 x)
  then show ?case
    by (cases x) (simp add: enc_CompleteMessage_def dec_CompleteMessage_def zero_CompleteMessage_def wf_CompleteMessage_def wire_simps wire_codecs)
next
  case (2 x)
  then show ?case by (simp add: enc_CompleteMessage_def)
qed

lemmas com_wire [wire_codecs] = com_codec.roundtrip com_codec.slice com_codec.ptr

record ErrorMessage =
  em_type :: "string"
  em_job :: "string"
  em_error :: "string"
  em_details :: "string"

definition zero_ErrorMessage :: ErrorMessage where
  "zero_ErrorMessage =
     \<lparr>em_type = [], em_job = [], em_error = [], em_details = []\<rparr>"

definition enc_ErrorMessage :: "ErrorMessage \<Rightarrow> json" where
  "enc_ErrorMessage x = JObj
    ([(''type'', JStr (em_type x))] @
     opt_str ''job_id'' (em_job x) @
     [(''error'', JStr (em_error x))] @
     opt_str ''details'' (em_details x) @ [])"

definition dec_ErrorMessage :: "ErrorMessage decoder" where
  "dec_ErrorMessage = dec_struct
    [(''type'', fld em_type em_type_update dec_string),
     (''job_id'', fld em_job em_job_update dec_string),
     (''error'', fld em_error em_error_update dec_string),
     (''details'', fld em_details em_details_update dec_string)]"

interpretation em_codec: codec "(\<lambda>_. True)" enc_ErrorMessage dec_ErrorMessage zero_ErrorMessage
proof (unfold_locales, goal_cases)
  case (1 x)
  then show ?case
    by (cases x) (simp add: enc_ErrorMessage_def dec_ErrorMessage_def zero_ErrorMessage_def wire_simps wire_codecs)
next
  case (2 x)
  then show ?case by (simp add: enc_ErrorMessage_def)
qed

lemmas em_wire [wire_codecs] = em_codec.roundtrip em_codec.slice em_codec.ptr

record OverloadMessage =
  om_type :: "string"
  om_job :: "string"
  om_retry :: "int"
  om_rl_status :: "string"
  om_rl_resets :: "int"
  om_rl_type :: "string"

definition zero_OverloadMessage :: OverloadMessage where
  "zero_OverloadMessage =
     \<lparr>om_type = [], om_job = [], om_retry = 0, om_rl_status = [], om_rl_resets = 0, om_rl_type = []\<rparr>"

definition enc_OverloadMessage :: "OverloadMessage \<Rightarrow> json" where
  "enc_OverloadMessage x = JObj
    ([(''type'', JStr (om_type x)),
         (''job_id'', JStr (om_job x))] @
     opt_int ''retry_after_secs'' (om_retry x) @
     opt_str ''rate_limit_status'' (om_rl_status x) @
     opt_int ''rate_limit_resets_at'' (om_rl_resets x) @
     opt_str ''rate_limit_type'' (om_rl_type x) @ [])"

definition dec_OverloadMessage :: "OverloadMessage decoder" where
  "dec_OverloadMessage = dec_struct
    [(''type'', fld om_type om_type_update dec_string),
     (''job_id'', fld om_job om_job_update dec_string),
     (''retry_after_secs'', fld om_retry om_retry_update dec_int),
     (''rate_limit_status'', fld om_rl_status om_rl_status_update dec_string),
     (''rate_limit_resets_at'', fld om_rl_resets om_rl_resets_update dec_int),
     (''rate_limit_type'', fld om_rl_type om_rl_type_update dec_string)]"

definition wf_OverloadMessage :: "OverloadMessage \<Rightarrow> bool" where
  "wf_OverloadMessage x \<longleftrightarrow> in_int64 (om_retry x) \<and>
     in_int64 (om_rl_resets x)"

interpretation om_codec: codec "wf_OverloadMessage" enc_OverloadMessage dec_OverloadMessage zero_OverloadMessage
proof (unfold_locales, goal_cases)
  case (1 x)
  then show ?case
    by (cases x) (simp add: enc_OverloadMessage_def dec_OverloadMessage_def zero_OverloadMessage_def wf_OverloadMessage_def wire_simps wire_codecs)
next
  case (2 x)
  then show ?case by (simp add: enc_OverloadMessage_def)
qed

lemmas om_wire [wire_codecs] = om_codec.roundtrip om_codec.slice om_codec.ptr

record Policy =
  pol_worker :: "string"
  pol_cli :: "string"
  pol_builtins :: "string list"
  pol_model :: "string"
  pol_quant :: "string"
  pol_ctx :: "int"
  pol_par :: "int"
  pol_params :: "string"
  pol_family :: "string"
  pol_caps :: "string list"

definition zero_Policy :: Policy where
  "zero_Policy =
     \<lparr>pol_worker = [], pol_cli = [], pol_builtins = [], pol_model = [], pol_quant = [], pol_ctx = 0, pol_par = 0, pol_params = [], pol_family = [], pol_caps = []\<rparr>"

definition enc_Policy :: "Policy \<Rightarrow> json" where
  "enc_Policy x = JObj
    (opt_str ''worker_type'' (pol_worker x) @
     opt_str ''cli_type'' (pol_cli x) @
     opt_list ''builtin_tools'' JStr (pol_builtins x) @
     [(''model_name'', JStr (pol_model x)),
         (''quantization'', JStr (pol_quant x)),
         (''context_size'', JNum (NInt (pol_ctx x))),
         (''max_parallelism'', JNum (NInt (pol_par x)))] @
     opt_str ''parameters'' (pol_params x) @
     opt_str ''family'' (pol_family x) @
     [(''capabilities'', enc_strs (pol_caps x))])"

definition dec_Policy :: "Policy decoder" where
  "dec_Policy = dec_struct
    [(''worker_type'', fld pol_worker pol_worker_update dec_string),
     (''cli_type'', fld pol_cli pol_cli_update dec_string),
     (''builtin_tools'', fld pol_builtins pol_builtins_update (dec_slice [] dec_string)),
     (''model_name'', fld pol_model pol_model_update dec_string),
     (''quantization'', fld pol_quant pol_quant_update dec_string),
     (''context_size'', fld pol_ctx pol_ctx_update dec_int),
     (''max_parallelism'', fld pol_par pol_par_update dec_int),
     (''parameters'', fld pol_params pol_params_update dec_string),
     (''family'', fld pol_family pol_family_update dec_string),
     (''capabilities'', fld pol_caps pol_caps_update (dec_slice [] dec_string))]"

definition wf_Policy :: "Policy \<Rightarrow> bool" where
  "wf_Policy x \<longleftrightarrow> in_int64 (pol_ctx x) \<and>
     in_int64 (pol_par x)"

interpretation pol_codec: codec "wf_Policy" enc_Policy dec_Policy zero_Policy
proof (unfold_locales, goal_cases)
  case (1 x)
  then show ?case
    by (cases x) (simp add: enc_Policy_def dec_Policy_def zero_Policy_def wf_Policy_def wire_simps wire_codecs)
next
  case (2 x)
  then show ?case by (simp add: enc_Policy_def)
qed

lemmas pol_wire [wire_codecs] = pol_codec.roundtrip pol_codec.slice pol_codec.ptr

record McpHttpHeader =
  mhh_name :: "string"
  mhh_prefix :: "string"
  mhh_source :: "string"
  mhh_oauth :: "string"
  mhh_cred :: "string"
  mhh_secret :: "string"
  mhh_static :: "string"

definition zero_McpHttpHeader :: McpHttpHeader where
  "zero_McpHttpHeader =
     \<lparr>mhh_name = [], mhh_prefix = [], mhh_source = [], mhh_oauth = [], mhh_cred = [], mhh_secret = [], mhh_static = []\<rparr>"

definition enc_McpHttpHeader :: "McpHttpHeader \<Rightarrow> json" where
  "enc_McpHttpHeader x = JObj
    ([(''header_name'', JStr (mhh_name x))] @
     opt_str ''value_prefix'' (mhh_prefix x) @
     [(''source'', JStr (mhh_source x))] @
     opt_str ''oauth_provider'' (mhh_oauth x) @
     opt_str ''credential_id'' (mhh_cred x) @
     opt_str ''secret_name'' (mhh_secret x) @
     opt_str ''static_value'' (mhh_static x) @ [])"

definition dec_McpHttpHeader :: "McpHttpHeader decoder" where
  "dec_McpHttpHeader = dec_struct
    [(''header_name'', fld mhh_name mhh_name_update dec_string),
     (''value_prefix'', fld mhh_prefix mhh_prefix_update dec_string),
     (''source'', fld mhh_source mhh_source_update dec_string),
     (''oauth_provider'', fld mhh_oauth mhh_oauth_update dec_string),
     (''credential_id'', fld mhh_cred mhh_cred_update dec_string),
     (''secret_name'', fld mhh_secret mhh_secret_update dec_string),
     (''static_value'', fld mhh_static mhh_static_update dec_string)]"

interpretation mhh_codec: codec "(\<lambda>_. True)" enc_McpHttpHeader dec_McpHttpHeader zero_McpHttpHeader
proof (unfold_locales, goal_cases)
  case (1 x)
  then show ?case
    by (cases x) (simp add: enc_McpHttpHeader_def dec_McpHttpHeader_def zero_McpHttpHeader_def wire_simps wire_codecs)
next
  case (2 x)
  then show ?case by (simp add: enc_McpHttpHeader_def)
qed

lemmas mhh_wire [wire_codecs] = mhh_codec.roundtrip mhh_codec.slice mhh_codec.ptr

record McpServerConfig =
  msc_id :: "string"
  msc_pkg :: "string"
  msc_version :: "string"
  msc_url :: "string"
  msc_transport :: "string"
  msc_headers :: "McpHttpHeader list"
  msc_resolved :: "string gomap"

definition zero_McpServerConfig :: McpServerConfig where
  "zero_McpServerConfig =
     \<lparr>msc_id = [], msc_pkg = [], msc_version = [], msc_url = [], msc_transport = [], msc_headers = [], msc_resolved = []\<rparr>"

definition enc_McpServerConfig :: "McpServerConfig \<Rightarrow> json" where
  "enc_McpServerConfig x = JObj
    (opt_str ''id'' (msc_id x) @
     opt_str ''package'' (msc_pkg x) @
     opt_str ''version'' (msc_version x) @
     opt_str ''url'' (msc_url x) @
     opt_str ''transport'' (msc_transport x) @
     opt_list ''headers'' enc_McpHttpHeader (msc_headers x) @
     opt_map ''resolved_headers'' JStr (msc_resolved x) @ [])"

definition dec_McpServerConfig :: "McpServerConfig decoder" where
  "dec_McpServerConfig = dec_struct
    [(''id'', fld msc_id msc_id_update dec_string),
     (''package'', fld msc_pkg msc_pkg_update dec_string),
     (''version'', fld msc_version msc_version_update dec_string),
     (''url'', fld msc_url msc_url_update dec_string),
     (''transport'', fld msc_transport msc_transport_update dec_string),
     (''headers'', fld msc_headers msc_headers_update (dec_slice zero_McpHttpHeader dec_McpHttpHeader)),
     (''resolved_headers'', fld msc_resolved msc_resolved_update (dec_map [] dec_string))]"

definition wf_McpServerConfig :: "McpServerConfig \<Rightarrow> bool" where
  "wf_McpServerConfig x \<longleftrightarrow> sorted_map (msc_resolved x)"

interpretation msc_codec: codec "wf_McpServerConfig" enc_McpServerConfig dec_McpServerConfig zero_McpServerConfig
proof (unfold_locales, goal_cases)
  case (1 x)
  then show ?case
    by (cases x) (simp add: enc_McpServerConfig_def dec_McpServerConfig_def zero_McpServerConfig_def wf_McpServerConfig_def wire_simps wire_codecs)
next
  case (2 x)
  then show ?case by (simp add: enc_McpServerConfig_def)
qed

lemmas msc_wire [wire_codecs] = msc_codec.roundtrip msc_codec.slice msc_codec.ptr

record ToolsPolicy =
  tpol_allowed :: "string list"
  tpol_servers :: "McpServerConfig list"

definition zero_ToolsPolicy :: ToolsPolicy where
  "zero_ToolsPolicy =
     \<lparr>tpol_allowed = [], tpol_servers = []\<rparr>"

definition enc_ToolsPolicy :: "ToolsPolicy \<Rightarrow> json" where
  "enc_ToolsPolicy x = JObj
    ([(''allowed_tools'', enc_strs (tpol_allowed x)),
         (''mcp_servers'', JArr (map enc_McpServerConfig (tpol_servers x)))])"

definition dec_ToolsPolicy :: "ToolsPolicy decoder" where
  "dec_ToolsPolicy = dec_struct
    [(''allowed_tools'', fld tpol_allowed tpol_allowed_update (dec_slice [] dec_string)),
     (''mcp_servers'', fld tpol_servers tpol_servers_update (dec_slice zero_McpServerConfig dec_McpServerConfig))]"

definition wf_ToolsPolicy :: "ToolsPolicy \<Rightarrow> bool" where
  "wf_ToolsPolicy x \<longleftrightarrow> list_all wf_McpServerConfig (tpol_servers x)"

interpretation tpol_codec: codec "wf_ToolsPolicy" enc_ToolsPolicy dec_ToolsPolicy zero_ToolsPolicy
proof (unfold_locales, goal_cases)
  case (1 x)
  then show ?case
    by (cases x) (simp add: enc_ToolsPolicy_def dec_ToolsPolicy_def zero_ToolsPolicy_def wf_ToolsPolicy_def wire_simps wire_codecs)
next
  case (2 x)
  then show ?case by (simp add: enc_ToolsPolicy_def)
qed

lemmas tpol_wire [wire_codecs] = tpol_codec.roundtrip tpol_codec.slice tpol_codec.ptr

record HelloAckMessage =
  ham_type :: "string"
  ham_success :: "bool"
  ham_gpu :: "string"
  ham_policy :: "Policy option"
  ham_tools :: "ToolsPolicy option"
  ham_error :: "string"
  ham_reconnect :: "int"

definition zero_HelloAckMessage :: HelloAckMessage where
  "zero_HelloAckMessage =
     \<lparr>ham_type = [], ham_success = False, ham_gpu = [], ham_policy = None, ham_tools = None, ham_error = [], ham_reconnect = 0\<rparr>"

definition enc_HelloAckMessage :: "HelloAckMessage \<Rightarrow> json" where
  "enc_HelloAckMessage x = JObj
    ([(''type'', JStr (ham_type x)),
         (''success'', JBool (ham_success x))] @
     opt_str ''gpu_id'' (ham_gpu x) @
     opt_ptr ''policy'' enc_Policy (ham_policy x) @
     opt_ptr ''tools_policy'' enc_ToolsPolicy (ham_tools x) @
     opt_str ''error'' (ham_error x) @
     opt_int ''reconnectInSeconds'' (ham_reconnect x) @ [])"

definition dec_HelloAckMessage :: "HelloAckMessage decoder" where
  "dec_HelloAckMessage = dec_struct
    [(''type'', fld ham_type ham_type_update dec_string),
     (''success'', fld ham_success ham_success_update dec_bool),
     (''gpu_id'', fld ham_gpu ham_gpu_update dec_string),
     (''policy'', fld ham_policy ham_policy_update (dec_ptr zero_Policy dec_Policy)),
     (''tools_policy'', fld ham_tools ham_tools_update (dec_ptr zero_ToolsPolicy dec_ToolsPolicy)),
     (''error'', fld ham_error ham_error_update dec_string),
     (''reconnectinseconds'', fld ham_reconnect ham_reconnect_update dec_int)]"

definition wf_HelloAckMessage :: "HelloAckMessage \<Rightarrow> bool" where
  "wf_HelloAckMessage x \<longleftrightarrow> pred_option wf_Policy (ham_policy x) \<and>
     pred_option wf_ToolsPolicy (ham_tools x) \<and>
     in_int64 (ham_reconnect x)"

interpretation ham_codec: codec "wf_HelloAckMessage" enc_HelloAckMessage dec_HelloAckMessage zero_HelloAckMessage
proof (unfold_locales, goal_cases)
  case (1 x)
  then show ?case
    by (cases x; cases "ham_policy x"; cases "ham_tools x") (simp_all add: enc_HelloAckMessage_def dec_HelloAckMessage_def zero_HelloAckMessage_def wf_HelloAckMessage_def wire_simps wire_codecs)
next
  case (2 x)
  then show ?case by (simp add: enc_HelloAckMessage_def)
qed

lemmas ham_wire [wire_codecs] = ham_codec.roundtrip ham_codec.slice ham_codec.ptr

record HeartbeatMessage =
  hbm_type :: "string"

definition zero_HeartbeatMessage :: HeartbeatMessage where
  "zero_HeartbeatMessage =
     \<lparr>hbm_type = []\<rparr>"

definition enc_HeartbeatMessage :: "HeartbeatMessage \<Rightarrow> json" where
  "enc_HeartbeatMessage x = JObj
    ([(''type'', JStr (hbm_type x))])"

definition dec_HeartbeatMessage :: "HeartbeatMessage decoder" where
  "dec_HeartbeatMessage = dec_struct
    [(''type'', fld hbm_type hbm_type_update dec_string)]"

interpretation hbm_codec: codec "(\<lambda>_. True)" enc_HeartbeatMessage dec_HeartbeatMessage zero_HeartbeatMessage
proof (unfold_locales, goal_cases)
  case (1 x)
  then show ?case
    by (cases x) (simp add: enc_HeartbeatMessage_def dec_HeartbeatMessage_def zero_HeartbeatMessage_def wire_simps wire_codecs)
next
  case (2 x)
  then show ?case by (simp add: enc_HeartbeatMessage_def)
qed

lemmas hbm_wire [wire_codecs] = hbm_codec.roundtrip hbm_codec.slice hbm_codec.ptr

record HeartbeatAckMessage =
  hbam_type :: "string"

definition zero_HeartbeatAckMessage :: HeartbeatAckMessage where
  "zero_HeartbeatAckMessage =
     \<lparr>hbam_type = []\<rparr>"

definition enc_HeartbeatAckMessage :: "HeartbeatAckMessage \<Rightarrow> json" where
  "enc_HeartbeatAckMessage x = JObj
    ([(''type'', JStr (hbam_type x))])"

definition dec_HeartbeatAckMessage :: "HeartbeatAckMessage decoder" where
  "dec_HeartbeatAckMessage = dec_struct
    [(''type'', fld hbam_type hbam_type_update dec_string)]"

interpretation hbam_codec: codec "(\<lambda>_. True)" enc_HeartbeatAckMessage dec_HeartbeatAckMessage zero_HeartbeatAckMessage
proof (unfold_locales, goal_cases)
  case (1 x)
  then show ?case
    by (cases x) (simp add: enc_HeartbeatAckMessage_def dec_HeartbeatAckMessage_def zero_HeartbeatAckMessage_def wire_simps wire_codecs)
next
  case (2 x)
  then show ?case by (simp add: enc_HeartbeatAckMessage_def)
qed

lemmas hbam_wire [wire_codecs] = hbam_codec.roundtrip hbam_codec.slice hbam_codec.ptr

record ConfigAckMessage =
  cam_type :: "string"
  cam_success :: "bool"
  cam_error :: "string"

definition zero_ConfigAckMessage :: ConfigAckMessage where
  "zero_ConfigAckMessage =
     \<lparr>cam_type = [], cam_success = False, cam_error = []\<rparr>"

definition enc_ConfigAckMessage :: "ConfigAckMessage \<Rightarrow> json" where
  "enc_ConfigAckMessage x = JObj
    ([(''type'', JStr (cam_type x)),
         (''success'', JBool (cam_success x))] @
     opt_str ''error'' (cam_error x) @ [])"

definition dec_ConfigAckMessage :: "ConfigAckMessage decoder" where
  "dec_ConfigAckMessage = dec_struct
    [(''type'', fld cam_type cam_type_update dec_string),
     (''success'', fld cam_success cam_success_update dec_bool),
     (''error'', fld cam_error cam_error_update dec_string)]"

interpretation cam_codec: codec "(\<lambda>_. True)" enc_ConfigAckMessage dec_ConfigAckMessage zero_ConfigAckMessage
proof (unfold_locales, goal_cases)
  case (1 x)
  then show ?case
    by (cases x) (simp add: enc_ConfigAckMessage_def dec_ConfigAckMessage_def zero_ConfigAckMessage_def wire_simps wire_codecs)
next
  case (2 x)
  then show ?case by (simp add: enc_ConfigAckMessage_def)
qed

lemmas cam_wire [wire_codecs] = cam_codec.roundtrip cam_codec.slice cam_codec.ptr

record JobMessage =
  jm_type :: "string"
  jm_job :: "string"
  jm_ref :: "string"
  jm_model :: "string"
  jm_messages :: "ChatMessage list"
  jm_tools :: "Tool list"
  jm_temp :: "number option"
  jm_max :: "int option"
  jm_effort :: "string"
  jm_data :: "json gomap"
  jm_caller :: "string list"
  jm_compaction :: "string"
  jm_creds :: "string gomap"

definition zero_JobMessage :: JobMessage where
  "zero_JobMessage =
     \<lparr>jm_type = [], jm_job = [], jm_ref = [], jm_model = [], jm_messages = [], jm_tools = [], jm_temp = None, jm_max = None, jm_effort = [], jm_data = [], jm_caller = [], jm_compaction = [], jm_creds = []\<rparr>"

definition enc_JobMessage :: "JobMessage \<Rightarrow> json" where
  "enc_JobMessage x = JObj
    ([(''type'', JStr (jm_type x)),
         (''job_id'', JStr (jm_job x))] @
     opt_str ''reference_id'' (jm_ref x) @
     opt_str ''model'' (jm_model x) @
     [(''messages'', JArr (map enc_ChatMessage (jm_messages x)))] @
     opt_list ''tools'' enc_Tool (jm_tools x) @
     opt_ptr ''temperature'' JNum (jm_temp x) @
     opt_ptr ''max_tokens'' (\<lambda>i. JNum (NInt i)) (jm_max x) @
     opt_str ''reasoning_effort'' (jm_effort x) @
     opt_map ''data'' id (jm_data x) @
     opt_list ''caller_tools'' JStr (jm_caller x) @
     opt_str ''compaction_session_id'' (jm_compaction x) @
     opt_map ''credentials'' JStr (jm_creds x) @ [])"

definition dec_JobMessage :: "JobMessage decoder" where
  "dec_JobMessage = dec_struct
    [(''type'', fld jm_type jm_type_update dec_string),
     (''job_id'', fld jm_job jm_job_update dec_string),
     (''reference_id'', fld jm_ref jm_ref_update dec_string),
     (''model'', fld jm_model jm_model_update dec_string),
     (''messages'', fld jm_messages jm_messages_update (dec_slice zero_ChatMessage dec_ChatMessage)),
     (''tools'', fld jm_tools jm_tools_update (dec_slice zero_Tool dec_Tool)),
     (''temperature'', fld jm_temp jm_temp_update (dec_ptr (NInt 0) dec_float)),
     (''max_tokens'', fld jm_max jm_max_update (dec_ptr 0 dec_int)),
     (''reasoning_effort'', fld jm_effort jm_effort_update dec_string),
     (''data'', fld jm_data jm_data_update (dec_map JNull dec_any)),
     (''caller_tools'', fld jm_caller jm_caller_update (dec_slice [] dec_string)),
     (''compaction_session_id'', fld jm_compaction jm_compaction_update dec_string),
     (''credentials'', fld jm_creds jm_creds_update (dec_map [] dec_string))]"

definition wf_JobMessage :: "JobMessage \<Rightarrow> bool" where
  "wf_JobMessage x \<longleftrightarrow> list_all wf_ChatMessage (jm_messages x) \<and>
     pred_option in_int64 (jm_max x) \<and>
     sorted_map (jm_data x) \<and>
     sorted_map (jm_creds x)"

interpretation jm_codec: codec "wf_JobMessage" enc_JobMessage dec_JobMessage zero_JobMessage
proof (unfold_locales, goal_cases)
  case (1 x)
  then show ?case
    by (cases x; cases "jm_temp x"; cases "jm_max x") (simp_all add: enc_JobMessage_def dec_JobMessage_def zero_JobMessage_def wf_JobMessage_def wire_simps wire_codecs)
next
  case (2 x)
  then show ?case by (simp add: enc_JobMessage_def)
qed

lemmas jm_wire [wire_codecs] = jm_codec.roundtrip jm_codec.slice jm_codec.ptr

record CancelMessage =
  canm_type :: "string"
  canm_job :: "string"

definition zero_CancelMessage :: CancelMessage where
  "zero_CancelMessage =
     \<lparr>canm_type = [], canm_job = []\<rparr>"

definition enc_CancelMessage :: "CancelMessage \<Rightarrow> json" where
  "enc_CancelMessage x = JObj
    ([(''type'', JStr (canm_type x)),
         (''job_id'', JStr (canm_job x))])"

definition dec_CancelMessage :: "CancelMessage decoder" where
  "dec_CancelMessage = dec_struct
    [(''type'', fld canm_type canm_type_update dec_string),
     (''job_id'', fld canm_job canm_job_update dec_string)]"

interpretation canm_codec: codec "(\<lambda>_. True)" enc_CancelMessage dec_CancelMessage zero_CancelMessage
proof (unfold_locales, goal_cases)
  case (1 x)
  then show ?case
    by (cases x) (simp add: enc_CancelMessage_def dec_CancelMessage_def zero_CancelMessage_def wire_simps wire_codecs)
next
  case (2 x)
  then show ?case by (simp add: enc_CancelMessage_def)
qed

lemmas canm_wire [wire_codecs] = canm_codec.roundtrip canm_codec.slice canm_codec.ptr

record PolicyUpdateMessage =
  pum_type :: "string"
  pum_policy :: "Policy option"

definition zero_PolicyUpdateMessage :: PolicyUpdateMessage where
  "zero_PolicyUpdateMessage =
     \<lparr>pum_type = [], pum_policy = None\<rparr>"

definition enc_PolicyUpdateMessage :: "PolicyUpdateMessage \<Rightarrow> json" where
  "enc_PolicyUpdateMessage x = JObj
    ([(''type'', JStr (pum_type x)),
         (''policy'', (case pum_policy x of None \<Rightarrow> JNull | Some p \<Rightarrow> enc_Policy p))])"

definition dec_PolicyUpdateMessage :: "PolicyUpdateMessage decoder" where
  "dec_PolicyUpdateMessage = dec_struct
    [(''type'', fld pum_type pum_type_update dec_string),
     (''policy'', fld pum_policy pum_policy_update (dec_ptr zero_Policy dec_Policy))]"

definition wf_PolicyUpdateMessage :: "PolicyUpdateMessage \<Rightarrow> bool" where
  "wf_PolicyUpdateMessage x \<longleftrightarrow> pred_option wf_Policy (pum_policy x)"

interpretation pum_codec: codec "wf_PolicyUpdateMessage" enc_PolicyUpdateMessage dec_PolicyUpdateMessage zero_PolicyUpdateMessage
proof (unfold_locales, goal_cases)
  case (1 x)
  then show ?case
    by (cases x; cases "pum_policy x") (simp_all add: enc_PolicyUpdateMessage_def dec_PolicyUpdateMessage_def zero_PolicyUpdateMessage_def wf_PolicyUpdateMessage_def wire_simps wire_codecs)
next
  case (2 x)
  then show ?case by (simp add: enc_PolicyUpdateMessage_def)
qed

lemmas pum_wire [wire_codecs] = pum_codec.roundtrip pum_codec.slice pum_codec.ptr

record ReloadPolicyMessage =
  rpm_type :: "string"
  rpm_policy :: "ToolsPolicy"

definition zero_ReloadPolicyMessage :: ReloadPolicyMessage where
  "zero_ReloadPolicyMessage =
     \<lparr>rpm_type = [], rpm_policy = zero_ToolsPolicy\<rparr>"

definition enc_ReloadPolicyMessage :: "ReloadPolicyMessage \<Rightarrow> json" where
  "enc_ReloadPolicyMessage x = JObj
    ([(''type'', JStr (rpm_type x)),
         (''policy'', enc_ToolsPolicy (rpm_policy x))])"

definition dec_ReloadPolicyMessage :: "ReloadPolicyMessage decoder" where
  "dec_ReloadPolicyMessage = dec_struct
    [(''type'', fld rpm_type rpm_type_update dec_string),
     (''policy'', fld rpm_policy rpm_policy_update dec_ToolsPolicy)]"

definition wf_ReloadPolicyMessage :: "ReloadPolicyMessage \<Rightarrow> bool" where
  "wf_ReloadPolicyMessage x \<longleftrightarrow> wf_ToolsPolicy (rpm_policy x)"

interpretation rpm_codec: codec "wf_ReloadPolicyMessage" enc_ReloadPolicyMessage dec_ReloadPolicyMessage zero_ReloadPolicyMessage
proof (unfold_locales, goal_cases)
  case (1 x)
  then show ?case
    by (cases x) (simp add: enc_ReloadPolicyMessage_def dec_ReloadPolicyMessage_def zero_ReloadPolicyMessage_def wf_ReloadPolicyMessage_def wire_simps wire_codecs)
next
  case (2 x)
  then show ?case by (simp add: enc_ReloadPolicyMessage_def)
qed

lemmas rpm_wire [wire_codecs] = rpm_codec.roundtrip rpm_codec.slice rpm_codec.ptr

record McpAggregateSchema =
  mas_tool :: "string"
  mas_pkg :: "string"
  mas_version :: "string"
  mas_desc :: "string"
  mas_commands :: "string list"

definition zero_McpAggregateSchema :: McpAggregateSchema where
  "zero_McpAggregateSchema =
     \<lparr>mas_tool = [], mas_pkg = [], mas_version = [], mas_desc = [], mas_commands = []\<rparr>"

definition enc_McpAggregateSchema :: "McpAggregateSchema \<Rightarrow> json" where
  "enc_McpAggregateSchema x = JObj
    ([(''tool_name'', JStr (mas_tool x)),
         (''package'', JStr (mas_pkg x)),
         (''version'', JStr (mas_version x)),
         (''description'', JStr (mas_desc x)),
         (''commands'', enc_strs (mas_commands x))])"

definition dec_McpAggregateSchema :: "McpAggregateSchema decoder" where
  "dec_McpAggregateSchema = dec_struct
    [(''tool_name'', fld mas_tool mas_tool_update dec_string),
     (''package'', fld mas_pkg mas_pkg_update dec_string),
     (''version'', fld mas_version mas_version_update dec_string),
     (''description'', fld mas_desc mas_desc_update dec_string),
     (''commands'', fld mas_commands mas_commands_update (dec_slice [] dec_string))]"

interpretation mas_codec: codec "(\<lambda>_. True)" enc_McpAggregateSchema dec_McpAggregateSchema zero_McpAggregateSchema
proof (unfold_locales, goal_cases)
  case (1 x)
  then show ?case
    by (cases x) (simp add: enc_McpAggregateSchema_def dec_McpAggregateSchema_def zero_McpAggregateSchema_def wire_simps wire_codecs)
next
  case (2 x)
  then show ?case by (simp add: enc_McpAggregateSchema_def)
qed

lemmas mas_wire [wire_codecs] = mas_codec.roundtrip mas_codec.slice mas_codec.ptr

record PolicyReloadedMessage =
  prm_type :: "string"
  prm_tools :: "string list"
  prm_schemas :: "McpAggregateSchema list"

definition zero_PolicyReloadedMessage :: PolicyReloadedMessage where
  "zero_PolicyReloadedMessage =
     \<lparr>prm_type = [], prm_tools = [], prm_schemas = []\<rparr>"

definition enc_PolicyReloadedMessage :: "PolicyReloadedMessage \<Rightarrow> json" where
  "enc_PolicyReloadedMessage x = JObj
    ([(''type'', JStr (prm_type x)),
         (''advertised_tools'', enc_strs (prm_tools x))] @
     opt_list ''mcp_schemas'' enc_McpAggregateSchema (prm_schemas x) @ [])"

definition dec_PolicyReloadedMessage :: "PolicyReloadedMessage decoder" where
  "dec_PolicyReloadedMessage = dec_struct
    [(''type'', fld prm_type prm_type_update dec_string),
     (''advertised_tools'', fld prm_tools prm_tools_update (dec_slice [] dec_string)),
     (''mcp_schemas'', fld prm_schemas prm_schemas_update (dec_slice zero_McpAggregateSchema dec_McpAggregateSchema))]"

interpretation prm_codec: codec "(\<lambda>_. True)" enc_PolicyReloadedMessage dec_PolicyReloadedMessage zero_PolicyReloadedMessage
proof (unfold_locales, goal_cases)
  case (1 x)
  then show ?case
    by (cases x) (simp add: enc_PolicyReloadedMessage_def dec_PolicyReloadedMessage_def zero_PolicyReloadedMessage_def wire_simps wire_codecs)
next
  case (2 x)
  then show ?case by (simp add: enc_PolicyReloadedMessage_def)
qed

lemmas prm_wire [wire_codecs] = prm_codec.roundtrip prm_codec.slice prm_codec.ptr

record ToolJobMessage =
  tjm_type :: "string"
  tjm_job :: "string"
  tjm_parent :: "string"
  tjm_thread :: "string"
  tjm_tool :: "string"
  tjm_call :: "string"
  tjm_args :: "raw"
  tjm_creds :: "string gomap"
  tjm_pkg :: "string"
  tjm_version :: "string"
  tjm_url :: "string"
  tjm_transport :: "string"
  tjm_headers :: "string gomap"

definition zero_ToolJobMessage :: ToolJobMessage where
  "zero_ToolJobMessage =
     \<lparr>tjm_type = [], tjm_job = [], tjm_parent = [], tjm_thread = [], tjm_tool = [], tjm_call = [], tjm_args = None, tjm_creds = [], tjm_pkg = [], tjm_version = [], tjm_url = [], tjm_transport = [], tjm_headers = []\<rparr>"

definition enc_ToolJobMessage :: "ToolJobMessage \<Rightarrow> json" where
  "enc_ToolJobMessage x = JObj
    ([(''type'', JStr (tjm_type x)),
         (''job_id'', JStr (tjm_job x)),
         (''parent_job_id'', JStr (tjm_parent x))] @
     opt_str ''thread_id'' (tjm_thread x) @
     [(''tool_name'', JStr (tjm_tool x)),
         (''tool_call_id'', JStr (tjm_call x)),
         (''arguments'', enc_raw (tjm_args x))] @
     opt_map ''credentials'' JStr (tjm_creds x) @
     opt_str ''mcp_package'' (tjm_pkg x) @
     opt_str ''mcp_version'' (tjm_version x) @
     opt_str ''mcp_url'' (tjm_url x) @
     opt_str ''mcp_transport'' (tjm_transport x) @
     opt_map ''mcp_headers'' JStr (tjm_headers x) @ [])"

definition dec_ToolJobMessage :: "ToolJobMessage decoder" where
  "dec_ToolJobMessage = dec_struct
    [(''type'', fld tjm_type tjm_type_update dec_string),
     (''job_id'', fld tjm_job tjm_job_update dec_string),
     (''parent_job_id'', fld tjm_parent tjm_parent_update dec_string),
     (''thread_id'', fld tjm_thread tjm_thread_update dec_string),
     (''tool_name'', fld tjm_tool tjm_tool_update dec_string),
     (''tool_call_id'', fld tjm_call tjm_call_update dec_string),
     (''arguments'', fld tjm_args tjm_args_update dec_raw),
     (''credentials'', fld tjm_creds tjm_creds_update (dec_map [] dec_string)),
     (''mcp_package'', fld tjm_pkg tjm_pkg_update dec_string),
     (''mcp_version'', fld tjm_version tjm_version_update dec_string),
     (''mcp_url'', fld tjm_url tjm_url_update dec_string),
     (''mcp_transport'', fld tjm_transport tjm_transport_update dec_string),
     (''mcp_headers'', fld tjm_headers tjm_headers_update (dec_map [] dec_string))]"

definition wf_ToolJobMessage :: "ToolJobMessage \<Rightarrow> bool" where
  "wf_ToolJobMessage x \<longleftrightarrow> tjm_args x \<noteq> None \<and>
     sorted_map (tjm_creds x) \<and>
     sorted_map (tjm_headers x)"

interpretation tjm_codec: codec "wf_ToolJobMessage" enc_ToolJobMessage dec_ToolJobMessage zero_ToolJobMessage
proof (unfold_locales, goal_cases)
  case (1 x)
  then show ?case
    by (cases x) (simp add: enc_ToolJobMessage_def dec_ToolJobMessage_def zero_ToolJobMessage_def wf_ToolJobMessage_def wire_simps wire_codecs)
next
  case (2 x)
  then show ?case by (simp add: enc_ToolJobMessage_def)
qed

lemmas tjm_wire [wire_codecs] = tjm_codec.roundtrip tjm_codec.slice tjm_codec.ptr

record ValidateConfigurationMessage =
  vcm_type :: "string"
  vcm_req :: "string"
  vcm_pkg :: "string"
  vcm_version :: "string"
  vcm_url :: "string"
  vcm_transport :: "string"
  vcm_headers :: "string gomap"

definition zero_ValidateConfigurationMessage :: ValidateConfigurationMessage where
  "zero_ValidateConfigurationMessage =
     \<lparr>vcm_type = [], vcm_req = [], vcm_pkg = [], vcm_version = [], vcm_url = [], vcm_transport = [], vcm_headers = []\<rparr>"

definition enc_ValidateConfigurationMessage :: "ValidateConfigurationMessage \<Rightarrow> json" where
  "enc_ValidateConfigurationMessage x = JObj
    ([(''type'', JStr (vcm_type x)),
         (''request_id'', JStr (vcm_req x))] @
     opt_str ''package'' (vcm_pkg x) @
     opt_str ''version'' (vcm_version x) @
     opt_str ''url'' (vcm_url x) @
     opt_str ''transport'' (vcm_transport x) @
     opt_map ''resolved_headers'' JStr (vcm_headers x) @ [])"

definition dec_ValidateConfigurationMessage :: "ValidateConfigurationMessage decoder" where
  "dec_ValidateConfigurationMessage = dec_struct
    [(''type'', fld vcm_type vcm_type_update dec_string),
     (''request_id'', fld vcm_req vcm_req_update dec_string),
     (''package'', fld vcm_pkg vcm_pkg_update dec_string),
     (''version'', fld vcm_version vcm_version_update dec_string),
     (''url'', fld vcm_url vcm_url_update dec_string),
     (''transport'', fld vcm_transport vcm_transport_update dec_string),
     (''resolved_headers'', fld vcm_headers vcm_headers_update (dec_map [] dec_string))]"

definition wf_ValidateConfigurationMessage :: "ValidateConfigurationMessage \<Rightarrow> bool" where
  "wf_ValidateConfigurationMessage x \<longleftrightarrow> sorted_map (vcm_headers x)"

interpretation vcm_codec: codec "wf_ValidateConfigurationMessage" enc_ValidateConfigurationMessage dec_ValidateConfigurationMessage zero_ValidateConfigurationMessage
proof (unfold_locales, goal_cases)
  case (1 x)
  then show ?case
    by (cases x) (simp add: enc_ValidateConfigurationMessage_def dec_ValidateConfigurationMessage_def zero_ValidateConfigurationMessage_def wf_ValidateConfigurationMessage_def wire_simps wire_codecs)
next
  case (2 x)
  then show ?case by (simp add: enc_ValidateConfigurationMessage_def)
qed

lemmas vcm_wire [wire_codecs] = vcm_codec.roundtrip vcm_codec.slice vcm_codec.ptr

record ImagePart =
  ip_mime :: "string"
  ip_data :: "string"

definition zero_ImagePart :: ImagePart where
  "zero_ImagePart =
     \<lparr>ip_mime = [], ip_data = []\<rparr>"

definition enc_ImagePart :: "ImagePart \<Rightarrow> json" where
  "enc_ImagePart x = JObj
    ([(''mime_type'', JStr (ip_mime x)),
         (''data'', JStr (std_encode (ip_data x)))])"

definition dec_ImagePart :: "ImagePart decoder" where
  "dec_ImagePart = dec_struct
    [(''mime_type'', fld ip_mime ip_mime_update dec_string),
     (''data'', fld ip_data ip_data_update dec_bytes)]"

interpretation ip_codec: codec "(\<lambda>_. True)" enc_ImagePart dec_ImagePart zero_ImagePart
proof (unfold_locales, goal_cases)
  case (1 x)
  then show ?case
    by (cases x) (simp add: enc_ImagePart_def dec_ImagePart_def zero_ImagePart_def wire_simps wire_codecs)
next
  case (2 x)
  then show ?case by (simp add: enc_ImagePart_def)
qed

lemmas ip_wire [wire_codecs] = ip_codec.roundtrip ip_codec.slice ip_codec.ptr

record ToolResultMessage =
  trm_type :: "string"
  trm_job :: "string"
  trm_parent :: "string"
  trm_call :: "string"
  trm_tool :: "string"
  trm_result :: "raw"
  trm_images :: "ImagePart list"
  trm_error :: "string"
  trm_duration :: "int"

definition zero_ToolResultMessage :: ToolResultMessage where
  "zero_ToolResultMessage =
     \<lparr>trm_type = [], trm_job = [], trm_parent = [], trm_call = [], trm_tool = [], trm_result = None, trm_images = [], trm_error = [], trm_duration = 0\<rparr>"

definition enc_ToolResultMessage :: "ToolResultMessage \<Rightarrow> json" where
  "enc_ToolResultMessage x = JObj
    ([(''type'', JStr (trm_type x)),
         (''job_id'', JStr (trm_job x)),
         (''parent_job_id'', JStr (trm_parent x)),
         (''tool_call_id'', JStr (trm_call x)),
         (''tool_name'', JStr (trm_tool x))] @
     opt_raw ''result'' (trm_result x) @
     opt_list ''image_parts'' enc_ImagePart (trm_images x) @
     opt_str ''error'' (trm_error x) @
     opt_int ''duration_ms'' (trm_duration x) @ [])"

definition dec_ToolResultMessage :: "ToolResultMessage decoder" where
  "dec_ToolResultMessage = dec_struct
    [(''type'', fld trm_type trm_type_update dec_string),
     (''job_id'', fld trm_job trm_job_update dec_string),
     (''parent_job_id'', fld trm_parent trm_parent_update dec_string),
     (''tool_call_id'', fld trm_call trm_call_update dec_string),
     (''tool_name'', fld trm_tool trm_tool_update dec_string),
     (''result'', fld trm_result trm_result_update dec_raw),
     (''image_parts'', fld trm_images trm_images_update (dec_slice zero_ImagePart dec_ImagePart)),
     (''error'', fld trm_error trm_error_update dec_string),
     (''duration_ms'', fld trm_duration trm_duration_update dec_int)]"

definition wf_ToolResultMessage :: "ToolResultMessage \<Rightarrow> bool" where
  "wf_ToolResultMessage x \<longleftrightarrow> in_int64 (trm_duration x)"

interpretation trm_codec: codec "wf_ToolResultMessage" enc_ToolResultMessage dec_ToolResultMessage zero_ToolResultMessage
proof (unfold_locales, goal_cases)
  case (1 x)
  then show ?case
    by (cases x) (simp add: enc_ToolResultMessage_def dec_ToolResultMessage_def zero_ToolResultMessage_def wf_ToolResultMessage_def wire_simps wire_codecs)
next
  case (2 x)
  then show ?case by (simp add: enc_ToolResultMessage_def)
qed

lemmas trm_wire [wire_codecs] = trm_codec.roundtrip trm_codec.slice trm_codec.ptr

record AgentChatMsg =
  acm_role :: "string"
  acm_content :: "string"

definition zero_AgentChatMsg :: AgentChatMsg where
  "zero_AgentChatMsg =
     \<lparr>acm_role = [], acm_content = []\<rparr>"

definition enc_AgentChatMsg :: "AgentChatMsg \<Rightarrow> json" where
  "enc_AgentChatMsg x = JObj
    ([(''role'', JStr (acm_role x)),
         (''content'', JStr (acm_content x))])"

definition dec_AgentChatMsg :: "AgentChatMsg decoder" where
  "dec_AgentChatMsg = dec_struct
    [(''role'', fld acm_role acm_role_update dec_string),
     (''content'', fld acm_content acm_content_update dec_string)]"

interpretation acm_codec: codec "(\<lambda>_. True)" enc_AgentChatMsg dec_AgentChatMsg zero_AgentChatMsg
proof (unfold_locales, goal_cases)
  case (1 x)
  then show ?case
    by (cases x) (simp add: enc_AgentChatMsg_def dec_AgentChatMsg_def zero_AgentChatMsg_def wire_simps wire_codecs)
next
  case (2 x)
  then show ?case by (simp add: enc_AgentChatMsg_def)
qed

lemmas acm_wire [wire_codecs] = acm_codec.roundtrip acm_codec.slice acm_codec.ptr

record AgentJobMessage =
  ajm_type :: "string"
  ajm_job :: "string"
  ajm_prompt :: "string"
  ajm_messages :: "AgentChatMsg list"
  ajm_creds :: "string gomap"

definition zero_AgentJobMessage :: AgentJobMessage where
  "zero_AgentJobMessage =
     \<lparr>ajm_type = [], ajm_job = [], ajm_prompt = [], ajm_messages = [], ajm_creds = []\<rparr>"

definition enc_AgentJobMessage :: "AgentJobMessage \<Rightarrow> json" where
  "enc_AgentJobMessage x = JObj
    ([(''type'', JStr (ajm_type x)),
         (''job_id'', JStr (ajm_job x))] @
     opt_str ''system_prompt'' (ajm_prompt x) @
     [(''messages'', JArr (map enc_AgentChatMsg (ajm_messages x)))] @
     opt_map ''credentials'' JStr (ajm_creds x) @ [])"

definition dec_AgentJobMessage :: "AgentJobMessage decoder" where
  "dec_AgentJobMessage = dec_struct
    [(''type'', fld ajm_type ajm_type_update dec_string),
     (''job_id'', fld ajm_job ajm_job_update dec_string),
     (''system_prompt'', fld ajm_prompt ajm_prompt_update dec_string),
     (''messages'', fld ajm_messages ajm_messages_update (dec_slice zero_AgentChatMsg dec_AgentChatMsg)),
     (''credentials'', fld ajm_creds ajm_creds_update (dec_map [] dec_string))]"

definition wf_AgentJobMessage :: "AgentJobMessage \<Rightarrow> bool" where
  "wf_AgentJobMessage x \<longleftrightarrow> sorted_map (ajm_creds x)"

interpretation ajm_codec: codec "wf_AgentJobMessage" enc_AgentJobMessage dec_AgentJobMessage zero_AgentJobMessage
proof (unfold_locales, goal_cases)
  case (1 x)
  then show ?case
    by (cases x) (simp add: enc_AgentJobMessage_def dec_AgentJobMessage_def zero_AgentJobMessage_def wf_AgentJobMessage_def wire_simps wire_codecs)
next
  case (2 x)
  then show ?case by (simp add: enc_AgentJobMessage_def)
qed

lemmas ajm_wire [wire_codecs] = ajm_codec.roundtrip ajm_codec.slice ajm_codec.ptr

record AgentTokenMessage =
  atm_type :: "string"
  atm_job :: "string"
  atm_token :: "string"

definition zero_AgentTokenMessage :: AgentTokenMessage where
  "zero_AgentTokenMessage =
     \<lparr>atm_type = [], atm_job = [], atm_token = []\<rparr>"

definition enc_AgentTokenMessage :: "AgentTokenMessage \<Rightarrow> json" where
  "enc_AgentTokenMessage x = JObj
    ([(''type'', JStr (atm_type x)),
         (''job_id'', JStr (atm_job x)),
         (''token'', JStr (atm_token x))])"

definition dec_AgentTokenMessage :: "AgentTokenMessage decoder" where
  "dec_AgentTokenMessage = dec_struct
    [(''type'', fld atm_type atm_type_update dec_string),
     (''job_id'', fld atm_job atm_job_update dec_string),
     (''token'', fld atm_token atm_token_update dec_string)]"

interpretation atm_codec: codec "(\<lambda>_. True)" enc_AgentTokenMessage dec_AgentTokenMessage zero_AgentTokenMessage
proof (unfold_locales, goal_cases)
  case (1 x)
  then show ?case
    by (cases x) (simp add: enc_AgentTokenMessage_def dec_AgentTokenMessage_def zero_AgentTokenMessage_def wire_simps wire_codecs)
next
  case (2 x)
  then show ?case by (simp add: enc_AgentTokenMessage_def)
qed

lemmas atm_wire [wire_codecs] = atm_codec.roundtrip atm_codec.slice atm_codec.ptr

record AgentCompleteMessage =
  acom_type :: "string"
  acom_job :: "string"
  acom_stop :: "string"

definition zero_AgentCompleteMessage :: AgentCompleteMessage where
  "zero_AgentCompleteMessage =
     \<lparr>acom_type = [], acom_job = [], acom_stop = []\<rparr>"

definition enc_AgentCompleteMessage :: "AgentCompleteMessage \<Rightarrow> json" where
  "enc_AgentCompleteMessage x = JObj
    ([(''type'', JStr (acom_type x)),
         (''job_id'', JStr (acom_job x))] @
     opt_str ''stop_reason'' (acom_stop x) @ [])"

definition dec_AgentCompleteMessage :: "AgentCompleteMessage decoder" where
  "dec_AgentCompleteMessage = dec_struct
    [(''type'', fld acom_type acom_type_update dec_string),
     (''job_id'', fld acom_job acom_job_update dec_string),
     (''stop_reason'', fld acom_stop acom_stop_update dec_string)]"

interpretation acom_codec: codec "(\<lambda>_. True)" enc_AgentCompleteMessage dec_AgentCompleteMessage zero_AgentCompleteMessage
proof (unfold_locales, goal_cases)
  case (1 x)
  then show ?case
    by (cases x) (simp add: enc_AgentCompleteMessage_def dec_AgentCompleteMessage_def zero_AgentCompleteMessage_def wire_simps wire_codecs)
next
  case (2 x)
  then show ?case by (simp add: enc_AgentCompleteMessage_def)
qed

lemmas acom_wire [wire_codecs] = acom_codec.roundtrip acom_codec.slice acom_codec.ptr

record AgentErrorMessage =
  aem_type :: "string"
  aem_job :: "string"
  aem_error :: "string"

definition zero_AgentErrorMessage :: AgentErrorMessage where
  "zero_AgentErrorMessage =
     \<lparr>aem_type = [], aem_job = [], aem_error = []\<rparr>"

definition enc_AgentErrorMessage :: "AgentErrorMessage \<Rightarrow> json" where
  "enc_AgentErrorMessage x = JObj
    ([(''type'', JStr (aem_type x))] @
     opt_str ''job_id'' (aem_job x) @
     [(''error'', JStr (aem_error x))])"

definition dec_AgentErrorMessage :: "AgentErrorMessage decoder" where
  "dec_AgentErrorMessage = dec_struct
    [(''type'', fld aem_type aem_type_update dec_string),
     (''job_id'', fld aem_job aem_job_update dec_string),
     (''error'', fld aem_error aem_error_update dec_string)]"

interpretation aem_codec: codec "(\<lambda>_. True)" enc_AgentErrorMessage dec_AgentErrorMessage zero_AgentErrorMessage
proof (unfold_locales, goal_cases)
  case (1 x)
  then show ?case
    by (cases x) (simp add: enc_AgentErrorMessage_def dec_AgentErrorMessage_def zero_AgentErrorMessage_def wire_simps wire_codecs)
next
  case (2 x)
  then show ?case by (simp add: enc_AgentErrorMessage_def)
qed

lemmas aem_wire [wire_codecs] = aem_codec.roundtrip aem_codec.slice aem_codec.ptr

record AgentToolCallMessage =
  atc_type :: "string"
  atc_job :: "string"
  atc_id :: "string"
  atc_name :: "string"
  atc_args :: "string"

definition zero_AgentToolCallMessage :: AgentToolCallMessage where
  "zero_AgentToolCallMessage =
     \<lparr>atc_type = [], atc_job = [], atc_id = [], atc_name = [], atc_args = []\<rparr>"

definition enc_AgentToolCallMessage :: "AgentToolCallMessage \<Rightarrow> json" where
  "enc_AgentToolCallMessage x = JObj
    ([(''type'', JStr (atc_type x)),
         (''job_id'', JStr (atc_job x)),
         (''id'', JStr (atc_id x)),
         (''name'', JStr (atc_name x)),
         (''arguments'', JStr (atc_args x))])"

definition dec_AgentToolCallMessage :: "AgentToolCallMessage decoder" where
  "dec_AgentToolCallMessage = dec_struct
    [(''type'', fld atc_type atc_type_update dec_string),
     (''job_id'', fld atc_job atc_job_update dec_string),
     (''id'', fld atc_id atc_id_update dec_string),
     (''name'', fld atc_name atc_name_update dec_string),
     (''arguments'', fld atc_args atc_args_update dec_string)]"

interpretation atc_codec: codec "(\<lambda>_. True)" enc_AgentToolCallMessage dec_AgentToolCallMessage zero_AgentToolCallMessage
proof (unfold_locales, goal_cases)
  case (1 x)
  then show ?case
    by (cases x) (simp add: enc_AgentToolCallMessage_def dec_AgentToolCallMessage_def zero_AgentToolCallMessage_def wire_simps wire_codecs)
next
  case (2 x)
  then show ?case by (simp add: enc_AgentToolCallMessage_def)
qed

lemmas atc_wire [wire_codecs] = atc_codec.roundtrip atc_codec.slice atc_codec.ptr

record AgentToolResultMessage =
  atr_type :: "string"
  atr_job :: "string"
  atr_call :: "string"
  atr_content :: "string"
  atr_is_error :: "bool"

definition zero_AgentToolResultMessage :: AgentToolResultMessage where
  "zero_AgentToolResultMessage =
     \<lparr>atr_type = [], atr_job = [], atr_call = [], atr_content = [], atr_is_error = False\<rparr>"

definition enc_AgentToolResultMessage :: "AgentToolResultMessage \<Rightarrow> json" where
  "enc_AgentToolResultMessage x = JObj
    ([(''type'', JStr (atr_type x)),
         (''job_id'', JStr (atr_job x)),
         (''tool_call_id'', JStr (atr_call x)),
         (''content'', JStr (atr_content x))] @
     opt_bool ''is_error'' (atr_is_error x) @ [])"

definition dec_AgentToolResultMessage :: "AgentToolResultMessage decoder" where
  "dec_AgentToolResultMessage = dec_struct
    [(''type'', fld atr_type atr_type_update dec_string),
     (''job_id'', fld atr_job atr_job_update dec_string),
     (''tool_call_id'', fld atr_call atr_call_update dec_string),
     (''content'', fld atr_content atr_content_update dec_string),
     (''is_error'', fld atr_is_error atr_is_error_update dec_bool)]"

interpretation atr_codec: codec "(\<lambda>_. True)" enc_AgentToolResultMessage dec_AgentToolResultMessage zero_AgentToolResultMessage
proof (unfold_locales, goal_cases)
  case (1 x)
  then show ?case
    by (cases x) (simp add: enc_AgentToolResultMessage_def dec_AgentToolResultMessage_def zero_AgentToolResultMessage_def wire_simps wire_codecs)
next
  case (2 x)
  then show ?case by (simp add: enc_AgentToolResultMessage_def)
qed

lemmas atr_wire [wire_codecs] = atr_codec.roundtrip atr_codec.slice atr_codec.ptr

record JobToolCallRequestMessage =
  jtq_type :: "string"
  jtq_job :: "string"
  jtq_call :: "string"
  jtq_tool :: "string"
  jtq_args :: "string"

definition zero_JobToolCallRequestMessage :: JobToolCallRequestMessage where
  "zero_JobToolCallRequestMessage =
     \<lparr>jtq_type = [], jtq_job = [], jtq_call = [], jtq_tool = [], jtq_args = []\<rparr>"

definition enc_JobToolCallRequestMessage :: "JobToolCallRequestMessage \<Rightarrow> json" where
  "enc_JobToolCallRequestMessage x = JObj
    ([(''type'', JStr (jtq_type x)),
         (''job_id'', JStr (jtq_job x)),
         (''call_id'', JStr (jtq_call x)),
         (''tool_name'', JStr (jtq_tool x)),
         (''arguments'', JStr (jtq_args x))])"

definition dec_JobToolCallRequestMessage :: "JobToolCallRequestMessage decoder" where
  "dec_JobToolCallRequestMessage = dec_struct
    [(''type'', fld jtq_type jtq_type_update dec_string),
     (''job_id'', fld jtq_job jtq_job_update dec_string),
     (''call_id'', fld jtq_call jtq_call_update dec_string),
     (''tool_name'', fld jtq_tool jtq_tool_update dec_string),
     (''arguments'', fld jtq_args jtq_args_update dec_string)]"

interpretation jtq_codec: codec "(\<lambda>_. True)" enc_JobToolCallRequestMessage dec_JobToolCallRequestMessage zero_JobToolCallRequestMessage
proof (unfold_locales, goal_cases)
  case (1 x)
  then show ?case
    by (cases x) (simp add: enc_JobToolCallRequestMessage_def dec_JobToolCallRequestMessage_def zero_JobToolCallRequestMessage_def wire_simps wire_codecs)
next
  case (2 x)
  then show ?case by (simp add: enc_JobToolCallRequestMessage_def)
qed

lemmas jtq_wire [wire_codecs] = jtq_codec.roundtrip jtq_codec.slice jtq_codec.ptr

record JobToolCallResultMessage =
  jtr_type :: "string"
  jtr_job :: "string"
  jtr_call :: "string"
  jtr_result :: "string"
  jtr_is_error :: "bool"
  jtr_images :: "ImagePart list"

definition zero_JobToolCallResultMessage :: JobToolCallResultMessage where
  "zero_JobToolCallResultMessage =
     \<lparr>jtr_type = [], jtr_job = [], jtr_call = [], jtr_result = [], jtr_is_error = False, jtr_images = []\<rparr>"

definition enc_JobToolCallResultMessage :: "JobToolCallResultMessage \<Rightarrow> json" where
  "enc_JobToolCallResultMessage x = JObj
    ([(''type'', JStr (jtr_type x)),
         (''job_id'', JStr (jtr_job x)),
         (''call_id'', JStr (jtr_call x)),
         (''result'', JStr (jtr_result x))] @
     opt_bool ''is_error'' (jtr_is_error x) @
     opt_list ''image_parts'' enc_ImagePart (jtr_images x) @ [])"

definition dec_JobToolCallResultMessage :: "JobToolCallResultMessage decoder" where
  "dec_JobToolCallResultMessage = dec_struct
    [(''type'', fld jtr_type jtr_type_update dec_string),
     (''job_id'', fld jtr_job jtr_job_update dec_string),
     (''call_id'', fld jtr_call jtr_call_update dec_string),
     (''result'', fld jtr_result jtr_result_update dec_string),
     (''is_error'', fld jtr_is_error jtr_is_error_update dec_bool),
     (''image_parts'', fld jtr_images jtr_images_update (dec_slice zero_ImagePart dec_ImagePart))]"

interpretation jtr_codec: codec "(\<lambda>_. True)" enc_JobToolCallResultMessage dec_JobToolCallResultMessage zero_JobToolCallResultMessage
proof (unfold_locales, goal_cases)
  case (1 x)
  then show ?case
    by (cases x) (simp add: enc_JobToolCallResultMessage_def dec_JobToolCallResultMessage_def zero_JobToolCallResultMessage_def wire_simps wire_codecs)
next
  case (2 x)
  then show ?case by (simp add: enc_JobToolCallResultMessage_def)
qed

lemmas jtr_wire [wire_codecs] = jtr_codec.roundtrip jtr_codec.slice jtr_codec.ptr

end
