(* ===== verification/Protocol.thy ===== *)
theory Protocol
  imports Protocol_Types
begin

text \<open>
  \<open>ParseMessage\<close> and \<open>ParseToolsMessage\<close> of \<open>pkg/protocol\<close>: the envelope is read first for the
  \<open>type\<close> field, which chooses the struct the whole document is decoded into.  The typed
  message (Go's \<open>any\<close>) is the datatype \<open>message\<close>, with one constructor per struct.  The
  theorem at the end says that every message the encoder writes is parsed back to itself.
\<close>

section \<open>Messages\<close>

datatype message =
    MHeartbeat HeartbeatMessage
  | MHeartbeatAck HeartbeatAckMessage
  | MHello HelloMessage
  | MConfig ConfigMessage
  | MToken TokenMessage
  | MToolGenerating ToolGeneratingMessage
  | MPromptProgress PromptProgressMessage
  | MBuiltinTool BuiltinToolMessage
  | MComplete CompleteMessage
  | MError ErrorMessage
  | MHelloAck HelloAckMessage
  | MConfigAck ConfigAckMessage
  | MJob JobMessage
  | MCancel CancelMessage
  | MPolicyUpdate PolicyUpdateMessage
  | MAgentJob AgentJobMessage
  | MAgentToken AgentTokenMessage
  | MAgentComplete AgentCompleteMessage
  | MAgentError AgentErrorMessage
  | MAgentToolCall AgentToolCallMessage
  | MAgentToolResult AgentToolResultMessage
  | MJobToolCallRequest JobToolCallRequestMessage
  | MJobToolCallResult JobToolCallResultMessage
  | MToolJob ToolJobMessage
  | MToolResult ToolResultMessage
  | MReloadPolicy ReloadPolicyMessage
  | MPolicyReloaded PolicyReloadedMessage
  | MValidateConfiguration ValidateConfigurationMessage

datatype parse_error = EnvelopeError | BodyError string | UnknownType string

section \<open>Parsing\<close>

text \<open>\<open>Envelope\<close>: the struct with the one field \<open>type\<close>.\<close>

definition dec_Envelope :: "string decoder" where
  "dec_Envelope = dec_struct [(''type'', dec_string)]"

definition parse_as :: "string \<Rightarrow> 'r decoder \<Rightarrow> 'r \<Rightarrow> ('r \<Rightarrow> message) \<Rightarrow> json \<Rightarrow> parse_error + message" where
  "parse_as what d zero C j =
     (case d j zero of (m, ok) \<Rightarrow> if ok then Inr (C m) else Inl (BodyError what))"

text \<open>
  The switch over the message type, in the source's order.  The document is \<open>None\<close> when the
  bytes are not JSON.
\<close>

definition parse_body :: "string \<Rightarrow> json \<Rightarrow> parse_error + message" where
  "parse_body t j =
     (if t = ''hello'' then parse_as ''hello'' dec_HelloMessage zero_HelloMessage MHello j
      else if t = ''heartbeat'' then Inr (MHeartbeat \<lparr>hbm_type = ''heartbeat''\<rparr>)
      else if t = ''config'' then parse_as ''config'' dec_ConfigMessage zero_ConfigMessage MConfig j
      else if t = ''token'' then parse_as ''token'' dec_TokenMessage zero_TokenMessage MToken j
      else if t = ''tool_generating'' then parse_as ''tool_generating'' dec_ToolGeneratingMessage zero_ToolGeneratingMessage MToolGenerating j
      else if t = ''prompt_progress'' then parse_as ''prompt_progress'' dec_PromptProgressMessage zero_PromptProgressMessage MPromptProgress j
      else if t = ''builtin_tool'' then parse_as ''builtin_tool'' dec_BuiltinToolMessage zero_BuiltinToolMessage MBuiltinTool j
      else if t = ''complete'' then parse_as ''complete'' dec_CompleteMessage zero_CompleteMessage MComplete j
      else if t = ''error'' then parse_as ''error'' dec_ErrorMessage zero_ErrorMessage MError j
      else if t = ''hello_ack'' then parse_as ''hello_ack'' dec_HelloAckMessage zero_HelloAckMessage MHelloAck j
      else if t = ''heartbeat_ack'' then Inr (MHeartbeatAck \<lparr>hbam_type = ''heartbeat_ack''\<rparr>)
      else if t = ''config_ack'' then parse_as ''config_ack'' dec_ConfigAckMessage zero_ConfigAckMessage MConfigAck j
      else if t = ''job'' then parse_as ''job'' dec_JobMessage zero_JobMessage MJob j
      else if t = ''cancel'' then parse_as ''cancel'' dec_CancelMessage zero_CancelMessage MCancel j
      else if t = ''policy_update'' then parse_as ''policy_update'' dec_PolicyUpdateMessage zero_PolicyUpdateMessage MPolicyUpdate j
      else if t = ''agent_job'' then parse_as ''agent_job'' dec_AgentJobMessage zero_AgentJobMessage MAgentJob j
      else if t = ''agent_token'' then parse_as ''agent_token'' dec_AgentTokenMessage zero_AgentTokenMessage MAgentToken j
      else if t = ''agent_complete'' then parse_as ''agent_complete'' dec_AgentCompleteMessage zero_AgentCompleteMessage MAgentComplete j
      else if t = ''agent_error'' then parse_as ''agent_error'' dec_AgentErrorMessage zero_AgentErrorMessage MAgentError j
      else if t = ''agent_tool_call'' then parse_as ''agent_tool_call'' dec_AgentToolCallMessage zero_AgentToolCallMessage MAgentToolCall j
      else if t = ''agent_tool_result'' then parse_as ''agent_tool_result'' dec_AgentToolResultMessage zero_AgentToolResultMessage MAgentToolResult j
      else if t = ''job.tool.call.request'' then parse_as ''job.tool.call.request'' dec_JobToolCallRequestMessage zero_JobToolCallRequestMessage MJobToolCallRequest j
      else if t = ''job.tool.call.result'' then parse_as ''job.tool.call.result'' dec_JobToolCallResultMessage zero_JobToolCallResultMessage MJobToolCallResult j
      else if t = ''tool_job'' then parse_as ''tool_job'' dec_ToolJobMessage zero_ToolJobMessage MToolJob j
      else if t = ''tool_result'' then parse_as ''tool_result'' dec_ToolResultMessage zero_ToolResultMessage MToolResult j
      else if t = ''reload_policy'' then parse_as ''reload_policy'' dec_ReloadPolicyMessage zero_ReloadPolicyMessage MReloadPolicy j
      else if t = ''policy_reloaded'' then parse_as ''policy_reloaded'' dec_PolicyReloadedMessage zero_PolicyReloadedMessage MPolicyReloaded j
      else if t = ''validate_configuration'' then parse_as ''validate_configuration'' dec_ValidateConfigurationMessage zero_ValidateConfigurationMessage MValidateConfiguration j
      else Inl (UnknownType t))"

definition ParseMessage :: "json option \<Rightarrow> parse_error + message" where
  "ParseMessage data =
     (case data of
        None \<Rightarrow> Inl EnvelopeError
      | Some j \<Rightarrow>
          (case dec_Envelope j [] of (t, ok) \<Rightarrow> if ok then parse_body t j else Inl EnvelopeError))"

definition ParseToolsMessage :: "json option \<Rightarrow> parse_error + message" where
  "ParseToolsMessage data =
     (case data of
        None \<Rightarrow> Inl EnvelopeError
      | Some j \<Rightarrow>
          (case dec_Envelope j [] of (t, ok) \<Rightarrow>
             if \<not> ok then Inl EnvelopeError
             else if t = ''tool_result'' then
               parse_as ''tool_result'' dec_ToolResultMessage zero_ToolResultMessage MToolResult j
             else if t = ''policy_reloaded'' then
               parse_as ''policy_reloaded'' dec_PolicyReloadedMessage zero_PolicyReloadedMessage MPolicyReloaded j
             else ParseMessage data))"

section \<open>Encoding, and the round trip\<close>

fun enc_message :: "message \<Rightarrow> json" where
  "enc_message (MHeartbeat m) = enc_HeartbeatMessage m"
| "enc_message (MHeartbeatAck m) = enc_HeartbeatAckMessage m"
| "enc_message (MHello m) = enc_HelloMessage m"
| "enc_message (MConfig m) = enc_ConfigMessage m"
| "enc_message (MToken m) = enc_TokenMessage m"
| "enc_message (MToolGenerating m) = enc_ToolGeneratingMessage m"
| "enc_message (MPromptProgress m) = enc_PromptProgressMessage m"
| "enc_message (MBuiltinTool m) = enc_BuiltinToolMessage m"
| "enc_message (MComplete m) = enc_CompleteMessage m"
| "enc_message (MError m) = enc_ErrorMessage m"
| "enc_message (MHelloAck m) = enc_HelloAckMessage m"
| "enc_message (MConfigAck m) = enc_ConfigAckMessage m"
| "enc_message (MJob m) = enc_JobMessage m"
| "enc_message (MCancel m) = enc_CancelMessage m"
| "enc_message (MPolicyUpdate m) = enc_PolicyUpdateMessage m"
| "enc_message (MAgentJob m) = enc_AgentJobMessage m"
| "enc_message (MAgentToken m) = enc_AgentTokenMessage m"
| "enc_message (MAgentComplete m) = enc_AgentCompleteMessage m"
| "enc_message (MAgentError m) = enc_AgentErrorMessage m"
| "enc_message (MAgentToolCall m) = enc_AgentToolCallMessage m"
| "enc_message (MAgentToolResult m) = enc_AgentToolResultMessage m"
| "enc_message (MJobToolCallRequest m) = enc_JobToolCallRequestMessage m"
| "enc_message (MJobToolCallResult m) = enc_JobToolCallResultMessage m"
| "enc_message (MToolJob m) = enc_ToolJobMessage m"
| "enc_message (MToolResult m) = enc_ToolResultMessage m"
| "enc_message (MReloadPolicy m) = enc_ReloadPolicyMessage m"
| "enc_message (MPolicyReloaded m) = enc_PolicyReloadedMessage m"
| "enc_message (MValidateConfiguration m) = enc_ValidateConfigurationMessage m"

text \<open>A message as the source builds it: its \<open>type\<close> field names its struct.\<close>

fun wf_message :: "message \<Rightarrow> bool" where
  "wf_message (MHeartbeat m) = (hbm_type m = ''heartbeat'')"
| "wf_message (MHeartbeatAck m) = (hbam_type m = ''heartbeat_ack'')"
| "wf_message (MHello m) = (hm_type m = ''hello'' \<and> wf_HelloMessage m)"
| "wf_message (MConfig m) = (cfgm_type m = ''config'' \<and> wf_ConfigMessage m)"
| "wf_message (MToken m) = (tm_type m = ''token'')"
| "wf_message (MToolGenerating m) = (tgm_type m = ''tool_generating'')"
| "wf_message (MPromptProgress m) = (ppm_type m = ''prompt_progress'' \<and> wf_PromptProgressMessage m)"
| "wf_message (MBuiltinTool m) = (btm_type m = ''builtin_tool'')"
| "wf_message (MComplete m) = (com_type m = ''complete'' \<and> wf_CompleteMessage m)"
| "wf_message (MError m) = (em_type m = ''error'')"
| "wf_message (MHelloAck m) = (ham_type m = ''hello_ack'' \<and> wf_HelloAckMessage m)"
| "wf_message (MConfigAck m) = (cam_type m = ''config_ack'')"
| "wf_message (MJob m) = (jm_type m = ''job'' \<and> wf_JobMessage m)"
| "wf_message (MCancel m) = (canm_type m = ''cancel'')"
| "wf_message (MPolicyUpdate m) = (pum_type m = ''policy_update'' \<and> wf_PolicyUpdateMessage m)"
| "wf_message (MAgentJob m) = (ajm_type m = ''agent_job'' \<and> wf_AgentJobMessage m)"
| "wf_message (MAgentToken m) = (atm_type m = ''agent_token'')"
| "wf_message (MAgentComplete m) = (acom_type m = ''agent_complete'')"
| "wf_message (MAgentError m) = (aem_type m = ''agent_error'')"
| "wf_message (MAgentToolCall m) = (atc_type m = ''agent_tool_call'')"
| "wf_message (MAgentToolResult m) = (atr_type m = ''agent_tool_result'')"
| "wf_message (MJobToolCallRequest m) = (jtq_type m = ''job.tool.call.request'')"
| "wf_message (MJobToolCallResult m) = (jtr_type m = ''job.tool.call.result'')"
| "wf_message (MToolJob m) = (tjm_type m = ''tool_job'' \<and> wf_ToolJobMessage m)"
| "wf_message (MToolResult m) = (trm_type m = ''tool_result'' \<and> wf_ToolResultMessage m)"
| "wf_message (MReloadPolicy m) = (rpm_type m = ''reload_policy'' \<and> wf_ReloadPolicyMessage m)"
| "wf_message (MPolicyReloaded m) = (prm_type m = ''policy_reloaded'')"
| "wf_message (MValidateConfiguration m) = (vcm_type m = ''validate_configuration'' \<and> wf_ValidateConfigurationMessage m)"

definition no_type :: "(string \<times> json) list \<Rightarrow> bool" where
  "no_type kvs \<longleftrightarrow> (\<forall>p \<in> set kvs. ToLower (fst p) \<noteq> ''type'')"

lemma no_type_simps:
  "no_type []"
  "no_type ((k, v) # kvs) \<longleftrightarrow> ToLower k \<noteq> ''type'' \<and> no_type kvs"
  "no_type (xs @ ys) \<longleftrightarrow> no_type xs \<and> no_type ys"
  by (auto simp: no_type_def)

lemma no_type_opt:
  "ToLower k \<noteq> ''type'' \<Longrightarrow> no_type (opt_str k s)"
  "ToLower k \<noteq> ''type'' \<Longrightarrow> no_type (opt_int k i)"
  "ToLower k \<noteq> ''type'' \<Longrightarrow> no_type (opt_float k n)"
  "ToLower k \<noteq> ''type'' \<Longrightarrow> no_type (opt_bool k b)"
  "ToLower k \<noteq> ''type'' \<Longrightarrow> no_type (opt_list k e xs)"
  "ToLower k \<noteq> ''type'' \<Longrightarrow> no_type (opt_map k e m)"
  "ToLower k \<noteq> ''type'' \<Longrightarrow> no_type (opt_ptr k e p)"
  "ToLower k \<noteq> ''type'' \<Longrightarrow> no_type (opt_raw k r)"
  by (auto simp: no_type_def enc_simps split: option.splits)

lemma envelope_skip: "no_type kvs \<Longrightarrow> dec_pairs [(''type'', dec_string)] kvs s = s"
proof (induction kvs arbitrary: s)
  case Nil
  then show ?case by (simp add: dec_pairs_Nil)
next
  case (Cons kv kvs)
  then show ?case
    by (cases kv; cases s) (simp add: dec_pairs_Cons no_type_simps)
qed

lemma envelope_type:
  "no_type kvs \<Longrightarrow> dec_Envelope (JObj ((''type'', JStr t) # kvs)) [] = (t, True)"
  by (simp add: dec_Envelope_def dec_struct_obj dec_pairs_Cons envelope_skip ToLower_Nil ToLower_Cons
      lower_char_lits)

lemmas envelope_simps =
  no_type_simps no_type_opt envelope_type ToLower_Nil ToLower_Cons lower_char_lits

lemma envelope_HeartbeatMessage: "dec_Envelope (enc_HeartbeatMessage m) [] = (hbm_type m, True)"
  by (simp add: enc_HeartbeatMessage_def envelope_simps)

lemma envelope_HeartbeatAckMessage: "dec_Envelope (enc_HeartbeatAckMessage m) [] = (hbam_type m, True)"
  by (simp add: enc_HeartbeatAckMessage_def envelope_simps)

lemma envelope_HelloMessage: "dec_Envelope (enc_HelloMessage m) [] = (hm_type m, True)"
  by (simp add: enc_HelloMessage_def envelope_simps)

lemma envelope_ConfigMessage: "dec_Envelope (enc_ConfigMessage m) [] = (cfgm_type m, True)"
  by (simp add: enc_ConfigMessage_def envelope_simps)

lemma envelope_TokenMessage: "dec_Envelope (enc_TokenMessage m) [] = (tm_type m, True)"
  by (simp add: enc_TokenMessage_def envelope_simps)

lemma envelope_ToolGeneratingMessage: "dec_Envelope (enc_ToolGeneratingMessage m) [] = (tgm_type m, True)"
  by (simp add: enc_ToolGeneratingMessage_def envelope_simps)

lemma envelope_PromptProgressMessage: "dec_Envelope (enc_PromptProgressMessage m) [] = (ppm_type m, True)"
  by (simp add: enc_PromptProgressMessage_def envelope_simps)

lemma envelope_BuiltinToolMessage: "dec_Envelope (enc_BuiltinToolMessage m) [] = (btm_type m, True)"
  by (simp add: enc_BuiltinToolMessage_def envelope_simps)

lemma envelope_CompleteMessage: "dec_Envelope (enc_CompleteMessage m) [] = (com_type m, True)"
  by (simp add: enc_CompleteMessage_def envelope_simps)

lemma envelope_ErrorMessage: "dec_Envelope (enc_ErrorMessage m) [] = (em_type m, True)"
  by (simp add: enc_ErrorMessage_def envelope_simps)

lemma envelope_HelloAckMessage: "dec_Envelope (enc_HelloAckMessage m) [] = (ham_type m, True)"
  by (simp add: enc_HelloAckMessage_def envelope_simps)

lemma envelope_ConfigAckMessage: "dec_Envelope (enc_ConfigAckMessage m) [] = (cam_type m, True)"
  by (simp add: enc_ConfigAckMessage_def envelope_simps)

lemma envelope_JobMessage: "dec_Envelope (enc_JobMessage m) [] = (jm_type m, True)"
  by (simp add: enc_JobMessage_def envelope_simps)

lemma envelope_CancelMessage: "dec_Envelope (enc_CancelMessage m) [] = (canm_type m, True)"
  by (simp add: enc_CancelMessage_def envelope_simps)

lemma envelope_PolicyUpdateMessage: "dec_Envelope (enc_PolicyUpdateMessage m) [] = (pum_type m, True)"
  by (simp add: enc_PolicyUpdateMessage_def envelope_simps)

lemma envelope_AgentJobMessage: "dec_Envelope (enc_AgentJobMessage m) [] = (ajm_type m, True)"
  by (simp add: enc_AgentJobMessage_def envelope_simps)

lemma envelope_AgentTokenMessage: "dec_Envelope (enc_AgentTokenMessage m) [] = (atm_type m, True)"
  by (simp add: enc_AgentTokenMessage_def envelope_simps)

lemma envelope_AgentCompleteMessage: "dec_Envelope (enc_AgentCompleteMessage m) [] = (acom_type m, True)"
  by (simp add: enc_AgentCompleteMessage_def envelope_simps)

lemma envelope_AgentErrorMessage: "dec_Envelope (enc_AgentErrorMessage m) [] = (aem_type m, True)"
  by (simp add: enc_AgentErrorMessage_def envelope_simps)

lemma envelope_AgentToolCallMessage: "dec_Envelope (enc_AgentToolCallMessage m) [] = (atc_type m, True)"
  by (simp add: enc_AgentToolCallMessage_def envelope_simps)

lemma envelope_AgentToolResultMessage: "dec_Envelope (enc_AgentToolResultMessage m) [] = (atr_type m, True)"
  by (simp add: enc_AgentToolResultMessage_def envelope_simps)

lemma envelope_JobToolCallRequestMessage: "dec_Envelope (enc_JobToolCallRequestMessage m) [] = (jtq_type m, True)"
  by (simp add: enc_JobToolCallRequestMessage_def envelope_simps)

lemma envelope_JobToolCallResultMessage: "dec_Envelope (enc_JobToolCallResultMessage m) [] = (jtr_type m, True)"
  by (simp add: enc_JobToolCallResultMessage_def envelope_simps)

lemma envelope_ToolJobMessage: "dec_Envelope (enc_ToolJobMessage m) [] = (tjm_type m, True)"
  by (simp add: enc_ToolJobMessage_def envelope_simps)

lemma envelope_ToolResultMessage: "dec_Envelope (enc_ToolResultMessage m) [] = (trm_type m, True)"
  by (simp add: enc_ToolResultMessage_def envelope_simps)

lemma envelope_ReloadPolicyMessage: "dec_Envelope (enc_ReloadPolicyMessage m) [] = (rpm_type m, True)"
  by (simp add: enc_ReloadPolicyMessage_def envelope_simps)

lemma envelope_PolicyReloadedMessage: "dec_Envelope (enc_PolicyReloadedMessage m) [] = (prm_type m, True)"
  by (simp add: enc_PolicyReloadedMessage_def envelope_simps)

lemma envelope_ValidateConfigurationMessage: "dec_Envelope (enc_ValidateConfigurationMessage m) [] = (vcm_type m, True)"
  by (simp add: enc_ValidateConfigurationMessage_def envelope_simps)

lemmas envelopes =
  envelope_HeartbeatMessage
  envelope_HeartbeatAckMessage
  envelope_HelloMessage
  envelope_ConfigMessage
  envelope_TokenMessage
  envelope_ToolGeneratingMessage
  envelope_PromptProgressMessage
  envelope_BuiltinToolMessage
  envelope_CompleteMessage
  envelope_ErrorMessage
  envelope_HelloAckMessage
  envelope_ConfigAckMessage
  envelope_JobMessage
  envelope_CancelMessage
  envelope_PolicyUpdateMessage
  envelope_AgentJobMessage
  envelope_AgentTokenMessage
  envelope_AgentCompleteMessage
  envelope_AgentErrorMessage
  envelope_AgentToolCallMessage
  envelope_AgentToolResultMessage
  envelope_JobToolCallRequestMessage
  envelope_JobToolCallResultMessage
  envelope_ToolJobMessage
  envelope_ToolResultMessage
  envelope_ReloadPolicyMessage
  envelope_PolicyReloadedMessage
  envelope_ValidateConfigurationMessage

lemma parse_as_ok: "d j zero = (m, True) \<Longrightarrow> parse_as what d zero C j = Inr (C m)"
  by (simp add: parse_as_def)

lemma parse_body_cases:
  "parse_body ''heartbeat'' j = Inr (MHeartbeat \<lparr>hbm_type = ''heartbeat''\<rparr>)"
  "parse_body ''heartbeat_ack'' j = Inr (MHeartbeatAck \<lparr>hbam_type = ''heartbeat_ack''\<rparr>)"
  "parse_body ''hello'' j = parse_as ''hello'' dec_HelloMessage zero_HelloMessage MHello j"
  "parse_body ''config'' j = parse_as ''config'' dec_ConfigMessage zero_ConfigMessage MConfig j"
  "parse_body ''token'' j = parse_as ''token'' dec_TokenMessage zero_TokenMessage MToken j"
  "parse_body ''tool_generating'' j = parse_as ''tool_generating'' dec_ToolGeneratingMessage zero_ToolGeneratingMessage MToolGenerating j"
  "parse_body ''prompt_progress'' j = parse_as ''prompt_progress'' dec_PromptProgressMessage zero_PromptProgressMessage MPromptProgress j"
  "parse_body ''builtin_tool'' j = parse_as ''builtin_tool'' dec_BuiltinToolMessage zero_BuiltinToolMessage MBuiltinTool j"
  "parse_body ''complete'' j = parse_as ''complete'' dec_CompleteMessage zero_CompleteMessage MComplete j"
  "parse_body ''error'' j = parse_as ''error'' dec_ErrorMessage zero_ErrorMessage MError j"
  "parse_body ''hello_ack'' j = parse_as ''hello_ack'' dec_HelloAckMessage zero_HelloAckMessage MHelloAck j"
  "parse_body ''config_ack'' j = parse_as ''config_ack'' dec_ConfigAckMessage zero_ConfigAckMessage MConfigAck j"
  "parse_body ''job'' j = parse_as ''job'' dec_JobMessage zero_JobMessage MJob j"
  "parse_body ''cancel'' j = parse_as ''cancel'' dec_CancelMessage zero_CancelMessage MCancel j"
  "parse_body ''policy_update'' j = parse_as ''policy_update'' dec_PolicyUpdateMessage zero_PolicyUpdateMessage MPolicyUpdate j"
  "parse_body ''agent_job'' j = parse_as ''agent_job'' dec_AgentJobMessage zero_AgentJobMessage MAgentJob j"
  "parse_body ''agent_token'' j = parse_as ''agent_token'' dec_AgentTokenMessage zero_AgentTokenMessage MAgentToken j"
  "parse_body ''agent_complete'' j = parse_as ''agent_complete'' dec_AgentCompleteMessage zero_AgentCompleteMessage MAgentComplete j"
  "parse_body ''agent_error'' j = parse_as ''agent_error'' dec_AgentErrorMessage zero_AgentErrorMessage MAgentError j"
  "parse_body ''agent_tool_call'' j = parse_as ''agent_tool_call'' dec_AgentToolCallMessage zero_AgentToolCallMessage MAgentToolCall j"
  "parse_body ''agent_tool_result'' j = parse_as ''agent_tool_result'' dec_AgentToolResultMessage zero_AgentToolResultMessage MAgentToolResult j"
  "parse_body ''job.tool.call.request'' j = parse_as ''job.tool.call.request'' dec_JobToolCallRequestMessage zero_JobToolCallRequestMessage MJobToolCallRequest j"
  "parse_body ''job.tool.call.result'' j = parse_as ''job.tool.call.result'' dec_JobToolCallResultMessage zero_JobToolCallResultMessage MJobToolCallResult j"
  "parse_body ''tool_job'' j = parse_as ''tool_job'' dec_ToolJobMessage zero_ToolJobMessage MToolJob j"
  "parse_body ''tool_result'' j = parse_as ''tool_result'' dec_ToolResultMessage zero_ToolResultMessage MToolResult j"
  "parse_body ''reload_policy'' j = parse_as ''reload_policy'' dec_ReloadPolicyMessage zero_ReloadPolicyMessage MReloadPolicy j"
  "parse_body ''policy_reloaded'' j = parse_as ''policy_reloaded'' dec_PolicyReloadedMessage zero_PolicyReloadedMessage MPolicyReloaded j"
  "parse_body ''validate_configuration'' j = parse_as ''validate_configuration'' dec_ValidateConfigurationMessage zero_ValidateConfigurationMessage MValidateConfiguration j"
  unfolding parse_body_def by simp_all

fun message_type :: "message \<Rightarrow> string" where
  "message_type (MHeartbeat m) = ''heartbeat''"
| "message_type (MHeartbeatAck m) = ''heartbeat_ack''"
| "message_type (MHello m) = ''hello''"
| "message_type (MConfig m) = ''config''"
| "message_type (MToken m) = ''token''"
| "message_type (MToolGenerating m) = ''tool_generating''"
| "message_type (MPromptProgress m) = ''prompt_progress''"
| "message_type (MBuiltinTool m) = ''builtin_tool''"
| "message_type (MComplete m) = ''complete''"
| "message_type (MError m) = ''error''"
| "message_type (MHelloAck m) = ''hello_ack''"
| "message_type (MConfigAck m) = ''config_ack''"
| "message_type (MJob m) = ''job''"
| "message_type (MCancel m) = ''cancel''"
| "message_type (MPolicyUpdate m) = ''policy_update''"
| "message_type (MAgentJob m) = ''agent_job''"
| "message_type (MAgentToken m) = ''agent_token''"
| "message_type (MAgentComplete m) = ''agent_complete''"
| "message_type (MAgentError m) = ''agent_error''"
| "message_type (MAgentToolCall m) = ''agent_tool_call''"
| "message_type (MAgentToolResult m) = ''agent_tool_result''"
| "message_type (MJobToolCallRequest m) = ''job.tool.call.request''"
| "message_type (MJobToolCallResult m) = ''job.tool.call.result''"
| "message_type (MToolJob m) = ''tool_job''"
| "message_type (MToolResult m) = ''tool_result''"
| "message_type (MReloadPolicy m) = ''reload_policy''"
| "message_type (MPolicyReloaded m) = ''policy_reloaded''"
| "message_type (MValidateConfiguration m) = ''validate_configuration''"

lemma envelope_message:
  "wf_message m \<Longrightarrow> dec_Envelope (enc_message m) [] = (message_type m, True)"
  by (cases m) (simp_all add: envelopes)

lemma heartbeat_eta: "hbm_type m = t \<Longrightarrow> \<lparr>hbm_type = t\<rparr> = m"
  by (cases m) simp

lemma heartbeat_ack_eta: "hbam_type m = t \<Longrightarrow> \<lparr>hbam_type = t\<rparr> = m"
  by (cases m) simp

lemma parse_body_roundtrip: "wf_message m \<Longrightarrow> parse_body (message_type m) (enc_message m) = Inr m"
  by (cases m) (simp_all add: parse_body_cases parse_as_ok wire_codecs heartbeat_eta heartbeat_ack_eta)

lemma parse_marshal: "wf_message m \<Longrightarrow> ParseMessage (Some (enc_message m)) = Inr m"
  by (simp add: ParseMessage_def envelope_message parse_body_roundtrip)

lemma parse_tools_marshal: "wf_message m \<Longrightarrow> ParseToolsMessage (Some (enc_message m)) = Inr m"
  using parse_marshal [of m]
  by (cases m) (simp_all add: ParseToolsMessage_def envelopes parse_as_ok wire_codecs)

lemma parse_overload:
  "ParseMessage (Some (enc_OverloadMessage m)) = Inl (UnknownType ''job.overload'')"
  if "om_type m = ''job.overload''"
  using that
  by (simp add: ParseMessage_def enc_OverloadMessage_def envelope_simps parse_body_def)

end
