(* ===== verification/Slots.thy ===== *)
theory Slots
  imports Go_Prelude
begin

text \<open>
  The contract the router's two job trackers share: the pool's record of a worker
  (\<open>pkg/gpu/pool.go\<close>, for the health endpoint) and the connection's own set of in-flight jobs
  (\<open>internal/router/wshandler.go\<close>, for dispatch).  A tracker holds a set of jobs and a number
  of slots; assigning adds one job and fails when the slots are used up, completing removes
  one.  What follows for every sequence of such calls is proved once, in the locale.
\<close>

datatype slot_op = SAssign string | SComplete string

fun slot_run :: "(string \<Rightarrow> 's \<Rightarrow> 's option) \<Rightarrow> (string \<Rightarrow> 's \<Rightarrow> 's) \<Rightarrow> slot_op list \<Rightarrow> 's \<Rightarrow> 's" where
  "slot_run assign complete [] s = s"
| "slot_run assign complete (SAssign j # ops) s =
     slot_run assign complete ops (case assign j s of None \<Rightarrow> s | Some s' \<Rightarrow> s')"
| "slot_run assign complete (SComplete j # ops) s = slot_run assign complete ops (complete j s)"

locale slot_tracker =
  fixes inv :: "'s \<Rightarrow> bool" and jobs :: "'s \<Rightarrow> string list" and slots :: "'s \<Rightarrow> int"
    and assign :: "string \<Rightarrow> 's \<Rightarrow> 's option" and complete :: "string \<Rightarrow> 's \<Rightarrow> 's"
  assumes jobs_distinct: "inv s \<Longrightarrow> distinct (jobs s)"
    and assign_law: "inv s \<Longrightarrow> assign j s = Some s' \<Longrightarrow>
          inv s' \<and> slots s' = slots s \<and> set (jobs s') = insert j (set (jobs s))"
    and assign_full: "inv s \<Longrightarrow> slots s \<le> int (length (jobs s)) \<Longrightarrow> assign j s = None"
    and complete_law: "inv s \<Longrightarrow>
          inv (complete j s) \<and> slots (complete j s) = slots s \<and>
          set (jobs (complete j s)) = set (jobs s) - {j}"
begin

lemma jobs_card: "inv s \<Longrightarrow> length (jobs s) = card (set (jobs s))"
  by (simp add: jobs_distinct distinct_card)

lemma assign_room: "inv s \<Longrightarrow> assign j s = Some s' \<Longrightarrow> int (length (jobs s)) < slots s"
  by (metis assign_full not_le option.distinct(1))

lemma assign_length: "inv s \<Longrightarrow> assign j s = Some s' \<Longrightarrow> length (jobs s') \<le> Suc (length (jobs s))"
  using assign_law [of s j s'] by (simp add: jobs_card card_insert_if)

lemma complete_length: "inv s \<Longrightarrow> length (jobs (complete j s)) \<le> length (jobs s)"
  using complete_law [of s j] by (simp add: jobs_card card_Diff1_le)

lemma assign_bounded:
  "inv s \<Longrightarrow> assign j s = Some s' \<Longrightarrow> int (length (jobs s')) \<le> slots s'"
  using assign_room [of s j s'] assign_length [of s j s'] assign_law [of s j s'] by simp

lemma run_bounded:
  "inv s \<Longrightarrow> int (length (jobs s)) \<le> slots s \<Longrightarrow>
   inv (slot_run assign complete ops s) \<and>
   slots (slot_run assign complete ops s) = slots s \<and>
   int (length (jobs (slot_run assign complete ops s))) \<le> slots s"
proof (induction ops arbitrary: s)
  case Nil
  then show ?case by simp
next
  case (Cons op ops)
  show ?case
  proof (cases op)
    case (SAssign j)
    show ?thesis
    proof (cases "assign j s")
      case None
      with SAssign Cons show ?thesis by simp
    next
      case (Some s')
      with SAssign Cons.IH [of s'] Cons.prems show ?thesis
        using assign_law [of s j s'] assign_bounded [of s j s'] by simp
    qed
  next
    case (SComplete j)
    with Cons.IH [of "complete j s"] Cons.prems show ?thesis
      using complete_law [of s j] complete_length [of s j] by simp
  qed
qed

text \<open>A slot is never lost: completing a job that is in flight makes room for another.\<close>

lemma complete_makes_room:
  assumes "inv s" and "j \<in> set (jobs s)" and "int (length (jobs s)) \<le> slots s"
  shows "int (length (jobs (complete j s))) < slots (complete j s)"
proof -
  have "length (jobs (complete j s)) = card (set (jobs s) - {j})"
    using complete_law [OF assms(1), of j] by (simp add: jobs_card)
  also have "\<dots> < card (set (jobs s))"
    using assms(2) by (intro card_Diff1_less) auto
  finally show ?thesis
    using assms complete_law [OF assms(1), of j] by (simp add: jobs_card)
qed

end

end
