(* ===== verification/Gpu_Pool.thy ===== *)
theory Gpu_Pool
  imports Slots Json
begin

text \<open>
  \<open>pkg/gpu/pool.go\<close>: the pool of connected GPU workers.  A pool is a map from worker IDs to
  workers; every method is a function on it, which takes the clock reading where the code
  calls \<open>time.Now\<close>.  Each method holds the pool's mutex throughout, so a call is one step.
  The lemmas: the pool's invariant and that every method keeps it, the bound on the jobs of
  a worker, and what \<open>SelectWorker\<close> chooses for every iteration order of the map.
\<close>

section \<open>Data\<close>

record gpu_caps =
  gc_backend :: string
  gc_model :: string
  gc_ctx :: int
  gc_vram :: number
  gc_params :: string
  gc_slots :: int

record gpu_worker =
  w_id :: string
  w_caps :: gpu_caps
  w_active :: "int gomap" \<comment> \<open>job ID to the time it was assigned\<close>
  w_max :: int
  w_connected :: int
  w_heartbeat :: int

record worker_snapshot =
  ws_id :: string
  ws_caps :: gpu_caps
  ws_jobs :: "string list"
  ws_max :: int
  ws_connected :: int
  ws_heartbeat :: int

type_synonym pool = "gpu_worker gomap"

datatype pool_error =
    AlreadyInPool string
  | NotInPool string
  | AtCapacity string nat int

section \<open>Operations\<close>

definition ActiveJobCount :: "gpu_worker \<Rightarrow> nat" where
  "ActiveJobCount w = length (w_active w)"

definition HasCapacity :: "gpu_worker \<Rightarrow> bool" where
  "HasCapacity w \<longleftrightarrow> int (length (w_active w)) < w_max w"

definition NewPool :: pool where
  "NewPool = []"

definition Pool_Add :: "int \<Rightarrow> string \<Rightarrow> gpu_caps \<Rightarrow> int \<Rightarrow> pool \<Rightarrow> pool_error + pool" where
  "Pool_Add now wid caps maxSlots p =
     (case mget p wid of
        Some _ \<Rightarrow> Inl (AlreadyInPool wid)
      | None \<Rightarrow>
          Inr (mput wid \<lparr>w_id = wid, w_caps = caps, w_active = [], w_max = maxSlots,
                         w_connected = now, w_heartbeat = now\<rparr> p))"

definition Pool_Remove :: "string \<Rightarrow> pool \<Rightarrow> string list \<times> pool" where
  "Pool_Remove wid p =
     (case mget p wid of
        None \<Rightarrow> ([], p)
      | Some w \<Rightarrow> (mkeys (w_active w), mdel wid p))"

definition Pool_Heartbeat :: "int \<Rightarrow> string \<Rightarrow> pool \<Rightarrow> bool \<times> pool" where
  "Pool_Heartbeat now wid p =
     (case mget p wid of
        None \<Rightarrow> (False, p)
      | Some w \<Rightarrow> (True, mput wid (w\<lparr>w_heartbeat := now\<rparr>) p))"

definition Pool_UpdateCapabilities :: "string \<Rightarrow> gpu_caps \<Rightarrow> pool \<Rightarrow> bool \<times> pool" where
  "Pool_UpdateCapabilities wid caps p =
     (case mget p wid of
        None \<Rightarrow> (False, p)
      | Some w \<Rightarrow>
          (let w' = w\<lparr>w_caps := caps\<rparr>;
               w'' = (if 0 < gc_slots caps then w'\<lparr>w_max := gc_slots caps\<rparr> else w')
           in (True, mput wid w'' p)))"

definition Pool_AssignJob :: "int \<Rightarrow> string \<Rightarrow> string \<Rightarrow> pool \<Rightarrow> pool_error + pool" where
  "Pool_AssignJob now workerID jobID p =
     (case mget p workerID of
        None \<Rightarrow> Inl (NotInPool workerID)
      | Some w \<Rightarrow>
          if \<not> HasCapacity w then Inl (AtCapacity workerID (length (w_active w)) (w_max w))
          else Inr (mput workerID (w\<lparr>w_active := mput jobID now (w_active w)\<rparr>) p))"

definition Pool_CompleteJob :: "string \<Rightarrow> string \<Rightarrow> pool \<Rightarrow> bool \<times> pool" where
  "Pool_CompleteJob workerID jobID p =
     (case mget p workerID of
        None \<Rightarrow> (False, p)
      | Some w \<Rightarrow>
          (mget (w_active w) jobID \<noteq> None,
           mput workerID (w\<lparr>w_active := mdel jobID (w_active w)\<rparr>) p))"

text \<open>The loop of \<open>SelectWorker\<close>: the best worker so far and its load (\<open>-1\<close> when none).\<close>

fun select_loop :: "pool \<Rightarrow> string \<times> int \<Rightarrow> string \<times> int" where
  "select_loop [] best = best"
| "select_loop ((wid, w) # ws) (bestID, bestLoad) =
     (if \<not> HasCapacity w then select_loop ws (bestID, bestLoad)
      else
        (let load = int (length (w_active w)) in
         if bestLoad = -1 \<or> load < bestLoad then select_loop ws (wid, load)
         else select_loop ws (bestID, bestLoad)))"

definition SelectWorker :: "pool \<Rightarrow> string" where
  "SelectWorker p = fst (select_loop p ([], -1))"

definition Pool_Size :: "pool \<Rightarrow> nat" where
  "Pool_Size p = length p"

definition TotalCapacity :: "pool \<Rightarrow> int" where
  "TotalCapacity p = foldl (\<lambda>total (wid, w). total + (w_max w - int (length (w_active w)))) 0 p"

definition WorkerIDs :: "pool \<Rightarrow> string list" where
  "WorkerIDs p = mkeys p"

definition DeadWorkers :: "int \<Rightarrow> int \<Rightarrow> pool \<Rightarrow> string list" where
  "DeadWorkers now maxAge p = [wid. (wid, w) \<leftarrow> p, w_heartbeat w < now - maxAge]"

definition Snapshot :: "pool \<Rightarrow> worker_snapshot list" where
  "Snapshot p = map (\<lambda>(wid, w). \<lparr>ws_id = w_id w, ws_caps = w_caps w,
     ws_jobs = mkeys (w_active w), ws_max = w_max w, ws_connected = w_connected w,
     ws_heartbeat = w_heartbeat w\<rparr>) p"

section \<open>The invariant\<close>

definition worker_ok :: "string \<Rightarrow> gpu_worker \<Rightarrow> bool" where
  "worker_ok wid w \<longleftrightarrow> w_id w = wid \<and> wf_map (w_active w)"

definition pool_inv :: "pool \<Rightarrow> bool" where
  "pool_inv p \<longleftrightarrow> wf_map p \<and> (\<forall>wid w. mget p wid = Some w \<longrightarrow> worker_ok wid w)"

lemma pool_inv_NewPool [simp]: "pool_inv NewPool"
  by (simp add: pool_inv_def NewPool_def)

lemma pool_inv_mput: "pool_inv p \<Longrightarrow> worker_ok wid w \<Longrightarrow> pool_inv (mput wid w p)"
  by (simp add: pool_inv_def wf_map_mput)

lemma pool_inv_mdel: "pool_inv p \<Longrightarrow> pool_inv (mdel wid p)"
  by (simp add: pool_inv_def wf_map_mdel)

lemma pool_inv_get: "pool_inv p \<Longrightarrow> mget p wid = Some w \<Longrightarrow> worker_ok wid w"
  by (simp add: pool_inv_def)

lemma Pool_Add_inv: "pool_inv p \<Longrightarrow> Pool_Add now wid caps m p = Inr p' \<Longrightarrow> pool_inv p'"
  by (auto simp: Pool_Add_def worker_ok_def intro!: pool_inv_mput split: option.splits)

lemma Pool_Remove_inv: "pool_inv p \<Longrightarrow> pool_inv (snd (Pool_Remove wid p))"
  by (auto simp: Pool_Remove_def intro: pool_inv_mdel split: option.splits)

lemma Pool_Heartbeat_inv: "pool_inv p \<Longrightarrow> pool_inv (snd (Pool_Heartbeat now wid p))"
  by (auto simp: Pool_Heartbeat_def worker_ok_def dest!: pool_inv_get
      intro!: pool_inv_mput split: option.splits)

lemma Pool_UpdateCapabilities_inv: "pool_inv p \<Longrightarrow> pool_inv (snd (Pool_UpdateCapabilities wid caps p))"
  by (auto simp: Pool_UpdateCapabilities_def Let_def worker_ok_def dest: pool_inv_get
      intro!: pool_inv_mput split: option.splits)

lemma Pool_AssignJob_inv: "pool_inv p \<Longrightarrow> Pool_AssignJob now wid j p = Inr p' \<Longrightarrow> pool_inv p'"
  by (auto simp: Pool_AssignJob_def worker_ok_def dest!: pool_inv_get
      intro!: pool_inv_mput split: option.splits if_splits)

lemma Pool_CompleteJob_inv: "pool_inv p \<Longrightarrow> pool_inv (snd (Pool_CompleteJob wid j p))"
  by (auto simp: Pool_CompleteJob_def worker_ok_def dest!: pool_inv_get
      intro!: pool_inv_mput split: option.splits)

lemmas pool_op_inv =
  Pool_Add_inv Pool_Remove_inv Pool_Heartbeat_inv Pool_UpdateCapabilities_inv
  Pool_AssignJob_inv Pool_CompleteJob_inv

section \<open>A worker of the pool as a slot tracker\<close>

definition pool_jobs :: "string \<Rightarrow> pool \<Rightarrow> string list" where
  "pool_jobs wid p = (case mget p wid of None \<Rightarrow> [] | Some w \<Rightarrow> mkeys (w_active w))"

definition pool_slots :: "string \<Rightarrow> pool \<Rightarrow> int" where
  "pool_slots wid p = (case mget p wid of None \<Rightarrow> 0 | Some w \<Rightarrow> w_max w)"

definition pool_assign :: "int \<Rightarrow> string \<Rightarrow> string \<Rightarrow> pool \<Rightarrow> pool option" where
  "pool_assign now wid j p = (case Pool_AssignJob now wid j p of Inl _ \<Rightarrow> None | Inr p' \<Rightarrow> Some p')"

definition pool_complete :: "string \<Rightarrow> string \<Rightarrow> pool \<Rightarrow> pool" where
  "pool_complete wid j p = snd (Pool_CompleteJob wid j p)"

lemma Pool_AssignJob_Inr:
  "Pool_AssignJob now wid j p = Inr p' \<longleftrightarrow>
   (\<exists>w. mget p wid = Some w \<and> HasCapacity w \<and> p' = mput wid (w\<lparr>w_active := mput j now (w_active w)\<rparr>) p)"
  by (auto simp: Pool_AssignJob_def split: option.splits)

lemma pool_assign_Some: "pool_assign now wid j p = Some p' \<longleftrightarrow> Pool_AssignJob now wid j p = Inr p'"
  by (auto simp: pool_assign_def split: sum.splits)

interpretation gpu_slots: slot_tracker pool_inv "pool_jobs wid" "pool_slots wid"
  "pool_assign now wid" "pool_complete wid" for now wid
proof (unfold_locales, goal_cases)
  case (1 p)
  then show ?case
    by (auto simp: pool_jobs_def worker_ok_def wf_map_def dest!: pool_inv_get split: option.splits)
next
  case (2 p j p')
  then show ?case
    using Pool_AssignJob_inv [of p now wid j p']
    by (clarsimp simp: pool_assign_Some Pool_AssignJob_Inr pool_jobs_def pool_slots_def) blast
next
  case (3 p j)
  then show ?case
    by (auto simp: pool_assign_def Pool_AssignJob_def pool_jobs_def pool_slots_def HasCapacity_def
        split: option.splits)
next
  case (4 p j)
  then show ?case
    using Pool_CompleteJob_inv [of p wid j]
    by (auto simp: pool_complete_def Pool_CompleteJob_def pool_jobs_def pool_slots_def
        split: option.splits)
qed

section \<open>Runs of the pool\<close>

datatype pool_op =
    PAdd int string gpu_caps int
  | PRemove string
  | PHeartbeat int string
  | PUpdate string gpu_caps
  | PAssign int string string
  | PComplete string string

fun pool_step :: "pool_op \<Rightarrow> pool \<Rightarrow> pool" where
  "pool_step (PAdd now wid caps m) p = (case Pool_Add now wid caps m p of Inl _ \<Rightarrow> p | Inr p' \<Rightarrow> p')"
| "pool_step (PRemove wid) p = snd (Pool_Remove wid p)"
| "pool_step (PHeartbeat now wid) p = snd (Pool_Heartbeat now wid p)"
| "pool_step (PUpdate wid caps) p = snd (Pool_UpdateCapabilities wid caps p)"
| "pool_step (PAssign now wid j) p = (case Pool_AssignJob now wid j p of Inl _ \<Rightarrow> p | Inr p' \<Rightarrow> p')"
| "pool_step (PComplete wid j) p = snd (Pool_CompleteJob wid j p)"

fun pool_run :: "pool_op list \<Rightarrow> pool \<Rightarrow> pool" where
  "pool_run [] p = p"
| "pool_run (op # ops) p = pool_run ops (pool_step op p)"

text \<open>No worker has more jobs than slots.\<close>

definition within_slots :: "pool \<Rightarrow> bool" where
  "within_slots p \<longleftrightarrow> (\<forall>wid. int (length (pool_jobs wid p)) \<le> pool_slots wid p)"

text \<open>
  What a run must not do for that: register a worker with a negative number of slots, or
  announce fewer slots than the jobs then active.
\<close>

fun op_fits :: "pool \<Rightarrow> pool_op \<Rightarrow> bool" where
  "op_fits p (PAdd now wid caps m) = (0 \<le> m)"
| "op_fits p (PUpdate wid caps) =
     (gc_slots caps \<le> 0 \<or> int (length (pool_jobs wid p)) \<le> gc_slots caps)"
| "op_fits p op = True"

fun run_fits :: "pool \<Rightarrow> pool_op list \<Rightarrow> bool" where
  "run_fits p [] = True"
| "run_fits p (op # ops) = (op_fits p op \<and> run_fits (pool_step op p) ops)"

lemma pool_step_inv: "pool_inv p \<Longrightarrow> pool_inv (pool_step op p)"
  by (cases op) (auto intro: pool_op_inv split: sum.splits)

lemma pool_run_inv: "pool_inv p \<Longrightarrow> pool_inv (pool_run ops p)"
  by (induction ops arbitrary: p) (auto intro: pool_step_inv)

lemma within_slotsD: "within_slots p \<Longrightarrow> mget p wid = Some w \<Longrightarrow> int (length (w_active w)) \<le> w_max w"
  unfolding within_slots_def pool_jobs_def pool_slots_def
  by (metis length_map option.simps(5))

lemma within_slotsI:
  "(\<And>wid w. mget p wid = Some w \<Longrightarrow> int (length (w_active w)) \<le> w_max w) \<Longrightarrow> within_slots p"
  by (auto simp: within_slots_def pool_jobs_def pool_slots_def split: option.splits)

lemma within_slots_mput:
  "within_slots p \<Longrightarrow> int (length (w_active w)) \<le> w_max w \<Longrightarrow> within_slots (mput wid w p)"
  by (rule within_slotsI) (auto dest: within_slotsD split: if_splits)

lemma within_slots_mdel: "within_slots p \<Longrightarrow> within_slots (mdel wid p)"
  by (rule within_slotsI) (auto dest: within_slotsD split: if_splits)

lemma assigned_length:
  "wf_map m \<Longrightarrow> int (length m) < n \<Longrightarrow> int (length (mput j t m)) \<le> n"
  by (simp add: length_mput)

lemma pool_step_within:
  assumes "pool_inv p" and "within_slots p" and "op_fits p op"
  shows "within_slots (pool_step op p)"
proof (cases op)
  case (PAdd now wid caps m)
  with assms show ?thesis
    by (auto simp: Pool_Add_def intro!: within_slots_mput split: option.splits)
next
  case (PRemove wid)
  with assms show ?thesis
    by (auto simp: Pool_Remove_def intro: within_slots_mdel split: option.splits)
next
  case (PHeartbeat now wid)
  with assms show ?thesis
    by (auto simp: Pool_Heartbeat_def intro!: within_slots_mput dest: within_slotsD split: option.splits)
next
  case (PUpdate wid caps)
  with assms show ?thesis
    by (auto simp: Pool_UpdateCapabilities_def Let_def pool_jobs_def intro!: within_slots_mput
        dest: within_slotsD split: option.splits)
next
  case (PAssign now wid j)
  with assms show ?thesis
    by (auto simp: Pool_AssignJob_def HasCapacity_def worker_ok_def
        intro!: within_slots_mput assigned_length dest!: pool_inv_get split: option.splits if_splits)
next
  case (PComplete wid j)
  have "int (length (mdel j (w_active w))) \<le> w_max w" if "mget p wid = Some w" for w
    using within_slotsD [OF assms(2) that] length_mdel_le [of j "w_active w"] by linarith
  with PComplete assms show ?thesis
    by (auto simp: Pool_CompleteJob_def intro!: within_slots_mput split: option.splits)
qed

lemma pool_run_within:
  "pool_inv p \<Longrightarrow> within_slots p \<Longrightarrow> run_fits p ops \<Longrightarrow> within_slots (pool_run ops p)"
  by (induction ops arbitrary: p) (auto intro: pool_step_within pool_step_inv)

section \<open>Selection\<close>

definition best_ok :: "pool \<Rightarrow> string \<times> int \<Rightarrow> bool" where
  "best_ok seen best \<longleftrightarrow>
     (case best of (wid, load) \<Rightarrow>
        if load = -1 then wid = [] \<and> (\<forall>(i, w) \<in> set seen. \<not> HasCapacity w)
        else (\<exists>w. (wid, w) \<in> set seen \<and> HasCapacity w \<and> load = int (length (w_active w))) \<and>
             (\<forall>(i, w) \<in> set seen. HasCapacity w \<longrightarrow> load \<le> int (length (w_active w))))"

lemma select_loop_ok: "best_ok seen best \<Longrightarrow> best_ok (seen @ ws) (select_loop ws best)"
proof (induction ws best arbitrary: seen rule: select_loop.induct)
  case (1 best)
  then show ?case by simp
next
  case (2 wid w ws bestID bestLoad)
  let ?load = "int (length (w_active w))"
  show ?case
  proof (cases "HasCapacity w")
    case False
    with 2(4) have "best_ok (seen @ [(wid, w)]) (bestID, bestLoad)"
      by (auto simp: best_ok_def split: if_splits)
    from 2(1) [OF False this] False show ?thesis by simp
  next
    case cap: True
    show ?thesis
    proof (cases "bestLoad = -1 \<or> ?load < bestLoad")
      case True
      with 2(4) cap have "best_ok (seen @ [(wid, w)]) (wid, ?load)"
        by (fastforce simp: best_ok_def split: if_splits)
      from 2(2) [OF _ refl True this] cap True show ?thesis by (simp add: Let_def)
    next
      case False
      with 2(4) cap have "best_ok (seen @ [(wid, w)]) (bestID, bestLoad)"
        by (auto simp: best_ok_def split: if_splits)
      from 2(3) [OF _ refl False this] cap False show ?thesis by (simp add: Let_def)
    qed
  qed
qed

lemma SelectWorker_best: "best_ok p (select_loop p ([], -1))"
  using select_loop_ok [of "[]" "([], -1)" p] by (simp add: best_ok_def)

section \<open>Properties\<close>


abbreviation demo_caps :: "int \<Rightarrow> gpu_caps" where
  "demo_caps n \<equiv> \<lparr>gc_backend = ''llama.cpp'', gc_model = ''m'', gc_ctx = 4096, gc_vram = NInt 24,
     gc_params = ''8B'', gc_slots = n\<rparr>"

abbreviation demo_pool :: pool where
  "demo_pool \<equiv>
     [(''a'', \<lparr>w_id = ''a'', w_caps = demo_caps 2, w_active = [(''j'', 1)], w_max = 2, w_connected = 0, w_heartbeat = 0\<rparr>),
      (''b'', \<lparr>w_id = ''b'', w_caps = demo_caps 2, w_active = [], w_max = 2, w_connected = 0, w_heartbeat = 0\<rparr>)]"


text \<open>
  C19: \<open>SelectWorker\<close> gives a registered worker with a free slot and, among those, one with the
  fewest jobs; it gives none exactly when no worker has a free slot.
\<close>

theorem select_worker_least_loaded:
  assumes "\<forall>(i, w) \<in> set p. i \<noteq> []"
  shows "(SelectWorker p = [] \<longleftrightarrow> (\<forall>(i, w) \<in> set p. \<not> HasCapacity w)) \<and>
    (SelectWorker p \<noteq> [] \<longrightarrow> (\<exists>w. (SelectWorker p, w) \<in> set p \<and> HasCapacity w \<and>
       (\<forall>(i, w') \<in> set p. HasCapacity w' \<longrightarrow> length (w_active w) \<le> length (w_active w'))))"
proof -
  obtain wid load where best: "select_loop p ([], -1) = (wid, load)" by fastforce
  with SelectWorker_best [of p] have ok: "best_ok p (wid, load)" by simp
  show ?thesis
  proof (cases "load = -1")
    case True
    with ok best show ?thesis by (auto simp: best_ok_def SelectWorker_def)
  next
    case False
    with ok obtain w where w: "(wid, w) \<in> set p" "HasCapacity w" "load = int (length (w_active w))"
      "\<forall>(i, w') \<in> set p. HasCapacity w' \<longrightarrow> load \<le> int (length (w_active w'))"
      by (auto simp: best_ok_def)
    moreover from w(1) assms have "wid \<noteq> []" by auto
    ultimately show ?thesis using best by (force simp: SelectWorker_def)
  qed
qed

theorem select_worker_least_loaded_witness:
  "SelectWorker demo_pool = ''b'' \<and>
   (\<exists>w. (SelectWorker demo_pool, w) \<in> set demo_pool \<and> HasCapacity w)"
proof -
  have names: "\<forall>(i, w) \<in> set demo_pool. i \<noteq> []" by simp
  have b: "SelectWorker demo_pool = ''b''" by code_simp
  have "SelectWorker demo_pool \<noteq> []" by code_simp
  from mp [OF conjunct2 [OF select_worker_least_loaded [OF names]] this]
  have "\<exists>w. (SelectWorker demo_pool, w) \<in> set demo_pool \<and> HasCapacity w"
    by (elim exE conjE) (intro exI conjI)
  with b show ?thesis by (rule conjI)
qed

end
