(* ===== verification/Json_Parse.thy ===== *)
theory Json_Parse
  imports Json
begin

text \<open>
  Reading the text of a JSON document, as the decoder of \<open>encoding/json\<close> does: the grammar of
  RFC 8259 with white space between tokens, escapes in strings (a surrogate pair is one
  code point, a lone surrogate is U+FFFD) and the text of a number kept when it is not an
  integer literal.  The recursion takes fuel; \<open>json_parse\<close> starts it with more than the text can
  use.  The lemmas show that the text \<open>json_text\<close> writes is read back as the same document.
\<close>

section \<open>Strings\<close>

definition hex_val :: "char \<Rightarrow> nat option" where
  "hex_val c =
     (let n = (of_char c :: nat) in
      if 48 \<le> n \<and> n \<le> 57 then Some (n - 48)
      else if 97 \<le> n \<and> n \<le> 102 then Some (n - 87)
      else if 65 \<le> n \<and> n \<le> 70 then Some (n - 55)
      else None)"

definition hex4 :: "char \<Rightarrow> char \<Rightarrow> char \<Rightarrow> char \<Rightarrow> nat option" where
  "hex4 a b c d =
     (case (hex_val a, hex_val b, hex_val c, hex_val d) of
        (Some w, Some x, Some y, Some z) \<Rightarrow> Some (((w * 16 + x) * 16 + y) * 16 + z)
      | _ \<Rightarrow> None)"

definition utf8_encode :: "nat \<Rightarrow> string" where
  "utf8_encode n =
     (if n < 128 then [char_of n]
      else if n < 2048 then [char_of (192 + n div 64), char_of (128 + n mod 64)]
      else if n < 65536 then
        [char_of (224 + n div 4096), char_of (128 + n div 64 mod 64), char_of (128 + n mod 64)]
      else
        [char_of (240 + n div 262144), char_of (128 + n div 4096 mod 64),
         char_of (128 + n div 64 mod 64), char_of (128 + n mod 64)])"

definition simple_escape :: "char \<Rightarrow> char option" where
  "simple_escape c =
     (if c = CHR 0x22 \<or> c = CHR 0x5C \<or> c = CHR ''/'' then Some c
      else if c = CHR ''b'' then Some (CHR 0x08)
      else if c = CHR ''f'' then Some (CHR 0x0C)
      else if c = CHR ''n'' then Some (CHR 0x0A)
      else if c = CHR ''r'' then Some (CHR 0x0D)
      else if c = CHR ''t'' then Some (CHR 0x09)
      else None)"

definition high_surrogate :: "nat \<Rightarrow> bool" where
  "high_surrogate n \<longleftrightarrow> 55296 \<le> n \<and> n < 56320"

definition low_surrogate :: "nat \<Rightarrow> bool" where
  "low_surrogate n \<longleftrightarrow> 56320 \<le> n \<and> n < 57344"

text \<open>The code point of an escape with value \<open>n\<close>, and what is left of the text after it.\<close>

definition u_rune :: "nat \<Rightarrow> string \<Rightarrow> string \<times> string" where
  "u_rune n rest =
     (if \<not> high_surrogate n then
        (utf8_encode (if low_surrogate n then 65533 else n), rest)
      else
        (case rest of
           x # y # a # b # c # d # rest' \<Rightarrow>
             (case hex4 a b c d of
                Some m \<Rightarrow>
                  if x = CHR 0x5C \<and> y = CHR ''u'' \<and> low_surrogate m
                  then (utf8_encode (65536 + (n - 55296) * 1024 + (m - 56320)), rest')
                  else (utf8_encode 65533, rest)
              | None \<Rightarrow> (utf8_encode 65533, rest))
         | _ \<Rightarrow> (utf8_encode 65533, rest)))"

lemma length_u_rune: "length (snd (u_rune n rest)) \<le> length rest"
  by (auto simp: u_rune_def split: list.splits option.splits)

text \<open>The rest of a string literal after its opening quote: its value and the text after it.\<close>

function lex_str :: "string \<Rightarrow> (string \<times> string) option" where
  "lex_str [] = None"
| "lex_str (c # cs) =
     (if c = CHR 0x22 then Some ([], cs)
      else if c = CHR 0x5C then
        (case cs of
           e # r \<Rightarrow>
             (case simple_escape e of
                Some x \<Rightarrow> (case lex_str r of None \<Rightarrow> None | Some (s, rest) \<Rightarrow> Some (x # s, rest))
              | None \<Rightarrow>
                  if e \<noteq> CHR ''u'' then None
                  else (case r of
                     h1 # h2 # h3 # h4 # r' \<Rightarrow>
                       (case hex4 h1 h2 h3 h4 of
                          None \<Rightarrow> None
                        | Some n \<Rightarrow>
                            (case lex_str (snd (u_rune n r')) of
                               None \<Rightarrow> None
                             | Some (s, rest) \<Rightarrow> Some (fst (u_rune n r') @ s, rest)))
                   | _ \<Rightarrow> None))
         | [] \<Rightarrow> None)
      else if (of_char c :: nat) < 32 then None
      else (case lex_str cs of None \<Rightarrow> None | Some (s, rest) \<Rightarrow> Some (c # s, rest)))"
  by pat_completeness auto
termination
  by (relation "measure length") (auto intro: le_less_trans [OF length_u_rune])

section \<open>Numbers\<close>

text \<open>A run of digits, at least one; \<open>None\<close> when there is none.\<close>

definition lex_digits :: "string \<Rightarrow> (string \<times> string) option" where
  "lex_digits s =
     (let ds = takeWhile is_digit s in
      if ds = [] then None else Some (ds, dropWhile is_digit s))"

text \<open>The integer part: no leading zero.\<close>

definition lex_int :: "string \<Rightarrow> (string \<times> string) option" where
  "lex_int s =
     (case s of
        [] \<Rightarrow> None
      | c # cs \<Rightarrow> if c = CHR ''0'' then Some ([c], cs) else lex_digits s)"

definition lex_frac :: "string \<Rightarrow> (string \<times> string) option" where
  "lex_frac s =
     (case s of
        [] \<Rightarrow> Some ([], [])
      | c # cs \<Rightarrow>
          if c = CHR ''.'' then
            (case lex_digits cs of None \<Rightarrow> None | Some (ds, r) \<Rightarrow> Some (c # ds, r))
          else Some ([], s))"

definition lex_exp :: "string \<Rightarrow> (string \<times> string) option" where
  "lex_exp s =
     (case s of
        [] \<Rightarrow> Some ([], [])
      | c # cs \<Rightarrow>
          if c = CHR ''e'' \<or> c = CHR ''E'' then
            (let (sg, t) = (case cs of
                  x # r \<Rightarrow> if x = CHR ''+'' \<or> x = CHR ''-'' then ([x], r) else ([], cs)
                | [] \<Rightarrow> ([], cs))
             in (case lex_digits t of None \<Rightarrow> None | Some (ds, r) \<Rightarrow> Some (c # sg @ ds, r)))
          else Some ([], s))"

definition lex_number :: "string \<Rightarrow> (number \<times> string) option" where
  "lex_number s =
     (let (neg, t) = (case s of c # cs \<Rightarrow> if c = CHR ''-'' then (True, cs) else (False, s) | [] \<Rightarrow> (False, s)) in
      case lex_int t of
        None \<Rightarrow> None
      | Some (i, r) \<Rightarrow>
          (case lex_frac r of
             None \<Rightarrow> None
           | Some (f, r') \<Rightarrow>
               (case lex_exp r' of
                  None \<Rightarrow> None
                | Some (e, r'') \<Rightarrow>
                    if f = [] \<and> e = [] then
                      Some (NInt (if neg then - int (nat_of_digits i) else int (nat_of_digits i)), r'')
                    else Some (NLit ((if neg then ''-'' else []) @ i @ f @ e), r''))))"

section \<open>Documents\<close>

definition json_space :: "char \<Rightarrow> bool" where
  "json_space c \<longleftrightarrow> c \<in> {CHR '' '', CHR 0x09, CHR 0x0A, CHR 0x0D}"

definition skip_ws :: "string \<Rightarrow> string" where
  "skip_ws s = dropWhile json_space s"

fun p_value :: "nat \<Rightarrow> string \<Rightarrow> (json \<times> string) option"
  and p_elems :: "nat \<Rightarrow> string \<Rightarrow> (json list \<times> string) option"
  and p_members :: "nat \<Rightarrow> string \<Rightarrow> ((string \<times> json) list \<times> string) option" where
  "p_value 0 s = None"
| "p_value (Suc n) s =
     (case skip_ws s of
        [] \<Rightarrow> None
      | c # cs \<Rightarrow>
          if c = CHR 0x22 then
            (case lex_str cs of None \<Rightarrow> None | Some (x, r) \<Rightarrow> Some (JStr x, r))
          else if c = CHR ''['' then
            (case skip_ws cs of
               [] \<Rightarrow> None
             | d # ds \<Rightarrow>
                 if d = CHR '']'' then Some (JArr [], ds)
                 else (case p_elems n cs of None \<Rightarrow> None | Some (js, r) \<Rightarrow> Some (JArr js, r)))
          else if c = CHR ''{'' then
            (case skip_ws cs of
               [] \<Rightarrow> None
             | d # ds \<Rightarrow>
                 if d = CHR ''}'' then Some (JObj [], ds)
                 else (case p_members n cs of None \<Rightarrow> None | Some (ms, r) \<Rightarrow> Some (JObj ms, r)))
          else if HasPrefix (c # cs) ''null'' then Some (JNull, drop 4 (c # cs))
          else if HasPrefix (c # cs) ''true'' then Some (JBool True, drop 4 (c # cs))
          else if HasPrefix (c # cs) ''false'' then Some (JBool False, drop 5 (c # cs))
          else (case lex_number (c # cs) of None \<Rightarrow> None | Some (x, r) \<Rightarrow> Some (JNum x, r)))"
| "p_elems 0 s = None"
| "p_elems (Suc n) s =
     (case p_value n s of
        None \<Rightarrow> None
      | Some (j, r) \<Rightarrow>
          (case skip_ws r of
             [] \<Rightarrow> None
           | c # cs \<Rightarrow>
               if c = CHR '']'' then Some ([j], cs)
               else if c = CHR '','' then
                 (case p_elems n cs of None \<Rightarrow> None | Some (js, r') \<Rightarrow> Some (j # js, r'))
               else None))"
| "p_members 0 s = None"
| "p_members (Suc n) s =
     (case skip_ws s of
        [] \<Rightarrow> None
      | q # qs \<Rightarrow>
          if q \<noteq> CHR 0x22 then None
          else
            (case lex_str qs of
               None \<Rightarrow> None
             | Some (k, r) \<Rightarrow>
                 (case skip_ws r of
                    [] \<Rightarrow> None
                  | c # cs \<Rightarrow>
                      if c \<noteq> CHR '':'' then None
                      else
                        (case p_value n cs of
                           None \<Rightarrow> None
                         | Some (j, r') \<Rightarrow>
                             (case skip_ws r' of
                                [] \<Rightarrow> None
                              | d # ds \<Rightarrow>
                                  if d = CHR ''}'' then Some ([(k, j)], ds)
                                  else if d = CHR '','' then
                                    (case p_members n ds of
                                       None \<Rightarrow> None
                                     | Some (ms, r'') \<Rightarrow> Some ((k, j) # ms, r''))
                                  else None)))))"

definition json_parse :: "string \<Rightarrow> json option" where
  "json_parse s =
     (case p_value (2 * length s + 1) s of
        None \<Rightarrow> None
      | Some (j, r) \<Rightarrow> if skip_ws r = [] then Some j else None)"

definition json_valid :: "string \<Rightarrow> bool" where
  "json_valid s \<longleftrightarrow> json_parse s \<noteq> None"

text \<open>\<open>json.Unmarshal\<close> of a text: a text that is not JSON leaves the target alone.\<close>

definition Unmarshal :: "'a decoder \<Rightarrow> string \<Rightarrow> 'a \<Rightarrow> 'a \<times> bool" where
  "Unmarshal d s cur = (case json_parse s of None \<Rightarrow> (cur, False) | Some j \<Rightarrow> d j cur)"

section \<open>What \<open>json_text\<close> writes is read back\<close>

lemma hex_val_digit: "n < 16 \<Longrightarrow> hex_val (hex_digit n) = Some n"
  by (auto simp: hex_val_def hex_digit_def Let_def)

lemma hex4_u: "n < 128 \<Longrightarrow>
    hex4 (CHR ''0'') (CHR ''0'') (hex_digit (n div 16)) (hex_digit (n mod 16)) = Some n"
  by (simp add: hex4_def hex_val_digit) (simp add: hex_val_def)

lemma u_rune_ascii: "n < 128 \<Longrightarrow> u_rune n t = ([char_of n], t)"
  by (simp add: u_rune_def high_surrogate_def low_surrogate_def utf8_encode_def)

lemma lex_str_u:
  "n < 128 \<Longrightarrow> lex_str (u_escape n @ t) =
   (case lex_str t of None \<Rightarrow> None | Some (s, rest) \<Rightarrow> Some (char_of n # s, rest))"
  by (simp add: u_escape_def hex4_u u_rune_ascii simple_escape_def split: option.split)

lemma char_eq_of: "(of_char c :: nat) = n \<Longrightarrow> c = char_of n"
  by (metis char_of_char)

lemma control_chars:
  "char_of (8::nat) = CHR 0x08" "char_of (12::nat) = CHR 0x0C" "char_of (10::nat) = CHR 0x0A"
  "char_of (13::nat) = CHR 0x0D" "char_of (9::nat) = CHR 0x09" "char_of (48::nat) = CHR ''0''"
  by (simp_all add: char_of_eq_iff)

lemma lex_str_quote_char:
  "lex_str (quote_char c @ t) =
   (case lex_str t of None \<Rightarrow> None | Some (s, rest) \<Rightarrow> Some (c # s, rest))"
proof -
  let ?n = "of_char c :: nat"
  have c: "char_of ?n = c" by simp
  consider (esc) "c = CHR 0x22 \<or> c = CHR 0x5C"
    | (ctl) "?n = 8 \<or> ?n = 12 \<or> ?n = 10 \<or> ?n = 13 \<or> ?n = 9"
    | (u) "\<not> (c = CHR 0x22 \<or> c = CHR 0x5C)"
        "\<not> (?n = 8 \<or> ?n = 12 \<or> ?n = 10 \<or> ?n = 13 \<or> ?n = 9)"
        "?n < 32 \<or> c = CHR ''<'' \<or> c = CHR ''>'' \<or> c = CHR ''&''"
    | (plain) "\<not> (c = CHR 0x22 \<or> c = CHR 0x5C)"
        "\<not> (?n < 32 \<or> c = CHR ''<'' \<or> c = CHR ''>'' \<or> c = CHR ''&'')"
    by blast
  then show ?thesis
  proof cases
    case esc
    then show ?thesis by (auto simp: quote_char_def simple_escape_def)
  next
    case ctl
    then have "c = CHR 0x08 \<or> c = CHR 0x0C \<or> c = CHR 0x0A \<or> c = CHR 0x0D \<or> c = CHR 0x09"
      by (auto dest!: char_eq_of simp: control_chars)
    then show ?thesis by (elim disjE) (auto simp: quote_char_def simple_escape_def)
  next
    case u
    then have "quote_char c = u_escape ?n" by (simp add: quote_char_def Let_def)
    moreover from u have "?n < 128" by auto
    ultimately show ?thesis by (simp add: lex_str_u split: option.split)
  next
    case plain
    then have "quote_char c = [c]"
      by (simp add: quote_char_def Let_def)
    with plain show ?thesis by simp
  qed
qed

lemma lex_str_quote: "lex_str (concat (map quote_char s) @ CHR 0x22 # rest) = Some (s, rest)"
  by (induction s) (simp_all add: lex_str_quote_char del: lex_str.simps(2), simp)

text \<open>What may follow a value in a compact text.\<close>

definition delim :: "string \<Rightarrow> bool" where
  "delim rest \<longleftrightarrow> rest = [] \<or> hd rest \<in> {CHR '','', CHR '']'', CHR ''}''}"

lemma delim_simps [simp]: "delim []" "delim (CHR '','' # r)" "delim (CHR '']'' # r)" "delim (CHR ''}'' # r)"
  by (auto simp: delim_def)

lemma delim_not_digit: "delim (x # xs) \<Longrightarrow> \<not> is_digit x"
  by (auto simp: delim_def is_digit_def)

lemma delim_takeWhile: "delim r \<Longrightarrow> takeWhile is_digit r = []"
  by (cases r) (auto dest: delim_not_digit)

lemma delim_dropWhile: "delim r \<Longrightarrow> dropWhile is_digit r = r"
  by (cases r) (auto dest: delim_not_digit)

lemma span_append:
  "delim rest \<Longrightarrow> takeWhile is_digit (s @ rest) = takeWhile is_digit s \<and>
   dropWhile is_digit (s @ rest) = dropWhile is_digit s @ rest"
  by (induction s) (auto simp: delim_takeWhile delim_dropWhile)

lemma lex_digits_append: "delim rest \<Longrightarrow> lex_digits s = Some (ds, r) \<Longrightarrow> lex_digits (s @ rest) = Some (ds, r @ rest)"
  using span_append [of rest s] by (auto simp: lex_digits_def Let_def split: if_splits)

lemma lex_int_append: "delim rest \<Longrightarrow> lex_int s = Some (ds, r) \<Longrightarrow> lex_int (s @ rest) = Some (ds, r @ rest)"
  using lex_digits_append [of rest s] by (auto simp: lex_int_def split: list.splits if_splits)

lemma lex_frac_append: "delim rest \<Longrightarrow> lex_frac s = Some (ds, r) \<Longrightarrow> lex_frac (s @ rest) = Some (ds, r @ rest)"
proof (cases s)
  case Nil
  then show "delim rest \<Longrightarrow> lex_frac s = Some (ds, r) \<Longrightarrow> ?thesis"
    by (cases rest) (auto simp: lex_frac_def delim_def)
next
  case (Cons c cs)
  assume d: "delim rest" and e: "lex_frac s = Some (ds, r)"
  with Cons lex_digits_append [OF d] show ?thesis
    by (fastforce simp: lex_frac_def split: if_splits option.splits)
qed

lemma lex_exp_append: "delim rest \<Longrightarrow> lex_exp s = Some (ds, r) \<Longrightarrow> lex_exp (s @ rest) = Some (ds, r @ rest)"
proof (cases s)
  case Nil
  then show "delim rest \<Longrightarrow> lex_exp s = Some (ds, r) \<Longrightarrow> ?thesis"
    by (cases rest) (auto simp: lex_exp_def delim_def)
next
  case (Cons c cs)
  assume d: "delim rest" and e: "lex_exp s = Some (ds, r)"
  show ?thesis
  proof (cases cs)
    case Nil
    with Cons d e show ?thesis
      by (auto simp: lex_exp_def lex_digits_def split: if_splits)
  next
    case (Cons x xs)
    with \<open>s = c # cs\<close> d e lex_digits_append [OF d] show ?thesis
      by (fastforce simp: lex_exp_def Let_def split: if_splits option.splits)
  qed
qed

lemma lex_number_append:
  assumes d: "delim rest" and e: "lex_number s = Some (x, r)"
  shows "lex_number (s @ rest) = Some (x, r @ rest)"
proof -
  obtain neg t where t: "(case s of c # cs \<Rightarrow> if c = CHR ''-'' then (True, cs) else (False, s) | [] \<Rightarrow> (False, s)) = (neg, t)"
    by fastforce
  from e t obtain i u f v g w where
    i: "lex_int t = Some (i, u)" and f: "lex_frac u = Some (f, v)" and g: "lex_exp v = Some (g, w)"
    by (auto simp: lex_number_def split: option.splits)
  from i t have t': "(case s @ rest of c # cs \<Rightarrow> if c = CHR ''-'' then (True, cs) else (False, s @ rest)
      | [] \<Rightarrow> (False, s @ rest)) = (neg, t @ rest)"
    by (cases s) (auto simp: lex_int_def split: if_splits)
  show ?thesis
    using e
    unfolding lex_number_def t t'
    by (auto simp: i f g lex_int_append [OF d i] lex_frac_append [OF d f] lex_exp_append [OF d g]
        split: if_splits)
qed

text \<open>
  A document whose other number literals are in fact number literals, and not integer ones;
  every document \<open>json_parse\<close> returns is one.
\<close>

definition wf_number :: "number \<Rightarrow> bool" where
  "wf_number n = (case n of NInt i \<Rightarrow> True | NLit l \<Rightarrow> lex_number l = Some (NLit l, []))"

fun wf_json :: "json \<Rightarrow> bool" where
  "wf_json (JNum n) = wf_number n"
| "wf_json (JArr js) = list_all wf_json js"
| "wf_json (JObj kvs) = list_all (\<lambda>(k, j). wf_json j) kvs"
| "wf_json j = True"

lemma digits_of_head: "0 < n \<Longrightarrow> hd (digits_of n) \<noteq> CHR ''0''"
proof (induction n rule: digits_of.induct)
  case (1 n)
  show ?case
  proof (cases "n < 10")
    case True
    then have "n \<in> {1, 2, 3, 4, 5, 6, 7, 8, 9}" using 1(2) by auto
    with True show ?thesis by (subst digits_of.simps) (auto simp: char_of_eq_iff)
  next
    case False
    with 1(1) show ?thesis by (subst digits_of.simps) auto
  qed
qed

lemma lex_digits_of: "lex_digits (digits_of n) = Some (digits_of n, [])"
  using digits_of_digits [of n]
  by (simp add: lex_digits_def list_all_iff takeWhile_eq_all_conv [THEN iffD2] dropWhile_eq_Nil_conv [THEN iffD2])

lemma lex_int_digits_of: "lex_int (digits_of n) = Some (digits_of n, [])"
proof (cases "n = 0")
  case True
  then show ?thesis by (simp add: digits_of.simps [of 0] lex_int_def control_chars)
next
  case False
  then show ?thesis
    using digits_of_head [of n] lex_digits_of [of n] digits_of_nonempty [of n]
    by (cases "digits_of n") (auto simp: lex_int_def)
qed

lemma digits_of_no_minus: "hd (digits_of n) \<noteq> CHR ''-''"
  using digits_of_digits [of n] digits_of_nonempty [of n]
  by (cases "digits_of n") (auto simp: is_digit_def)

lemma lex_number_digits_of: "lex_number (digits_of n) = Some (NInt (int n), [])"
proof -
  obtain c cs where d: "digits_of n = c # cs" using digits_of_nonempty by (cases "digits_of n") auto
  moreover have "c \<noteq> CHR ''-''" using digits_of_no_minus [of n] d by simp
  moreover have "nat_of_digits (c # cs) = n" using nat_of_digits_of [of n] d by simp
  ultimately show ?thesis
    using lex_int_digits_of [of n] by (simp add: lex_number_def lex_frac_def lex_exp_def)
qed

lemma lex_number_Itoa: "lex_number (Itoa i) = Some (NInt i, [])"
proof (cases "i < 0")
  case True
  then show ?thesis
    using lex_int_digits_of [of "nat (- i)"]
    by (simp add: Itoa_def lex_number_def lex_frac_def lex_exp_def)
next
  case False
  then show ?thesis by (simp add: Itoa_def lex_number_digits_of)
qed

lemma wf_number_text: "wf_number x \<Longrightarrow> lex_number (json_text (JNum x)) = Some (x, [])"
  by (cases x) (simp_all add: lex_number_Itoa wf_number_def)

lemma lex_number_head: "lex_number s = Some y \<Longrightarrow> \<exists>c cs. s = c # cs \<and> (is_digit c \<or> c = CHR ''-'')"
proof (cases s)
  case Nil
  then show "lex_number s = Some y \<Longrightarrow> ?thesis" by (simp add: lex_number_def lex_int_def)
next
  case (Cons c cs)
  assume "lex_number s = Some y"
  with Cons show ?thesis
    by (auto simp: lex_number_def lex_int_def lex_digits_def Let_def is_digit_def split: if_splits option.splits)
qed

lemma digit_head_simps:
  assumes "is_digit c \<or> c = CHR ''-''"
  shows "\<not> json_space c" "c \<noteq> CHR 0x22" "c \<noteq> CHR ''[''" "c \<noteq> CHR '']''" "c \<noteq> CHR ''{''"
    "c \<noteq> CHR ''}''" "c \<noteq> CHR ''n''" "c \<noteq> CHR ''t''" "c \<noteq> CHR ''f''"
  using assms by (auto simp: json_space_def is_digit_def)

lemma p_value_number:
  assumes "lex_number s = Some (x, r)"
  shows "p_value (Suc n) s = Some (JNum x, r)"
proof -
  obtain c cs where "s = c # cs" and c: "is_digit c \<or> c = CHR ''-''"
    using lex_number_head [OF assms] by blast
  moreover have "skip_ws s = c # cs"
    using \<open>s = c # cs\<close> digit_head_simps(1) [OF c] by (simp add: skip_ws_def)
  ultimately show ?thesis
    using assms by (simp only: p_value.simps list.case HasPrefix_Cons digit_head_simps [OF c] if_False
        simp_thms option.case prod.case)
qed

lemma json_text_head:
  "wf_json j \<Longrightarrow> \<exists>c cs. json_text j = c # cs \<and> \<not> json_space c \<and> c \<noteq> CHR '']'' \<and> c \<noteq> CHR ''}''"
proof (cases j)
  case (JNum x)
  assume "wf_json j"
  with JNum obtain c cs where "json_text j = c # cs" and c: "is_digit c \<or> c = CHR ''-''"
    using lex_number_head [of "json_text j"] wf_number_text [of x] by fastforce
  then show ?thesis
    by (intro exI [of _ c] exI [of _ cs]) (simp only: digit_head_simps [OF c] simp_thms)
qed (auto simp: json_quote_def json_space_def)

lemma skip_ws_text: "wf_json j \<Longrightarrow> skip_ws (json_text j @ t) = json_text j @ t"
  using json_text_head [of j] by (auto simp: skip_ws_def)

definition reads_back :: "json \<Rightarrow> bool" where
  "reads_back j \<longleftrightarrow> (\<forall>n rest. delim rest \<longrightarrow> 2 * length (json_text j @ rest) < n \<longrightarrow>
     p_value n (json_text j @ rest) = Some (j, rest))"

lemma reads_backD:
  "reads_back j \<Longrightarrow> delim rest \<Longrightarrow> 2 * length (json_text j @ rest) < n \<Longrightarrow>
   p_value n (json_text j @ rest) = Some (j, rest)"
  by (simp add: reads_back_def)

lemma skip_ws_delim: "skip_ws (CHR '','' # r) = CHR '','' # r" "skip_ws (CHR '']'' # r) = CHR '']'' # r"
  "skip_ws (CHR ''}'' # r) = CHR ''}'' # r" "skip_ws (CHR '':'' # r) = CHR '':'' # r"
  "skip_ws (CHR 0x22 # r) = CHR 0x22 # r"
  by (simp_all add: skip_ws_def json_space_def)

lemma p_elems_text:
  "js \<noteq> [] \<Longrightarrow> \<forall>j \<in> set js. reads_back j \<Longrightarrow>
   2 * length (commas (map json_text js) @ CHR '']'' # rest) + 1 < n \<Longrightarrow>
   p_elems n (commas (map json_text js) @ CHR '']'' # rest) = Some (js, rest)"
proof (induction js arbitrary: n)
  case Nil
  then show ?case by simp
next
  case (Cons j js)
  then obtain m where n: "n = Suc m" by (cases n) auto
  show ?case
  proof (cases js)
    case Nil
    with Cons n show ?thesis
      using reads_backD [of j "CHR '']'' # rest" m] by (simp add: skip_ws_delim)
  next
    case (Cons j' js')
    let ?t = "CHR '','' # commas (map json_text js) @ CHR '']'' # rest"
    have "p_value m (json_text j @ ?t) = Some (j, ?t)"
      using Cons.prems n Cons by (intro reads_backD) auto
    moreover have "p_elems m (commas (map json_text js) @ CHR '']'' # rest) = Some (js, rest)"
      using Cons.prems n Cons by (intro Cons.IH) auto
    ultimately show ?thesis
      using Cons n by (simp add: skip_ws_delim)
  qed
qed

abbreviation member_text :: "string \<times> json \<Rightarrow> string" where
  "member_text kv \<equiv> (case kv of (k, j) \<Rightarrow> json_quote k @ '':'' @ json_text j)"

lemma p_members_text:
  "kvs \<noteq> [] \<Longrightarrow> \<forall>kv \<in> set kvs. reads_back (snd kv) \<Longrightarrow>
   2 * length (commas (map member_text kvs) @ CHR ''}'' # rest) + 1 < n \<Longrightarrow>
   p_members n (commas (map member_text kvs) @ CHR ''}'' # rest) = Some (kvs, rest)"
proof (induction kvs arbitrary: n)
  case Nil
  then show ?case by simp
next
  case (Cons kv kvs)
  then obtain m where n: "n = Suc m" by (cases n) auto
  obtain k j where kv: "kv = (k, j)" by fastforce
  show ?case
  proof (cases kvs)
    case Nil
    with Cons n kv show ?thesis
      using reads_backD [of j "CHR ''}'' # rest" m]
      by (simp add: skip_ws_delim json_quote_def lex_str_quote)
  next
    case (Cons kv' kvs')
    let ?t = "CHR '','' # commas (map member_text kvs) @ CHR ''}'' # rest"
    have "p_value m (json_text j @ ?t) = Some (j, ?t)"
      using Cons.prems n kv Cons by (intro reads_backD) auto
    moreover have "p_members m (commas (map member_text kvs) @ CHR ''}'' # rest) = Some (kvs, rest)"
      using Cons.prems n kv Cons by (intro Cons.IH) auto
    ultimately show ?thesis
      using Cons n kv by (simp add: skip_ws_delim json_quote_def lex_str_quote)
  qed
qed

lemma commas_head: "js \<noteq> [] \<Longrightarrow> \<exists>t. commas (map f js) = f (hd js) @ t"
  by (cases js; cases "tl js") auto

lemma reads_back_arr:
  assumes "list_all wf_json js" and "\<forall>j \<in> set js. reads_back j"
  shows "reads_back (JArr js)"
proof (unfold reads_back_def, intro allI impI)
  fix n rest
  assume "delim rest" and len: "2 * length (json_text (JArr js) @ rest) < n"
  then obtain m where n: "n = Suc m" by (cases n) auto
  show "p_value n (json_text (JArr js) @ rest) = Some (JArr js, rest)"
  proof (cases "js = []")
    case True
    with n show ?thesis by (simp add: skip_ws_def json_space_def)
  next
    case False
    let ?t = "commas (map json_text js) @ CHR '']'' # rest"
    have "p_elems m ?t = Some (js, rest)"
      using False assms(2) len n by (intro p_elems_text) auto
    moreover obtain c cs where "?t = c # cs" "skip_ws ?t = c # cs" "c \<noteq> CHR '']''"
      using commas_head [OF False, of json_text] json_text_head [of "hd js"] assms(1) False
      by (cases js) (auto simp: skip_ws_def)
    moreover have "skip_ws (CHR ''['' # ?t) = CHR ''['' # ?t"
      by (simp add: skip_ws_def json_space_def)
    ultimately show ?thesis using n by simp
  qed
qed

lemma reads_back_obj:
  assumes "\<forall>kv \<in> set kvs. reads_back (snd kv)"
  shows "reads_back (JObj kvs)"
proof (unfold reads_back_def, intro allI impI)
  fix n rest
  assume "delim rest" and len: "2 * length (json_text (JObj kvs) @ rest) < n"
  then obtain m where n: "n = Suc m" by (cases n) auto
  show "p_value n (json_text (JObj kvs) @ rest) = Some (JObj kvs, rest)"
  proof (cases "kvs = []")
    case True
    with n show ?thesis by (simp add: skip_ws_def json_space_def)
  next
    case False
    let ?t = "commas (map member_text kvs) @ CHR ''}'' # rest"
    have "p_members m ?t = Some (kvs, rest)"
      using False assms len n by (intro p_members_text) auto
    moreover obtain cs where "?t = CHR 0x22 # cs" "skip_ws ?t = CHR 0x22 # cs"
      using commas_head [OF False, of member_text]
      by (cases "hd kvs") (auto simp: skip_ws_def json_quote_def json_space_def)
    moreover have "skip_ws (CHR ''{'' # ?t) = CHR ''{'' # ?t"
      by (simp add: skip_ws_def json_space_def)
    ultimately show ?thesis using n by simp
  qed
qed

lemma json_text_reads_back: "wf_json j \<Longrightarrow> reads_back j"
proof (induction j)
  case (JNum x)
  show ?case
  proof (unfold reads_back_def, intro allI impI)
    fix n rest
    assume "delim rest" and "2 * length (json_text (JNum x) @ rest) < n"
    then obtain m where "n = Suc m" by (cases n) auto
    moreover have "lex_number (json_text (JNum x) @ rest) = Some (x, [] @ rest)"
      using JNum \<open>delim rest\<close> by (intro lex_number_append wf_number_text) simp_all
    ultimately show "p_value n (json_text (JNum x) @ rest) = Some (JNum x, rest)"
      by (simp only: p_value_number append_Nil)
  qed
next
  case (JStr s)
  show ?case
  proof (unfold reads_back_def, intro allI impI)
    fix n rest
    assume "2 * length (json_text (JStr s) @ rest) < n"
    then obtain m where "n = Suc m" by (cases n) auto
    then show "p_value n (json_text (JStr s) @ rest) = Some (JStr s, rest)"
      by (simp add: json_quote_def skip_ws_delim lex_str_quote)
  qed
next
  case (JArr js)
  then show ?case by (intro reads_back_arr) (auto simp: list_all_iff)
next
  case (JObj kvs)
  then show ?case by (intro reads_back_obj) (fastforce simp: list_all_iff snds.simps)
qed (auto simp: reads_back_def skip_ws_def json_space_def less_Suc_eq_0_disj numeral_eq_Suc gr0_conv_Suc
    dest!: less_imp_Suc_add)

lemma parse_json_text: "wf_json j \<Longrightarrow> json_parse (json_text j) = Some j"
  using reads_backD [OF json_text_reads_back, of j "[]" "2 * length (json_text j) + 1"]
  by (simp add: json_parse_def skip_ws_def)

lemma json_text_inj: "wf_json i \<Longrightarrow> wf_json j \<Longrightarrow> json_text i = json_text j \<Longrightarrow> i = j"
  by (metis parse_json_text option.inject)

lemma Unmarshal_text: "wf_json j \<Longrightarrow> Unmarshal d (json_text j) cur = d j cur"
  by (simp add: Unmarshal_def parse_json_text)

end
