(* ===== verification/Job_Queue.thy ===== *)
theory Job_Queue
  imports Json_Parse
begin

text \<open>
  \<open>pkg/queue\<close>: the job queue, the per-job token streams, the heartbeat keys and the sweeper
  (\<open>job_queue.go\<close>, \<open>heartbeat.go\<close>, \<open>sweeper.go\<close>).  All state is in Redis, which is not code of
  the repository: its commands are the fields of a record of functions on an opaque server
  state, an argument of every definition.  What the lemmas rely on of the commands is stated
  as named hypotheses on that record (\<open>pel_frame\<close>, \<open>pel_pending\<close>, \<open>pel_claim\<close>, \<open>pel_delconsumer\<close>,
  the documented behaviour of the Redis commands on the pending entries list of the group).

  A Go \<open>error\<close> is its text.  Log calls and the dedicated connections of \<open>NewBlockingReader\<close> are
  left out.
\<close>

section \<open>The Redis client\<close>

datatype redis_error = RedisNil | RedisErr string

fun Error_text :: "redis_error \<Rightarrow> string" where
  "Error_text RedisNil = ''redis: nil''"
| "Error_text (RedisErr s) = s"

record xmessage =
  xm_id :: string
  xm_values :: "string gomap"

type_synonym ('a, 'r) reply = "(redis_error + 'a) \<times> 'r"

text \<open>The block time of a read: \<open>None\<close> when no \<open>BLOCK\<close> is sent.\<close>

record 'r redis =
  r_XGroupCreate :: "string \<Rightarrow> string \<Rightarrow> string \<Rightarrow> 'r \<Rightarrow> (unit, 'r) reply"
  r_XAdd :: "string \<Rightarrow> string gomap \<Rightarrow> 'r \<Rightarrow> (string, 'r) reply"
  r_XReadGroup :: "string \<Rightarrow> string \<Rightarrow> string \<Rightarrow> string \<Rightarrow> int \<Rightarrow> int option \<Rightarrow> 'r \<Rightarrow>
     ((string \<times> xmessage list) list, 'r) reply"
  r_XAck :: "string \<Rightarrow> string \<Rightarrow> string \<Rightarrow> 'r \<Rightarrow> (int, 'r) reply"
  r_XDel :: "string \<Rightarrow> string \<Rightarrow> 'r \<Rightarrow> (int, 'r) reply"
  r_XAutoClaim :: "string \<Rightarrow> string \<Rightarrow> string \<Rightarrow> int \<Rightarrow> string \<Rightarrow> int \<Rightarrow> 'r \<Rightarrow> (xmessage list, 'r) reply"
  r_XLen :: "string \<Rightarrow> 'r \<Rightarrow> (int, 'r) reply"
  r_XRead :: "string \<Rightarrow> string \<Rightarrow> int \<Rightarrow> int option \<Rightarrow> 'r \<Rightarrow> ((string \<times> xmessage list) list, 'r) reply"
  r_Expire :: "string \<Rightarrow> int \<Rightarrow> 'r \<Rightarrow> (bool, 'r) reply"
  r_Del :: "string \<Rightarrow> 'r \<Rightarrow> (int, 'r) reply"
  r_Set :: "string \<Rightarrow> string \<Rightarrow> int \<Rightarrow> 'r \<Rightarrow> (unit, 'r) reply"
  r_Exists :: "string \<Rightarrow> 'r \<Rightarrow> (int, 'r) reply"
  r_Scan :: "nat \<Rightarrow> string \<Rightarrow> int \<Rightarrow> 'r \<Rightarrow> (string list \<times> nat, 'r) reply"
  r_XPending :: "string \<Rightarrow> string \<Rightarrow> 'r \<Rightarrow> (int \<times> int gomap, 'r) reply"
  r_XPendingExt :: "string \<Rightarrow> string \<Rightarrow> int \<Rightarrow> string \<Rightarrow> 'r \<Rightarrow> (string list, 'r) reply"
  r_XClaim :: "string \<Rightarrow> string \<Rightarrow> string \<Rightarrow> string list \<Rightarrow> 'r \<Rightarrow> (xmessage list, 'r) reply"
  r_XGroupDelConsumer :: "string \<Rightarrow> string \<Rightarrow> string \<Rightarrow> 'r \<Rightarrow> (int, 'r) reply"

text \<open>\<open>fmt.Errorf\<close> with \<open>%w\<close>: the prefix before the text of the error.\<close>

definition wrap :: "string \<Rightarrow> ('a, 'r) reply \<Rightarrow> (string + 'a) \<times> 'r" where
  "wrap pre res = (case res of (Inl e, r) \<Rightarrow> (Inl (pre @ Error_text e), r) | (Inr x, r) \<Rightarrow> (Inr x, r))"

section \<open>The job queue\<close>

record JobQueue =
  jq_stream :: string
  jq_group :: string

record JobPayload =
  jp_JobID :: string
  jp_Data :: string

record StreamEntry =
  se_ID :: string
  se_Payload :: JobPayload

definition NewJobQueue :: "string \<Rightarrow> string \<Rightarrow> JobQueue" where
  "NewJobQueue streamKey groupName = \<lparr>jq_stream = streamKey, jq_group = groupName\<rparr>"

definition field_or_empty :: "string gomap \<Rightarrow> string \<Rightarrow> string" where
  "field_or_empty m k = (case mget m k of None \<Rightarrow> [] | Some v \<Rightarrow> v)"

definition parseXMessages :: "xmessage list \<Rightarrow> StreamEntry list" where
  "parseXMessages ms = map (\<lambda>m. \<lparr>se_ID = xm_id m,
     se_Payload = \<lparr>jp_JobID = field_or_empty (xm_values m) ''job_id'',
                   jp_Data = field_or_empty (xm_values m) ''data''\<rparr>\<rparr>) ms"

definition parseStreamResults :: "(string \<times> xmessage list) list \<Rightarrow> StreamEntry list" where
  "parseStreamResults results = concat (map (\<lambda>(key, ms). parseXMessages ms) results)"

definition EnsureGroup :: "'r redis \<Rightarrow> JobQueue \<Rightarrow> 'r \<Rightarrow> (string + unit) \<times> 'r" where
  "EnsureGroup R q r =
     (case r_XGroupCreate R (jq_stream q) (jq_group q) ''0'' r of
        (Inl e, r') \<Rightarrow>
          if Error_text e \<noteq> ''BUSYGROUP Consumer Group name already exists''
          then (Inl (''creating consumer group: '' @ Error_text e), r')
          else (Inr (), r')
      | (Inr _, r') \<Rightarrow> (Inr (), r'))"

definition Enqueue :: "'r redis \<Rightarrow> JobQueue \<Rightarrow> string \<Rightarrow> string \<Rightarrow> 'r \<Rightarrow> (string + string) \<times> 'r" where
  "Enqueue R q jobID data r =
     wrap (''enqueuing job '' @ jobID @ '': '')
       (r_XAdd R (jq_stream q) [(''job_id'', jobID), (''data'', data)] r)"

definition JobQueue_Read ::
    "'r redis \<Rightarrow> JobQueue \<Rightarrow> string \<Rightarrow> int \<Rightarrow> 'r \<Rightarrow> (string + StreamEntry list) \<times> 'r" where
  "JobQueue_Read R q consumerName blockTimeout r =
     (case r_XReadGroup R (jq_group q) consumerName (jq_stream q) ''>'' 1 (Some blockTimeout) r of
        (Inl RedisNil, r') \<Rightarrow> (Inr [], r')
      | (Inl e, r') \<Rightarrow> (Inl (''reading from stream: '' @ Error_text e), r')
      | (Inr results, r') \<Rightarrow> (Inr (parseStreamResults results), r'))"

definition Ack :: "'r redis \<Rightarrow> JobQueue \<Rightarrow> string \<Rightarrow> 'r \<Rightarrow> (string + unit) \<times> 'r" where
  "Ack R q entryID r =
     (case r_XAck R (jq_stream q) (jq_group q) entryID r of
        (Inl e, r') \<Rightarrow> (Inl (''acknowledging message '' @ entryID @ '': '' @ Error_text e), r')
      | (Inr _, r') \<Rightarrow>
          (case r_XDel R (jq_stream q) entryID r' of
             (Inl e, r'') \<Rightarrow> (Inl (''deleting message '' @ entryID @ '': '' @ Error_text e), r'')
           | (Inr _, r'') \<Rightarrow> (Inr (), r'')))"

definition ClaimPending ::
    "'r redis \<Rightarrow> JobQueue \<Rightarrow> string \<Rightarrow> int \<Rightarrow> 'r \<Rightarrow> (string + StreamEntry list) \<times> 'r" where
  "ClaimPending R q consumerName minIdle r =
     (case r_XAutoClaim R (jq_stream q) (jq_group q) consumerName minIdle ''0-0'' 100 r of
        (Inl e, r') \<Rightarrow>
          if Error_text e = ''NOGROUP No such consumer group '' @ [CHR 0x27] @ jq_group q @
               [CHR 0x27] @ '' for key name '' @ [CHR 0x27] @ jq_stream q @ [CHR 0x27]
          then (Inr [], r')
          else (Inl (''claiming pending messages: '' @ Error_text e), r')
      | (Inr ms, r') \<Rightarrow> (Inr (parseXMessages ms), r'))"

definition ReadPending :: "'r redis \<Rightarrow> JobQueue \<Rightarrow> string \<Rightarrow> 'r \<Rightarrow> (string + StreamEntry list) \<times> 'r" where
  "ReadPending R q consumerName r =
     (case r_XReadGroup R (jq_group q) consumerName (jq_stream q) ''0'' 10 None r of
        (Inl RedisNil, r') \<Rightarrow> (Inr [], r')
      | (Inl e, r') \<Rightarrow> (Inl (''reading pending entries: '' @ Error_text e), r')
      | (Inr results, r') \<Rightarrow> (Inr (parseStreamResults results), r'))"

definition JobQueue_Len :: "'r redis \<Rightarrow> JobQueue \<Rightarrow> 'r \<Rightarrow> (string + int) \<times> 'r" where
  "JobQueue_Len R q r = wrap ''getting stream length: '' (r_XLen R (jq_stream q) r)"

section \<open>Token streams\<close>

record TokenEvent =
  te_Type :: string
  te_Data :: raw

record TokenStreamEntry =
  tse_ID :: string
  tse_Event :: TokenEvent

definition zero_TokenEvent :: TokenEvent where
  "zero_TokenEvent = \<lparr>te_Type = [], te_Data = None\<rparr>"

definition enc_TokenEvent :: "TokenEvent \<Rightarrow> json" where
  "enc_TokenEvent e = JObj ([(''type'', JStr (te_Type e))] @ opt_raw ''data'' (te_Data e))"

definition dec_TokenEvent :: "TokenEvent decoder" where
  "dec_TokenEvent = dec_struct [(''type'', fld te_Type te_Type_update dec_string),
                                (''data'', fld te_Data te_Data_update dec_raw)]"

definition streamKey :: "string \<Rightarrow> string \<Rightarrow> string" where
  "streamKey prefix jobID = prefix @ ''tokens:'' @ jobID"

definition Publish :: "'r redis \<Rightarrow> string \<Rightarrow> string \<Rightarrow> TokenEvent \<Rightarrow> 'r \<Rightarrow> (string + string) \<times> 'r" where
  "Publish R prefix jobID event r =
     wrap (''publishing token event for job '' @ jobID @ '': '')
       (r_XAdd R (streamKey prefix jobID) [(''event'', json_text (enc_TokenEvent event))] r)"

text \<open>The loop over the messages of a reply: the first one that does not parse ends it.\<close>

fun token_entries :: "xmessage list \<Rightarrow> string + TokenStreamEntry list" where
  "token_entries [] = Inr []"
| "token_entries (m # ms) =
     (case Unmarshal dec_TokenEvent (field_or_empty (xm_values m) ''event'') zero_TokenEvent of
        (ev, False) \<Rightarrow> Inl ''parsing token event''
      | (ev, True) \<Rightarrow>
          (case token_entries ms of
             Inl e \<Rightarrow> Inl e
           | Inr es \<Rightarrow> Inr (\<lparr>tse_ID = xm_id m, tse_Event = ev\<rparr> # es)))"

definition TokenStream_Read ::
    "'r redis \<Rightarrow> string \<Rightarrow> string \<Rightarrow> string \<Rightarrow> int \<Rightarrow> int \<Rightarrow> 'r \<Rightarrow> (string + TokenStreamEntry list) \<times> 'r" where
  "TokenStream_Read R prefix jobID lastID n block r =
     (case r_XRead R (streamKey prefix jobID) lastID n (if 0 < block then Some block else None) r of
        (Inl RedisNil, r') \<Rightarrow> (Inr [], r')
      | (Inl e, r') \<Rightarrow> (Inl (''reading token stream for job '' @ jobID @ '': '' @ Error_text e), r')
      | (Inr results, r') \<Rightarrow> (token_entries (concat (map snd results)), r'))"

definition SetTTL :: "'r redis \<Rightarrow> string \<Rightarrow> string \<Rightarrow> int \<Rightarrow> 'r \<Rightarrow> (string + unit) \<times> 'r" where
  "SetTTL R prefix jobID ttl r =
     (case r_Expire R (streamKey prefix jobID) ttl r of
        (Inl e, r') \<Rightarrow> (Inl (''setting TTL for job '' @ jobID @ '' token stream: '' @ Error_text e), r')
      | (Inr ok, r') \<Rightarrow> (Inr (), r'))"

definition TokenStream_Delete :: "'r redis \<Rightarrow> string \<Rightarrow> string \<Rightarrow> 'r \<Rightarrow> (string + unit) \<times> 'r" where
  "TokenStream_Delete R prefix jobID r =
     (case r_Del R (streamKey prefix jobID) r of
        (Inl e, r') \<Rightarrow> (Inl (''deleting token stream for job '' @ jobID @ '': '' @ Error_text e), r')
      | (Inr _, r') \<Rightarrow> (Inr (), r'))"

section \<open>Heartbeat keys\<close>

record Heartbeat =
  hb_prefix :: string
  hb_ttl :: int

definition hb_key :: "Heartbeat \<Rightarrow> string \<Rightarrow> string" where
  "hb_key h workerID = hb_prefix h @ ''heartbeat:'' @ workerID"

definition Heartbeat_Ping :: "'r redis \<Rightarrow> Heartbeat \<Rightarrow> string \<Rightarrow> 'r \<Rightarrow> (string + unit) \<times> 'r" where
  "Heartbeat_Ping R h workerID r =
     wrap (''refreshing heartbeat for '' @ workerID @ '': '') (r_Set R (hb_key h workerID) ''1'' (hb_ttl h) r)"

definition IsAlive :: "'r redis \<Rightarrow> Heartbeat \<Rightarrow> string \<Rightarrow> 'r \<Rightarrow> (string + bool) \<times> 'r" where
  "IsAlive R h workerID r =
     (case r_Exists R (hb_key h workerID) r of
        (Inl e, r') \<Rightarrow> (Inl (''checking heartbeat for '' @ workerID @ '': '' @ Error_text e), r')
      | (Inr n, r') \<Rightarrow> (Inr (0 < n), r'))"

definition Heartbeat_Remove :: "'r redis \<Rightarrow> Heartbeat \<Rightarrow> string \<Rightarrow> 'r \<Rightarrow> (string + unit) \<times> 'r" where
  "Heartbeat_Remove R h workerID r =
     (case r_Del R (hb_key h workerID) r of
        (Inl e, r') \<Rightarrow> (Inl (''removing heartbeat for '' @ workerID @ '': '' @ Error_text e), r')
      | (Inr _, r') \<Rightarrow> (Inr (), r'))"

text \<open>
  The SCAN loop of \<open>LiveWorkerIDs\<close>.  How many replies a scan takes is up to the server, so the
  loop may not end: \<open>None\<close> is the loop that does not return.
\<close>

partial_function (option) scan_loop ::
    "'r redis \<Rightarrow> string \<Rightarrow> nat \<Rightarrow> nat \<Rightarrow> string list \<Rightarrow> 'r \<Rightarrow> ((string + string list) \<times> 'r) option" where
  "scan_loop R pattern prefixLen cursor ids r =
     (case r_Scan R cursor pattern 100 r of
        (Inl e, r') \<Rightarrow> Some (Inl (''scanning heartbeat keys: '' @ Error_text e), r')
      | (Inr (keys, next_cursor), r') \<Rightarrow>
          (let ids' = ids @ map (drop prefixLen) (filter (\<lambda>key. prefixLen < length key) keys) in
           if next_cursor = 0 then Some (Inr ids', r')
           else scan_loop R pattern prefixLen next_cursor ids' r'))"

definition LiveWorkerIDs :: "'r redis \<Rightarrow> Heartbeat \<Rightarrow> 'r \<Rightarrow> ((string + string list) \<times> 'r) option" where
  "LiveWorkerIDs R h r =
     scan_loop R (hb_prefix h @ ''heartbeat:*'') (length (hb_prefix h @ ''heartbeat:'')) 0 [] r"

section \<open>The sweeper\<close>

definition deleteConsumer :: "'r redis \<Rightarrow> JobQueue \<Rightarrow> string \<Rightarrow> 'r \<Rightarrow> 'r" where
  "deleteConsumer R q consumer r = snd (r_XGroupDelConsumer R (jq_stream q) (jq_group q) consumer r)"

definition reclaimFromConsumer :: "'r redis \<Rightarrow> JobQueue \<Rightarrow> string \<Rightarrow> string \<Rightarrow> 'r \<Rightarrow> 'r" where
  "reclaimFromConsumer R q deadConsumer targetConsumer r =
     (case r_XPendingExt R (jq_stream q) (jq_group q) 100 deadConsumer r of
        (Inl e, r') \<Rightarrow> r'
      | (Inr ids, r') \<Rightarrow>
          if ids = [] then deleteConsumer R q deadConsumer r'
          else
            (case r_XClaim R (jq_stream q) (jq_group q) targetConsumer ids r' of
               (Inl e, r'') \<Rightarrow> r''
             | (Inr claimed, r'') \<Rightarrow> deleteConsumer R q deadConsumer r''))"

text \<open>The loop over the consumers of the summary, in the order of one iteration of its map.\<close>

fun dead_consumers :: "'r redis \<Rightarrow> Heartbeat \<Rightarrow> int gomap \<Rightarrow> 'r \<Rightarrow> string list \<times> 'r" where
  "dead_consumers R h [] r = ([], r)"
| "dead_consumers R h ((consumerName, pendingCount) # cs) r =
     (if pendingCount = 0 then dead_consumers R h cs r
      else
        (case IsAlive R h consumerName r of
           (Inl e, r') \<Rightarrow> dead_consumers R h cs r'
         | (Inr alive, r') \<Rightarrow>
             if alive then dead_consumers R h cs r'
             else (let (ds, r'') = dead_consumers R h cs r' in (consumerName # ds, r''))))"

fun reclaim_all :: "'r redis \<Rightarrow> JobQueue \<Rightarrow> string list \<Rightarrow> nat \<Rightarrow> string list \<Rightarrow> 'r \<Rightarrow> 'r" where
  "reclaim_all R q live i [] r = r"
| "reclaim_all R q live i (d # ds) r =
     reclaim_all R q live (i + 1) ds (reclaimFromConsumer R q d (live ! (i mod length live)) r)"

definition sweep :: "'r redis \<Rightarrow> JobQueue \<Rightarrow> Heartbeat \<Rightarrow> 'r \<Rightarrow> 'r option" where
  "sweep R q h r =
     (case r_XPending R (jq_stream q) (jq_group q) r of
        (Inl e, r') \<Rightarrow> Some r'
      | (Inr (pcount, consumers), r') \<Rightarrow>
          if pcount = 0 then Some r'
          else
            (let (deadConsumers, r'') = dead_consumers R h consumers r' in
             if deadConsumers = [] then Some r''
             else
               (case LiveWorkerIDs R h r'' of
                  None \<Rightarrow> None
                | Some (Inl e, r3) \<Rightarrow> Some r3
                | Some (Inr liveWorkers, r3) \<Rightarrow>
                    if liveWorkers = [] then Some r3
                    else Some (reclaim_all R q liveWorkers 0 deadConsumers r3))))"

section \<open>A token event is read as it was published\<close>

definition wf_TokenEvent :: "TokenEvent \<Rightarrow> bool" where
  "wf_TokenEvent e \<longleftrightarrow> (case te_Data e of None \<Rightarrow> True | Some j \<Rightarrow> wf_json j)"

interpretation event_codec: codec wf_TokenEvent enc_TokenEvent dec_TokenEvent zero_TokenEvent
proof
  fix e :: TokenEvent
  show "dec_TokenEvent (enc_TokenEvent e) zero_TokenEvent = (e, True)"
    by (cases "te_Data e")
      (simp_all add: dec_TokenEvent_def enc_TokenEvent_def zero_TokenEvent_def dec_struct_obj
        dec_pairs_simps fld_simps opt_raw_def dec_raw_def ToLower_def lower_char_def)
qed (simp add: enc_TokenEvent_def)

lemma wf_json_TokenEvent: "wf_TokenEvent e \<Longrightarrow> wf_json (enc_TokenEvent e)"
  by (cases "te_Data e") (simp_all add: enc_TokenEvent_def opt_raw_def wf_TokenEvent_def)

text \<open>The message Redis keeps of a published event.\<close>

definition event_message :: "string \<Rightarrow> TokenEvent \<Rightarrow> xmessage" where
  "event_message i e = \<lparr>xm_id = i, xm_values = [(''event'', json_text (enc_TokenEvent e))]\<rparr>"

lemma token_entries_published:
  "list_all (\<lambda>(i, e). wf_TokenEvent e) es \<Longrightarrow>
   token_entries (map (\<lambda>(i, e). event_message i e) es) =
   Inr (map (\<lambda>(i, e). \<lparr>tse_ID = i, tse_Event = e\<rparr>) es)"
  by (induction es)
    (auto simp: event_message_def field_or_empty_def Unmarshal_text wf_json_TokenEvent event_codec.roundtrip)

section \<open>The pending entries list under a sweep\<close>

text \<open>
  \<open>pel r\<close> is the pending entries list of the group in the server state \<open>r\<close>: pairs of an entry
  ID and the consumer that owns it.  The hypotheses: the reading commands leave it alone,
  XPENDING with a consumer lists the first entries that consumer owns, XCLAIM of entries of
  the stream makes them the target's, XGROUP DELCONSUMER drops the entries the consumer
  still owns, and a command that fails changes nothing.
\<close>

type_synonym pel = "(string \<times> string) list"

definition owned :: "string \<Rightarrow> pel \<Rightarrow> string list" where
  "owned c p = [i. (i, ow) \<leftarrow> p, ow = c]"

definition pel_frame :: "'r redis \<Rightarrow> JobQueue \<Rightarrow> ('r \<Rightarrow> pel) \<Rightarrow> bool" where
  "pel_frame R q pel \<longleftrightarrow>
     (\<forall>r. pel (snd (r_XPending R (jq_stream q) (jq_group q) r)) = pel r) \<and>
     (\<forall>k r. pel (snd (r_Exists R k r)) = pel r) \<and>
     (\<forall>c p n r. pel (snd (r_Scan R c p n r)) = pel r)"

definition pel_pending :: "'r redis \<Rightarrow> JobQueue \<Rightarrow> ('r \<Rightarrow> pel) \<Rightarrow> bool" where
  "pel_pending R q pel \<longleftrightarrow>
     (\<forall>n c r. case r_XPendingExt R (jq_stream q) (jq_group q) n c r of
        (Inl e, r') \<Rightarrow> pel r' = pel r
      | (Inr ids, r') \<Rightarrow> pel r' = pel r \<and> ids = take (nat n) (owned c (pel r)))"

definition pel_claim :: "'r redis \<Rightarrow> JobQueue \<Rightarrow> ('r \<Rightarrow> pel) \<Rightarrow> bool" where
  "pel_claim R q pel \<longleftrightarrow>
     (\<forall>c ids r. case r_XClaim R (jq_stream q) (jq_group q) c ids r of
        (Inl e, r') \<Rightarrow> pel r' = pel r
      | (Inr _, r') \<Rightarrow> pel r' = map (\<lambda>(i, ow). (i, if i \<in> set ids then c else ow)) (pel r))"

definition pel_delconsumer :: "'r redis \<Rightarrow> JobQueue \<Rightarrow> ('r \<Rightarrow> pel) \<Rightarrow> bool" where
  "pel_delconsumer R q pel \<longleftrightarrow>
     (\<forall>c r. case r_XGroupDelConsumer R (jq_stream q) (jq_group q) c r of
        (Inl e, r') \<Rightarrow> pel r' = pel r
      | (Inr _, r') \<Rightarrow> pel r' = filter (\<lambda>(i, ow). ow \<noteq> c) (pel r))"

lemma owned_iff: "i \<in> set (owned c p) \<longleftrightarrow> (i, c) \<in> set p"
  by (auto simp: owned_def)

lemma owned_Nil: "owned c p = [] \<longleftrightarrow> (\<forall>(i, ow) \<in> set p. ow \<noteq> c)"
  by (auto simp: owned_def)

text \<open>\<open>q\<close> can be reached from \<open>p\<close> by giving entries of dead consumers to live ones.\<close>

definition handed_over :: "string set \<Rightarrow> string set \<Rightarrow> pel \<Rightarrow> pel \<Rightarrow> bool" where
  "handed_over dead live p q \<longleftrightarrow>
     list_all2 (\<lambda>(i, ow) (i', ow'). i' = i \<and> (ow' = ow \<or> ow \<in> dead \<and> ow' \<in> live)) p q"

lemma handed_over_refl: "handed_over d l p p"
  by (auto simp: handed_over_def intro: list_all2_refl)

lemma handed_over_trans:
  "d' \<inter> l = {} \<Longrightarrow> d \<subseteq> d' \<Longrightarrow> l' \<subseteq> l \<Longrightarrow> handed_over d l' p q \<Longrightarrow> handed_over d' l q r \<Longrightarrow> handed_over d' l p r"
  unfolding handed_over_def by (rule list_all2_trans) (auto split: prod.splits)

lemma handed_over_ids: "handed_over d l p q \<Longrightarrow> map fst q = map fst p"
  unfolding handed_over_def by (induction rule: list_all2_induct) auto

lemma handed_over_owned:
  "handed_over d l p q \<Longrightarrow> c \<notin> l \<Longrightarrow> length (owned c q) \<le> length (owned c p)"
  unfolding handed_over_def owned_def by (induction rule: list_all2_induct) (auto split: if_splits)

definition pel_laws :: "'r redis \<Rightarrow> JobQueue \<Rightarrow> ('r \<Rightarrow> pel) \<Rightarrow> bool" where
  "pel_laws R q pel \<longleftrightarrow> pel_pending R q pel \<and> pel_claim R q pel \<and> pel_delconsumer R q pel"

lemma pel_pendingD:
  "pel_pending R q pel \<Longrightarrow> r_XPendingExt R (jq_stream q) (jq_group q) n c r = (x, r') \<Longrightarrow>
   pel r' = pel r \<and> (\<forall>ids. x = Inr ids \<longrightarrow> ids = take (nat n) (owned c (pel r)))"
  unfolding pel_pending_def
  by (drule spec [of _ n], drule spec [of _ c], drule spec [of _ r]) (auto split: sum.splits)

lemma pel_claimD:
  "pel_claim R q pel \<Longrightarrow> r_XClaim R (jq_stream q) (jq_group q) c ids r = (x, r') \<Longrightarrow>
   pel r' = (case x of Inl e \<Rightarrow> pel r | Inr _ \<Rightarrow> map (\<lambda>(i, ow). (i, if i \<in> set ids then c else ow)) (pel r))"
  unfolding pel_claim_def
  by (drule spec [of _ c], drule spec [of _ ids], drule spec [of _ r]) (auto split: sum.splits)

lemma pel_del:
  "pel_delconsumer R q pel \<Longrightarrow> pel (deleteConsumer R q c r) = pel r \<or>
   pel (deleteConsumer R q c r) = filter (\<lambda>(i, ow). ow \<noteq> c) (pel r)"
  unfolding pel_delconsumer_def deleteConsumer_def
  by (drule spec [of _ c], drule spec [of _ r])
    (cases "r_XGroupDelConsumer R (jq_stream q) (jq_group q) c r", auto split: sum.splits)

lemma pel_del_unowned:
  "pel_delconsumer R q pel \<Longrightarrow> owned c (pel r) = [] \<Longrightarrow> pel (deleteConsumer R q c r) = pel r"
  using pel_del [of R q pel c r] by (auto simp: owned_Nil filter_id_conv)

lemma claim_all:
  assumes "distinct (map fst p)" and "d \<noteq> t"
  shows "handed_over {d} {t} p (map (\<lambda>(i, ow). (i, if i \<in> set (owned d p) then t else ow)) p)"
    and "owned d (map (\<lambda>(i, ow). (i, if i \<in> set (owned d p) then t else ow)) p) = []"
proof -
  have eq: "ow = d" if "(i, ow) \<in> set p" "(i, d) \<in> set p" for i ow
    using that assms(1) by (metis eq_key_imp_eq_value)
  then show "handed_over {d} {t} p (map (\<lambda>(i, ow). (i, if i \<in> set (owned d p) then t else ow)) p)"
    by (auto simp: handed_over_def list_all2_conv_all_nth owned_iff split: prod.splits)
      (metis eq nth_mem)+
  show "owned d (map (\<lambda>(i, ow). (i, if i \<in> set (owned d p) then t else ow)) p) = []"
    using assms(2) by (auto simp: owned_Nil owned_iff split: if_splits)
qed

lemma reclaim_handed_over:
  assumes "pel_laws R q pel" and "distinct (map fst (pel r))" and "d \<noteq> t"
    and "length (owned d (pel r)) \<le> 100"
  shows "handed_over {d} {t} (pel r) (pel (reclaimFromConsumer R q d t r))"
proof -
  have pend: "pel_pending R q pel" and claim: "pel_claim R q pel" and del: "pel_delconsumer R q pel"
    using assms(1) by (simp_all add: pel_laws_def)
  obtain res r1 where x: "r_XPendingExt R (jq_stream q) (jq_group q) 100 d r = (res, r1)"
    by fastforce
  have r1: "pel r1 = pel r" using pel_pendingD [OF pend x] by simp
  show ?thesis
  proof (cases res)
    case (Inl e)
    with r1 x Inl show ?thesis by (simp add: reclaimFromConsumer_def handed_over_refl)
  next
    case (Inr ids)
    have ids: "ids = owned d (pel r)" using pel_pendingD [OF pend x] Inr assms(4) by simp
    show ?thesis
    proof (cases "ids = []")
      case True
      with x Inr ids del r1 show ?thesis
        by (simp add: reclaimFromConsumer_def handed_over_refl pel_del_unowned)
    next
      case False
      obtain res2 r2 where c: "r_XClaim R (jq_stream q) (jq_group q) t ids r1 = (res2, r2)"
        by fastforce
      show ?thesis
      proof (cases res2)
        case (Inl e)
        have "pel r2 = pel r1" using pel_claimD [OF claim c] Inl by simp
        with x Inr False c Inl r1 show ?thesis
          by (simp add: reclaimFromConsumer_def handed_over_refl)
      next
        case (Inr cl)
        have "pel r2 = map (\<lambda>(i, ow). (i, if i \<in> set ids then t else ow)) (pel r1)"
          using pel_claimD [OF claim c] Inr by simp
        with x \<open>res = Inr ids\<close> False c Inr r1 ids claim_all [OF assms(2,3)] del show ?thesis
          by (simp add: reclaimFromConsumer_def pel_del_unowned)
      qed
    qed
  qed
qed

lemma reclaim_all_handed_over:
  assumes "pel_laws R q pel" and "live \<noteq> []"
  shows "distinct (map fst (pel r)) \<Longrightarrow> set ds \<inter> set live = {} \<Longrightarrow>
    \<forall>d \<in> set ds. length (owned d (pel r)) \<le> 100 \<Longrightarrow>
    handed_over (set ds) (set live) (pel r) (pel (reclaim_all R q live i ds r))"
proof (induction ds arbitrary: i r)
  case Nil
  then show ?case by (simp add: handed_over_refl)
next
  case (Cons d ds)
  let ?t = "live ! (i mod length live)" and ?D = "set (d # ds)" and ?L = "set live"
  let ?r = "reclaimFromConsumer R q d ?t r"
  have t: "?t \<in> ?L" using assms(2) by simp
  with Cons.prems have step: "handed_over {d} {?t} (pel r) (pel ?r)"
    by (intro reclaim_handed_over assms(1)) auto
  have "handed_over (set ds) ?L (pel ?r) (pel (reclaim_all R q live (i + 1) ds ?r))"
  proof (rule Cons.IH)
    show "distinct (map fst (pel ?r))"
      using Cons.prems(1) handed_over_ids [OF step] by simp
    show "\<forall>d' \<in> set ds. length (owned d' (pel ?r)) \<le> 100"
    proof
      fix d'
      assume d': "d' \<in> set ds"
      then have "d' \<notin> {?t}" using Cons.prems(2) t by auto
      with handed_over_owned [OF step] have "length (owned d' (pel ?r)) \<le> length (owned d' (pel r))"
        by blast
      also have "\<dots> \<le> 100" using Cons.prems(3) d' by simp
      finally show "length (owned d' (pel ?r)) \<le> 100" .
    qed
  qed (use Cons.prems in auto)
  then have rest: "handed_over ?D ?L (pel ?r) (pel (reclaim_all R q live (i + 1) ds ?r))"
    unfolding handed_over_def by (rule list_all2_mono) auto
  show ?case
    using handed_over_trans [OF Cons.prems(2) _ _ step rest] t by simp
qed

lemma pel_frame_IsAlive: "pel_frame R q pel \<Longrightarrow> pel (snd (IsAlive R h c r)) = pel r"
  by (auto simp: IsAlive_def pel_frame_def split: prod.split sum.split)
    (metis snd_conv)+

lemma pel_frame_dead: "pel_frame R q pel \<Longrightarrow> pel (snd (dead_consumers R h cs r)) = pel r"
proof (induction R h cs r rule: dead_consumers.induct)
  case (2 R h c n cs r)
  then show ?case
    using pel_frame_IsAlive [of R q pel h c r]
    by (auto split: prod.split sum.split)
qed simp

lemma dead_consumers_keys: "set (fst (dead_consumers R h cs r)) \<subseteq> set (map fst cs)"
proof (induction cs arbitrary: r)
  case (Cons x cs)
  obtain c n where "x = (c, n)" by fastforce
  moreover obtain res r1 where "IsAlive R h c r = (res, r1)" by fastforce
  ultimately show ?case
    using Cons.IH [of r] Cons.IH [of r1] by (auto split: prod.splits sum.splits)
qed simp

lemma pel_frame_scan:
  assumes "pel_frame R q pel"
  shows "scan_loop R pattern n c ids r = Some y \<Longrightarrow> pel (snd y) = pel r"
proof -
  have "R' = R \<longrightarrow> pel (snd y) = pel r" if "scan_loop R' pattern n c ids r = Some y" for R'
    using that
  proof (rule scan_loop.raw_induct [rotated])
    fix f R'' pattern' n' c' ids' r' y'
    assume IH: "\<And>Ra pat nn cc ii rr yy. f Ra pat nn cc ii rr = Some yy \<Longrightarrow> Ra = R \<longrightarrow> pel (snd yy) = pel rr"
      and body: "(case r_Scan R'' c' pattern' 100 r' of
        (Inl e, ra) \<Rightarrow> Some (Inl (''scanning heartbeat keys: '' @ Error_text e), ra)
      | (Inr (keys, next_cursor), ra) \<Rightarrow>
          let ids'' = ids' @ map (drop n') (filter (\<lambda>key. n' < length key) keys)
          in if next_cursor = 0 then Some (Inr ids'', ra) else f R'' pattern' n' next_cursor ids'' ra) = Some y'"
    show "R'' = R \<longrightarrow> pel (snd y') = pel r'"
    proof
      assume "R'' = R"
      moreover have "pel (snd (r_Scan R c' pattern' 100 r')) = pel r'"
        using assms by (simp add: pel_frame_def)
      ultimately show "pel (snd y') = pel r'"
        using body IH by (auto simp: Let_def split: prod.splits sum.splits if_splits)
    qed
  qed
  then show "scan_loop R pattern n c ids r = Some y \<Longrightarrow> pel (snd y) = pel r" by blast
qed

definition pel_commands_succeed :: "'r redis \<Rightarrow> JobQueue \<Rightarrow> bool" where
  "pel_commands_succeed R q \<longleftrightarrow>
     (\<forall>n c r. \<exists>ids r'. r_XPendingExt R (jq_stream q) (jq_group q) n c r = (Inr ids, r')) \<and>
     (\<forall>c ids r. \<exists>ms r'. r_XClaim R (jq_stream q) (jq_group q) c ids r = (Inr ms, r')) \<and>
     (\<forall>c r. \<exists>n r'. r_XGroupDelConsumer R (jq_stream q) (jq_group q) c r = (Inr n, r'))"

lemma pel_del_succeeds:
  assumes "pel_delconsumer R q pel" and "pel_commands_succeed R q"
  shows "pel (deleteConsumer R q c r) = filter (\<lambda>(i, ow). ow \<noteq> c) (pel r)"
proof -
  obtain n r' where x: "r_XGroupDelConsumer R (jq_stream q) (jq_group q) c r = (Inr n, r')"
    using assms(2) unfolding pel_commands_succeed_def by blast
  have "case r_XGroupDelConsumer R (jq_stream q) (jq_group q) c r of
      (Inl e, r') \<Rightarrow> pel r' = pel r | (Inr _, r') \<Rightarrow> pel r' = filter (\<lambda>(i, ow). ow \<noteq> c) (pel r)"
    using assms(1) unfolding pel_delconsumer_def by (elim allE)
  with x show ?thesis by (simp add: deleteConsumer_def)
qed

lemma filter_claimed:
  assumes "distinct (map fst p)" and "d \<noteq> t" and "ids \<subseteq> set (owned d p)"
  shows "filter (\<lambda>(i, ow). ow \<noteq> d) (map (\<lambda>(i, ow). (i, if i \<in> ids then t else ow)) p) =
    map (\<lambda>(i, ow). (i, if ow = d then t else ow)) (filter (\<lambda>(i, ow). ow \<noteq> d \<or> i \<in> ids) p)"
proof -
  have "ow = d" if "(i, ow) \<in> set p" "i \<in> ids" for i ow
    using that assms(1,3) owned_iff [of i d p] by (metis eq_key_imp_eq_value subsetD)
  then have "map (\<lambda>(i, ow). (i, if i \<in> ids then t else ow)) (filter (\<lambda>(i, ow). ow \<noteq> d \<or> i \<in> ids) p) =
      map (\<lambda>(i, ow). (i, if ow = d then t else ow)) (filter (\<lambda>(i, ow). ow \<noteq> d \<or> i \<in> ids) p)"
    by (auto intro!: map_cong)
  moreover have "filter (\<lambda>(i, ow). ow \<noteq> d) (map (\<lambda>(i, ow). (i, if i \<in> ids then t else ow)) p) =
      map (\<lambda>(i, ow). (i, if i \<in> ids then t else ow)) (filter (\<lambda>(i, ow). ow \<noteq> d \<or> i \<in> ids) p)"
    using assms(2) by (auto simp: filter_map o_def split: prod.splits intro!: arg_cong [of _ _ "map _"] filter_cong)
  ultimately show ?thesis by simp
qed

text \<open>A server that keeps only the list and a fixed set of heartbeat keys, for the witnesses.\<close>

definition demo_redis :: "string list \<Rightarrow> pel redis" where
  "demo_redis live =
     \<lparr>r_XGroupCreate = \<lambda>_ _ _ p. (Inr (), p), r_XAdd = \<lambda>_ _ p. (Inr ''1-0'', p),
      r_XReadGroup = \<lambda>_ _ _ _ _ _ p. (Inl RedisNil, p), r_XAck = \<lambda>_ _ _ p. (Inr 1, p),
      r_XDel = \<lambda>_ _ p. (Inr 1, p), r_XAutoClaim = \<lambda>_ _ _ _ _ _ p. (Inr [], p),
      r_XLen = \<lambda>_ p. (Inr (int (length p)), p), r_XRead = \<lambda>_ _ _ _ p. (Inl RedisNil, p),
      r_Expire = \<lambda>_ _ p. (Inr True, p), r_Del = \<lambda>_ p. (Inr 1, p), r_Set = \<lambda>_ _ _ p. (Inr (), p),
      r_Exists = \<lambda>k p. (Inr (if k \<in> set (map (\<lambda>c. ''heartbeat:'' @ c) live) then 1 else 0), p),
      r_Scan = \<lambda>_ _ _ p. (Inr (map (\<lambda>c. ''heartbeat:'' @ c) live, 0), p),
      r_XPending = \<lambda>_ _ p. (Inr (int (length p),
        map (\<lambda>c. (c, int (length (owned c p)))) (remdups (map snd p))), p),
      r_XPendingExt = \<lambda>_ _ n c p. (Inr (take (nat n) (owned c p)), p),
      r_XClaim = \<lambda>_ _ c ids p. (Inr [], map (\<lambda>(i, ow). (i, if i \<in> set ids then c else ow)) p),
      r_XGroupDelConsumer = \<lambda>_ _ c p. (Inr 0, filter (\<lambda>(i, ow). ow \<noteq> c) p)\<rparr>"

abbreviation demo_queue :: JobQueue where
  "demo_queue \<equiv> NewJobQueue ''jobs'' ''workers''"

abbreviation demo_heartbeat :: Heartbeat where
  "demo_heartbeat \<equiv> \<lparr>hb_prefix = [], hb_ttl = 10\<rparr>"

lemma demo_laws:
  "pel_frame (demo_redis live) q (\<lambda>p. p)" "pel_laws (demo_redis live) q (\<lambda>p. p)"
  "pel_commands_succeed (demo_redis live) q"
  by (simp_all add: demo_redis_def pel_frame_def pel_laws_def pel_pending_def pel_claim_def
      pel_delconsumer_def pel_commands_succeed_def)

section \<open>Properties\<close>



text \<open>
  What reclaiming does when every command succeeds: the first 100 entries of the dead
  consumer become the target's, and its entries beyond those leave the pending list with the
  consumer, so no consumer will read them.
\<close>

theorem reclaim_exact:
  assumes "pel_laws R q pel" and "pel_commands_succeed R q"
    and "distinct (map fst (pel r))" and "d \<noteq> t"
  shows "pel (reclaimFromConsumer R q d t r) =
    map (\<lambda>(i, ow). (i, if ow = d then t else ow))
      (filter (\<lambda>(i, ow). ow \<noteq> d \<or> i \<in> set (take 100 (owned d (pel r)))) (pel r))"
proof -
  have pend: "pel_pending R q pel" and claim: "pel_claim R q pel" and del: "pel_delconsumer R q pel"
    using assms(1) by (simp_all add: pel_laws_def)
  obtain ids r1 where x: "r_XPendingExt R (jq_stream q) (jq_group q) 100 d r = (Inr ids, r1)"
    using assms(2) unfolding pel_commands_succeed_def by blast
  obtain ms r2 where c: "r_XClaim R (jq_stream q) (jq_group q) t ids r1 = (Inr ms, r2)"
    using assms(2) unfolding pel_commands_succeed_def by blast
  have r1: "pel r1 = pel r" and ids: "ids = take 100 (owned d (pel r))"
    using pel_pendingD [OF pend x] by simp_all
  have r2: "pel r2 = map (\<lambda>(i, ow). (i, if i \<in> set ids then t else ow)) (pel r)"
    using pel_claimD [OF claim c] r1 by simp
  note dels = pel_del_succeeds [OF del assms(2)]
  show ?thesis
  proof (cases "ids = []")
    case True
    then have "owned d (pel r) = []" using ids by simp
    with True x r1 show ?thesis
      by (auto simp: reclaimFromConsumer_def dels map_idI intro!: map_idI [symmetric])
  next
    case False
    have "set ids \<subseteq> set (owned d (pel r))" using ids by (auto dest: in_set_takeD)
    with False x c r2 ids show ?thesis
      by (simp add: reclaimFromConsumer_def dels filter_claimed [OF assms(3,4)])
  qed
qed

theorem reclaim_exact_witness:
  "reclaimFromConsumer (demo_redis [''b'']) demo_queue ''a'' ''b'' [(''1-0'', ''a''), (''2-0'', ''b'')] =
   [(''1-0'', ''b''), (''2-0'', ''b'')]"
  using reclaim_exact [OF demo_laws(2,3), of "[(''1-0'', ''a''), (''2-0'', ''b'')]" "''a''" "''b''" "[''b'']" demo_queue]
  by (simp add: owned_def)

text \<open>
  What a worker publishes is what the API reads: the events of a token stream, read from
  the messages Redis keeps, are the published ones in their order, each with its entry ID.
\<close>

theorem token_stream_roundtrip:
  assumes "list_all (\<lambda>(i, e). wf_TokenEvent e) es"
    and "r_XRead R (streamKey prefix jobID) lastID n (if 0 < block then Some block else None) r =
      (Inr [(key, map (\<lambda>(i, e). event_message i e) es)], r')"
  shows "TokenStream_Read R prefix jobID lastID n block r =
    (Inr (map (\<lambda>(i, e). \<lparr>tse_ID = i, tse_Event = e\<rparr>) es), r')"
  using assms by (simp add: TokenStream_Read_def token_entries_published)

theorem token_stream_roundtrip_witness:
  "let ev = \<lparr>te_Type = ''token'', te_Data = Some (JObj [(''token'', JStr ''hi'')])\<rparr>;
       R = (demo_redis [])\<lparr>r_XRead := \<lambda>_ _ _ _ p. (Inr [(''tokens:j'', [event_message ''1-0'' ev])], p)\<rparr>
   in TokenStream_Read R [] ''j'' ''0-0'' 100 0 [] = (Inr [\<lparr>tse_ID = ''1-0'', tse_Event = ev\<rparr>], [])"
proof -
  let ?ev = "\<lparr>te_Type = ''token'', te_Data = Some (JObj [(''token'', JStr ''hi'')])\<rparr>"
  let ?R = "(demo_redis [])\<lparr>r_XRead := \<lambda>_ _ _ _ p. (Inr [(''tokens:j'', [event_message ''1-0'' ?ev])], p)\<rparr>"
  have "TokenStream_Read ?R [] ''j'' ''0-0'' 100 0 [] =
      (Inr (map (\<lambda>(i, e). \<lparr>tse_ID = i, tse_Event = e\<rparr>) [(''1-0'', ?ev)]), [])"
    by (rule token_stream_roundtrip [where key = "''tokens:j''"]) (simp_all add: wf_TokenEvent_def)
  then show ?thesis by (simp add: Let_def)
qed

end
