(* ===== verification/Auth.thy ===== *)
theory Auth
  imports Base64
begin

text \<open>
  \<open>pkg/auth\<close>: API keys and their Argon2id hashes in PHC format (\<open>keys.go\<close>, \<open>argon2.go\<close>).
  \<open>argon2.IDKey\<close> is not code of the repository: it is the parameter \<open>idkey\<close>, a function of the
  key, the salt, the iterations, the memory, the parallelism and the length, \<open>None\<close> when it
  panics (it does for zero iterations or zero parallelism).  Random bytes and clock readings are
  arguments.  The lemmas: hashing then verifying decides equality of the derived keys, and the
  verifier's cache never changes an answer.
\<close>

type_synonym argon2 = "string \<Rightarrow> string \<Rightarrow> nat \<Rightarrow> nat \<Rightarrow> nat \<Rightarrow> nat \<Rightarrow> string option"

section \<open>Hashes\<close>

definition argon2Memory :: nat where "argon2Memory = 64 * 1024"
definition argon2Iterations :: nat where "argon2Iterations = 3"
definition argon2Parallelism :: nat where "argon2Parallelism = 4"
definition argon2KeyLength :: nat where "argon2KeyLength = 32"
definition argon2SaltLength :: nat where "argon2SaltLength = 16"
definition argon2Version :: nat where "argon2Version = 19"

datatype phc_error =
    InvalidFormat nat
  | UnsupportedAlgorithm string
  | InvalidParameters string
  | DecodingSalt
  | DecodingHash

record argon2Params =
  a2_memory :: nat
  a2_iterations :: nat
  a2_parallelism :: nat

definition phc_string :: "string \<Rightarrow> string \<Rightarrow> string" where
  "phc_string salt hash =
     ''$argon2id$v='' @ digits_of argon2Version @ ''$m='' @ digits_of argon2Memory @
     '',t='' @ digits_of argon2Iterations @ '',p='' @ digits_of argon2Parallelism @
     ''$'' @ raw_encode salt @ ''$'' @ raw_encode hash"

text \<open>\<open>HashKey\<close> with the random bytes of the salt; \<open>None\<close> when the derivation panics.\<close>

definition HashKey :: "argon2 \<Rightarrow> string \<Rightarrow> string \<Rightarrow> string option" where
  "HashKey idkey salt key =
     map_option (phc_string salt)
       (idkey key salt argon2Iterations argon2Memory argon2Parallelism argon2KeyLength)"

text \<open>
  \<open>fmt.Sscanf(s, "m=%d,t=%d,p=%d", &m, &t, &p)\<close> for two 32-bit and one 8-bit unsigned targets:
  the literals match byte by byte, white space before a number is skipped, a number that does
  not fit is an error, and what follows the last number is not looked at.
\<close>

definition scan_uint :: "nat \<Rightarrow> string \<Rightarrow> (nat \<times> string) option" where
  "scan_uint bits s =
     (let t = dropWhile (\<lambda>c. is_space c \<and> c \<noteq> CHR 0x0A) s;
          ds = takeWhile is_digit t
      in if ds = [] \<or> 2 ^ bits \<le> nat_of_digits ds then None
         else Some (nat_of_digits ds, dropWhile is_digit t))"

definition scan_literal :: "string \<Rightarrow> string \<Rightarrow> string option" where
  "scan_literal lit s = (if HasPrefix s lit then Some (drop (length lit) s) else None)"

definition scan_params :: "string \<Rightarrow> argon2Params option" where
  "scan_params s =
     (case scan_literal ''m='' s of None \<Rightarrow> None | Some s1 \<Rightarrow>
      case scan_uint 32 s1 of None \<Rightarrow> None | Some (m, s2) \<Rightarrow>
      case scan_literal '',t='' s2 of None \<Rightarrow> None | Some s3 \<Rightarrow>
      case scan_uint 32 s3 of None \<Rightarrow> None | Some (t, s4) \<Rightarrow>
      case scan_literal '',p='' s4 of None \<Rightarrow> None | Some s5 \<Rightarrow>
      case scan_uint 8 s5 of None \<Rightarrow> None | Some (p, s6) \<Rightarrow>
        Some \<lparr>a2_memory = m, a2_iterations = t, a2_parallelism = p\<rparr>)"

definition parsePHC :: "string \<Rightarrow> phc_error + (string \<times> argon2Params \<times> string)" where
  "parsePHC phc =
     (let parts = Split (CHR ''$'') phc in
      if length parts \<noteq> 6 then Inl (InvalidFormat (length parts))
      else if parts ! 1 \<noteq> ''argon2id'' then Inl (UnsupportedAlgorithm (parts ! 1))
      else
        (case scan_params (parts ! 3) of
           None \<Rightarrow> Inl (InvalidParameters (parts ! 3))
         | Some params \<Rightarrow>
             (case raw_decode (parts ! 4) of
                None \<Rightarrow> Inl DecodingSalt
              | Some salt \<Rightarrow>
                  (case raw_decode (parts ! 5) of
                     None \<Rightarrow> Inl DecodingHash
                   | Some hash \<Rightarrow> Inr (salt, params, hash)))))"

datatype verdict = VError phc_error | VPanic | VKey bool | VNotConfigured

definition VerifyKey :: "argon2 \<Rightarrow> string \<Rightarrow> string \<Rightarrow> verdict" where
  "VerifyKey idkey key phcHash =
     (case parsePHC phcHash of
        Inl e \<Rightarrow> VError e
      | Inr (salt, params, expectedHash) \<Rightarrow>
          (case idkey key salt (a2_iterations params) (a2_memory params) (a2_parallelism params)
                  (length expectedHash) of
             None \<Rightarrow> VPanic
           | Some computedHash \<Rightarrow> VKey (computedHash = expectedHash)))"

section \<open>The caching verifier\<close>

record cacheEntry =
  ce_valid :: bool
  ce_expiresAt :: int

record Verifier =
  v_adminHash :: string
  v_apiHash :: string
  v_toolsHash :: string
  v_cache :: "cacheEntry gomap"
  v_ttl :: int

definition NewVerifierWithTools :: "string \<Rightarrow> string \<Rightarrow> string \<Rightarrow> int \<Rightarrow> Verifier" where
  "NewVerifierWithTools adminHash apiHash toolsHash cacheTTL =
     \<lparr>v_adminHash = adminHash, v_apiHash = apiHash, v_toolsHash = toolsHash,
      v_cache = [], v_ttl = cacheTTL\<rparr>"

definition NewVerifier :: "string \<Rightarrow> string \<Rightarrow> int \<Rightarrow> Verifier" where
  "NewVerifier adminHash apiHash cacheTTL = NewVerifierWithTools adminHash apiHash [] cacheTTL"

text \<open>The clock is read for the lookup and again for the expiry of a new entry.\<close>

definition verifyWithCache ::
    "argon2 \<Rightarrow> int \<Rightarrow> int \<Rightarrow> string \<Rightarrow> string \<Rightarrow> Verifier \<Rightarrow> verdict \<times> Verifier" where
  "verifyWithCache idkey now1 now2 key hash v =
     (let cacheKey = key @ ''|'' @ hash in
      case mget (v_cache v) cacheKey of
        Some entry \<Rightarrow>
          if now1 < ce_expiresAt entry then (VKey (ce_valid entry), v)
          else
            (case VerifyKey idkey key hash of
               VKey valid \<Rightarrow>
                 (VKey valid, v\<lparr>v_cache := mput cacheKey \<lparr>ce_valid = valid, ce_expiresAt = now2 + v_ttl v\<rparr> (v_cache v)\<rparr>)
             | other \<Rightarrow> (other, v))
      | None \<Rightarrow>
          (case VerifyKey idkey key hash of
             VKey valid \<Rightarrow>
               (VKey valid, v\<lparr>v_cache := mput cacheKey \<lparr>ce_valid = valid, ce_expiresAt = now2 + v_ttl v\<rparr> (v_cache v)\<rparr>)
           | other \<Rightarrow> (other, v)))"

definition VerifyAdminKey :: "argon2 \<Rightarrow> int \<Rightarrow> int \<Rightarrow> string \<Rightarrow> Verifier \<Rightarrow> verdict \<times> Verifier" where
  "VerifyAdminKey idkey now1 now2 key v =
     (if v_adminHash v = [] then (VNotConfigured, v)
      else verifyWithCache idkey now1 now2 key (v_adminHash v) v)"

definition VerifyAPIKey :: "argon2 \<Rightarrow> int \<Rightarrow> int \<Rightarrow> string \<Rightarrow> Verifier \<Rightarrow> verdict \<times> Verifier" where
  "VerifyAPIKey idkey now1 now2 key v =
     (if v_apiHash v = [] then (VNotConfigured, v)
      else verifyWithCache idkey now1 now2 key (v_apiHash v) v)"

definition VerifyToolKey :: "argon2 \<Rightarrow> int \<Rightarrow> int \<Rightarrow> string \<Rightarrow> Verifier \<Rightarrow> verdict \<times> Verifier" where
  "VerifyToolKey idkey now1 now2 key v =
     (if v_toolsHash v = [] then (VKey False, v)
      else verifyWithCache idkey now1 now2 key (v_toolsHash v) v)"

definition ToolsKeyConfigured :: "Verifier \<Rightarrow> bool" where
  "ToolsKeyConfigured v \<longleftrightarrow> v_toolsHash v \<noteq> []"

section \<open>Keys\<close>

definition PrefixAdmin :: string where "PrefixAdmin = ''adm_''"
definition PrefixAPI :: string where "PrefixAPI = ''rtr_''"
definition PrefixTools :: string where "PrefixTools = ''tls_''"

record GeneratedKey =
  gk_Key :: string
  gk_Hash :: string

text \<open>\<open>base64.RawURLEncoding\<close>: the same groups in the URL alphabet.\<close>

definition url_encode :: "string \<Rightarrow> string" where
  "url_encode bs = map (\<lambda>c. if c = CHR ''+'' then CHR ''-'' else if c = CHR ''/'' then CHR ''_'' else c)
     (raw_encode bs)"

definition generateKey :: "argon2 \<Rightarrow> string \<Rightarrow> string \<Rightarrow> string \<Rightarrow> GeneratedKey option" where
  "generateKey idkey secret salt prefix =
     (let key = prefix @ url_encode secret in
      case HashKey idkey salt key of
        None \<Rightarrow> None
      | Some hash \<Rightarrow> Some \<lparr>gk_Key = key, gk_Hash = hash\<rparr>)"

definition GenerateAdminKey :: "argon2 \<Rightarrow> string \<Rightarrow> string \<Rightarrow> GeneratedKey option" where
  "GenerateAdminKey idkey secret salt = generateKey idkey secret salt PrefixAdmin"

definition GenerateAPIKey :: "argon2 \<Rightarrow> string \<Rightarrow> string \<Rightarrow> GeneratedKey option" where
  "GenerateAPIKey idkey secret salt = generateKey idkey secret salt PrefixAPI"

definition GenerateToolKey :: "argon2 \<Rightarrow> string \<Rightarrow> string \<Rightarrow> GeneratedKey option" where
  "GenerateToolKey idkey secret salt = generateKey idkey secret salt PrefixTools"

definition ValidateKeyPrefix :: "string \<Rightarrow> string option" where
  "ValidateKeyPrefix key =
     (if HasPrefix key PrefixAdmin then Some PrefixAdmin
      else if HasPrefix key PrefixAPI then Some PrefixAPI
      else if HasPrefix key PrefixTools then Some PrefixTools
      else None)"

section \<open>The PHC string of a key is parsed back\<close>

lemma digits_of_eval [simp]:
  "digits_of 19 = ''19''" "digits_of 65536 = ''65536''" "digits_of 3 = ''3''" "digits_of 4 = ''4''"
  by (simp_all add: digits_of.simps char_of_eq_iff)

lemma phc_text:
  "phc_string salt hash = ''$argon2id$v=19$m=65536,t=3,p=4$'' @ raw_encode salt @ ''$'' @ raw_encode hash"
  by (simp add: phc_string_def argon2Version_def argon2Memory_def argon2Iterations_def argon2Parallelism_def)

lemma phc_parts:
  "Split (CHR ''$'') (phc_string salt hash) =
   [[], ''argon2id'', ''v=19'', ''m=65536,t=3,p=4'', raw_encode salt, raw_encode hash]"
  by (simp add: phc_text Split_append [OF raw_no_dollar] Split_no_sep [OF raw_no_dollar])

lemma scan_digits:
  assumes "ds \<noteq> []" and "list_all is_digit ds" and "\<not> is_digit c" and "nat_of_digits ds < 2 ^ bits"
  shows "scan_uint bits (ds @ c # rest) = Some (nat_of_digits ds, c # rest)"
    and "scan_uint bits ds = Some (nat_of_digits ds, [])"
proof -
  have nosp: "\<not> is_space d" if "is_digit d" for d
    using that by (auto simp: is_space_def is_digit_def)
  obtain d ds' where d: "ds = d # ds'" "is_digit d" using assms(1,2) by (cases ds) auto
  have eqs1: "takeWhile is_digit (ds @ c # rest) = ds" "dropWhile is_digit (ds @ c # rest) = c # rest"
    using assms(2,3) by (auto simp: list_all_iff takeWhile_append dropWhile_append)
  have eqs2: "takeWhile is_digit ds = ds" "dropWhile is_digit ds = []"
    using assms(2) by (auto simp: list_all_iff)
  have eqs3: "dropWhile (\<lambda>c. is_space c \<and> c \<noteq> CHR 0x0A) (ds @ c # rest) = ds @ c # rest"
    "dropWhile (\<lambda>c. is_space c \<and> c \<noteq> CHR 0x0A) ds = ds"
    using d nosp by simp_all
  show "scan_uint bits (ds @ c # rest) = Some (nat_of_digits ds, c # rest)"
    and "scan_uint bits ds = Some (nat_of_digits ds, [])"
    unfolding scan_uint_def Let_def eqs1 eqs2 eqs3 using assms(1,4) by simp_all
qed

lemma scan_params_default:
  "scan_params ''m=65536,t=3,p=4'' = Some \<lparr>a2_memory = 65536, a2_iterations = 3, a2_parallelism = 4\<rparr>"
proof -
  have "scan_uint 32 (''65536'' @ '','' @ ''t=3,p=4'') = Some (65536, '',t=3,p=4'')"
    using scan_digits(1) [of "''65536''" "CHR '',''" 32 "''t=3,p=4''"]
    by (simp add: is_digit_def nat_of_digits_def digit_val_def)
  moreover have "scan_uint 32 ''3,p=4'' = Some (3, '',p=4'')"
    using scan_digits(1) [of "''3''" "CHR '',''" 32 "''p=4''"]
    by (simp add: is_digit_def nat_of_digits_def digit_val_def)
  moreover have "scan_uint 8 ''4'' = Some (4, [])"
    using scan_digits(2) [of "''4''" "CHR '',''" 8]
    by (simp add: is_digit_def nat_of_digits_def digit_val_def)
  ultimately show ?thesis
    by (simp add: scan_params_def scan_literal_def)
qed

lemma parsePHC_phc_string:
  "parsePHC (phc_string salt hash) =
   Inr (salt, \<lparr>a2_memory = 65536, a2_iterations = 3, a2_parallelism = 4\<rparr>, hash)"
  by (simp add: parsePHC_def phc_parts scan_params_default raw_roundtrip)

section \<open>The cache\<close>

lemma bar_split: "CHR ''|'' \<notin> set h \<Longrightarrow> CHR ''|'' \<notin> set h' \<Longrightarrow>
    k @ ''|'' @ h = k' @ ''|'' @ h' \<Longrightarrow> k = k' \<and> h = h'"
proof (induction k arbitrary: k')
  case Nil
  then show ?case by (cases k') auto
next
  case (Cons c k)
  then show ?case by (cases k') auto
qed

text \<open>Every cached answer is the answer \<open>VerifyKey\<close> gives.\<close>

definition cache_ok :: "argon2 \<Rightarrow> cacheEntry gomap \<Rightarrow> bool" where
  "cache_ok idkey cache \<longleftrightarrow>
     (\<forall>key hash e. CHR ''|'' \<notin> set hash \<longrightarrow> mget cache (key @ ''|'' @ hash) = Some e \<longrightarrow>
        VerifyKey idkey key hash = VKey (ce_valid e))"

lemma cache_ok_Nil [simp]: "cache_ok idkey []"
  by (simp add: cache_ok_def)

lemma cache_ok_put:
  "cache_ok idkey c \<Longrightarrow> CHR ''|'' \<notin> set hash \<Longrightarrow> VerifyKey idkey key hash = VKey (ce_valid e) \<Longrightarrow>
   cache_ok idkey (mput (key @ ''|'' @ hash) e c)"
  unfolding cache_ok_def mget_mput
proof (intro allI impI)
  fix key' hash' e'
  assume ok: "\<forall>key hash e. CHR ''|'' \<notin> set hash \<longrightarrow> mget c (key @ ''|'' @ hash) = Some e \<longrightarrow>
        VerifyKey idkey key hash = VKey (ce_valid e)"
    and h: "CHR ''|'' \<notin> set hash" "CHR ''|'' \<notin> set hash'"
    and new: "VerifyKey idkey key hash = VKey (ce_valid e)"
    and get: "((mget c)(key @ ''|'' @ hash \<mapsto> e)) (key' @ ''|'' @ hash') = Some e'"
  show "VerifyKey idkey key' hash' = VKey (ce_valid e')"
  proof (cases "key' @ ''|'' @ hash' = key @ ''|'' @ hash")
    case True
    then have "key' = key \<and> hash' = hash" by (rule bar_split [OF h(2,1)])
    with new get show ?thesis by simp
  next
    case False
    then have "mget c (key' @ ''|'' @ hash') = Some e'" using get unfolding fun_upd_apply by (simp only: if_False simp_thms)
    with ok h(2) show ?thesis by blast
  qed
qed

lemma verifyWithCache_correct:
  assumes "cache_ok idkey (v_cache v)" and "CHR ''|'' \<notin> set hash"
  shows "fst (verifyWithCache idkey t t' key hash v) = VerifyKey idkey key hash"
    and "cache_ok idkey (v_cache (snd (verifyWithCache idkey t t' key hash v)))"
    and "v_adminHash (snd (verifyWithCache idkey t t' key hash v)) = v_adminHash v"
    and "v_apiHash (snd (verifyWithCache idkey t t' key hash v)) = v_apiHash v"
    and "v_toolsHash (snd (verifyWithCache idkey t t' key hash v)) = v_toolsHash v"
  using assms
  by (auto simp: verifyWithCache_def Let_def cache_ok_def [of _ "v_cache v"]
      intro!: cache_ok_put [simplified] split: option.split verdict.split)

datatype key_role = RAdmin | RAPI | RTools

text \<open>A check of a key for a role, and the answer without the cache.\<close>

fun verify_step :: "argon2 \<Rightarrow> key_role \<times> int \<times> int \<times> string \<Rightarrow> Verifier \<Rightarrow> verdict \<times> Verifier" where
  "verify_step idkey (RAdmin, t, t', key) v = VerifyAdminKey idkey t t' key v"
| "verify_step idkey (RAPI, t, t', key) v = VerifyAPIKey idkey t t' key v"
| "verify_step idkey (RTools, t, t', key) v = VerifyToolKey idkey t t' key v"

fun verify_run :: "argon2 \<Rightarrow> (key_role \<times> int \<times> int \<times> string) list \<Rightarrow> Verifier \<Rightarrow> verdict list" where
  "verify_run idkey [] v = []"
| "verify_run idkey (q # qs) v =
     (let (answer, v') = verify_step idkey q v in answer # verify_run idkey qs v')"

fun uncached :: "argon2 \<Rightarrow> Verifier \<Rightarrow> key_role \<times> int \<times> int \<times> string \<Rightarrow> verdict" where
  "uncached idkey v (RAdmin, t, t', key) =
     (if v_adminHash v = [] then VNotConfigured else VerifyKey idkey key (v_adminHash v))"
| "uncached idkey v (RAPI, t, t', key) =
     (if v_apiHash v = [] then VNotConfigured else VerifyKey idkey key (v_apiHash v))"
| "uncached idkey v (RTools, t, t', key) =
     (if v_toolsHash v = [] then VKey False else VerifyKey idkey key (v_toolsHash v))"

definition hashes_ok :: "Verifier \<Rightarrow> bool" where
  "hashes_ok v \<longleftrightarrow> CHR ''|'' \<notin> set (v_adminHash v) \<and> CHR ''|'' \<notin> set (v_apiHash v) \<and>
     CHR ''|'' \<notin> set (v_toolsHash v)"

lemma verify_step_correct:
  assumes "cache_ok idkey (v_cache v)" and "hashes_ok v" and "verify_step idkey q v = (a, v')"
  shows "a = uncached idkey v q \<and> cache_ok idkey (v_cache v') \<and> hashes_ok v' \<and> uncached idkey v' = uncached idkey v"
proof -
  have hs: "v_adminHash v' = v_adminHash v \<and> v_apiHash v' = v_apiHash v \<and> v_toolsHash v' = v_toolsHash v"
    using assms verifyWithCache_correct
    by (cases "(idkey, q, v)" rule: verify_step.cases)
      (auto simp: VerifyAdminKey_def VerifyAPIKey_def VerifyToolKey_def hashes_ok_def split: if_splits,
        (metis snd_conv)+)
  then have "uncached idkey v' q' = uncached idkey v q'" for q'
    by (cases "(idkey, v, q')" rule: uncached.cases) auto
  then have "uncached idkey v' = uncached idkey v" by blast
  moreover have "a = uncached idkey v q \<and> cache_ok idkey (v_cache v')"
    using assms verifyWithCache_correct
    by (cases "(idkey, q, v)" rule: verify_step.cases)
      (auto simp: VerifyAdminKey_def VerifyAPIKey_def VerifyToolKey_def hashes_ok_def split: if_splits,
        (metis fst_conv snd_conv)+)
  ultimately show ?thesis using assms(2) hs by (simp add: hashes_ok_def)
qed

section \<open>Properties\<close>

text \<open>
  C10: verifying a key against a hash made by \<open>HashKey\<close> says exactly whether the two keys derive
  the same 32 bytes with that salt: the PHC string is parsed back to the salt, the parameters
  and the derived key it was made of.
\<close>

theorem verify_hashed_key:
  assumes "HashKey idkey salt key = Some phc"
    and "idkey key salt 3 65536 4 32 = Some h" and "length h = 32"
  shows "VerifyKey idkey key' phc =
    (case idkey key' salt 3 65536 4 32 of None \<Rightarrow> VPanic | Some h' \<Rightarrow> VKey (h' = h))"
proof -
  have "phc = phc_string salt h"
    using assms by (simp add: HashKey_def argon2Iterations_def argon2Memory_def
        argon2Parallelism_def argon2KeyLength_def)
  then show ?thesis
    using assms(3) by (simp add: VerifyKey_def parsePHC_phc_string)
qed

text \<open>A derivation that pads the key to the wanted length, for the witnesses.\<close>

definition pad_idkey :: argon2 where
  "pad_idkey key salt t m p n = (if t = 0 \<or> p = 0 then None else Some (take n (key @ replicate n (CHR ''.''))))"

theorem verify_hashed_key_witness:
  "\<exists>phc. HashKey pad_idkey ''0123456789abcdef'' ''adm_k'' = Some phc \<and>
     VerifyKey pad_idkey ''adm_k'' phc = VKey True \<and> VerifyKey pad_idkey ''adm_x'' phc = VKey False"
proof -
  let ?salt = "''0123456789abcdef''"
  obtain phc where phc: "HashKey pad_idkey ?salt ''adm_k'' = Some phc"
    by (simp add: HashKey_def pad_idkey_def argon2Iterations_def argon2Parallelism_def)
  have h: "pad_idkey ''adm_k'' ?salt 3 65536 4 32 = Some (take 32 (''adm_k'' @ replicate 32 (CHR ''.'')))"
    by (simp add: pad_idkey_def)
  have x: "pad_idkey ''adm_x'' ?salt 3 65536 4 32 = Some (take 32 (''adm_x'' @ replicate 32 (CHR ''.'')))"
    by (simp add: pad_idkey_def)
  have "VerifyKey pad_idkey ''adm_k'' phc = VKey True" "VerifyKey pad_idkey ''adm_x'' phc = VKey False"
    using verify_hashed_key [OF phc h, of "''adm_k''"] verify_hashed_key [OF phc h, of "''adm_x''"]
    by (simp_all add: h x)
  with phc show ?thesis by blast
qed

text \<open>
  C11: the verifier's cache is invisible: whatever checks of admin, API and tool keys a verifier
  is asked for, and at whatever times, each answer is the one an Argon2 verification of that
  key against the hash of that role gives; an answer for one key or role is never used for
  another.
\<close>

theorem cached_answers_are_verified:
  assumes "cache_ok idkey (v_cache v)" and "hashes_ok v"
  shows "verify_run idkey qs v = map (uncached idkey v) qs"
  using assms
proof (induction qs arbitrary: v)
  case Nil
  then show ?case by simp
next
  case (Cons q qs)
  obtain a v' where step: "verify_step idkey q v = (a, v')" by fastforce
  with verify_step_correct [OF Cons.prems step] Cons.IH [of v'] show ?case by simp
qed

theorem cached_answers_are_verified_witness:
  "verify_run pad_idkey [(RAdmin, 0, 1, ''k''), (RAdmin, 2, 3, ''k''), (RTools, 4, 5, ''k'')]
     (NewVerifier ''bad'' ''bad'' 300) =
   [VError (InvalidFormat 1), VError (InvalidFormat 1), VKey False]"
proof -
  let ?v = "NewVerifier ''bad'' ''bad'' 300"
  have "cache_ok pad_idkey (v_cache ?v)" and "hashes_ok ?v"
    by (simp_all add: NewVerifier_def NewVerifierWithTools_def hashes_ok_def)
  from cached_answers_are_verified [OF this, of "[(RAdmin, 0, 1, ''k''), (RAdmin, 2, 3, ''k''), (RTools, 4, 5, ''k'')]"]
  show ?thesis
    by (simp del: verify_run.simps add: NewVerifier_def NewVerifierWithTools_def VerifyKey_def parsePHC_def)
qed

text \<open>
  A generated key carries the prefix of its role and no other, and \<open>ValidateKeyPrefix\<close>
  gives it back.
\<close>

theorem generated_key_prefix:
  "(GenerateAdminKey idkey secret salt = Some g \<longrightarrow> ValidateKeyPrefix (gk_Key g) = Some ''adm_'') \<and>
   (GenerateAPIKey idkey secret salt = Some g \<longrightarrow> ValidateKeyPrefix (gk_Key g) = Some ''rtr_'') \<and>
   (GenerateToolKey idkey secret salt = Some g \<longrightarrow> ValidateKeyPrefix (gk_Key g) = Some ''tls_'')"
  by (auto simp: GenerateAdminKey_def GenerateAPIKey_def GenerateToolKey_def generateKey_def Let_def
      ValidateKeyPrefix_def PrefixAdmin_def PrefixAPI_def PrefixTools_def split: option.splits)

theorem generated_key_prefix_witness:
  "\<exists>g. GenerateAPIKey pad_idkey (replicate 32 (CHR ''s'')) ''salt'' = Some g \<and>
     ValidateKeyPrefix (gk_Key g) = Some ''rtr_''"
proof -
  obtain g where "GenerateAPIKey pad_idkey (replicate 32 (CHR ''s'')) ''salt'' = Some g"
    by (simp add: GenerateAPIKey_def generateKey_def HashKey_def pad_idkey_def Let_def
        argon2Iterations_def argon2Parallelism_def)
  with generated_key_prefix [of pad_idkey "replicate 32 (CHR ''s'')" "''salt''" g] show ?thesis by simp
qed

end
