(* ===== verification/Openai_Types.thy ===== *)
theory Openai_Types
  imports Protocol_Types
begin

text \<open>
  The OpenAI request and response structs (\<open>pkg/openai/types.go\<close>), in the manner of
  \<open>Protocol_Types\<close>: requests and what they contain with both directions and their round trip,
  responses with their encoder.  An \<open>any\<close> field holds a document, \<open>JNull\<close> when it is nil.
\<close>

named_theorems more_wire

definition opt_any :: "string \<Rightarrow> json \<Rightarrow> (string \<times> json) list" where
  "opt_any k j = (if j = JNull then [] else [(k, j)])"

lemma dec_opt_any [more_wire]:
  "map_of fds (ToLower k) = Some (fld get upd dec_any) \<Longrightarrow> upd (\<lambda>_. JNull) r = r \<Longrightarrow>
   dec_pairs fds (opt_any k j @ rest) (r, ok) = dec_pairs fds rest (upd (\<lambda>_. j) r, ok)"
  by (simp add: opt_any_def dec_req dec_any_def)

lemma dec_ptr_str [more_wire]: "dec_ptr [] dec_string (JStr s) None = (Some s, True)"
  by (rule str_codec.ptr) simp

record Oai_ToolFunction =
  otf_name :: "string"
  otf_desc :: "string"
  otf_params :: "raw"

definition zero_Oai_ToolFunction :: Oai_ToolFunction where
  "zero_Oai_ToolFunction =
     \<lparr>otf_name = [], otf_desc = [], otf_params = None\<rparr>"

definition enc_Oai_ToolFunction :: "Oai_ToolFunction \<Rightarrow> json" where
  "enc_Oai_ToolFunction x = JObj
    ([(''name'', JStr (otf_name x))] @
     opt_str ''description'' (otf_desc x) @
     opt_raw ''parameters'' (otf_params x) @ [])"

definition dec_Oai_ToolFunction :: "Oai_ToolFunction decoder" where
  "dec_Oai_ToolFunction = dec_struct
    [(''name'', fld otf_name otf_name_update dec_string),
     (''description'', fld otf_desc otf_desc_update dec_string),
     (''parameters'', fld otf_params otf_params_update dec_raw)]"

interpretation otf_codec: codec "(\<lambda>_. True)" enc_Oai_ToolFunction dec_Oai_ToolFunction zero_Oai_ToolFunction
proof (unfold_locales, goal_cases)
  case (1 x)
  then show ?case
    by (cases x) (simp add: enc_Oai_ToolFunction_def dec_Oai_ToolFunction_def zero_Oai_ToolFunction_def wire_simps wire_codecs more_wire)
next
  case (2 x)
  then show ?case by (simp add: enc_Oai_ToolFunction_def)
qed

lemmas otf_wire [wire_codecs] = otf_codec.roundtrip otf_codec.slice otf_codec.ptr

record Oai_Tool =
  ot_type :: "string"
  ot_fn :: "Oai_ToolFunction"

definition zero_Oai_Tool :: Oai_Tool where
  "zero_Oai_Tool =
     \<lparr>ot_type = [], ot_fn = zero_Oai_ToolFunction\<rparr>"

definition enc_Oai_Tool :: "Oai_Tool \<Rightarrow> json" where
  "enc_Oai_Tool x = JObj
    ([(''type'', JStr (ot_type x)),
         (''function'', enc_Oai_ToolFunction (ot_fn x))])"

definition dec_Oai_Tool :: "Oai_Tool decoder" where
  "dec_Oai_Tool = dec_struct
    [(''type'', fld ot_type ot_type_update dec_string),
     (''function'', fld ot_fn ot_fn_update dec_Oai_ToolFunction)]"

interpretation ot_codec: codec "(\<lambda>_. True)" enc_Oai_Tool dec_Oai_Tool zero_Oai_Tool
proof (unfold_locales, goal_cases)
  case (1 x)
  then show ?case
    by (cases x) (simp add: enc_Oai_Tool_def dec_Oai_Tool_def zero_Oai_Tool_def wire_simps wire_codecs more_wire)
next
  case (2 x)
  then show ?case by (simp add: enc_Oai_Tool_def)
qed

lemmas ot_wire [wire_codecs] = ot_codec.roundtrip ot_codec.slice ot_codec.ptr

record Oai_ToolCallFunction =
  otcf_name :: "string"
  otcf_args :: "string"

definition zero_Oai_ToolCallFunction :: Oai_ToolCallFunction where
  "zero_Oai_ToolCallFunction =
     \<lparr>otcf_name = [], otcf_args = []\<rparr>"

definition enc_Oai_ToolCallFunction :: "Oai_ToolCallFunction \<Rightarrow> json" where
  "enc_Oai_ToolCallFunction x = JObj
    ([(''name'', JStr (otcf_name x)),
         (''arguments'', JStr (otcf_args x))])"

definition dec_Oai_ToolCallFunction :: "Oai_ToolCallFunction decoder" where
  "dec_Oai_ToolCallFunction = dec_struct
    [(''name'', fld otcf_name otcf_name_update dec_string),
     (''arguments'', fld otcf_args otcf_args_update dec_string)]"

interpretation otcf_codec: codec "(\<lambda>_. True)" enc_Oai_ToolCallFunction dec_Oai_ToolCallFunction zero_Oai_ToolCallFunction
proof (unfold_locales, goal_cases)
  case (1 x)
  then show ?case
    by (cases x) (simp add: enc_Oai_ToolCallFunction_def dec_Oai_ToolCallFunction_def zero_Oai_ToolCallFunction_def wire_simps wire_codecs more_wire)
next
  case (2 x)
  then show ?case by (simp add: enc_Oai_ToolCallFunction_def)
qed

lemmas otcf_wire [wire_codecs] = otcf_codec.roundtrip otcf_codec.slice otcf_codec.ptr

record Oai_ToolCall =
  otc_index :: "int"
  otc_id :: "string"
  otc_type :: "string"
  otc_fn :: "Oai_ToolCallFunction"

definition zero_Oai_ToolCall :: Oai_ToolCall where
  "zero_Oai_ToolCall =
     \<lparr>otc_index = 0, otc_id = [], otc_type = [], otc_fn = zero_Oai_ToolCallFunction\<rparr>"

definition enc_Oai_ToolCall :: "Oai_ToolCall \<Rightarrow> json" where
  "enc_Oai_ToolCall x = JObj
    ([(''index'', JNum (NInt (otc_index x))),
         (''id'', JStr (otc_id x)),
         (''type'', JStr (otc_type x)),
         (''function'', enc_Oai_ToolCallFunction (otc_fn x))])"

definition dec_Oai_ToolCall :: "Oai_ToolCall decoder" where
  "dec_Oai_ToolCall = dec_struct
    [(''index'', fld otc_index otc_index_update dec_int),
     (''id'', fld otc_id otc_id_update dec_string),
     (''type'', fld otc_type otc_type_update dec_string),
     (''function'', fld otc_fn otc_fn_update dec_Oai_ToolCallFunction)]"

definition wf_Oai_ToolCall :: "Oai_ToolCall \<Rightarrow> bool" where
  "wf_Oai_ToolCall x \<longleftrightarrow> in_int64 (otc_index x)"

interpretation otc_codec: codec "wf_Oai_ToolCall" enc_Oai_ToolCall dec_Oai_ToolCall zero_Oai_ToolCall
proof (unfold_locales, goal_cases)
  case (1 x)
  then show ?case
    by (cases x) (simp add: enc_Oai_ToolCall_def dec_Oai_ToolCall_def zero_Oai_ToolCall_def wf_Oai_ToolCall_def wire_simps wire_codecs more_wire)
next
  case (2 x)
  then show ?case by (simp add: enc_Oai_ToolCall_def)
qed

lemmas otc_wire [wire_codecs] = otc_codec.roundtrip otc_codec.slice otc_codec.ptr

record Oai_Message =
  omsg_role :: "string"
  omsg_content :: "raw"
  omsg_reasoning :: "string"
  omsg_call_id :: "string"
  omsg_calls :: "Oai_ToolCall list"

definition zero_Oai_Message :: Oai_Message where
  "zero_Oai_Message =
     \<lparr>omsg_role = [], omsg_content = None, omsg_reasoning = [], omsg_call_id = [], omsg_calls = []\<rparr>"

definition enc_Oai_Message :: "Oai_Message \<Rightarrow> json" where
  "enc_Oai_Message x = JObj
    ([(''role'', JStr (omsg_role x)),
         (''content'', enc_raw (omsg_content x))] @
     opt_str ''reasoning_content'' (omsg_reasoning x) @
     opt_str ''tool_call_id'' (omsg_call_id x) @
     opt_list ''tool_calls'' enc_Oai_ToolCall (omsg_calls x) @ [])"

definition dec_Oai_Message :: "Oai_Message decoder" where
  "dec_Oai_Message = dec_struct
    [(''role'', fld omsg_role omsg_role_update dec_string),
     (''content'', fld omsg_content omsg_content_update dec_raw),
     (''reasoning_content'', fld omsg_reasoning omsg_reasoning_update dec_string),
     (''tool_call_id'', fld omsg_call_id omsg_call_id_update dec_string),
     (''tool_calls'', fld omsg_calls omsg_calls_update (dec_slice zero_Oai_ToolCall dec_Oai_ToolCall))]"

definition wf_Oai_Message :: "Oai_Message \<Rightarrow> bool" where
  "wf_Oai_Message x \<longleftrightarrow> omsg_content x \<noteq> None \<and>
     list_all wf_Oai_ToolCall (omsg_calls x)"

interpretation omsg_codec: codec "wf_Oai_Message" enc_Oai_Message dec_Oai_Message zero_Oai_Message
proof (unfold_locales, goal_cases)
  case (1 x)
  then show ?case
    by (cases x) (simp add: enc_Oai_Message_def dec_Oai_Message_def zero_Oai_Message_def wf_Oai_Message_def wire_simps wire_codecs more_wire)
next
  case (2 x)
  then show ?case by (simp add: enc_Oai_Message_def)
qed

lemmas omsg_wire [wire_codecs] = omsg_codec.roundtrip omsg_codec.slice omsg_codec.ptr

record ChatCompletionRequest =
  ccr_model :: "string"
  ccr_messages :: "Oai_Message list"
  ccr_stream :: "bool"
  ccr_temp :: "number option"
  ccr_max :: "int option"
  ccr_tools :: "Oai_Tool list"
  ccr_top_p :: "number option"
  ccr_stop :: "json"
  ccr_effort :: "string"
  ccr_kwargs :: "json gomap"
  ccr_progress :: "bool"
  ccr_budget :: "int option"

definition zero_ChatCompletionRequest :: ChatCompletionRequest where
  "zero_ChatCompletionRequest =
     \<lparr>ccr_model = [], ccr_messages = [], ccr_stream = False, ccr_temp = None, ccr_max = None, ccr_tools = [], ccr_top_p = None, ccr_stop = JNull, ccr_effort = [], ccr_kwargs = [], ccr_progress = False, ccr_budget = None\<rparr>"

definition enc_ChatCompletionRequest :: "ChatCompletionRequest \<Rightarrow> json" where
  "enc_ChatCompletionRequest x = JObj
    (opt_str ''model'' (ccr_model x) @
     [(''messages'', JArr (map enc_Oai_Message (ccr_messages x)))] @
     opt_bool ''stream'' (ccr_stream x) @
     opt_ptr ''temperature'' JNum (ccr_temp x) @
     opt_ptr ''max_tokens'' (\<lambda>i. JNum (NInt i)) (ccr_max x) @
     opt_list ''tools'' enc_Oai_Tool (ccr_tools x) @
     opt_ptr ''top_p'' JNum (ccr_top_p x) @
     opt_any ''stop'' (ccr_stop x) @
     opt_str ''reasoning_effort'' (ccr_effort x) @
     opt_map ''chat_template_kwargs'' id (ccr_kwargs x) @
     opt_bool ''return_progress'' (ccr_progress x) @
     opt_ptr ''thinking_budget_tokens'' (\<lambda>i. JNum (NInt i)) (ccr_budget x) @ [])"

definition dec_ChatCompletionRequest :: "ChatCompletionRequest decoder" where
  "dec_ChatCompletionRequest = dec_struct
    [(''model'', fld ccr_model ccr_model_update dec_string),
     (''messages'', fld ccr_messages ccr_messages_update (dec_slice zero_Oai_Message dec_Oai_Message)),
     (''stream'', fld ccr_stream ccr_stream_update dec_bool),
     (''temperature'', fld ccr_temp ccr_temp_update (dec_ptr (NInt 0) dec_float)),
     (''max_tokens'', fld ccr_max ccr_max_update (dec_ptr 0 dec_int)),
     (''tools'', fld ccr_tools ccr_tools_update (dec_slice zero_Oai_Tool dec_Oai_Tool)),
     (''top_p'', fld ccr_top_p ccr_top_p_update (dec_ptr (NInt 0) dec_float)),
     (''stop'', fld ccr_stop ccr_stop_update dec_any),
     (''reasoning_effort'', fld ccr_effort ccr_effort_update dec_string),
     (''chat_template_kwargs'', fld ccr_kwargs ccr_kwargs_update (dec_map JNull dec_any)),
     (''return_progress'', fld ccr_progress ccr_progress_update dec_bool),
     (''thinking_budget_tokens'', fld ccr_budget ccr_budget_update (dec_ptr 0 dec_int))]"

definition wf_ChatCompletionRequest :: "ChatCompletionRequest \<Rightarrow> bool" where
  "wf_ChatCompletionRequest x \<longleftrightarrow> list_all wf_Oai_Message (ccr_messages x) \<and>
     pred_option in_int64 (ccr_max x) \<and>
     sorted_map (ccr_kwargs x) \<and>
     pred_option in_int64 (ccr_budget x)"

interpretation ccr_codec: codec "wf_ChatCompletionRequest" enc_ChatCompletionRequest dec_ChatCompletionRequest zero_ChatCompletionRequest
proof (unfold_locales, goal_cases)
  case (1 x)
  then show ?case
    by (cases x; cases "ccr_temp x"; cases "ccr_max x"; cases "ccr_top_p x"; cases "ccr_budget x") (simp_all add: enc_ChatCompletionRequest_def dec_ChatCompletionRequest_def zero_ChatCompletionRequest_def wf_ChatCompletionRequest_def wire_simps wire_codecs more_wire)
next
  case (2 x)
  then show ?case by (simp add: enc_ChatCompletionRequest_def)
qed

lemmas ccr_wire [wire_codecs] = ccr_codec.roundtrip ccr_codec.slice ccr_codec.ptr

record Oai_Usage =
  ou_cache :: "int"
  ou_prompt :: "int"
  ou_completion :: "int"
  ou_total :: "int"

definition enc_Oai_Usage :: "Oai_Usage \<Rightarrow> json" where
  "enc_Oai_Usage x = JObj
    (opt_int ''cache_tokens'' (ou_cache x) @
     [(''prompt_tokens'', JNum (NInt (ou_prompt x))),
         (''completion_tokens'', JNum (NInt (ou_completion x))),
         (''total_tokens'', JNum (NInt (ou_total x)))])"

record Choice =
  och_index :: "int"
  och_message :: "Oai_Message option"
  och_delta :: "Oai_Message option"
  och_finish :: "string option"

definition enc_Choice :: "Choice \<Rightarrow> json" where
  "enc_Choice x = JObj
    ([(''index'', JNum (NInt (och_index x)))] @
     opt_ptr ''message'' enc_Oai_Message (och_message x) @
     opt_ptr ''delta'' enc_Oai_Message (och_delta x) @
     [(''finish_reason'', (case och_finish x of None \<Rightarrow> JNull | Some p \<Rightarrow> JStr p))])"

record ChatCompletionResponse =
  ocr_id :: "string"
  ocr_object :: "string"
  ocr_created :: "int"
  ocr_model :: "string"
  ocr_choices :: "Choice list"
  ocr_usage :: "Oai_Usage option"

definition enc_ChatCompletionResponse :: "ChatCompletionResponse \<Rightarrow> json" where
  "enc_ChatCompletionResponse x = JObj
    ([(''id'', JStr (ocr_id x)),
         (''object'', JStr (ocr_object x)),
         (''created'', JNum (NInt (ocr_created x))),
         (''model'', JStr (ocr_model x)),
         (''choices'', JArr (map enc_Choice (ocr_choices x)))] @
     opt_ptr ''usage'' enc_Oai_Usage (ocr_usage x) @ [])"

record ChatCompletionChunk =
  occ_id :: "string"
  occ_object :: "string"
  occ_created :: "int"
  occ_model :: "string"
  occ_choices :: "Choice list"
  occ_usage :: "Oai_Usage option"

definition enc_ChatCompletionChunk :: "ChatCompletionChunk \<Rightarrow> json" where
  "enc_ChatCompletionChunk x = JObj
    ([(''id'', JStr (occ_id x)),
         (''object'', JStr (occ_object x)),
         (''created'', JNum (NInt (occ_created x))),
         (''model'', JStr (occ_model x)),
         (''choices'', JArr (map enc_Choice (occ_choices x)))] @
     opt_ptr ''usage'' enc_Oai_Usage (occ_usage x) @ [])"

record CompletionRequest =
  cr_model :: "string"
  cr_prompt :: "raw"
  cr_max :: "int option"
  cr_temp :: "number option"
  cr_top_p :: "number option"
  cr_stream :: "bool"
  cr_stop :: "json"
  cr_suffix :: "string"

definition zero_CompletionRequest :: CompletionRequest where
  "zero_CompletionRequest =
     \<lparr>cr_model = [], cr_prompt = None, cr_max = None, cr_temp = None, cr_top_p = None, cr_stream = False, cr_stop = JNull, cr_suffix = []\<rparr>"

definition enc_CompletionRequest :: "CompletionRequest \<Rightarrow> json" where
  "enc_CompletionRequest x = JObj
    (opt_str ''model'' (cr_model x) @
     [(''prompt'', enc_raw (cr_prompt x))] @
     opt_ptr ''max_tokens'' (\<lambda>i. JNum (NInt i)) (cr_max x) @
     opt_ptr ''temperature'' JNum (cr_temp x) @
     opt_ptr ''top_p'' JNum (cr_top_p x) @
     opt_bool ''stream'' (cr_stream x) @
     opt_any ''stop'' (cr_stop x) @
     opt_str ''suffix'' (cr_suffix x) @ [])"

definition dec_CompletionRequest :: "CompletionRequest decoder" where
  "dec_CompletionRequest = dec_struct
    [(''model'', fld cr_model cr_model_update dec_string),
     (''prompt'', fld cr_prompt cr_prompt_update dec_raw),
     (''max_tokens'', fld cr_max cr_max_update (dec_ptr 0 dec_int)),
     (''temperature'', fld cr_temp cr_temp_update (dec_ptr (NInt 0) dec_float)),
     (''top_p'', fld cr_top_p cr_top_p_update (dec_ptr (NInt 0) dec_float)),
     (''stream'', fld cr_stream cr_stream_update dec_bool),
     (''stop'', fld cr_stop cr_stop_update dec_any),
     (''suffix'', fld cr_suffix cr_suffix_update dec_string)]"

definition wf_CompletionRequest :: "CompletionRequest \<Rightarrow> bool" where
  "wf_CompletionRequest x \<longleftrightarrow> cr_prompt x \<noteq> None \<and>
     pred_option in_int64 (cr_max x)"

interpretation cr_codec: codec "wf_CompletionRequest" enc_CompletionRequest dec_CompletionRequest zero_CompletionRequest
proof (unfold_locales, goal_cases)
  case (1 x)
  then show ?case
    by (cases x; cases "cr_max x"; cases "cr_temp x"; cases "cr_top_p x") (simp_all add: enc_CompletionRequest_def dec_CompletionRequest_def zero_CompletionRequest_def wf_CompletionRequest_def wire_simps wire_codecs more_wire)
next
  case (2 x)
  then show ?case by (simp add: enc_CompletionRequest_def)
qed

lemmas cr_wire [wire_codecs] = cr_codec.roundtrip cr_codec.slice cr_codec.ptr

record CompletionChoice =
  lch_text :: "string"
  lch_index :: "int"
  lch_logprobs :: "json option"
  lch_finish :: "string"

definition enc_CompletionChoice :: "CompletionChoice \<Rightarrow> json" where
  "enc_CompletionChoice x = JObj
    ([(''text'', JStr (lch_text x)),
         (''index'', JNum (NInt (lch_index x))),
         (''logprobs'', enc_raw (lch_logprobs x)),
         (''finish_reason'', JStr (lch_finish x))])"

record CompletionResponse =
  lcr_id :: "string"
  lcr_object :: "string"
  lcr_created :: "int"
  lcr_model :: "string"
  lcr_choices :: "CompletionChoice list"
  lcr_usage :: "Oai_Usage option"

definition enc_CompletionResponse :: "CompletionResponse \<Rightarrow> json" where
  "enc_CompletionResponse x = JObj
    ([(''id'', JStr (lcr_id x)),
         (''object'', JStr (lcr_object x)),
         (''created'', JNum (NInt (lcr_created x))),
         (''model'', JStr (lcr_model x)),
         (''choices'', JArr (map enc_CompletionChoice (lcr_choices x)))] @
     opt_ptr ''usage'' enc_Oai_Usage (lcr_usage x) @ [])"

record Oai_ModelObject =
  omo_id :: "string"
  omo_object :: "string"
  omo_created :: "int"
  omo_owner :: "string"

definition enc_Oai_ModelObject :: "Oai_ModelObject \<Rightarrow> json" where
  "enc_Oai_ModelObject x = JObj
    ([(''id'', JStr (omo_id x)),
         (''object'', JStr (omo_object x)),
         (''created'', JNum (NInt (omo_created x))),
         (''owned_by'', JStr (omo_owner x))])"

record Oai_ModelListResponse =
  oml_object :: "string"
  oml_data :: "Oai_ModelObject list"

definition enc_Oai_ModelListResponse :: "Oai_ModelListResponse \<Rightarrow> json" where
  "enc_Oai_ModelListResponse x = JObj
    ([(''object'', JStr (oml_object x)),
         (''data'', JArr (map enc_Oai_ModelObject (oml_data x)))])"

record EmbeddingRequest =
  er_input :: "raw"
  er_model :: "string"
  er_dims :: "int option"
  er_format :: "string"

definition zero_EmbeddingRequest :: EmbeddingRequest where
  "zero_EmbeddingRequest =
     \<lparr>er_input = None, er_model = [], er_dims = None, er_format = []\<rparr>"

definition enc_EmbeddingRequest :: "EmbeddingRequest \<Rightarrow> json" where
  "enc_EmbeddingRequest x = JObj
    ([(''input'', enc_raw (er_input x))] @
     opt_str ''model'' (er_model x) @
     opt_ptr ''dimensions'' (\<lambda>i. JNum (NInt i)) (er_dims x) @
     opt_str ''encoding_format'' (er_format x) @ [])"

definition dec_EmbeddingRequest :: "EmbeddingRequest decoder" where
  "dec_EmbeddingRequest = dec_struct
    [(''input'', fld er_input er_input_update dec_raw),
     (''model'', fld er_model er_model_update dec_string),
     (''dimensions'', fld er_dims er_dims_update (dec_ptr 0 dec_int)),
     (''encoding_format'', fld er_format er_format_update dec_string)]"

definition wf_EmbeddingRequest :: "EmbeddingRequest \<Rightarrow> bool" where
  "wf_EmbeddingRequest x \<longleftrightarrow> er_input x \<noteq> None \<and>
     pred_option in_int64 (er_dims x)"

interpretation er_codec: codec "wf_EmbeddingRequest" enc_EmbeddingRequest dec_EmbeddingRequest zero_EmbeddingRequest
proof (unfold_locales, goal_cases)
  case (1 x)
  then show ?case
    by (cases x; cases "er_dims x") (simp_all add: enc_EmbeddingRequest_def dec_EmbeddingRequest_def zero_EmbeddingRequest_def wf_EmbeddingRequest_def wire_simps wire_codecs more_wire)
next
  case (2 x)
  then show ?case by (simp add: enc_EmbeddingRequest_def)
qed

lemmas er_wire [wire_codecs] = er_codec.roundtrip er_codec.slice er_codec.ptr

record EmbeddingObject =
  eo_object :: "string"
  eo_embedding :: "number list"
  eo_index :: "int"

definition enc_EmbeddingObject :: "EmbeddingObject \<Rightarrow> json" where
  "enc_EmbeddingObject x = JObj
    ([(''object'', JStr (eo_object x)),
         (''embedding'', JArr (map JNum (eo_embedding x))),
         (''index'', JNum (NInt (eo_index x)))])"

record EmbeddingUsage =
  eu_prompt :: "int"
  eu_total :: "int"

definition enc_EmbeddingUsage :: "EmbeddingUsage \<Rightarrow> json" where
  "enc_EmbeddingUsage x = JObj
    ([(''prompt_tokens'', JNum (NInt (eu_prompt x))),
         (''total_tokens'', JNum (NInt (eu_total x)))])"

record EmbeddingResponse =
  ers_object :: "string"
  ers_data :: "EmbeddingObject list"
  ers_model :: "string"
  ers_usage :: "EmbeddingUsage"

definition enc_EmbeddingResponse :: "EmbeddingResponse \<Rightarrow> json" where
  "enc_EmbeddingResponse x = JObj
    ([(''object'', JStr (ers_object x)),
         (''data'', JArr (map enc_EmbeddingObject (ers_data x))),
         (''model'', JStr (ers_model x)),
         (''usage'', enc_EmbeddingUsage (ers_usage x))])"

record ListResponse =
  lr_object :: "string"
  lr_data :: "raw"
  lr_more :: "bool"
  lr_first :: "string option"
  lr_last :: "string option"

definition enc_ListResponse :: "ListResponse \<Rightarrow> json" where
  "enc_ListResponse x = JObj
    ([(''object'', JStr (lr_object x)),
         (''data'', enc_raw (lr_data x)),
         (''has_more'', JBool (lr_more x)),
         (''first_id'', (case lr_first x of None \<Rightarrow> JNull | Some p \<Rightarrow> JStr p)),
         (''last_id'', (case lr_last x of None \<Rightarrow> JNull | Some p \<Rightarrow> JStr p))])"

record Oai_ErrorDetail =
  oed_message :: "string"
  oed_type :: "string"
  oed_code :: "string"

definition enc_Oai_ErrorDetail :: "Oai_ErrorDetail \<Rightarrow> json" where
  "enc_Oai_ErrorDetail x = JObj
    ([(''message'', JStr (oed_message x)),
         (''type'', JStr (oed_type x))] @
     opt_str ''code'' (oed_code x) @ [])"

record Oai_ErrorResponse =
  oer_error :: "Oai_ErrorDetail"

definition enc_Oai_ErrorResponse :: "Oai_ErrorResponse \<Rightarrow> json" where
  "enc_Oai_ErrorResponse x = JObj
    ([(''error'', enc_Oai_ErrorDetail (oer_error x))])"

end
