(* ===== verification/Anthropic_Types.thy ===== *)
theory Anthropic_Types
  imports Openai_Types
begin

text \<open>
  The Anthropic request, response and streaming event structs (\<open>pkg/anthropic/types.go\<close>), in
  the manner of \<open>Protocol_Types\<close>.
\<close>

record ThinkingConfig =
  thc_type :: "string"
  thc_budget :: "int"

definition zero_ThinkingConfig :: ThinkingConfig where
  "zero_ThinkingConfig =
     \<lparr>thc_type = [], thc_budget = 0\<rparr>"

definition enc_ThinkingConfig :: "ThinkingConfig \<Rightarrow> json" where
  "enc_ThinkingConfig x = JObj
    ([(''type'', JStr (thc_type x))] @
     opt_int ''budget_tokens'' (thc_budget x) @ [])"

definition dec_ThinkingConfig :: "ThinkingConfig decoder" where
  "dec_ThinkingConfig = dec_struct
    [(''type'', fld thc_type thc_type_update dec_string),
     (''budget_tokens'', fld thc_budget thc_budget_update dec_int)]"

definition wf_ThinkingConfig :: "ThinkingConfig \<Rightarrow> bool" where
  "wf_ThinkingConfig x \<longleftrightarrow> in_int64 (thc_budget x)"

interpretation thc_codec: codec "wf_ThinkingConfig" enc_ThinkingConfig dec_ThinkingConfig zero_ThinkingConfig
proof (unfold_locales, goal_cases)
  case (1 x)
  then show ?case
    by (cases x) (simp add: enc_ThinkingConfig_def dec_ThinkingConfig_def zero_ThinkingConfig_def wf_ThinkingConfig_def wire_simps wire_codecs more_wire)
next
  case (2 x)
  then show ?case by (simp add: enc_ThinkingConfig_def)
qed

lemmas thc_wire [wire_codecs] = thc_codec.roundtrip thc_codec.slice thc_codec.ptr

record Ant_Message =
  am_role :: "string"
  am_content :: "raw"

definition zero_Ant_Message :: Ant_Message where
  "zero_Ant_Message =
     \<lparr>am_role = [], am_content = None\<rparr>"

definition enc_Ant_Message :: "Ant_Message \<Rightarrow> json" where
  "enc_Ant_Message x = JObj
    ([(''role'', JStr (am_role x)),
         (''content'', enc_raw (am_content x))])"

definition dec_Ant_Message :: "Ant_Message decoder" where
  "dec_Ant_Message = dec_struct
    [(''role'', fld am_role am_role_update dec_string),
     (''content'', fld am_content am_content_update dec_raw)]"

definition wf_Ant_Message :: "Ant_Message \<Rightarrow> bool" where
  "wf_Ant_Message x \<longleftrightarrow> am_content x \<noteq> None"

interpretation am_codec: codec "wf_Ant_Message" enc_Ant_Message dec_Ant_Message zero_Ant_Message
proof (unfold_locales, goal_cases)
  case (1 x)
  then show ?case
    by (cases x) (simp add: enc_Ant_Message_def dec_Ant_Message_def zero_Ant_Message_def wf_Ant_Message_def wire_simps wire_codecs more_wire)
next
  case (2 x)
  then show ?case by (simp add: enc_Ant_Message_def)
qed

lemmas am_wire [wire_codecs] = am_codec.roundtrip am_codec.slice am_codec.ptr

record Ant_Tool =
  at_name :: "string"
  at_desc :: "string"
  at_schema :: "raw"

definition zero_Ant_Tool :: Ant_Tool where
  "zero_Ant_Tool =
     \<lparr>at_name = [], at_desc = [], at_schema = None\<rparr>"

definition enc_Ant_Tool :: "Ant_Tool \<Rightarrow> json" where
  "enc_Ant_Tool x = JObj
    ([(''name'', JStr (at_name x))] @
     opt_str ''description'' (at_desc x) @
     [(''input_schema'', enc_raw (at_schema x))])"

definition dec_Ant_Tool :: "Ant_Tool decoder" where
  "dec_Ant_Tool = dec_struct
    [(''name'', fld at_name at_name_update dec_string),
     (''description'', fld at_desc at_desc_update dec_string),
     (''input_schema'', fld at_schema at_schema_update dec_raw)]"

definition wf_Ant_Tool :: "Ant_Tool \<Rightarrow> bool" where
  "wf_Ant_Tool x \<longleftrightarrow> at_schema x \<noteq> None"

interpretation at_codec: codec "wf_Ant_Tool" enc_Ant_Tool dec_Ant_Tool zero_Ant_Tool
proof (unfold_locales, goal_cases)
  case (1 x)
  then show ?case
    by (cases x) (simp add: enc_Ant_Tool_def dec_Ant_Tool_def zero_Ant_Tool_def wf_Ant_Tool_def wire_simps wire_codecs more_wire)
next
  case (2 x)
  then show ?case by (simp add: enc_Ant_Tool_def)
qed

lemmas at_wire [wire_codecs] = at_codec.roundtrip at_codec.slice at_codec.ptr

record InputContentBlock =
  icb_type :: "string"
  icb_text :: "string"
  icb_id :: "string"
  icb_name :: "string"
  icb_input :: "raw"
  icb_use_id :: "string"
  icb_content :: "raw"

definition zero_InputContentBlock :: InputContentBlock where
  "zero_InputContentBlock =
     \<lparr>icb_type = [], icb_text = [], icb_id = [], icb_name = [], icb_input = None, icb_use_id = [], icb_content = None\<rparr>"

definition enc_InputContentBlock :: "InputContentBlock \<Rightarrow> json" where
  "enc_InputContentBlock x = JObj
    ([(''type'', JStr (icb_type x))] @
     opt_str ''text'' (icb_text x) @
     opt_str ''id'' (icb_id x) @
     opt_str ''name'' (icb_name x) @
     opt_raw ''input'' (icb_input x) @
     opt_str ''tool_use_id'' (icb_use_id x) @
     opt_raw ''content'' (icb_content x) @ [])"

definition dec_InputContentBlock :: "InputContentBlock decoder" where
  "dec_InputContentBlock = dec_struct
    [(''type'', fld icb_type icb_type_update dec_string),
     (''text'', fld icb_text icb_text_update dec_string),
     (''id'', fld icb_id icb_id_update dec_string),
     (''name'', fld icb_name icb_name_update dec_string),
     (''input'', fld icb_input icb_input_update dec_raw),
     (''tool_use_id'', fld icb_use_id icb_use_id_update dec_string),
     (''content'', fld icb_content icb_content_update dec_raw)]"

interpretation icb_codec: codec "(\<lambda>_. True)" enc_InputContentBlock dec_InputContentBlock zero_InputContentBlock
proof (unfold_locales, goal_cases)
  case (1 x)
  then show ?case
    by (cases x) (simp add: enc_InputContentBlock_def dec_InputContentBlock_def zero_InputContentBlock_def wire_simps wire_codecs more_wire)
next
  case (2 x)
  then show ?case by (simp add: enc_InputContentBlock_def)
qed

lemmas icb_wire [wire_codecs] = icb_codec.roundtrip icb_codec.slice icb_codec.ptr

record MessagesRequest =
  mr_model :: "string"
  mr_messages :: "Ant_Message list"
  mr_max :: "int"
  mr_stream :: "bool"
  mr_system :: "raw"
  mr_temp :: "number option"
  mr_top_p :: "number option"
  mr_tools :: "Ant_Tool list"
  mr_stops :: "string list"
  mr_thinking :: "ThinkingConfig option"

definition zero_MessagesRequest :: MessagesRequest where
  "zero_MessagesRequest =
     \<lparr>mr_model = [], mr_messages = [], mr_max = 0, mr_stream = False, mr_system = None, mr_temp = None, mr_top_p = None, mr_tools = [], mr_stops = [], mr_thinking = None\<rparr>"

definition enc_MessagesRequest :: "MessagesRequest \<Rightarrow> json" where
  "enc_MessagesRequest x = JObj
    ([(''model'', JStr (mr_model x)),
         (''messages'', JArr (map enc_Ant_Message (mr_messages x))),
         (''max_tokens'', JNum (NInt (mr_max x)))] @
     opt_bool ''stream'' (mr_stream x) @
     opt_raw ''system'' (mr_system x) @
     opt_ptr ''temperature'' JNum (mr_temp x) @
     opt_ptr ''top_p'' JNum (mr_top_p x) @
     opt_list ''tools'' enc_Ant_Tool (mr_tools x) @
     opt_list ''stop_sequences'' JStr (mr_stops x) @
     opt_ptr ''thinking'' enc_ThinkingConfig (mr_thinking x) @ [])"

definition dec_MessagesRequest :: "MessagesRequest decoder" where
  "dec_MessagesRequest = dec_struct
    [(''model'', fld mr_model mr_model_update dec_string),
     (''messages'', fld mr_messages mr_messages_update (dec_slice zero_Ant_Message dec_Ant_Message)),
     (''max_tokens'', fld mr_max mr_max_update dec_int),
     (''stream'', fld mr_stream mr_stream_update dec_bool),
     (''system'', fld mr_system mr_system_update dec_raw),
     (''temperature'', fld mr_temp mr_temp_update (dec_ptr (NInt 0) dec_float)),
     (''top_p'', fld mr_top_p mr_top_p_update (dec_ptr (NInt 0) dec_float)),
     (''tools'', fld mr_tools mr_tools_update (dec_slice zero_Ant_Tool dec_Ant_Tool)),
     (''stop_sequences'', fld mr_stops mr_stops_update (dec_slice [] dec_string)),
     (''thinking'', fld mr_thinking mr_thinking_update (dec_ptr zero_ThinkingConfig dec_ThinkingConfig))]"

definition wf_MessagesRequest :: "MessagesRequest \<Rightarrow> bool" where
  "wf_MessagesRequest x \<longleftrightarrow> list_all wf_Ant_Message (mr_messages x) \<and>
     in_int64 (mr_max x) \<and>
     list_all wf_Ant_Tool (mr_tools x) \<and>
     pred_option wf_ThinkingConfig (mr_thinking x)"

interpretation mr_codec: codec "wf_MessagesRequest" enc_MessagesRequest dec_MessagesRequest zero_MessagesRequest
proof (unfold_locales, goal_cases)
  case (1 x)
  then show ?case
    by (cases x; cases "mr_temp x"; cases "mr_top_p x"; cases "mr_thinking x") (simp_all add: enc_MessagesRequest_def dec_MessagesRequest_def zero_MessagesRequest_def wf_MessagesRequest_def wire_simps wire_codecs more_wire)
next
  case (2 x)
  then show ?case by (simp add: enc_MessagesRequest_def)
qed

lemmas mr_wire [wire_codecs] = mr_codec.roundtrip mr_codec.slice mr_codec.ptr

record CountTokensRequest =
  ctr_model :: "string"
  ctr_messages :: "Ant_Message list"
  ctr_system :: "raw"
  ctr_tools :: "Ant_Tool list"

definition zero_CountTokensRequest :: CountTokensRequest where
  "zero_CountTokensRequest =
     \<lparr>ctr_model = [], ctr_messages = [], ctr_system = None, ctr_tools = []\<rparr>"

definition enc_CountTokensRequest :: "CountTokensRequest \<Rightarrow> json" where
  "enc_CountTokensRequest x = JObj
    ([(''model'', JStr (ctr_model x)),
         (''messages'', JArr (map enc_Ant_Message (ctr_messages x)))] @
     opt_raw ''system'' (ctr_system x) @
     opt_list ''tools'' enc_Ant_Tool (ctr_tools x) @ [])"

definition dec_CountTokensRequest :: "CountTokensRequest decoder" where
  "dec_CountTokensRequest = dec_struct
    [(''model'', fld ctr_model ctr_model_update dec_string),
     (''messages'', fld ctr_messages ctr_messages_update (dec_slice zero_Ant_Message dec_Ant_Message)),
     (''system'', fld ctr_system ctr_system_update dec_raw),
     (''tools'', fld ctr_tools ctr_tools_update (dec_slice zero_Ant_Tool dec_Ant_Tool))]"

definition wf_CountTokensRequest :: "CountTokensRequest \<Rightarrow> bool" where
  "wf_CountTokensRequest x \<longleftrightarrow> list_all wf_Ant_Message (ctr_messages x) \<and>
     list_all wf_Ant_Tool (ctr_tools x)"

interpretation ctr_codec: codec "wf_CountTokensRequest" enc_CountTokensRequest dec_CountTokensRequest zero_CountTokensRequest
proof (unfold_locales, goal_cases)
  case (1 x)
  then show ?case
    by (cases x) (simp add: enc_CountTokensRequest_def dec_CountTokensRequest_def zero_CountTokensRequest_def wf_CountTokensRequest_def wire_simps wire_codecs more_wire)
next
  case (2 x)
  then show ?case by (simp add: enc_CountTokensRequest_def)
qed

lemmas ctr_wire [wire_codecs] = ctr_codec.roundtrip ctr_codec.slice ctr_codec.ptr

record CountTokensResponse =
  ctp_input :: "int"

definition enc_CountTokensResponse :: "CountTokensResponse \<Rightarrow> json" where
  "enc_CountTokensResponse x = JObj
    ([(''input_tokens'', JNum (NInt (ctp_input x)))])"

record ContentBlock =
  cb_type :: "string"
  cb_thinking :: "string"
  cb_text :: "string"
  cb_id :: "string"
  cb_name :: "string"
  cb_input :: "raw"

definition enc_ContentBlock :: "ContentBlock \<Rightarrow> json" where
  "enc_ContentBlock x = JObj
    ([(''type'', JStr (cb_type x))] @
     opt_str ''thinking'' (cb_thinking x) @
     opt_str ''text'' (cb_text x) @
     opt_str ''id'' (cb_id x) @
     opt_str ''name'' (cb_name x) @
     opt_raw ''input'' (cb_input x) @ [])"

record Ant_Usage =
  au_input :: "int"
  au_output :: "int"

definition enc_Ant_Usage :: "Ant_Usage \<Rightarrow> json" where
  "enc_Ant_Usage x = JObj
    ([(''input_tokens'', JNum (NInt (au_input x))),
         (''output_tokens'', JNum (NInt (au_output x)))])"

record MessagesResponse =
  mrs_id :: "string"
  mrs_type :: "string"
  mrs_role :: "string"
  mrs_content :: "ContentBlock list"
  mrs_model :: "string"
  mrs_stop :: "string option"
  mrs_stopseq :: "string option"
  mrs_usage :: "Ant_Usage"

definition enc_MessagesResponse :: "MessagesResponse \<Rightarrow> json" where
  "enc_MessagesResponse x = JObj
    ([(''id'', JStr (mrs_id x)),
         (''type'', JStr (mrs_type x)),
         (''role'', JStr (mrs_role x)),
         (''content'', JArr (map enc_ContentBlock (mrs_content x))),
         (''model'', JStr (mrs_model x)),
         (''stop_reason'', (case mrs_stop x of None \<Rightarrow> JNull | Some p \<Rightarrow> JStr p)),
         (''stop_sequence'', (case mrs_stopseq x of None \<Rightarrow> JNull | Some p \<Rightarrow> JStr p)),
         (''usage'', enc_Ant_Usage (mrs_usage x))])"

record MessageStartEvent =
  mse_type :: "string"
  mse_message :: "MessagesResponse"

definition enc_MessageStartEvent :: "MessageStartEvent \<Rightarrow> json" where
  "enc_MessageStartEvent x = JObj
    ([(''type'', JStr (mse_type x)),
         (''message'', enc_MessagesResponse (mse_message x))])"

record ContentBlockStartEvent =
  bse_type :: "string"
  bse_index :: "int"
  bse_block :: "ContentBlock"

definition enc_ContentBlockStartEvent :: "ContentBlockStartEvent \<Rightarrow> json" where
  "enc_ContentBlockStartEvent x = JObj
    ([(''type'', JStr (bse_type x)),
         (''index'', JNum (NInt (bse_index x))),
         (''content_block'', enc_ContentBlock (bse_block x))])"

record Delta =
  del_type :: "string"
  del_thinking :: "string"
  del_text :: "string"
  del_partial :: "string"

definition enc_Delta :: "Delta \<Rightarrow> json" where
  "enc_Delta x = JObj
    ([(''type'', JStr (del_type x))] @
     opt_str ''thinking'' (del_thinking x) @
     opt_str ''text'' (del_text x) @
     opt_str ''partial_json'' (del_partial x) @ [])"

record ContentBlockDeltaEvent =
  bde_type :: "string"
  bde_index :: "int"
  bde_delta :: "Delta"

definition enc_ContentBlockDeltaEvent :: "ContentBlockDeltaEvent \<Rightarrow> json" where
  "enc_ContentBlockDeltaEvent x = JObj
    ([(''type'', JStr (bde_type x)),
         (''index'', JNum (NInt (bde_index x))),
         (''delta'', enc_Delta (bde_delta x))])"

record ContentBlockStopEvent =
  bpe_type :: "string"
  bpe_index :: "int"

definition enc_ContentBlockStopEvent :: "ContentBlockStopEvent \<Rightarrow> json" where
  "enc_ContentBlockStopEvent x = JObj
    ([(''type'', JStr (bpe_type x)),
         (''index'', JNum (NInt (bpe_index x)))])"

record MessageDelta =
  mdl_stop :: "string option"
  mdl_stopseq :: "string option"

definition enc_MessageDelta :: "MessageDelta \<Rightarrow> json" where
  "enc_MessageDelta x = JObj
    ([(''stop_reason'', (case mdl_stop x of None \<Rightarrow> JNull | Some p \<Rightarrow> JStr p)),
         (''stop_sequence'', (case mdl_stopseq x of None \<Rightarrow> JNull | Some p \<Rightarrow> JStr p))])"

record DeltaUsage =
  du_output :: "int"

definition enc_DeltaUsage :: "DeltaUsage \<Rightarrow> json" where
  "enc_DeltaUsage x = JObj
    ([(''output_tokens'', JNum (NInt (du_output x)))])"

record MessageDeltaEvent =
  mde_type :: "string"
  mde_delta :: "MessageDelta"
  mde_usage :: "DeltaUsage"

definition enc_MessageDeltaEvent :: "MessageDeltaEvent \<Rightarrow> json" where
  "enc_MessageDeltaEvent x = JObj
    ([(''type'', JStr (mde_type x)),
         (''delta'', enc_MessageDelta (mde_delta x)),
         (''usage'', enc_DeltaUsage (mde_usage x))])"

record MessageStopEvent =
  mpe_type :: "string"

definition enc_MessageStopEvent :: "MessageStopEvent \<Rightarrow> json" where
  "enc_MessageStopEvent x = JObj
    ([(''type'', JStr (mpe_type x))])"

record PingEvent =
  pe_type :: "string"

definition enc_PingEvent :: "PingEvent \<Rightarrow> json" where
  "enc_PingEvent x = JObj
    ([(''type'', JStr (pe_type x))])"

record Ant_ModelObject =
  amo_id :: "string"
  amo_created :: "string"
  amo_name :: "string"
  amo_type :: "string"

definition enc_Ant_ModelObject :: "Ant_ModelObject \<Rightarrow> json" where
  "enc_Ant_ModelObject x = JObj
    ([(''id'', JStr (amo_id x)),
         (''created_at'', JStr (amo_created x)),
         (''display_name'', JStr (amo_name x)),
         (''type'', JStr (amo_type x))])"

record Ant_ModelListResponse =
  aml_data :: "Ant_ModelObject list"
  aml_first :: "string option"
  aml_more :: "bool"
  aml_last :: "string option"

definition enc_Ant_ModelListResponse :: "Ant_ModelListResponse \<Rightarrow> json" where
  "enc_Ant_ModelListResponse x = JObj
    ([(''data'', JArr (map enc_Ant_ModelObject (aml_data x))),
         (''first_id'', (case aml_first x of None \<Rightarrow> JNull | Some p \<Rightarrow> JStr p)),
         (''has_more'', JBool (aml_more x)),
         (''last_id'', (case aml_last x of None \<Rightarrow> JNull | Some p \<Rightarrow> JStr p))])"

record Ant_ErrorDetail =
  aed_type :: "string"
  aed_message :: "string"

definition enc_Ant_ErrorDetail :: "Ant_ErrorDetail \<Rightarrow> json" where
  "enc_Ant_ErrorDetail x = JObj
    ([(''type'', JStr (aed_type x)),
         (''message'', JStr (aed_message x))])"

record Ant_ErrorResponse =
  aer_type :: "string"
  aer_error :: "Ant_ErrorDetail"
  aer_req :: "string"

definition enc_Ant_ErrorResponse :: "Ant_ErrorResponse \<Rightarrow> json" where
  "enc_Ant_ErrorResponse x = JObj
    ([(''type'', JStr (aer_type x)),
         (''error'', enc_Ant_ErrorDetail (aer_error x)),
         (''request_id'', JStr (aer_req x))])"

end
