(* ===== verification/Registry_Types.thy ===== *)
theory Registry_Types
  imports Openai_Types
begin

text \<open>
  The structs of the model registry (\<open>pkg/registry/registry.go\<close>), in the manner of
  \<open>Protocol_Types\<close>.
\<close>

record ModelFormat =
  mf_type :: "string"
  mf_hf :: "string"
  mf_file :: "string"

definition zero_ModelFormat :: ModelFormat where
  "zero_ModelFormat =
     \<lparr>mf_type = [], mf_hf = [], mf_file = []\<rparr>"

definition enc_ModelFormat :: "ModelFormat \<Rightarrow> json" where
  "enc_ModelFormat x = JObj
    ([(''type'', JStr (mf_type x)),
         (''huggingface_id'', JStr (mf_hf x))] @
     opt_str ''file_name'' (mf_file x) @ [])"

definition dec_ModelFormat :: "ModelFormat decoder" where
  "dec_ModelFormat = dec_struct
    [(''type'', fld mf_type mf_type_update dec_string),
     (''huggingface_id'', fld mf_hf mf_hf_update dec_string),
     (''file_name'', fld mf_file mf_file_update dec_string)]"

interpretation mf_codec: codec "(\<lambda>_. True)" enc_ModelFormat dec_ModelFormat zero_ModelFormat
proof (unfold_locales, goal_cases)
  case (1 x)
  then show ?case
    by (cases x) (simp add: enc_ModelFormat_def dec_ModelFormat_def zero_ModelFormat_def wire_simps wire_codecs more_wire)
next
  case (2 x)
  then show ?case by (simp add: enc_ModelFormat_def)
qed

lemmas mf_wire [wire_codecs] = mf_codec.roundtrip mf_codec.slice mf_codec.ptr

record Model =
  mdll_id :: "string"
  mdll_name :: "string"
  mdll_hf :: "string"
  mdll_quant :: "string"
  mdll_family :: "string"
  mdll_params :: "string"
  mdll_ctx :: "int"
  mdll_maxctx :: "int"
  mdll_vram :: "number"
  mdll_caps :: "string list"
  mdll_file :: "string"
  mdll_size :: "int option"
  mdll_mmproj :: "string"
  mdll_formats :: "ModelFormat list"

definition zero_Model :: Model where
  "zero_Model =
     \<lparr>mdll_id = [], mdll_name = [], mdll_hf = [], mdll_quant = [], mdll_family = [], mdll_params = [], mdll_ctx = 0, mdll_maxctx = 0, mdll_vram = NInt 0, mdll_caps = [], mdll_file = [], mdll_size = None, mdll_mmproj = [], mdll_formats = []\<rparr>"

definition enc_Model :: "Model \<Rightarrow> json" where
  "enc_Model x = JObj
    ([(''id'', JStr (mdll_id x)),
         (''model_name'', JStr (mdll_name x)),
         (''huggingface_id'', JStr (mdll_hf x)),
         (''quantization'', JStr (mdll_quant x)),
         (''family'', JStr (mdll_family x)),
         (''parameters'', JStr (mdll_params x)),
         (''default_context_size'', JNum (NInt (mdll_ctx x))),
         (''max_context_size'', JNum (NInt (mdll_maxctx x))),
         (''vram_requirements_gb'', JNum (mdll_vram x)),
         (''capabilities'', enc_strs (mdll_caps x)),
         (''file_name'', JStr (mdll_file x))] @
     opt_ptr ''file_size_bytes'' (\<lambda>i. JNum (NInt i)) (mdll_size x) @
     opt_str ''mmproj_file_name'' (mdll_mmproj x) @
     opt_list ''formats'' enc_ModelFormat (mdll_formats x) @ [])"

definition dec_Model :: "Model decoder" where
  "dec_Model = dec_struct
    [(''id'', fld mdll_id mdll_id_update dec_string),
     (''model_name'', fld mdll_name mdll_name_update dec_string),
     (''huggingface_id'', fld mdll_hf mdll_hf_update dec_string),
     (''quantization'', fld mdll_quant mdll_quant_update dec_string),
     (''family'', fld mdll_family mdll_family_update dec_string),
     (''parameters'', fld mdll_params mdll_params_update dec_string),
     (''default_context_size'', fld mdll_ctx mdll_ctx_update dec_int),
     (''max_context_size'', fld mdll_maxctx mdll_maxctx_update dec_int),
     (''vram_requirements_gb'', fld mdll_vram mdll_vram_update dec_float),
     (''capabilities'', fld mdll_caps mdll_caps_update (dec_slice [] dec_string)),
     (''file_name'', fld mdll_file mdll_file_update dec_string),
     (''file_size_bytes'', fld mdll_size mdll_size_update (dec_ptr 0 dec_int)),
     (''mmproj_file_name'', fld mdll_mmproj mdll_mmproj_update dec_string),
     (''formats'', fld mdll_formats mdll_formats_update (dec_slice zero_ModelFormat dec_ModelFormat))]"

definition wf_Model :: "Model \<Rightarrow> bool" where
  "wf_Model x \<longleftrightarrow> in_int64 (mdll_ctx x) \<and>
     in_int64 (mdll_maxctx x) \<and>
     pred_option in_int64 (mdll_size x)"

interpretation mdll_codec: codec "wf_Model" enc_Model dec_Model zero_Model
proof (unfold_locales, goal_cases)
  case (1 x)
  then show ?case
    by (cases x; cases "mdll_size x") (simp_all add: enc_Model_def dec_Model_def zero_Model_def wf_Model_def wire_simps wire_codecs more_wire)
next
  case (2 x)
  then show ?case by (simp add: enc_Model_def)
qed

lemmas mdll_wire [wire_codecs] = mdll_codec.roundtrip mdll_codec.slice mdll_codec.ptr

record Registry =
  reg_version :: "string"
  reg_at :: "string"
  reg_models :: "Model list"

definition zero_Registry :: Registry where
  "zero_Registry =
     \<lparr>reg_version = [], reg_at = [], reg_models = []\<rparr>"

definition enc_Registry :: "Registry \<Rightarrow> json" where
  "enc_Registry x = JObj
    ([(''version'', JStr (reg_version x)),
         (''generated_at'', JStr (reg_at x)),
         (''models'', JArr (map enc_Model (reg_models x)))])"

definition dec_Registry :: "Registry decoder" where
  "dec_Registry = dec_struct
    [(''version'', fld reg_version reg_version_update dec_string),
     (''generated_at'', fld reg_at reg_at_update dec_string),
     (''models'', fld reg_models reg_models_update (dec_slice zero_Model dec_Model))]"

definition wf_Registry :: "Registry \<Rightarrow> bool" where
  "wf_Registry x \<longleftrightarrow> list_all wf_Model (reg_models x)"

interpretation reg_codec: codec "wf_Registry" enc_Registry dec_Registry zero_Registry
proof (unfold_locales, goal_cases)
  case (1 x)
  then show ?case
    by (cases x) (simp add: enc_Registry_def dec_Registry_def zero_Registry_def wf_Registry_def wire_simps wire_codecs more_wire)
next
  case (2 x)
  then show ?case by (simp add: enc_Registry_def)
qed

lemmas reg_wire [wire_codecs] = reg_codec.roundtrip reg_codec.slice reg_codec.ptr

end
