(* ===== verification/Tool_Env.thy ===== *)
theory Tool_Env
  imports Go_Prelude
begin

text \<open>
  \<open>pkg/tools/env.go\<close>: the credentials of tools in the environment and in a job.  The process
  environment is the list of its \<open>KEY=VALUE\<close> strings; the context's credential map is an
  optional map.  The lemmas: which variable a credential comes from, and what a tool's
  environment holds after the four sources are merged.
\<close>

section \<open>Strings\<close>

text \<open>\<open>strings.Cut\<close>: what is before the first separator, what is after it, whether it was there.\<close>

fun Cut :: "string \<Rightarrow> string \<Rightarrow> string \<times> string \<times> bool" where
  "Cut [] sep = ([], [], sep = [])"
| "Cut (c # cs) sep =
     (if HasPrefix (c # cs) sep then ([], drop (length sep) (c # cs), True)
      else (case Cut cs sep of (b, a, found) \<Rightarrow> (c # b, a, found)))"

definition env_split :: "string \<Rightarrow> string \<times> string" where
  "env_split kv = (case Cut kv ''='' of (k, v, _) \<Rightarrow> (k, v))"

definition Getenv :: "string list \<Rightarrow> string \<Rightarrow> string" where
  "Getenv environ key = (case map_of (map env_split environ) key of None \<Rightarrow> [] | Some v \<Rightarrow> v)"

section \<open>Credentials\<close>

definition WithCredentials :: "string gomap option \<Rightarrow> string gomap \<Rightarrow> string gomap option" where
  "WithCredentials ctx creds = (if creds = [] then ctx else Some creds)"

definition Credential :: "string list \<Rightarrow> string gomap option \<Rightarrow> string \<Rightarrow> string" where
  "Credential environ ctx key =
     (case ctx of
        Some creds \<Rightarrow> (case mget creds key of Some v \<Rightarrow> v | None \<Rightarrow> Getenv environ key)
      | None \<Rightarrow> Getenv environ key)"

definition CredentialsFromCtx :: "string gomap option \<Rightarrow> string gomap" where
  "CredentialsFromCtx ctx = (case ctx of None \<Rightarrow> [] | Some creds \<Rightarrow> creds)"

text \<open>The body of the loop of \<open>ParseToolCredentials\<close> for one variable.\<close>

definition parse_tool_credential :: "string \<Rightarrow> string gomap gomap \<Rightarrow> string gomap gomap" where
  "parse_tool_credential kv result =
     (let (k, v) = env_split kv in
      if \<not> HasPrefix k ''AUXOT_TOOLS_'' then result
      else
        (let (toolUpper, varName, ok) = Cut (TrimPrefix k ''AUXOT_TOOLS_'') ''__'' in
         if \<not> ok \<or> toolUpper = [] \<or> varName = [] then result
         else
           (let toolName = ToLower toolUpper;
                vars = (case mget result toolName of None \<Rightarrow> [] | Some m \<Rightarrow> m)
            in mput toolName (mput varName v vars) result)))"

definition ParseToolCredentials :: "string list \<Rightarrow> string gomap gomap" where
  "ParseToolCredentials environ = fold parse_tool_credential environ []"

section \<open>The environment of a tool process\<close>

definition seed_env :: "string list \<Rightarrow> string gomap" where
  "seed_env base = fold (\<lambda>kv m. case env_split kv of (k, v) \<Rightarrow> mput k v m) base []"

definition strip_env :: "string \<Rightarrow> string gomap \<Rightarrow> string gomap" where
  "strip_env kv merged =
     (let (k, v) = env_split kv in
      if HasPrefix k ''AUXOT_TOOL_'' then
        (let bare = TrimPrefix k ''AUXOT_TOOL_'' in
         if bare \<noteq> [] then mput bare v merged else merged)
      else if HasPrefix k ''AUXOT_TOOLS_'' then
        (let (_, varName, ok) = Cut (TrimPrefix k ''AUXOT_TOOLS_'') ''__'' in
         if ok \<and> varName \<noteq> [] then mput varName v merged else merged)
      else merged)"

definition override_env :: "string gomap \<Rightarrow> string gomap \<Rightarrow> string gomap" where
  "override_env jobCredentials merged =
     fold (\<lambda>(k, v) m. if k \<noteq> [] then mput k v m else m) jobCredentials merged"

definition merged_env :: "string list \<Rightarrow> string gomap \<Rightarrow> string gomap" where
  "merged_env base jobCredentials = override_env jobCredentials (fold strip_env base (seed_env base))"

definition BuildToolEnv :: "string list \<Rightarrow> string gomap \<Rightarrow> string list" where
  "BuildToolEnv base jobCredentials = map (\<lambda>(k, v). k @ ''='' @ v) (merged_env base jobCredentials)"

section \<open>Which variable a credential comes from\<close>

text \<open>The tool, the name and the value an environment string stands for, if it is a credential.\<close>

definition credential_of :: "string \<Rightarrow> (string \<times> string \<times> string) option" where
  "credential_of kv =
     (let (k, v) = env_split kv;
          (toolUpper, varName, ok) = Cut (TrimPrefix k ''AUXOT_TOOLS_'') ''__''
      in if HasPrefix k ''AUXOT_TOOLS_'' \<and> ok \<and> toolUpper \<noteq> [] \<and> varName \<noteq> []
         then Some (ToLower toolUpper, varName, v) else None)"

definition lookup2 :: "string gomap gomap \<Rightarrow> string \<Rightarrow> string \<Rightarrow> string option" where
  "lookup2 m t v = (case mget m t of None \<Rightarrow> None | Some vars \<Rightarrow> mget vars v)"

lemma parse_tool_credential_lookup:
  "lookup2 (parse_tool_credential kv m) t v =
   (case credential_of kv of
      Some (t', v', x) \<Rightarrow> if t = t' \<and> v = v' then Some x else lookup2 m t v
    | None \<Rightarrow> lookup2 m t v)"
  by (auto simp: parse_tool_credential_def credential_of_def lookup2_def Let_def
      split: prod.splits option.splits)

lemma fold_credentials:
  "lookup2 (fold parse_tool_credential kvs m) t v =
   (case find (\<lambda>c. fst c = t \<and> fst (snd c) = v) (rev (List.map_filter credential_of kvs)) of
      Some (_, _, x) \<Rightarrow> Some x | None \<Rightarrow> lookup2 m t v)"
proof (induction kvs rule: rev_induct)
  case Nil
  then show ?case by (simp add: List.map_filter_def)
next
  case (snoc kv kvs)
  have "List.map_filter credential_of (kvs @ [kv]) =
      List.map_filter credential_of kvs @ (case credential_of kv of None \<Rightarrow> [] | Some c \<Rightarrow> [c])"
    by (simp add: List.map_filter_def split: option.split)
  with snoc show ?case
    by (auto simp: parse_tool_credential_lookup split: option.splits)
qed

section \<open>The merged environment\<close>

lemma wf_fold_mput: "wf_map m \<Longrightarrow> (\<And>x m. x \<in> set xs \<Longrightarrow> wf_map m \<Longrightarrow> wf_map (f x m)) \<Longrightarrow> wf_map (fold f xs m)"
  by (induction xs arbitrary: m) auto

lemma wf_merged_env: "wf_map (merged_env base creds)"
  unfolding merged_env_def override_env_def seed_env_def
  by (intro wf_fold_mput) (auto simp: strip_env_def Let_def split: prod.splits)

lemma override_env_get:
  "wf_map creds \<Longrightarrow> k \<noteq> [] \<Longrightarrow>
   mget (override_env creds m) k = (case mget creds k of Some v \<Rightarrow> Some v | None \<Rightarrow> mget m k)"
  unfolding override_env_def
proof (induction creds arbitrary: m)
  case (Cons c creds)
  obtain k' v' where c: "c = (k', v')" by fastforce
  from Cons.prems(1) c have "mget creds k' = None" "wf_map creds"
    by (simp_all add: wf_map_def map_of_eq_None_iff)
  with Cons.IH [of "if k' \<noteq> [] then mput k' v' m else m"] Cons.prems(2) c show ?case
    by (auto split: option.splits)
qed simp

section \<open>Properties\<close>

text \<open>
  The credential \<open>ParseToolCredentials\<close> records for a tool and a name is the value of the
  last environment string of the form \<open>AUXOT_TOOLS_TOOL__NAME=value\<close> for them (the tool in any
  letter case), and there is none when no such string exists.
\<close>

theorem parse_tool_credentials_last:
  "lookup2 (ParseToolCredentials environ) t v =
   map_option (\<lambda>(_, _, x). x)
     (find (\<lambda>c. fst c = t \<and> fst (snd c) = v) (rev (List.map_filter credential_of environ)))"
  unfolding ParseToolCredentials_def fold_credentials
  by (auto simp: lookup2_def split: option.split)

text \<open>
  In the environment of a tool process every variable occurs once, and a credential of the
  job is there with the job's value whatever the operator's environment says.
\<close>

theorem job_credentials_override:
  assumes "wf_map creds" and "mget creds k = Some v" and "k \<noteq> []"
  shows "distinct (map fst (merged_env base creds)) \<and> mget (merged_env base creds) k = Some v \<and>
    k @ ''='' @ v \<in> set (BuildToolEnv base creds)"
proof -
  have "mget (merged_env base creds) k = Some v"
    using assms by (simp add: merged_env_def override_env_get)
  moreover from this have "(k, v) \<in> set (merged_env base creds)" by (rule map_of_SomeD)
  then have "k @ ''='' @ v \<in> set (BuildToolEnv base creds)"
    by (force simp: BuildToolEnv_def)
  ultimately show ?thesis using wf_merged_env [of base creds] by (simp add: wf_map_def)
qed

theorem job_credentials_override_witness:
  "''K=job'' \<in> set (BuildToolEnv [''K=os'', ''AUXOT_TOOL_K=legacy''] [(''K'', ''job'')])"
  using job_credentials_override [of "[(''K'', ''job'')]" "''K''" "''job''" "[''K=os'', ''AUXOT_TOOL_K=legacy'']"]
  by (simp add: wf_map_def)

text \<open>
  The prefixed variables are merged in the order of the environment, not by their kind: a
  legacy \<open>AUXOT_TOOL_K\<close> that stands after \<open>AUXOT_TOOLS_T__K\<close> decides the value of \<open>K\<close>.
\<close>

theorem legacy_variable_after_new_wins:
  "mget (merged_env [''AUXOT_TOOLS_T__K=new'', ''AUXOT_TOOL_K=legacy''] []) ''K'' = Some ''legacy''"
  by (simp add: merged_env_def override_env_def seed_env_def strip_env_def env_split_def TrimPrefix_def HasPrefix_def Let_def)

end
