(* ===== verification/Model_Registry.thy ===== *)
theory Model_Registry
  imports Registry_Types Json_Parse
begin

text \<open>
  \<open>pkg/registry/registry.go\<close>: the model catalogue.  The embedded JSON and the contents of a
  file are arguments; the comparison of two \<open>float64\<close> values in \<open>FindByVRAM\<close> is the parameter
  \<open>le\<close>.  The regular expression of sharded file names is written out: the last twenty bytes of
  the name are \<open>-ddddd-of-ddddd.gguf\<close>.  The lemmas: what the searches return, and that the
  shard names of a model are the well-formed names of all its shards.
\<close>

section \<open>Loading and searching\<close>

datatype registry_error = ParsingRegistry | NoModels | ReadingRegistryFile string

definition parse :: "string \<Rightarrow> registry_error + Registry" where
  "parse data =
     (case Unmarshal dec_Registry data zero_Registry of
        (reg, False) \<Rightarrow> Inl ParsingRegistry
      | (reg, True) \<Rightarrow> if reg_models reg = [] then Inl NoModels else Inr reg)"

definition Load :: "string \<Rightarrow> registry_error + Registry" where
  "Load embedded = parse embedded"

definition LoadFromFile :: "(string \<Rightarrow> string option) \<Rightarrow> string \<Rightarrow> registry_error + Registry" where
  "LoadFromFile read_file path =
     (case read_file path of None \<Rightarrow> Inl (ReadingRegistryFile path) | Some data \<Rightarrow> parse data)"

definition FindByID :: "Registry \<Rightarrow> string \<Rightarrow> Model option" where
  "FindByID r i = find (\<lambda>m. mdll_id m = i) (reg_models r)"

definition FindByNameAndQuant :: "Registry \<Rightarrow> string \<Rightarrow> string \<Rightarrow> Model option" where
  "FindByNameAndQuant r modelName quantization =
     (let nameLower = ToLower modelName; quantLower = ToLower quantization in
      find (\<lambda>m. \<not> (ToLower (mdll_name m) \<noteq> nameLower \<or> ToLower (mdll_quant m) \<noteq> quantLower)) (reg_models r))"

definition FindByName :: "Registry \<Rightarrow> string \<Rightarrow> Model list" where
  "FindByName r modelName =
     (let nameLower = ToLower modelName in filter (\<lambda>m. ToLower (mdll_name m) = nameLower) (reg_models r))"

definition FindByVRAM :: "(number \<Rightarrow> number \<Rightarrow> bool) \<Rightarrow> Registry \<Rightarrow> number \<Rightarrow> Model list" where
  "FindByVRAM le r maxVRAMGB = filter (\<lambda>m. le (mdll_vram m) maxVRAMGB) (reg_models r)"

definition FindByCapability :: "Registry \<Rightarrow> string \<Rightarrow> Model list" where
  "FindByCapability r capability =
     (let capLower = ToLower capability in
      filter (\<lambda>m. list_ex (\<lambda>c. ToLower c = capLower) (mdll_caps m)) (reg_models r))"

text \<open>The loop of \<open>UniqueModelNames\<close>: the names seen so far and the result.\<close>

fun unique_names :: "Model list \<Rightarrow> string list \<Rightarrow> string list" where
  "unique_names [] names = names"
| "unique_names (m # ms) names =
     (if mdll_name m \<notin> set names then unique_names ms (names @ [mdll_name m]) else unique_names ms names)"

definition UniqueModelNames :: "Registry \<Rightarrow> string list" where
  "UniqueModelNames r = unique_names (reg_models r) []"

definition HasFormat :: "Model \<Rightarrow> string \<Rightarrow> bool" where
  "HasFormat m ft = list_ex (\<lambda>f. mf_type f = ft) (mdll_formats m)"

section \<open>Sharded models\<close>

definition bareFileName :: "Model \<Rightarrow> string" where
  "bareFileName m = last (Split (CHR ''/'') (mdll_file m))"

text \<open>\<open>FileName[:idx]\<close> for the last slash; empty when there is none.\<close>

definition subDir :: "Model \<Rightarrow> string" where
  "subDir m =
     (let front = dropWhile (\<lambda>c. c \<noteq> CHR ''/'') (rev (mdll_file m)) in
      if front = [] then [] else rev (tl front))"

text \<open>\<open>splitPattern\<close>: the prefix, the two numbers and the extension.\<close>

definition split_match :: "string \<Rightarrow> (string \<times> string \<times> string \<times> string) option" where
  "split_match base =
     (let n = length base - 20; pre = take n base; suf = drop n base in
      if 20 \<le> length base \<and> CHR 0x0A \<notin> set pre \<and>
         suf ! 0 = CHR ''-'' \<and> list_all is_digit (take 5 (drop 1 suf)) \<and>
         take 4 (drop 6 suf) = ''-of-'' \<and> list_all is_digit (take 5 (drop 10 suf)) \<and>
         drop 15 suf = ''.gguf''
      then Some (pre, take 5 (drop 1 suf), take 5 (drop 10 suf), drop 15 suf)
      else None)"

definition IsSplit :: "Model \<Rightarrow> bool" where
  "IsSplit m \<longleftrightarrow> split_match (bareFileName m) \<noteq> None"

definition ShardCount :: "Model \<Rightarrow> int" where
  "ShardCount m =
     (case split_match (bareFileName m) of
        None \<Rightarrow> 1
      | Some (_, _, tot, _) \<Rightarrow> (case Atoi tot of None \<Rightarrow> 1 | Some n \<Rightarrow> n))"

text \<open>\<open>%05d\<close> of a number that is not negative.\<close>

definition pad5 :: "nat \<Rightarrow> string" where
  "pad5 n = replicate (5 - length (digits_of n)) (CHR ''0'') @ digits_of n"

definition shard_name :: "string \<Rightarrow> nat \<Rightarrow> nat \<Rightarrow> string \<Rightarrow> string" where
  "shard_name pre i n ext = pre @ ''-'' @ pad5 i @ ''-of-'' @ pad5 n @ ext"

definition ShardFileNames :: "Model \<Rightarrow> string list" where
  "ShardFileNames m =
     (if \<not> IsSplit m then [mdll_file m]
      else
        (case split_match (bareFileName m) of
           None \<Rightarrow> [mdll_file m]
         | Some (pre, _, tot, ext) \<Rightarrow>
             (let n = (case Atoi tot of None \<Rightarrow> 0 | Some n \<Rightarrow> nat n); dir = subDir m in
              map (\<lambda>i. let shard = shard_name pre (i + 1) n ext in
                       if dir \<noteq> [] then dir @ ''/'' @ shard else shard) [0..<n])))"

section \<open>Names of shards\<close>

lemma length_pad5: "n < 100000 \<Longrightarrow> length (pad5 n) = 5"
  using length_digits_of [of n 5] by (simp add: pad5_def)

lemma pad5_digits: "list_all is_digit (pad5 n)"
  using digits_of_digits [of n] by (auto simp: pad5_def list_all_iff is_digit_def)

lemma nat_of_digits_zeros: "nat_of_digits (replicate k (CHR ''0'') @ s) = nat_of_digits s"
  by (induction k) (simp_all add: nat_of_digits_def digit_val_def)

lemma nat_of_pad5 [simp]: "nat_of_digits (pad5 n) = n"
  by (simp add: pad5_def nat_of_digits_zeros)

lemma pad5_inj: "pad5 m = pad5 n \<Longrightarrow> m = n"
  by (metis nat_of_pad5)

lemma Atoi_digits:
  "ds \<noteq> [] \<Longrightarrow> list_all is_digit ds \<Longrightarrow> int (nat_of_digits ds) \<le> max_int64 \<Longrightarrow>
   Atoi ds = Some (int (nat_of_digits ds))"
  by (cases ds) (auto simp: Atoi_def is_digit_def max_int64_def)

lemma split_match_shard:
  assumes "i < 100000" "n < 100000" "CHR 0x0A \<notin> set pre"
  shows "split_match (shard_name pre i n ''.gguf'') = Some (pre, pad5 i, pad5 n, ''.gguf'')"
proof -
  have len: "length (shard_name pre i n ''.gguf'') = length pre + 20"
    using assms by (simp add: shard_name_def length_pad5)
  then have drop: "drop (length pre) (shard_name pre i n ''.gguf'') =
      ''-'' @ pad5 i @ ''-of-'' @ pad5 n @ ''.gguf''" and
    take: "take (length pre) (shard_name pre i n ''.gguf'') = pre"
    by (simp_all add: shard_name_def)
  have n: "length (shard_name pre i n ''.gguf'') - 20 = length pre" by (simp add: len)
  show ?thesis
    unfolding split_match_def Let_def n
    unfolding drop take len
    using assms pad5_digits by (simp add: length_pad5)
qed

lemma digit_val_less: "is_digit c \<Longrightarrow> digit_val c < 10"
  unfolding is_digit_def digit_val_def by arith

lemma digit_char: "is_digit c \<Longrightarrow> char_of (48 + digit_val c) = c"
  by (simp add: is_digit_def digit_val_def)

lemma digit_val_inj: "is_digit c \<Longrightarrow> is_digit d \<Longrightarrow> digit_val c = digit_val d \<Longrightarrow> c = d"
  by (metis digit_char)

lemma nat_of_digits_less: "list_all is_digit ds \<Longrightarrow> nat_of_digits ds < 10 ^ length ds"
proof (induction ds rule: rev_induct)
  case (snoc d ds)
  then have "digit_val d < 10" by (simp add: digit_val_less)
  with snoc show ?case by (simp add: nat_of_digits_snoc)
qed (simp add: nat_of_digits_def)

lemma nat_of_digits_inj:
  "length s = length t \<Longrightarrow> list_all is_digit s \<Longrightarrow> list_all is_digit t \<Longrightarrow>
   nat_of_digits s = nat_of_digits t \<Longrightarrow> s = t"
proof (induction s arbitrary: t rule: rev_induct)
  case (snoc c s)
  then obtain d t' where t: "t = t' @ [d]" by (cases t rule: rev_cases) auto
  have "digit_val c < 10" "digit_val d < 10"
    using snoc.prems t by (auto intro: digit_val_less)
  moreover from snoc.prems(4) t have "10 * nat_of_digits s + digit_val c = 10 * nat_of_digits t' + digit_val d"
    by (simp add: nat_of_digits_snoc)
  ultimately have "nat_of_digits s = nat_of_digits t'" "digit_val c = digit_val d"
    by presburger+
  with snoc t show ?case by (auto intro: digit_val_inj)
qed simp

lemma pad5_of_digits:
  "length ds = 5 \<Longrightarrow> list_all is_digit ds \<Longrightarrow> pad5 (nat_of_digits ds) = ds"
  using nat_of_digits_less [of ds] length_pad5 pad5_digits by (intro nat_of_digits_inj) simp_all

lemma drop_split: "drop k s = take j (drop k s) @ drop (k + j) s"
  by (metis add.commute append_take_drop_id drop_drop)

text \<open>A name that matches is the name of a shard.\<close>

lemma split_match_Some:
  assumes "split_match base = Some (pre, idx, tot, ext)"
  shows "base = shard_name pre (nat_of_digits idx) (nat_of_digits tot) ''.gguf'' \<and> ext = ''.gguf'' \<and>
    CHR 0x0A \<notin> set pre \<and> nat_of_digits idx < 100000 \<and> nat_of_digits tot < 100000 \<and>
    list_all is_digit tot \<and> length tot = 5"
proof -
  let ?n = "length base - 20"
  let ?suf = "drop ?n base"
  from assms have len: "length ?suf = 20" and pre: "pre = take ?n base" "CHR 0x0A \<notin> set pre"
    and idx: "idx = take 5 (drop 1 ?suf)" "list_all is_digit idx"
    and tot: "tot = take 5 (drop 10 ?suf)" "list_all is_digit tot"
    and lits: "?suf ! 0 = CHR ''-''" "take 4 (drop 6 ?suf) = ''-of-''" "drop 15 ?suf = ''.gguf''"
    and ext: "ext = ''.gguf''"
    by (auto simp: split_match_def Let_def split: if_splits)
  have li: "length idx = 5" "length tot = 5" using idx(1) tot(1) len by simp_all
  have "?suf = take 1 ?suf @ take 5 (drop 1 ?suf) @ take 4 (drop 6 ?suf) @ take 5 (drop 10 ?suf) @ drop 15 ?suf"
    using drop_split [of 1 ?suf 5] drop_split [of 6 ?suf 4] drop_split [of 10 ?suf 5]
    by (simp del: drop_drop take_drop)
  moreover have "take 1 ?suf = ''-''" using lits(1) len by (cases ?suf) auto
  ultimately have suf: "?suf = ''-'' @ idx @ ''-of-'' @ tot @ ''.gguf''"
    using idx(1) tot(1) lits by simp
  have "base = pre @ ?suf" using pre(1) by simp
  then show ?thesis
    using suf idx(2) tot(2) li pad5_of_digits nat_of_digits_less [of idx] nat_of_digits_less [of tot] pre(2) ext
    by (simp add: shard_name_def)
qed

lemma split_match_base:
  "split_match base \<noteq> None \<Longrightarrow> \<exists>pre i n. base = shard_name pre i n ''.gguf'' \<and> CHR 0x0A \<notin> set pre \<and>
     i < 100000 \<and> n < 100000 \<and> split_match base = Some (pre, pad5 i, pad5 n, ''.gguf'')"
  by (metis not_Some_eq prod_cases4 split_match_Some split_match_shard)

section \<open>The file name, its directory and its base\<close>

lemma Split_has_sep: "c \<in> set xs \<Longrightarrow> \<exists>w v vs. Split c xs = w # v # vs"
proof (induction xs)
  case (Cons x xs)
  then show ?case by (cases "Split c xs") auto
qed simp

lemma Split_last:
  "last (Split c s) = rev (takeWhile (\<lambda>x. x \<noteq> c) (rev s))"
proof (induction c s rule: Split.induct)
  case (1 c)
  then show ?case by simp
next
  case (2 c x xs)
  show ?case
  proof (cases "x = c")
    case True
    with 2 show ?thesis
      by (auto simp: takeWhile_append)
  next
    case False
    obtain w ws where w: "Split c xs = w # ws" using Split_nonempty by (cases "Split c xs") auto
    show ?thesis
    proof (cases ws)
      case Nil
      then have "c \<notin> set xs" using w Split_has_sep [of c xs] by auto
      then have "takeWhile (\<lambda>y. y \<noteq> c) (rev (x # xs)) = rev (x # xs)"
        using False by (subst takeWhile_eq_all_conv) auto
      moreover have "Split c (x # xs) = [x # xs]"
        using False \<open>c \<notin> set xs\<close> by (intro Split_no_sep) simp
      ultimately show ?thesis by (simp only: last.simps rev_rev_ident simp_thms if_True)
    next
      case (Cons v vs)
      then have "c \<in> set xs" using w Split_no_sep [of c xs] by auto
      with False 2 w Cons show ?thesis by (auto simp: takeWhile_append)
    qed
  qed
qed

lemma file_name_parts:
  assumes "\<not> HasPrefix (mdll_file m) ''/''"
  shows "mdll_file m = (if subDir m \<noteq> [] then subDir m @ ''/'' @ bareFileName m else bareFileName m)"
proof -
  let ?r = "rev (mdll_file m)"
  let ?P = "\<lambda>x. x \<noteq> CHR ''/''"
  have split: "?r = takeWhile ?P ?r @ dropWhile ?P ?r" by simp
  show ?thesis
  proof (cases "dropWhile ?P ?r")
    case Nil
    with split show ?thesis by (simp add: subDir_def bareFileName_def Split_last)
  next
    case (Cons x xs)
    then have x: "x = CHR ''/''" using hd_dropWhile [of ?P ?r] by simp
    have fname: "mdll_file m = rev xs @ x # rev (takeWhile ?P ?r)"
      using arg_cong [OF split, of rev]
      by (simp only: Cons rev_append rev.simps rev_rev_ident append_assoc append_Nil append_Cons)
    have "xs \<noteq> []"
    proof
      assume "xs = []"
      with fname x have "mdll_file m = ''/'' @ rev (takeWhile ?P ?r)" by simp
      then have "HasPrefix (mdll_file m) ''/''" by (metis HasPrefix_append)
      with assms show False by contradiction
    qed
    with Cons x fname show ?thesis by (simp add: subDir_def bareFileName_def Split_last)
  qed
qed

lemma ShardFileNames_split:
  assumes "split_match (bareFileName m) = Some (pre, pad5 i, pad5 n, ''.gguf'')" and "n < 100000"
  shows "ShardFileNames m =
    map (\<lambda>k. (if subDir m \<noteq> [] then subDir m @ ''/'' else []) @ shard_name pre (k + 1) n ''.gguf'') [0..<n]"
    and "ShardCount m = int n"
proof -
  have "Atoi (pad5 n) = Some (int n)"
  proof -
    have "pad5 n \<noteq> []" using length_pad5 [OF assms(2)] by auto
    moreover have "int (nat_of_digits (pad5 n)) \<le> max_int64"
      using assms(2) by (simp add: max_int64_def)
    ultimately show ?thesis using Atoi_digits [OF _ pad5_digits, of n] by simp
  qed
  then show "ShardCount m = int n" and "ShardFileNames m =
      map (\<lambda>k. (if subDir m \<noteq> [] then subDir m @ ''/'' else []) @ shard_name pre (k + 1) n ''.gguf'') [0..<n]"
    using assms(1) by (simp_all add: ShardCount_def ShardFileNames_def IsSplit_def)
qed

lemma shard_name_inj: "i < 100000 \<Longrightarrow> j < 100000 \<Longrightarrow> shard_name pre i n ext = shard_name pre j n ext \<Longrightarrow> i = j"
  using length_pad5 [of i] length_pad5 [of j] pad5_inj [of i j] by (simp add: shard_name_def)

section \<open>Properties\<close>

text \<open>
  The shard list of a model.  It has \<open>ShardCount\<close> names, all different; a model of one file
  has that file.  A sharded model's own file is in the list exactly when its number is one of
  1 to the total, and every name of the list is in the model's directory and parses back to
  the model's prefix, its own number and the model's total.
\<close>

theorem shard_file_names:
  assumes "\<not> HasPrefix (mdll_file m) ''/''"
  shows "(if IsSplit m
     then (\<exists>pre i n. bareFileName m = shard_name pre i n ''.gguf'' \<and> ShardCount m = int n \<and>
       length (ShardFileNames m) = n \<and> distinct (ShardFileNames m) \<and>
       (mdll_file m \<in> set (ShardFileNames m) \<longleftrightarrow> 1 \<le> i \<and> i \<le> n) \<and>
       (\<forall>k < n. \<exists>base. ShardFileNames m ! k = (if subDir m \<noteq> [] then subDir m @ ''/'' @ base else base) \<and>
          split_match base = Some (pre, pad5 (k + 1), pad5 n, ''.gguf'')))
     else ShardFileNames m = [mdll_file m] \<and> ShardCount m = 1)"
proof (cases "IsSplit m")
  case False
  then have "split_match (bareFileName m) = None" unfolding IsSplit_def by blast
  then show ?thesis using False by (simp add: ShardFileNames_def ShardCount_def)
next
  case True
  then obtain pre i n where base: "bareFileName m = shard_name pre i n ''.gguf''" "CHR 0x0A \<notin> set pre"
    and lt: "i < 100000" "n < 100000"
    and m: "split_match (bareFileName m) = Some (pre, pad5 i, pad5 n, ''.gguf'')"
    using split_match_base unfolding IsSplit_def by blast
  let ?d = "if subDir m \<noteq> [] then subDir m @ ''/'' else []"
  note names = ShardFileNames_split [OF m lt(2)]
  have own: "mdll_file m = ?d @ shard_name pre i n ''.gguf''"
    using file_name_parts [OF assms] base(1) by simp
  have "mdll_file m \<in> set (ShardFileNames m) \<longleftrightarrow> 1 \<le> i \<and> i \<le> n"
  proof
    assume "mdll_file m \<in> set (ShardFileNames m)"
    then obtain k where "k < n" "shard_name pre i n ''.gguf'' = shard_name pre (k + 1) n ''.gguf''"
      using own names(1) by auto
    then have "i = k + 1" using shard_name_inj [of i "k + 1"] lt by simp
    with \<open>k < n\<close> show "1 \<le> i \<and> i \<le> n" by simp
  next
    assume "1 \<le> i \<and> i \<le> n"
    then have "i - 1 < n" "i = (i - 1) + 1" by auto
    then show "mdll_file m \<in> set (ShardFileNames m)"
      unfolding names(1) own by (metis (no_types, lifting) atLeastLessThan_iff image_eqI le0 list.set_map set_upt)
  qed
  moreover have "distinct (ShardFileNames m)"
    using lt(2) by (auto simp: names(1) distinct_map inj_on_def dest!: shard_name_inj [rotated 2])
  moreover have "\<forall>k < n. ShardFileNames m ! k =
      (if subDir m \<noteq> [] then subDir m @ ''/'' @ shard_name pre (k + 1) n ''.gguf'' else shard_name pre (k + 1) n ''.gguf'') \<and>
      split_match (shard_name pre (k + 1) n ''.gguf'') = Some (pre, pad5 (k + 1), pad5 n, ''.gguf'')"
    using names(1) lt(2) base(2) by (simp add: split_match_shard)
  ultimately show ?thesis
    using True base(1) names by (intro if_P [THEN iffD2] exI [of _ pre] exI [of _ i] exI [of _ n]) auto
qed

abbreviation demo_model :: "string \<Rightarrow> Model" where
  "demo_model f \<equiv> zero_Model\<lparr>mdll_file := f\<rparr>"

theorem shard_file_names_witness:
  "ShardFileNames (demo_model ''q4/m.gguf'') = [''q4/m.gguf''] \<and> ShardCount (demo_model ''q4/m.gguf'') = 1"
  using shard_file_names [of "demo_model ''q4/m.gguf''"]
  by (simp add: zero_Model_def IsSplit_def split_match_def bareFileName_def)

text \<open>\<open>UniqueModelNames\<close> lists each name of the catalogue once.\<close>

lemma unique_names_spec:
  "distinct names \<Longrightarrow> distinct (unique_names ms names) \<and>
   set (unique_names ms names) = set names \<union> mdll_name ` set ms"
  by (induction ms arbitrary: names) auto

end
