(* ===== verification/Router_Config.thy ===== *)
theory Router_Config
  imports Model_Registry Tool_Env
begin

text \<open>
  \<open>internal/router/config.go\<close>: the router's configuration from the environment, and the choice
  of a model.  \<open>os.Getenv\<close> reads the list of \<open>KEY=VALUE\<close> strings of \<open>Tool_Env\<close>;
  \<open>time.ParseDuration\<close> is the parameter \<open>ParseDuration\<close> (nanoseconds, \<open>None\<close> on error), the
  registry file and the embedded registry are arguments.  An error keeps what its message
  names, not the wording.  The lemmas: which variant of a model is taken, and what a
  configuration that loads satisfies.
\<close>

section \<open>Reading variables\<close>

definition envStr :: "string list \<Rightarrow> string \<Rightarrow> string \<Rightarrow> string" where
  "envStr environ key defaultVal = (let v = Getenv environ key in if v \<noteq> [] then v else defaultVal)"

definition envInt :: "string list \<Rightarrow> string \<Rightarrow> int \<Rightarrow> int" where
  "envInt environ key defaultVal =
     (let v = Getenv environ key in
      if v = [] then defaultVal else (case Atoi v of None \<Rightarrow> defaultVal | Some n \<Rightarrow> n))"

definition envDuration :: "(string \<Rightarrow> int option) \<Rightarrow> string list \<Rightarrow> string \<Rightarrow> int \<Rightarrow> int" where
  "envDuration ParseDuration environ key defaultVal =
     (let v = Getenv environ key in
      if v = [] then defaultVal else (case ParseDuration v of None \<Rightarrow> defaultVal | Some d \<Rightarrow> d))"

definition envStringList :: "string list \<Rightarrow> string \<Rightarrow> string list" where
  "envStringList environ key =
     (let v = Getenv environ key in
      if v = [] then []
      else filter (\<lambda>item. item \<noteq> []) (map TrimSpace (Split (CHR '','') v)))"

section \<open>Choosing the model\<close>

datatype config_error =
    MissingAdminKeyHash
  | MissingAPIKeyHash
  | LoadingRegistry registry_error
  | ModelNotFound string "string list" nat
  | QuantNotFound string string "string list"

text \<open>
  \<open>modelNotFoundError\<close>: the suggestions are the names of the catalogue that contain the input, or
  whose ID does, each once, sorted, the first fifteen shown and the others counted.
\<close>

fun suggestions :: "string \<Rightarrow> Model list \<Rightarrow> string list \<Rightarrow> string list" where
  "suggestions inputLower [] seen = seen"
| "suggestions inputLower (m # ms) seen =
     (if mdll_name m \<in> set seen then suggestions inputLower ms seen
      else if Contains (ToLower (mdll_name m)) inputLower \<or> Contains (ToLower (mdll_id m)) inputLower
      then suggestions inputLower ms (seen @ [mdll_name m])
      else suggestions inputLower ms seen)"

definition modelNotFoundError :: "string \<Rightarrow> Registry \<Rightarrow> config_error" where
  "modelNotFoundError input r =
     (let ss = sort (suggestions (ToLower input) (reg_models r) [])
      in ModelNotFound input (take 15 ss) (length ss - 15))"

definition quantNotFoundError :: "string \<Rightarrow> string \<Rightarrow> Registry \<Rightarrow> config_error" where
  "quantNotFoundError modelName quant r =
     (let variants = FindByName r modelName in
      if variants = [] then modelNotFoundError modelName r
      else QuantNotFound modelName quant (map mdll_quant variants))"

definition preferredQuants :: "string list" where
  "preferredQuants = [''Q4_K_S'', ''Q4_K_M'', ''Q5_K_S'', ''Q5_K_M'', ''Q6_K'', ''Q8_0'']"

fun pick_preferred :: "string list \<Rightarrow> Model list \<Rightarrow> Model option" where
  "pick_preferred [] variants = None"
| "pick_preferred (pq # pqs) variants =
     (case find (\<lambda>v. EqualFold (mdll_quant v) pq) variants of
        Some v \<Rightarrow> Some v
      | None \<Rightarrow> pick_preferred pqs variants)"

definition resolveModel :: "string \<Rightarrow> string \<Rightarrow> Registry \<Rightarrow> config_error + Model" where
  "resolveModel modelInput explicitQuant r =
     (case FindByID r modelInput of
        Some entry \<Rightarrow> Inr entry
      | None \<Rightarrow>
          if explicitQuant \<noteq> [] then
            (case FindByNameAndQuant r modelInput explicitQuant of
               Some entry \<Rightarrow> Inr entry
             | None \<Rightarrow> Inl (quantNotFoundError modelInput explicitQuant r))
          else
            (let variants = FindByName r modelInput in
             if variants = [] then Inl (modelNotFoundError modelInput r)
             else
               (case pick_preferred preferredQuants variants of
                  Some v \<Rightarrow> Inr v
                | None \<Rightarrow>
                    (case find (\<lambda>v. \<not> EqualFold (mdll_quant v) ''F16'') variants of
                       Some v \<Rightarrow> Inr v
                     | None \<Rightarrow> Inr (hd variants)))))"

definition loadRegistry :: "string \<Rightarrow> (string \<Rightarrow> string option) \<Rightarrow> string \<Rightarrow> config_error + Registry" where
  "loadRegistry embedded read_file registryFile =
     (if registryFile \<noteq> [] then
        (case LoadFromFile read_file registryFile of Inl e \<Rightarrow> Inl (LoadingRegistry e) | Inr r \<Rightarrow> Inr r)
      else (case Load embedded of Inl e \<Rightarrow> Inl (LoadingRegistry e) | Inr r \<Rightarrow> Inr r))"

section \<open>The configuration\<close>

record Config =
  cfg_Port :: int
  cfg_Host :: string
  cfg_RedisURL :: string
  cfg_AdminKeyHash :: string
  cfg_APIKeyHash :: string
  cfg_ToolsKeyHash :: string
  cfg_AllowedTools :: "string list"
  cfg_ToolCredentials :: "string gomap gomap"
  cfg_ModelName :: string
  cfg_Quantization :: string
  cfg_ContextSize :: int
  cfg_MaxParallel :: int
  cfg_ModelEntry :: "Model option"
  cfg_WorkerType :: string
  cfg_CLIType :: string
  cfg_CLITools :: "string list"
  cfg_HeartbeatInterval :: int
  cfg_DeadWorkerTimeout :: int
  cfg_JobTimeout :: int
  cfg_AuthCacheTTL :: int
  cfg_MCPExposeLLM :: bool
  cfg_RegistryFile :: string

definition second :: int where "second = 1000000000"

text \<open>The struct literal at the head of \<open>LoadConfig\<close>.\<close>

definition base_config :: "(string \<Rightarrow> int option) \<Rightarrow> string list \<Rightarrow> Config" where
  "base_config ParseDuration environ =
     \<lparr>cfg_Port = envInt environ ''AUXOT_PORT'' 8080,
      cfg_Host = envStr environ ''AUXOT_HOST'' ''0.0.0.0'',
      cfg_RedisURL = Getenv environ ''AUXOT_REDIS_URL'',
      cfg_AdminKeyHash = Getenv environ ''AUXOT_ADMIN_KEY_HASH'',
      cfg_APIKeyHash = Getenv environ ''AUXOT_API_KEY_HASH'',
      cfg_ToolsKeyHash = Getenv environ ''AUXOT_TOOLS_KEY_HASH'',
      cfg_AllowedTools = envStringList environ ''AUXOT_ALLOWED_TOOLS'',
      cfg_ToolCredentials = [],
      cfg_ModelName = [],
      cfg_Quantization = [],
      cfg_ContextSize = envInt environ ''AUXOT_CTX_SIZE'' 131072,
      cfg_MaxParallel = envInt environ ''AUXOT_MAX_PARALLEL'' 2,
      cfg_ModelEntry = None,
      cfg_WorkerType = Getenv environ ''AUXOT_WORKER_TYPE'',
      cfg_CLIType = envStr environ ''AUXOT_CLI_TYPE'' ''claude'',
      cfg_CLITools = envStringList environ ''AUXOT_CLI_TOOLS'',
      cfg_HeartbeatInterval = envDuration ParseDuration environ ''AUXOT_HEARTBEAT_INTERVAL'' (15 * second),
      cfg_DeadWorkerTimeout = envDuration ParseDuration environ ''AUXOT_DEAD_WORKER_TIMEOUT'' (45 * second),
      cfg_JobTimeout = envDuration ParseDuration environ ''AUXOT_JOB_TIMEOUT'' (5 * 60 * second),
      cfg_AuthCacheTTL = envDuration ParseDuration environ ''AUXOT_AUTH_CACHE_TTL'' (5 * 60 * second),
      cfg_MCPExposeLLM = (Getenv environ ''AUXOT_MCP_EXPOSE_LLM'' = ''true''),
      cfg_RegistryFile = Getenv environ ''AUXOT_REGISTRY_FILE''\<rparr>"

definition LoadConfig ::
    "(string \<Rightarrow> int option) \<Rightarrow> string \<Rightarrow> (string \<Rightarrow> string option) \<Rightarrow> string list \<Rightarrow> config_error + Config" where
  "LoadConfig ParseDuration embedded read_file environ =
     (let cfg = base_config ParseDuration environ in
      if cfg_AdminKeyHash cfg = [] then Inl MissingAdminKeyHash
      else if cfg_APIKeyHash cfg = [] then Inl MissingAPIKeyHash
      else if cfg_WorkerType cfg = ''cli'' then
        (let cfg1 = cfg\<lparr>cfg_ModelName := Getenv environ ''AUXOT_MODEL''\<rparr>;
             cfg2 = (if cfg_ContextSize cfg1 = 0 \<or> cfg_ContextSize cfg1 = 131072
                     then cfg1\<lparr>cfg_ContextSize := 200000\<rparr> else cfg1);
             cfg3 = cfg2\<lparr>cfg_MaxParallel := envInt environ ''AUXOT_MAX_PARALLEL'' 1\<rparr>
         in Inr (cfg3\<lparr>cfg_ToolCredentials := ParseToolCredentials environ\<rparr>))
      else
        (let modelInput = envStr environ ''AUXOT_MODEL'' ''Qwen3.5-35B-A3B'';
             explicitQuant = Getenv environ ''AUXOT_QUANTIZATION''
         in case loadRegistry embedded read_file (cfg_RegistryFile cfg) of
              Inl e \<Rightarrow> Inl e
            | Inr r \<Rightarrow>
                (case resolveModel modelInput explicitQuant r of
                   Inl e \<Rightarrow> Inl e
                 | Inr entry \<Rightarrow>
                     (let cfg1 = cfg\<lparr>cfg_ModelName := mdll_name entry,
                                     cfg_Quantization := mdll_quant entry,
                                     cfg_ModelEntry := Some entry\<rparr>;
                          cfg2 = (if mdll_maxctx entry < cfg_ContextSize cfg1
                                  then cfg1\<lparr>cfg_ContextSize := mdll_maxctx entry\<rparr> else cfg1)
                      in Inr (cfg2\<lparr>cfg_ToolCredentials := ParseToolCredentials environ\<rparr>)))))"

section \<open>The order of preference\<close>

text \<open>
  The rank of a variant: its place in the list of preferred quantizations, then everything
  else, then F16.
\<close>

fun rank_in :: "string list \<Rightarrow> Model \<Rightarrow> nat" where
  "rank_in [] v = (if EqualFold (mdll_quant v) ''F16'' then 1 else 0)"
| "rank_in (pq # pqs) v = (if EqualFold (mdll_quant v) pq then 0 else Suc (rank_in pqs v))"

definition first_best :: "(Model \<Rightarrow> nat) \<Rightarrow> Model list \<Rightarrow> Model \<Rightarrow> bool" where
  "first_best rank vs v \<longleftrightarrow>
     (\<exists>before after. vs = before @ v # after \<and> (\<forall>u \<in> set before. rank v < rank u) \<and>
        (\<forall>u \<in> set after. rank v \<le> rank u))"

lemma find_first_best:
  assumes "find P vs = Some v" and "\<And>u. P u \<Longrightarrow> rank u = 0" and "\<And>u. \<not> P u \<Longrightarrow> 0 < rank u"
  shows "first_best rank vs v"
proof -
  obtain i where i: "i < length vs" "P (vs ! i)" "v = vs ! i" "\<forall>j < i. \<not> P (vs ! j)"
    using assms(1) by (auto simp: find_Some_iff)
  show ?thesis
    unfolding first_best_def
  proof (intro exI conjI)
    show "vs = take i vs @ v # drop (Suc i) vs" using i(1,3) by (simp add: id_take_nth_drop)
    show "\<forall>u \<in> set (take i vs). rank v < rank u"
      using i assms(2,3) by (auto simp: in_set_conv_nth)
    show "\<forall>u \<in> set (drop (Suc i) vs). rank v \<le> rank u" using i(2,3) assms(2) by simp
  qed
qed

lemma first_best_Suc: "first_best r vs v \<Longrightarrow> first_best (\<lambda>u. Suc (r u)) vs v"
  by (simp add: first_best_def)

lemma first_best_cong:
  "(\<And>u. u \<in> set vs \<Longrightarrow> r u = r' u) \<Longrightarrow> first_best r vs v \<longleftrightarrow> first_best r' vs v"
  unfolding first_best_def by (intro ex_cong1) auto

text \<open>The choice of \<open>resolveModel\<close> among the variants of a name.\<close>

definition pick :: "string list \<Rightarrow> Model list \<Rightarrow> Model" where
  "pick pqs vs =
     (case pick_preferred pqs vs of
        Some v \<Rightarrow> v
      | None \<Rightarrow> (case find (\<lambda>v. \<not> EqualFold (mdll_quant v) ''F16'') vs of Some v \<Rightarrow> v | None \<Rightarrow> hd vs))"

lemma pick_first_best: "vs \<noteq> [] \<Longrightarrow> first_best (rank_in pqs) vs (pick pqs vs)"
proof (induction pqs)
  case Nil
  show ?case
  proof (cases "find (\<lambda>v. \<not> EqualFold (mdll_quant v) ''F16'') vs")
    case None
    then have "\<forall>v \<in> set vs. rank_in [] v = 1" by (simp add: find_None_iff)
    moreover obtain v vs' where "vs = v # vs'" using Nil by (cases vs) auto
    ultimately have "first_best (rank_in []) vs v"
      unfolding first_best_def by (intro exI [of _ "[]"] exI [of _ vs']) simp
    with None \<open>vs = v # vs'\<close> show ?thesis by (simp add: pick_def del: rank_in.simps)
  next
    case (Some v)
    then have "first_best (rank_in []) vs v" by (rule find_first_best) auto
    with Some show ?thesis by (simp add: pick_def del: rank_in.simps)
  qed
next
  case (Cons pq pqs)
  show ?case
  proof (cases "find (\<lambda>v. EqualFold (mdll_quant v) pq) vs")
    case None
    then have "\<And>u. u \<in> set vs \<Longrightarrow> rank_in (pq # pqs) u = Suc (rank_in pqs u)"
      by (simp add: find_None_iff)
    then have "first_best (rank_in (pq # pqs)) vs (pick pqs vs)"
      using first_best_cong [of vs "rank_in (pq # pqs)" "\<lambda>u. Suc (rank_in pqs u)"]
        first_best_Suc [OF Cons.IH [OF Cons.prems]] by blast
    moreover from None have "pick (pq # pqs) vs = pick pqs vs" by (simp add: pick_def)
    ultimately show ?thesis by (simp only:)
  next
    case (Some v)
    then have "first_best (rank_in (pq # pqs)) vs v" by (rule find_first_best) auto
    with Some show ?thesis by (simp add: pick_def del: rank_in.simps)
  qed
qed

section \<open>Properties\<close>

text \<open>
  C18: when a name is given without a quantization and is no model ID, the router takes the
  variant of that name with the best quantization in the order Q4_K_S, Q4_K_M, Q5_K_S, Q5_K_M,
  Q6_K, Q8_0, any other, F16, and of several equally good ones the first of the catalogue.
\<close>

theorem resolve_model_prefers:
  assumes "FindByID r modelInput = None" and "FindByName r modelInput \<noteq> []"
  shows "\<exists>v. resolveModel modelInput [] r = Inr v \<and>
    first_best (rank_in preferredQuants) (FindByName r modelInput) v"
  using pick_first_best [OF assms(2), of preferredQuants] assms
  by (auto simp: resolveModel_def pick_def Let_def split: option.splits)

abbreviation demo_variant :: "string \<Rightarrow> Model" where
  "demo_variant q \<equiv> zero_Model\<lparr>mdll_name := ''m'', mdll_quant := q\<rparr>"

theorem resolve_model_prefers_witness:
  "\<exists>v. resolveModel ''m'' [] (zero_Registry\<lparr>reg_models := [demo_variant ''F16'', demo_variant ''q6_k'']\<rparr>) = Inr v \<and>
     first_best (rank_in preferredQuants) [demo_variant ''F16'', demo_variant ''q6_k''] v"
proof -
  let ?r = "zero_Registry\<lparr>reg_models := [demo_variant ''F16'', demo_variant ''q6_k'']\<rparr>"
  have "FindByID ?r ''m'' = None" by (simp add: FindByID_def zero_Registry_def zero_Model_def)
  moreover have "FindByName ?r ''m'' = [demo_variant ''F16'', demo_variant ''q6_k'']"
    by (simp add: FindByName_def zero_Registry_def zero_Model_def)
  ultimately show ?thesis using resolve_model_prefers [of ?r "''m''"] by simp
qed

lemma resolveModel_in: "resolveModel i q r = Inr m \<Longrightarrow> m \<in> set (reg_models r)"
proof -
  assume m: "resolveModel i q r = Inr m"
  have fnd: "find P xs = Some x \<Longrightarrow> x \<in> set xs" for P and xs :: "Model list" and x
    by (auto simp: find_Some_iff)
  have pp: "pick_preferred ps vs = Some x \<Longrightarrow> x \<in> set vs" for ps vs x
    by (induction ps) (auto dest: fnd split: option.splits)
  show ?thesis
    using m hd_in_set [of "FindByName r i"]
    by (auto simp: resolveModel_def FindByID_def FindByNameAndQuant_def FindByName_def Let_def
        dest!: fnd pp split: option.splits if_splits)
qed

lemma first_best_in: "first_best rank vs v \<Longrightarrow> v \<in> set vs"
  by (auto simp: first_best_def)

text \<open>
  A configuration that loads has both required key hashes, and either it is for CLI workers
  or its model is an entry of the registry, named by the configuration, whose maximum context
  its context size does not exceed.
\<close>

theorem load_config_ok:
  assumes "LoadConfig ParseDuration embedded read_file environ = Inr cfg"
  shows "cfg_AdminKeyHash cfg \<noteq> [] \<and> cfg_APIKeyHash cfg \<noteq> [] \<and>
    (cfg_WorkerType cfg = ''cli'' \<or>
     (\<exists>r m. loadRegistry embedded read_file (cfg_RegistryFile cfg) = Inr r \<and> m \<in> set (reg_models r) \<and>
        cfg_ModelEntry cfg = Some m \<and> cfg_ModelName cfg = mdll_name m \<and>
        cfg_Quantization cfg = mdll_quant m \<and> cfg_ContextSize cfg \<le> mdll_maxctx m))"
  using assms
  by (auto simp: LoadConfig_def Let_def dest: resolveModel_in split: if_splits sum.splits)

theorem load_config_ok_witness:
  "\<exists>cfg. LoadConfig (\<lambda>_. None) [] (\<lambda>_. None)
      [''AUXOT_ADMIN_KEY_HASH=a'', ''AUXOT_API_KEY_HASH=b'', ''AUXOT_WORKER_TYPE=cli''] = Inr cfg \<and>
    cfg_AdminKeyHash cfg \<noteq> []"
proof -
  let ?env = "[''AUXOT_ADMIN_KEY_HASH=a'', ''AUXOT_API_KEY_HASH=b'', ''AUXOT_WORKER_TYPE=cli'']"
  have get: "Getenv ?env ''AUXOT_ADMIN_KEY_HASH'' = ''a''" "Getenv ?env ''AUXOT_API_KEY_HASH'' = ''b''"
    "Getenv ?env ''AUXOT_WORKER_TYPE'' = ''cli''"
    by (simp_all add: Getenv_def env_split_def)
  obtain cfg where cfg: "LoadConfig (\<lambda>_. None) [] (\<lambda>_. None) ?env = Inr cfg"
    by (simp add: LoadConfig_def base_config_def get Let_def)
  from load_config_ok [OF cfg] cfg show ?thesis by blast
qed

end
