(* ===== verification/Tools_Handler.thy ===== *)
theory Tools_Handler
  imports Protocol Job_Queue Router_Config Auth "HOL-Library.Word"
begin

unbundle bit_operations_syntax

text \<open>
  \<open>internal/router/toolshandler.go\<close> (and \<open>dispatch.go\<close>): the tools workers and the pipeline from a
  model's tool calls through their results to the next round of the job.  The handler's maps
  are one record; every method is a function on it.  What a method does outside of them (a
  message on a WebSocket, a Redis command, a goroutine) is a list of effects in the order of
  the code; the fresh IDs it draws and whether each message reaches its socket are arguments.
  A method's locks are not modelled: a method is one step.  The built-in tool definitions are
  the map \<open>builtinDefs\<close> the constructor builds from the two tables of \<open>pkg/tools\<close>.
\<close>

section \<open>State\<close>

record toolsConn =
  tcn_id :: string
  tcn_tools :: "string list"

record jobContext =
  jc_messages :: "ChatMessage list"
  jc_tools :: "Tool list"
  jc_temperature :: "number option"
  jc_maxTokens :: "int option"
  jc_effort :: string
  jc_threadID :: string

record toolCallResult =
  tr_toolName :: string
  tr_result :: raw
  tr_errMsg :: string
  tr_images :: "ImagePart list"

record pendingContinuation =
  pc_jobID :: string
  pc_ctx :: "jobContext option"
  pc_assistant :: ChatMessage
  pc_results :: "toolCallResult option gomap"
  pc_remaining :: int
  pc_isDirect :: bool

record toolJobRef =
  ref_parent :: string
  ref_call :: string

record tools_handler =
  th_workers :: "toolsConn gomap"
  th_contexts :: "jobContext gomap"
  th_conts :: "pendingContinuation gomap"
  th_refs :: "toolJobRef gomap"

datatype effect =
    EAck string
  | EPublish string TokenEvent
  | ESetTTL string int
  | EEnqueue JobMessage
  | ESend string message
  | EContinueRound pendingContinuation
  | EPingHeartbeat string
  | ERemoveHeartbeat string
  | EClose string

text \<open>The definitions the constructor indexes: those of \<open>pkg/tools\<close>, then the browser tools.\<close>

definition builtin_defs :: "ToolDefinition list \<Rightarrow> string list \<Rightarrow> Tool gomap" where
  "builtin_defs definitions browser_names =
     fold (\<lambda>n m. mput n
         \<lparr>tl_type = ''function'',
          tl_fn = \<lparr>td_name = n,
                   td_desc = ''Browser automation action via Playwright MCP ('' @ n @ '').'',
                   td_params = Some (JObj [(''type'', JStr ''object''), (''additionalProperties'', JBool True)])\<rparr>\<rparr> m)
       browser_names
       (fold (\<lambda>d m. mput (td_name d) \<lparr>tl_type = ''function'', tl_fn = d\<rparr> m) definitions [])"

definition NewToolsWSHandler :: tools_handler where
  "NewToolsWSHandler = \<lparr>th_workers = [], th_contexts = [], th_conts = [], th_refs = []\<rparr>"

section \<open>Choosing a worker\<close>

definition fnv_offset :: "64 word" where "fnv_offset = 14695981039346656037"
definition fnv_prime :: "64 word" where "fnv_prime = 1099511628211"

text \<open>\<open>hash/fnv\<close>, the 64-bit FNV-1a hash.\<close>

definition fnv64a :: "string \<Rightarrow> 64 word" where
  "fnv64a s = foldl (\<lambda>h c. (h XOR word_of_nat (of_char c)) * fnv_prime) fnv_offset s"

definition pickFromEligible :: "toolsConn list \<Rightarrow> string \<Rightarrow> toolsConn option" where
  "pickFromEligible eligible threadID =
     (if eligible = [] then None
      else
        (let sorted_workers = sort_key tcn_id eligible in
         if threadID = [] then Some (sorted_workers ! 0)
         else Some (sorted_workers ! (unat (fnv64a threadID) mod length sorted_workers))))"

definition pickToolsWorker :: "tools_handler \<Rightarrow> string \<Rightarrow> string \<Rightarrow> toolsConn option" where
  "pickToolsWorker h toolName threadID =
     pickFromEligible
       (filter (\<lambda>w. toolName = [] \<or> toolName \<in> set (tcn_tools w)) (map snd (th_workers h)))
       threadID"

text \<open>The loop that sorts the workers into those with every tool and those with some.\<close>

fun split_cover :: "string list \<Rightarrow> toolsConn list \<Rightarrow> toolsConn list \<times> toolsConn list" where
  "split_cover required [] = ([], [])"
| "split_cover required (w # ws) =
     (let (allCover, anyCover) = split_cover required ws;
          coversAll = list_all (\<lambda>name. name \<in> set (tcn_tools w)) required;
          coversAny = list_ex (\<lambda>name. name \<in> set (tcn_tools w)) required
      in if coversAll then (w # allCover, anyCover)
         else if coversAny then (allCover, w # anyCover)
         else (allCover, anyCover))"

definition pickToolsWorkerAll :: "tools_handler \<Rightarrow> string list \<Rightarrow> string \<Rightarrow> toolsConn option" where
  "pickToolsWorkerAll h toolNames threadID =
     (case toolNames of
        [] \<Rightarrow> pickToolsWorker h [] threadID
      | [name] \<Rightarrow> pickToolsWorker h name threadID
      | _ \<Rightarrow>
          (let (allCover, anyCover) = split_cover toolNames (map snd (th_workers h)) in
           if allCover \<noteq> [] then pickFromEligible allCover threadID
           else if anyCover \<noteq> [] then pickFromEligible anyCover threadID
           else None))"

definition toolsPoolSize :: "tools_handler \<Rightarrow> nat" where
  "toolsPoolSize h = length (th_workers h)"

definition HasToolsWorker :: "tools_handler \<Rightarrow> bool" where
  "HasToolsWorker h \<longleftrightarrow> th_workers h \<noteq> []"

text \<open>The names advertised by the connected workers, each at its first occurrence.\<close>

fun first_occurrences :: "string list \<Rightarrow> string list \<Rightarrow> string list" where
  "first_occurrences [] names = names"
| "first_occurrences (n # ns) names =
     first_occurrences ns (if n \<in> set names then names else names @ [n])"

definition ConnectedTools :: "tools_handler \<Rightarrow> string list" where
  "ConnectedTools h = first_occurrences (concat (map (\<lambda>(i, w). tcn_tools w) (th_workers h))) []"

section \<open>Tools in jobs\<close>

definition SaveJobContext :: "Config \<Rightarrow> string \<Rightarrow> JobMessage \<Rightarrow> tools_handler \<Rightarrow> tools_handler" where
  "SaveJobContext cfg jobID jobMsg h =
     (if cfg_AllowedTools cfg = [] then h
      else h\<lparr>th_contexts := mput jobID
               \<lparr>jc_messages = jm_messages jobMsg, jc_tools = jm_tools jobMsg,
                jc_temperature = jm_temp jobMsg, jc_maxTokens = jm_max jobMsg,
                jc_effort = jm_effort jobMsg,
                jc_threadID = (if jm_ref jobMsg \<noteq> [] then jm_ref jobMsg else [])\<rparr>
               (th_contexts h)\<rparr>)"

definition DeleteJobContext :: "string \<Rightarrow> tools_handler \<Rightarrow> tools_handler" where
  "DeleteJobContext jobID h = h\<lparr>th_contexts := mdel jobID (th_contexts h)\<rparr>"

definition AllowedToolDefs :: "Config \<Rightarrow> Tool gomap \<Rightarrow> tools_handler \<Rightarrow> Tool list" where
  "AllowedToolDefs cfg builtinDefs h =
     (if cfg_AllowedTools cfg = [] then []
      else if length (th_workers h) = 0 then []
      else List.map_filter (mget builtinDefs) (cfg_AllowedTools cfg))"

text \<open>The loop of \<open>dispatchToWorker\<close> that adds the definitions the job does not have yet.\<close>

definition inject_tools :: "Tool list \<Rightarrow> JobMessage \<Rightarrow> JobMessage" where
  "inject_tools defs jobMsg =
     (let existing = map (\<lambda>t. td_name (tl_fn t)) (jm_tools jobMsg) in
      jobMsg\<lparr>jm_tools := jm_tools jobMsg @ filter (\<lambda>d. td_name (tl_fn d) \<notin> set existing) defs\<rparr>)"

section \<open>Results\<close>

text \<open>
  \<open>recordToolResult\<close>: the goroutine that continues the round is the effect \<open>EContinueRound\<close>, with
  the continuation it is given.
\<close>

definition recordToolResult ::
    "string \<Rightarrow> string \<Rightarrow> string \<Rightarrow> raw \<Rightarrow> ImagePart list \<Rightarrow> string \<Rightarrow> tools_handler \<Rightarrow> tools_handler \<times> effect list" where
  "recordToolResult parentJobID toolCallID toolName result imageParts errMsg h =
     (case mget (th_conts h) parentJobID of
        None \<Rightarrow> (h, [])
      | Some cont \<Rightarrow>
          (case mget (pc_results cont) toolCallID of
             None \<Rightarrow> (h, [])
           | Some _ \<Rightarrow>
               (let cont' = cont\<lparr>pc_results := mput toolCallID
                                  (Some \<lparr>tr_toolName = toolName, tr_result = result,
                                         tr_errMsg = errMsg, tr_images = imageParts\<rparr>) (pc_results cont),
                                pc_remaining := pc_remaining cont - 1\<rparr>
                in if 0 < pc_remaining cont' then (h\<lparr>th_conts := mput parentJobID cont' (th_conts h)\<rparr>, [])
                   else (h\<lparr>th_conts := mdel parentJobID (th_conts h)\<rparr>,
                         if pc_isDirect cont' then [] else [EContinueRound cont']))))"

definition handleToolResult :: "ToolResultMessage \<Rightarrow> tools_handler \<Rightarrow> tools_handler \<times> effect list" where
  "handleToolResult msg h =
     recordToolResult (trm_parent msg) (trm_call msg) (trm_tool msg) (trm_result msg)
       (trm_images msg) (trm_error msg) (h\<lparr>th_refs := mdel (trm_job msg) (th_refs h)\<rparr>)"

definition handleToolError :: "string \<Rightarrow> string \<Rightarrow> tools_handler \<Rightarrow> tools_handler \<times> effect list" where
  "handleToolError toolJobID errMsg h =
     (let h' = h\<lparr>th_refs := mdel toolJobID (th_refs h)\<rparr> in
      case mget (th_refs h) toolJobID of
        None \<Rightarrow> (h', [])
      | Some ref \<Rightarrow> recordToolResult (ref_parent ref) (ref_call ref) [] None [] errMsg h')"

text \<open>
  \<open>ChatContentString\<close> and the content of a \<open>tool\<close> message.  A result that is a JSON string is
  unwrapped, any other is its compact text.
\<close>

definition ChatContentString :: "string \<Rightarrow> raw" where
  "ChatContentString s = Some (JStr s)"

definition toolResultContent :: "toolCallResult \<Rightarrow> string" where
  "toolResultContent res =
     (if tr_errMsg res \<noteq> [] then json_text (JObj [(''error'', JStr (tr_errMsg res))])
      else
        (case tr_result res of
           None \<Rightarrow> []
         | Some j \<Rightarrow> (case dec_string j [] of (s, True) \<Rightarrow> s | (s, False) \<Rightarrow> json_text j)))"

definition buildMultimodalContent :: "string \<Rightarrow> ImagePart list \<Rightarrow> raw" where
  "buildMultimodalContent text imgs =
     Some (JArr (JObj [(''type'', JStr ''text''), (''text'', JStr text)] #
       map (\<lambda>img. JObj [(''type'', JStr ''image_url''),
              (''image_url'', JObj [(''url'',
                 JStr (''data:'' @ ip_mime img @ '';base64,'' @ std_encode (ip_data img)))])]) imgs))"

definition tool_reply :: "string \<Rightarrow> toolCallResult \<Rightarrow> ChatMessage" where
  "tool_reply callID res =
     \<lparr>cm_role = ''tool'',
      cm_content = (if tr_images res \<noteq> [] then buildMultimodalContent (toolResultContent res) (tr_images res)
                    else ChatContentString (toolResultContent res)),
      cm_call_id = callID, cm_calls = []\<rparr>"

definition tool_message :: "toolCallResult option gomap \<Rightarrow> ToolCall \<Rightarrow> ChatMessage" where
  "tool_message results tc =
     (case mget results (tc_id tc) of
        Some (Some res) \<Rightarrow> tool_reply (tc_id tc) res
      | _ \<Rightarrow>
          \<lparr>cm_role = ''tool'',
           cm_content = ChatContentString (json_text (JObj [(''error'', JStr ''tool result missing'')])),
           cm_call_id = tc_id tc, cm_calls = []\<rparr>)"

section \<open>The next round\<close>

definition zero_jobContext :: jobContext where
  "zero_jobContext = \<lparr>jc_messages = [], jc_tools = [], jc_temperature = None, jc_maxTokens = None,
     jc_effort = [], jc_threadID = []\<rparr>"

text \<open>The context of a continuation that is not direct; its pointer is never nil then.\<close>

definition cont_ctx :: "pendingContinuation \<Rightarrow> jobContext" where
  "cont_ctx cont = (case pc_ctx cont of None \<Rightarrow> zero_jobContext | Some c \<Rightarrow> c)"

definition round_messages :: "pendingContinuation \<Rightarrow> ChatMessage list" where
  "round_messages cont =
     jc_messages (cont_ctx cont) @ [pc_assistant cont] @
     map (tool_message (pc_results cont)) (cm_calls (pc_assistant cont))"

definition next_job :: "pendingContinuation \<Rightarrow> JobMessage" where
  "next_job cont =
     (let c = cont_ctx cont in
      zero_JobMessage\<lparr>jm_type := ''job'', jm_job := pc_jobID cont, jm_messages := round_messages cont,
        jm_tools := jc_tools c, jm_temp := jc_temperature c, jm_max := jc_maxTokens c,
        jm_effort := jc_effort c\<rparr>)"

definition streamTTLDispatched :: int where "streamTTLDispatched = 30 * 60 * second"
definition streamTTLStreaming :: int where "streamTTLStreaming = 10 * 60 * second"
definition streamTTLDone :: int where "streamTTLDone = 3 * 60 * second"

text \<open>
  \<open>continueLLMRound\<close>; \<open>failure\<close> is the error of \<open>enqueueJob\<close>, if it fails.
\<close>

definition continueLLMRound ::
    "string option \<Rightarrow> pendingContinuation \<Rightarrow> tools_handler \<Rightarrow> tools_handler \<times> effect list" where
  "continueLLMRound failure cont h =
     (let c = cont_ctx cont;
          h' = h\<lparr>th_contexts := mput (pc_jobID cont) (c\<lparr>jc_messages := round_messages cont\<rparr>) (th_contexts h)\<rparr>
      in (h', EEnqueue (next_job cont) #
         (case failure of
            None \<Rightarrow> []
          | Some err \<Rightarrow>
              [EPublish (pc_jobID cont)
                 \<lparr>te_Type = ''error'',
                  te_Data = Some (JObj
                    [(''details'', JStr (''failed to re-enqueue job after tool results: '' @ err)),
                     (''error'', JStr ''continuation_failed'')])\<rparr>,
               ESetTTL (pc_jobID cont) streamTTLDone])))"

text \<open>\<open>enqueueJob\<close>: the job's document goes into the queue under the job's ID.\<close>

definition enqueueJob :: "'r redis \<Rightarrow> JobQueue \<Rightarrow> JobMessage \<Rightarrow> 'r \<Rightarrow> string option \<times> 'r" where
  "enqueueJob R q jobMsg r =
     (case Enqueue R q (jm_job jobMsg) (json_text (enc_JobMessage jobMsg)) r of
        (Inl e, r') \<Rightarrow> (Some (''failed to enqueue job: '' @ e), r')
      | (Inr _, r') \<Rightarrow> (None, r'))"

section \<open>Starting a continuation\<close>

definition tool_job :: "Config \<Rightarrow> string \<Rightarrow> jobContext \<Rightarrow> string \<Rightarrow> ToolCall \<Rightarrow> ToolJobMessage" where
  "tool_job cfg jobID jobCtx toolJobID tc =
     zero_ToolJobMessage\<lparr>tjm_type := ''tool_job'', tjm_job := toolJobID, tjm_parent := jobID,
       tjm_thread := jc_threadID jobCtx, tjm_tool := tf_name (tc_fn tc), tjm_call := tc_id tc,
       tjm_args := json_parse (tf_args (tc_fn tc)),
       tjm_creds := (case mget (cfg_ToolCredentials cfg) (tf_name (tc_fn tc)) of None \<Rightarrow> [] | Some m \<Rightarrow> m)\<rparr>"

text \<open>
  The dispatch loop.  Each call comes with its fresh job ID and whether the socket takes the
  message; arguments that are not a JSON document cannot be marshalled, so that call fails
  without reaching the socket.
\<close>

fun dispatch_calls ::
    "Config \<Rightarrow> string \<Rightarrow> jobContext \<Rightarrow> string \<Rightarrow> (ToolCall \<times> string \<times> bool) list \<Rightarrow> tools_handler \<Rightarrow>
     tools_handler \<times> effect list" where
  "dispatch_calls cfg jobID jobCtx workerID [] h = (h, [])"
| "dispatch_calls cfg jobID jobCtx workerID ((tc, toolJobID, sent) # calls) h =
     (let h1 = h\<lparr>th_refs := mput toolJobID \<lparr>ref_parent = jobID, ref_call = tc_id tc\<rparr> (th_refs h)\<rparr>;
          (h2, es) =
            (if json_valid (tf_args (tc_fn tc)) \<and> sent
             then (h1, [ESend workerID (MToolJob (tool_job cfg jobID jobCtx toolJobID tc))])
             else recordToolResult jobID (tc_id tc) (tf_name (tc_fn tc)) None []
                    ''failed to dispatch to tools worker'' h1);
          (h3, es') = dispatch_calls cfg jobID jobCtx workerID calls h2
      in (h3, es @ es'))"

text \<open>The set of tool names of the round; the order of the list is one iteration of the map.\<close>

definition round_tool_names :: "ToolCall list \<Rightarrow> string list" where
  "round_tool_names calls = first_occurrences (filter (\<lambda>n. n \<noteq> []) (map (\<lambda>tc. tf_name (tc_fn tc)) calls)) []"

definition new_continuation :: "CompleteMessage \<Rightarrow> jobContext \<Rightarrow> pendingContinuation" where
  "new_continuation msg jobCtx =
     \<lparr>pc_jobID = com_job msg, pc_ctx = Some jobCtx,
      pc_assistant = \<lparr>cm_role = ''assistant'', cm_content = ChatContentString (com_full msg),
                      cm_call_id = [], cm_calls = com_calls msg\<rparr>,
      pc_results = fold (\<lambda>tc m. mput (tc_id tc) None m) (com_calls msg) [],
      pc_remaining = int (length (com_calls msg)), pc_isDirect = False\<rparr>"

definition StartContinuation ::
    "Config \<Rightarrow> (string \<times> bool) list \<Rightarrow> CompleteMessage \<Rightarrow> tools_handler \<Rightarrow> bool \<times> tools_handler \<times> effect list" where
  "StartContinuation cfg fresh msg h =
     (if com_calls msg = [] then (False, h, [])
      else
        (case mget (th_contexts h) (com_job msg) of
           None \<Rightarrow> (False, h, [])
         | Some jobCtx \<Rightarrow>
             (case pickToolsWorkerAll h (round_tool_names (com_calls msg)) (jc_threadID jobCtx) of
                None \<Rightarrow> (False, h, [])
              | Some worker \<Rightarrow>
                  (let h1 = h\<lparr>th_conts := mput (com_job msg) (new_continuation msg jobCtx) (th_conts h)\<rparr>;
                       (h2, es) = dispatch_calls cfg (com_job msg) jobCtx (tcn_id worker)
                                    (zip (com_calls msg) fresh) h1
                   in (True, h2, es)))))"

section \<open>Direct calls\<close>

datatype direct_error = NoToolsWorker string | DispatchingToolJob | ToolExecutionError string | ToolCallTimedOut

text \<open>
  \<open>DispatchDirectToolCall\<close> up to its wait: the message and the registered continuation, or the
  error.  The wait ends when the watcher finds the result (\<open>direct_result\<close>) or the context is
  done (\<open>ToolCallTimedOut\<close>).
\<close>

definition DispatchDirectToolCall ::
    "Config \<Rightarrow> string \<Rightarrow> string \<Rightarrow> bool \<Rightarrow> string \<Rightarrow> raw \<Rightarrow> tools_handler \<Rightarrow>
     (direct_error + pendingContinuation) \<times> tools_handler \<times> effect list" where
  "DispatchDirectToolCall cfg toolJobID callID sent toolName args h =
     (case pickToolsWorker h toolName [] of
        None \<Rightarrow> (Inl (NoToolsWorker toolName), h, [])
      | Some worker \<Rightarrow>
          (let sentinelJobID = ''direct:'' @ toolJobID;
               cont = \<lparr>pc_jobID = sentinelJobID, pc_ctx = None, pc_assistant = zero_ChatMessage,
                       pc_results = [(callID, None)], pc_remaining = 1, pc_isDirect = True\<rparr>;
               h1 = h\<lparr>th_conts := mput sentinelJobID cont (th_conts h),
                      th_refs := mput toolJobID \<lparr>ref_parent = sentinelJobID, ref_call = callID\<rparr> (th_refs h)\<rparr>;
               toolJob = zero_ToolJobMessage\<lparr>tjm_type := ''tool_job'', tjm_job := toolJobID,
                   tjm_parent := sentinelJobID, tjm_tool := toolName, tjm_call := callID, tjm_args := args,
                   tjm_creds := (case mget (cfg_ToolCredentials cfg) toolName of None \<Rightarrow> [] | Some m \<Rightarrow> m)\<rparr>
           in if sent then (Inr cont, h1, [ESend (tcn_id worker) (MToolJob toolJob)])
              else (Inl DispatchingToolJob,
                    h1\<lparr>th_conts := mdel sentinelJobID (th_conts h1), th_refs := mdel toolJobID (th_refs h1)\<rparr>,
                    [])))"

definition direct_result :: "toolCallResult \<Rightarrow> direct_error + raw" where
  "direct_result res =
     (if tr_errMsg res \<noteq> [] then Inl (ToolExecutionError (tr_errMsg res)) else Inr (tr_result res))"

section \<open>Connections of tools workers\<close>

text \<open>
  \<open>HandleToolsWorker\<close> up to its message loop, for the answer of the verifier, a fresh ID and
  whether the acknowledgement is sent; the \<open>Some\<close> result is the connection the loop runs for.
\<close>

definition HandleToolsWorker ::
    "verdict \<Rightarrow> string \<Rightarrow> bool \<Rightarrow> HelloMessage \<Rightarrow> tools_handler \<Rightarrow> toolsConn option \<times> tools_handler \<times> effect list" where
  "HandleToolsWorker answer newID sent hello h =
     (if answer \<noteq> VKey True then
        (None, h, [ESend [] (MError (zero_ErrorMessage\<lparr>em_type := ''error'', em_error := ''authentication failed''\<rparr>)), EClose []])
      else
        (let tc = \<lparr>tcn_id = newID,
                   tcn_tools = (case hm_tools hello of None \<Rightarrow> [] | Some c \<Rightarrow> tcap_tools c)\<rparr>;
             h1 = h\<lparr>th_workers := mput newID tc (th_workers h)\<rparr>;
             ack = MHelloAck (zero_HelloAckMessage\<lparr>ham_type := ''hello_ack'', ham_success := True, ham_gpu := newID\<rparr>)
         in if sent then (Some tc, h1, [ESend newID ack])
            else (None, h1\<lparr>th_workers := mdel newID (th_workers h1)\<rparr>, [])))"

definition cleanupToolsWorker :: "toolsConn \<Rightarrow> tools_handler \<Rightarrow> tools_handler" where
  "cleanupToolsWorker tc h = h\<lparr>th_workers := mdel (tcn_id tc) (th_workers h)\<rparr>"

text \<open>One message of the loop of a tools worker.\<close>

definition tools_message_step :: "toolsConn \<Rightarrow> string \<Rightarrow> tools_handler \<Rightarrow> tools_handler \<times> effect list" where
  "tools_message_step tc msgData h =
     (case ParseMessage (json_parse msgData) of
        Inl e \<Rightarrow> (h, [])
      | Inr m \<Rightarrow>
          (case m of
             MToolResult t \<Rightarrow> handleToolResult t h
           | MHeartbeat _ \<Rightarrow> (h, [ESend (tcn_id tc) (MHeartbeatAck \<lparr>hbam_type = ''heartbeat_ack''\<rparr>)])
           | MError e \<Rightarrow> if em_job e \<noteq> [] then handleToolError (em_job e) (em_error e) h else (h, [])
           | _ \<Rightarrow> (h, [])))"

section \<open>A round of tool calls\<close>

fun record_all :: "string \<Rightarrow> (string \<times> toolCallResult) list \<Rightarrow> tools_handler \<Rightarrow> tools_handler \<times> effect list" where
  "record_all job [] h = (h, [])"
| "record_all job ((i, r) # rs) h =
     (let (h1, es) = recordToolResult job i (tr_toolName r) (tr_result r) (tr_images r) (tr_errMsg r) h;
          (h2, es') = record_all job rs h1
      in (h2, es @ es'))"

lemma record_all_append:
  "record_all job (xs @ ys) h =
   (case record_all job xs h of (h1, es) \<Rightarrow> case record_all job ys h1 of (h2, es') \<Rightarrow> (h2, es @ es'))"
proof (induction xs arbitrary: h)
  case (Cons x xs)
  obtain i r where "x = (i, r)" by fastforce
  with Cons show ?case by (simp split: prod.split)
qed simp

definition filled :: "(string \<times> toolCallResult) list \<Rightarrow> toolCallResult option gomap \<Rightarrow> toolCallResult option gomap" where
  "filled rs m = fold (\<lambda>(i, r). mput i (Some r)) rs m"

lemma filled_Nil [simp]: "filled [] m = m"
  by (simp add: filled_def)

lemma filled_Cons [simp]: "filled ((i, r) # rs) m = filled rs (mput i (Some r) m)"
  by (simp add: filled_def)

lemma filled_append: "filled (xs @ ys) m = filled ys (filled xs m)"
  by (simp add: filled_def)

lemma fst_set_filled: "fst ` set (filled rs m) = fst ` set rs \<union> fst ` set m"
proof (induction rs arbitrary: m)
  case (Cons x rs)
  obtain i r where "x = (i, r)" by fastforce
  then show ?case by (simp only: filled_Cons Cons.IH fst_set_mput) auto
qed simp

lemma mget_filled:
  "distinct (map fst rs) \<Longrightarrow> mget (filled rs m) k = (case map_of rs k of Some r \<Rightarrow> Some (Some r) | None \<Rightarrow> mget m k)"
proof (induction rs arbitrary: m)
  case (Cons x rs)
  obtain i r where x: "x = (i, r)" by fastforce
  with Cons.prems have "map_of rs i = None" "distinct (map fst rs)"
    by (simp_all add: map_of_eq_None_iff)
  with Cons.IH [of "mput i (Some r) m"] x show ?case by (auto split: option.split)
qed simp

text \<open>One result of a pending round.\<close>

lemma record_pending:
  assumes "mget (th_conts h) job = Some cont" and "i \<in> fst ` set (pc_results cont)"
  shows "recordToolResult job i (tr_toolName r) (tr_result r) (tr_images r) (tr_errMsg r) h =
    (let cont' = cont\<lparr>pc_results := mput i (Some r) (pc_results cont), pc_remaining := pc_remaining cont - 1\<rparr>
     in if 1 < pc_remaining cont then (h\<lparr>th_conts := mput job cont' (th_conts h)\<rparr>, [])
        else (h\<lparr>th_conts := mdel job (th_conts h)\<rparr>, if pc_isDirect cont then [] else [EContinueRound cont']))"
proof -
  obtain v where "mget (pc_results cont) i = Some v"
    using assms(2) by (metis image_iff mkeys_iff set_map)
  with assms(1) show ?thesis by (cases r) (simp add: recordToolResult_def Let_def)
qed

lemma update_twice: "mput k b (mput k a m) = mput k b m"
  by (induction m) auto

lemma record_partial:
  "mget (th_conts h) job = Some cont \<Longrightarrow> fst ` set rs \<subseteq> fst ` set (pc_results cont) \<Longrightarrow>
   int (length rs) < pc_remaining cont \<Longrightarrow> rs \<noteq> [] \<Longrightarrow>
   record_all job rs h =
     (h\<lparr>th_conts := mput job (cont\<lparr>pc_results := filled rs (pc_results cont),
        pc_remaining := pc_remaining cont - int (length rs)\<rparr>) (th_conts h)\<rparr>, [])"
proof (induction rs arbitrary: h cont)
  case (Cons x rs)
  obtain i r where x: "x = (i, r)" by fastforce
  let ?cont = "cont\<lparr>pc_results := mput i (Some r) (pc_results cont), pc_remaining := pc_remaining cont - 1\<rparr>"
  let ?h = "h\<lparr>th_conts := mput job ?cont (th_conts h)\<rparr>"
  have first: "recordToolResult job i (tr_toolName r) (tr_result r) (tr_images r) (tr_errMsg r) h = (?h, [])"
    using Cons.prems x by (subst record_pending) (auto simp: Let_def)
  show ?case
  proof (cases "rs = []")
    case True
    with first x show ?thesis by simp
  next
    case False
    have "record_all job rs ?h = (?h\<lparr>th_conts := mput job (?cont\<lparr>pc_results := filled rs (pc_results ?cont),
        pc_remaining := pc_remaining ?cont - int (length rs)\<rparr>) (th_conts ?h)\<rparr>, [])"
      using Cons.prems x False by (intro Cons.IH) auto
    with first x show ?thesis by (simp add: update_twice algebra_simps)
  qed
qed simp

lemma record_complete:
  "mget (th_conts h) job = Some cont \<Longrightarrow> fst ` set rs \<subseteq> fst ` set (pc_results cont) \<Longrightarrow>
   pc_remaining cont = int (length rs) \<Longrightarrow> rs \<noteq> [] \<Longrightarrow> \<not> pc_isDirect cont \<Longrightarrow>
   record_all job rs h =
     (h\<lparr>th_conts := mdel job (th_conts h)\<rparr>,
      [EContinueRound (cont\<lparr>pc_results := filled rs (pc_results cont), pc_remaining := 0\<rparr>)])"
proof (induction rs arbitrary: h cont)
  case (Cons x rs)
  obtain i r where x: "x = (i, r)" by fastforce
  let ?cont = "cont\<lparr>pc_results := mput i (Some r) (pc_results cont), pc_remaining := pc_remaining cont - 1\<rparr>"
  let ?h = "h\<lparr>th_conts := mput job ?cont (th_conts h)\<rparr>"
  show ?case
  proof (cases "rs = []")
    case True
    with Cons.prems x show ?thesis by (auto simp: record_pending Let_def)
  next
    case False
    then have first: "recordToolResult job i (tr_toolName r) (tr_result r) (tr_images r) (tr_errMsg r) h = (?h, [])"
      using Cons.prems x by (subst record_pending) (auto simp: Let_def)
    have "record_all job rs ?h = (?h\<lparr>th_conts := mdel job (th_conts ?h)\<rparr>,
        [EContinueRound (?cont\<lparr>pc_results := filled rs (pc_results ?cont), pc_remaining := 0\<rparr>)])"
      using Cons.prems x False by (intro Cons.IH) auto
    with first x show ?thesis by (simp add: AList.delete_update_same)
  qed
qed simp

text \<open>
  The calls of a round that fail before they reach the worker, with the result they get, and
  the messages the others are sent in.
\<close>

definition failed_calls :: "(ToolCall \<times> string \<times> bool) list \<Rightarrow> (string \<times> toolCallResult) list" where
  "failed_calls calls =
     map (\<lambda>(tc, i, sent). (tc_id tc, \<lparr>tr_toolName = tf_name (tc_fn tc), tr_result = None,
            tr_errMsg = ''failed to dispatch to tools worker'', tr_images = []\<rparr>))
       (filter (\<lambda>(tc, i, sent). \<not> (json_valid (tf_args (tc_fn tc)) \<and> sent)) calls)"

definition sent_calls :: "Config \<Rightarrow> string \<Rightarrow> jobContext \<Rightarrow> string \<Rightarrow> (ToolCall \<times> string \<times> bool) list \<Rightarrow> effect list" where
  "sent_calls cfg jobID jobCtx workerID calls =
     map (\<lambda>(tc, i, sent). ESend workerID (MToolJob (tool_job cfg jobID jobCtx i tc)))
       (filter (\<lambda>(tc, i, sent). json_valid (tf_args (tc_fn tc)) \<and> sent) calls)"

definition is_send :: "effect \<Rightarrow> bool" where
  "is_send e = (case e of ESend _ _ \<Rightarrow> True | _ \<Rightarrow> False)"

lemma record_conts:
  "th_conts h = th_conts h' \<Longrightarrow>
   th_conts (fst (recordToolResult job i n r im e h)) = th_conts (fst (recordToolResult job i n r im e h')) \<and>
   snd (recordToolResult job i n r im e h) = snd (recordToolResult job i n r im e h') \<and>
   filter is_send (snd (recordToolResult job i n r im e h)) = []"
  by (auto simp: recordToolResult_def Let_def is_send_def split: option.split)

lemma record_all_conts:
  "th_conts h = th_conts h' \<Longrightarrow>
   th_conts (fst (record_all job rs h)) = th_conts (fst (record_all job rs h')) \<and>
   snd (record_all job rs h) = snd (record_all job rs h')"
proof (induction rs arbitrary: h h')
  case (Cons x rs)
  obtain i r where x: "x = (i, r)" by fastforce
  note step = record_conts [OF Cons.prems, of job i "tr_toolName r" "tr_result r" "tr_images r" "tr_errMsg r"]
  obtain h1 es h1' es' where
    eq: "recordToolResult job i (tr_toolName r) (tr_result r) (tr_images r) (tr_errMsg r) h = (h1, es)"
      "recordToolResult job i (tr_toolName r) (tr_result r) (tr_images r) (tr_errMsg r) h' = (h1', es')"
    by fastforce
  with step have "th_conts h1 = th_conts h1'" "es = es'" by simp_all
  with Cons.IH [of h1 h1'] eq x show ?case by (auto split: prod.splits)
qed simp

lemma dispatch_calls_spec:
  "th_conts (fst (dispatch_calls cfg job ctx w calls h)) = th_conts (fst (record_all job (failed_calls calls) h)) \<and>
   filter (\<lambda>e. \<not> is_send e) (snd (dispatch_calls cfg job ctx w calls h)) =
     snd (record_all job (failed_calls calls) h) \<and>
   filter is_send (snd (dispatch_calls cfg job ctx w calls h)) = sent_calls cfg job ctx w calls"
proof (induction calls arbitrary: h)
  case Nil
  then show ?case by (simp add: failed_calls_def sent_calls_def)
next
  case (Cons x calls)
  obtain tc i sent where x: "x = (tc, i, sent)" by (cases x) auto
  let ?h1 = "h\<lparr>th_refs := mput i \<lparr>ref_parent = job, ref_call = tc_id tc\<rparr> (th_refs h)\<rparr>"
  have c1: "th_conts ?h1 = th_conts h" by simp
  show ?case
  proof (cases "json_valid (tf_args (tc_fn tc)) \<and> sent")
    case True
    with Cons.IH [of ?h1] record_all_conts [OF c1, of job "failed_calls calls"] x show ?thesis
      by (auto simp: failed_calls_def sent_calls_def is_send_def split: prod.split)
  next
    case False
    let ?rec = "recordToolResult job (tc_id tc) (tf_name (tc_fn tc)) None [] ''failed to dispatch to tools worker''"
    obtain h2 es where h2: "?rec ?h1 = (h2, es)" by fastforce
    obtain h2' es' where h2': "?rec h = (h2', es')" by fastforce
    from record_conts [OF c1, of job "tc_id tc" "tf_name (tc_fn tc)" None "[]" "''failed to dispatch to tools worker''"] h2 h2'
    have same: "th_conts h2 = th_conts h2'" "es' = es" "filter is_send es = []" by auto
    then have "filter (\<lambda>e. \<not> is_send e) es = es" by (simp add: filter_empty_conv filter_id_conv)
    with False Cons.IH [of h2] record_all_conts [OF same(1), of job "failed_calls calls"] x h2 h2' same
    show ?thesis
      by (auto simp: failed_calls_def sent_calls_def Let_def split: prod.splits)
  qed
qed

lemma mput_None_keys: "fst ` set (fold (\<lambda>tc m. mput (tc_id tc) None m) calls m) = tc_id ` set calls \<union> fst ` set m"
proof (induction calls arbitrary: m)
  case (Cons tc calls)
  then show ?case by (simp only: fold_Cons o_def fst_set_mput) auto
qed simp

definition continued :: "effect list \<Rightarrow> pendingContinuation list" where
  "continued es = List.map_filter (\<lambda>e. case e of EContinueRound c \<Rightarrow> Some c | _ \<Rightarrow> None) es"

lemma continued_append [simp]: "continued (xs @ ys) = continued xs @ continued ys"
  by (simp add: continued_def List.map_filter_def)

lemma continued_not_send: "continued (filter (\<lambda>e. \<not> is_send e) es) = continued es"
  by (induction es) (auto simp: continued_def List.map_filter_def is_send_def split: effect.splits)

lemma failed_calls_Cons:
  "failed_calls ((tc, i, sent) # calls) =
   (if json_valid (tf_args (tc_fn tc)) \<and> sent then [] else
      [(tc_id tc, \<lparr>tr_toolName = tf_name (tc_fn tc), tr_result = None,
          tr_errMsg = ''failed to dispatch to tools worker'', tr_images = []\<rparr>)]) @ failed_calls calls"
  by (simp add: failed_calls_def)

lemma failed_calls_subset: "set (map fst (failed_calls (zip calls fresh))) \<subseteq> set (map tc_id calls)"
proof (induction calls fresh rule: list_induct2')
  case (4 tc calls x fresh)
  obtain i sent where "x = (i, sent)" by fastforce
  then have "set (map fst (failed_calls (zip (tc # calls) (x # fresh)))) \<subseteq>
      insert (tc_id tc) (set (map fst (failed_calls (zip calls fresh))))"
    by (simp add: failed_calls_Cons subset_insertI)
  also have "\<dots> \<subseteq> set (map tc_id (tc # calls))"
    unfolding list.map set_simps using 4 by (rule insert_mono)
  finally show ?case .
qed (simp_all add: failed_calls_def)

lemma failed_calls_distinct: "distinct (map tc_id calls) \<Longrightarrow> distinct (map fst (failed_calls (zip calls fresh)))"
proof (induction calls fresh rule: list_induct2')
  case (4 tc calls x fresh)
  obtain i sent where x: "x = (i, sent)" by fastforce
  have "tc_id tc \<notin> set (map fst (failed_calls (zip calls fresh)))"
    using failed_calls_subset [of calls fresh] "4.prems" by auto
  moreover have "distinct (map fst (failed_calls (zip calls fresh)))"
    using "4.IH" "4.prems" by simp
  ultimately show ?case using x by (simp add: failed_calls_Cons)
qed (simp_all add: failed_calls_def)

lemma pc_results_keys: "fst ` set (pc_results (new_continuation msg ctx)) = tc_id ` set (com_calls msg)"
  using mput_None_keys [of "com_calls msg" "[]"] by (simp add: new_continuation_def)

lemma round_recorded:
  assumes "mget (th_conts h) job = Some (new_continuation msg ctx)"
    and "distinct (map tc_id (com_calls msg))" and "com_calls msg \<noteq> []"
    and "distinct (map fst rs)" and "fst ` set rs = tc_id ` set (com_calls msg)"
  shows "record_all job rs h =
    (h\<lparr>th_conts := mdel job (th_conts h)\<rparr>,
     [EContinueRound ((new_continuation msg ctx)\<lparr>pc_results := filled rs (pc_results (new_continuation msg ctx)),
        pc_remaining := 0\<rparr>)])"
proof (rule record_complete [OF assms(1)])
  have "length rs = card (fst ` set rs)"
    using distinct_card [OF assms(4)] by simp
  also have "\<dots> = length (com_calls msg)"
    using distinct_card [OF assms(2)] assms(5) by simp
  finally show "pc_remaining (new_continuation msg ctx) = int (length rs)"
    by (simp add: new_continuation_def)
  show "fst ` set rs \<subseteq> fst ` set (pc_results (new_continuation msg ctx))"
    by (simp add: pc_results_keys assms(5))
  show "rs \<noteq> []" using assms(3,5) by (cases "com_calls msg") auto
  show "\<not> pc_isDirect (new_continuation msg ctx)" by (simp add: new_continuation_def)
qed

lemma filled_tool_message:
  assumes "distinct (map fst rs)" and "tc_id tc \<in> fst ` set rs"
  shows "tool_message (filled rs m) tc = tool_reply (tc_id tc) (the (map_of rs (tc_id tc)))"
proof -
  obtain r where "map_of rs (tc_id tc) = Some r"
    using assms(2) by (metis map_of_eq_None_iff not_None_eq)
  with assms(1) show ?thesis by (simp add: tool_message_def mget_filled)
qed

text \<open>
  C4: a round of tool calls ends in one new job.  When the model has asked for tools with
  different call IDs and a worker takes the round, then after the results of all calls that
  reached it, in whatever order they come, the round has been continued exactly once (not
  before the last result), its entry is gone, and the new job has the old ID, tools and
  settings and the old messages, then the assistant's, then one reply per call in the order
  of the calls: the call's own result, or the failure to dispatch it.
\<close>

theorem tool_round:
  assumes "mget (th_contexts h) (com_job msg) = Some ctx"
    and "com_calls msg \<noteq> []" and "distinct (map tc_id (com_calls msg))"
    and "pickToolsWorkerAll h (round_tool_names (com_calls msg)) (jc_threadID ctx) = Some w"
    and "length fresh = length (com_calls msg)"
    and "failed = failed_calls (zip (com_calls msg) fresh)"
    and "distinct (map fst rs)" and "set (map fst rs) = set (map tc_id (com_calls msg)) - set (map fst failed)"
    and "StartContinuation cfg fresh msg h = (ok, h1, es1)"
    and "record_all (com_job msg) rs h1 = (h2, es2)"
  shows "ok \<and> mget (th_conts h2) (com_job msg) = None \<and> (rs \<noteq> [] \<longrightarrow> continued es1 = []) \<and>
    filter is_send es1 = sent_calls cfg (com_job msg) ctx (tcn_id w) (zip (com_calls msg) fresh) \<and>
    (\<exists>cont. continued (es1 @ es2) = [cont] \<and>
       next_job cont = zero_JobMessage\<lparr>jm_type := ''job'', jm_job := com_job msg,
         jm_messages := jc_messages ctx @ [pc_assistant (new_continuation msg ctx)] @
           map (\<lambda>tc. tool_reply (tc_id tc) (the (map_of (failed @ rs) (tc_id tc)))) (com_calls msg),
         jm_tools := jc_tools ctx, jm_temp := jc_temperature ctx, jm_max := jc_maxTokens ctx,
         jm_effort := jc_effort ctx\<rparr>)"
proof -
  let ?job = "com_job msg" and ?nc = "new_continuation msg ctx"
  let ?h = "h\<lparr>th_conts := mput ?job ?nc (th_conts h)\<rparr>"
  let ?rs = "failed @ rs"
  have d: "dispatch_calls cfg ?job ctx (tcn_id w) (zip (com_calls msg) fresh) ?h = (h1, es1)" and ok: "ok"
    using assms(1,2,4,9) by (auto simp: StartContinuation_def split: prod.splits)
  obtain g es where g: "record_all ?job failed ?h = (g, es)" by fastforce
  with dispatch_calls_spec [of cfg ?job ctx "tcn_id w" "zip (com_calls msg) fresh" ?h] d
  have conts: "th_conts h1 = th_conts g" and sends: "filter (\<lambda>e. \<not> is_send e) es1 = es"
    and sent: "filter is_send es1 = sent_calls cfg ?job ctx (tcn_id w) (zip (com_calls msg) fresh)"
    by (simp_all add: assms(6))
  have ids: "distinct (map fst failed)" "fst ` set failed \<subseteq> tc_id ` set (com_calls msg)"
    using failed_calls_distinct [OF assms(3), of fresh] failed_calls_subset [of "com_calls msg" fresh]
    by (simp_all add: assms(6))
  have rs: "distinct (map fst ?rs)" "fst ` set ?rs = tc_id ` set (com_calls msg)"
    using ids assms(7,8) by auto
  let ?cont = "?nc\<lparr>pc_results := filled ?rs (pc_results ?nc), pc_remaining := 0\<rparr>"
  have all: "record_all ?job ?rs ?h = (?h\<lparr>th_conts := mdel ?job (th_conts ?h)\<rparr>, [EContinueRound ?cont])"
    by (rule round_recorded [OF _ assms(3,2) rs]) simp
  obtain g2 es' where g2: "record_all ?job rs g = (g2, es')" by fastforce
  from record_all_conts [OF conts, of ?job rs] g2 assms(10)
  have same: "th_conts h2 = th_conts g2" "es2 = es'" by simp_all
  from all g g2 have final: "g2 = ?h\<lparr>th_conts := mdel ?job (th_conts ?h)\<rparr>" "es @ es' = [EContinueRound ?cont]"
    by (simp_all add: record_all_append)
  have once: "continued (es1 @ es2) = [?cont]"
    using final(2) same(2) continued_not_send [of es1] continued_append [of es es'] sends
    by (simp add: continued_def List.map_filter_def)
  have partial: "continued es1 = []" if "rs \<noteq> []"
  proof -
    have "es = []"
    proof (cases "failed = []")
      case True
      with g show ?thesis by simp
    next
      case False
      have "length ?rs = card (set (map fst ?rs))" by (simp only: distinct_card [OF rs(1)] length_map)
      also have "\<dots> = length (com_calls msg)"
        using distinct_card [OF assms(3)] rs(2) by (simp add: image_Un)
      finally have "length failed < length (com_calls msg)" using that by (cases rs) simp_all
      then have "record_all ?job failed ?h = (?h\<lparr>th_conts := mput ?job (?nc\<lparr>pc_results := filled failed (pc_results ?nc),
          pc_remaining := pc_remaining ?nc - int (length failed)\<rparr>) (th_conts ?h)\<rparr>, [])"
        using ids False
        by (intro record_partial) (simp_all add: pc_results_keys, simp add: new_continuation_def)
      with g show ?thesis by simp
    qed
    with sends continued_not_send [of es1] show ?thesis by (simp add: continued_def List.map_filter_def)
  qed
  have "next_job ?cont = zero_JobMessage\<lparr>jm_type := ''job'', jm_job := ?job,
         jm_messages := jc_messages ctx @ [pc_assistant ?nc] @
           map (\<lambda>tc. tool_reply (tc_id tc) (the (map_of ?rs (tc_id tc)))) (com_calls msg),
         jm_tools := jc_tools ctx, jm_temp := jc_temperature ctx, jm_max := jc_maxTokens ctx,
         jm_effort := jc_effort ctx\<rparr>"
    using rs by (simp add: next_job_def round_messages_def cont_ctx_def Let_def new_continuation_def
        filled_tool_message [OF rs(1)])
  with ok sent once partial same(1) final(1) show ?thesis by auto
qed

abbreviation demo_call :: "string \<Rightarrow> ToolCall" where
  "demo_call i \<equiv> \<lparr>tc_id = i, tc_type = ''function'', tc_fn = \<lparr>tf_name = ''web_fetch'', tf_args = ''{}''\<rparr>\<rparr>"

abbreviation demo_complete :: CompleteMessage where
  "demo_complete \<equiv> zero_CompleteMessage\<lparr>com_type := ''complete'', com_job := ''J'',
     com_calls := [demo_call ''a'', demo_call ''b'', demo_call ''c'']\<rparr>"

abbreviation demo_context :: jobContext where
  "demo_context \<equiv> zero_jobContext\<lparr>jc_messages := [zero_ChatMessage\<lparr>cm_role := ''user''\<rparr>]\<rparr>"

abbreviation demo_tools :: tools_handler where
  "demo_tools \<equiv> NewToolsWSHandler\<lparr>
     th_workers := [(''t'', \<lparr>tcn_id = ''t'', tcn_tools = [''web_fetch'']\<rparr>)],
     th_contexts := [(''J'', demo_context)]\<rparr>"

abbreviation demo_result :: "string \<Rightarrow> string \<times> toolCallResult" where
  "demo_result i \<equiv> (i, \<lparr>tr_toolName = ''web_fetch'', tr_result = Some (JStr i), tr_errMsg = [], tr_images = []\<rparr>)"

theorem tool_round_witness:
  "\<exists>h1 es1 h2 es2 cont.
     StartContinuation (base_config (\<lambda>_. None) []) [(''1'', True), (''2'', False), (''3'', True)] demo_complete demo_tools
       = (True, h1, es1) \<and>
     record_all ''J'' [demo_result ''c'', demo_result ''a''] h1 = (h2, es2) \<and>
     continued (es1 @ es2) = [cont] \<and>
     map cm_call_id (jm_messages (next_job cont)) = [[], [], ''a'', ''b'', ''c'']"
proof -
  let ?cfg = "base_config (\<lambda>_. None) []"
  let ?fresh = "[(''1'', True), (''2'', False), (''3'', True)]"
  let ?rs = "[demo_result ''c'', demo_result ''a'']"
  let ?failed = "failed_calls (zip (com_calls demo_complete) ?fresh)"
  obtain ok h1 es1 where start: "StartContinuation ?cfg ?fresh demo_complete demo_tools = (ok, h1, es1)"
    by (metis prod_cases3)
  obtain h2 es2 where rest: "record_all (com_job demo_complete) ?rs h1 = (h2, es2)" by fastforce
  have ctx: "mget (th_contexts demo_tools) (com_job demo_complete) = Some demo_context" by simp
  have calls: "com_calls demo_complete \<noteq> []" by simp
  have ids: "distinct (map tc_id (com_calls demo_complete))" by simp
  have worker: "pickToolsWorkerAll demo_tools (round_tool_names (com_calls demo_complete)) (jc_threadID demo_context) =
      Some \<lparr>tcn_id = ''t'', tcn_tools = [''web_fetch'']\<rparr>" by code_simp
  have len: "length ?fresh = length (com_calls demo_complete)" by simp
  have valid: "json_valid ''{}''" by code_simp
  have rs: "distinct (map fst ?rs)"
    "set (map fst ?rs) = set (map tc_id (com_calls demo_complete)) - set (map fst ?failed)"
    by (auto simp: failed_calls_def valid)
  from tool_round [OF ctx calls ids worker len refl rs start rest] start rest
  show ?thesis
    by (auto simp: tool_reply_def new_continuation_def zero_ChatMessage_def)
qed

section \<open>The choice of a worker\<close>

lemma sort_key_unique:
  assumes "distinct (map f xs)" and "distinct (map f ys)" and "set xs = set ys"
  shows "sort_key f xs = sort_key f ys"
proof (rule map_sorted_distinct_set_unique)
  show "inj_on f (set (sort_key f xs) \<union> set (sort_key f ys))"
    using assms by (simp add: distinct_map)
  have "distinct (map f (sort_key f zs)) \<longleftrightarrow> distinct (map f zs)" for zs
    by (simp add: distinct_map)
  with assms show "distinct (map f (sort_key f xs))" "distinct (map f (sort_key f ys))" by blast+
qed (use assms in simp_all)

lemma pickFromEligible_unique:
  assumes "distinct (map tcn_id xs)" and "distinct (map tcn_id ys)" and "set xs = set ys"
  shows "pickFromEligible xs t = pickFromEligible ys t"
proof -
  have "xs = [] \<longleftrightarrow> ys = []" using assms(3) by auto
  with sort_key_unique [OF assms] show ?thesis by (simp add: pickFromEligible_def Let_def)
qed

lemma pickFromEligible_mem: "pickFromEligible ws t = Some w \<Longrightarrow> w \<in> set ws"
proof -
  assume some: "pickFromEligible ws t = Some w"
  then have ne: "ws \<noteq> []" by (auto simp: pickFromEligible_def)
  then have "sort_key tcn_id ws ! (n mod length ws) \<in> set ws" for n
    by (metis length_greater_0_conv length_sort mod_less_divisor nth_mem set_sort)
  moreover have "sort_key tcn_id ws ! 0 \<in> set ws"
    using ne by (metis length_greater_0_conv length_sort nth_mem set_sort)
  ultimately show ?thesis using some ne by (auto simp: pickFromEligible_def Let_def split: if_splits)
qed

lemma split_cover_filter:
  "split_cover names ws =
   (filter (\<lambda>w. set names \<subseteq> set (tcn_tools w)) ws,
    filter (\<lambda>w. \<not> set names \<subseteq> set (tcn_tools w) \<and> set names \<inter> set (tcn_tools w) \<noteq> {}) ws)"
proof (induction ws)
  case (Cons w ws)
  have "list_all (\<lambda>n. n \<in> set (tcn_tools w)) names \<longleftrightarrow> set names \<subseteq> set (tcn_tools w)"
    and "list_ex (\<lambda>n. n \<in> set (tcn_tools w)) names \<longleftrightarrow> set names \<inter> set (tcn_tools w) \<noteq> {}"
    by (auto simp only: list_all_iff list_ex_iff)
  with Cons show ?case by (simp only: split_cover.simps prod.case Let_def filter.simps if_True if_False split: if_split) simp
qed simp

definition workers_ok :: "tools_handler \<Rightarrow> bool" where
  "workers_ok h \<longleftrightarrow> wf_map (th_workers h) \<and> (\<forall>(i, w) \<in> set (th_workers h). tcn_id w = i)"

lemma workers_ok_ids: "workers_ok h \<Longrightarrow> map tcn_id (map snd (th_workers h)) = map fst (th_workers h)"
  by (auto simp: workers_ok_def)

lemma workers_ok_distinct: "workers_ok h \<Longrightarrow> distinct (map tcn_id (map snd (th_workers h)))"
  by (simp only: workers_ok_ids) (simp add: workers_ok_def wf_map_def)

lemma workers_ok_set: "workers_ok h \<Longrightarrow> set (map snd (th_workers h)) = ran (mget (th_workers h))"
  by (simp add: workers_ok_def wf_map_def ran_distinct)

definition covers :: "string list \<Rightarrow> toolsConn list \<Rightarrow> toolsConn \<Rightarrow> bool" where
  "covers names ws w \<longleftrightarrow> w \<in> set ws \<and>
     (set names - {[]} \<subseteq> set (tcn_tools w) \<or>
      set names \<inter> set (tcn_tools w) \<noteq> {} \<and> (\<forall>w' \<in> set ws. \<not> set names \<subseteq> set (tcn_tools w')))"

lemma pick_covers:
  assumes "pickToolsWorkerAll h names t = Some w"
  shows "covers names (map snd (th_workers h)) w"
proof (cases names rule: remdups_adj.cases)
  case 1
  with assms show ?thesis
    by (auto simp: pickToolsWorkerAll_def pickToolsWorker_def covers_def dest!: pickFromEligible_mem)
next
  case (2 n)
  with assms show ?thesis
    by (auto simp: pickToolsWorkerAll_def pickToolsWorker_def covers_def dest!: pickFromEligible_mem)
next
  case (3 n1 n2 ns)
  let ?ws = "map snd (th_workers h)"
  let ?all = "filter (\<lambda>w. set names \<subseteq> set (tcn_tools w)) ?ws"
  let ?any = "filter (\<lambda>w. \<not> set names \<subseteq> set (tcn_tools w) \<and> set names \<inter> set (tcn_tools w) \<noteq> {}) ?ws"
  have "pickToolsWorkerAll h names t =
      (if ?all \<noteq> [] then pickFromEligible ?all t else if ?any \<noteq> [] then pickFromEligible ?any t else None)"
    by (subst pickToolsWorkerAll_def, subst split_cover_filter) (simp only: 3 list.case prod.case Let_def)
  with assms have pick: "(if ?all \<noteq> [] then pickFromEligible ?all t
      else if ?any \<noteq> [] then pickFromEligible ?any t else None) = Some w" by simp
  have "w \<in> set ?all \<or> ?all = [] \<and> w \<in> set ?any"
  proof (cases "?all = []")
    case False
    with pick have "pickFromEligible ?all t = Some w" by (simp only: if_True not_False_eq_True)
    then show ?thesis by (intro disjI1) (rule pickFromEligible_mem)
  next
    case True
    have "?any \<noteq> []"
    proof
      assume "?any = []"
      with True pick show False by (simp only: if_False option.distinct simp_thms)
    qed
    with True pick have "pickFromEligible ?any t = Some w" by (simp only: if_True if_False not_False_eq_True simp_thms)
    from pickFromEligible_mem [OF this] True show ?thesis by (intro disjI2 conjI)
  qed
  then show ?thesis
  proof
    assume "w \<in> set ?all"
    then show ?thesis by (simp only: covers_def set_filter) blast
  next
    assume *: "?all = [] \<and> w \<in> set ?any"
    then have "\<forall>w' \<in> set ?ws. \<not> set names \<subseteq> set (tcn_tools w')"
      unfolding filter_empty_conv by (rule conjunct1)
    with * show ?thesis by (simp only: covers_def set_filter) blast
  qed
qed



end
