(* ===== verification/Go_Time.thy ===== *)
theory Go_Time
  imports Go_Prelude
begin

text \<open>
  \<open>time.Duration.String\<close> of Go's standard library: a duration is its number of nanoseconds.
  A duration below a second is in the largest of ns, microseconds and ms that gives it an
  integer part, any other in hours, minutes and seconds; a fraction has no trailing zeros.
\<close>

definition frac_text :: "nat \<Rightarrow> nat \<Rightarrow> string" where
  "frac_text v prec =
     (let ds = digits_of (v mod 10 ^ prec);
          padded = replicate (prec - length ds) (CHR ''0'') @ ds;
          kept = rev (dropWhile (\<lambda>c. c = CHR ''0'') (rev padded))
      in if kept = [] then [] else CHR ''.'' # kept)"

definition decimal :: "nat \<Rightarrow> nat \<Rightarrow> string" where
  "decimal v prec = digits_of (v div 10 ^ prec) @ frac_text v prec"

definition duration_text :: "int \<Rightarrow> string" where
  "duration_text d =
     (let u = nat \<bar>d\<bar>; sign = (if d < 0 then ''-'' else []) in
      if u = 0 then ''0s''
      else if u < 1000 then sign @ decimal u 0 @ ''ns''
      else if u < 1000000 then sign @ decimal u 3 @ [CHR 0xC2, CHR 0xB5, CHR ''s'']
      else if u < 1000000000 then sign @ decimal u 6 @ ''ms''
      else
        (let s = u div 1000000000; m = s div 60; h = m div 60 in
         sign @ (if 0 < h then digits_of h @ ''h'' else []) @
         (if 0 < m then digits_of (m mod 60) @ ''m'' else []) @
         digits_of (s mod 60) @ frac_text u 9 @ ''s''))"

end
