(* ===== verification/Ws_Handler.thy ===== *)
theory Ws_Handler
  imports Tools_Handler Gpu_Pool Go_Time
begin

text \<open>
  \<open>internal/router/wshandler.go\<close>: the connections of GPU and CLI workers.  The state is the
  pool, the connections (the objects \<open>workerConn\<close> by their ID, which outlive their entry in the
  map \<open>workers\<close>; \<open>ws_workers\<close> holds the keys of that map) and the tools handler, if there is
  one.  A handler is one step; it takes the clock readings, whether its message reaches the
  socket and the fresh IDs as arguments, and gives its effects in the order of the code.
\<close>

section \<open>State\<close>

record activeJob =
  aj_entryID :: string
  aj_assignedAt :: int

record workerConn =
  wc_id :: string
  wc_activeJobs :: "activeJob gomap"
  wc_maxSlots :: int

record ws_handler =
  ws_pool :: pool
  ws_conns :: "workerConn gomap"
  ws_workers :: "string list"
  ws_tools :: "tools_handler option"

definition NewWSHandler :: "tools_handler option \<Rightarrow> ws_handler" where
  "NewWSHandler toolsHandler =
     \<lparr>ws_pool = NewPool, ws_conns = [], ws_workers = [], ws_tools = toolsHandler\<rparr>"

section \<open>The jobs of a connection\<close>

definition hasCapacity :: "workerConn \<Rightarrow> bool" where
  "hasCapacity wc \<longleftrightarrow> int (length (wc_activeJobs wc)) < wc_maxSlots wc"

datatype assignResult = assignOK | assignDuplicate | assignAtCapacity

definition assignJob :: "int \<Rightarrow> string \<Rightarrow> string \<Rightarrow> workerConn \<Rightarrow> assignResult \<times> workerConn" where
  "assignJob now jobID entryID wc =
     (case mget (wc_activeJobs wc) jobID of
        Some _ \<Rightarrow> (assignDuplicate, wc)
      | None \<Rightarrow>
          if wc_maxSlots wc \<le> int (length (wc_activeJobs wc)) then (assignAtCapacity, wc)
          else (assignOK, wc\<lparr>wc_activeJobs := mput jobID \<lparr>aj_entryID = entryID, aj_assignedAt = now\<rparr> (wc_activeJobs wc)\<rparr>))"

definition completeJob :: "string \<Rightarrow> workerConn \<Rightarrow> string \<times> workerConn" where
  "completeJob jobID wc =
     (case mget (wc_activeJobs wc) jobID of
        None \<Rightarrow> ([], wc)
      | Some aj \<Rightarrow> (aj_entryID aj, wc\<lparr>wc_activeJobs := mdel jobID (wc_activeJobs wc)\<rparr>))"

definition staleJobs :: "int \<Rightarrow> int \<Rightarrow> workerConn \<Rightarrow> (string \<times> string \<times> int) list" where
  "staleJobs now timeout wc =
     map (\<lambda>(jobID, aj). (jobID, aj_entryID aj, now - aj_assignedAt aj))
       (filter (\<lambda>(jobID, aj). timeout < now - aj_assignedAt aj) (wc_activeJobs wc))"

definition activeJobIDs :: "workerConn \<Rightarrow> string list" where
  "activeJobIDs wc = mkeys (wc_activeJobs wc)"

definition put_conn :: "workerConn \<Rightarrow> ws_handler \<Rightarrow> ws_handler" where
  "put_conn wc h = h\<lparr>ws_conns := mput (wc_id wc) wc (ws_conns h)\<rparr>"

definition pool_completed :: "string \<Rightarrow> string \<Rightarrow> ws_handler \<Rightarrow> ws_handler" where
  "pool_completed wid jobID h = h\<lparr>ws_pool := snd (Pool_CompleteJob wid jobID (ws_pool h))\<rparr>"

section \<open>Dispatch\<close>

datatype dispatchResult = dispatched | alreadyAssigned | workerFull | dispatchFailed

text \<open>The job as it is sent: its type and ID set and the allowed tools added.\<close>

definition prepare_job ::
    "Config \<Rightarrow> Tool gomap \<Rightarrow> tools_handler option \<Rightarrow> string \<Rightarrow> JobMessage \<Rightarrow> JobMessage" where
  "prepare_job cfg builtinDefs tools payloadID jobMsg =
     (let typed = jobMsg\<lparr>jm_type := ''job''\<rparr>;
          named = (if jm_job typed = [] then typed\<lparr>jm_job := payloadID\<rparr> else typed)
      in case tools of
           None \<Rightarrow> named
         | Some th \<Rightarrow>
             (let defs = AllowedToolDefs cfg builtinDefs th in
              if defs = [] then named else inject_tools defs named))"

definition dispatchToWorker ::
    "Config \<Rightarrow> Tool gomap \<Rightarrow> int \<Rightarrow> bool \<Rightarrow> string \<Rightarrow> StreamEntry \<Rightarrow> ws_handler \<Rightarrow>
     dispatchResult \<times> ws_handler \<times> effect list" where
  "dispatchToWorker cfg builtinDefs now sent wid entry h =
     (case mget (ws_conns h) wid of
        None \<Rightarrow> (dispatchFailed, h, [])
      | Some wc \<Rightarrow>
          (case Unmarshal dec_JobMessage (jp_Data (se_Payload entry)) zero_JobMessage of
             (_, False) \<Rightarrow> (dispatchFailed, h, [EAck (se_ID entry)])
           | (raw_job, True) \<Rightarrow>
               (let jobMsg = prepare_job cfg builtinDefs (ws_tools h) (jp_JobID (se_Payload entry)) raw_job;
                    h1 = h\<lparr>ws_tools := map_option (SaveJobContext cfg (jm_job jobMsg) jobMsg) (ws_tools h)\<rparr>
                in case assignJob now (jm_job jobMsg) (se_ID entry) wc of
                     (assignDuplicate, _) \<Rightarrow> (alreadyAssigned, h1, [])
                   | (assignAtCapacity, _) \<Rightarrow> (workerFull, h1, [])
                   | (assignOK, wc') \<Rightarrow>
                       (let h2 = put_conn wc' h1;
                            h3 = h2\<lparr>ws_pool := (case Pool_AssignJob now wid (jm_job jobMsg) (ws_pool h2) of
                                                   Inl _ \<Rightarrow> ws_pool h2 | Inr p \<Rightarrow> p)\<rparr>
                        in if sent then
                             (dispatched, h3,
                              [ESend wid (MJob jobMsg),
                               EPublish (jm_job jobMsg) (zero_TokenEvent\<lparr>te_Type := ''job_dispatched''\<rparr>),
                               ESetTTL (jm_job jobMsg) streamTTLDispatched])
                           else
                             (dispatchFailed,
                              pool_completed wid (jm_job jobMsg) (put_conn (snd (completeJob (jm_job jobMsg) wc')) h3),
                              [])))))"

text \<open>
  \<open>expireStaleJobs\<close>: the stale jobs are read once, then cleaned up one by one.
\<close>

definition timeout_event :: "int \<Rightarrow> TokenEvent" where
  "timeout_event timeout =
     \<lparr>te_Type = ''error'',
      te_Data = Some (JObj
        [(''details'', JStr (''Job timed out after '' @ duration_text timeout @ '' without completion from worker'')),
         (''error'', JStr ''job_timeout'')])\<rparr>"

fun expire_loop :: "int \<Rightarrow> string \<Rightarrow> (string \<times> string \<times> int) list \<Rightarrow> ws_handler \<Rightarrow> ws_handler \<times> effect list" where
  "expire_loop timeout wid [] h = (h, [])"
| "expire_loop timeout wid ((jobID, entryID, age) # stale) h =
     (let h1 = (case mget (ws_conns h) wid of None \<Rightarrow> h | Some wc \<Rightarrow> put_conn (snd (completeJob jobID wc)) h);
          h2 = pool_completed wid jobID h1;
          (h3, es) = expire_loop timeout wid stale h2
      in (h3, (if entryID \<noteq> [] then [EAck entryID] else []) @
              [EPublish jobID (timeout_event timeout), ESetTTL jobID streamTTLDone] @ es))"

definition expireStaleJobs :: "Config \<Rightarrow> int \<Rightarrow> string \<Rightarrow> ws_handler \<Rightarrow> ws_handler \<times> effect list" where
  "expireStaleJobs cfg now wid h =
     (case mget (ws_conns h) wid of
        None \<Rightarrow> (h, [])
      | Some wc \<Rightarrow> expire_loop (cfg_JobTimeout cfg) wid (staleJobs now (cfg_JobTimeout cfg) wc) h)"

text \<open>
  One iteration of \<open>jobReaderLoop\<close>.  The environment says what the loop sees: whether its context
  is done, the clock, what the two reads give, and for every entry whether the context is
  done before it, the clock and whether its message reaches the socket.  The \<open>break\<close> in the
  case \<open>workerFull\<close> leaves the \<open>switch\<close> only, so the loop goes on to the next entry.
\<close>

type_synonym entry_run = "StreamEntry \<times> bool \<times> int \<times> bool"

record reader_env =
  re_done :: bool
  re_now :: int
  re_pending :: "redis_error + entry_run list"
  re_new :: "redis_error + entry_run list"

datatype reader_outcome = RStop | RNoCapacity | RReadError | RBackoff | RNext

fun dispatch_entries ::
    "Config \<Rightarrow> Tool gomap \<Rightarrow> string \<Rightarrow> entry_run list \<Rightarrow> ws_handler \<Rightarrow>
     dispatchResult list \<times> bool \<times> ws_handler \<times> effect list" where
  "dispatch_entries cfg builtinDefs wid [] h = ([], False, h, [])"
| "dispatch_entries cfg builtinDefs wid ((entry, ctx_done, now, sent) # runs) h =
     (if ctx_done then ([], True, h, [])
      else
        (let (result, h1, es) = dispatchToWorker cfg builtinDefs now sent wid entry h;
             (results, stopped, h2, es') = dispatch_entries cfg builtinDefs wid runs h1
         in (result # results, stopped, h2, es @ es')))"

definition reader_iteration ::
    "Config \<Rightarrow> Tool gomap \<Rightarrow> string \<Rightarrow> reader_env \<Rightarrow> ws_handler \<Rightarrow> reader_outcome \<times> ws_handler \<times> effect list" where
  "reader_iteration cfg builtinDefs wid env h =
     (if re_done env then (RStop, h, [])
      else if \<not> (case mget (ws_conns h) wid of None \<Rightarrow> False | Some wc \<Rightarrow> hasCapacity wc) then (RNoCapacity, h, [])
      else
        (let (h1, es1) = expireStaleJobs cfg (re_now env) wid h in
         case re_pending env of
           Inl e \<Rightarrow> (RReadError, h1, es1)
         | Inr pending \<Rightarrow>
             if pending \<noteq> [] then
               (let (results, stopped, h2, es2) = dispatch_entries cfg builtinDefs wid pending h1 in
                (if stopped then RStop else if dispatched \<in> set results then RNext else RBackoff, h2, es1 @ es2))
             else
               (case re_new env of
                  Inl e \<Rightarrow> (RReadError, h1, es1)
                | Inr entries \<Rightarrow>
                    (let (results, stopped, h2, es2) = dispatch_entries cfg builtinDefs wid entries h1 in
                     (if stopped then RStop else RNext, h2, es1 @ es2)))))"

section \<open>Messages of a worker\<close>

text \<open>\<open>escapeJSON\<close>: what \<open>json.Marshal\<close> writes, without its quotes.\<close>

definition escapeJSON :: "string \<Rightarrow> string" where
  "escapeJSON s = (let b = json_quote s in if 2 \<le> length b then butlast (tl b) else s)"

definition handleHeartbeat :: "int \<Rightarrow> string \<Rightarrow> ws_handler \<Rightarrow> ws_handler \<times> effect list" where
  "handleHeartbeat now wid h =
     (h\<lparr>ws_pool := snd (Pool_Heartbeat now wid (ws_pool h))\<rparr>,
      [ESend wid (MHeartbeatAck \<lparr>hbam_type = ''heartbeat_ack''\<rparr>)])"

definition gpu_caps_of :: "Capabilities \<Rightarrow> gpu_caps" where
  "gpu_caps_of c = \<lparr>gc_backend = cap_backend c, gc_model = cap_model c, gc_ctx = cap_ctx c,
     gc_vram = cap_vram c, gc_params = cap_params c, gc_slots = cap_slots c\<rparr>"

definition handleConfig :: "string \<Rightarrow> ConfigMessage \<Rightarrow> ws_handler \<Rightarrow> ws_handler \<times> effect list" where
  "handleConfig wid msg h =
     (let caps = gpu_caps_of (cfgm_caps msg);
          h1 = h\<lparr>ws_pool := snd (Pool_UpdateCapabilities wid caps (ws_pool h))\<rparr>;
          h2 = (if 0 < gc_slots caps then
                  (case mget (ws_conns h1) wid of
                     None \<Rightarrow> h1 | Some wc \<Rightarrow> put_conn (wc\<lparr>wc_maxSlots := gc_slots caps\<rparr>) h1)
                else h1)
      in (h2, [ESend wid (MConfigAck (zero_ConfigAckMessage\<lparr>cam_type := ''config_ack'', cam_success := True\<rparr>))]))"

definition handleToolGenerating :: "ToolGeneratingMessage \<Rightarrow> effect list" where
  "handleToolGenerating msg =
     [EPublish (tgm_job msg) \<lparr>te_Type = ''tool_generating'', te_Data = json_parse ''{}''\<rparr>]"

definition handleToken :: "TokenMessage \<Rightarrow> effect list" where
  "handleToken msg =
     [EPublish (tm_job msg)
        \<lparr>te_Type = (if tm_reasoning msg then ''reasoning_token'' else ''token''),
         te_Data = json_parse (CHR 0x22 # escapeJSON (tm_token msg) @ [CHR 0x22])\<rparr>,
      ESetTTL (tm_job msg) streamTTLStreaming]"

text \<open>The step \<open>wc.completeJob\<close> and the acknowledgement of the entry it gives.\<close>

definition complete_conn :: "string \<Rightarrow> string \<Rightarrow> ws_handler \<Rightarrow> ws_handler \<times> effect list" where
  "complete_conn wid jobID h =
     (case mget (ws_conns h) wid of
        None \<Rightarrow> (h, [])
      | Some wc \<Rightarrow>
          (case completeJob jobID wc of
             (entryID, wc') \<Rightarrow> (put_conn wc' h, if entryID \<noteq> [] then [EAck entryID] else [])))"

definition handleComplete ::
    "Config \<Rightarrow> (string \<times> bool) list \<Rightarrow> string \<Rightarrow> CompleteMessage \<Rightarrow> ws_handler \<Rightarrow> ws_handler \<times> effect list" where
  "handleComplete cfg fresh wid msg h =
     (let (h1, acks) = complete_conn wid (com_job msg) h;
          h2 = pool_completed wid (com_job msg) h1;
          (continuing, h3, es) =
            (case ws_tools h2 of
               None \<Rightarrow> (False, h2, [])
             | Some th \<Rightarrow>
                 if com_calls msg = [] then (False, h2, [])
                 else (case StartContinuation cfg fresh msg th of
                         (ok, th', es) \<Rightarrow> (ok, h2\<lparr>ws_tools := Some th'\<rparr>, es)))
      in if continuing then (h3, acks @ es)
         else (h3\<lparr>ws_tools := map_option (DeleteJobContext (com_job msg)) (ws_tools h3)\<rparr>,
               acks @ es @
               [EPublish (com_job msg) \<lparr>te_Type = ''done'', te_Data = Some (enc_CompleteMessage msg)\<rparr>,
                ESetTTL (com_job msg) streamTTLDone]))"

definition handleWorkerError :: "string \<Rightarrow> ErrorMessage \<Rightarrow> ws_handler \<Rightarrow> ws_handler \<times> effect list" where
  "handleWorkerError wid msg h =
     (if em_job msg = [] then (h, [])
      else
        (let (h1, acks) = complete_conn wid (em_job msg) h in
         (pool_completed wid (em_job msg) h1,
          [EPublish (em_job msg)
             \<lparr>te_Type = ''error'',
              te_Data = Some (JObj [(''details'', JStr (em_details msg)), (''error'', JStr (em_error msg))])\<rparr>,
           ESetTTL (em_job msg) streamTTLDone] @ acks)))"

text \<open>One message of \<open>messageLoop\<close>.\<close>

definition ws_message_step ::
    "Config \<Rightarrow> int \<Rightarrow> (string \<times> bool) list \<Rightarrow> string \<Rightarrow> string \<Rightarrow> ws_handler \<Rightarrow> ws_handler \<times> effect list" where
  "ws_message_step cfg now fresh wid msgData h =
     (case ParseMessage (json_parse msgData) of
        Inl e \<Rightarrow> (h, [])
      | Inr m \<Rightarrow>
          (case m of
             MHeartbeat _ \<Rightarrow> handleHeartbeat now wid h
           | MConfig c \<Rightarrow> handleConfig wid c h
           | MToken t \<Rightarrow> (h, handleToken t)
           | MToolGenerating t \<Rightarrow> (h, handleToolGenerating t)
           | MComplete c \<Rightarrow> handleComplete cfg fresh wid c h
           | MError e \<Rightarrow> handleWorkerError wid e h
           | _ \<Rightarrow> (h, [])))"

section \<open>Connections\<close>

definition ws_cleanup :: "string \<Rightarrow> ws_handler \<Rightarrow> ws_handler \<times> effect list" where
  "ws_cleanup wid h =
     (h\<lparr>ws_pool := snd (Pool_Remove wid (ws_pool h)), ws_workers := removeAll wid (ws_workers h)\<rparr>,
      [ERemoveHeartbeat wid])"

definition isCLIBackend :: "string \<Rightarrow> bool" where
  "isCLIBackend backend \<longleftrightarrow> ToLower backend \<in> {''claude'', ''cursor'', ''codex''}"

definition inferCapabilities :: "string \<Rightarrow> string list" where
  "inferCapabilities modelName =
     (let name = ToLower modelName;
          caps =
            (if Contains name ''vision'' \<or> Contains name ''multimodal'' \<or> Contains name ''vl-'' then [''vision''] else []) @
            (if Contains name ''code'' \<or> Contains name ''coder'' \<or> Contains name ''starcoder'' then [''code''] else []) @
            (if Contains name ''embed'' \<or> Contains name ''embedding'' then [''embedding''] else []) @
            (if Contains name ''deepseek-r1'' \<or> Contains name ''kimi'' \<or> Contains name ''qwq'' then [''reasoning''] else [])
      in if caps = [] then [''chat''] else caps)"

definition buildCLIPolicy :: "Config \<Rightarrow> HelloMessage \<Rightarrow> Policy" where
  "buildCLIPolicy cfg hello =
     zero_Policy\<lparr>pol_worker := ''cli'',
       pol_cli := (if cfg_CLIType cfg = [] then cap_backend (hm_caps hello) else cfg_CLIType cfg),
       pol_builtins := cfg_CLITools cfg,
       pol_model := (if cfg_WorkerType cfg = ''cli'' \<and> cfg_ModelName cfg \<noteq> [] then cfg_ModelName cfg
                     else cap_model (hm_caps hello)),
       pol_ctx := 200000, pol_par := 1, pol_caps := [''chat'', ''reasoning'', ''code'']\<rparr>"

definition buildGPUPolicy :: "Config \<Rightarrow> Policy" where
  "buildGPUPolicy cfg =
     zero_Policy\<lparr>pol_model := cfg_ModelName cfg, pol_quant := cfg_Quantization cfg,
       pol_ctx := cfg_ContextSize cfg, pol_par := cfg_MaxParallel cfg,
       pol_caps := inferCapabilities (cfg_ModelName cfg)\<rparr>"

definition refusal :: "string \<Rightarrow> string \<Rightarrow> effect list" where
  "refusal err details =
     [ESend [] (MError (zero_ErrorMessage\<lparr>em_type := ''error'', em_error := err, em_details := details\<rparr>)), EClose []]"

text \<open>
  \<open>ServeHTTP\<close> from the first message to the loops.  The verifier is the functions \<open>adminKey\<close> and
  \<open>toolKey\<close>.  The result says which loop runs.  \<open>connectWorker\<close> is the part after the key is verified.
\<close>

datatype connection = NoConnection | GPUConnection string | ToolsConnection toolsConn

definition connectWorker ::
    "Config \<Rightarrow> int \<Rightarrow> string \<Rightarrow> bool \<Rightarrow> HelloMessage \<Rightarrow> ws_handler \<Rightarrow> connection \<times> ws_handler \<times> effect list" where
  "connectWorker cfg now newID sent hello h =
     (let maxSlots = (if 0 < cap_slots (hm_caps hello) then cap_slots (hm_caps hello) else cfg_MaxParallel cfg);
          caps = (gpu_caps_of (hm_caps hello))\<lparr>gc_slots := maxSlots\<rparr>
      in case Pool_Add now newID caps maxSlots (ws_pool h) of
           Inl _ \<Rightarrow> (NoConnection, h, [EClose []])
         | Inr p \<Rightarrow>
             (let wc = \<lparr>wc_id = newID, wc_activeJobs = [], wc_maxSlots = maxSlots\<rparr>;
                  h1 = put_conn wc (h\<lparr>ws_pool := p, ws_workers := newID # removeAll newID (ws_workers h)\<rparr>);
                  isCLI = (cfg_WorkerType cfg = ''cli'' \<or> isCLIBackend (cap_backend (hm_caps hello)));
                  policy = (if isCLI then buildCLIPolicy cfg hello else buildGPUPolicy cfg);
                  ack = MHelloAck (zero_HelloAckMessage\<lparr>ham_type := ''hello_ack'', ham_success := True,
                          ham_gpu := newID, ham_policy := Some policy\<rparr>)
              in if sent then (GPUConnection newID, h1, [ESend newID ack, EPingHeartbeat newID])
                 else
                   (let (h2, es) = ws_cleanup newID h1 in (NoConnection, h2, es @ [EClose newID]))))"

definition ServeHTTP ::
    "Config \<Rightarrow> (string \<Rightarrow> verdict) \<Rightarrow> (string \<Rightarrow> verdict) \<Rightarrow> int \<Rightarrow> string \<Rightarrow> bool \<Rightarrow> string \<Rightarrow> ws_handler \<Rightarrow>
     connection \<times> ws_handler \<times> effect list" where
  "ServeHTTP cfg adminKey toolKey now newID sent msgData h =
     (case ParseMessage (json_parse msgData) of
        Inr (MHello hello) \<Rightarrow>
          if hm_worker hello = ''tools'' then
            (case ws_tools h of
               None \<Rightarrow> (NoConnection, h,
                        refusal ''tools workers not enabled on this router (AUXOT_TOOLS_KEY_HASH not set)'' [])
             | Some th \<Rightarrow>
                 (case HandleToolsWorker (toolKey (hm_key hello)) newID sent hello th of
                    (None, th', es) \<Rightarrow> (NoConnection, h\<lparr>ws_tools := Some th'\<rparr>, es)
                  | (Some tc, th', es) \<Rightarrow> (ToolsConnection tc, h\<lparr>ws_tools := Some th'\<rparr>, es)))
          else if adminKey (hm_key hello) \<noteq> VKey True then
            (NoConnection, h,
             refusal ''invalid GPU key'' ''Authentication failed. Check your admin key.'')
          else
            connectWorker cfg now newID sent hello h
      | _ \<Rightarrow> (NoConnection, h, [EClose []]))"

definition SendJob :: "string \<Rightarrow> JobMessage \<Rightarrow> bool \<Rightarrow> ws_handler \<Rightarrow> bool \<times> effect list" where
  "SendJob workerID job sent h =
     (if workerID \<notin> set (ws_workers h) then (False, [])
      else if sent then (True, [ESend workerID (MJob job)]) else (False, []))"

end
