(* ===== verification/Ws_System.thy ===== *)
theory Ws_System
  imports Ws_Handler "HOL-Library.Multiset"
begin

text \<open>
  The steps of the WebSocket handler and what they keep.  A step is one handler: a message of a
  worker, one expiry or one dispatch of a reader loop, a new or a lost connection, a message or
  the loss of a tools worker, or the start of the next round of a job.  A reader loop is a
  sequence of such steps (\<open>reader_iteration_steps\<close>), so runs of steps include the interleavings
  of reader loops and message loops.
\<close>

section \<open>The connection as a slot tracker\<close>

definition conn_ok :: "workerConn \<Rightarrow> bool" where
  "conn_ok wc \<longleftrightarrow> wf_map (wc_activeJobs wc)"

definition conn_assign :: "int \<Rightarrow> string \<Rightarrow> string \<Rightarrow> workerConn \<Rightarrow> workerConn option" where
  "conn_assign now entryID jobID wc =
     (case assignJob now jobID entryID wc of (assignOK, wc') \<Rightarrow> Some wc' | _ \<Rightarrow> None)"

definition conn_complete :: "string \<Rightarrow> workerConn \<Rightarrow> workerConn" where
  "conn_complete jobID wc = snd (completeJob jobID wc)"

lemma assignJob_OK:
  "assignJob now jobID entryID wc = (assignOK, wc') \<longleftrightarrow>
   mget (wc_activeJobs wc) jobID = None \<and> hasCapacity wc \<and>
   wc' = wc\<lparr>wc_activeJobs := mput jobID \<lparr>aj_entryID = entryID, aj_assignedAt = now\<rparr> (wc_activeJobs wc)\<rparr>"
  by (auto simp: assignJob_def hasCapacity_def split: option.splits)

lemma conn_assign_Some:
  "conn_assign now entryID jobID wc = Some wc' \<longleftrightarrow> assignJob now jobID entryID wc = (assignOK, wc')"
  by (auto simp: conn_assign_def split: prod.splits assignResult.splits)

lemma completed_jobs: "wc_activeJobs (snd (completeJob jobID wc)) = mdel jobID (wc_activeJobs wc)"
  by (auto simp: completeJob_def mdel_absent split: option.splits)

lemma completed_fields [simp]:
  "wc_id (snd (completeJob jobID wc)) = wc_id wc"
  "wc_maxSlots (snd (completeJob jobID wc)) = wc_maxSlots wc"
  by (auto simp: completeJob_def split: option.splits)

interpretation conn_slots: slot_tracker conn_ok activeJobIDs wc_maxSlots
  "conn_assign now entryID" conn_complete for now entryID
proof (unfold_locales, goal_cases)
  case (1 wc)
  then show ?case by (simp add: conn_ok_def activeJobIDs_def wf_map_def)
next
  case (2 wc j wc')
  then show ?case
    by (clarsimp simp: conn_assign_Some assignJob_OK conn_ok_def activeJobIDs_def)
next
  case (3 wc j)
  then show ?case
    by (auto simp: conn_assign_def assignJob_def activeJobIDs_def split: option.splits)
next
  case (4 wc j)
  then show ?case
    by (auto simp: conn_complete_def completed_jobs conn_ok_def activeJobIDs_def)
qed

section \<open>Steps\<close>

record ws_static =
  st_config :: Config
  st_builtins :: "Tool gomap"
  st_admin :: "string \<Rightarrow> verdict"
  st_tool :: "string \<Rightarrow> verdict"

datatype ws_event =
    WServe int string bool string
  | WMessage string int "(string \<times> bool) list" string
  | WExpire string int
  | WDispatch string StreamEntry int bool
  | WDisconnect string
  | WToolsMessage toolsConn string
  | WToolsGone toolsConn
  | WContinue "string option" pendingContinuation

definition tools_step ::
    "(tools_handler \<Rightarrow> tools_handler \<times> effect list) \<Rightarrow> ws_handler \<Rightarrow> ws_handler \<times> effect list" where
  "tools_step f h =
     (case ws_tools h of
        None \<Rightarrow> (h, [])
      | Some th \<Rightarrow> (case f th of (th', es) \<Rightarrow> (h\<lparr>ws_tools := Some th'\<rparr>, es)))"

fun ws_step :: "ws_static \<Rightarrow> ws_event \<Rightarrow> ws_handler \<Rightarrow> ws_handler \<times> effect list" where
  "ws_step st (WServe now newID sent msgData) h =
     (case ServeHTTP (st_config st) (st_admin st) (st_tool st) now newID sent msgData h of (c, h', es) \<Rightarrow> (h', es))"
| "ws_step st (WMessage wid now fresh msgData) h = ws_message_step (st_config st) now fresh wid msgData h"
| "ws_step st (WExpire wid now) h = expireStaleJobs (st_config st) now wid h"
| "ws_step st (WDispatch wid entry now sent) h =
     (case dispatchToWorker (st_config st) (st_builtins st) now sent wid entry h of (r, h', es) \<Rightarrow> (h', es))"
| "ws_step st (WDisconnect wid) h = ws_cleanup wid h"
| "ws_step st (WToolsMessage tc msgData) h = tools_step (tools_message_step tc msgData) h"
| "ws_step st (WToolsGone tc) h = tools_step (\<lambda>th. (cleanupToolsWorker tc th, [])) h"
| "ws_step st (WContinue failure cont) h = tools_step (continueLLMRound failure cont) h"

fun ws_run :: "ws_static \<Rightarrow> ws_event list \<Rightarrow> ws_handler \<Rightarrow> ws_handler \<times> effect list" where
  "ws_run st [] h = (h, [])"
| "ws_run st (ev # evs) h =
     (let (h1, es) = ws_step st ev h; (h2, es') = ws_run st evs h1 in (h2, es @ es'))"

lemma ws_run_append:
  "ws_run st (xs @ ys) h = (case ws_run st xs h of (h1, es) \<Rightarrow> case ws_run st ys h1 of (h2, es') \<Rightarrow> (h2, es @ es'))"
  by (induction xs arbitrary: h) (auto split: prod.splits)

text \<open>A reader loop does nothing but steps: an expiry, then dispatches.\<close>

definition reader_event :: "string \<Rightarrow> ws_event \<Rightarrow> bool" where
  "reader_event wid ev = (case ev of WExpire w _ \<Rightarrow> w = wid | WDispatch w _ _ _ \<Rightarrow> w = wid | _ \<Rightarrow> False)"

definition reader_run :: "ws_static \<Rightarrow> string \<Rightarrow> ws_handler \<Rightarrow> ws_handler \<times> effect list \<Rightarrow> bool" where
  "reader_run st wid h res \<longleftrightarrow> (\<exists>evs. list_all (reader_event wid) evs \<and> ws_run st evs h = res)"

lemma reader_run_none: "reader_run st wid h (h, [])"
  unfolding reader_run_def by (rule exI [of _ "[]"]) simp

lemma reader_run_step:
  assumes "reader_event wid ev" and "ws_step st ev h = (h1, es)" and "reader_run st wid h1 (h2, es')"
  shows "reader_run st wid h (h2, es @ es')"
proof -
  from assms(3) obtain evs where "list_all (reader_event wid) evs" "ws_run st evs h1 = (h2, es')"
    unfolding reader_run_def by blast
  with assms(1,2) have "list_all (reader_event wid) (ev # evs) \<and> ws_run st (ev # evs) h = (h2, es @ es')" by simp
  then show ?thesis unfolding reader_run_def by blast
qed

lemma dispatch_entries_steps:
  "dispatch_entries (st_config st) (st_builtins st) wid runs h = (rs, stopped, h', es) \<Longrightarrow> reader_run st wid h (h', es)"
proof (induction runs arbitrary: h rs stopped h' es)
  case Nil
  then show ?case by (simp add: reader_run_none)
next
  case (Cons run runs)
  obtain entry ctx_done now sent where run: "run = (entry, ctx_done, now, sent)" by (cases run) auto
  show ?case
  proof (cases ctx_done)
    case True
    with Cons.prems run show ?thesis by (simp add: reader_run_none)
  next
    case False
    obtain r h1 es1 where d: "dispatchToWorker (st_config st) (st_builtins st) now sent wid entry h = (r, h1, es1)"
      by (metis prod_cases3)
    obtain rs' stopped' h2 es2 where ds: "dispatch_entries (st_config st) (st_builtins st) wid runs h1 = (rs', stopped', h2, es2)"
      by (metis prod_cases4)
    have "reader_run st wid h (h2, es1 @ es2)"
      by (rule reader_run_step [of wid "WDispatch wid entry now sent", OF _ _ Cons.IH [OF ds]])
        (simp_all add: reader_event_def d)
    with False Cons.prems run d ds show ?thesis by (simp add: Let_def)
  qed
qed

lemma reader_iteration_run:
  assumes "reader_iteration (st_config st) (st_builtins st) wid env h = (outcome, h', es)"
  shows "reader_run st wid h (h', es)"
proof -
  obtain h1 es1 where x: "expireStaleJobs (st_config st) (re_now env) wid h = (h1, es1)" by fastforce
  have expired: "reader_run st wid h (h2, es1 @ es2)" if "reader_run st wid h1 (h2, es2)" for h2 es2
    by (rule reader_run_step [of wid "WExpire wid (re_now env)", OF _ _ that]) (simp_all add: reader_event_def x)
  from expired [OF reader_run_none] have "reader_run st wid h (h1, es1)" by simp
  with assms expired [OF dispatch_entries_steps] show ?thesis
    by (auto simp: reader_iteration_def x Let_def reader_run_none split: sum.splits prod.splits if_splits)
qed


section \<open>The two accounts of a worker's jobs\<close>

definition agree :: "workerConn \<Rightarrow> gpu_worker \<Rightarrow> bool" where
  "agree wc w \<longleftrightarrow> fst ` set (wc_activeJobs wc) = fst ` set (w_active w) \<and> w_max w = wc_maxSlots wc"

definition conns_ok :: "workerConn gomap \<Rightarrow> bool" where
  "conns_ok m \<longleftrightarrow> wf_map m \<and> (\<forall>i wc. mget m i = Some wc \<longrightarrow> wc_id wc = i \<and> conn_ok wc)"

definition ws_inv :: "ws_handler \<Rightarrow> bool" where
  "ws_inv h \<longleftrightarrow> pool_inv (ws_pool h) \<and> conns_ok (ws_conns h) \<and>
     set (ws_workers h) = dom (mget (ws_pool h)) \<and>
     (\<forall>i w. mget (ws_pool h) i = Some w \<longrightarrow> (\<exists>wc. mget (ws_conns h) i = Some wc \<and> agree wc w))"

lemma ws_inv_tools [simp]: "ws_inv (h\<lparr>ws_tools := t\<rparr>) = ws_inv h"
  by (simp add: ws_inv_def)

lemma ws_inv_new: "ws_inv (NewWSHandler t)"
  by (simp add: ws_inv_def NewWSHandler_def NewPool_def pool_inv_def conns_ok_def)

lemma conns_ok_mput: "conns_ok m \<Longrightarrow> conn_ok wc \<Longrightarrow> wc_id wc = i \<Longrightarrow> conns_ok (mput i wc m)"
  by (simp add: conns_ok_def)

lemma conns_okD: "conns_ok m \<Longrightarrow> mget m i = Some wc \<Longrightarrow> wc_id wc = i \<and> conn_ok wc"
  by (simp add: conns_ok_def)

lemma ws_inv_conn: "ws_inv h \<Longrightarrow> mget (ws_conns h) i = Some wc \<Longrightarrow> wc_id wc = i \<and> conn_ok wc"
  by (simp add: ws_inv_def conns_ok_def)

lemma ws_inv_agree:
  assumes "ws_inv h" and "mget (ws_pool h) i = Some w" and "mget (ws_conns h) i = Some wc"
  shows "worker_ok i w \<and> agree wc w"
proof -
  from assms(1,2) obtain wc' where "mget (ws_conns h) i = Some wc'" "agree wc' w"
    unfolding ws_inv_def by blast
  with assms show ?thesis by (simp add: ws_inv_def pool_inv_def)
qed

lemma put_conn_sel [simp]:
  "ws_pool (put_conn wc h) = ws_pool h"
  "ws_workers (put_conn wc h) = ws_workers h"
  "ws_tools (put_conn wc h) = ws_tools h"
  "ws_conns (put_conn wc h) = mput (wc_id wc) wc (ws_conns h)"
  by (simp_all add: put_conn_def)

lemma agree_length: "agree wc w \<Longrightarrow> conn_ok wc \<Longrightarrow> wf_map (w_active w) \<Longrightarrow>
    length (wc_activeJobs wc) = length (w_active w)"
  by (simp add: agree_def conn_ok_def wf_map_length)

lemma agree_capacity: "agree wc w \<Longrightarrow> conn_ok wc \<Longrightarrow> wf_map (w_active w) \<Longrightarrow> HasCapacity w = hasCapacity wc"
  using agree_length [of wc w] by (simp add: HasCapacity_def hasCapacity_def agree_def)

lemma agree_complete: "agree wc w \<Longrightarrow> agree (snd (completeJob j wc)) (w\<lparr>w_active := mdel j (w_active w)\<rparr>)"
  by (simp add: agree_def completed_jobs)

lemma agree_assign: "agree wc w \<Longrightarrow>
    agree (wc\<lparr>wc_activeJobs := mput j a (wc_activeJobs wc)\<rparr>) (w\<lparr>w_active := mput j t (w_active w)\<rparr>)"
  by (simp add: agree_def)

lemma Pool_CompleteJob_put:
  "snd (Pool_CompleteJob wid j p) =
     (case mget p wid of None \<Rightarrow> p | Some w \<Rightarrow> mput wid (w\<lparr>w_active := mdel j (w_active w)\<rparr>) p)"
  by (simp add: Pool_CompleteJob_def split: option.split)

text \<open>
  A step that replaces the connection and the pool's worker of one ID by ones that agree.
\<close>

lemma ws_inv_update:
  assumes "ws_inv h" and "conn_ok wc'" and "wc_id wc' = wid"
    and "case mget (ws_pool h) wid of None \<Rightarrow> p' = ws_pool h
         | Some w \<Rightarrow> \<exists>w'. p' = mput wid w' (ws_pool h) \<and> worker_ok wid w' \<and> agree wc' w'"
  shows "ws_inv ((put_conn wc' h)\<lparr>ws_pool := p'\<rparr>)"
proof (cases "mget (ws_pool h) wid")
  case None
  with assms show ?thesis by (auto simp: ws_inv_def intro: conns_ok_mput)
next
  case (Some w)
  with assms(4) obtain w' where w': "p' = mput wid w' (ws_pool h)" "worker_ok wid w'" "agree wc' w'" by auto
  from Some assms(1) have "insert wid (set (ws_workers h)) = set (ws_workers h)"
    by (auto simp: ws_inv_def)
  with w' assms(1-3) show ?thesis
    by (auto simp: ws_inv_def intro: conns_ok_mput pool_inv_mput)
qed

lemma mput_same: "mget m k = Some v \<Longrightarrow> mput k v m = m"
  by (induction m) (auto split: if_splits)

lemma put_conn_pool_completed:
  "pool_completed wid j (put_conn wc h) = (put_conn wc h)\<lparr>ws_pool := snd (Pool_CompleteJob wid j (ws_pool h))\<rparr>"
  by (simp add: pool_completed_def)

lemma complete_inv:
  assumes "ws_inv h" and "mget (ws_conns h) wid = Some wc"
  shows "ws_inv (pool_completed wid j (put_conn (snd (completeJob j wc)) h))"
  unfolding put_conn_pool_completed
proof (rule ws_inv_update [where wid = wid])
  have wc: "wc_id wc = wid" "conn_ok wc" using ws_inv_conn [OF assms] by simp_all
  then show "wc_id (snd (completeJob j wc)) = wid" by simp
  show "conn_ok (snd (completeJob j wc))" using wc by (simp add: conn_ok_def completed_jobs)
  show "case mget (ws_pool h) wid of None \<Rightarrow> snd (Pool_CompleteJob wid j (ws_pool h)) = ws_pool h
    | Some w \<Rightarrow> \<exists>w'. snd (Pool_CompleteJob wid j (ws_pool h)) = mput wid w' (ws_pool h) \<and>
        worker_ok wid w' \<and> agree (snd (completeJob j wc)) w'"
  proof (cases "mget (ws_pool h) wid")
    case (Some w)
    with ws_inv_agree [OF assms(1) Some assms(2)] have "worker_ok wid w" "agree wc w" by simp_all
    then have "worker_ok wid (w\<lparr>w_active := mdel j (w_active w)\<rparr>)" by (simp add: worker_ok_def)
    with Some agree_complete [OF \<open>agree wc w\<close>] show ?thesis
      by (simp only: Pool_CompleteJob_put option.case) blast
  qed (simp add: Pool_CompleteJob_put)
qed (rule assms)

lemma complete_absent:
  assumes "ws_inv h" and "mget (ws_conns h) wid = None"
  shows "pool_completed wid j h = h"
proof -
  from assms have "mget (ws_pool h) wid = None"
    by (auto simp: ws_inv_def) (metis not_None_eq option.distinct(1))
  then show ?thesis by (simp add: pool_completed_def Pool_CompleteJob_put)
qed

lemma complete_conn_inv: "ws_inv h \<Longrightarrow> ws_inv (pool_completed wid j (fst (complete_conn wid j h)))"
  using complete_inv [of h wid _ j] complete_absent [of h wid j]
  by (auto simp: complete_conn_def split: option.split prod.split)

lemma assign_inv:
  assumes "ws_inv h" and "mget (ws_conns h) wid = Some wc" and "assignJob now j e wc = (assignOK, wc')"
  shows "ws_inv ((put_conn wc' h)\<lparr>ws_pool := case Pool_AssignJob now wid j (ws_pool h) of Inl _ \<Rightarrow> ws_pool h | Inr p \<Rightarrow> p\<rparr>)"
proof (rule ws_inv_update [where wid = wid])
  have wc: "wc_id wc = wid" "conn_ok wc" using ws_inv_conn [OF assms(1,2)] by simp_all
  from assms(3) have wc': "hasCapacity wc"
    "wc' = wc\<lparr>wc_activeJobs := mput j \<lparr>aj_entryID = e, aj_assignedAt = now\<rparr> (wc_activeJobs wc)\<rparr>"
    by (simp_all add: assignJob_OK)
  then show "conn_ok wc'" "wc_id wc' = wid" using wc by (simp_all add: conn_ok_def)
  let ?p = "case Pool_AssignJob now wid j (ws_pool h) of Inl _ \<Rightarrow> ws_pool h | Inr p \<Rightarrow> p"
  show "case mget (ws_pool h) wid of None \<Rightarrow> ?p = ws_pool h
    | Some w \<Rightarrow> \<exists>w'. ?p = mput wid w' (ws_pool h) \<and> worker_ok wid w' \<and> agree wc' w'"
  proof (cases "mget (ws_pool h) wid")
    case (Some w)
    with ws_inv_agree [OF assms(1) Some assms(2)] have w: "worker_ok wid w" "agree wc w" by simp_all
    with wc wc' have "HasCapacity w" by (simp add: agree_capacity worker_ok_def)
    with Some have "Pool_AssignJob now wid j (ws_pool h) =
        Inr (mput wid (w\<lparr>w_active := mput j now (w_active w)\<rparr>) (ws_pool h))"
      by (simp add: Pool_AssignJob_def)
    moreover have "worker_ok wid (w\<lparr>w_active := mput j now (w_active w)\<rparr>)"
      using w(1) by (simp add: worker_ok_def)
    ultimately show ?thesis
      using Some agree_assign [OF w(2)] by (simp only: wc'(2) option.case sum.case) blast
  qed (simp add: Pool_AssignJob_def)
qed (rule assms)

lemma expire_loop_inv: "ws_inv h \<Longrightarrow> ws_inv (fst (expire_loop t wid stale h))"
proof (induction t wid stale h rule: expire_loop.induct)
  case (2 t wid jobID entryID age stale h)
  have "ws_inv (pool_completed wid jobID (case mget (ws_conns h) wid of None \<Rightarrow> h
      | Some wc \<Rightarrow> put_conn (snd (completeJob jobID wc)) h))"
    using complete_inv [OF 2(2)] complete_absent [OF 2(2)] 2(2) by (auto split: option.split)
  from "2.IH" [OF refl refl this] show ?case by (auto simp: Let_def split: prod.split)
qed simp

lemma expireStaleJobs_inv: "ws_inv h \<Longrightarrow> ws_inv (fst (expireStaleJobs cfg now wid h))"
  by (simp add: expireStaleJobs_def expire_loop_inv split: option.split)

definition undecodable :: "StreamEntry \<Rightarrow> bool" where
  "undecodable entry \<longleftrightarrow> \<not> snd (Unmarshal dec_JobMessage (jp_Data (se_Payload entry)) zero_JobMessage)"

text \<open>What a dispatch does to the jobs in flight, with the tools handler left aside.\<close>

lemma dispatch_cases:
  assumes d: "dispatchToWorker cfg b now sent wid entry h = (r, h', es)"
  obtains (skipped) t where "h' = h\<lparr>ws_tools := t\<rparr>" "r \<noteq> dispatched"
      "\<And>j m. ESend j (MJob m) \<notin> set es"
      "es = (if mget (ws_conns h) wid \<noteq> None \<and> undecodable entry then [EAck (se_ID entry)] else [])"
  | (undone) t wc wc' j where "mget (ws_conns h) wid = Some wc"
      "assignJob now j (se_ID entry) wc = (assignOK, wc')" "r = dispatchFailed" "es = []" "\<not> undecodable entry"
      "h' = pool_completed wid j (put_conn (snd (completeJob j wc'))
         ((put_conn wc' (h\<lparr>ws_tools := t\<rparr>))\<lparr>ws_pool := case Pool_AssignJob now wid j (ws_pool h) of Inl _ \<Rightarrow> ws_pool h | Inr p \<Rightarrow> p\<rparr>))"
  | (sent) t wc wc' m where "mget (ws_conns h) wid = Some wc"
      "assignJob now (jm_job m) (se_ID entry) wc = (assignOK, wc')" "r = dispatched"
      "es = [ESend wid (MJob m), EPublish (jm_job m) (zero_TokenEvent\<lparr>te_Type := ''job_dispatched''\<rparr>),
             ESetTTL (jm_job m) streamTTLDispatched]" "\<not> undecodable entry"
      "h' = (put_conn wc' (h\<lparr>ws_tools := t\<rparr>))\<lparr>ws_pool := case Pool_AssignJob now wid (jm_job m) (ws_pool h) of Inl _ \<Rightarrow> ws_pool h | Inr p \<Rightarrow> p\<rparr>"
proof (cases "mget (ws_conns h) wid")
  case None
  show thesis
    by (rule skipped [of "ws_tools h"]) (use None d in \<open>auto simp: dispatchToWorker_def undecodable_def\<close>)
next
  case (Some wc)
  obtain raw ok where u: "Unmarshal dec_JobMessage (jp_Data (se_Payload entry)) zero_JobMessage = (raw, ok)" by fastforce
  show thesis
  proof (cases ok)
    case False
    show thesis
      by (rule skipped [of "ws_tools h"]) (use False Some u d in \<open>auto simp: dispatchToWorker_def undecodable_def\<close>)
  next
    case True
    let ?m = "prepare_job cfg b (ws_tools h) (jp_JobID (se_Payload entry)) raw"
    let ?t = "map_option (SaveJobContext cfg (jm_job ?m) ?m) (ws_tools h)"
    obtain a wc' where a: "assignJob now (jm_job ?m) (se_ID entry) wc = (a, wc')" by fastforce
    show thesis
    proof (cases a)
      case assignOK
      show thesis
      proof (cases sent)
        case True
        show thesis
          by (rule sent [of wc ?m wc' ?t])
            (use True Some u \<open>ok\<close> a assignOK d in \<open>auto simp: dispatchToWorker_def undecodable_def Let_def cong: sum.case_cong\<close>)
      next
        case False
        show thesis
          by (rule undone [of wc "jm_job ?m" wc' ?t])
            (use False Some u \<open>ok\<close> a assignOK d in \<open>auto simp: dispatchToWorker_def undecodable_def Let_def cong: sum.case_cong\<close>)
      qed
    qed (rule skipped [of ?t]; use Some u \<open>ok\<close> a d in \<open>auto simp: dispatchToWorker_def undecodable_def Let_def\<close>)+
  qed
qed

lemma dispatch_inv:
  assumes "ws_inv h" and "dispatchToWorker cfg b now sent wid entry h = (r, h', es)"
  shows "ws_inv h'"
  using assms(2)
proof (cases rule: dispatch_cases)
  case (skipped t)
  with assms(1) show ?thesis by simp
next
  case (undone t wc wc' j)
  let ?h = "(put_conn wc' (h\<lparr>ws_tools := t\<rparr>))\<lparr>ws_pool := case Pool_AssignJob now wid j (ws_pool h) of Inl _ \<Rightarrow> ws_pool h | Inr p \<Rightarrow> p\<rparr>"
  have "ws_inv ?h" using assign_inv [of "h\<lparr>ws_tools := t\<rparr>" wid wc now j "se_ID entry" wc'] undone(1,2) assms(1)
    by (simp cong: sum.case_cong)
  moreover have "wc_id wc' = wid"
    using undone(2) ws_inv_conn [OF assms(1) undone(1)] by (simp add: assignJob_OK)
  then have "mget (ws_conns ?h) wid = Some wc'" by simp
  ultimately show ?thesis unfolding undone(6) by (rule complete_inv)
next
  case (sent t wc wc' m)
  then show ?thesis using assign_inv [of "h\<lparr>ws_tools := t\<rparr>" wid wc now "jm_job m" "se_ID entry" wc'] assms(1)
    by (simp cong: sum.case_cong)
qed

lemma handleConfig_inv: "ws_inv h \<Longrightarrow> ws_inv (fst (handleConfig wid msg h))"
proof (cases "mget (ws_conns h) wid")
  case None
  assume inv: "ws_inv h"
  with None have "mget (ws_pool h) wid = None"
    by (auto simp: ws_inv_def) (metis not_None_eq option.distinct(1))
  with None inv show ?thesis by (simp add: handleConfig_def Let_def Pool_UpdateCapabilities_def)
next
  case (Some wc)
  assume inv: "ws_inv h"
  let ?caps = "gpu_caps_of (cfgm_caps msg)"
  let ?wc = "if 0 < gc_slots ?caps then wc\<lparr>wc_maxSlots := gc_slots ?caps\<rparr> else wc"
  have wc: "wc_id wc = wid" "conn_ok wc" using ws_inv_conn [OF inv Some] by simp_all
  have "ws_inv ((put_conn ?wc h)\<lparr>ws_pool := snd (Pool_UpdateCapabilities wid ?caps (ws_pool h))\<rparr>)"
  proof (rule ws_inv_update [OF inv])
    show "conn_ok ?wc" "wc_id ?wc = wid" using wc by (simp_all add: conn_ok_def)
    show "case mget (ws_pool h) wid of None \<Rightarrow> snd (Pool_UpdateCapabilities wid ?caps (ws_pool h)) = ws_pool h
      | Some w \<Rightarrow> \<exists>w'. snd (Pool_UpdateCapabilities wid ?caps (ws_pool h)) = mput wid w' (ws_pool h) \<and>
          worker_ok wid w' \<and> agree ?wc w'"
    proof (cases "mget (ws_pool h) wid")
      case pool: (Some w)
      from ws_inv_agree [OF inv pool Some] pool show ?thesis
        by (auto simp: Pool_UpdateCapabilities_def Let_def worker_ok_def agree_def intro!: exI)
    qed (simp add: Pool_UpdateCapabilities_def)
  qed
  moreover have same: "mput wid wc (ws_conns h) = ws_conns h"
    using Some inv by (simp add: ws_inv_def conns_ok_def mput_same)
  ultimately show ?thesis using Some wc
    by (cases h) (auto simp: handleConfig_def Let_def put_conn_def split: if_splits)
qed

lemma pool_completed_tools [simp]:
  "ws_inv (pool_completed wid j h\<lparr>ws_tools := t\<rparr>) = ws_inv (pool_completed wid j h)"
  by simp

lemma handleComplete_inv: "ws_inv h \<Longrightarrow> ws_inv (fst (handleComplete cfg fresh wid msg h))"
  using complete_conn_inv [of h wid "com_job msg"]
  by (auto simp: handleComplete_def Let_def split: prod.splits option.splits if_splits)

lemma handleWorkerError_inv: "ws_inv h \<Longrightarrow> ws_inv (fst (handleWorkerError wid msg h))"
  using complete_conn_inv [of h wid "em_job msg"]
  by (auto simp: handleWorkerError_def Let_def split: prod.splits)

lemma handleHeartbeat_inv: "ws_inv h \<Longrightarrow> ws_inv (fst (handleHeartbeat now wid h))"
proof -
  assume inv: "ws_inv h"
  show ?thesis
  proof (cases "mget (ws_pool h) wid")
    case (Some w)
    with inv obtain wc where wc: "mget (ws_conns h) wid = Some wc" "agree wc w" unfolding ws_inv_def by blast
    have "agree wc (w\<lparr>w_heartbeat := now\<rparr>)" using wc(2) by (simp add: agree_def)
    moreover have "worker_ok wid (w\<lparr>w_heartbeat := now\<rparr>)"
      using ws_inv_agree [OF inv Some wc(1)] by (simp add: worker_ok_def)
    ultimately have "ws_inv ((put_conn wc h)\<lparr>ws_pool := mput wid (w\<lparr>w_heartbeat := now\<rparr>) (ws_pool h)\<rparr>)"
      using ws_inv_conn [OF inv wc(1)] Some by (intro ws_inv_update [OF inv]) auto
    moreover have "put_conn wc h = h"
      using mput_same [OF wc(1)] ws_inv_conn [OF inv wc(1)] by (cases h) (simp add: put_conn_def)
    ultimately show ?thesis using Some by (simp add: handleHeartbeat_def Pool_Heartbeat_def)
  qed (use inv in \<open>simp add: handleHeartbeat_def Pool_Heartbeat_def\<close>)
qed

lemma ws_message_inv: "ws_inv h \<Longrightarrow> ws_inv (fst (ws_message_step cfg now fresh wid msgData h))"
  by (auto simp: ws_message_step_def intro: handleHeartbeat_inv handleConfig_inv handleComplete_inv
      handleWorkerError_inv split: sum.split message.split)

lemma ws_cleanup_inv: "ws_inv h \<Longrightarrow> ws_inv (fst (ws_cleanup wid h))"
  by (auto simp: ws_cleanup_def ws_inv_def Pool_Remove_def intro: pool_inv_mdel split: option.split if_splits)

lemma connect_inv:
  assumes "ws_inv h" and "Pool_Add now i caps n (ws_pool h) = Inr p"
  shows "ws_inv (put_conn \<lparr>wc_id = i, wc_activeJobs = [], wc_maxSlots = n\<rparr>
    (h\<lparr>ws_pool := p, ws_workers := i # removeAll i (ws_workers h)\<rparr>))"
proof -
  from assms(2) have p: "mget (ws_pool h) i = None"
    "p = mput i \<lparr>w_id = i, w_caps = caps, w_active = [], w_max = n, w_connected = now, w_heartbeat = now\<rparr> (ws_pool h)"
    by (auto simp: Pool_Add_def split: option.splits)
  have "pool_inv p" using assms by (auto simp: ws_inv_def intro: Pool_Add_inv)
  moreover have "conns_ok (mput i \<lparr>wc_id = i, wc_activeJobs = [], wc_maxSlots = n\<rparr> (ws_conns h))"
    using assms(1) by (auto simp: ws_inv_def conn_ok_def intro: conns_ok_mput)
  ultimately show ?thesis
    using assms(1) p by (auto simp: ws_inv_def agree_def)
qed

lemma connectWorker_inv: "ws_inv h \<Longrightarrow> ws_inv (fst (snd (connectWorker cfg now newID sent hello h)))"
  by (auto simp: connectWorker_def Let_def case_prod_unfold intro: connect_inv ws_cleanup_inv split: sum.split)

lemma ServeHTTP_inv: "ws_inv h \<Longrightarrow> ws_inv (fst (snd (ServeHTTP cfg ak tk now newID sent msgData h)))"
  by (auto simp: ServeHTTP_def intro: connectWorker_inv
      split: sum.split message.split option.split prod.split)

lemma tools_step_inv: "ws_inv h \<Longrightarrow> ws_inv (fst (tools_step f h))"
  by (auto simp: tools_step_def split: option.split prod.split)

lemma ws_step_inv: "ws_inv h \<Longrightarrow> ws_inv (fst (ws_step st ev h))"
proof (cases ev)
  case (WServe now newID sent msgData)
  assume "ws_inv h"
  from ServeHTTP_inv [OF this, of "st_config st" "st_admin st" "st_tool st" now newID sent msgData] WServe
  show ?thesis by (auto split: prod.splits)
next
  case (WDispatch wid entry now sent)
  assume "ws_inv h"
  from dispatch_inv [OF this] WDispatch show ?thesis by (auto split: prod.splits)
qed (auto intro: ws_message_inv expireStaleJobs_inv ws_cleanup_inv tools_step_inv)

lemma ws_run_inv: "ws_inv h \<Longrightarrow> ws_inv (fst (ws_run st evs h))"
proof (induction evs arbitrary: h)
  case (Cons ev evs)
  obtain h1 es where s: "ws_step st ev h = (h1, es)" by fastforce
  with ws_step_inv [OF Cons.prems, of st ev] have "ws_inv h1" by simp
  from Cons.IH [OF this] s show ?case by (auto split: prod.splits)
qed simp

section \<open>The ledger of queue entries\<close>

definition entries :: "workerConn \<Rightarrow> string multiset" where
  "entries wc = mset (map (\<lambda>x. aj_entryID (snd x)) (wc_activeJobs wc))"

text \<open>The entries in flight on some connection, lost connections included.\<close>

definition held :: "ws_handler \<Rightarrow> string multiset" where
  "held h = sum_list (map (\<lambda>x. entries (snd x)) (ws_conns h))"

definition acked :: "effect list \<Rightarrow> string multiset" where
  "acked es = mset (List.map_filter (\<lambda>e. case e of EAck i \<Rightarrow> Some i | _ \<Rightarrow> None) es)"

text \<open>The entries a step hands to a worker, and those it drops because their data is no job.\<close>

fun handed :: "ws_static \<Rightarrow> ws_event \<Rightarrow> ws_handler \<Rightarrow> string multiset" where
  "handed st (WDispatch wid entry now sent) h =
     (if fst (dispatchToWorker (st_config st) (st_builtins st) now sent wid entry h) = dispatched
      then {#se_ID entry#} else {#})"
| "handed st ev h = {#}"

fun dropped :: "ws_event \<Rightarrow> ws_handler \<Rightarrow> string multiset" where
  "dropped (WDispatch wid entry now sent) h =
     (if mget (ws_conns h) wid \<noteq> None \<and> undecodable entry then {#se_ID entry#} else {#})"
| "dropped ev h = {#}"

text \<open>A step's entry has an ID and a new connection's ID is new.\<close>

fun step_ok :: "ws_event \<Rightarrow> ws_handler \<Rightarrow> bool" where
  "step_ok (WServe now newID sent msgData) h = (mget (ws_conns h) newID = None)"
| "step_ok (WDispatch wid entry now sent) h = (se_ID entry \<noteq> [])"
| "step_ok ev h = True"

fun run_ok :: "ws_static \<Rightarrow> ws_event list \<Rightarrow> ws_handler \<Rightarrow> bool" where
  "run_ok st [] h = True"
| "run_ok st (ev # evs) h = (step_ok ev h \<and> run_ok st evs (fst (ws_step st ev h)))"

fun all_handed :: "ws_static \<Rightarrow> ws_event list \<Rightarrow> ws_handler \<Rightarrow> string multiset" where
  "all_handed st [] h = {#}"
| "all_handed st (ev # evs) h = handed st ev h + all_handed st evs (fst (ws_step st ev h))"

fun all_dropped :: "ws_static \<Rightarrow> ws_event list \<Rightarrow> ws_handler \<Rightarrow> string multiset" where
  "all_dropped st [] h = {#}"
| "all_dropped st (ev # evs) h = dropped ev h + all_dropped st evs (fst (ws_step st ev h))"

lemma acked_simps [simp]:
  "acked [] = {#}"
  "acked (xs @ ys) = acked xs + acked ys"
  "acked (EAck i # es) = add_mset i (acked es)"
  "acked (EPublish j t # es) = acked es"
  "acked (ESetTTL j n # es) = acked es"
  "acked (ESend w m # es) = acked es"
  "acked (EContinueRound c # es) = acked es"
  "acked (EEnqueue jm # es) = acked es"
  "acked (EPingHeartbeat w # es) = acked es"
  "acked (ERemoveHeartbeat w # es) = acked es"
  "acked (EClose w # es) = acked es"
  by (simp_all add: acked_def List.map_filter_def)

lemma sum_list_mput:
  fixes f :: "'v \<Rightarrow> 'a::comm_monoid_add"
  shows "mget m k = Some v \<Longrightarrow>
    sum_list (map (\<lambda>x. f (snd x)) (mput k v' m)) + f v = sum_list (map (\<lambda>x. f (snd x)) m) + f v'"
  by (induction m) (auto simp: ac_simps split: if_splits)

lemma sum_list_mput_new:
  fixes f :: "'v \<Rightarrow> 'a::comm_monoid_add"
  shows "mget m k = None \<Longrightarrow>
    sum_list (map (\<lambda>x. f (snd x)) (mput k v m)) = sum_list (map (\<lambda>x. f (snd x)) m) + f v"
  by (induction m) (auto simp: ac_simps split: if_splits)

lemma mset_mdel:
  "wf_map m \<Longrightarrow> mget m k = Some v \<Longrightarrow> add_mset (f v) (mset (map (\<lambda>x. f (snd x)) (mdel k m))) = mset (map (\<lambda>x. f (snd x)) m)"
proof (induction m)
  case (Cons x m)
  obtain k' v' where x: "x = (k', v')" by fastforce
  with Cons.prems have "wf_map m" "k' \<notin> fst ` set m" by (auto simp: wf_map_def)
  with Cons x show ?case
    by (auto simp: map_of_eq_None_iff [symmetric] mdel_absent add_mset_commute split: if_splits)
qed simp

lemma held_put:
  "mget (ws_conns h) (wc_id wc') = Some wc \<Longrightarrow> held (put_conn wc' h) + entries wc = held h + entries wc'"
  by (simp add: held_def sum_list_mput)

lemma held_new: "mget (ws_conns h) (wc_id wc) = None \<Longrightarrow> held (put_conn wc h) = held h + entries wc"
  by (simp add: held_def sum_list_mput_new)

lemma held_sel [simp]:
  "held (h\<lparr>ws_tools := t\<rparr>) = held h"
  "held (h\<lparr>ws_pool := p\<rparr>) = held h"
  "held (h\<lparr>ws_workers := w\<rparr>) = held h"
  "held (pool_completed wid j h) = held h"
  by (simp_all add: held_def pool_completed_def)

lemma entries_complete:
  "conn_ok wc \<Longrightarrow> mget (wc_activeJobs wc) j = Some a \<Longrightarrow>
   add_mset (aj_entryID a) (entries (snd (completeJob j wc))) = entries wc"
  using mset_mdel [of "wc_activeJobs wc" j a aj_entryID] by (simp add: entries_def completed_jobs conn_ok_def)

lemma entries_assign:
  "assignJob now j e wc = (assignOK, wc') \<Longrightarrow> entries wc' = add_mset e (entries wc)"
  by (auto simp: assignJob_OK entries_def mput_new map_of_eq_None_iff)

lemma mem_sum_list: "x \<in># sum_list Ms \<longleftrightarrow> (\<exists>M \<in> set Ms. x \<in># M)"
  by (induction Ms) auto

lemma entries_held: "mget (ws_conns h) i = Some wc \<Longrightarrow> mget (wc_activeJobs wc) j = Some a \<Longrightarrow> aj_entryID a \<in># held h"
  unfolding held_def entries_def mem_sum_list by (force dest!: map_of_SomeD)

lemma finish_ledger:
  assumes "ws_inv h" and "mget (ws_conns h) wid = Some wc" and "mget (wc_activeJobs wc) j = Some a"
  shows "add_mset (aj_entryID a) (held (put_conn (snd (completeJob j wc)) h)) = held h"
proof -
  let ?wc = "snd (completeJob j wc)"
  have "wc_id ?wc = wid" "conn_ok wc" using ws_inv_conn [OF assms(1,2)] by simp_all
  then have "held (put_conn ?wc h) + entries wc = held h + entries ?wc"
    "add_mset (aj_entryID a) (entries ?wc) = entries wc"
    using held_put [of h ?wc wc] entries_complete [of wc j a] assms(2,3) by simp_all
  then have "add_mset (aj_entryID a) (held (put_conn ?wc h)) + entries ?wc = held h + entries ?wc"
    by (metis add_mset_add_single add.commute add.left_commute)
  then show ?thesis by simp
qed

lemma complete_conn_ledger:
  assumes "ws_inv h" and "[] \<notin># held h"
  shows "held (fst (complete_conn wid j h)) + acked (snd (complete_conn wid j h)) = held h"
proof (cases "mget (ws_conns h) wid")
  case (Some wc)
  show ?thesis
  proof (cases "mget (wc_activeJobs wc) j")
    case None
    with Some ws_inv_conn [OF assms(1) Some] held_put [of h wc wc] show ?thesis
      by (simp add: complete_conn_def completeJob_def)
  next
    case job: (Some a)
    with entries_held [OF Some job] assms(2) have "aj_entryID a \<noteq> []" by auto
    with Some job finish_ledger [OF assms(1) Some job] show ?thesis
      by (simp add: complete_conn_def completeJob_def)
  qed
qed (simp add: complete_conn_def)

lemma expire_loop_ledger:
  assumes "ws_inv h" and "[] \<notin># held h" and "mget (ws_conns h) wid = Some wc"
    and "distinct (map fst stale)"
    and "\<forall>(j, e, age) \<in> set stale. \<exists>a. mget (wc_activeJobs wc) j = Some a \<and> aj_entryID a = e"
  shows "held (fst (expire_loop t wid stale h)) + acked (snd (expire_loop t wid stale h)) = held h"
  using assms
proof (induction stale arbitrary: h wc)
  case (Cons s stale)
  obtain j e age where s: "s = (j, e, age)" by (cases s) auto
  with Cons.prems(5) obtain a where a: "mget (wc_activeJobs wc) j = Some a" "aj_entryID a = e" by auto
  let ?wc = "snd (completeJob j wc)"
  let ?h = "pool_completed wid j (put_conn ?wc h)"
  have one: "add_mset e (held ?h) = held h"
    using finish_ledger [OF Cons.prems(1,3) a(1)] a(2) by simp
  have "e \<noteq> []" using entries_held [OF Cons.prems(3) a(1)] a(2) Cons.prems(2) by auto
  have "held (fst (expire_loop t wid stale ?h)) + acked (snd (expire_loop t wid stale ?h)) = held ?h"
  proof (rule Cons.IH [of ?h ?wc])
    show "ws_inv ?h" by (rule complete_inv [OF Cons.prems(1,3)])
    show "[] \<notin># held ?h" using Cons.prems(2) one by (metis union_iff add_mset_add_single)
    show "mget (ws_conns ?h) wid = Some ?wc"
      using ws_inv_conn [OF Cons.prems(1,3)] by (simp add: pool_completed_def)
    show "distinct (map fst stale)" using Cons.prems(4) by simp
    show "\<forall>(j, e, age) \<in> set stale. \<exists>a. mget (wc_activeJobs ?wc) j = Some a \<and> aj_entryID a = e"
    proof
      fix x assume x: "x \<in> set stale"
      obtain j' e' age' where x': "x = (j', e', age')" by (cases x) auto
      have "j' \<noteq> j" using Cons.prems(4) s x x' by force
      moreover have "\<exists>a. mget (wc_activeJobs wc) j' = Some a \<and> aj_entryID a = e'"
        using Cons.prems(5) x x' by auto
      ultimately show "case x of (j, e, age) \<Rightarrow> \<exists>a. mget (wc_activeJobs ?wc) j = Some a \<and> aj_entryID a = e"
        using x' by (simp add: completed_jobs)
    qed
  qed
  with s one \<open>e \<noteq> []\<close> Cons.prems(3) show ?case
    by (auto simp: Let_def case_prod_unfold)
qed simp

lemma expire_ledger:
  assumes "ws_inv h" and "[] \<notin># held h"
  shows "held (fst (expireStaleJobs cfg now wid h)) + acked (snd (expireStaleJobs cfg now wid h)) = held h"
proof (cases "mget (ws_conns h) wid")
  case (Some wc)
  let ?stale = "staleJobs now (cfg_JobTimeout cfg) wc"
  have wf: "wf_map (wc_activeJobs wc)" using ws_inv_conn [OF assms(1) Some] by (simp add: conn_ok_def)
  have "map fst ?stale = map fst (filter (\<lambda>(j, a). cfg_JobTimeout cfg < now - aj_assignedAt a) (wc_activeJobs wc))"
    by (simp add: staleJobs_def case_prod_unfold)
  with wf have "distinct (map fst ?stale)" by (simp add: wf_map_def distinct_map_filter)
  moreover have "\<forall>(j, e, age) \<in> set ?stale. \<exists>a. mget (wc_activeJobs wc) j = Some a \<and> aj_entryID a = e"
    using wf by (auto simp: staleJobs_def wf_map_mget_iff)
  ultimately show ?thesis
    using expire_loop_ledger [OF assms Some] Some by (simp add: expireStaleJobs_def)
qed (simp add: expireStaleJobs_def)

lemma record_acked: "acked (snd (recordToolResult job i n r im e h)) = {#}"
  by (auto simp: recordToolResult_def Let_def split: option.split)

lemma dispatch_calls_acked: "acked (snd (dispatch_calls cfg job ctx w calls h)) = {#}"
proof (induction calls arbitrary: h)
  case (Cons x calls)
  obtain tc i sent where "x = (tc, i, sent)" by (cases x) auto
  with Cons record_acked show ?case by (simp add: Let_def case_prod_unfold)
qed simp

lemma StartContinuation_acked: "acked (snd (snd (StartContinuation cfg fresh msg h))) = {#}"
  by (auto simp: StartContinuation_def Let_def case_prod_unfold dispatch_calls_acked split: option.split)

lemma tools_message_acked: "acked (snd (tools_message_step tc msgData h)) = {#}"
  by (auto simp: tools_message_step_def handleToolResult_def handleToolError_def Let_def record_acked
      split: sum.split message.split option.split)

lemma continue_acked: "acked (snd (continueLLMRound failure cont h)) = {#}"
  by (simp add: continueLLMRound_def Let_def split: option.split)

lemma tools_step_ledger: "held (fst (tools_step f h)) = held h"
  by (simp add: tools_step_def case_prod_unfold split: option.split)

lemma tools_step_acked: "(\<And>th. acked (snd (f th)) = {#}) \<Longrightarrow> acked (snd (tools_step f h)) = {#}"
  by (simp add: tools_step_def case_prod_unfold split: option.split)

lemma handleComplete_ledger:
  assumes "ws_inv h" and "[] \<notin># held h"
  shows "held (fst (handleComplete cfg fresh wid msg h)) + acked (snd (handleComplete cfg fresh wid msg h)) = held h"
  using complete_conn_ledger [OF assms, of wid "com_job msg"]
  by (auto simp: handleComplete_def Let_def case_prod_unfold StartContinuation_acked split: option.split)

lemma handleWorkerError_ledger:
  assumes "ws_inv h" and "[] \<notin># held h"
  shows "held (fst (handleWorkerError wid msg h)) + acked (snd (handleWorkerError wid msg h)) = held h"
  using complete_conn_ledger [OF assms, of wid "em_job msg"]
  by (auto simp: handleWorkerError_def Let_def case_prod_unfold)

lemma handleConfig_ledger:
  assumes "ws_inv h"
  shows "held (fst (handleConfig wid msg h)) + acked (snd (handleConfig wid msg h)) = held h"
proof (cases "mget (ws_conns h) wid")
  case (Some wc)
  let ?wc = "wc\<lparr>wc_maxSlots := cap_slots (cfgm_caps msg)\<rparr>"
  have "held (put_conn ?wc h) = held h"
    using held_put [of h ?wc wc] Some ws_inv_conn [OF assms Some] by (simp add: entries_def)
  moreover have "held (put_conn c (h\<lparr>ws_pool := p\<rparr>)) = held (put_conn c h)" for c p
    by (simp add: held_def)
  ultimately show ?thesis using Some by (simp add: handleConfig_def Let_def gpu_caps_of_def)
qed (simp add: handleConfig_def Let_def)

lemma message_ledger:
  assumes "ws_inv h" and "[] \<notin># held h"
  shows "held (fst (ws_message_step cfg now fresh wid msgData h)) + acked (snd (ws_message_step cfg now fresh wid msgData h)) = held h"
  using handleComplete_ledger [OF assms] handleWorkerError_ledger [OF assms] handleConfig_ledger [OF assms(1)]
  by (auto simp: ws_message_step_def handleToken_def handleToolGenerating_def handleHeartbeat_def Let_def
      split: sum.split message.split)

lemma serve_ledger:
  assumes "mget (ws_conns h) newID = None"
  shows "held (fst (snd (ServeHTTP cfg ak tk now newID sent msgData h))) +
    acked (snd (snd (ServeHTTP cfg ak tk now newID sent msgData h))) = held h"
proof -
  have "held (put_conn \<lparr>wc_id = newID, wc_activeJobs = [], wc_maxSlots = n\<rparr> (h\<lparr>ws_pool := p, ws_workers := w\<rparr>)) = held h" for n p w
    using held_new [of "h\<lparr>ws_pool := p, ws_workers := w\<rparr>" "\<lparr>wc_id = newID, wc_activeJobs = [], wc_maxSlots = n\<rparr>"] assms
    by (simp add: entries_def)
  then have "held (fst (snd (connectWorker cfg now newID sent hello h))) = held h \<and>
      acked (snd (snd (connectWorker cfg now newID sent hello h))) = {#}" for hello
    by (simp add: connectWorker_def Let_def case_prod_unfold ws_cleanup_def split: sum.split)
  moreover have "acked (snd (snd (HandleToolsWorker a newID sent hello th))) = {#}" for a hello th
    by (simp add: HandleToolsWorker_def Let_def)
  ultimately show ?thesis
    by (auto simp: ServeHTTP_def refusal_def case_prod_unfold split: sum.split message.split option.split)
qed

lemma dispatch_ledger:
  assumes "ws_inv h" and "dispatchToWorker cfg b now sent wid entry h = (r, h', es)"
  shows "held h' + acked es = held h + (if r = dispatched then {#se_ID entry#} else {#}) +
    (if mget (ws_conns h) wid \<noteq> None \<and> undecodable entry then {#se_ID entry#} else {#})"
  using assms(2)
proof (cases rule: dispatch_cases)
  case (skipped t)
  then show ?thesis by auto
next
  case (undone t wc wc' j)
  have new: "mget (wc_activeJobs wc) j = None" "wc_id wc' = wid" "wc_id wc = wid" "conn_ok wc'"
    using undone(2) ws_inv_conn [OF assms(1) undone(1)] by (auto simp: assignJob_OK conn_ok_def)
  have undo: "snd (completeJob j wc') = wc"
    using undone(2) new(1) by (auto simp: assignJob_OK completeJob_def mdel_mput_new)
  have "held (put_conn wc (put_conn wc' h)) + entries wc' = held (put_conn wc' h) + entries wc"
    using held_put [of "put_conn wc' h" wc wc'] new by simp
  moreover have "held (put_conn wc' h) + entries wc = held h + entries wc'"
    using held_put [of h wc' wc] undone(1) new by simp
  ultimately have "held (put_conn wc (put_conn wc' h)) = held h" by simp
  moreover have "held (put_conn wc ((put_conn wc' (h\<lparr>ws_tools := t\<rparr>))\<lparr>ws_pool := p\<rparr>)) = held (put_conn wc (put_conn wc' h))" for p
    by (simp add: held_def)
  ultimately show ?thesis using undone undo by simp
next
  case (sent t wc wc' m)
  have "wc_id wc' = wid"
    using sent(2) ws_inv_conn [OF assms(1) sent(1)] by (simp add: assignJob_OK)
  with held_put [of h wc' wc] sent(1) entries_assign [OF sent(2)]
  have "held (put_conn wc' h) = add_mset (se_ID entry) (held h)" by simp
  moreover have "held ((put_conn wc' (h\<lparr>ws_tools := t\<rparr>))\<lparr>ws_pool := p\<rparr>) = held (put_conn wc' h)" for p
    by (simp add: held_def)
  ultimately show ?thesis using sent by simp
qed

lemma step_ledger:
  assumes "ws_inv h" and "[] \<notin># held h" and "step_ok ev h"
  shows "held (fst (ws_step st ev h)) + acked (snd (ws_step st ev h)) = held h + handed st ev h + dropped ev h"
proof (cases ev)
  case (WServe now newID sent msgData)
  with serve_ledger [of h newID] assms(3) show ?thesis by (simp add: case_prod_unfold)
next
  case (WDispatch wid entry now sent)
  obtain r h' es where d: "dispatchToWorker (st_config st) (st_builtins st) now sent wid entry h = (r, h', es)"
    by (metis prod_cases3)
  from dispatch_ledger [OF assms(1) d] WDispatch d show ?thesis by simp
qed (simp_all add: message_ledger [OF assms(1,2)] expire_ledger [OF assms(1,2)] ws_cleanup_def
    tools_step_ledger tools_step_acked tools_message_acked continue_acked)

lemma step_ids:
  assumes "ws_inv h" and "[] \<notin># held h" and "step_ok ev h"
  shows "[] \<notin># held (fst (ws_step st ev h))"
proof -
  have "[] \<notin># held h + handed st ev h + dropped ev h"
    using assms(2,3) by (cases ev) auto
  with step_ledger [OF assms, of st] show ?thesis by (metis union_iff)
qed

lemma run_ledger:
  "ws_inv h \<Longrightarrow> [] \<notin># held h \<Longrightarrow> run_ok st evs h \<Longrightarrow>
   held (fst (ws_run st evs h)) + acked (snd (ws_run st evs h)) =
   held h + all_handed st evs h + all_dropped st evs h"
proof (induction evs arbitrary: h)
  case (Cons ev evs)
  let ?h = "fst (ws_step st ev h)"
  have ok: "step_ok ev h" "run_ok st evs ?h" using Cons.prems(3) by simp_all
  have "held (fst (ws_run st evs ?h)) + acked (snd (ws_run st evs ?h)) =
      held ?h + all_handed st evs ?h + all_dropped st evs ?h"
    using Cons.IH [OF ws_step_inv [OF Cons.prems(1)] step_ids [OF Cons.prems(1,2) ok(1)] ok(2)] .
  with step_ledger [OF Cons.prems(1,2) ok(1), of st] show ?case
    by (simp add: Let_def case_prod_unfold ac_simps)
qed simp

section \<open>Properties\<close>

text \<open>A router with one worker of two slots that is sent one job.\<close>

abbreviation demo_static :: ws_static where
  "demo_static \<equiv> \<lparr>st_config = base_config (\<lambda>_. None) [], st_builtins = [],
     st_admin = (\<lambda>k. VKey (k = ''adm'')), st_tool = (\<lambda>_. VKey False)\<rparr>"

definition demo_hello :: HelloMessage where
  "demo_hello = zero_HelloMessage\<lparr>hm_type := ''hello'', hm_key := ''adm'', hm_caps := zero_Capabilities\<lparr>cap_slots := 2\<rparr>\<rparr>"

definition demo_job :: JobMessage where
  "demo_job = zero_JobMessage\<lparr>jm_type := ''job'', jm_job := ''J''\<rparr>"

abbreviation demo_entry :: StreamEntry where
  "demo_entry \<equiv> \<lparr>se_ID = ''1-0'', se_Payload = \<lparr>jp_JobID = ''J'', jp_Data = json_text (enc_JobMessage demo_job)\<rparr>\<rparr>"

abbreviation demo_events :: "ws_event list" where
  "demo_events \<equiv> [WServe 0 ''w'' True (json_text (enc_message (MHello demo_hello))), WDispatch ''w'' demo_entry 1 True]"

abbreviation demo_conn :: workerConn where
  "demo_conn \<equiv> \<lparr>wc_id = ''w'', wc_activeJobs = [(''J'', \<lparr>aj_entryID = ''1-0'', aj_assignedAt = 1\<rparr>)], wc_maxSlots = 2\<rparr>"

abbreviation demo_state :: ws_handler where
  "demo_state \<equiv> \<lparr>ws_pool = [(''w'', \<lparr>w_id = ''w'', w_caps = \<lparr>gc_backend = [], gc_model = [], gc_ctx = 0,
       gc_vram = NInt 0, gc_params = [], gc_slots = 2\<rparr>, w_active = [(''J'', 1)], w_max = 2, w_connected = 0,
       w_heartbeat = 0\<rparr>)], ws_conns = [(''w'', demo_conn)], ws_workers = [''w''], ws_tools = None\<rparr>"

lemma demo_parse: "ParseMessage (json_parse (json_text (enc_HelloMessage demo_hello))) = Inr (MHello demo_hello)"
proof -
  have "wf_json (enc_HelloMessage demo_hello)" by code_simp
  moreover have "wf_message (MHello demo_hello)" by code_simp
  ultimately show ?thesis using parse_marshal [of "MHello demo_hello"] by (simp only: parse_json_text enc_message.simps)
qed

lemma demo_unmarshal: "Unmarshal dec_JobMessage (json_text (enc_JobMessage demo_job)) zero_JobMessage = (demo_job, True)"
proof -
  have "wf_json (enc_JobMessage demo_job)" by code_simp
  moreover have "dec_JobMessage (enc_JobMessage demo_job) zero_JobMessage = (demo_job, True)" by code_simp
  ultimately show ?thesis by (simp only: Unmarshal_text)
qed

lemma demo_simps:
  "hm_worker demo_hello = []" "hm_key demo_hello = ''adm''" "hm_caps demo_hello = zero_Capabilities\<lparr>cap_slots := 2\<rparr>"
  "jm_job demo_job = ''J''" "demo_job\<lparr>jm_type := ''job''\<rparr> = demo_job"
  by (simp_all add: demo_hello_def demo_job_def zero_HelloMessage_def zero_JobMessage_def)

lemma demo_run: "fst (ws_run demo_static demo_events (NewWSHandler None)) = demo_state"
  by (simp add: ServeHTTP_def demo_parse demo_simps connectWorker_def Let_def NewWSHandler_def NewPool_def Pool_Add_def
      put_conn_def zero_Capabilities_def gpu_caps_of_def dispatchToWorker_def demo_unmarshal
      prepare_job_def assignJob_def Pool_AssignJob_def HasCapacity_def case_prod_unfold)



text \<open>
  C1: no entry of the queue is lost or acknowledged early.  In every run, the entries handed to
  workers and those dropped because their data is no job are, with their multiplicities, the
  entries acknowledged and the entries still in flight on some connection; what a lost
  connection had in flight is never acknowledged, so the sweeper finds it.
\<close>

theorem queue_ledger:
  assumes "run_ok st evs (NewWSHandler t)" and "ws_run st evs (NewWSHandler t) = (h, es)"
  shows "all_handed st evs (NewWSHandler t) + all_dropped st evs (NewWSHandler t) = acked es + held h"
proof -
  have "held (NewWSHandler t) = {#}" by (simp add: held_def NewWSHandler_def)
  with run_ledger [OF ws_inv_new _ assms(1)] assms(2) show ?thesis by (simp add: add.commute)
qed

theorem queue_ledger_witness:
  "all_handed demo_static demo_events (NewWSHandler None) = {#''1-0''#} \<and>
   (\<exists>h es. ws_run demo_static demo_events (NewWSHandler None) = (h, es) \<and> acked es + held h = {#''1-0''#})"
proof -
  let ?h = "NewWSHandler None"
  obtain h es where run: "ws_run demo_static demo_events ?h = (h, es)" by fastforce
  have ok: "run_ok demo_static demo_events ?h" by (simp add: NewWSHandler_def)
  have "h = demo_state" using demo_run run by simp
  then have "held h = {#''1-0''#}" by (simp add: held_def entries_def)
  moreover have "all_dropped demo_static demo_events ?h = {#}"
    by (simp add: undecodable_def demo_unmarshal)
  moreover have "size (all_handed demo_static demo_events ?h) \<le> 1" by simp
  ultimately have "all_handed demo_static demo_events ?h = acked es + {#''1-0''#}" and "size (acked es + {#''1-0''#}) \<le> 1"
    using queue_ledger [OF ok run] by simp_all
  with run \<open>held h = {#''1-0''#}\<close> show ?thesis by auto
qed

text \<open>
  C3: a job is sent only to a worker that does not have it and has a free slot; afterwards the
  worker has it, under its queue entry, and has no more jobs than slots.
\<close>

theorem dispatch_only_to_free_slot:
  assumes "ws_run st evs (NewWSHandler t) = (h, es0)"
    and "dispatchToWorker cfg b now sent wid entry h = (r, h', es)" and "ESend j (MJob m) \<in> set es"
  shows "j = wid \<and> r = dispatched \<and>
    (\<exists>wc wc'. mget (ws_conns h) wid = Some wc \<and> mget (ws_conns h') wid = Some wc' \<and>
       jm_job m \<notin> set (activeJobIDs wc) \<and> hasCapacity wc \<and>
       set (activeJobIDs wc') = insert (jm_job m) (set (activeJobIDs wc)) \<and>
       map_option aj_entryID (mget (wc_activeJobs wc') (jm_job m)) = Some (se_ID entry) \<and>
       int (length (activeJobIDs wc')) \<le> wc_maxSlots wc')"
proof -
  have inv: "ws_inv h" using ws_run_inv [OF ws_inv_new, of st evs t] assms(1) by simp
  from assms(2) show ?thesis
  proof (cases rule: dispatch_cases)
    case (skipped t)
    with assms(3) show ?thesis by blast
  next
    case (undone t wc wc' j)
    with assms(3) show ?thesis by simp
  next
    case (sent t wc wc' m')
    with assms(3) have m: "m' = m" "j = wid" by auto
    have ok: "conn_ok wc" "wc_id wc = wid" using ws_inv_conn [OF inv sent(1)] by simp_all
    have a: "conn_assign now (se_ID entry) (jm_job m) wc = Some wc'" using sent(2) m by (simp add: conn_assign_Some)
    from conn_slots.assign_bounded [OF ok(1) a] conn_slots.assign_law [OF ok(1) a] sent m ok(2)
    show ?thesis by (auto simp: assignJob_OK activeJobIDs_def map_of_eq_None_iff)
  qed
qed

theorem dispatch_only_to_free_slot_witness:
  "let entry = demo_entry\<lparr>se_ID := ''2-0'', se_Payload := \<lparr>jp_JobID = ''K'',
         jp_Data = json_text (enc_JobMessage (demo_job\<lparr>jm_job := ''K''\<rparr>))\<rparr>\<rparr>
   in \<exists>h' m es. dispatchToWorker (base_config (\<lambda>_. None) []) [] 5 True ''w'' entry demo_state = (dispatched, h', es) \<and>
     ESend ''w'' (MJob m) \<in> set es \<and> jm_job m \<notin> set (activeJobIDs demo_conn)"
proof -
  let ?job = "demo_job\<lparr>jm_job := ''K''\<rparr>"
  let ?entry = "demo_entry\<lparr>se_ID := ''2-0'', se_Payload := \<lparr>jp_JobID = ''K'', jp_Data = json_text (enc_JobMessage ?job)\<rparr>\<rparr>"
  have "wf_json (enc_JobMessage ?job)" by code_simp
  moreover have "dec_JobMessage (enc_JobMessage ?job) zero_JobMessage = (?job, True)" by code_simp
  ultimately have u: "Unmarshal dec_JobMessage (json_text (enc_JobMessage ?job)) zero_JobMessage = (?job, True)"
    by (simp only: Unmarshal_text)
  obtain r h' es where d: "dispatchToWorker (base_config (\<lambda>_. None) []) [] 5 True ''w'' ?entry demo_state = (r, h', es)"
    by (metis prod_cases3)
  then have "\<exists>m. ESend ''w'' (MJob m) \<in> set es"
    by (auto simp: dispatchToWorker_def u prepare_job_def assignJob_def Let_def)
  then obtain m where m: "ESend ''w'' (MJob m) \<in> set es" ..
  obtain es0 where "ws_run demo_static demo_events (NewWSHandler None) = (demo_state, es0)"
    using demo_run by (metis prod.collapse)
  from dispatch_only_to_free_slot [OF this d m] d m show ?thesis unfolding Let_def by auto
qed

definition publications :: "effect list \<Rightarrow> (string \<times> TokenEvent) list" where
  "publications es = List.map_filter (\<lambda>e. case e of EPublish j t \<Rightarrow> Some (j, t) | _ \<Rightarrow> None) es"

lemma publications_simps [simp]:
  "publications [] = []"
  "publications (xs @ ys) = publications xs @ publications ys"
  "publications (EPublish j t # es) = (j, t) # publications es"
  "publications (EAck i # es) = publications es"
  "publications (ESetTTL j n # es) = publications es"
  "publications (ESend w m # es) = publications es"
  "publications (EContinueRound c # es) = publications es"
  by (simp_all add: publications_def List.map_filter_def)

lemma record_publications: "publications (snd (recordToolResult job i n r im e h)) = []"
  by (auto simp: recordToolResult_def Let_def split: option.split)

lemma dispatch_calls_publications: "publications (snd (dispatch_calls cfg job ctx w calls h)) = []"
proof (induction calls arbitrary: h)
  case (Cons x calls)
  obtain tc i sent where "x = (tc, i, sent)" by (cases x) auto
  with Cons record_publications show ?case by (simp add: Let_def case_prod_unfold)
qed simp

lemma StartContinuation_publications: "publications (snd (snd (StartContinuation cfg fresh msg h))) = []"
  by (auto simp: StartContinuation_def Let_def case_prod_unfold dispatch_calls_publications split: option.split)

lemma complete_conn_publications:
  "publications (snd (complete_conn wid j h)) = []" "ws_tools (fst (complete_conn wid j h)) = ws_tools h"
  by (auto simp: complete_conn_def case_prod_unfold split: option.split)

text \<open>
  C6: a completion ends the stream of its job exactly when no round of tool calls starts: then
  one \<open>done\<close> event with the whole message is published last, the stream gets its short life and
  the saved context is gone; otherwise nothing is published, so the next round can go on.
\<close>

theorem complete_terminal:
  assumes "handleComplete cfg fresh wid msg h = (h', es)"
  shows "if (\<exists>th. ws_tools h = Some th \<and> fst (StartContinuation cfg fresh msg th))
    then publications es = []
    else publications es = [(com_job msg, \<lparr>te_Type = ''done'', te_Data = Some (enc_CompleteMessage msg)\<rparr>)] \<and>
      last es = ESetTTL (com_job msg) streamTTLDone \<and>
      (\<forall>th. ws_tools h' = Some th \<longrightarrow> mget (th_contexts th) (com_job msg) = None)"
proof (cases "ws_tools h")
  case None
  with assms show ?thesis
    by (auto simp: handleComplete_def Let_def case_prod_unfold pool_completed_def complete_conn_publications)
next
  case (Some th)
  obtain ok th' es' where start: "StartContinuation cfg fresh msg th = (ok, th', es')" by (metis prod_cases3)
  have "publications es' = []" using StartContinuation_publications [of cfg fresh msg th] start by simp
  moreover have "\<not> ok" if "com_calls msg = []" using start that by (simp add: StartContinuation_def)
  ultimately show ?thesis
    using Some start assms
    by (auto simp: handleComplete_def Let_def case_prod_unfold pool_completed_def complete_conn_publications
        DeleteJobContext_def split: if_splits)
qed

theorem complete_terminal_witness:
  "\<exists>es. snd (handleComplete (base_config (\<lambda>_. None) []) [] ''w'' (zero_CompleteMessage\<lparr>com_job := ''J''\<rparr>) demo_state) = es \<and>
     map (\<lambda>(j, t). (j, te_Type t)) (publications es) = [(''J'', ''done'')]"
proof -
  obtain h' es where "handleComplete (base_config (\<lambda>_. None) []) [] ''w'' (zero_CompleteMessage\<lparr>com_job := ''J''\<rparr>) demo_state = (h', es)"
    by fastforce
  from complete_terminal [OF this] this show ?thesis by (simp add: zero_CompleteMessage_def)
qed

text \<open>
  C8: a token is streamed as it was sent: the event that is published for it carries, as a JSON
  string, exactly the worker's bytes, under the type for its kind, and the stream lives on.
\<close>

theorem token_published:
  "handleToken msg =
    [EPublish (tm_job msg)
       \<lparr>te_Type = (if tm_reasoning msg then ''reasoning_token'' else ''token''), te_Data = Some (JStr (tm_token msg))\<rparr>,
     ESetTTL (tm_job msg) streamTTLStreaming]"
proof -
  have "2 \<le> length (json_quote s)" and "butlast (tl (json_quote s)) = concat (map quote_char s)" for s
    by (simp_all add: json_quote_def butlast_append)
  then have "CHR 0x22 # escapeJSON s @ [CHR 0x22] = json_text (JStr s)" for s
    by (simp add: escapeJSON_def Let_def json_quote_def)
  moreover have "json_parse (json_text (JStr s)) = Some (JStr s)" for s by (rule parse_json_text) simp
  ultimately show ?thesis by (simp only: handleToken_def)
qed

text \<open>
  C8: a job can be run twice.  A reader loop that has read a pending entry before the worker's
  completion is handled dispatches the entry after it: the completion has freed the slot and
  acknowledged the entry, but nothing says that the job is done.
\<close>

theorem redispatch_after_completion:
  assumes "ws_inv h" and "mget (ws_conns h) wid = Some wc" and "mget (wc_activeJobs wc) (com_job msg) = Some aj"
    and "aj_entryID aj = se_ID entry" and "se_ID entry \<noteq> []"
    and "int (length (wc_activeJobs wc)) \<le> wc_maxSlots wc"
    and "Unmarshal dec_JobMessage (jp_Data (se_Payload entry)) zero_JobMessage = (jm, True)"
    and "jm_job jm = com_job msg" and "com_job msg \<noteq> []" and "ws_tools h = None"
    and "handleComplete cfg fresh wid msg h = (h1, es1)"
    and "dispatchToWorker cfg b now True wid entry h1 = (r, h2, es2)"
  shows "EAck (se_ID entry) \<in> set es1 \<and> r = dispatched \<and> ESend wid (MJob (jm\<lparr>jm_type := ''job''\<rparr>)) \<in> set es2"
proof -
  let ?wc = "snd (completeJob (com_job msg) wc)"
  have wc: "wc_id wc = wid" "conn_ok wc" using ws_inv_conn [OF assms(1,2)] by simp_all
  have conn: "mget (ws_conns h1) wid = Some ?wc" and ack: "EAck (se_ID entry) \<in> set es1" and none: "ws_tools h1 = None"
    using assms(2-5,10,11) wc
    by (auto simp: handleComplete_def complete_conn_def completeJob_def pool_completed_def Let_def)
  have "hasCapacity ?wc"
    using conn_slots.complete_makes_room [of wc "com_job msg"] wc assms(3,6)
    by (simp add: conn_complete_def hasCapacity_def activeJobIDs_def mget_in_keys)
  then obtain wc' where "assignJob now (com_job msg) (se_ID entry) ?wc = (assignOK, wc')"
    by (simp add: assignJob_OK completed_jobs)
  with conn none assms(7-9,12) ack show ?thesis
    by (auto simp: dispatchToWorker_def prepare_job_def Let_def)
qed

theorem redispatch_after_completion_witness:
  "\<exists>h1 es1 r h2 es2.
     handleComplete (base_config (\<lambda>_. None) []) [] ''w'' (zero_CompleteMessage\<lparr>com_job := ''J''\<rparr>) demo_state = (h1, es1) \<and>
     dispatchToWorker (base_config (\<lambda>_. None) []) [] 3 True ''w'' demo_entry h1 = (r, h2, es2) \<and>
     EAck ''1-0'' \<in> set es1 \<and> ESend ''w'' (MJob demo_job) \<in> set es2"
proof -
  let ?cfg = "base_config (\<lambda>_. None) []" and ?msg = "zero_CompleteMessage\<lparr>com_job := ''J''\<rparr>"
  have inv: "ws_inv demo_state" using ws_run_inv [OF ws_inv_new, of demo_static demo_events None] demo_run by simp
  have conn: "mget (ws_conns demo_state) ''w'' = Some demo_conn" by simp
  have job: "mget (wc_activeJobs demo_conn) (com_job ?msg) = Some \<lparr>aj_entryID = ''1-0'', aj_assignedAt = 1\<rparr>" by simp
  have ids: "aj_entryID \<lparr>aj_entryID = ''1-0'', aj_assignedAt = 1\<rparr> = se_ID demo_entry" "se_ID demo_entry \<noteq> []" by simp_all
  have len: "int (length (wc_activeJobs demo_conn)) \<le> wc_maxSlots demo_conn" by simp
  have unmarshal: "Unmarshal dec_JobMessage (jp_Data (se_Payload demo_entry)) zero_JobMessage = (demo_job, True)"
    by (simp add: demo_unmarshal)
  have names: "jm_job demo_job = com_job ?msg" "com_job ?msg \<noteq> []" "ws_tools demo_state = None" by (simp_all add: demo_simps)
  obtain h1 es1 where c: "handleComplete ?cfg [] ''w'' ?msg demo_state = (h1, es1)" by fastforce
  obtain r h2 es2 where d: "dispatchToWorker ?cfg [] 3 True ''w'' demo_entry h1 = (r, h2, es2)" by (metis prod_cases3)
  from redispatch_after_completion [OF inv conn job ids len unmarshal names c d] c d
  show ?thesis by (auto simp: demo_simps)
qed

end
