(* ===== verification/Openai_Builders.thy ===== *)
theory Openai_Builders
  imports Openai_Types Json_Parse
begin

text \<open>
  The functions of \<open>pkg/openai/types.go\<close> and \<open>pkg/openai/multimodal.go\<close>: the responses and
  stream chunks built from a job's events, the prompt of a legacy request, and the conversion
  of image parts.  A builder takes the clock reading (\<open>created\<close>) and the random part of the ID it
  draws (\<open>rnd\<close>, in hexadecimal).  A raw JSON value is its tree, \<open>None\<close> when it is empty.
\<close>

definition MessageContentString :: "string \<Rightarrow> raw" where
  "MessageContentString s = Some (JStr s)"

definition NewCompletionID :: "string \<Rightarrow> string" where
  "NewCompletionID rnd = ''chatcmpl-'' @ rnd"

definition NewLegacyCompletionID :: "string \<Rightarrow> string" where
  "NewLegacyCompletionID rnd = ''cmpl-'' @ rnd"

definition NewNonStreamingResponse ::
    "string \<Rightarrow> int \<Rightarrow> string \<Rightarrow> string \<Rightarrow> string \<Rightarrow> Oai_Usage option \<Rightarrow> ChatCompletionResponse" where
  "NewNonStreamingResponse rnd created model content finishReason usage =
     \<lparr>ocr_id = NewCompletionID rnd, ocr_object = ''chat.completion'', ocr_created = created, ocr_model = model,
      ocr_choices = [\<lparr>och_index = 0,
        och_message = Some (zero_Oai_Message\<lparr>omsg_role := ''assistant'', omsg_content := MessageContentString content\<rparr>),
        och_delta = None, och_finish = Some finishReason\<rparr>],
      ocr_usage = usage\<rparr>"

definition NewNonStreamingResponseWithReasoning ::
    "string \<Rightarrow> int \<Rightarrow> string \<Rightarrow> string \<Rightarrow> string \<Rightarrow> string \<Rightarrow> Oai_Usage option \<Rightarrow> ChatCompletionResponse" where
  "NewNonStreamingResponseWithReasoning rnd created model content reasoningContent finishReason usage =
     \<lparr>ocr_id = NewCompletionID rnd, ocr_object = ''chat.completion'', ocr_created = created, ocr_model = model,
      ocr_choices = [\<lparr>och_index = 0,
        och_message = Some (zero_Oai_Message\<lparr>omsg_role := ''assistant'', omsg_content := MessageContentString content,
          omsg_reasoning := reasoningContent\<rparr>),
        och_delta = None, och_finish = Some finishReason\<rparr>],
      ocr_usage = usage\<rparr>"

definition NewToolCallResponse ::
    "string \<Rightarrow> int \<Rightarrow> string \<Rightarrow> Oai_ToolCall list \<Rightarrow> Oai_Usage option \<Rightarrow> ChatCompletionResponse" where
  "NewToolCallResponse rnd created model toolCalls usage =
     \<lparr>ocr_id = NewCompletionID rnd, ocr_object = ''chat.completion'', ocr_created = created, ocr_model = model,
      ocr_choices = [\<lparr>och_index = 0,
        och_message = Some (zero_Oai_Message\<lparr>omsg_role := ''assistant'', omsg_calls := toolCalls\<rparr>),
        och_delta = None, och_finish = Some ''tool_calls''\<rparr>],
      ocr_usage = usage\<rparr>"

text \<open>The chunk all the streaming builders share.\<close>

definition delta_chunk ::
    "int \<Rightarrow> string \<Rightarrow> string \<Rightarrow> Oai_Message \<Rightarrow> string option \<Rightarrow> Oai_Usage option \<Rightarrow> ChatCompletionChunk" where
  "delta_chunk created completionID model delta finish usage =
     \<lparr>occ_id = completionID, occ_object = ''chat.completion.chunk'', occ_created = created, occ_model = model,
      occ_choices = [\<lparr>och_index = 0, och_message = None, och_delta = Some delta, och_finish = finish\<rparr>],
      occ_usage = usage\<rparr>"

definition NewStreamingChunk :: "int \<Rightarrow> string \<Rightarrow> string \<Rightarrow> string \<Rightarrow> ChatCompletionChunk" where
  "NewStreamingChunk created completionID model content =
     delta_chunk created completionID model
       (zero_Oai_Message\<lparr>omsg_content := MessageContentString content\<rparr>) None None"

definition NewStreamingReasoningChunk :: "int \<Rightarrow> string \<Rightarrow> string \<Rightarrow> string \<Rightarrow> ChatCompletionChunk" where
  "NewStreamingReasoningChunk created completionID model reasoningContent =
     delta_chunk created completionID model (zero_Oai_Message\<lparr>omsg_reasoning := reasoningContent\<rparr>) None None"

definition NewStreamingRoleChunk :: "int \<Rightarrow> string \<Rightarrow> string \<Rightarrow> ChatCompletionChunk" where
  "NewStreamingRoleChunk created completionID model =
     delta_chunk created completionID model
       (zero_Oai_Message\<lparr>omsg_role := ''assistant'', omsg_content := MessageContentString []\<rparr>) None None"

text \<open>The clock is read for each chunk.\<close>

definition NewStreamingToolCallChunks ::
    "(nat \<Rightarrow> int) \<Rightarrow> string \<Rightarrow> string \<Rightarrow> Oai_ToolCall list \<Rightarrow> ChatCompletionChunk list" where
  "NewStreamingToolCallChunks created completionID model toolCalls =
     map (\<lambda>(i, tc). delta_chunk (created i) completionID model
            (zero_Oai_Message\<lparr>omsg_calls := [tc\<lparr>otc_index := int i\<rparr>]\<rparr>) None None)
       (zip [0..<length toolCalls] toolCalls)"

definition NewStreamingDoneChunk ::
    "int \<Rightarrow> string \<Rightarrow> string \<Rightarrow> string \<Rightarrow> Oai_Usage option \<Rightarrow> ChatCompletionChunk" where
  "NewStreamingDoneChunk created completionID model finishReason usage =
     delta_chunk created completionID model zero_Oai_Message (Some finishReason) usage"

definition FormatSSE :: "ChatCompletionChunk \<Rightarrow> string" where
  "FormatSSE chunk = ''data: '' @ json_text (enc_ChatCompletionChunk chunk) @ [CHR 0x0A, CHR 0x0A]"

definition FormatSSEDone :: string where
  "FormatSSEDone = ''data: [DONE]'' @ [CHR 0x0A, CHR 0x0A]"

definition PromptString :: "CompletionRequest \<Rightarrow> string" where
  "PromptString r =
     (case cr_prompt r of
        None \<Rightarrow> []
      | Some j \<Rightarrow>
          (case dec_string j [] of
             (s, True) \<Rightarrow> s
           | (s, False) \<Rightarrow>
               (case dec_slice [] dec_string j [] of
                  (x # xs, True) \<Rightarrow> x
                | _ \<Rightarrow> [])))"

definition NewCompletionResponse ::
    "string \<Rightarrow> int \<Rightarrow> string \<Rightarrow> string \<Rightarrow> string \<Rightarrow> Oai_Usage option \<Rightarrow> CompletionResponse" where
  "NewCompletionResponse rnd created model text finishReason usage =
     \<lparr>lcr_id = NewLegacyCompletionID rnd, lcr_object = ''text_completion'', lcr_created = created, lcr_model = model,
      lcr_choices = [\<lparr>lch_text = text, lch_index = 0, lch_logprobs = None, lch_finish = finishReason\<rparr>],
      lcr_usage = usage\<rparr>"

definition EmptyListResponse :: ListResponse where
  "EmptyListResponse = \<lparr>lr_object = ''list'', lr_data = Some (JArr []), lr_more = False, lr_first = None, lr_last = None\<rparr>"

definition NewErrorResponse :: "string \<Rightarrow> string \<Rightarrow> string \<Rightarrow> Oai_ErrorResponse" where
  "NewErrorResponse message errType code =
     \<lparr>oer_error = \<lparr>oed_message = message, oed_type = errType, oed_code = code\<rparr>\<rparr>"

text \<open>
  \<open>NormalizeVisionContent\<close>.  The part's object goes through a Go map, so a part that changes is
  written with its keys sorted, each once.
\<close>

definition normalize_part :: "json \<Rightarrow> json option" where
  "normalize_part part =
     (case part of
        JObj kvs \<Rightarrow>
          (let obj = fold (\<lambda>(k, v). mput k v) kvs [] in
           if mget obj ''type'' \<noteq> Some (JStr ''image_url'') then None
           else
             (case mget obj ''image_url'' of
                Some (JStr url) \<Rightarrow>
                  if url = [] then None
                  else Some (enc_map id (mput ''image_url'' (JObj [(''url'', JStr url)]) obj))
              | _ \<Rightarrow> None))
      | _ \<Rightarrow> None)"

definition NormalizeVisionContent :: "raw \<Rightarrow> raw" where
  "NormalizeVisionContent content =
     (case content of
        Some (JArr parts) \<Rightarrow>
          if list_all (\<lambda>p. normalize_part p = None) parts then content
          else Some (JArr (map (\<lambda>p. case normalize_part p of None \<Rightarrow> p | Some q \<Rightarrow> q) parts))
      | _ \<Rightarrow> content)"

section \<open>Image parts\<close>

lemma mget_fold_mput: "mget (fold (\<lambda>(k, v). mput k v) kvs m) k = (case map_of (rev kvs) k of None \<Rightarrow> mget m k | Some v \<Rightarrow> Some v)"
  by (induction kvs arbitrary: m) (auto simp: map_of_append map_add_def split: option.split)

lemma wf_fold_members: "wf_map m \<Longrightarrow> wf_map (fold (\<lambda>(k, v). mput k v) kvs m)"
  by (induction kvs arbitrary: m) auto

lemma map_of_rev_distinct: "distinct (map fst kvs) \<Longrightarrow> map_of (rev kvs) = map_of kvs"
  by (rule map_of_inject_set [THEN iffD2]) (simp_all add: rev_map [symmetric])

lemma map_of_sort_key: "wf_map m \<Longrightarrow> map_of (sort_key fst m) = map_of m"
proof (rule map_of_inject_set [THEN iffD2])
  assume "wf_map m"
  then show "distinct (map fst (sort_key fst m))" "distinct (map fst m)"
    by (auto simp: wf_map_def distinct_map)
qed simp

lemma read_written_map:
  assumes "wf_map m"
  shows "mget (fold (\<lambda>(k, v). mput k v) (map (\<lambda>(k, v). (k, id v)) (sort_key fst m)) []) k = mget m k"
proof -
  have "distinct (map fst (sort_key fst m))" using assms by (auto simp: wf_map_def distinct_map)
  moreover have "map (\<lambda>(k, v). (k, id v)) xs = xs" for xs :: "(string \<times> 'a) list"
    by (simp add: case_prod_unfold)
  ultimately show ?thesis
    by (simp only: mget_fold_mput map_of_rev_distinct map_of_sort_key [OF assms]) (simp split: option.split)
qed

lemma normalize_part_once: "normalize_part p = Some q \<Longrightarrow> normalize_part q = None"
proof -
  assume "normalize_part p = Some q"
  then obtain kvs url where q: "q = enc_map id (mput ''image_url'' (JObj [(''url'', JStr url)]) (fold (\<lambda>(k, v). mput k v) kvs []))"
    by (auto simp: normalize_part_def Let_def split: json.splits option.splits if_splits)
  have "wf_map (mput ''image_url'' (JObj [(''url'', JStr url)]) (fold (\<lambda>(k, v). mput k v) kvs []))"
    by (intro wf_map_mput wf_fold_members) simp
  from read_written_map [OF this, of "''image_url''"] q show ?thesis
    by (simp add: normalize_part_def Let_def enc_map_def)
qed

text \<open>
  Normalizing the image parts of a message is idempotent, keeps every part that is not a
  flat image part as it is, and leaves no flat image part.
\<close>

theorem normalize_idempotent:
  "NormalizeVisionContent (NormalizeVisionContent c) = NormalizeVisionContent c \<and>
   (case NormalizeVisionContent c of
      Some (JArr qs) \<Rightarrow> list_all (\<lambda>q. normalize_part q = None) qs
    | _ \<Rightarrow> NormalizeVisionContent c = c)"
proof (cases "\<exists>ps. c = Some (JArr ps)")
  case False
  then have "NormalizeVisionContent c = c"
    by (auto simp: NormalizeVisionContent_def split: option.split json.split)
  with False show ?thesis by (auto split: option.split json.split)
next
  case True
  then obtain ps where c: "c = Some (JArr ps)" ..
  let ?qs = "map (\<lambda>p. case normalize_part p of None \<Rightarrow> p | Some q \<Rightarrow> q) ps"
  have all: "list_all (\<lambda>q. normalize_part q = None) ?qs"
    by (auto simp: list_all_iff normalize_part_once split: option.split)
  show ?thesis
  proof (cases "list_all (\<lambda>p. normalize_part p = None) ps")
    case True
    with c show ?thesis by (simp add: NormalizeVisionContent_def)
  next
    case False
    with c have "NormalizeVisionContent c = Some (JArr ?qs)" by (simp add: NormalizeVisionContent_def)
    with all show ?thesis by (simp add: NormalizeVisionContent_def)
  qed
qed

end
