(* ===== verification/Token_Loop.thy ===== *)
theory Token_Loop
  imports Job_Queue
begin

text \<open>
  The loop the API handlers share: \<open>streamChatResponse\<close>, \<open>blockingChatResponse\<close> and their kin
  read the token stream of a job after the last entry they have seen, handle the entries in
  order, and end at a terminal event, when the client is gone, at the deadline, or when a read
  fails.  A consumer is what a handler does with one event; \<open>clock\<close> gives what it reads from the
  clock and the random source when it handles the entry with an ID.  The loop runs for the given polls: for each, whether
  the client is gone and whether the deadline has passed.  Its result says
  whether it has ended; if not, it is still waiting after them.
\<close>

datatype ('s, 'o) verdict_of = Continue 's "'o list" | Finish "'o list"

record ('e, 's, 'o) consumer =
  c_event :: "'e \<Rightarrow> TokenEvent \<Rightarrow> 's \<Rightarrow> ('s, 'o) verdict_of"
  c_gone :: "'o list"
  c_late :: "'o list"
  c_failed :: "string \<Rightarrow> 'o list"

type_synonym 'r reader = "string \<Rightarrow> 'r \<Rightarrow> (string + TokenStreamEntry list) \<times> 'r"

fun handle_entries ::
    "('e, 's, 'o) consumer \<Rightarrow> (string \<Rightarrow> 'e) \<Rightarrow> TokenStreamEntry list \<Rightarrow> string \<Rightarrow> 's \<Rightarrow> string \<times> ('s, 'o) verdict_of" where
  "handle_entries c clock [] lastID s = (lastID, Continue s [])"
| "handle_entries c clock (e # es) lastID s =
     (case c_event c (clock (tse_ID e)) (tse_Event e) s of
        Finish out \<Rightarrow> (tse_ID e, Finish out)
      | Continue s' out \<Rightarrow>
          (case handle_entries c clock es (tse_ID e) s' of
             (i, Continue s'' out') \<Rightarrow> (i, Continue s'' (out @ out'))
           | (i, Finish out') \<Rightarrow> (i, Finish (out @ out'))))"

fun event_loop ::
    "('e, 's, 'o) consumer \<Rightarrow> (string \<Rightarrow> 'e) \<Rightarrow> 'r reader \<Rightarrow> (bool \<times> bool) list \<Rightarrow> string \<Rightarrow> 's \<Rightarrow> 'r \<Rightarrow>
     'o list \<times> bool \<times> 'r" where
  "event_loop c clock rd [] lastID s r = ([], False, r)"
| "event_loop c clock rd ((gone, late) # polls) lastID s r =
     (if gone then (c_gone c, True, r)
      else if late then (c_late c, True, r)
      else
        (case rd lastID r of
           (Inl e, r') \<Rightarrow> (c_failed c e, True, r')
         | (Inr es, r') \<Rightarrow>
             (case handle_entries c clock es lastID s of
                (i, Finish out) \<Rightarrow> (out, True, r')
              | (i, Continue s' out) \<Rightarrow>
                  (case event_loop c clock rd polls i s' r' of
                     (out', fin, r'') \<Rightarrow> (out @ out', fin, r'')))))"

section \<open>Batches do not matter\<close>

text \<open>
  A stream's log is the list of all its entries.  A reader of the log answers with entries that
  follow the last one seen, without a gap; what it has not returned yet comes later.
\<close>

fun after :: "TokenStreamEntry list \<Rightarrow> string \<Rightarrow> TokenStreamEntry list" where
  "after [] i = []"
| "after (e # es) i = (if tse_ID e = i then es else after es i)"

definition log_ok :: "TokenStreamEntry list \<Rightarrow> string \<Rightarrow> bool" where
  "log_ok log start \<longleftrightarrow> distinct (map tse_ID log) \<and> start \<notin> tse_ID ` set log"

definition rest :: "string \<Rightarrow> TokenStreamEntry list \<Rightarrow> string \<Rightarrow> TokenStreamEntry list" where
  "rest start log i = (if i = start then log else after log i)"

definition reads_log :: "'r reader \<Rightarrow> TokenStreamEntry list \<Rightarrow> string \<Rightarrow> bool" where
  "reads_log rd log start \<longleftrightarrow>
     (\<forall>i r es. fst (rd i r) = Inr es \<longrightarrow> (\<exists>k. es = take k (rest start log i)))"

text \<open>What the consumer does with the events of a log, read in one go.\<close>

definition consume :: "('e, 's, 'o) consumer \<Rightarrow> (string \<Rightarrow> 'e) \<Rightarrow> TokenStreamEntry list \<Rightarrow> 's \<Rightarrow> ('s, 'o) verdict_of" where
  "consume c clock es s = snd (handle_entries c clock es [] s)"

fun outputs :: "('s, 'o) verdict_of \<Rightarrow> 'o list" where
  "outputs (Continue s out) = out"
| "outputs (Finish out) = out"

fun finished :: "('s, 'o) verdict_of \<Rightarrow> bool" where
  "finished (Continue s out) = False"
| "finished (Finish out) = True"

lemma handle_entries_append:
  "handle_entries c clock (xs @ ys) i s =
   (case handle_entries c clock xs i s of
      (j, Finish out) \<Rightarrow> (j, Finish out)
    | (j, Continue s' out) \<Rightarrow>
        (case handle_entries c clock ys j s' of
           (k, Continue s'' out') \<Rightarrow> (k, Continue s'' (out @ out'))
         | (k, Finish out') \<Rightarrow> (k, Finish (out @ out'))))"
  by (induction xs arbitrary: i s) (auto split: verdict_of.splits prod.splits)

lemma handle_entries_id: "snd (handle_entries c clock es i s) = snd (handle_entries c clock es j s)"
  by (cases es) simp_all

lemma handle_entries_last:
  "handle_entries c clock es i s = (j, Continue s' out) \<Longrightarrow> j = (if es = [] then i else tse_ID (last es))"
proof (induction es arbitrary: i s j s' out)
  case (Cons e es)
  then show ?case
    by (fastforce split: verdict_of.splits prod.splits if_splits)
qed simp

lemma consume_append:
  "consume c clock (xs @ ys) s =
   (case consume c clock xs s of
      Finish out \<Rightarrow> Finish out
    | Continue s' out \<Rightarrow>
        (case consume c clock ys s' of Continue s'' out' \<Rightarrow> Continue s'' (out @ out') | Finish out' \<Rightarrow> Finish (out @ out')))"
proof -
  obtain j v where xs: "handle_entries c clock xs [] s = (j, v)" by fastforce
  show ?thesis
  proof (cases v)
    case (Continue s' out)
    obtain k u where ys: "handle_entries c clock ys j s' = (k, u)" by fastforce
    then have "consume c clock ys s' = u"
      using handle_entries_id [of c clock ys "[]" s' j] by (simp add: consume_def)
    with xs ys Continue show ?thesis
      by (cases u) (simp_all add: consume_def handle_entries_append)
  next
    case (Finish out)
    with xs show ?thesis by (simp add: consume_def handle_entries_append)
  qed
qed

lemma after_append: "tse_ID e \<notin> tse_ID ` set xs \<Longrightarrow> after (xs @ e # ys) (tse_ID e) = ys"
  by (induction xs) auto

lemma rest_last:
  assumes "log_ok log start" and "log = xs @ ys" and "xs \<noteq> []"
  shows "rest start log (tse_ID (last xs)) = ys"
proof -
  have xs: "log = butlast xs @ last xs # ys" using assms(2,3) by simp
  then have "tse_ID (last xs) \<noteq> start" using assms(1) by (auto simp: log_ok_def)
  moreover have "tse_ID (last xs) \<notin> tse_ID ` set (butlast xs)"
    using assms(1) xs by (auto simp: log_ok_def)
  ultimately show ?thesis
    by (subst xs) (simp add: rest_def after_append)
qed

lemma rest_seen:
  assumes "log_ok log start" and "log = seen @ todo" and "i = (if seen = [] then start else tse_ID (last seen))"
  shows "rest start log i = todo"
  using rest_last [OF assms(1,2)] assms(2,3) by (cases "seen = []") (auto simp: rest_def)

text \<open>
  Whatever the batches, what a loop has put out is what the consumer puts out for a beginning of
  the log, followed by the closing output of a loop that has ended otherwise.
\<close>

definition cut_short :: "('e, 's, 'o) consumer \<Rightarrow> 'o list \<Rightarrow> bool" where
  "cut_short c out \<longleftrightarrow> out = c_gone c \<or> out = c_late c \<or> (\<exists>e. out = c_failed c e)"

lemma event_loop_log:
  assumes "log_ok log start" and "reads_log rd log start"
    and "event_loop c clock rd polls i s r = (out, fin, r_end)"
    and "log = seen @ todo" and "i = (if seen = [] then start else tse_ID (last seen))"
  shows "\<exists>n. let v = consume c clock (take n todo) s in
      (\<not> fin \<and> \<not> finished v \<and> out = outputs v) \<or>
      (fin \<and> finished v \<and> out = outputs v) \<or>
      (fin \<and> \<not> finished v \<and> (\<exists>tail. cut_short c tail \<and> out = outputs v @ tail))"
  using assms(3-5)
proof (induction polls arbitrary: i s r out seen todo)
  case Nil
  then show ?case by (intro exI [of _ 0]) (simp add: consume_def)
next
  case (Cons p polls)
  obtain gone late where p: "p = (gone, late)" by fastforce
  show ?case
  proof (cases "gone \<or> late")
    case True
    with Cons.prems p show ?thesis
      by (intro exI [of _ 0]) (auto simp: consume_def cut_short_def split: if_splits)
  next
    case False
    obtain ans r' where rd: "rd i r = (ans, r')" by fastforce
    show ?thesis
    proof (cases ans)
      case (Inl e)
      with Cons.prems p False rd show ?thesis
        by (intro exI [of _ 0]) (auto simp: consume_def cut_short_def)
    next
      case (Inr es)
      have "rest start log i = todo" using rest_seen [OF assms(1) Cons.prems(2,3)] .
      moreover obtain k where "es = take k (rest start log i)"
        using assms(2) rd Inr unfolding reads_log_def by (metis fst_conv)
      ultimately have es: "es = take k todo" by simp
      obtain j v where h: "handle_entries c clock es i s = (j, v)" by fastforce
      then have cons: "consume c clock es s = v"
        using handle_entries_id [of c clock es "[]" s i] by (simp add: consume_def)
      show ?thesis
      proof (cases v)
        case (Finish o1)
        with Cons.prems(1) p False rd Inr h cons es show ?thesis
          by (intro exI [of _ k]) simp
      next
        case (Continue s' o1)
        obtain out' where loop: "event_loop c clock rd polls j s' r' = (out', fin, r_end)" and out: "out = o1 @ out'"
          using Cons.prems(1) p False rd Inr h Continue by (auto split: prod.splits)
        have "j = (if es = [] then i else tse_ID (last es))"
          by (rule handle_entries_last [OF h [unfolded Continue]])
        then have j: "j = (if seen @ es = [] then start else tse_ID (last (seen @ es)))"
          using Cons.prems(3) by auto
        have "log = (seen @ es) @ drop k todo" using Cons.prems(2) es by simp
        from Cons.IH [OF loop this j] obtain n where n:
          "let v = consume c clock (take n (drop k todo)) s' in
             (\<not> fin \<and> \<not> finished v \<and> out' = outputs v) \<or> (fin \<and> finished v \<and> out' = outputs v) \<or>
             (fin \<and> \<not> finished v \<and> (\<exists>tail. cut_short c tail \<and> out' = outputs v @ tail))" by blast
        have "es @ take n (drop k todo) = take (k + n) todo"
          by (simp only: es take_add)
        then have all: "consume c clock (take (k + n) todo) s =
            (case consume c clock (take n (drop k todo)) s' of
               Continue s'' o' \<Rightarrow> Continue s'' (o1 @ o') | Finish o' \<Rightarrow> Finish (o1 @ o'))"
          using cons Continue consume_append [of c clock es "take n (drop k todo)" s] by simp
        show ?thesis
        proof (cases "consume c clock (take n (drop k todo)) s'")
          case (Continue s'' o2)
          with n show ?thesis
            unfolding out by (intro exI [of _ "k + n"]) (auto simp: Let_def all)
        next
          case (Finish o2)
          with n show ?thesis
            unfolding out by (intro exI [of _ "k + n"]) (auto simp: Let_def all)
        qed
      qed
    qed
  qed
qed

section \<open>A loop that keeps reading ends\<close>

text \<open>
  Reads that succeed and, while the log has more, are not empty: then a loop that is left alone
  for as many polls as the log has entries puts out what the consumer puts out for the whole log.
\<close>

definition keeps_reading :: "'r reader \<Rightarrow> TokenStreamEntry list \<Rightarrow> string \<Rightarrow> bool" where
  "keeps_reading rd log start \<longleftrightarrow>
     (\<forall>i r. \<exists>es r'. rd i r = (Inr es, r') \<and> (rest start log i \<noteq> [] \<longrightarrow> es \<noteq> []))"

lemma event_loop_complete:
  assumes "log_ok log start" and "reads_log rd log start" and "keeps_reading rd log start"
    and "log = seen @ todo" and "i = (if seen = [] then start else tse_ID (last seen))"
    and "consume c clock todo s = Finish out" and "length todo \<le> n"
  shows "\<exists>r'. event_loop c clock rd (replicate n (False, False)) i s r = (out, True, r')"
  using assms(4-7)
proof (induction n arbitrary: i s r out seen todo)
  case 0
  then show ?case by (simp add: consume_def)
next
  case (Suc n)
  have todo: "rest start log i = todo" using rest_seen [OF assms(1) Suc.prems(1,2)] .
  have "todo \<noteq> []" using Suc.prems(3) by (auto simp: consume_def)
  then obtain es r' where rd: "rd i r = (Inr es, r')" and es: "es \<noteq> []"
    using assms(3) todo unfolding keeps_reading_def by metis
  obtain k where k: "es = take k todo"
    using assms(2) rd todo unfolding reads_log_def by (metis fst_conv)
  obtain j v where h: "handle_entries c clock es i s = (j, v)" by fastforce
  then have cons: "consume c clock es s = v"
    using handle_entries_id [of c clock es "[]" s i] by (simp add: consume_def)
  have all: "consume c clock (es @ drop k todo) s = Finish out" using Suc.prems(3) k by simp
  show ?case
  proof (cases v)
    case (Finish o1)
    with all cons have "o1 = out" by (simp add: consume_append)
    with rd h Finish show ?thesis by simp
  next
    case (Continue s' o1)
    with all cons obtain o2 where o2: "consume c clock (drop k todo) s' = Finish o2" "out = o1 @ o2"
      by (auto simp: consume_append split: verdict_of.splits)
    have "j = (if es = [] then i else tse_ID (last es))"
      by (rule handle_entries_last [OF h [unfolded Continue]])
    with es have j: "j = (if seen @ es = [] then start else tse_ID (last (seen @ es)))" by simp
    have log: "log = (seen @ es) @ drop k todo" using Suc.prems(1) k by simp
    have "length todo = length es + length (drop k todo)" using k by (metis append_take_drop_id length_append)
    moreover have "0 < length es" using es by simp
    ultimately have "length (drop k todo) \<le> n" using Suc.prems(4) by arith
    from Suc.IH [OF log j o2(1) this, of r'] obtain r'' where
      "event_loop c clock rd (replicate n (False, False)) j s' r' = (o2, True, r'')" ..
    with rd h Continue o2(2) show ?thesis by simp
  qed
qed

end
