(* ===== verification/Go_Strings.thy ===== *)
theory Go_Strings
  imports Json
begin

text \<open>
  \<open>strings.Index\<close>, \<open>strings.Count\<close> and \<open>strings.Replace\<close>, and the width of the first rune of a
  string of bytes (\<open>utf8.DecodeRuneInString\<close>; a byte that starts no rune is one of width 1).
\<close>

text \<open>
  \<open>%q\<close>: \<open>strconv.Quote\<close>; bytes outside ASCII are kept, as Go keeps those of the
  characters it counts as printable.
\<close>

definition quote_byte :: "char \<Rightarrow> string" where
  "quote_byte c =
     (let n = (of_char c :: nat) in
      if c = CHR 0x22 \<or> c = CHR 0x5C then [CHR 0x5C, c]
      else if n = 7 then [CHR 0x5C, CHR ''a''] else if n = 8 then [CHR 0x5C, CHR ''b'']
      else if n = 9 then [CHR 0x5C, CHR ''t''] else if n = 10 then [CHR 0x5C, CHR ''n'']
      else if n = 11 then [CHR 0x5C, CHR ''v''] else if n = 12 then [CHR 0x5C, CHR ''f'']
      else if n = 13 then [CHR 0x5C, CHR ''r'']
      else if n < 32 \<or> n = 127 then [CHR 0x5C, CHR ''x'', hex_digit (n div 16), hex_digit (n mod 16)]
      else [c])"

definition strconv_quote :: "string \<Rightarrow> string" where
  "strconv_quote s = CHR 0x22 # concat (map quote_byte s) @ [CHR 0x22]"

fun Index :: "string \<Rightarrow> string \<Rightarrow> nat option" where
  "Index [] p = (if p = [] then Some 0 else None)"
| "Index (c # cs) p = (if HasPrefix (c # cs) p then Some 0 else map_option Suc (Index cs p))"

definition cont_byte :: "nat \<Rightarrow> nat \<Rightarrow> char \<Rightarrow> bool" where
  "cont_byte lo hi c \<longleftrightarrow> lo \<le> of_char c \<and> of_char c \<le> hi"

definition rune_width :: "string \<Rightarrow> nat" where
  "rune_width s =
     (case s of
        [] \<Rightarrow> 0
      | b0 # rest \<Rightarrow>
          (let n = (of_char b0 :: nat);
               lo = (if n = 0xE0 then 0xA0 else if n = 0xF0 then 0x90 else 0x80);
               hi = (if n = 0xED then 0x9F else if n = 0xF4 then 0x8F else 0xBF);
               len = (if 0xC2 \<le> n \<and> n \<le> 0xDF then 2 else if 0xE0 \<le> n \<and> n \<le> 0xEF then 3
                      else if 0xF0 \<le> n \<and> n \<le> 0xF4 then 4 else 1)
           in if len = 1 then 1
              else (case take (len - 1) rest of
                      [] \<Rightarrow> 1
                    | b1 # bs \<Rightarrow>
                        if length (b1 # bs) = len - 1 \<and> cont_byte lo hi b1 \<and> list_all (cont_byte 0x80 0xBF) bs then len else 1)))"

lemma rune_width_pos: "s \<noteq> [] \<Longrightarrow> 0 < rune_width s"
  by (auto simp: rune_width_def Let_def split: list.split)

function RuneCount :: "string \<Rightarrow> nat" where
  "RuneCount s = (if s = [] then 0 else 1 + RuneCount (drop (rune_width s) s))"
  by pat_completeness auto
termination
  by (relation "measure length") (auto simp: rune_width_pos)

declare RuneCount.simps [simp del]

lemma Index_Some:
  "Index s p = Some i \<Longrightarrow> s = take i s @ p @ drop (i + length p) s \<and> i + length p \<le> length s"
proof (induction s arbitrary: i)
  case (Cons c cs)
  show ?case
  proof (cases "HasPrefix (c # cs) p")
    case True
    with Cons.prems have "i = 0" by simp
    moreover have "c # cs = p @ drop (length p) (c # cs)"
      using True by (metis HasPrefix_def append_take_drop_id)
    moreover have "length p \<le> length (c # cs)"
      using True by (metis HasPrefix_def length_take min.cobounded1)
    ultimately show ?thesis by simp
  next
    case False
    with Cons.prems obtain j where "Index cs p = Some j" "i = Suc j" by auto
    with Cons.IH show ?thesis by simp
  qed
qed (simp split: if_splits)

lemma Index_shorter: "Index s p = Some i \<Longrightarrow> p \<noteq> [] \<Longrightarrow> length (drop (i + length p) s) < length s"
proof -
  assume "Index s p = Some i" "p \<noteq> []"
  from Index_Some [OF this(1)] this(2) have "i + length p \<le> length s" "0 < length p" by auto
  then show ?thesis unfolding length_drop by arith
qed

text \<open>The non-overlapping occurrences of a substring, from the left; one more than the runes for an empty one.\<close>

function Count_from :: "string \<Rightarrow> string \<Rightarrow> nat" where
  "Count_from s p =
     (if p = [] then RuneCount s + 1
      else (case Index s p of None \<Rightarrow> 0 | Some i \<Rightarrow> 1 + Count_from (drop (i + length p) s) p))"
  by pat_completeness auto
termination
  by (relation "measure (\<lambda>(s, p). length s)") (auto dest!: Index_shorter)

declare Count_from.simps [simp del]

fun insert_runes :: "nat \<Rightarrow> string \<Rightarrow> string \<Rightarrow> string" where
  "insert_runes 0 s new = s"
| "insert_runes (Suc n) s new = take (rune_width s) s @ new @ insert_runes n (drop (rune_width s) s) new"

fun replace_first :: "nat \<Rightarrow> string \<Rightarrow> string \<Rightarrow> string \<Rightarrow> string" where
  "replace_first 0 s old new = s"
| "replace_first (Suc n) s old new =
     (case Index s old of
        None \<Rightarrow> s
      | Some i \<Rightarrow> take i s @ new @ replace_first n (drop (i + length old) s) old new)"

definition Replace :: "string \<Rightarrow> string \<Rightarrow> string \<Rightarrow> nat \<Rightarrow> string" where
  "Replace s old new n =
     (if old = new then s
      else
        (let m = min n (Count_from s old) in
         if m = 0 then s
         else if old = [] then new @ insert_runes (m - 1) s new
         else replace_first m s old new))"

definition ReplaceAll :: "string \<Rightarrow> string \<Rightarrow> string \<Rightarrow> string" where
  "ReplaceAll s old new = Replace s old new (Count_from s old)"

lemma ReplaceAll_step:
  assumes "old \<noteq> []" and "old \<noteq> new"
  shows "ReplaceAll s old new =
    (case Index s old of None \<Rightarrow> s | Some i \<Rightarrow> take i s @ new @ ReplaceAll (drop (i + length old) s) old new)"
proof -
  have r: "ReplaceAll t old new = replace_first (Count_from t old) t old new" for t
    using assms by (simp add: ReplaceAll_def Replace_def Let_def)
  show ?thesis
    using assms unfolding r by (cases "Index s old") (simp_all add: Count_from.simps [of s old])
qed

lemma ReplaceAll_nonempty: "s \<noteq> [] \<Longrightarrow> ReplaceAll s [a] [b] \<noteq> []"
proof (cases "a = b")
  case True
  assume "s \<noteq> []"
  then show ?thesis by (simp add: ReplaceAll_def Replace_def True)
next
  case False
  assume "s \<noteq> []"
  then show ?thesis using ReplaceAll_step [of "[a]" "[b]" s] False by (simp split: option.split)
qed

lemma Index_None: "Index s p = None \<Longrightarrow> s \<noteq> a @ p @ b"
proof (induction s arbitrary: a)
  case (Cons c cs)
  show ?case
  proof (cases a)
    case Nil
    with Cons.prems show ?thesis by (auto simp: HasPrefix_conv split: if_splits)
  next
    case (Cons x xs)
    with Cons.IH Cons.prems show ?thesis by (auto split: if_splits)
  qed
qed (auto split: if_splits)

text \<open>
  The text \<open>json.Marshal\<close> writes for a string of any bytes: those that are no UTF-8 become
  \<open>U+FFFD\<close>, and the two separators that JavaScript does not take in a string are escaped.
\<close>

definition quote_rune :: "string \<Rightarrow> string" where
  "quote_rune r =
     (if length r = 1 then
        (if (of_char (hd r) :: nat) < 128 then quote_char (hd r) else CHR 0x5C # ''ufffd'')
      else if r = [CHR 0xE2, CHR 0x80, CHR 0xA8] then CHR 0x5C # ''u2028''
      else if r = [CHR 0xE2, CHR 0x80, CHR 0xA9] then CHR 0x5C # ''u2029''
      else r)"

function quote_runes :: "string \<Rightarrow> string" where
  "quote_runes s = (if s = [] then [] else quote_rune (take (rune_width s) s) @ quote_runes (drop (rune_width s) s))"
  by pat_completeness auto
termination
  by (relation "measure length") (auto simp: rune_width_pos)

declare quote_runes.simps [simp del]

definition quote_bytes :: "string \<Rightarrow> string" where
  "quote_bytes s = CHR 0x22 # quote_runes s @ [CHR 0x22]"

end
