(* ===== verification/Http_Api.thy ===== *)
theory Http_Api
  imports Auth Go_Strings Openai_Builders Token_Loop Tools_Handler
begin

text \<open>
  What the API handlers share.  A request carries its method, path, the headers with the key, and
  the JSON value at the start of its body.  \<open>api_env\<close> holds what a request meets outside the
  handlers: the clock, the random source, the key derivation, the Redis server, whether the
  client is gone at each poll; \<open>ae_source\<close> gives the bytes the client wrote for a value of its body.
\<close>

section \<open>Requests\<close>

record http_request =
  rq_method :: string
  rq_path :: string
  rq_auth :: string
  rq_apiKey :: string
  rq_body :: raw

record entry_env =
  ee_now :: "nat \<Rightarrow> int"
  ee_rnd :: "nat \<Rightarrow> string"

record 'r api_env =
  ae_idkey :: argon2
  ae_check :: int
  ae_expiry :: int
  ae_redis :: "'r redis"
  ae_jsonErr :: string
  ae_rnd :: string
  ae_source :: "json \<Rightarrow> string"
  ae_stamp :: string
  ae_unix :: int
  ae_lateUnix :: int
  ae_flusher :: bool
  ae_start :: int
  ae_polls :: "(bool \<times> int) list"
  ae_clock :: "string \<Rightarrow> entry_env"

definition extractBearerToken :: "http_request \<Rightarrow> string" where
  "extractBearerToken r =
     (let auth = rq_auth r in
      if auth = [] then []
      else if \<not> HasPrefix auth ''Bearer '' then []
      else TrimSpace (drop (length ''Bearer '') auth))"

section \<open>Responses\<close>

datatype http_out =
    OReply int json
  | OStatus int
  | OStream
  | OChunk ChatCompletionChunk
  | OEvent json
  | ODone

text \<open>The text of the body: \<open>Encode\<close> ends a document with a newline.\<close>

fun out_text :: "http_out \<Rightarrow> string" where
  "out_text (OReply status doc) = json_text doc @ [CHR 0x0A]"
| "out_text (OStatus status) = []"
| "out_text OStream = []"
| "out_text (OChunk c) = FormatSSE c"
| "out_text (OEvent j) = ''data: '' @ json_text j @ [CHR 0x0A, CHR 0x0A]"
| "out_text ODone = FormatSSEDone"

definition error_doc :: "string \<Rightarrow> string \<Rightarrow> json" where
  "error_doc errType message = enc_Oai_ErrorResponse (NewErrorResponse message errType [])"

definition writeErrorJSON :: "int \<Rightarrow> string \<Rightarrow> string \<Rightarrow> http_out list" where
  "writeErrorJSON status errType message = [OReply status (error_doc errType message)]"

text \<open>
  The check of the bearer token, which the handlers share: \<open>None\<close> when the request is
  authorized, or else the answer; a panic of the key derivation ends the request unanswered.
\<close>

definition bearer_auth :: "'r api_env \<Rightarrow> http_request \<Rightarrow> Verifier \<Rightarrow> http_out list option \<times> Verifier" where
  "bearer_auth env rq v =
     (let apiKey = extractBearerToken rq in
      if apiKey = [] then (Some (writeErrorJSON 401 ''authentication_error'' ''missing Bearer token''), v)
      else
        (case VerifyAPIKey (ae_idkey env) (ae_check env) (ae_expiry env) apiKey v of
           (answer, v') \<Rightarrow>
             ((case answer of
                 VKey True \<Rightarrow> None
               | VPanic \<Rightarrow> Some []
               | _ \<Rightarrow> Some (writeErrorJSON 401 ''authentication_error'' ''invalid API key'')),
              v')))"

definition refused :: "http_out list \<Rightarrow> int set \<Rightarrow> bool" where
  "refused out statuses \<longleftrightarrow> out = [] \<or> (\<exists>status doc. out = [OReply status doc] \<and> status \<in> statuses)"

lemma VerifyAPIKey_refuses:
  assumes "cache_ok (ae_idkey env) (v_cache v)" and "hashes_ok v"
    and "VerifyKey (ae_idkey env) key (v_apiHash v) \<noteq> VKey True"
  shows "fst (VerifyAPIKey (ae_idkey env) (ae_check env) (ae_expiry env) key v) \<noteq> VKey True"
  using verify_step_correct [OF assms(1,2), of "(RAPI, ae_check env, ae_expiry env, key)"] assms(3)
  by (cases "VerifyAPIKey (ae_idkey env) (ae_check env) (ae_expiry env) key v") (auto split: if_splits)

lemma VerifyAPIKey_keeps:
  assumes "cache_ok (ae_idkey env) (v_cache v)" and "hashes_ok v"
    and "VerifyAPIKey (ae_idkey env) (ae_check env) (ae_expiry env) key v = (a, v')"
  shows "cache_ok (ae_idkey env) (v_cache v') \<and> hashes_ok v' \<and> v_apiHash v' = v_apiHash v"
  using verify_step_correct [OF assms(1,2), of "(RAPI, ae_check env, ae_expiry env, key)" a v'] assms
    verifyWithCache_correct(4) [of "ae_idkey env" v "v_apiHash v" "ae_check env" "ae_expiry env" key]
  by (auto simp: VerifyAPIKey_def hashes_ok_def split: if_splits)

lemma bearer_auth_refuses:
  assumes "cache_ok (ae_idkey env) (v_cache v)" and "hashes_ok v"
    and "VerifyKey (ae_idkey env) (extractBearerToken rq) (v_apiHash v) \<noteq> VKey True"
  shows "\<exists>refusal v'. bearer_auth env rq v = (Some refusal, v') \<and> refused refusal {401}"
  using VerifyAPIKey_refuses [OF assms]
  by (auto simp: bearer_auth_def refused_def writeErrorJSON_def Let_def split: prod.split verdict.split)

lemma bearer_auth_keeps:
  assumes "cache_ok (ae_idkey env) (v_cache v)" and "hashes_ok v" and "bearer_auth env rq v = (res, v')"
  shows "cache_ok (ae_idkey env) (v_cache v') \<and> hashes_ok v' \<and> v_apiHash v' = v_apiHash v"
  using assms VerifyAPIKey_keeps [OF assms(1,2)]
  by (fastforce simp: bearer_auth_def Let_def split: if_splits prod.splits)

text \<open>\<open>json.Unmarshal\<close> of a raw value; an empty one is an error.\<close>

definition from_raw :: "'a decoder \<Rightarrow> raw \<Rightarrow> 'a \<Rightarrow> 'a \<times> bool" where
  "from_raw d r cur = (case r of None \<Rightarrow> (cur, False) | Some j \<Rightarrow> d j cur)"

definition error_message :: "raw \<Rightarrow> string" where
  "error_message data =
     (let errData = fst (from_raw (dec_map [] dec_string) data []) in
      case mget errData ''error'' of
        None \<Rightarrow> ''internal error''
      | Some e \<Rightarrow> if e = [] then ''internal error'' else e)"

definition job_reader :: "'r api_env \<Rightarrow> string \<Rightarrow> string \<Rightarrow> 'r reader" where
  "job_reader env prefix jobID lastID r =
     TokenStream_Read (ae_redis env) prefix jobID lastID 100 1000000000 r"

definition polls_until :: "int \<Rightarrow> (bool \<times> int) list \<Rightarrow> (bool \<times> bool) list" where
  "polls_until deadline polls = map (\<lambda>(gone, now). (gone, deadline < now)) polls"

text \<open>The dash in some of the texts, in UTF-8.\<close>

definition em_dash :: string where
  "em_dash = [CHR 0xE2, CHR 0x80, CHR 0x94]"

section \<open>The log of a job\<close>

text \<open>
  What the response loops rely on: a read of the job's stream answers with entries that follow
  the given ID, in order and without a gap, as they were published.
\<close>

definition serves_log :: "'r redis \<Rightarrow> string \<Rightarrow> TokenStreamEntry list \<Rightarrow> bool" where
  "serves_log R key log \<longleftrightarrow>
     (\<forall>i n b r results r'. r_XRead R key i n b r = (Inr results, r') \<longrightarrow>
        (\<exists>k. concat (map snd results) =
           map (\<lambda>e. event_message (tse_ID e) (tse_Event e)) (take k (rest ''0-0'' log i))))"

lemma token_entries_log:
  assumes "list_all (\<lambda>e. wf_TokenEvent (tse_Event e)) es"
  shows "token_entries (map (\<lambda>e. event_message (tse_ID e) (tse_Event e)) es) = Inr es"
  using assms token_entries_published [of "map (\<lambda>e. (tse_ID e, tse_Event e)) es"]
  by (simp add: list_all_iff comp_def) (simp add: map_idI)

lemma set_after: "set (after log i) \<subseteq> set log"
  by (induction log) auto

lemma set_rest: "set (rest start log i) \<subseteq> set log"
  by (simp add: rest_def set_after)

lemma job_reader_log:
  assumes "serves_log (ae_redis env) (streamKey prefix jobID) log"
    and "list_all (\<lambda>e. wf_TokenEvent (tse_Event e)) log"
  shows "reads_log (job_reader env prefix jobID) log ''0-0''"
  unfolding reads_log_def
proof (intro allI impI)
  fix i r es assume es: "fst (job_reader env prefix jobID i r) = Inr es"
  let ?x = "r_XRead (ae_redis env) (streamKey prefix jobID) i 100 (Some 1000000000) r"
  show "\<exists>k. es = take k (rest ''0-0'' log i)"
  proof (cases "fst ?x")
    case (Inl e)
    with es have "es = []"
      by (cases ?x; cases e) (auto simp: job_reader_def TokenStream_Read_def)
    then show ?thesis by (intro exI [of _ 0]) simp
  next
    case (Inr results)
    then obtain r' where x: "?x = (Inr results, r')" by (cases ?x) auto
    with assms(1) obtain k where k: "concat (map snd results) =
        map (\<lambda>e. event_message (tse_ID e) (tse_Event e)) (take k (rest ''0-0'' log i))"
      unfolding serves_log_def by blast
    have "set (take k (rest ''0-0'' log i)) \<subseteq> set log"
      by (rule subset_trans [OF set_take_subset set_rest])
    with assms(2) have "list_all (\<lambda>e. wf_TokenEvent (tse_Event e)) (take k (rest ''0-0'' log i))"
      by (auto simp: list_all_iff)
    from token_entries_log [OF this] have "token_entries (concat (map snd results)) = Inr (take k (rest ''0-0'' log i))"
      by (simp only: k)
    with es x show ?thesis
      by (intro exI [of _ k]) (simp add: job_reader_def TokenStream_Read_def)
  qed
qed

definition ongoing :: "TokenStreamEntry \<Rightarrow> bool" where
  "ongoing e \<longleftrightarrow> te_Type (tse_Event e) \<notin> {''done'', ''error''}"

lemma consume_one: "consume c clock [e] t = c_event c (clock (tse_ID e)) (tse_Event e) t"
  by (cases "c_event c (clock (tse_ID e)) (tse_Event e) t") (simp_all add: consume_def)

section \<open>A server for the witnesses\<close>

abbreviation demo_entries :: "TokenStreamEntry list" where
  "demo_entries \<equiv>
     [\<lparr>tse_ID = ''1-0'', tse_Event = \<lparr>te_Type = ''reasoning_token'', te_Data = Some (JStr ''hm'')\<rparr>\<rparr>,
      \<lparr>tse_ID = ''2-0'', tse_Event = \<lparr>te_Type = ''token'', te_Data = Some (JStr ''hi'')\<rparr>\<rparr>,
      \<lparr>tse_ID = ''3-0'', tse_Event = \<lparr>te_Type = ''token'', te_Data = Some (JStr ''!'')\<rparr>\<rparr>]"

abbreviation demo_done :: TokenStreamEntry where
  "demo_done \<equiv> \<lparr>tse_ID = ''4-0'',
     tse_Event = \<lparr>te_Type = ''done'',
       te_Data = Some (enc_CompleteMessage (zero_CompleteMessage\<lparr>com_full := ''hi!''\<rparr>))\<rparr>\<rparr>"

abbreviation demo_log :: "TokenStreamEntry list" where
  "demo_log \<equiv> demo_entries @ [demo_done]"

definition demo_server :: "TokenStreamEntry list \<Rightarrow> pel redis" where
  "demo_server log = (demo_redis [])\<lparr>r_XRead := \<lambda>key i n b p.
     (Inr [(key, map (\<lambda>e. event_message (tse_ID e) (tse_Event e)) (rest ''0-0'' log i))], p)\<rparr>"

definition demo_clock :: "string \<Rightarrow> entry_env" where
  "demo_clock i = \<lparr>ee_now = \<lambda>n. 0, ee_rnd = \<lambda>n. ''00''\<rparr>"

definition demo_config :: Config where
  "demo_config = \<lparr>cfg_Port = 8080, cfg_Host = [], cfg_RedisURL = [], cfg_AdminKeyHash = [], cfg_APIKeyHash = [],
     cfg_ToolsKeyHash = [], cfg_AllowedTools = [], cfg_ToolCredentials = [], cfg_ModelName = ''m'',
     cfg_Quantization = [], cfg_ContextSize = 0, cfg_MaxParallel = 1, cfg_ModelEntry = None, cfg_WorkerType = [],
     cfg_CLIType = [], cfg_CLITools = [], cfg_HeartbeatInterval = 0, cfg_DeadWorkerTimeout = 0,
     cfg_JobTimeout = 300, cfg_AuthCacheTTL = 0, cfg_MCPExposeLLM = False, cfg_RegistryFile = []\<rparr>"

definition demo_api :: "pel api_env" where
  "demo_api = \<lparr>ae_idkey = pad_idkey, ae_check = 0, ae_expiry = 0, ae_redis = demo_server demo_log,
     ae_jsonErr = ''EOF'', ae_rnd = ''00'', ae_source = json_text, ae_stamp = [], ae_unix = 0, ae_lateUnix = 0, ae_flusher = True, ae_start = 0,
     ae_polls = replicate 4 (False, 0), ae_clock = demo_clock\<rparr>"

lemma length_rest: "length (rest start log i) \<le> length log"
proof -
  have "length (after log i) \<le> length log" by (induction log) auto
  then show ?thesis by (simp add: rest_def)
qed

lemma demo_server_serves: "serves_log (demo_server log) key log"
  unfolding serves_log_def demo_server_def
  by (intro allI impI exI [where x = "length log"]) (auto simp: length_rest)

lemma demo_log_ok: "log_ok demo_log ''0-0''" "list_all (\<lambda>e. wf_TokenEvent (tse_Event e)) demo_log"
  by code_simp+

end
