(* ===== verification/Api_Handler.thy ===== *)
theory Api_Handler
  imports Http_Api Auth Gpu_Pool
begin

text \<open>
  \<open>internal/router/apihandler.go\<close>: the OpenAI-compatible API.  A response is the list of what is
  written: a status with a document, or the head of an event stream and its events.  The
  consumers say what each response loop does with one token event (see \<open>Token_Loop\<close>).
\<close>

section \<open>The handler\<close>

record api_handler =
  ah_verifier :: Verifier
  ah_pool :: pool
  ah_queue :: JobQueue
  ah_prefix :: string
  ah_config :: Config

section \<open>Events of the chat endpoint\<close>

definition complete_usage :: "CompleteMessage \<Rightarrow> Oai_Usage" where
  "complete_usage c =
     \<lparr>ou_cache = com_cache c, ou_prompt = com_input c, ou_completion = com_output c,
      ou_total = add_int (com_input c) (com_output c)\<rparr>"

definition openai_call :: "nat \<Rightarrow> ToolCall \<Rightarrow> Oai_ToolCall" where
  "openai_call i tc =
     \<lparr>otc_index = int i, otc_id = tc_id tc, otc_type = tc_type tc,
      otc_fn = \<lparr>otcf_name = tf_name (tc_fn tc), otcf_args = tf_args (tc_fn tc)\<rparr>\<rparr>"

definition openai_calls :: "ToolCall list \<Rightarrow> Oai_ToolCall list" where
  "openai_calls calls = map (\<lambda>(i, tc). openai_call i tc) (zip [0..<length calls] calls)"

definition chat_stream_event ::
    "string \<Rightarrow> string \<Rightarrow> entry_env \<Rightarrow> TokenEvent \<Rightarrow> unit \<Rightarrow> (unit, http_out) verdict_of" where
  "chat_stream_event completionID model env ev s =
     (if te_Type ev = ''token'' then
        (case from_raw dec_string (te_Data ev) [] of
           (token, True) \<Rightarrow> Continue () [OChunk (NewStreamingChunk (ee_now env 0) completionID model token)]
         | (_, False) \<Rightarrow> Continue () [])
      else if te_Type ev = ''reasoning_token'' then
        (case from_raw dec_string (te_Data ev) [] of
           (token, True) \<Rightarrow> Continue () [OChunk (NewStreamingReasoningChunk (ee_now env 0) completionID model token)]
         | (_, False) \<Rightarrow> Continue () [])
      else if te_Type ev = ''done'' then
        (let complete = fst (from_raw dec_CompleteMessage (te_Data ev) zero_CompleteMessage);
             usage = (if 0 < com_input complete \<or> 0 < com_output complete \<or> 0 < com_cache complete
                      then Some (complete_usage complete) else None);
             n = length (com_calls complete)
         in if com_calls complete = [] then
              Finish [OChunk (NewStreamingDoneChunk (ee_now env 0) completionID model ''stop'' usage), ODone]
            else
              Finish (map OChunk (NewStreamingToolCallChunks (ee_now env) completionID model (openai_calls (com_calls complete))) @
                      [OChunk (NewStreamingDoneChunk (ee_now env n) completionID model ''tool_calls'' usage), ODone]))
      else if te_Type ev = ''error'' then
        Finish [OEvent (error_doc ''server_error'' (error_message (te_Data ev))), ODone]
      else Continue () [])"

definition chat_stream :: "int \<Rightarrow> string \<Rightarrow> string \<Rightarrow> (entry_env, unit, http_out) consumer" where
  "chat_stream now completionID model =
     \<lparr>c_event = chat_stream_event completionID model,
      c_gone = [],
      c_late = [OChunk (NewStreamingDoneChunk now completionID model ''stop'' None), ODone],
      c_failed = (\<lambda>e. [])\<rparr>"

text \<open>The builders of the blocking loop.\<close>

record accumulated =
  ac_content :: string
  ac_reasoning :: string

definition chat_blocking_event ::
    "string \<Rightarrow> entry_env \<Rightarrow> TokenEvent \<Rightarrow> accumulated \<Rightarrow> (accumulated, http_out) verdict_of" where
  "chat_blocking_event model env ev s =
     (if te_Type ev = ''token'' then
        (case from_raw dec_string (te_Data ev) [] of
           (token, True) \<Rightarrow> Continue (s\<lparr>ac_content := ac_content s @ token\<rparr>) []
         | (_, False) \<Rightarrow> Continue s [])
      else if te_Type ev = ''reasoning_token'' then
        (case from_raw dec_string (te_Data ev) [] of
           (token, True) \<Rightarrow> Continue (s\<lparr>ac_reasoning := ac_reasoning s @ token\<rparr>) []
         | (_, False) \<Rightarrow> Continue s [])
      else if te_Type ev = ''done'' then
        (let (complete, ok) = from_raw dec_CompleteMessage (te_Data ev) zero_CompleteMessage;
             content = (if ok \<and> com_full complete \<noteq> [] then com_full complete else ac_content s);
             reasoning = (if ok \<and> com_reasoning complete \<noteq> [] then com_reasoning complete else ac_reasoning s);
             toolCalls = (if ok then openai_calls (com_calls complete) else []);
             usage = (if ok then complete_usage complete
                      else \<lparr>ou_cache = com_cache complete, ou_prompt = 0, ou_completion = 0, ou_total = 0\<rparr>);
             rnd = ee_rnd env 0;
             created = ee_now env 0
         in Finish [OReply 200 (enc_ChatCompletionResponse
              (if toolCalls \<noteq> [] then NewToolCallResponse rnd created model toolCalls (Some usage)
               else if reasoning \<noteq> [] then
                 NewNonStreamingResponseWithReasoning rnd created model content reasoning ''stop'' (Some usage)
               else NewNonStreamingResponse rnd created model content ''stop'' (Some usage)))])
      else if te_Type ev = ''error'' then
        Finish (writeErrorJSON 500 ''server_error'' (error_message (te_Data ev)))
      else Continue s [])"

definition blocking_replies ::
    "(entry_env \<Rightarrow> TokenEvent \<Rightarrow> accumulated \<Rightarrow> (accumulated, http_out) verdict_of) \<Rightarrow>
     (entry_env, accumulated, http_out) consumer" where
  "blocking_replies event =
     \<lparr>c_event = event,
      c_gone = writeErrorJSON 504 ''server_error'' ''client disconnected'',
      c_late = writeErrorJSON 504 ''server_error'' ''job timed out'',
      c_failed = (\<lambda>e. writeErrorJSON 500 ''server_error'' (''failed to read response: '' @ e))\<rparr>"

section \<open>Events of the legacy endpoint\<close>

definition legacy_chunk :: "string \<Rightarrow> string \<Rightarrow> int \<Rightarrow> string \<Rightarrow> string \<Rightarrow> json" where
  "legacy_chunk completionID model created text finish =
     enc_CompletionResponse
       \<lparr>lcr_id = completionID, lcr_object = ''text_completion'', lcr_created = created, lcr_model = model,
        lcr_choices = [\<lparr>lch_text = text, lch_index = 0, lch_logprobs = None, lch_finish = finish\<rparr>],
        lcr_usage = None\<rparr>"

definition legacy_stream_event ::
    "string \<Rightarrow> string \<Rightarrow> entry_env \<Rightarrow> TokenEvent \<Rightarrow> unit \<Rightarrow> (unit, http_out) verdict_of" where
  "legacy_stream_event completionID model env ev s =
     (if te_Type ev = ''token'' then
        (case from_raw dec_string (te_Data ev) [] of
           (token, True) \<Rightarrow> Continue () [OEvent (legacy_chunk completionID model (ee_now env 0) token [])]
         | (_, False) \<Rightarrow> Continue () [])
      else if te_Type ev = ''done'' then
        Finish [OEvent (legacy_chunk completionID model (ee_now env 0) [] ''stop''), ODone]
      else if te_Type ev = ''error'' then Finish [ODone]
      else Continue () [])"

definition legacy_stream :: "string \<Rightarrow> string \<Rightarrow> (entry_env, unit, http_out) consumer" where
  "legacy_stream completionID model =
     \<lparr>c_event = legacy_stream_event completionID model, c_gone = [], c_late = [], c_failed = (\<lambda>e. [])\<rparr>"

definition legacy_blocking_event ::
    "string \<Rightarrow> entry_env \<Rightarrow> TokenEvent \<Rightarrow> accumulated \<Rightarrow> (accumulated, http_out) verdict_of" where
  "legacy_blocking_event model env ev s =
     (if te_Type ev = ''token'' then
        (case from_raw dec_string (te_Data ev) [] of
           (token, True) \<Rightarrow> Continue (s\<lparr>ac_content := ac_content s @ token\<rparr>) []
         | (_, False) \<Rightarrow> Continue s [])
      else if te_Type ev = ''done'' then
        (let (complete, ok) = from_raw dec_CompleteMessage (te_Data ev) zero_CompleteMessage;
             content = (if ok \<and> com_full complete \<noteq> [] then com_full complete else ac_content s);
             usage = (if ok then complete_usage complete
                      else \<lparr>ou_cache = com_cache complete, ou_prompt = 0, ou_completion = 0, ou_total = 0\<rparr>)
         in Finish [OReply 200 (enc_CompletionResponse
              (NewCompletionResponse (ee_rnd env 0) (ee_now env 0) model content ''stop'' (Some usage)))])
      else if te_Type ev = ''error'' then
        Finish (writeErrorJSON 500 ''server_error'' (error_message (te_Data ev)))
      else Continue s [])"

section \<open>The response loops\<close>

definition response_loop ::
    "'r api_env \<Rightarrow> api_handler \<Rightarrow> (entry_env, 's, http_out) consumer \<Rightarrow> string \<Rightarrow> 's \<Rightarrow> 'r \<Rightarrow>
     http_out list \<times> bool \<times> 'r" where
  "response_loop env h c jobID s r =
     event_loop c (ae_clock env) (job_reader env (ah_prefix h) jobID)
       (polls_until (ae_start env + cfg_JobTimeout (ah_config h)) (ae_polls env)) ''0-0'' s r"

definition streamed :: "http_out list \<Rightarrow> http_out list \<times> bool \<times> 'r \<Rightarrow> http_out list \<times> bool \<times> 'r" where
  "streamed head res = (case res of (out, fin, r) \<Rightarrow> (head @ out, fin, r))"

definition streamChatResponse ::
    "'r api_env \<Rightarrow> api_handler \<Rightarrow> string \<Rightarrow> string \<Rightarrow> 'r \<Rightarrow> http_out list \<times> bool \<times> 'r" where
  "streamChatResponse env h jobID model r =
     (if \<not> ae_flusher env then (writeErrorJSON 500 ''server_error'' ''streaming not supported'', True, r)
      else streamed [OStream, OChunk (NewStreamingRoleChunk (ae_unix env) jobID model)]
             (response_loop env h (chat_stream (ae_lateUnix env) jobID model) jobID () r))"

definition blockingChatResponse ::
    "'r api_env \<Rightarrow> api_handler \<Rightarrow> string \<Rightarrow> string \<Rightarrow> 'r \<Rightarrow> http_out list \<times> bool \<times> 'r" where
  "blockingChatResponse env h jobID model r =
     response_loop env h (blocking_replies (chat_blocking_event model)) jobID
       \<lparr>ac_content = [], ac_reasoning = []\<rparr> r"

definition streamLegacyResponse ::
    "'r api_env \<Rightarrow> api_handler \<Rightarrow> string \<Rightarrow> string \<Rightarrow> 'r \<Rightarrow> http_out list \<times> bool \<times> 'r" where
  "streamLegacyResponse env h jobID model r =
     (if \<not> ae_flusher env then (writeErrorJSON 500 ''server_error'' ''streaming not supported'', True, r)
      else streamed [OStream]
             (response_loop env h (legacy_stream (NewLegacyCompletionID (ae_rnd env)) model) jobID () r))"

definition blockingLegacyResponse ::
    "'r api_env \<Rightarrow> api_handler \<Rightarrow> string \<Rightarrow> string \<Rightarrow> 'r \<Rightarrow> http_out list \<times> bool \<times> 'r" where
  "blockingLegacyResponse env h jobID model r =
     response_loop env h (blocking_replies (legacy_blocking_event model)) jobID
       \<lparr>ac_content = [], ac_reasoning = []\<rparr> r"

section \<open>The handlers\<close>

type_synonym 'r api_result = "(http_out list \<times> bool \<times> 'r) \<times> api_handler"

definition requireAuth :: "'r api_env \<Rightarrow> http_request \<Rightarrow> api_handler \<Rightarrow> http_out list option \<times> api_handler" where
  "requireAuth env rq h =
     (case bearer_auth env rq (ah_verifier h) of (refusal, v) \<Rightarrow> (refusal, h\<lparr>ah_verifier := v\<rparr>))"

definition authorized ::
    "'r api_env \<Rightarrow> http_request \<Rightarrow> (api_handler \<Rightarrow> http_out list \<times> bool \<times> 'r) \<Rightarrow> api_handler \<Rightarrow> 'r \<Rightarrow> 'r api_result" where
  "authorized env rq body h r =
     (case requireAuth env rq h of
        (Some refusal, h') \<Rightarrow> ((refusal, True, r), h')
      | (None, h') \<Rightarrow> (body h', h'))"

definition handleHealth :: "api_handler \<Rightarrow> http_out list" where
  "handleHealth h =
     (let snap = Snapshot (ah_pool h);
          totalSlots = sum_list (map ws_max snap);
          activeJobs = sum_list (map (\<lambda>ws. int (length (ws_jobs ws))) snap)
      in [OReply 200 (JObj
           [(''active_jobs'', JNum (NInt activeJobs)),
            (''available'', JNum (NInt (totalSlots - activeJobs))),
            (''status'', JStr ''ok''),
            (''total_slots'', JNum (NInt totalSlots)),
            (''workers'', JNum (NInt (int (length snap))))])])"

definition protocol_call :: "Oai_ToolCall \<Rightarrow> ToolCall" where
  "protocol_call tc =
     \<lparr>tc_id = otc_id tc, tc_type = otc_type tc,
      tc_fn = \<lparr>tf_name = otcf_name (otc_fn tc), tf_args = otcf_args (otc_fn tc)\<rparr>\<rparr>"

definition protocol_message :: "Oai_Message \<Rightarrow> ChatMessage" where
  "protocol_message m =
     \<lparr>cm_role = omsg_role m, cm_content = omsg_content m, cm_call_id = omsg_call_id m,
      cm_calls = map protocol_call (omsg_calls m)\<rparr>"

definition protocol_tool :: "Oai_Tool \<Rightarrow> Tool" where
  "protocol_tool t =
     \<lparr>tl_type = ot_type t,
      tl_fn = \<lparr>td_name = otf_name (ot_fn t), td_desc = otf_desc (ot_fn t), td_params = otf_params (ot_fn t)\<rparr>\<rparr>"

definition chat_job :: "string \<Rightarrow> ChatCompletionRequest \<Rightarrow> JobMessage" where
  "chat_job jobID req = zero_JobMessage
     \<lparr>jm_type := ''job'', jm_job := jobID,
      jm_messages := map protocol_message (ccr_messages req),
      jm_tools := map protocol_tool (ccr_tools req),
      jm_temp := ccr_temp req, jm_max := ccr_max req, jm_effort := ccr_effort req\<rparr>"

definition submitted ::
    "'r api_env \<Rightarrow> JobMessage \<Rightarrow> (api_handler \<Rightarrow> 'r \<Rightarrow> http_out list \<times> bool \<times> 'r) \<Rightarrow> api_handler \<Rightarrow> 'r \<Rightarrow>
     http_out list \<times> bool \<times> 'r" where
  "submitted env jobMsg respond h r =
     (case enqueueJob (ae_redis env) (ah_queue h) jobMsg r of
        (Some e, r') \<Rightarrow> (writeErrorJSON 503 ''server_error'' e, True, r')
      | (None, r') \<Rightarrow> respond h r')"

definition handleChatCompletion :: "'r api_env \<Rightarrow> http_request \<Rightarrow> api_handler \<Rightarrow> 'r \<Rightarrow> 'r api_result" where
  "handleChatCompletion env rq h r =
     authorized env rq (\<lambda>h'.
       (case from_raw dec_ChatCompletionRequest (rq_body rq) zero_ChatCompletionRequest of
          (_, False) \<Rightarrow> (writeErrorJSON 400 ''invalid_request_error'' (''invalid JSON: '' @ ae_jsonErr env), True, r)
        | (req, True) \<Rightarrow>
            if ccr_messages req = [] then
              (writeErrorJSON 400 ''invalid_request_error'' ''messages array is required'', True, r)
            else
              (let jobID = NewCompletionID (ae_rnd env) in
               submitted env (chat_job jobID req)
                 (\<lambda>h' r'. if ccr_stream req then streamChatResponse env h' jobID (ccr_model req) r'
                          else blockingChatResponse env h' jobID (ccr_model req) r') h' r))) h r"

definition legacy_job :: "string \<Rightarrow> CompletionRequest \<Rightarrow> JobMessage" where
  "legacy_job jobID req = zero_JobMessage
     \<lparr>jm_type := ''job'', jm_job := jobID,
      jm_messages := [\<lparr>cm_role = ''user'', cm_content = ChatContentString (PromptString req),
                        cm_call_id = [], cm_calls = []\<rparr>],
      jm_temp := cr_temp req, jm_max := cr_max req\<rparr>"

definition handleLegacyCompletion :: "'r api_env \<Rightarrow> http_request \<Rightarrow> api_handler \<Rightarrow> 'r \<Rightarrow> 'r api_result" where
  "handleLegacyCompletion env rq h r =
     authorized env rq (\<lambda>h'.
       (case from_raw dec_CompletionRequest (rq_body rq) zero_CompletionRequest of
          (_, False) \<Rightarrow> (writeErrorJSON 400 ''invalid_request_error'' (''invalid JSON: '' @ ae_jsonErr env), True, r)
        | (req, True) \<Rightarrow>
            if PromptString req = [] then
              (writeErrorJSON 400 ''invalid_request_error'' ''prompt is required'', True, r)
            else
              (let jobID = NewCompletionID (ae_rnd env) in
               submitted env (legacy_job jobID req)
                 (\<lambda>h' r'. if cr_stream req then streamLegacyResponse env h' jobID (cr_model req) r'
                          else blockingLegacyResponse env h' jobID (cr_model req) r') h' r))) h r"

definition handleListChatCompletions :: "http_out list" where
  "handleListChatCompletions = [OReply 200 (enc_ListResponse EmptyListResponse)]"

definition handleGetChatCompletion :: "http_out list" where
  "handleGetChatCompletion =
     writeErrorJSON 404 ''not_found_error'' ''No chat completion found. Auxot does not store completions.''"

definition handleDeleteChatCompletion :: "http_out list" where
  "handleDeleteChatCompletion =
     writeErrorJSON 400 ''invalid_request_error'' ''Deleting completions is not supported. Auxot does not store completions.''"

definition handleGetCompletionMessages :: "http_out list" where
  "handleGetCompletionMessages =
     writeErrorJSON 404 ''not_found_error'' ''No chat completion found. Auxot does not store completions.''"

definition handleEmbeddings :: "http_out list" where
  "handleEmbeddings = writeErrorJSON 501 ''not_implemented''
     (''Embedding support is not yet available. '' @
      ''This endpoint requires a worker with embedding capability, which is planned for a future release.'')"

definition served_model :: "int \<Rightarrow> Config \<Rightarrow> Oai_ModelObject" where
  "served_model now cfg =
     \<lparr>omo_id = cfg_ModelName cfg, omo_object = ''model'', omo_created = now, omo_owner = ''auxot''\<rparr>"

definition handleListModels :: "int \<Rightarrow> Config \<Rightarrow> http_out list" where
  "handleListModels now cfg =
     [OReply 200 (enc_Oai_ModelListResponse \<lparr>oml_object = ''list'', oml_data = [served_model now cfg]\<rparr>)]"

definition handleGetModel :: "int \<Rightarrow> Config \<Rightarrow> string \<Rightarrow> http_out list" where
  "handleGetModel now cfg path =
     (let modelID = TrimPrefix path ''/api/openai/models/'' in
      if modelID = [] then writeErrorJSON 404 ''not_found_error'' ''model ID required''
      else if modelID \<noteq> cfg_ModelName cfg then
        writeErrorJSON 404 ''not_found_error'' (''The model '' @ strconv_quote modelID @ '' does not exist'')
      else [OReply 200 (enc_Oai_ModelObject (served_model now cfg))])"

section \<open>Routing\<close>

datatype api_route =
    RHealth | RChat | RListChats | RMessages | RGetChat | RDeleteChat | RLegacy | REmbeddings
  | RModels | RModel | RUnimplemented | RUnknown

definition api_route :: "string \<Rightarrow> string \<Rightarrow> api_route" where
  "api_route method path =
     (if method = ''GET'' \<and> path = ''/health'' then RHealth
      else if method = ''POST'' \<and> path = ''/api/openai/chat/completions'' then RChat
      else if method = ''GET'' \<and> path = ''/api/openai/chat/completions'' then RListChats
      else if HasPrefix path ''/api/openai/chat/completions/'' then
        (let rest = TrimPrefix path ''/api/openai/chat/completions/'' in
         if method = ''GET'' \<and> HasSuffix rest ''/messages'' then RMessages
         else if method = ''GET'' \<and> \<not> Contains rest ''/'' then RGetChat
         else if method = ''DELETE'' \<and> \<not> Contains rest ''/'' then RDeleteChat
         else RUnknown)
      else if method = ''POST'' \<and> path = ''/api/openai/completions'' then RLegacy
      else if method = ''POST'' \<and> path = ''/api/openai/embeddings'' then REmbeddings
      else if method = ''GET'' \<and> path = ''/api/openai/models'' then RModels
      else if method = ''GET'' \<and> HasPrefix path ''/api/openai/models/'' then RModel
      else if HasPrefix path ''/api/openai/'' then RUnimplemented
      else RUnknown)"

definition answer_with :: "'r \<Rightarrow> http_out list \<Rightarrow> api_handler \<Rightarrow> http_out list \<times> bool \<times> 'r" where
  "answer_with r out h = (out, True, r)"

definition Api_ServeHTTP :: "'r api_env \<Rightarrow> http_request \<Rightarrow> api_handler \<Rightarrow> 'r \<Rightarrow> 'r api_result" where
  "Api_ServeHTTP env rq h r =
     (case api_route (rq_method rq) (rq_path rq) of
        RHealth \<Rightarrow> (answer_with r (handleHealth h) h, h)
      | RChat \<Rightarrow> handleChatCompletion env rq h r
      | RListChats \<Rightarrow> authorized env rq (answer_with r handleListChatCompletions) h r
      | RMessages \<Rightarrow> authorized env rq (answer_with r handleGetCompletionMessages) h r
      | RGetChat \<Rightarrow> authorized env rq (answer_with r handleGetChatCompletion) h r
      | RDeleteChat \<Rightarrow> authorized env rq (answer_with r handleDeleteChatCompletion) h r
      | RLegacy \<Rightarrow> handleLegacyCompletion env rq h r
      | REmbeddings \<Rightarrow> authorized env rq (answer_with r handleEmbeddings) h r
      | RModels \<Rightarrow> authorized env rq (answer_with r (handleListModels (ae_unix env) (ah_config h))) h r
      | RModel \<Rightarrow> authorized env rq (answer_with r (handleGetModel (ae_unix env) (ah_config h) (rq_path rq))) h r
      | RUnimplemented \<Rightarrow> (answer_with r (writeErrorJSON 501 ''not_implemented'' ''endpoint not implemented'') h, h)
      | RUnknown \<Rightarrow> (answer_with r (writeErrorJSON 404 ''not_found'' ''endpoint not found'') h, h))"

section \<open>Only a valid key gets an answer\<close>

lemma requireAuth_refuses:
  assumes "cache_ok (ae_idkey env) (v_cache (ah_verifier h))" and "hashes_ok (ah_verifier h)"
    and "VerifyKey (ae_idkey env) (extractBearerToken rq) (v_apiHash (ah_verifier h)) \<noteq> VKey True"
  shows "\<exists>refusal h'. requireAuth env rq h = (Some refusal, h') \<and> refused refusal {401}"
  using bearer_auth_refuses [OF assms] by (auto simp: requireAuth_def)

lemma authorized_refuses:
  assumes "requireAuth env rq h = (Some refusal, h')"
  shows "authorized env rq body h r = ((refusal, True, r), h')"
  using assms by (simp add: authorized_def)

text \<open>
  C21: without a key that verifies against the configured API key hash, every request but the
  health check is refused: with 401, 404 or 501 and an error document, and 401 alone (or the
  end of the request, when the key derivation panics) on every implemented endpoint.  Nothing
  reaches the queue.
\<close>

theorem api_needs_key:
  assumes "cache_ok (ae_idkey env) (v_cache (ah_verifier h))" and "hashes_ok (ah_verifier h)"
    and "VerifyKey (ae_idkey env) (extractBearerToken rq) (v_apiHash (ah_verifier h)) \<noteq> VKey True"
    and "api_route (rq_method rq) (rq_path rq) \<noteq> RHealth"
  shows "\<exists>out h'. Api_ServeHTTP env rq h r = ((out, True, r), h') \<and>
    refused out (case api_route (rq_method rq) (rq_path rq) of
       RUnimplemented \<Rightarrow> {501} | RUnknown \<Rightarrow> {404} | _ \<Rightarrow> {401})"
proof -
  obtain refusal h' where "requireAuth env rq h = (Some refusal, h')" and "refused refusal {401}"
    using requireAuth_refuses [OF assms(1-3)] by blast
  then show ?thesis
    using assms(4)
    by (cases "api_route (rq_method rq) (rq_path rq)")
      (simp_all add: Api_ServeHTTP_def handleChatCompletion_def handleLegacyCompletion_def
        authorized_refuses answer_with_def writeErrorJSON_def refused_def)
qed

section \<open>The two modes of the chat endpoint agree\<close>

definition delta_of :: "http_out \<Rightarrow> Oai_Message" where
  "delta_of o1 =
     (case o1 of
        OChunk c \<Rightarrow> (case map och_delta (occ_choices c) of [Some d] \<Rightarrow> d | _ \<Rightarrow> zero_Oai_Message)
      | _ \<Rightarrow> zero_Oai_Message)"

definition content_text :: "Oai_Message \<Rightarrow> string" where
  "content_text m = (case omsg_content m of Some (JStr s) \<Rightarrow> s | _ \<Rightarrow> [])"

definition streamed_text :: "http_out list \<Rightarrow> string" where
  "streamed_text out = concat (map (content_text \<circ> delta_of) out)"

definition streamed_reasoning :: "http_out list \<Rightarrow> string" where
  "streamed_reasoning out = concat (map (omsg_reasoning \<circ> delta_of) out)"

lemma streamed_append [simp]:
  "streamed_text (xs @ ys) = streamed_text xs @ streamed_text ys"
  "streamed_reasoning (xs @ ys) = streamed_reasoning xs @ streamed_reasoning ys"
  "streamed_text [] = []" "streamed_reasoning [] = []"
  by (simp_all add: streamed_text_def streamed_reasoning_def)

lemma delta_chunk_of [simp]: "delta_of (OChunk (delta_chunk now i m d fin u)) = d"
  by (simp add: delta_of_def delta_chunk_def)

lemmas chunk_defs = NewStreamingChunk_def NewStreamingReasoningChunk_def NewStreamingRoleChunk_def
  NewStreamingDoneChunk_def MessageContentString_def

lemma streamed_chunk:
  "streamed_text [OChunk (NewStreamingChunk now i m t)] = t"
  "streamed_reasoning [OChunk (NewStreamingChunk now i m t)] = []"
  "streamed_text [OChunk (NewStreamingReasoningChunk now i m t)] = []"
  "streamed_reasoning [OChunk (NewStreamingReasoningChunk now i m t)] = t"
  "streamed_text [OChunk (NewStreamingDoneChunk now i m f u), ODone] = []"
  "streamed_reasoning [OChunk (NewStreamingDoneChunk now i m f u), ODone] = []"
  by (simp_all add: streamed_text_def streamed_reasoning_def chunk_defs content_text_def
      zero_Oai_Message_def delta_of_def [of ODone])

lemma chat_modes_step:
  assumes "ongoing e"
  shows "\<exists>out. chat_stream_event i model env (tse_Event e) () = Continue () out \<and>
    chat_blocking_event model env (tse_Event e) s =
      Continue \<lparr>ac_content = ac_content s @ streamed_text out, ac_reasoning = ac_reasoning s @ streamed_reasoning out\<rparr> []"
  using assms
  by (cases s) (auto simp: ongoing_def chat_stream_event_def chat_blocking_event_def streamed_chunk
      split: prod.split bool.split)

lemma chat_modes_prefix:
  assumes "list_all ongoing es"
  shows "\<exists>out. consume (chat_stream now i model) clock es () = Continue () out \<and>
    consume (blocking_replies (chat_blocking_event model)) clock es s =
      Continue \<lparr>ac_content = ac_content s @ streamed_text out, ac_reasoning = ac_reasoning s @ streamed_reasoning out\<rparr> []"
  using assms
proof (induction es arbitrary: s)
  case Nil
  then show ?case by (simp add: consume_def)
next
  case (Cons e es)
  then have "ongoing e" by simp
  then obtain o1 where o1: "chat_stream_event i model (clock (tse_ID e)) (tse_Event e) () = Continue () o1"
      "chat_blocking_event model (clock (tse_ID e)) (tse_Event e) s =
        Continue \<lparr>ac_content = ac_content s @ streamed_text o1, ac_reasoning = ac_reasoning s @ streamed_reasoning o1\<rparr> []"
    using chat_modes_step by blast
  obtain o2 where o2: "consume (chat_stream now i model) clock es () = Continue () o2"
      "consume (blocking_replies (chat_blocking_event model)) clock es
         \<lparr>ac_content = ac_content s @ streamed_text o1, ac_reasoning = ac_reasoning s @ streamed_reasoning o1\<rparr> =
       Continue \<lparr>ac_content = (ac_content s @ streamed_text o1) @ streamed_text o2,
                 ac_reasoning = (ac_reasoning s @ streamed_reasoning o1) @ streamed_reasoning o2\<rparr> []"
    using Cons.IH [of "\<lparr>ac_content = ac_content s @ streamed_text o1, ac_reasoning = ac_reasoning s @ streamed_reasoning o1\<rparr>"]
      Cons.prems by (auto simp only: list.pred_inject accumulated.simps)
  have "consume (chat_stream now i model) clock (e # es) () = Continue () (o1 @ o2)"
    using consume_append [of "chat_stream now i model" clock "[e]" es "()"] o1(1) o2(1)
    by (simp only: consume_one append_Cons append_Nil chat_stream_def consumer.simps verdict_of.case)
  moreover have "consume (blocking_replies (chat_blocking_event model)) clock (e # es) s =
      Continue \<lparr>ac_content = (ac_content s @ streamed_text o1) @ streamed_text o2,
                ac_reasoning = (ac_reasoning s @ streamed_reasoning o1) @ streamed_reasoning o2\<rparr> []"
    using consume_append [of "blocking_replies (chat_blocking_event model)" clock "[e]" es s] o1(2) o2(2)
    by (simp only: consume_one append_Cons append_Nil blocking_replies_def consumer.simps verdict_of.case)
  ultimately show ?case by (intro exI [of _ "o1 @ o2"]) simp
qed


section \<open>The response is the job's log\<close>

text \<open>
  C15: however the tokens of a job come in, the stream a client of the chat endpoint gets is the
  head followed by what the events of the job's log, from its beginning and in order, put out.
  Either the stream has ended with the log's terminal event, or it is still open, or it was cut
  short: by the client, the deadline or a failed read.
\<close>

theorem chat_stream_is_log:
  assumes "serves_log (ae_redis env) (streamKey (ah_prefix h) jobID) log" and "log_ok log ''0-0''"
    and "list_all (\<lambda>e. wf_TokenEvent (tse_Event e)) log" and "ae_flusher env"
    and "streamChatResponse env h jobID model r = (out, fin, r')"
  shows "\<exists>n tail. let v = consume (chat_stream (ae_lateUnix env) jobID model) (ae_clock env) (take n log) () in
     out = [OStream, OChunk (NewStreamingRoleChunk (ae_unix env) jobID model)] @ outputs v @ tail \<and>
     (tail = [] \<and> fin = finished v \<or>
      cut_short (chat_stream (ae_lateUnix env) jobID model) tail \<and> fin \<and> \<not> finished v)"
proof -
  let ?head = "[OStream, OChunk (NewStreamingRoleChunk (ae_unix env) jobID model)]"
  obtain o1 where loop: "response_loop env h (chat_stream (ae_lateUnix env) jobID model) jobID () r = (o1, fin, r')"
      and out: "out = ?head @ o1"
    using assms(4,5) by (auto simp: streamChatResponse_def streamed_def split: prod.splits)
  from event_loop_log [OF assms(2) job_reader_log [OF assms(1,3)] loop [unfolded response_loop_def], of "[]" log]
  obtain n where "let v = consume (chat_stream (ae_lateUnix env) jobID model) (ae_clock env) (take n log) () in
      (\<not> fin \<and> \<not> finished v \<and> o1 = outputs v) \<or> (fin \<and> finished v \<and> o1 = outputs v) \<or>
      (fin \<and> \<not> finished v \<and> (\<exists>tail. cut_short (chat_stream (ae_lateUnix env) jobID model) tail \<and> o1 = outputs v @ tail))"
    by auto
  then show ?thesis unfolding out by (auto simp: Let_def)
qed

text \<open>
  C16: the blocking mode of the chat endpoint answers: if the reads of the job's stream succeed
  and bring something while there is more, the client stays and the deadline does not pass for
  as many polls as the log has entries, the answer is what the whole log amounts to.
\<close>

theorem blocking_chat_answers:
  assumes "serves_log (ae_redis env) (streamKey (ah_prefix h) jobID) log" and "log_ok log ''0-0''"
    and "list_all (\<lambda>e. wf_TokenEvent (tse_Event e)) log"
    and "keeps_reading (job_reader env (ah_prefix h) jobID) log ''0-0''"
    and "consume (blocking_replies (chat_blocking_event model)) (ae_clock env) log
           \<lparr>ac_content = [], ac_reasoning = []\<rparr> = Finish answer"
    and "list_all (\<lambda>(gone, now). \<not> gone \<and> now \<le> ae_start env + cfg_JobTimeout (ah_config h)) (ae_polls env)"
    and "length log \<le> length (ae_polls env)"
  shows "\<exists>r'. blockingChatResponse env h jobID model r = (answer, True, r')"
proof -
  have "polls_until d ps = replicate (length ps) (False, False)"
    if "list_all (\<lambda>(gone, now). \<not> gone \<and> now \<le> d) ps" for d ps
    using that by (induction ps) (auto simp: polls_until_def)
  from this [OF assms(6)] show ?thesis
    using event_loop_complete [OF assms(2) job_reader_log [OF assms(1,3)] assms(4) _ _ assms(5,7), of "[]" "''0-0''" r]
    by (simp add: blockingChatResponse_def response_loop_def)
qed

section \<open>Witnesses\<close>

definition demo_api_handler :: api_handler where
  "demo_api_handler = \<lparr>ah_verifier = NewVerifier [] ''x'' 60, ah_pool = [], ah_queue = demo_queue,
     ah_prefix = [], ah_config = demo_config\<rparr>"

theorem api_needs_key_witness:
  "\<exists>out h'. Api_ServeHTTP demo_api \<lparr>rq_method = ''GET'', rq_path = ''/api/openai/models'', rq_auth = ''Bearer k'', rq_apiKey = [], rq_body = None\<rparr>
      demo_api_handler [] = ((out, True, []), h') \<and> refused out {401}"
proof -
  let ?rq = "\<lparr>rq_method = ''GET'', rq_path = ''/api/openai/models'', rq_auth = ''Bearer k'', rq_apiKey = [], rq_body = None\<rparr>"
  have route: "api_route (rq_method ?rq) (rq_path ?rq) = RModels" by code_simp
  have "VerifyKey (ae_idkey demo_api) (extractBearerToken ?rq) (v_apiHash (ah_verifier demo_api_handler)) \<noteq> VKey True"
    by code_simp
  then show ?thesis
    using api_needs_key [of demo_api demo_api_handler ?rq "[]"] unfolding route
    by (simp add: demo_api_handler_def NewVerifier_def NewVerifierWithTools_def hashes_ok_def)
qed


theorem chat_stream_is_log_witness:
  "\<exists>n tail. let v = consume (chat_stream 0 ''j'' ''m'') demo_clock (take n demo_log) () in
     fst (streamChatResponse demo_api demo_api_handler ''j'' ''m'' []) =
       [OStream, OChunk (NewStreamingRoleChunk 0 ''j'' ''m'')] @ outputs v @ tail \<and>
     (tail = [] \<and> finished v \<or> cut_short (chat_stream 0 ''j'' ''m'') tail \<and> \<not> finished v)"
proof -
  have fin: "fst (snd (streamChatResponse demo_api demo_api_handler ''j'' ''m'' []))" by code_simp
  have "ae_flusher demo_api" "ae_redis demo_api = demo_server demo_log" "ae_clock demo_api = demo_clock"
    "ae_unix demo_api = 0" "ae_lateUnix demo_api = 0" by (simp_all add: demo_api_def)
  then show ?thesis
    using chat_stream_is_log [of demo_api demo_api_handler "''j''" demo_log "''m''" "[]"
        "fst (streamChatResponse demo_api demo_api_handler ''j'' ''m'' [])" True
        "snd (snd (streamChatResponse demo_api demo_api_handler ''j'' ''m'' []))"] fin demo_log_ok demo_server_serves
    by (simp add: prod_eq_iff)
qed

theorem blocking_chat_answers_witness:
  "\<exists>answer r'. blockingChatResponse demo_api demo_api_handler ''j'' ''m'' [] = (answer, True, r') \<and>
     Finish answer = consume (blocking_replies (chat_blocking_event ''m'')) demo_clock demo_log \<lparr>ac_content = [], ac_reasoning = []\<rparr>"
proof -
  let ?v = "consume (blocking_replies (chat_blocking_event ''m'')) demo_clock demo_log \<lparr>ac_content = [], ac_reasoning = []\<rparr>"
  have "finished ?v" by code_simp
  then obtain answer where v: "?v = Finish answer" by (cases ?v) auto
  have env: "ae_redis demo_api = demo_server demo_log" "ae_clock demo_api = demo_clock"
    "ae_polls demo_api = replicate 4 (False, 0)" "ae_start demo_api = 0" "cfg_JobTimeout (ah_config demo_api_handler) = 300"
    "ah_prefix demo_api_handler = []"
    by (simp_all add: demo_api_def demo_api_handler_def demo_config_def)
  have "list_all (\<lambda>e. wf_TokenEvent (tse_Event e)) (rest ''0-0'' demo_log i)" for i
    using demo_log_ok(2) set_rest [of "''0-0''" demo_log i] by (auto simp only: list_all_iff)
  then have "keeps_reading (job_reader demo_api [] ''j'') demo_log ''0-0''"
    unfolding keeps_reading_def job_reader_def TokenStream_Read_def env demo_server_def
    by (simp add: token_entries_log)
  then show ?thesis
    using blocking_chat_answers [of demo_api demo_api_handler "''j''" demo_log "''m''" answer "[]"]
      demo_log_ok demo_server_serves v unfolding env
    by (fastforce simp: list_all_iff)
qed

end
