(* ===== verification/Anthropic_Builders.thy ===== *)
theory Anthropic_Builders
  imports Anthropic_Types Json_Parse
begin

text \<open>
  The functions of \<open>pkg/anthropic/types.go\<close>: the texts in the content of requests, the builders
  of responses, the format of an event and the token estimate.  Content is a string or a list of
  blocks; \<open>text_or_blocks\<close> is the shape all its readers share.  A builder takes the random part
  of the ID it draws.
\<close>

definition zero_ContentBlock :: ContentBlock where
  "zero_ContentBlock = \<lparr>cb_type = [], cb_thinking = [], cb_text = [], cb_id = [], cb_name = [], cb_input = None\<rparr>"

definition text_or_blocks :: "(InputContentBlock list \<Rightarrow> string) \<Rightarrow> raw \<Rightarrow> string" where
  "text_or_blocks render r =
     (case r of
        None \<Rightarrow> []
      | Some j \<Rightarrow>
          (case dec_string j [] of
             (s, True) \<Rightarrow> s
           | (_, False) \<Rightarrow>
               (case dec_slice zero_InputContentBlock dec_InputContentBlock j [] of
                  (blocks, True) \<Rightarrow> render blocks
                | (_, False) \<Rightarrow> [])))"

text \<open>The texts of a system prompt are joined by newlines, once there is something before.\<close>

fun system_blocks :: "string \<Rightarrow> InputContentBlock list \<Rightarrow> string" where
  "system_blocks sb [] = sb"
| "system_blocks sb (b # bs) =
     (if icb_type b = ''text'' then
        system_blocks ((if sb \<noteq> [] then sb @ [CHR 0x0A] else sb) @ icb_text b) bs
      else system_blocks sb bs)"

definition block_texts :: "InputContentBlock list \<Rightarrow> string" where
  "block_texts blocks = concat (map icb_text (filter (\<lambda>b. icb_type b = ''text'') blocks))"

definition SystemText :: "MessagesRequest \<Rightarrow> string" where
  "SystemText r = text_or_blocks (system_blocks []) (mr_system r)"

definition CountTokens_SystemText :: "CountTokensRequest \<Rightarrow> string" where
  "CountTokens_SystemText r = text_or_blocks (system_blocks []) (ctr_system r)"

definition NewTextMessage :: "string \<Rightarrow> string \<Rightarrow> Ant_Message" where
  "NewTextMessage role text = \<lparr>am_role = role, am_content = Some (JStr text)\<rparr>"

definition TextContent :: "Ant_Message \<Rightarrow> string" where
  "TextContent m = text_or_blocks block_texts (am_content m)"

definition ToolResultText :: "InputContentBlock \<Rightarrow> string" where
  "ToolResultText b = text_or_blocks block_texts (icb_content b)"

text \<open>\<open>ContentBlocks\<close>: \<open>None\<close> is the nil slice, which a null content also gives.\<close>

definition ContentBlocks :: "Ant_Message \<Rightarrow> InputContentBlock list option" where
  "ContentBlocks m =
     (case am_content m of
        None \<Rightarrow> None
      | Some JNull \<Rightarrow> None
      | Some j \<Rightarrow>
          (case dec_slice zero_InputContentBlock dec_InputContentBlock j [] of
             (blocks, True) \<Rightarrow> Some blocks
           | (_, False) \<Rightarrow> None))"

definition NewMessageID :: "string \<Rightarrow> string" where
  "NewMessageID rnd = ''msg_'' @ rnd"

definition NewRequestID :: "string \<Rightarrow> string" where
  "NewRequestID rnd = ''req_'' @ rnd"

definition Ant_NewErrorResponse :: "string \<Rightarrow> string \<Rightarrow> string \<Rightarrow> Ant_ErrorResponse" where
  "Ant_NewErrorResponse rnd errType message =
     \<lparr>aer_type = ''error'', aer_error = \<lparr>aed_type = errType, aed_message = message\<rparr>, aer_req = NewRequestID rnd\<rparr>"

definition message_response :: "string \<Rightarrow> string \<Rightarrow> ContentBlock list \<Rightarrow> string option \<Rightarrow> Ant_Usage \<Rightarrow> MessagesResponse" where
  "message_response rnd model content stopReason usage =
     \<lparr>mrs_id = NewMessageID rnd, mrs_type = ''message'', mrs_role = ''assistant'', mrs_content = content,
      mrs_model = model, mrs_stop = stopReason, mrs_stopseq = None, mrs_usage = usage\<rparr>"

definition Ant_NewNonStreamingResponse :: "string \<Rightarrow> string \<Rightarrow> string \<Rightarrow> string \<Rightarrow> Ant_Usage \<Rightarrow> MessagesResponse" where
  "Ant_NewNonStreamingResponse rnd model content stopReason usage =
     message_response rnd model [zero_ContentBlock\<lparr>cb_type := ''text'', cb_text := content\<rparr>] (Some stopReason) usage"

definition NewNonStreamingResponseWithThinking ::
    "string \<Rightarrow> string \<Rightarrow> string \<Rightarrow> string \<Rightarrow> string \<Rightarrow> Ant_Usage \<Rightarrow> MessagesResponse" where
  "NewNonStreamingResponseWithThinking rnd model thinking content stopReason usage =
     message_response rnd model
       ((if thinking \<noteq> [] then [zero_ContentBlock\<lparr>cb_type := ''thinking'', cb_thinking := thinking\<rparr>] else []) @
        [zero_ContentBlock\<lparr>cb_type := ''text'', cb_text := content\<rparr>])
       (Some stopReason) usage"

definition NewToolUseResponse :: "string \<Rightarrow> string \<Rightarrow> ContentBlock list \<Rightarrow> Ant_Usage \<Rightarrow> MessagesResponse" where
  "NewToolUseResponse rnd model toolCalls usage = message_response rnd model toolCalls (Some ''tool_use'') usage"

definition Ant_FormatSSE :: "string \<Rightarrow> json \<Rightarrow> string" where
  "Ant_FormatSSE eventType data =
     ''event: '' @ eventType @ [CHR 0x0A] @ ''data: '' @ json_text data @ [CHR 0x0A, CHR 0x0A]"

definition EstimateTokens :: "string list \<Rightarrow> int" where
  "EstimateTokens texts =
     (let total = sum_list (map (\<lambda>t. int (length t)) texts); tokens = total div 4
      in if tokens < 1 \<and> 0 < total then 1 else tokens)"

section \<open>Texts of a system prompt\<close>

lemma system_blocks_nonempty:
  "sb \<noteq> [] \<Longrightarrow> system_blocks sb bs =
     sb @ concat (map (\<lambda>b. CHR 0x0A # icb_text b) (filter (\<lambda>b. icb_type b = ''text'') bs))"
  by (induction bs arbitrary: sb) auto

lemma estimate_bounds:
  "let total = sum_list (map (\<lambda>t. int (length t)) texts)
   in 0 \<le> EstimateTokens texts \<and> EstimateTokens texts \<le> total \<and> (0 < total \<longrightarrow> 0 < EstimateTokens texts)"
proof -
  have "0 \<le> sum_list (map (\<lambda>t. int (length t)) texts)" by (induction texts) auto
  moreover have "t div 4 \<le> t" if "0 \<le> t" for t :: int using that by simp
  ultimately show ?thesis by (simp add: EstimateTokens_def Let_def)
qed

end
