(* ===== verification/Anthropic_Handler.thy ===== *)
theory Anthropic_Handler
  imports Http_Api Anthropic_Builders
begin

text \<open>
  \<open>internal/router/anthropichandler.go\<close>: the Anthropic-compatible API over the same queue and
  token streams.  A response is a status with a document, a status with an empty body (a document
  that does not encode), or an event stream.  Its loops have no deadline.
\<close>

section \<open>Responses\<close>

datatype ant_event =
    AMessageStart MessageStartEvent
  | APing PingEvent
  | ABlockStart ContentBlockStartEvent
  | ABlockDelta ContentBlockDeltaEvent
  | ABlockStop ContentBlockStopEvent
  | AMessageDelta MessageDeltaEvent
  | AMessageStop MessageStopEvent
  | AError Ant_ErrorResponse

datatype ant_out = AReply int json | AEmpty int | AHead | AEvent ant_event

fun event_text :: "ant_event \<Rightarrow> string" where
  "event_text (AMessageStart e) = Ant_FormatSSE ''message_start'' (enc_MessageStartEvent e)"
| "event_text (APing e) = Ant_FormatSSE ''ping'' (enc_PingEvent e)"
| "event_text (ABlockStart e) = Ant_FormatSSE ''content_block_start'' (enc_ContentBlockStartEvent e)"
| "event_text (ABlockDelta e) = Ant_FormatSSE ''content_block_delta'' (enc_ContentBlockDeltaEvent e)"
| "event_text (ABlockStop e) = Ant_FormatSSE ''content_block_stop'' (enc_ContentBlockStopEvent e)"
| "event_text (AMessageDelta e) = Ant_FormatSSE ''message_delta'' (enc_MessageDeltaEvent e)"
| "event_text (AMessageStop e) = Ant_FormatSSE ''message_stop'' (enc_MessageStopEvent e)"
| "event_text (AError e) = Ant_FormatSSE ''error'' (enc_Ant_ErrorResponse e)"

fun ant_out_text :: "ant_out \<Rightarrow> string" where
  "ant_out_text (AReply status doc) = json_text doc @ [CHR 0x0A]"
| "ant_out_text (AEmpty status) = []"
| "ant_out_text AHead = []"
| "ant_out_text (AEvent e) = event_text e"

record ant_handler =
  nh_verifier :: Verifier
  nh_queue :: JobQueue
  nh_prefix :: string
  nh_config :: Config

type_synonym 'r ant_result = "(ant_out list \<times> bool \<times> 'r) \<times> ant_handler"

definition writeAnthropicError :: "string \<Rightarrow> int \<Rightarrow> string \<Rightarrow> string \<Rightarrow> ant_out list" where
  "writeAnthropicError rnd status errType message =
     [AReply status (enc_Ant_ErrorResponse (Ant_NewErrorResponse rnd errType message))]"

section \<open>The streaming response\<close>

record stream_state =
  sst_output :: int
  sst_index :: int
  sst_text :: bool
  sst_thinking :: bool

definition block_start :: "int \<Rightarrow> ContentBlock \<Rightarrow> ant_out" where
  "block_start i b = AEvent (ABlockStart \<lparr>bse_type = ''content_block_start'', bse_index = i, bse_block = b\<rparr>)"

definition block_delta :: "int \<Rightarrow> Delta \<Rightarrow> ant_out" where
  "block_delta i d = AEvent (ABlockDelta \<lparr>bde_type = ''content_block_delta'', bde_index = i, bde_delta = d\<rparr>)"

definition block_stop :: "int \<Rightarrow> ant_out" where
  "block_stop i = AEvent (ABlockStop \<lparr>bpe_type = ''content_block_stop'', bpe_index = i\<rparr>)"

definition tool_id :: "entry_env \<Rightarrow> nat \<Rightarrow> ToolCall \<Rightarrow> string" where
  "tool_id env n tc = (if tc_id tc = [] then ''toolu_'' @ NewCompletionID (ee_rnd env n) else tc_id tc)"

text \<open>The blocks of the tool calls, from the block index \<open>i\<close>; \<open>n\<close> counts the calls.\<close>

fun tool_blocks :: "entry_env \<Rightarrow> nat \<Rightarrow> int \<Rightarrow> ToolCall list \<Rightarrow> ant_out list" where
  "tool_blocks env n i [] = []"
| "tool_blocks env n i (tc # tcs) =
     [block_start i (zero_ContentBlock\<lparr>cb_type := ''tool_use'', cb_id := tool_id env n tc, cb_name := tf_name (tc_fn tc)\<rparr>)] @
     (if tf_args (tc_fn tc) \<noteq> [] then
        [block_delta i \<lparr>del_type = ''input_json_delta'', del_thinking = [], del_text = [], del_partial = tf_args (tc_fn tc)\<rparr>]
      else []) @
     [block_stop i] @ tool_blocks env (n + 1) (i + 1) tcs"

definition ant_stream_event ::
    "entry_env \<Rightarrow> TokenEvent \<Rightarrow> stream_state \<Rightarrow> (stream_state, ant_out) verdict_of" where
  "ant_stream_event env ev s =
     (if te_Type ev = ''reasoning_token'' then
        (case from_raw dec_string (te_Data ev) [] of
           (_, False) \<Rightarrow> Continue s []
         | (token, True) \<Rightarrow>
             Continue (s\<lparr>sst_thinking := True\<rparr>)
               ((if \<not> sst_thinking s then [block_start (sst_index s) (zero_ContentBlock\<lparr>cb_type := ''thinking''\<rparr>)] else []) @
                [block_delta (sst_index s) \<lparr>del_type = ''thinking_delta'', del_thinking = token, del_text = [], del_partial = []\<rparr>]))
      else if te_Type ev = ''token'' then
        (case from_raw dec_string (te_Data ev) [] of
           (_, False) \<Rightarrow> Continue s []
         | (token, True) \<Rightarrow>
             (let close = sst_thinking s \<and> \<not> sst_text s;
                  i = (if close then sst_index s + 1 else sst_index s)
              in Continue (s\<lparr>sst_index := i, sst_thinking := sst_thinking s \<and> \<not> close, sst_text := True,
                             sst_output := sst_output s + 1\<rparr>)
                   ((if close then [block_stop (sst_index s)] else []) @
                    (if \<not> sst_text s then [block_start i (zero_ContentBlock\<lparr>cb_type := ''text''\<rparr>)] else []) @
                    [block_delta i \<lparr>del_type = ''text_delta'', del_thinking = [], del_text = token, del_partial = []\<rparr>])))
      else if te_Type ev = ''done'' then
        (let complete = fst (from_raw dec_CompleteMessage (te_Data ev) zero_CompleteMessage);
             outputTokens = (if 0 < com_output complete then com_output complete else sst_output s);
             closeThinking = sst_thinking s \<and> \<not> sst_text s;
             i1 = (if closeThinking then sst_index s + 1 else sst_index s);
             i2 = (if sst_text s then i1 + 1 else i1);
             stopReason = (if com_calls complete \<noteq> [] then ''tool_use'' else ''end_turn'')
         in Finish
              ((if closeThinking then [block_stop (sst_index s)] else []) @
               (if sst_text s then [block_stop i1] else []) @
               tool_blocks env 0 i2 (com_calls complete) @
               [AEvent (AMessageDelta \<lparr>mde_type = ''message_delta'',
                  mde_delta = \<lparr>mdl_stop = Some stopReason, mdl_stopseq = None\<rparr>,
                  mde_usage = \<lparr>du_output = outputTokens\<rparr>\<rparr>),
                AEvent (AMessageStop \<lparr>mpe_type = ''message_stop''\<rparr>)]))
      else if te_Type ev = ''error'' then
        Finish [AEvent (AError (Ant_NewErrorResponse (ee_rnd env 0) ''api_error'' (error_message (te_Data ev))))]
      else Continue s [])"

definition ant_stream :: "(entry_env, stream_state, ant_out) consumer" where
  "ant_stream = \<lparr>c_event = ant_stream_event, c_gone = [], c_late = [], c_failed = (\<lambda>e. [])\<rparr>"

definition stream_head :: "string \<Rightarrow> string \<Rightarrow> ant_out list" where
  "stream_head rnd model =
     [AHead,
      AEvent (AMessageStart \<lparr>mse_type = ''message_start'',
        mse_message = message_response rnd model [] None \<lparr>au_input = 0, au_output = 0\<rparr>\<rparr>),
      AEvent (APing \<lparr>pe_type = ''ping''\<rparr>)]"

definition stream_begin :: stream_state where
  "stream_begin = \<lparr>sst_output = 0, sst_index = 0, sst_text = False, sst_thinking = False\<rparr>"

definition ant_loop ::
    "'r api_env \<Rightarrow> ant_handler \<Rightarrow> (entry_env, 's, ant_out) consumer \<Rightarrow> string \<Rightarrow> 's \<Rightarrow> 'r \<Rightarrow>
     ant_out list \<times> bool \<times> 'r" where
  "ant_loop env h c jobID s r =
     event_loop c (ae_clock env) (job_reader env (nh_prefix h) jobID)
       (map (\<lambda>(gone, now). (gone, False)) (ae_polls env)) ''0-0'' s r"

definition streamResponse ::
    "'r api_env \<Rightarrow> ant_handler \<Rightarrow> string \<Rightarrow> string \<Rightarrow> 'r \<Rightarrow> ant_out list \<times> bool \<times> 'r" where
  "streamResponse env h jobID model r =
     (if \<not> ae_flusher env then (writeAnthropicError (ae_rnd env) 500 ''api_error'' ''Streaming not supported.'', True, r)
      else
        (case ant_loop env h ant_stream jobID stream_begin r of
           (out, fin, r') \<Rightarrow> (stream_head (ae_rnd env) model @ out, fin, r')))"

section \<open>The blocking response\<close>

record ant_accumulated =
  nac_content :: string
  nac_reasoning :: string

text \<open>\<open>json.RawMessage(args)\<close>: an empty one is left out, one that is no JSON does not encode.\<close>

definition raw_of_text :: "string \<Rightarrow> raw option" where
  "raw_of_text s = (if s = [] then Some None else map_option Some (json_parse s))"

fun tool_use_blocks :: "entry_env \<Rightarrow> nat \<Rightarrow> ToolCall list \<Rightarrow> ContentBlock list option" where
  "tool_use_blocks env n [] = Some []"
| "tool_use_blocks env n (tc # tcs) =
     (case (raw_of_text (tf_args (tc_fn tc)), tool_use_blocks env (n + 1) tcs) of
        (Some input, Some bs) \<Rightarrow>
          Some ((zero_ContentBlock\<lparr>cb_type := ''tool_use'', cb_id := tool_id env n tc,
                                   cb_name := tf_name (tc_fn tc), cb_input := input\<rparr>) # bs)
      | _ \<Rightarrow> None)"

definition ant_blocking_event ::
    "string \<Rightarrow> entry_env \<Rightarrow> TokenEvent \<Rightarrow> ant_accumulated \<Rightarrow> (ant_accumulated, ant_out) verdict_of" where
  "ant_blocking_event model env ev s =
     (if te_Type ev = ''token'' then
        (case from_raw dec_string (te_Data ev) [] of
           (token, True) \<Rightarrow> Continue (s\<lparr>nac_content := nac_content s @ token\<rparr>) []
         | (_, False) \<Rightarrow> Continue s [])
      else if te_Type ev = ''reasoning_token'' then
        (case from_raw dec_string (te_Data ev) [] of
           (token, True) \<Rightarrow> Continue (s\<lparr>nac_reasoning := nac_reasoning s @ token\<rparr>) []
         | (_, False) \<Rightarrow> Continue s [])
      else if te_Type ev = ''done'' then
        (let (complete, ok) = from_raw dec_CompleteMessage (te_Data ev) zero_CompleteMessage;
             usage = (if ok then \<lparr>au_input = com_input complete, au_output = com_output complete\<rparr>
                      else \<lparr>au_input = 0, au_output = 0\<rparr>);
             text = (if ok \<and> com_full complete \<noteq> [] then com_full complete else nac_content s);
             thinking = (if ok \<and> com_reasoning complete \<noteq> [] then com_reasoning complete else nac_reasoning s);
             before = (if thinking \<noteq> [] then [zero_ContentBlock\<lparr>cb_type := ''thinking'', cb_thinking := thinking\<rparr>] else []) @
                      (if text \<noteq> [] then [zero_ContentBlock\<lparr>cb_type := ''text'', cb_text := text\<rparr>] else []);
             stopReason = (if com_calls complete \<noteq> [] then ''tool_use'' else ''end_turn'')
         in case tool_use_blocks env 0 (com_calls complete) of
              None \<Rightarrow> Finish [AEmpty 200]
            | Some tools \<Rightarrow>
                (let contentBlocks = before @ tools in
                 Finish [AReply 200 (enc_MessagesResponse
                   (message_response (ee_rnd env (length (com_calls complete))) model
                     (if contentBlocks = [] then [zero_ContentBlock\<lparr>cb_type := ''text''\<rparr>] else contentBlocks)
                     (Some stopReason) usage))]))
      else if te_Type ev = ''error'' then
        Finish (writeAnthropicError (ee_rnd env 0) 500 ''api_error'' (error_message (te_Data ev)))
      else Continue s [])"

definition ant_blocking :: "string \<Rightarrow> string \<Rightarrow> (entry_env, ant_accumulated, ant_out) consumer" where
  "ant_blocking rnd model =
     \<lparr>c_event = ant_blocking_event model,
      c_gone = writeAnthropicError rnd 504 ''api_error'' ''Client disconnected.'',
      c_late = [],
      c_failed = (\<lambda>e. writeAnthropicError rnd 500 ''api_error'' (''Failed to read response: '' @ e))\<rparr>"

definition blockingResponse ::
    "'r api_env \<Rightarrow> ant_handler \<Rightarrow> string \<Rightarrow> string \<Rightarrow> 'r \<Rightarrow> ant_out list \<times> bool \<times> 'r" where
  "blockingResponse env h jobID model r =
     ant_loop env h (ant_blocking (ae_rnd env) model) jobID \<lparr>nac_content = [], nac_reasoning = []\<rparr> r"

section \<open>Requests\<close>

definition request_key :: "http_request \<Rightarrow> string" where
  "request_key rq = (if rq_apiKey rq = [] then extractBearerToken rq else rq_apiKey rq)"

definition ant_requireAuth ::
    "'r api_env \<Rightarrow> http_request \<Rightarrow> (ant_handler \<Rightarrow> ant_out list \<times> bool \<times> 'r) \<Rightarrow> ant_handler \<Rightarrow> 'r \<Rightarrow> 'r ant_result" where
  "ant_requireAuth env rq next_handler h r =
     (if request_key rq = [] then
        ((writeAnthropicError (ae_rnd env) 401 ''authentication_error''
            ''Missing API key. Set the x-api-key header or use Bearer token.'', True, r), h)
      else
        (case VerifyAPIKey (ae_idkey env) (ae_check env) (ae_expiry env) (request_key rq) (nh_verifier h) of
           (answer, v) \<Rightarrow>
             (let h' = h\<lparr>nh_verifier := v\<rparr> in
              (case answer of
                 VKey True \<Rightarrow> next_handler h'
               | VPanic \<Rightarrow> ([], True, r)
               | _ \<Rightarrow> (writeAnthropicError (ae_rnd env) 401 ''authentication_error'' ''Invalid API key.'', True, r),
               h'))))"

text \<open>One message of the request: the blocks of an array are sorted into text, calls and results.\<close>

definition use_call :: "(json \<Rightarrow> string) \<Rightarrow> InputContentBlock \<Rightarrow> ToolCall" where
  "use_call source b =
     \<lparr>tc_id = icb_id b, tc_type = ''function'',
      tc_fn = \<lparr>tf_name = icb_name b, tf_args = (case icb_input b of None \<Rightarrow> [] | Some j \<Rightarrow> source j)\<rparr>\<rparr>"

definition result_message :: "InputContentBlock \<Rightarrow> ChatMessage" where
  "result_message b =
     \<lparr>cm_role = ''tool'', cm_content = ChatContentString (ToolResultText b), cm_call_id = icb_use_id b, cm_calls = []\<rparr>"

definition convert_message :: "(json \<Rightarrow> string) \<Rightarrow> Ant_Message \<Rightarrow> ChatMessage list" where
  "convert_message source m =
     (case ContentBlocks m of
        None \<Rightarrow>
          [\<lparr>cm_role = am_role m, cm_content = ChatContentString (TextContent m), cm_call_id = [], cm_calls = []\<rparr>]
      | Some blocks \<Rightarrow>
          (let textContent = block_texts blocks;
               toolCalls = map (use_call source) (filter (\<lambda>b. icb_type b = ''tool_use'') blocks);
               toolResults = map result_message (filter (\<lambda>b. icb_type b = ''tool_result'') blocks)
           in if am_role m = ''assistant'' then
                if textContent \<noteq> [] \<or> toolCalls \<noteq> [] then
                  [\<lparr>cm_role = ''assistant'', cm_content = ChatContentString textContent, cm_call_id = [], cm_calls = toolCalls\<rparr>]
                else []
              else if toolResults \<noteq> [] then toolResults
              else [\<lparr>cm_role = am_role m, cm_content = ChatContentString textContent, cm_call_id = [], cm_calls = []\<rparr>]))"

definition ant_messages :: "(json \<Rightarrow> string) \<Rightarrow> MessagesRequest \<Rightarrow> ChatMessage list" where
  "ant_messages source req =
     (if SystemText req \<noteq> [] then
        [\<lparr>cm_role = ''system'', cm_content = ChatContentString (SystemText req), cm_call_id = [], cm_calls = []\<rparr>]
      else []) @
     concat (map (convert_message source) (mr_messages req))"

definition ant_tool :: "Ant_Tool \<Rightarrow> Tool" where
  "ant_tool t = \<lparr>tl_type = ''function'', tl_fn = \<lparr>td_name = at_name t, td_desc = at_desc t, td_params = at_schema t\<rparr>\<rparr>"

definition thinking_effort :: "ThinkingConfig option \<Rightarrow> string" where
  "thinking_effort th =
     (case th of
        None \<Rightarrow> []
      | Some c \<Rightarrow> if thc_type c = ''disabled'' then ''none'' else if thc_type c = ''enabled'' then ''high'' else [])"

definition ant_job :: "(json \<Rightarrow> string) \<Rightarrow> string \<Rightarrow> MessagesRequest \<Rightarrow> JobMessage" where
  "ant_job source jobID req = zero_JobMessage
     \<lparr>jm_type := ''job'', jm_job := jobID,
      jm_messages := ant_messages source req,
      jm_tools := map ant_tool (mr_tools req),
      jm_temp := mr_temp req, jm_max := Some (mr_max req),
      jm_effort := thinking_effort (mr_thinking req)\<rparr>"

definition handleMessages :: "'r api_env \<Rightarrow> http_request \<Rightarrow> ant_handler \<Rightarrow> 'r \<Rightarrow> 'r ant_result" where
  "handleMessages env rq h r =
     ant_requireAuth env rq (\<lambda>h'.
       (let bad = (\<lambda>message. (writeAnthropicError (ae_rnd env) 400 ''invalid_request_error'' message, True, r)) in
        case from_raw dec_MessagesRequest (rq_body rq) zero_MessagesRequest of
          (_, False) \<Rightarrow> bad (''Invalid JSON: '' @ ae_jsonErr env)
        | (req, True) \<Rightarrow>
            if mr_messages req = [] then bad ''messages: Field required''
            else if mr_model req = [] then bad ''model: Field required''
            else if mr_max req = 0 then bad ''max_tokens: Field required''
            else
              (let jobID = NewCompletionID (ae_rnd env) in
               case enqueueJob (ae_redis env) (nh_queue h') (ant_job (ae_source env) jobID req) r of
                 (Some e, r') \<Rightarrow> (writeAnthropicError (ae_rnd env) 503 ''overloaded_error'' e, True, r')
               | (None, r') \<Rightarrow>
                   if mr_stream req then streamResponse env h' jobID (mr_model req) r'
                   else blockingResponse env h' jobID (mr_model req) r'))) h r"

definition counted_texts :: "(json \<Rightarrow> string) \<Rightarrow> CountTokensRequest \<Rightarrow> string list" where
  "counted_texts source req =
     (if CountTokens_SystemText req \<noteq> [] then [CountTokens_SystemText req] else []) @
     map TextContent (ctr_messages req) @
     concat (map (\<lambda>t. [at_name t, at_desc t] @ (case at_schema t of None \<Rightarrow> [] | Some j \<Rightarrow> [source j])) (ctr_tools req))"

definition handleCountTokens :: "'r api_env \<Rightarrow> http_request \<Rightarrow> ant_handler \<Rightarrow> 'r \<Rightarrow> 'r ant_result" where
  "handleCountTokens env rq h r =
     ant_requireAuth env rq (\<lambda>h'.
       (let bad = (\<lambda>message. (writeAnthropicError (ae_rnd env) 400 ''invalid_request_error'' message, True, r)) in
        case from_raw dec_CountTokensRequest (rq_body rq) zero_CountTokensRequest of
          (_, False) \<Rightarrow> bad (''Invalid JSON: '' @ ae_jsonErr env)
        | (req, True) \<Rightarrow>
            if ctr_messages req = [] then bad ''messages: Field required''
            else
              (let estimate = EstimateTokens (counted_texts (ae_source env) req) + 4 * int (length (ctr_messages req))
               in ([AReply 200 (enc_CountTokensResponse \<lparr>ctp_input = estimate\<rparr>)], True, r)))) h r"

definition handleBatchStub :: "string \<Rightarrow> ant_out list" where
  "handleBatchStub rnd = writeAnthropicError rnd 501 ''not_implemented_error''
     (''Message batches are not yet supported. '' @
      ''This feature requires persistent job storage, which is planned for a future release.'')"

definition ant_model :: "string \<Rightarrow> string \<Rightarrow> Ant_ModelObject" where
  "ant_model stamp modelID = \<lparr>amo_id = modelID, amo_created = stamp, amo_name = modelID, amo_type = ''model''\<rparr>"

definition Ant_handleListModels :: "string \<Rightarrow> Config \<Rightarrow> ant_out list" where
  "Ant_handleListModels stamp cfg =
     [AReply 200 (enc_Ant_ModelListResponse
        \<lparr>aml_data = [ant_model stamp (cfg_ModelName cfg)], aml_first = Some (cfg_ModelName cfg), aml_more = False,
         aml_last = Some (cfg_ModelName cfg)\<rparr>)]"

definition Ant_handleGetModel :: "string \<Rightarrow> string \<Rightarrow> Config \<Rightarrow> string \<Rightarrow> ant_out list" where
  "Ant_handleGetModel rnd stamp cfg path =
     (let modelID = TrimPrefix path ''/v1/models/'' in
      if modelID = [] then
        writeAnthropicError rnd 404 ''not_found_error'' ''The requested resource could not be found.''
      else if modelID \<noteq> cfg_ModelName cfg then
        writeAnthropicError rnd 404 ''not_found_error''
          (''The model '' @ strconv_quote modelID @ '' does not exist or you do not have access to it.'')
      else [AReply 200 (enc_Ant_ModelObject (ant_model stamp modelID))])"

definition handleCatchAll :: "string \<Rightarrow> http_request \<Rightarrow> ant_out list" where
  "handleCatchAll rnd rq = writeAnthropicError rnd 501 ''not_implemented_error''
     (''The endpoint '' @ [CHR 0x27] @ rq_method rq @ '' '' @ rq_path rq @
      [CHR 0x27] @ '' is not implemented.'')"

section \<open>Routing\<close>

datatype ant_route = NMessages | NCount | NBatch | NModels | NModel | NCatchAll | NUnknown

definition ant_route :: "string \<Rightarrow> string \<Rightarrow> ant_route" where
  "ant_route method path =
     (if method = ''POST'' \<and> path = ''/v1/messages'' then NMessages
      else if method = ''POST'' \<and> path = ''/v1/messages/count_tokens'' then NCount
      else if method = ''POST'' \<and> path = ''/v1/messages/batches'' then NBatch
      else if method = ''GET'' \<and> path = ''/v1/messages/batches'' then NBatch
      else if HasPrefix path ''/v1/messages/batches/'' then
        (let rest = TrimPrefix path ''/v1/messages/batches/'' in
         if method = ''GET'' \<and> HasSuffix rest ''/results'' then NBatch
         else if method = ''POST'' \<and> HasSuffix rest ''/cancel'' then NBatch
         else if method = ''GET'' \<and> \<not> Contains rest ''/'' then NBatch
         else if method = ''DELETE'' \<and> \<not> Contains rest ''/'' then NBatch
         else NCatchAll)
      else if method = ''GET'' \<and> path = ''/v1/models'' then NModels
      else if method = ''GET'' \<and> HasPrefix path ''/v1/models/'' then NModel
      else if HasPrefix path ''/v1/'' then NCatchAll
      else NUnknown)"

definition ant_answer :: "'r \<Rightarrow> ant_out list \<Rightarrow> ant_handler \<Rightarrow> ant_out list \<times> bool \<times> 'r" where
  "ant_answer r out h = (out, True, r)"

definition Ant_ServeHTTP :: "'r api_env \<Rightarrow> http_request \<Rightarrow> ant_handler \<Rightarrow> 'r \<Rightarrow> 'r ant_result" where
  "Ant_ServeHTTP env rq h r =
     (case ant_route (rq_method rq) (rq_path rq) of
        NMessages \<Rightarrow> handleMessages env rq h r
      | NCount \<Rightarrow> handleCountTokens env rq h r
      | NBatch \<Rightarrow> ant_requireAuth env rq (ant_answer r (handleBatchStub (ae_rnd env))) h r
      | NModels \<Rightarrow> ant_requireAuth env rq (ant_answer r (Ant_handleListModels (ae_stamp env) (nh_config h))) h r
      | NModel \<Rightarrow> ant_requireAuth env rq
          (ant_answer r (Ant_handleGetModel (ae_rnd env) (ae_stamp env) (nh_config h) (rq_path rq))) h r
      | NCatchAll \<Rightarrow> ant_requireAuth env rq (ant_answer r (handleCatchAll (ae_rnd env) rq)) h r
      | NUnknown \<Rightarrow>
          (ant_answer r (writeAnthropicError (ae_rnd env) 404 ''not_found_error''
             ''The requested resource could not be found.'') h, h))"

section \<open>Only a valid key gets an answer\<close>

definition ant_refused :: "ant_out list \<Rightarrow> int set \<Rightarrow> bool" where
  "ant_refused out statuses \<longleftrightarrow> out = [] \<or> (\<exists>status doc. out = [AReply status doc] \<and> status \<in> statuses)"

lemma ant_requireAuth_refuses:
  assumes "cache_ok (ae_idkey env) (v_cache (nh_verifier h))" and "hashes_ok (nh_verifier h)"
    and "VerifyKey (ae_idkey env) (request_key rq) (v_apiHash (nh_verifier h)) \<noteq> VKey True"
  shows "\<exists>out h'. ant_requireAuth env rq body h r = ((out, True, r), h') \<and> ant_refused out {401}"
  using VerifyAPIKey_refuses [OF assms]
  by (auto simp: ant_requireAuth_def ant_refused_def writeAnthropicError_def Let_def split: prod.split verdict.split bool.split)

text \<open>
  C28: without a key that verifies, taken from \<open>x-api-key\<close> or else from the bearer token, every
  request of the Anthropic API is refused with an error document: 404 outside \<open>/v1/\<close>, 401
  everywhere else, the unimplemented endpoints included.  Nothing reaches the queue.
\<close>

theorem ant_needs_key:
  assumes "cache_ok (ae_idkey env) (v_cache (nh_verifier h))" and "hashes_ok (nh_verifier h)"
    and "VerifyKey (ae_idkey env) (request_key rq) (v_apiHash (nh_verifier h)) \<noteq> VKey True"
  shows "\<exists>out h'. Ant_ServeHTTP env rq h r = ((out, True, r), h') \<and>
    ant_refused out (if ant_route (rq_method rq) (rq_path rq) = NUnknown then {404} else {401})"
proof (cases "ant_route (rq_method rq) (rq_path rq)")
  case NUnknown
  then show ?thesis
    by (simp add: Ant_ServeHTTP_def ant_answer_def writeAnthropicError_def ant_refused_def)
qed (use ant_requireAuth_refuses [OF assms] in
  \<open>simp_all add: Ant_ServeHTTP_def handleMessages_def handleCountTokens_def\<close>)

section \<open>The blocks of a stream\<close>

text \<open>
  What a client keeps: the index of the next block, and of the open one.  A block starts at the
  next index when none is open, a delta and a stop are those of the open block, and the message
  ends with none open.
\<close>

fun block_step :: "ant_out \<Rightarrow> int \<times> int option \<Rightarrow> (int \<times> int option) option" where
  "block_step (AEvent (ABlockStart e)) (n, op) = (if op = None \<and> bse_index e = n then Some (n, Some n) else None)"
| "block_step (AEvent (ABlockDelta e)) (n, op) = (if op = Some (bde_index e) then Some (n, op) else None)"
| "block_step (AEvent (ABlockStop e)) (n, op) = (if op = Some (bpe_index e) then Some (n + 1, None) else None)"
| "block_step (AEvent (AMessageDelta e)) (n, op) = (if op = None then Some (n, op) else None)"
| "block_step (AEvent (AMessageStop e)) (n, op) = (if op = None then Some (n, op) else None)"
| "block_step out (n, op) = Some (n, op)"

fun block_run :: "ant_out list \<Rightarrow> int \<times> int option \<Rightarrow> (int \<times> int option) option" where
  "block_run [] q = Some q"
| "block_run (x # xs) q = (case block_step x q of None \<Rightarrow> None | Some q' \<Rightarrow> block_run xs q')"

lemma block_run_append:
  "block_run (xs @ ys) q = (case block_run xs q of None \<Rightarrow> None | Some q' \<Rightarrow> block_run ys q')"
  by (induction xs arbitrary: q) (auto split: option.split)

lemmas block_simps = block_start_def block_delta_def block_stop_def

definition client_state :: "stream_state \<Rightarrow> int \<times> int option" where
  "client_state s = (sst_index s, if sst_text s \<or> sst_thinking s then Some (sst_index s) else None)"

definition one_open :: "stream_state \<Rightarrow> bool" where
  "one_open s \<longleftrightarrow> \<not> (sst_text s \<and> sst_thinking s)"

abbreviation event_type :: "TokenStreamEntry \<Rightarrow> string" where
  "event_type e \<equiv> te_Type (tse_Event e)"

lemma stream_step_bracketed:
  assumes "ongoing e" and "one_open s" and "sst_text s \<longrightarrow> event_type e \<noteq> ''reasoning_token''"
  shows "\<exists>s' out. ant_stream_event env (tse_Event e) s = Continue s' out \<and>
    block_run out (client_state s) = Some (client_state s') \<and> one_open s' \<and>
    (event_type e \<noteq> ''token'' \<longrightarrow> sst_text s' = sst_text s)"
proof -
  obtain t ok where data: "from_raw dec_string (te_Data (tse_Event e)) [] = (t, ok)" by fastforce
  consider "event_type e = ''reasoning_token''" | "event_type e = ''token''" | "event_type e \<notin> {''reasoning_token'', ''token''}"
    by blast
  then show ?thesis
  proof cases
    case 1
    then show ?thesis
      using assms(2,3) data
      by (cases ok) (simp_all add: ant_stream_event_def client_state_def one_open_def block_simps)
  next
    case 2
    then show ?thesis
      using assms(2) data
      by (cases ok; cases "sst_thinking s"; cases "sst_text s")
        (simp_all add: ant_stream_event_def client_state_def one_open_def block_simps Let_def)
  next
    case 3
    then show ?thesis using assms(1,2) by (simp add: ant_stream_event_def ongoing_def)
  qed
qed

lemma stream_prefix_bracketed:
  assumes "list_all ongoing es" and "one_open s"
    and "list_all (\<lambda>e. event_type e \<noteq> ''reasoning_token'') es \<or>
         \<not> sst_text s \<and> list_all (\<lambda>e. event_type e \<noteq> ''token'') es"
  shows "\<exists>s' out. consume ant_stream clock es s = Continue s' out \<and>
    block_run out (client_state s) = Some (client_state s') \<and> one_open s' \<and>
    (list_all (\<lambda>e. event_type e \<noteq> ''token'') es \<longrightarrow> sst_text s' = sst_text s)"
  using assms
proof (induction es arbitrary: s)
  case Nil
  then show ?case by (simp add: consume_def)
next
  case (Cons e es)
  obtain s1 o1 where s1: "ant_stream_event (clock (tse_ID e)) (tse_Event e) s = Continue s1 o1"
      "block_run o1 (client_state s) = Some (client_state s1)" "one_open s1"
      "event_type e \<noteq> ''token'' \<longrightarrow> sst_text s1 = sst_text s"
    using stream_step_bracketed [of e s "clock (tse_ID e)"] Cons.prems by (auto simp only: list.pred_inject)
  obtain s2 o2 where s2: "consume ant_stream clock es s1 = Continue s2 o2"
      "block_run o2 (client_state s1) = Some (client_state s2)" "one_open s2"
      "list_all (\<lambda>e. event_type e \<noteq> ''token'') es \<longrightarrow> sst_text s2 = sst_text s1"
    using Cons.IH [OF _ s1(3)] Cons.prems s1(4) by (auto simp only: list.pred_inject)
  have "consume ant_stream clock (e # es) s = Continue s2 (o1 @ o2)"
    using consume_append [of ant_stream clock "[e]" es s] s1(1) s2(1)
    by (simp only: consume_one append_Cons append_Nil ant_stream_def consumer.simps verdict_of.case)
  with s1 s2 show ?case by (auto simp: block_run_append)
qed

lemma tool_blocks_bracketed:
  "block_run (tool_blocks env n i calls) (i, None) = Some (i + int (length calls), None)"
  by (induction calls arbitrary: n i) (auto simp: block_run_append block_simps)

text \<open>
  C17: the event stream of a job whose reasoning comes before its text is well formed: every
  block starts at the next index, its deltas and its stop carry that index, no two blocks are
  open at once, and the message ends with all blocks stopped, tool calls included.
\<close>

theorem ant_blocks_bracketed:
  assumes "list_all ongoing (xs @ ys)" and "list_all (\<lambda>e. event_type e \<noteq> ''token'') xs"
    and "list_all (\<lambda>e. event_type e \<noteq> ''reasoning_token'') ys" and "event_type e = ''done''"
  shows "\<exists>out n. consume ant_stream clock (xs @ ys @ [e]) stream_begin = Finish out \<and>
    block_run (stream_head rnd model @ out) (0, None) = Some (n, None)"
proof -
  have start: "client_state stream_begin = (0, None)" by (simp add: client_state_def stream_begin_def)
  obtain s1 o1 where s1: "consume ant_stream clock xs stream_begin = Continue s1 o1"
      "block_run o1 (client_state stream_begin) = Some (client_state s1)" "one_open s1" "\<not> sst_text s1"
    using stream_prefix_bracketed [of xs stream_begin clock] assms(1,2)
    by (auto simp: one_open_def stream_begin_def list_all_append)
  obtain s2 o2 where s2: "consume ant_stream clock ys s1 = Continue s2 o2"
      "block_run o2 (client_state s1) = Some (client_state s2)" "one_open s2"
    using stream_prefix_bracketed [of ys s1 clock] assms(1,3) s1(3) by (auto simp: list_all_append)
  have fin: "\<exists>o3 n. ant_stream_event (clock (tse_ID e)) (tse_Event e) s2 = Finish o3 \<and>
      block_run o3 (client_state s2) = Some (n, None)"
    using assms(4) s2(3)
    by (auto simp: ant_stream_event_def Let_def client_state_def one_open_def block_run_append
        tool_blocks_bracketed block_stop_def)
  then obtain o3 n where o3: "ant_stream_event (clock (tse_ID e)) (tse_Event e) s2 = Finish o3"
      "block_run o3 (client_state s2) = Some (n, None)" by blast
  have "consume ant_stream clock (xs @ ys @ [e]) stream_begin = Finish (o1 @ o2 @ o3)"
    using s1(1) s2(1) o3(1) by (simp add: consume_append consume_one ant_stream_def)
  moreover have "block_run (stream_head rnd model @ o1 @ o2 @ o3) (0, None) = Some (n, None)"
    using s1(2) s2(2) o3(2)
    by (simp add: block_run_append stream_head_def start)
  ultimately show ?thesis by blast
qed

theorem ant_blocks_bracketed_witness:
  "\<exists>out n. consume ant_stream demo_clock demo_log stream_begin = Finish out \<and>
     block_run (stream_head ''00'' ''m'' @ out) (0, None) = Some (n, None)"
proof -
  have "list_all ongoing (take 1 demo_entries @ drop 1 demo_entries)"
    "list_all (\<lambda>e. event_type e \<noteq> ''token'') (take 1 demo_entries)"
    "list_all (\<lambda>e. event_type e \<noteq> ''reasoning_token'') (drop 1 demo_entries)" by code_simp+
  from ant_blocks_bracketed [OF this, of demo_done demo_clock "''00''" "''m''"] show ?thesis by simp
qed

text \<open>
  A reasoning token that comes after a text token breaks the stream: its thinking block
  starts at the index of the text block that is still open.
\<close>

theorem reasoning_after_text_breaks:
  "block_run (outputs (consume ant_stream clock
     [\<lparr>tse_ID = i, tse_Event = \<lparr>te_Type = ''token'', te_Data = Some (JStr t)\<rparr>\<rparr>,
      \<lparr>tse_ID = j, tse_Event = \<lparr>te_Type = ''reasoning_token'', te_Data = Some (JStr u)\<rparr>\<rparr>] stream_begin)) (0, None) = None"
  by (simp add: consume_def ant_stream_def ant_stream_event_def from_raw_def stream_begin_def block_simps Let_def)

section \<open>The two modes agree\<close>

definition text_delta :: "ant_out \<Rightarrow> string" where
  "text_delta x = (case x of AEvent (ABlockDelta e) \<Rightarrow> del_text (bde_delta e) | _ \<Rightarrow> [])"

definition thinking_delta :: "ant_out \<Rightarrow> string" where
  "thinking_delta x = (case x of AEvent (ABlockDelta e) \<Rightarrow> del_thinking (bde_delta e) | _ \<Rightarrow> [])"

definition tool_start :: "ant_out \<Rightarrow> (string \<times> string) list" where
  "tool_start x = (case x of AEvent (ABlockStart e) \<Rightarrow>
       if cb_type (bse_block e) = ''tool_use'' then [(cb_id (bse_block e), cb_name (bse_block e))] else []
     | _ \<Rightarrow> [])"

definition told :: "ant_out list \<Rightarrow> string \<times> string \<times> (string \<times> string) list" where
  "told out = (concat (map text_delta out), concat (map thinking_delta out), concat (map tool_start out))"

definition block_contents :: "ContentBlock list \<Rightarrow> string \<times> string \<times> (string \<times> string) list" where
  "block_contents bs =
     (concat (map cb_text bs), concat (map cb_thinking bs),
      map (\<lambda>b. (cb_id b, cb_name b)) (filter (\<lambda>b. cb_type b = ''tool_use'') bs))"

lemmas told_simps = told_def text_delta_def thinking_delta_def tool_start_def block_simps

lemma told_append:
  "told (xs @ ys) = (fst (told xs) @ fst (told ys), fst (snd (told xs)) @ fst (snd (told ys)), snd (snd (told xs)) @ snd (snd (told ys)))"
  by (simp add: told_def)

lemma ant_modes_step:
  assumes "ongoing e"
  shows "\<exists>s' out. ant_stream_event env (tse_Event e) s = Continue s' out \<and> snd (snd (told out)) = [] \<and>
    ant_blocking_event model env (tse_Event e) a =
      Continue \<lparr>nac_content = nac_content a @ fst (told out), nac_reasoning = nac_reasoning a @ fst (snd (told out))\<rparr> []"
  using assms
  by (cases a) (auto simp: ongoing_def ant_stream_event_def ant_blocking_event_def told_simps zero_ContentBlock_def Let_def
      split: prod.split bool.split)

lemma ant_modes_prefix:
  assumes "list_all ongoing es"
  shows "\<exists>s' out. consume ant_stream clock es s = Continue s' out \<and> snd (snd (told out)) = [] \<and>
    consume (ant_blocking rnd model) clock es a =
      Continue \<lparr>nac_content = nac_content a @ fst (told out), nac_reasoning = nac_reasoning a @ fst (snd (told out))\<rparr> []"
  using assms
proof (induction es arbitrary: s a)
  case Nil
  then show ?case by (simp add: consume_def told_def)
next
  case (Cons e es)
  then have "ongoing e" by simp
  from ant_modes_step [OF this] obtain s1 o1 where o1:
      "ant_stream_event (clock (tse_ID e)) (tse_Event e) s = Continue s1 o1" "snd (snd (told o1)) = []"
      "ant_blocking_event model (clock (tse_ID e)) (tse_Event e) a =
        Continue \<lparr>nac_content = nac_content a @ fst (told o1), nac_reasoning = nac_reasoning a @ fst (snd (told o1))\<rparr> []"
    by blast
  obtain s2 o2 where o2: "consume ant_stream clock es s1 = Continue s2 o2" "snd (snd (told o2)) = []"
      "consume (ant_blocking rnd model) clock es
         \<lparr>nac_content = nac_content a @ fst (told o1), nac_reasoning = nac_reasoning a @ fst (snd (told o1))\<rparr> =
       Continue \<lparr>nac_content = (nac_content a @ fst (told o1)) @ fst (told o2),
                 nac_reasoning = (nac_reasoning a @ fst (snd (told o1))) @ fst (snd (told o2))\<rparr> []"
    using Cons.IH [of s1 "\<lparr>nac_content = nac_content a @ fst (told o1), nac_reasoning = nac_reasoning a @ fst (snd (told o1))\<rparr>"]
      Cons.prems by (auto simp only: list.pred_inject ant_accumulated.simps)
  have "consume ant_stream clock (e # es) s = Continue s2 (o1 @ o2)"
    using consume_append [of ant_stream clock "[e]" es s] o1(1) o2(1)
    by (simp only: consume_one append_Cons append_Nil ant_stream_def consumer.simps verdict_of.case)
  moreover have "consume (ant_blocking rnd model) clock (e # es) a =
      Continue \<lparr>nac_content = (nac_content a @ fst (told o1)) @ fst (told o2),
                nac_reasoning = (nac_reasoning a @ fst (snd (told o1))) @ fst (snd (told o2))\<rparr> []"
    using consume_append [of "ant_blocking rnd model" clock "[e]" es a] o1(3) o2(3)
    by (simp only: consume_one append_Cons append_Nil ant_blocking_def consumer.simps verdict_of.case)
  ultimately show ?case
    using o1(2) o2(2) by (intro exI [of _ s2] exI [of _ "o1 @ o2"]) (simp add: told_append)
qed

lemma tool_blocks_told:
  "told (tool_blocks env n i calls) =
     ([], [], map (\<lambda>(k, tc). (tool_id env k tc, tf_name (tc_fn tc))) (zip [n..<n + length calls] calls))"
proof (induction calls arbitrary: n i)
  case (Cons tc calls)
  have "[n..<n + length (tc # calls)] = n # [n + 1..<n + 1 + length calls]"
    using upt_conv_Cons [of n "n + length (tc # calls)"] by (simp del: upt_Suc)
  with Cons [of "n + 1" "i + 1"] show ?case
    by (auto simp: told_append zero_ContentBlock_def told_simps)
qed (simp add: told_def)

lemma tool_use_contents:
  assumes "list_all (\<lambda>tc. raw_of_text (tf_args (tc_fn tc)) \<noteq> None) calls"
  shows "\<exists>bs. tool_use_blocks env n calls = Some bs \<and> length bs = length calls \<and> block_contents bs =
     ([], [], map (\<lambda>(k, tc). (tool_id env k tc, tf_name (tc_fn tc))) (zip [n..<n + length calls] calls))"
  using assms
proof (induction calls arbitrary: n)
  case (Cons tc calls)
  have upt: "[n..<n + length (tc # calls)] = n # [n + 1..<n + 1 + length calls]"
    using upt_conv_Cons [of n "n + length (tc # calls)"] by (simp del: upt_Suc)
  from Cons.IH [of "n + 1"] Cons.prems obtain bs input where
    bs: "tool_use_blocks env (n + 1) calls = Some bs" "length bs = length calls"
      "block_contents bs = ([], [], map (\<lambda>(k, tc). (tool_id env k tc, tf_name (tc_fn tc))) (zip [n + 1..<n + 1 + length calls] calls))"
    and input: "raw_of_text (tf_args (tc_fn tc)) = Some input" by auto
  then show ?case unfolding upt
    by (auto simp: block_contents_def zero_ContentBlock_def)
qed (simp add: block_contents_def)

lemma done_told:
  assumes "event_type e = ''done''"
    and "from_raw dec_CompleteMessage (te_Data (tse_Event e)) zero_CompleteMessage = (c, True)"
  obtains before i after where
    "ant_stream_event env (tse_Event e) s = Finish (before @ tool_blocks env 0 i (com_calls c) @ after)"
    "told before = ([], [], [])" "told after = ([], [], [])"
proof -
  let ?close = "sst_thinking s \<and> \<not> sst_text s"
  let ?i = "if ?close then sst_index s + 1 else sst_index s"
  let ?after = "[AEvent (AMessageDelta \<lparr>mde_type = ''message_delta'',
                  mde_delta = \<lparr>mdl_stop = Some (if com_calls c \<noteq> [] then ''tool_use'' else ''end_turn''), mdl_stopseq = None\<rparr>,
                  mde_usage = \<lparr>du_output = (if 0 < com_output c then com_output c else sst_output s)\<rparr>\<rparr>),
                AEvent (AMessageStop \<lparr>mpe_type = ''message_stop''\<rparr>)]"
  show ?thesis
  proof (rule that)
    show "ant_stream_event env (tse_Event e) s =
        Finish (((if ?close then [block_stop (sst_index s)] else []) @ (if sst_text s then [block_stop ?i] else [])) @
                tool_blocks env 0 (if sst_text s then ?i + 1 else ?i) (com_calls c) @ ?after)"
      using assms by (simp add: ant_stream_event_def Let_def)
  qed (simp_all add: told_simps)
qed

definition content_blocks :: "string \<Rightarrow> string \<Rightarrow> ContentBlock list \<Rightarrow> ContentBlock list" where
  "content_blocks thinking text tools =
     (let bs = (if thinking \<noteq> [] then [zero_ContentBlock\<lparr>cb_type := ''thinking'', cb_thinking := thinking\<rparr>] else []) @
               (if text \<noteq> [] then [zero_ContentBlock\<lparr>cb_type := ''text'', cb_text := text\<rparr>] else []) @ tools
      in if bs = [] then [zero_ContentBlock\<lparr>cb_type := ''text''\<rparr>] else bs)"

lemma content_blocks_told:
  assumes "block_contents bs = ([], [], calls)"
  shows "block_contents (content_blocks thinking text bs) = (text, thinking, calls)"
  using assms by (auto simp: content_blocks_def block_contents_def zero_ContentBlock_def)


section \<open>Messages of a request\<close>

text \<open>
  A user message that carries tool results becomes one \<open>tool\<close> message for each result, in
  order, and nothing else: text that stands beside the results does not reach the worker.
\<close>

theorem tool_results_only:
  assumes "ContentBlocks m = Some blocks" and "am_role m \<noteq> ''assistant''"
    and "filter (\<lambda>b. icb_type b = ''tool_result'') blocks \<noteq> []"
  shows "convert_message source m = map result_message (filter (\<lambda>b. icb_type b = ''tool_result'') blocks) \<and>
    list_all (\<lambda>cm. cm_role cm = ''tool'') (convert_message source m)"
  using assms by (auto simp: convert_message_def Let_def list_all_iff result_message_def)

section \<open>Witnesses\<close>

definition demo_ant_handler :: ant_handler where
  "demo_ant_handler = \<lparr>nh_verifier = NewVerifier [] ''x'' 60, nh_queue = demo_queue, nh_prefix = [], nh_config = demo_config\<rparr>"

theorem ant_needs_key_witness:
  "\<exists>out h'. Ant_ServeHTTP demo_api \<lparr>rq_method = ''POST'', rq_path = ''/v1/messages'', rq_auth = [], rq_apiKey = ''k'', rq_body = None\<rparr>
      demo_ant_handler [] = ((out, True, []), h') \<and> ant_refused out {401}"
proof -
  let ?rq = "\<lparr>rq_method = ''POST'', rq_path = ''/v1/messages'', rq_auth = [], rq_apiKey = ''k'', rq_body = None\<rparr>"
  have route: "ant_route (rq_method ?rq) (rq_path ?rq) = NMessages" by code_simp
  have "VerifyKey (ae_idkey demo_api) (request_key ?rq) (v_apiHash (nh_verifier demo_ant_handler)) \<noteq> VKey True"
    by code_simp
  then show ?thesis
    using ant_needs_key [of demo_api demo_ant_handler ?rq "[]"] unfolding route
    by (simp add: demo_ant_handler_def NewVerifier_def NewVerifierWithTools_def hashes_ok_def)
qed


abbreviation demo_tool_result :: InputContentBlock where
  "demo_tool_result \<equiv> zero_InputContentBlock\<lparr>icb_type := ''tool_result'', icb_use_id := ''t1'', icb_content := Some (JStr ''42'')\<rparr>"

theorem tool_results_only_witness:
  "let m = \<lparr>am_role = ''user'', am_content = Some (JArr
        [JObj [(''type'', JStr ''text''), (''text'', JStr ''note'')],
         JObj [(''type'', JStr ''tool_result''), (''tool_use_id'', JStr ''t1''), (''content'', JStr ''42'')]])\<rparr>
   in convert_message json_text m = [result_message demo_tool_result]"
proof -
  let ?m = "\<lparr>am_role = ''user'', am_content = Some (JArr
        [JObj [(''type'', JStr ''text''), (''text'', JStr ''note'')],
         JObj [(''type'', JStr ''tool_result''), (''tool_use_id'', JStr ''t1''), (''content'', JStr ''42'')]])\<rparr>"
  have "ContentBlocks ?m = Some [zero_InputContentBlock\<lparr>icb_type := ''text'', icb_text := ''note''\<rparr>, demo_tool_result]" by code_simp
  from tool_results_only [OF this, of json_text] show ?thesis by (simp add: zero_InputContentBlock_def)
qed

end
