(* ===== verification/Tools_Api.thy ===== *)
theory Tools_Api
  imports Http_Api
begin

text \<open>
  \<open>internal/router/toolsapihandler.go\<close>: direct tool calls.  A call that was sent to a tools worker
  waits for its result; \<open>execute_answer\<close> is what is written when the wait ends.  The map of the
  listed tools is walked in the order of its list.
\<close>

record tools_api =
  ta_verifier :: Verifier
  ta_config :: Config

definition tools_requireAuth ::
    "'r api_env \<Rightarrow> http_request \<Rightarrow> tools_api \<Rightarrow> http_out list option \<times> tools_api" where
  "tools_requireAuth env rq h =
     (case bearer_auth env rq (ta_verifier h) of (refusal, v) \<Rightarrow> (refusal, h\<lparr>ta_verifier := v\<rparr>))"

record toolItem =
  ti_name :: string
  ti_desc :: string
  ti_params :: raw
  ti_available :: bool

definition enc_toolItem :: "toolItem \<Rightarrow> json" where
  "enc_toolItem t = JObj ([(''name'', JStr (ti_name t))] @ opt_str ''description'' (ti_desc t) @
     opt_raw ''parameters'' (ti_params t) @ [(''available'', JBool (ti_available t))])"

definition def_item :: "Tool \<Rightarrow> toolItem" where
  "def_item d = \<lparr>ti_name = td_name (tl_fn d), ti_desc = td_desc (tl_fn d), ti_params = td_params (tl_fn d), ti_available = True\<rparr>"

definition listed_tools :: "Tool list \<Rightarrow> string list \<Rightarrow> toolItem gomap" where
  "listed_tools defs names =
     fold (\<lambda>name m. case mget m name of
             Some _ \<Rightarrow> m
           | None \<Rightarrow> mput name \<lparr>ti_name = name, ti_desc = [], ti_params = None, ti_available = True\<rparr> m)
       names (fold (\<lambda>d. mput (td_name (tl_fn d)) (def_item d)) defs [])"

definition handleListTools :: "Config \<Rightarrow> Tool gomap \<Rightarrow> tools_handler \<Rightarrow> http_out list" where
  "handleListTools cfg builtinDefs th =
     (let tools = ConnectedTools th;
          result = map snd (listed_tools (AllowedToolDefs cfg builtinDefs th) tools)
      in [OReply 200 (JObj [(''tools'', JArr (map enc_toolItem result)),
                            (''workers'', JNum (NInt (int (length tools))))])])"

record executeRequest =
  xr_tool :: string
  xr_args :: raw

definition dec_executeRequest :: "executeRequest decoder" where
  "dec_executeRequest = dec_struct
     [(''tool'', fld xr_tool xr_tool_update dec_string), (''arguments'', fld xr_args xr_args_update dec_raw)]"

definition zero_executeRequest :: executeRequest where
  "zero_executeRequest = \<lparr>xr_tool = [], xr_args = None\<rparr>"

text \<open>The texts of the errors of a direct call; \<open>cause\<close> is the error it wraps.\<close>

fun direct_error_text :: "string \<Rightarrow> direct_error \<Rightarrow> string" where
  "direct_error_text cause (NoToolsWorker tool) = ''no tools worker connected that supports '' @ strconv_quote tool"
| "direct_error_text cause DispatchingToolJob = ''dispatching tool job: '' @ cause"
| "direct_error_text cause (ToolExecutionError msg) = ''tool execution error: '' @ msg"
| "direct_error_text cause ToolCallTimedOut = ''tool call timed out: '' @ cause"

definition execute_answer :: "string \<Rightarrow> string \<Rightarrow> direct_error + raw \<Rightarrow> http_out list" where
  "execute_answer cause tool outcome =
     (case outcome of
        Inl e \<Rightarrow> writeErrorJSON 500 ''tool_error'' (direct_error_text cause e)
      | Inr result \<Rightarrow> [OReply 200 (JObj [(''result'', enc_raw result), (''tool'', JStr tool)])])"

text \<open>The answer, or the call the request waits for.\<close>

datatype execute_result = Answered "http_out list" | Waiting string pendingContinuation

definition handleExecuteTool ::
    "Config \<Rightarrow> string \<Rightarrow> string \<Rightarrow> bool \<Rightarrow> string \<Rightarrow> string \<Rightarrow> http_request \<Rightarrow> tools_handler \<Rightarrow>
     execute_result \<times> tools_handler \<times> effect list" where
  "handleExecuteTool cfg toolJobID callID sent cause jsonErr rq th =
     (case from_raw dec_executeRequest (rq_body rq) zero_executeRequest of
        (_, False) \<Rightarrow> (Answered (writeErrorJSON 400 ''invalid_request_error'' (''invalid JSON: '' @ jsonErr)), th, [])
      | (req, True) \<Rightarrow>
          if TrimSpace (xr_tool req) = [] then
            (Answered (writeErrorJSON 400 ''invalid_request_error'' ''tool name is required''), th, [])
          else if \<not> HasToolsWorker th then
            (Answered (writeErrorJSON 503 ''service_unavailable''
               (''no tools worker connected '' @ em_dash @ '' start auxot-tools and connect it to this router'')), th, [])
          else
            (let args = (case xr_args req of None \<Rightarrow> Some (JObj []) | Some j \<Rightarrow> Some j) in
             case DispatchDirectToolCall cfg toolJobID callID sent (xr_tool req) args th of
               (Inl e, th', es) \<Rightarrow> (Answered (execute_answer cause (xr_tool req) (Inl e)), th', es)
             | (Inr cont, th', es) \<Rightarrow> (Waiting (xr_tool req) cont, th', es)))"

datatype tools_route = TListTools | TExecute | TUnknown

definition tools_route :: "string \<Rightarrow> string \<Rightarrow> tools_route" where
  "tools_route method path =
     (if method = ''GET'' \<and> (path = ''/api/tools/v1/tools'' \<or> path = ''/api/tools/v1/tools/'') then TListTools
      else if method = ''POST'' \<and> (path = ''/api/tools/v1/execute'' \<or> path = ''/api/tools/v1/execute/'') then TExecute
      else TUnknown)"

definition tools_authorized ::
    "'r api_env \<Rightarrow> http_request \<Rightarrow> (execute_result \<times> tools_handler \<times> effect list) \<Rightarrow> tools_handler \<Rightarrow> tools_api \<Rightarrow>
     (execute_result \<times> tools_handler \<times> effect list) \<times> tools_api" where
  "tools_authorized env rq res th h =
     (case tools_requireAuth env rq h of
        (Some refusal, h') \<Rightarrow> ((Answered refusal, th, []), h')
      | (None, h') \<Rightarrow> (res, h'))"

definition Tools_ServeHTTP ::
    "'r api_env \<Rightarrow> Tool gomap \<Rightarrow> string \<Rightarrow> string \<Rightarrow> bool \<Rightarrow> string \<Rightarrow> http_request \<Rightarrow> tools_handler \<Rightarrow> tools_api \<Rightarrow>
     (execute_result \<times> tools_handler \<times> effect list) \<times> tools_api" where
  "Tools_ServeHTTP env builtinDefs toolJobID callID sent cause rq th h =
     (case tools_route (rq_method rq) (rq_path rq) of
        TListTools \<Rightarrow> tools_authorized env rq (Answered (handleListTools (ta_config h) builtinDefs th), th, []) th h
      | TExecute \<Rightarrow> tools_authorized env rq
          (handleExecuteTool (ta_config h) toolJobID callID sent cause (ae_jsonErr env) rq th) th h
      | TUnknown \<Rightarrow> ((Answered (writeErrorJSON 404 ''not_found'' ''endpoint not found''), th, []), h))"

lemma tools_refuses:
  assumes "cache_ok (ae_idkey env) (v_cache (ta_verifier h))" and "hashes_ok (ta_verifier h)"
    and "VerifyKey (ae_idkey env) (extractBearerToken rq) (v_apiHash (ta_verifier h)) \<noteq> VKey True"
  shows "\<exists>out h'. Tools_ServeHTTP env builtinDefs toolJobID callID sent cause rq th h = ((Answered out, th, []), h') \<and>
    refused out {401, 404}"
  using bearer_auth_refuses [OF assms]
  by (auto simp: Tools_ServeHTTP_def tools_authorized_def tools_requireAuth_def refused_def writeErrorJSON_def
      split: tools_route.split)

section \<open>A direct call\<close>

lemma direct_call_sent:
  assumes "DispatchDirectToolCall cfg toolJobID callID sent tool args th = (Inr cont, th', es)"
    and "mget (th_conts th) (''direct:'' @ toolJobID) = None" and "mget (th_refs th) toolJobID = None"
  shows "\<exists>w job. w \<in> set (map snd (th_workers th)) \<and> (tool = [] \<or> tool \<in> set (tcn_tools w)) \<and>
    es = [ESend (tcn_id w) (MToolJob job)] \<and> tjm_tool job = tool \<and> tjm_args job = args \<and>
    (\<forall>msg. trm_job msg = tjm_job job \<longrightarrow> trm_parent msg = tjm_parent job \<longrightarrow> trm_call msg = tjm_call job \<longrightarrow>
       handleToolResult msg th' = (th, []))"
proof -
  from assms(1) obtain w where w: "pickToolsWorker th tool [] = Some w"
    by (auto simp: DispatchDirectToolCall_def split: option.splits)
  have sent: sent using assms(1) w by (auto simp: DispatchDirectToolCall_def Let_def split: if_splits)
  define job where "job = zero_ToolJobMessage\<lparr>tjm_type := ''tool_job'', tjm_job := toolJobID,
      tjm_parent := ''direct:'' @ toolJobID, tjm_tool := tool, tjm_call := callID, tjm_args := args,
      tjm_creds := (case mget (cfg_ToolCredentials cfg) tool of None \<Rightarrow> [] | Some m \<Rightarrow> m)\<rparr>"
  have th': "th' = th\<lparr>th_conts := mput (''direct:'' @ toolJobID) cont (th_conts th),
        th_refs := mput toolJobID \<lparr>ref_parent = ''direct:'' @ toolJobID, ref_call = callID\<rparr> (th_refs th)\<rparr>"
    and cont: "cont = \<lparr>pc_jobID = ''direct:'' @ toolJobID, pc_ctx = None, pc_assistant = zero_ChatMessage,
        pc_results = [(callID, None)], pc_remaining = 1, pc_isDirect = True\<rparr>"
    and es: "es = [ESend (tcn_id w) (MToolJob job)]"
    using assms(1) w sent by (auto simp: DispatchDirectToolCall_def Let_def job_def)
  have "w \<in> set (filter (\<lambda>w. tool = [] \<or> tool \<in> set (tcn_tools w)) (map snd (th_workers th)))"
    using pickFromEligible_mem w by (simp only: pickToolsWorker_def)
  moreover have "handleToolResult msg th' = (th, [])"
    if "trm_job msg = tjm_job job" "trm_parent msg = tjm_parent job" "trm_call msg = tjm_call job" for msg
    using that assms(2,3) unfolding th' cont
    by (simp add: handleToolResult_def recordToolResult_def job_def mdel_mput_new)
  ultimately show ?thesis using es by (intro exI [of _ w] exI [of _ job]) (auto simp: job_def)
qed

text \<open>
  A direct call that waits has sent its one tool job, with the arguments of the request, to
  a connected worker that advertises the tool; when that worker answers with the IDs of the job,
  nothing of the call stays registered.
\<close>

theorem direct_call_completes:
  assumes "handleExecuteTool cfg toolJobID callID sent cause jsonErr rq th = (Waiting tool cont, th', es)"
    and "mget (th_conts th) (''direct:'' @ toolJobID) = None" and "mget (th_refs th) toolJobID = None"
  shows "\<exists>w job. w \<in> set (map snd (th_workers th)) \<and> tool \<in> set (tcn_tools w) \<and>
    es = [ESend (tcn_id w) (MToolJob job)] \<and> tjm_tool job = tool \<and>
    (\<exists>req. from_raw dec_executeRequest (rq_body rq) zero_executeRequest = (req, True) \<and> xr_tool req = tool \<and>
       tjm_args job = (case xr_args req of None \<Rightarrow> Some (JObj []) | Some j \<Rightarrow> Some j)) \<and>
    (\<forall>msg. trm_job msg = tjm_job job \<longrightarrow> trm_parent msg = tjm_parent job \<longrightarrow> trm_call msg = tjm_call job \<longrightarrow>
       handleToolResult msg th' = (th, []))"
proof -
  obtain req where req: "from_raw dec_executeRequest (rq_body rq) zero_executeRequest = (req, True)"
      "TrimSpace (xr_tool req) \<noteq> []" "xr_tool req = tool"
      "DispatchDirectToolCall cfg toolJobID callID sent (xr_tool req)
         (case xr_args req of None \<Rightarrow> Some (JObj []) | Some j \<Rightarrow> Some j) th = (Inr cont, th', es)"
    using assms(1) by (auto simp: handleExecuteTool_def Let_def split: prod.splits bool.splits if_splits sum.splits)
  then have "tool \<noteq> []" by (auto simp: TrimSpace_def)
  with direct_call_sent [OF req(4) assms(2,3)] req(1,3) show ?thesis by blast
qed

theorem direct_call_completes_witness:
  "\<exists>job :: ToolJobMessage. (\<forall>msg. trm_job msg = tjm_job job \<longrightarrow> trm_parent msg = tjm_parent job \<longrightarrow> trm_call msg = tjm_call job \<longrightarrow>
      handleToolResult msg (fst (snd (handleExecuteTool demo_config ''1'' ''2'' True [] []
        \<lparr>rq_method = ''POST'', rq_path = [], rq_auth = [], rq_apiKey = [], rq_body = Some (JObj [(''tool'', JStr ''web_fetch'')])\<rparr>
        demo_tools))) = (demo_tools, []))"
proof -
  let ?rq = "\<lparr>rq_method = ''POST'', rq_path = [], rq_auth = [], rq_apiKey = [], rq_body = Some (JObj [(''tool'', JStr ''web_fetch'')])\<rparr>"
  let ?res = "handleExecuteTool demo_config ''1'' ''2'' True [] [] ?rq demo_tools"
  have "case fst ?res of Waiting t c \<Rightarrow> True | _ \<Rightarrow> False" by code_simp
  then obtain tool cont where res: "?res = (Waiting tool cont, fst (snd ?res), snd (snd ?res))"
    by (cases ?res; cases "fst ?res") auto
  have "mget (th_conts demo_tools) (''direct:'' @ ''1'') = None" "mget (th_refs demo_tools) ''1'' = None"
    by (simp_all add: NewToolsWSHandler_def)
  from direct_call_completes [OF res this] show ?thesis by blast
qed

end
