(* ===== verification/Mcp_Handler.thy ===== *)
theory Mcp_Handler
  imports Tools_Api
begin

text \<open>
  \<open>internal/router/mcphandler.go\<close>: the MCP server.  A session is the buffered channel of one
  client's event stream; the goroutine that answers a request is the step \<open>mcp_dispatch\<close>.  The
  tools handler and the server state are passed along.
\<close>

section \<open>State\<close>

record mcpEvent =
  me_name :: string
  me_data :: string

type_synonym mcp_sessions = "mcpEvent list gomap"

record mcp_handler =
  mh_verifier :: Verifier
  mh_queue :: "JobQueue option"
  mh_prefix :: "string option"
  mh_config :: Config
  mh_sessions :: mcp_sessions

definition NewMCPHandler :: "Verifier \<Rightarrow> JobQueue option \<Rightarrow> string option \<Rightarrow> Config \<Rightarrow> mcp_handler" where
  "NewMCPHandler verifier jobQueue tokenStream cfg =
     \<lparr>mh_verifier = verifier, mh_queue = jobQueue, mh_prefix = tokenStream, mh_config = cfg, mh_sessions = []\<rparr>"

definition mcp_requireAuth ::
    "'r api_env \<Rightarrow> http_request \<Rightarrow> mcp_handler \<Rightarrow> http_out list option \<times> mcp_handler" where
  "mcp_requireAuth env rq h =
     (if cfg_APIKeyHash (mh_config h) = [] then (None, h)
      else (case bearer_auth env rq (mh_verifier h) of (refusal, v) \<Rightarrow> (refusal, h\<lparr>mh_verifier := v\<rparr>)))"

section \<open>JSON-RPC\<close>

record rpc_request =
  rpc_version :: string
  rpc_id :: raw
  rpc_method :: string
  rpc_params :: raw

definition zero_rpc_request :: rpc_request where
  "zero_rpc_request = \<lparr>rpc_version = [], rpc_id = None, rpc_method = [], rpc_params = None\<rparr>"

definition dec_rpc_request :: "rpc_request decoder" where
  "dec_rpc_request = dec_struct
     [(''jsonrpc'', fld rpc_version rpc_version_update dec_string), (''id'', fld rpc_id rpc_id_update dec_raw),
      (''method'', fld rpc_method rpc_method_update dec_string), (''params'', fld rpc_params rpc_params_update dec_raw)]"

record rpc_response =
  rps_id :: raw
  rps_result :: raw
  rps_error :: "(int \<times> string) option"

definition enc_rpc_response :: "rpc_response \<Rightarrow> json" where
  "enc_rpc_response r = JObj
     ([(''jsonrpc'', JStr ''2.0''), (''id'', enc_raw (rps_id r))] @ opt_raw ''result'' (rps_result r) @
      opt_ptr ''error'' (\<lambda>(code, msg). JObj [(''code'', JNum (NInt code)), (''message'', JStr msg)]) (rps_error r))"

definition rpcParseError :: int where "rpcParseError = -32700"
definition rpcInvalidRequest :: int where "rpcInvalidRequest = -32600"
definition rpcMethodNotFound :: int where "rpcMethodNotFound = -32601"
definition rpcInvalidParams :: int where "rpcInvalidParams = -32602"
definition rpcInternalError :: int where "rpcInternalError = -32603"

definition rpcError :: "raw \<Rightarrow> int \<Rightarrow> string \<Rightarrow> rpc_response" where
  "rpcError i code msg = \<lparr>rps_id = i, rps_result = None, rps_error = Some (code, msg)\<rparr>"

definition rpcResult :: "raw \<Rightarrow> json \<Rightarrow> rpc_response" where
  "rpcResult i result = \<lparr>rps_id = i, rps_result = Some result, rps_error = None\<rparr>"

text \<open>The send to the channel of 64 events: a full one drops the response.\<close>

definition sendSSEResponse :: "string \<Rightarrow> rpc_response \<Rightarrow> mcp_sessions \<Rightarrow> mcp_sessions" where
  "sendSSEResponse sid resp sessions =
     (case mget sessions sid of
        None \<Rightarrow> sessions
      | Some evts \<Rightarrow>
          if length evts < 64 then
            mput sid (evts @ [\<lparr>me_name = ''message'', me_data = json_text (enc_rpc_response resp)\<rparr>]) sessions
          else sessions)"

section \<open>The event stream\<close>

text \<open>
  \<open>handleSSE\<close>: the session is registered (\<open>Some\<close> of its ID), then the loop of \<open>sse_turn\<close>s runs
  until the client is gone, when \<open>sse_close\<close> removes it.
\<close>

definition sse_head :: "string \<Rightarrow> string" where
  "sse_head sid = ''event: endpoint'' @ [CHR 0x0A] @ ''data: '' @
     strconv_quote (''/mcp/message?sessionId='' @ sid) @ [CHR 0x0A, CHR 0x0A]"

definition handleSSE ::
    "'r api_env \<Rightarrow> string \<Rightarrow> http_request \<Rightarrow> mcp_handler \<Rightarrow> (http_out list + string) \<times> mcp_handler" where
  "handleSSE env newID rq h =
     (case mcp_requireAuth env rq h of
        (Some refusal, h') \<Rightarrow> (Inl refusal, h')
      | (None, h') \<Rightarrow>
          if \<not> ae_flusher env then (Inl (writeErrorJSON 500 ''server_error'' ''SSE not supported''), h')
          else (Inr newID, h'\<lparr>mh_sessions := mput newID [] (mh_sessions h')\<rparr>))"

datatype sse_case = SseKeepAlive | SseEvent

definition event_lines :: "mcpEvent \<Rightarrow> string" where
  "event_lines e =
     (if me_name e \<noteq> [] then ''event: '' @ me_name e @ [CHR 0x0A] else []) @
     ''data: '' @ me_data e @ [CHR 0x0A, CHR 0x0A]"

definition sse_turn :: "string \<Rightarrow> sse_case \<Rightarrow> mcp_sessions \<Rightarrow> string \<times> mcp_sessions" where
  "sse_turn sid c sessions =
     (case (c, mget sessions sid) of
        (SseKeepAlive, Some _) \<Rightarrow> ('': keepalive'' @ [CHR 0x0A, CHR 0x0A], sessions)
      | (SseEvent, Some (e # evts)) \<Rightarrow> (event_lines e, mput sid evts sessions)
      | _ \<Rightarrow> ([], sessions))"

definition sse_close :: "string \<Rightarrow> mcp_handler \<Rightarrow> mcp_handler" where
  "sse_close sid h = h\<lparr>mh_sessions := mdel sid (mh_sessions h)\<rparr>"

section \<open>Messages\<close>

text \<open>\<open>handleMessage\<close>: the answer, and the request the dispatching goroutine is started for.\<close>

definition handleMessage ::
    "string \<Rightarrow> string \<Rightarrow> http_request \<Rightarrow> mcp_handler \<Rightarrow> http_out list \<times> rpc_request option \<times> mcp_handler" where
  "handleMessage jsonErr sid rq h =
     (case mget (mh_sessions h) sid of
        None \<Rightarrow> (writeErrorJSON 404 ''not_found''
                  (''MCP session '' @ strconv_quote sid @ '' not found '' @ em_dash @ '' open GET /mcp/sse first''), None, h)
      | Some _ \<Rightarrow>
          (let answer = (\<lambda>resp. h\<lparr>mh_sessions := sendSSEResponse sid resp (mh_sessions h)\<rparr>) in
           case from_raw dec_rpc_request (rq_body rq) zero_rpc_request of
             (_, False) \<Rightarrow> ([OStatus 202], None, answer (rpcError None rpcParseError (''invalid JSON: '' @ jsonErr)))
           | (req, True) \<Rightarrow>
               if rpc_version req \<noteq> ''2.0'' then
                 ([OStatus 202], None,
                  answer (rpcError (rpc_id req) rpcInvalidRequest (''jsonrpc must be '' @ strconv_quote ''2.0'')))
               else ([OStatus 202], Some req, h)))"

definition handleInitialize :: "rpc_request \<Rightarrow> rpc_response" where
  "handleInitialize req = rpcResult (rpc_id req) (JObj
     [(''capabilities'', JObj [(''tools'', JObj [])]),
      (''protocolVersion'', JStr ''2024-11-05''),
      (''serverInfo'', JObj [(''name'', JStr ''auxot-router''), (''version'', JStr ''0.1.0'')])])"

definition string_prop :: "string \<Rightarrow> string \<Rightarrow> json" where
  "string_prop typ desc = JObj [(''type'', JStr typ), (''description'', JStr desc)]"

definition generateTextSchema :: json where
  "generateTextSchema = JObj
     [(''type'', JStr ''object''),
      (''properties'', JObj
        [(''prompt'', string_prop ''string'' ''The user prompt to send to the LLM''),
         (''system'', string_prop ''string'' ''Optional system prompt. Defaults to a neutral assistant prompt.''),
         (''max_tokens'', string_prop ''integer'' ''Maximum tokens to generate. Default: 1024.''),
         (''temperature'', string_prop ''number'' ''Sampling temperature 0.0-2.0. Default: 0.7.'')]),
      (''required'', JArr [JStr ''prompt''])]"

definition mcp_tool :: "string \<Rightarrow> string \<Rightarrow> json \<Rightarrow> json" where
  "mcp_tool name desc schema = JObj ([(''name'', JStr name)] @ opt_str ''description'' desc @ [(''inputSchema'', schema)])"

text \<open>No tools at all is a nil slice, which is written as null.\<close>

definition handleToolsList :: "Config \<Rightarrow> Tool gomap \<Rightarrow> tools_handler \<Rightarrow> rpc_request \<Rightarrow> rpc_response" where
  "handleToolsList cfg builtinDefs th req =
     (let tools =
        (if cfg_MCPExposeLLM cfg then
           [mcp_tool ''generate_text''
              (''Generate text using the router'' @ [CHR 0x27] @ ''s LLM. '' @
               ''Use for one-shot inference, summarization, classification, '' @
               ''or any task that benefits from a separate LLM call.'') generateTextSchema]
         else []) @
        map (\<lambda>d. mcp_tool (td_name (tl_fn d)) (td_desc (tl_fn d))
                   (case td_params (tl_fn d) of
                      None \<Rightarrow> JObj [(''type'', JStr ''object''), (''properties'', JObj [])]
                    | Some j \<Rightarrow> j))
          (AllowedToolDefs cfg builtinDefs th)
      in rpcResult (rpc_id req) (JObj [(''tools'', if tools = [] then JNull else JArr tools)]))"

definition text_result :: "raw \<Rightarrow> string \<Rightarrow> rpc_response" where
  "text_result i text = rpcResult i (JObj
     [(''content'', JArr [JObj [(''text'', JStr text), (''type'', JStr ''text'')]]), (''isError'', JBool False)])"

record call_params =
  cp_name :: string
  cp_args :: raw

definition dec_call_params :: "call_params decoder" where
  "dec_call_params = dec_struct
     [(''name'', fld cp_name cp_name_update dec_string), (''arguments'', fld cp_args cp_args_update dec_raw)]"

definition zero_call_params :: call_params where
  "zero_call_params = \<lparr>cp_name = [], cp_args = None\<rparr>"

text \<open>What the end of a tool call is answered with; \<open>source\<close> gives the bytes of the worker's result.\<close>

definition call_answer :: "(json \<Rightarrow> string) \<Rightarrow> string \<Rightarrow> raw \<Rightarrow> direct_error + raw \<Rightarrow> rpc_response" where
  "call_answer source cause i outcome =
     (case outcome of
        Inl e \<Rightarrow> rpcError i rpcInternalError (''tool execution failed: '' @ direct_error_text cause e)
      | Inr result \<Rightarrow>
          text_result i
            (case from_raw dec_string result [] of
               (s, True) \<Rightarrow> s
             | (_, False) \<Rightarrow> (case result of None \<Rightarrow> [] | Some j \<Rightarrow> source j)))"

section \<open>Text generation\<close>

record generate_input =
  gi_prompt :: string
  gi_system :: string
  gi_max :: "int option"
  gi_temp :: "number option"

definition dec_generate_input :: "generate_input decoder" where
  "dec_generate_input = dec_struct
     [(''prompt'', fld gi_prompt gi_prompt_update dec_string), (''system'', fld gi_system gi_system_update dec_string),
      (''max_tokens'', fld gi_max gi_max_update (dec_ptr 0 dec_int)),
      (''temperature'', fld gi_temp gi_temp_update (dec_ptr (NInt 0) dec_float))]"

definition zero_generate_input :: generate_input where
  "zero_generate_input = \<lparr>gi_prompt = [], gi_system = [], gi_max = None, gi_temp = None\<rparr>"

datatype llm_out = LLMText string string | LLMError string

text \<open>One event of \<open>dispatchLLMCall\<close>; the state is the text so far.\<close>

definition llm_event :: "entry_env \<Rightarrow> TokenEvent \<Rightarrow> string \<Rightarrow> (string, llm_out) verdict_of" where
  "llm_event env ev content =
     (if te_Type ev = ''token'' then
        (case from_raw dec_string (te_Data ev) [] of
           (token, True) \<Rightarrow> Continue (content @ token) []
         | (_, False) \<Rightarrow> Continue content [])
      else if te_Type ev = ''done'' then
        (let complete = fst (from_raw dec_CompleteMessage (te_Data ev) zero_CompleteMessage)
         in Finish [LLMText (if com_full complete \<noteq> [] then com_full complete else content)
                            (if com_calls complete \<noteq> [] then ''tool_calls'' else ''stop'')])
      else if te_Type ev = ''error'' then Finish [LLMError (''LLM error: '' @ error_message (te_Data ev))]
      else Continue content [])"

definition llm_consumer :: "string \<Rightarrow> (entry_env, string, llm_out) consumer" where
  "llm_consumer ctxErr =
     \<lparr>c_event = llm_event, c_gone = [LLMError ctxErr], c_late = [LLMError ctxErr],
      c_failed = (\<lambda>e. [LLMError (''reading token stream: '' @ e)])\<rparr>"

definition llm_job :: "string \<Rightarrow> generate_input \<Rightarrow> JobMessage" where
  "llm_job jobID input = zero_JobMessage
     \<lparr>jm_type := ''job'', jm_job := jobID,
      jm_messages :=
        [\<lparr>cm_role = ''system'', cm_content = ChatContentString (gi_system input), cm_call_id = [], cm_calls = []\<rparr>,
         \<lparr>cm_role = ''user'', cm_content = ChatContentString (gi_prompt input), cm_call_id = [], cm_calls = []\<rparr>],
      jm_temp := gi_temp input, jm_max := gi_max input\<rparr>"

definition dispatchLLMCall ::
    "'r api_env \<Rightarrow> string \<Rightarrow> JobQueue \<Rightarrow> string \<Rightarrow> string \<Rightarrow> generate_input \<Rightarrow> 'r \<Rightarrow> llm_out list \<times> bool \<times> 'r" where
  "dispatchLLMCall env ctxErr queue prefix jobID input r =
     (case enqueueJob (ae_redis env) queue (llm_job jobID input) r of
        (Some e, r') \<Rightarrow> ([LLMError (''enqueuing LLM job: '' @ e)], True, r')
      | (None, r') \<Rightarrow>
          event_loop (llm_consumer ctxErr) (ae_clock env) (job_reader env prefix jobID)
            (map (\<lambda>(ended, now). (ended, False)) (ae_polls env)) ''0-0'' [] r')"

definition with_defaults :: "generate_input \<Rightarrow> generate_input" where
  "with_defaults input =
     input\<lparr>gi_system := (if gi_system input = [] then ''You are a helpful assistant.'' else gi_system input),
           gi_max := (case gi_max input of None \<Rightarrow> Some 1024 | Some n \<Rightarrow> Some n),
           gi_temp := (case gi_temp input of None \<Rightarrow> Some (NLit ''0.7'') | Some t \<Rightarrow> Some t)\<rparr>"

definition llm_answer :: "raw \<Rightarrow> llm_out \<Rightarrow> rpc_response" where
  "llm_answer i res =
     (case res of
        LLMError e \<Rightarrow> rpcError i rpcInternalError (''LLM call failed: '' @ e)
      | LLMText text reason \<Rightarrow>
          text_result i (json_text (JObj [(''finish_reason'', JStr reason), (''text'', JStr text)])))"

text \<open>\<open>None\<close> is a call that is still running after the given polls.\<close>

definition handleGenerateText ::
    "'r api_env \<Rightarrow> string \<Rightarrow> string \<Rightarrow> mcp_handler \<Rightarrow> raw \<Rightarrow> raw \<Rightarrow> 'r \<Rightarrow> rpc_response option \<times> 'r" where
  "handleGenerateText env ctxErr jobID h i args r =
     (case (mh_queue h, mh_prefix h) of
        (Some queue, Some prefix) \<Rightarrow>
          (case from_raw dec_generate_input args zero_generate_input of
             (_, False) \<Rightarrow> (Some (rpcError i rpcInvalidParams (''invalid arguments: '' @ ae_jsonErr env)), r)
           | (input, True) \<Rightarrow>
               if gi_prompt input = [] then (Some (rpcError i rpcInvalidParams ''prompt is required''), r)
               else
                 (case dispatchLLMCall env ctxErr queue prefix jobID (with_defaults input) r of
                    (res # _, True, r') \<Rightarrow> (Some (llm_answer i res), r')
                  | (_, _, r') \<Rightarrow> (None, r')))
      | _ \<Rightarrow> (Some (rpcError i rpcInternalError
               (''LLM dispatch not available '' @ em_dash @ '' router was started without a job queue'')), r))"

section \<open>Dispatch\<close>

text \<open>The outcome of a request: an answer, none, or the call it waits for.\<close>

datatype mcp_outcome = MAnswer rpc_response | MSilent | MRunning | MWaiting raw pendingContinuation

record call_env =
  ce_toolJobID :: string
  ce_callID :: string
  ce_jobID :: string
  ce_sent :: bool
  ce_cause :: string

definition handleToolsCall ::
    "'r api_env \<Rightarrow> call_env \<Rightarrow> mcp_handler \<Rightarrow> rpc_request \<Rightarrow> tools_handler \<Rightarrow> 'r \<Rightarrow>
     mcp_outcome \<times> tools_handler \<times> effect list \<times> 'r" where
  "handleToolsCall env ce h req th r =
     (let i = rpc_id req; now_answer = (\<lambda>resp. (MAnswer resp, th, [], r)) in
      case from_raw dec_call_params (rpc_params req) zero_call_params of
        (_, False) \<Rightarrow> now_answer (rpcError i rpcInvalidParams (''invalid params: '' @ ae_jsonErr env))
      | (params, True) \<Rightarrow>
          if cp_name params = [] then now_answer (rpcError i rpcInvalidParams ''tool name is required'')
          else
            (let args = (case cp_args params of None \<Rightarrow> Some (JObj []) | Some j \<Rightarrow> Some j) in
             if cp_name params = ''generate_text'' then
               if \<not> cfg_MCPExposeLLM (mh_config h) then
                 now_answer (rpcError i rpcMethodNotFound
                   (''generate_text is not enabled '' @ em_dash @ '' set AUXOT_MCP_EXPOSE_LLM=true to enable''))
               else
                 (case handleGenerateText env (ce_cause ce) (ce_jobID ce) h i args r of
                    (Some resp, r') \<Rightarrow> (MAnswer resp, th, [], r')
                  | (None, r') \<Rightarrow> (MRunning, th, [], r'))
             else if \<not> HasToolsWorker th then
               now_answer (rpcError i rpcInternalError
                 (''no tools worker connected '' @ em_dash @ '' start auxot-tools and connect it to this router''))
             else
               (case DispatchDirectToolCall (mh_config h) (ce_toolJobID ce) (ce_callID ce) (ce_sent ce) (cp_name params) args th of
                  (Inl e, th', es) \<Rightarrow> (MAnswer (call_answer (ae_source env) (ce_cause ce) i (Inl e)), th', es, r)
                | (Inr cont, th', es) \<Rightarrow> (MWaiting i cont, th', es, r))))"

definition mcp_dispatch ::
    "'r api_env \<Rightarrow> Tool gomap \<Rightarrow> call_env \<Rightarrow> string \<Rightarrow> rpc_request \<Rightarrow> mcp_handler \<Rightarrow> tools_handler \<Rightarrow> 'r \<Rightarrow>
     mcp_outcome \<times> mcp_handler \<times> tools_handler \<times> effect list \<times> 'r" where
  "mcp_dispatch env builtinDefs ce sid req h th r =
     (let (outcome, th', es, r') =
        (if rpc_method req = ''initialize'' then (MAnswer (handleInitialize req), th, [], r)
         else if rpc_method req = ''notifications/initialized'' then (MSilent, th, [], r)
         else if rpc_method req = ''tools/list'' then (MAnswer (handleToolsList (mh_config h) builtinDefs th req), th, [], r)
         else if rpc_method req = ''tools/call'' then handleToolsCall env ce h req th r
         else if rpc_method req = ''ping'' then (MAnswer (rpcResult (rpc_id req) (JObj [])), th, [], r)
         else (MAnswer (rpcError (rpc_id req) rpcMethodNotFound
                 (''method '' @ strconv_quote (rpc_method req) @ '' not supported'')), th, [], r))
      in (outcome,
          (case outcome of MAnswer resp \<Rightarrow> h\<lparr>mh_sessions := sendSSEResponse sid resp (mh_sessions h)\<rparr> | _ \<Rightarrow> h),
          th', es, r'))"

datatype mcp_route = MSSE | MMessage | MUnknown

definition mcp_route :: "string \<Rightarrow> string \<Rightarrow> mcp_route" where
  "mcp_route method path =
     (if method = ''GET'' \<and> (path = ''/mcp/sse'' \<or> path = ''/mcp/sse/'') then MSSE
      else if method = ''POST'' \<and> (path = ''/mcp/message'' \<or> path = ''/mcp/message/'') then MMessage
      else MUnknown)"

text \<open>
  What a request of the MCP endpoints comes to: an answer, an open event stream, or an accepted
  request for the dispatching goroutine of its session; \<open>sid\<close> is the session in its query.
\<close>

datatype mcp_result = McpAnswer "http_out list" | McpStream string | McpAccepted string rpc_request

definition Mcp_ServeHTTP ::
    "'r api_env \<Rightarrow> string \<Rightarrow> string \<Rightarrow> http_request \<Rightarrow> mcp_handler \<Rightarrow> mcp_result \<times> mcp_handler" where
  "Mcp_ServeHTTP env newID sid rq h =
     (case mcp_route (rq_method rq) (rq_path rq) of
        MSSE \<Rightarrow> (case handleSSE env newID rq h of (Inl out, h') \<Rightarrow> (McpAnswer out, h') | (Inr i, h') \<Rightarrow> (McpStream i, h'))
      | MMessage \<Rightarrow>
          (case handleMessage (ae_jsonErr env) sid rq h of
             (out, None, h') \<Rightarrow> (McpAnswer out, h')
           | (out, Some req, h') \<Rightarrow> (McpAccepted sid req, h'))
      | MUnknown \<Rightarrow> (McpAnswer (writeErrorJSON 404 ''not_found'' ''MCP endpoint not found''), h))"

section \<open>Sessions are opened by authorized requests\<close>

text \<open>
  The states of the server from \<open>h0\<close> on.  \<open>opened\<close> holds the session IDs handed to the requests
  for a stream whose key verifies, whatever the handler made of them.  A late answer is that of a
  call that had to wait.
\<close>

inductive mcp_reach :: "argon2 \<Rightarrow> 'r redis \<Rightarrow> mcp_handler \<Rightarrow> string set \<Rightarrow> mcp_handler \<Rightarrow> bool"
  for idkey :: argon2 and R :: "'r redis" and h0 :: mcp_handler where
  start: "mcp_reach idkey R h0 {} h0"
| serve: "mcp_reach idkey R h0 opened h \<Longrightarrow> ae_idkey env = idkey \<Longrightarrow> ae_redis env = R \<Longrightarrow>
    Mcp_ServeHTTP env newID sid rq h = (res, h') \<Longrightarrow>
    mcp_reach idkey R h0
      (if VerifyKey idkey (extractBearerToken rq) (v_apiHash (mh_verifier h0)) = VKey True then insert newID opened else opened) h'"
| dispatch: "mcp_reach idkey R h0 opened h \<Longrightarrow> ae_idkey env = idkey \<Longrightarrow> ae_redis env = R \<Longrightarrow>
    mcp_dispatch env builtinDefs ce sid req h th r = (outcome, h', th', es, r') \<Longrightarrow> mcp_reach idkey R h0 opened h'"
| late: "mcp_reach idkey R h0 opened h \<Longrightarrow>
    mcp_reach idkey R h0 opened (h\<lparr>mh_sessions := sendSSEResponse sid (call_answer source cause i outcome) (mh_sessions h)\<rparr>)"
| turn: "mcp_reach idkey R h0 opened h \<Longrightarrow>
    mcp_reach idkey R h0 opened (h\<lparr>mh_sessions := snd (sse_turn sid c (mh_sessions h))\<rparr>)"
| close: "mcp_reach idkey R h0 opened h \<Longrightarrow> mcp_reach idkey R h0 opened (sse_close sid h)"

text \<open>The invariant: the sessions are opened ones, and their channels hold at most 64 events.\<close>

definition sessions_ok :: "string set \<Rightarrow> mcp_sessions \<Rightarrow> bool" where
  "sessions_ok opened sessions \<longleftrightarrow> (\<forall>sid evts. mget sessions sid = Some evts \<longrightarrow> sid \<in> opened \<and> length evts \<le> 64)"

lemma sessions_ok_mono: "sessions_ok opened s \<Longrightarrow> opened \<subseteq> opened' \<Longrightarrow> sessions_ok opened' s"
  unfolding sessions_ok_def by blast

lemma sessions_ok_put:
  "sessions_ok opened s \<Longrightarrow> sid \<in> opened \<Longrightarrow> length evts \<le> 64 \<Longrightarrow> sessions_ok opened (mput sid evts s)"
  by (simp add: sessions_ok_def)

lemma sessions_ok_send: "sessions_ok opened s \<Longrightarrow> sessions_ok opened (sendSSEResponse sid resp s)"
  by (auto simp: sendSSEResponse_def sessions_ok_def split: option.split)

lemma sessions_ok_turn: "sessions_ok opened s \<Longrightarrow> sessions_ok opened (snd (sse_turn sid c s))"
  by (auto simp: sse_turn_def sessions_ok_def split: sse_case.split option.split list.split)
    (metis Suc_leD length_Cons)

lemma sessions_ok_close: "sessions_ok opened s \<Longrightarrow> sessions_ok opened (mdel sid s)"
  by (simp add: sessions_ok_def)

text \<open>What the verifier and the configuration keep while requests are served.\<close>

definition auth_ok :: "argon2 \<Rightarrow> mcp_handler \<Rightarrow> mcp_handler \<Rightarrow> bool" where
  "auth_ok idkey h0 h \<longleftrightarrow>
     cache_ok idkey (v_cache (mh_verifier h)) \<and> hashes_ok (mh_verifier h) \<and>
     v_apiHash (mh_verifier h) = v_apiHash (mh_verifier h0) \<and> cfg_APIKeyHash (mh_config h) \<noteq> []"

lemma auth_ok_sessions [simp]: "auth_ok idkey h0 (h\<lparr>mh_sessions := s\<rparr>) = auth_ok idkey h0 h"
  by (simp add: auth_ok_def)

lemma mcp_requireAuth_ok:
  assumes "auth_ok (ae_idkey env) h0 h" and "mcp_requireAuth env rq h = (res, h')"
  shows "auth_ok (ae_idkey env) h0 h' \<and> mh_sessions h' = mh_sessions h \<and>
    (res = None \<longrightarrow> VerifyKey (ae_idkey env) (extractBearerToken rq) (v_apiHash (mh_verifier h0)) = VKey True)"
proof -
  obtain v where auth: "bearer_auth env rq (mh_verifier h) = (res, v)" and h': "h' = h\<lparr>mh_verifier := v\<rparr>"
    using assms by (auto simp: mcp_requireAuth_def auth_ok_def split: prod.splits)
  have v: "cache_ok (ae_idkey env) (v_cache v) \<and> hashes_ok v \<and> v_apiHash v = v_apiHash (mh_verifier h)"
    using assms(1) bearer_auth_keeps [OF _ _ auth] by (simp add: auth_ok_def)
  moreover have "VerifyKey (ae_idkey env) (extractBearerToken rq) (v_apiHash (mh_verifier h)) = VKey True" if "res = None"
    using bearer_auth_refuses [of env "mh_verifier h" rq] auth that assms(1) by (auto simp: auth_ok_def)
  ultimately show ?thesis using assms(1) h' by (auto simp: auth_ok_def)
qed

lemma mcp_serve_ok:
  assumes "auth_ok (ae_idkey env) h0 h" and "sessions_ok opened (mh_sessions h)"
    and "Mcp_ServeHTTP env newID sid rq h = (res, h')"
  shows "auth_ok (ae_idkey env) h0 h' \<and>
    sessions_ok (if VerifyKey (ae_idkey env) (extractBearerToken rq) (v_apiHash (mh_verifier h0)) = VKey True
                 then insert newID opened else opened) (mh_sessions h')"
proof (cases "mcp_route (rq_method rq) (rq_path rq)")
  case MSSE
  obtain refusal h1 where auth: "mcp_requireAuth env rq h = (refusal, h1)" by fastforce
  have h1: "auth_ok (ae_idkey env) h0 h1" "mh_sessions h1 = mh_sessions h"
    "refusal = None \<longrightarrow> VerifyKey (ae_idkey env) (extractBearerToken rq) (v_apiHash (mh_verifier h0)) = VKey True"
    using mcp_requireAuth_ok [OF assms(1) auth] by simp_all
  have mono: "sessions_ok (insert newID opened) (mh_sessions h)"
    using assms(2) by (rule sessions_ok_mono) blast
  have "h' = h1 \<or> refusal = None \<and> h' = h1\<lparr>mh_sessions := mput newID [] (mh_sessions h1)\<rparr>"
    using assms(3) MSSE auth
    by (auto simp: Mcp_ServeHTTP_def handleSSE_def split: option.splits if_splits)
  then show ?thesis
    using h1 mono assms(2) sessions_ok_put [OF mono, of newID "[]"] by auto
next
  case MMessage
  have "h' = h \<or> (\<exists>resp. h' = h\<lparr>mh_sessions := sendSSEResponse sid resp (mh_sessions h)\<rparr>)"
    using assms(3) MMessage
    by (auto simp: Mcp_ServeHTTP_def handleMessage_def Let_def split: option.splits prod.splits bool.splits if_splits)
  then have "auth_ok (ae_idkey env) h0 h' \<and> sessions_ok opened (mh_sessions h')"
    using assms(1,2) sessions_ok_send by auto
  then show ?thesis by (auto intro: sessions_ok_mono)
next
  case MUnknown
  then show ?thesis using assms by (auto simp: Mcp_ServeHTTP_def intro: sessions_ok_mono)
qed

lemma mcp_dispatch_ok:
  assumes "mcp_dispatch env builtinDefs ce sid req h th r = (outcome, h', th', es, r')"
  shows "h' = h \<or> (\<exists>resp. h' = h\<lparr>mh_sessions := sendSSEResponse sid resp (mh_sessions h)\<rparr>)"
  using assms by (auto simp: mcp_dispatch_def split: prod.splits mcp_outcome.splits)

text \<open>
  With a key configured, whatever requests come in and whatever calls they make, every MCP
  session that is open was opened by a request whose key verifies, and its channel never holds
  more than 64 events.
\<close>

theorem mcp_sessions_authorized:
  assumes "mcp_reach idkey R h0 opened h" and "mh_sessions h0 = []"
    and "cfg_APIKeyHash (mh_config h0) \<noteq> []"
    and "cache_ok idkey (v_cache (mh_verifier h0))" and "hashes_ok (mh_verifier h0)"
  shows "sessions_ok opened (mh_sessions h)"
proof -
  from assms(1) have "auth_ok idkey h0 h \<and> sessions_ok opened (mh_sessions h)"
  proof induction
    case start
    then show ?case using assms(2-5) by (simp add: auth_ok_def sessions_ok_def)
  next
    case (serve opened h env newID sid rq res h')
    then show ?case using mcp_serve_ok [of env h0 h opened newID sid rq res h'] by simp
  next
    case (dispatch opened h env builtinDefs ce sid req th r outcome h' th' es r')
    then show ?case using mcp_dispatch_ok [OF dispatch.hyps(4)] sessions_ok_send by auto
  qed (auto simp: sessions_ok_send sessions_ok_turn sessions_ok_close sse_close_def)
  then show ?thesis ..
qed

definition demo_mcp :: mcp_handler where
  "demo_mcp = NewMCPHandler (NewVerifier [] ''x'' 60) None None (demo_config\<lparr>cfg_APIKeyHash := ''x''\<rparr>)"

theorem mcp_sessions_authorized_witness:
  "sessions_ok {} (mh_sessions (snd (Mcp_ServeHTTP demo_api ''s'' []
     \<lparr>rq_method = ''GET'', rq_path = ''/mcp/sse'', rq_auth = ''Bearer k'', rq_apiKey = [], rq_body = None\<rparr> demo_mcp)))"
proof -
  let ?rq = "\<lparr>rq_method = ''GET'', rq_path = ''/mcp/sse'', rq_auth = ''Bearer k'', rq_apiKey = [], rq_body = None\<rparr>"
  have key: "VerifyKey pad_idkey (extractBearerToken ?rq) (v_apiHash (mh_verifier demo_mcp)) \<noteq> VKey True" by code_simp
  have env: "ae_idkey demo_api = pad_idkey" "ae_redis demo_api = demo_server demo_log" by (simp_all add: demo_api_def)
  have "mcp_reach pad_idkey (demo_server demo_log) demo_mcp {} (snd (Mcp_ServeHTTP demo_api ''s'' [] ?rq demo_mcp))"
    using mcp_reach.serve [OF mcp_reach.start [of pad_idkey "demo_server demo_log" demo_mcp] env prod.collapse [symmetric],
        where rq = ?rq and newID = "''s''" and sid = "[]"]
    unfolding if_not_P [OF key] .
  then show ?thesis
    by (rule mcp_sessions_authorized)
      (simp_all add: demo_mcp_def NewMCPHandler_def demo_config_def NewVerifier_def NewVerifierWithTools_def hashes_ok_def)
qed

end
