(* ===== verification/Go_Path.thy ===== *)
theory Go_Path
  imports Go_Prelude
begin

text \<open>
  Paths with \<open>/\<close>: Go's \<open>path.Clean\<close>, \<open>filepath.Join\<close>, \<open>filepath.Rel\<close>, \<open>filepath.Dir\<close> and
  \<open>filepath.Ext\<close> on Unix, and the elements of a clean path.
\<close>

section \<open>Clean\<close>

fun join_with :: "string \<Rightarrow> string list \<Rightarrow> string" where
  "join_with sep [] = []"
| "join_with sep [x] = x"
| "join_with sep (x # xs) = x @ sep @ join_with sep xs"

text \<open>One element on the stack of those kept so far, the last on top.\<close>

definition clean_step :: "bool \<Rightarrow> string \<Rightarrow> string list \<Rightarrow> string list" where
  "clean_step rooted e st =
     (if e = [] \<or> e = ''.'' then st
      else if e = ''..'' then
        (case st of
           [] \<Rightarrow> if rooted then [] else [''..'']
         | x # xs \<Rightarrow> if x = ''..'' then ''..'' # st else xs)
      else e # st)"

definition rooted :: "string \<Rightarrow> bool" where
  "rooted p \<longleftrightarrow> HasPrefix p ''/''"

definition path_elems :: "string \<Rightarrow> string list" where
  "path_elems p = rev (fold (clean_step (rooted p)) (Split (CHR ''/'') p) [])"

definition path_of :: "bool \<Rightarrow> string list \<Rightarrow> string" where
  "path_of r es = (if r then CHR ''/'' # join_with ''/'' es else if es = [] then ''.'' else join_with ''/'' es)"

definition path_Clean :: "string \<Rightarrow> string" where
  "path_Clean p = path_of (rooted p) (path_elems p)"

definition filepath_Join :: "string list \<Rightarrow> string" where
  "filepath_Join ps =
     (case filter (\<lambda>p. p \<noteq> []) ps of [] \<Rightarrow> [] | qs \<Rightarrow> path_Clean (join_with ''/'' qs))"

text \<open>
  \<open>Rel\<close> on the elements of the clean paths.  The target \<open>.\<close> is an element of its own, the
  base \<open>.\<close> has none.
\<close>

fun strip_common :: "string list \<Rightarrow> string list \<Rightarrow> string list \<times> string list" where
  "strip_common (x # xs) (y # ys) = (if x = y then strip_common xs ys else (x # xs, y # ys))"
| "strip_common xs ys = (xs, ys)"

definition filepath_Rel :: "string \<Rightarrow> string \<Rightarrow> string option" where
  "filepath_Rel basepath targpath =
     (if path_Clean targpath = path_Clean basepath then Some ''.''
      else if rooted basepath \<noteq> rooted targpath then None
      else
        (case strip_common (path_elems basepath)
                (if path_Clean targpath = ''.'' then [''.''] else path_elems targpath) of
           ([], ts) \<Rightarrow> Some (join_with ''/'' ts)
         | (b # bs, ts) \<Rightarrow>
             if ts \<noteq> [] \<and> b = ''..'' then None
             else Some (join_with ''/'' (map (\<lambda>_. ''..'') (b # bs) @ ts))))"

text \<open>The file name is what follows the last slash; \<open>Ext\<close> is its part from the last dot.\<close>

definition filepath_Ext :: "string \<Rightarrow> string" where
  "filepath_Ext p =
     (let name = rev (takeWhile (\<lambda>c. c \<noteq> CHR ''/'') (rev p)) in
      if CHR ''.'' \<in> set name then CHR ''.'' # rev (takeWhile (\<lambda>c. c \<noteq> CHR ''.'') (rev name)) else [])"

definition filepath_Dir :: "string \<Rightarrow> string" where
  "filepath_Dir p = path_Clean (rev (dropWhile (\<lambda>c. c \<noteq> CHR ''/'') (rev p)))"

section \<open>The elements of a path\<close>

definition plain_elem :: "string \<Rightarrow> bool" where
  "plain_elem e \<longleftrightarrow> e \<noteq> [] \<and> e \<noteq> ''.'' \<and> e \<noteq> ''..'' \<and> CHR ''/'' \<notin> set e"

text \<open>A clean path goes up only at its start, and not at all from the root.\<close>

definition clean_elems :: "bool \<Rightarrow> string list \<Rightarrow> bool" where
  "clean_elems r es \<longleftrightarrow>
     (\<exists>n fs. es = replicate n ''..'' @ fs \<and> list_all plain_elem fs \<and> (r \<longrightarrow> n = 0))"

lemma clean_elemsI:
  "es = replicate n ''..'' @ fs \<Longrightarrow> list_all plain_elem fs \<Longrightarrow> (r \<longrightarrow> n = 0) \<Longrightarrow> clean_elems r es"
  unfolding clean_elems_def by blast

lemma clean_elems_Nil [simp]: "clean_elems r []"
  by (rule clean_elemsI [of _ 0 "[]"]) simp_all

lemma clean_elems_snoc:
  assumes "clean_elems r es" and "plain_elem e"
  shows "clean_elems r (es @ [e])"
proof -
  obtain n fs where "es = replicate n ''..'' @ fs" "list_all plain_elem fs" "r \<longrightarrow> n = 0"
    using assms(1) by (auto simp: clean_elems_def)
  with assms(2) show ?thesis by (intro clean_elemsI [of _ n "fs @ [e]"]) simp_all
qed

lemma clean_elems_up: "clean_elems False es \<Longrightarrow> es = [] \<or> last es = ''..'' \<Longrightarrow> clean_elems False (es @ [''..''])"
proof -
  assume "clean_elems False es" and last: "es = [] \<or> last es = ''..''"
  then obtain n fs where es: "es = replicate n ''..'' @ fs" "list_all plain_elem fs"
    by (auto simp: clean_elems_def)
  have "fs = []"
  proof (rule ccontr)
    assume "fs \<noteq> []"
    with es(2) have "plain_elem (last fs)" by (simp add: list_all_iff)
    with last es(1) \<open>fs \<noteq> []\<close> show False by (simp add: plain_elem_def)
  qed
  with es have "es @ [''..''] = replicate (Suc n) ''..'' @ []" by (simp add: replicate_append_same)
  then show ?thesis by (rule clean_elemsI) simp_all
qed

lemma clean_elems_butlast: "clean_elems r es \<Longrightarrow> clean_elems r (butlast es)"
proof -
  assume "clean_elems r es"
  then obtain n fs where es: "es = replicate n ''..'' @ fs" "list_all plain_elem fs" "r \<longrightarrow> n = 0"
    by (auto simp: clean_elems_def)
  show ?thesis
  proof (cases "fs = []")
    case True
    with es have "butlast es = replicate (n - 1) ''..'' @ []" by (cases n) (simp_all add: butlast_append replicate_append_same [symmetric] del: replicate_append_same)
    then show ?thesis by (rule clean_elemsI) (use es(3) in simp_all)
  next
    case False
    with es have "butlast es = replicate n ''..'' @ butlast fs" "list_all plain_elem (butlast fs)"
      by (auto simp: butlast_append list_all_iff dest: in_set_butlastD)
    with es(3) show ?thesis by (intro clean_elemsI) simp_all
  qed
qed

lemma clean_step_elems:
  assumes "clean_elems r (rev st)" and "CHR ''/'' \<notin> set e"
  shows "clean_elems r (rev (clean_step r e st))"
proof -
  consider "e = [] \<or> e = ''.''" | "e = ''..''" | "plain_elem e"
    using assms(2) by (auto simp: plain_elem_def)
  then show ?thesis
  proof cases
    case 1
    with assms(1) show ?thesis by (auto simp: clean_step_def)
  next
    case 2
    show ?thesis
    proof (cases st)
      case Nil
      have "clean_elems False [''..'']" by (rule clean_elemsI [of _ 1 "[]"]) simp_all
      with Nil 2 show ?thesis by (cases r) (simp_all add: clean_step_def)
    next
      case (Cons x xs)
      have up: "clean_elems r (rev st @ [''..''])" if "x = ''..''"
      proof -
        have "last (rev st) = ''..''" using that Cons by simp
        moreover have "\<not> r"
        proof
          assume r
          with assms(1) have "list_all plain_elem (rev st)" by (auto simp: clean_elems_def)
          with that Cons show False by (simp add: plain_elem_def)
        qed
        ultimately show ?thesis using clean_elems_up assms(1) by simp
      qed
      have "clean_elems r (rev xs)" using clean_elems_butlast [OF assms(1)] Cons by simp
      with up Cons 2 show ?thesis by (simp add: clean_step_def)
    qed
  next
    case 3
    with clean_elems_snoc [OF assms(1)] show ?thesis by (auto simp: clean_step_def plain_elem_def)
  qed
qed

lemma path_elems_clean: "clean_elems (rooted p) (path_elems p)"
proof -
  have "clean_elems r (rev (fold (clean_step r) es st))"
    if "clean_elems r (rev st)" "\<forall>e\<in>set es. CHR ''/'' \<notin> set e" for r es st
    using that
  proof (induction es arbitrary: st)
    case (Cons e es)
    have "clean_elems r (rev (clean_step r e st))" using clean_step_elems Cons.prems by simp
    with Cons show ?case by simp
  qed simp
  from this [of "rooted p" "[]" "Split (CHR ''/'') p"] show ?thesis
    using Split_parts unfolding path_elems_def by auto
qed

section \<open>A clean path has the elements it was made of\<close>

lemma clean_elems_no_slash:
  assumes "clean_elems r es" and "e \<in> set es"
  shows "CHR ''/'' \<notin> set e" and "e \<noteq> []"
proof -
  obtain n fs where es: "es = replicate n ''..'' @ fs" "list_all plain_elem fs"
    using assms(1) by (auto simp only: clean_elems_def)
  have "e = ''..'' \<or> plain_elem e"
    using assms(2) es(2) unfolding es(1) set_append list_all_iff by (auto split: if_splits)
  then show "CHR ''/'' \<notin> set e" "e \<noteq> []" by (auto simp: plain_elem_def)
qed

lemma Split_join:
  "es \<noteq> [] \<Longrightarrow> (\<And>e. e \<in> set es \<Longrightarrow> CHR ''/'' \<notin> set e) \<Longrightarrow> Split (CHR ''/'') (join_with ''/'' es) = es"
proof (induction es)
  case (Cons e es)
  show ?case
  proof (cases es)
    case Nil
    with Cons.prems show ?thesis by (simp add: Split_no_sep)
  next
    case (Cons x xs)
    have "Split (CHR ''/'') (join_with ''/'' es) = es" using Cons Cons.IH Cons.prems by simp
    moreover have "join_with ''/'' (e # es) = e @ CHR ''/'' # join_with ''/'' es" using Cons by simp
    ultimately show ?thesis using Cons.prems(2) [of e] by (simp add: Split_append)
  qed
qed simp

lemma fold_plain:
  "list_all plain_elem fs \<Longrightarrow> fold (clean_step r) fs st = rev fs @ st"
  by (induction fs arbitrary: st) (auto simp: clean_step_def plain_elem_def)

lemma clean_step_up: "clean_step False ''..'' (replicate m ''..'') = replicate (Suc m) ''..''"
  by (cases m) (simp_all add: clean_step_def)

lemma fold_up: "fold (clean_step False) (replicate n ''..'') (replicate m ''..'') = replicate (n + m) ''..''"
proof (induction n arbitrary: m)
  case (Suc n)
  show ?case
    by (simp only: replicate_Suc [of n] fold_Cons comp_def clean_step_up Suc) simp
qed simp

lemma fold_clean:
  assumes "clean_elems r es"
  shows "fold (clean_step r) es [] = rev es"
proof -
  obtain n fs where es: "es = replicate n ''..'' @ fs" "list_all plain_elem fs" "r \<longrightarrow> n = 0"
    using assms by (auto simp only: clean_elems_def)
  have "fold (clean_step r) (replicate n ''..'') [] = replicate n ''..''"
    using es(3) fold_up [of n 0] by (cases r) (simp_all only: replicate_0 add_0_right fold_Nil id_apply simp_thms)
  then show ?thesis
    unfolding es(1) by (simp only: fold_append comp_def fold_plain [OF es(2)] rev_append rev_replicate)
qed

lemma rooted_path_of: "clean_elems r es \<Longrightarrow> rooted (path_of r es) = r"
proof -
  assume clean: "clean_elems r es"
  have "\<not> rooted (join_with ''/'' es)" if ne: "es \<noteq> []"
  proof -
    obtain e fs where es: "es = e # fs" using ne by (cases es) auto
    have "CHR ''/'' \<notin> set e" "e \<noteq> []" using clean_elems_no_slash [OF clean] es by auto
    then show ?thesis using es by (cases fs; cases e) (auto simp: rooted_def HasPrefix_def)
  qed
  then show ?thesis by (simp add: path_of_def rooted_def HasPrefix_def)
qed

lemma path_elems_path_of:
  assumes "clean_elems r es"
  shows "path_elems (path_of r es) = es"
proof (cases "es = []")
  case True
  then show ?thesis by (simp add: path_of_def path_elems_def rooted_def clean_step_def)
next
  case False
  have split: "Split (CHR ''/'') (join_with ''/'' es) = es"
    using False clean_elems_no_slash(1) [OF assms] by (rule Split_join)
  have "fold (clean_step r) (Split (CHR ''/'') (path_of r es)) [] = rev es"
    using False fold_clean [OF assms] split by (cases r) (simp_all add: path_of_def clean_step_def [of _ "[]"])
  then show ?thesis by (simp add: path_elems_def rooted_path_of [OF assms])
qed

lemma rooted_Clean [simp]: "rooted (path_Clean p) = rooted p"
  by (simp add: path_Clean_def rooted_path_of path_elems_clean)

lemma path_elems_Clean [simp]: "path_elems (path_Clean p) = path_elems p"
  by (simp add: path_Clean_def path_elems_path_of path_elems_clean)

lemma path_Clean_idem [simp]: "path_Clean (path_Clean p) = path_Clean p"
  by (simp add: path_Clean_def [of "path_Clean p"]) (simp add: path_Clean_def)

lemma strip_common_nil: "strip_common xs ys = ([], ts) \<Longrightarrow> ys = xs @ ts"
  by (induction xs ys rule: strip_common.induct) (auto split: if_splits)

lemma strip_common_rest: "strip_common xs ys = (bs, ts) \<Longrightarrow> bs \<noteq> [] \<Longrightarrow> \<nexists>zs. ys = xs @ zs"
  by (induction xs ys rule: strip_common.induct) (auto split: if_splits)

lemma strip_common_append [simp]: "strip_common xs (xs @ ts) = ([], ts)"
  by (induction xs) (cases ts, auto)

end
