(* ===== verification/Server.thy ===== *)
theory Server
  imports Api_Handler Anthropic_Handler Mcp_Handler Go_Path Ws_Handler
begin

text \<open>
  \<open>internal/router/server.go\<close>: the router's HTTP server.  The handlers share one verifier, one pool
  and one tools handler, so the state of the server holds each of them once and a request runs its
  handler on a view of it.  Go's \<open>ServeMux\<close> is the part of it the patterns of this server use;
  paths are those that are written without escapes, so \<open>RawPath\<close> is empty.
\<close>

section \<open>State\<close>

record server =
  sv_config :: Config
  sv_verifier :: Verifier
  sv_ws :: ws_handler
  sv_sessions :: mcp_sessions

definition server_queue :: JobQueue where
  "server_queue = NewJobQueue ''auxot:jobs'' ''workers''"

definition token_prefix :: string where
  "token_prefix = ''auxot:''"

text \<open>\<open>parseErr\<close> and \<open>pingErr\<close> are the errors of the Redis client, if any.\<close>

definition NewServer :: "'r redis \<Rightarrow> string option \<Rightarrow> string option \<Rightarrow> Config \<Rightarrow> 'r \<Rightarrow> (string + server) \<times> 'r" where
  "NewServer R parseErr pingErr cfg r =
     (case (parseErr, pingErr) of
        (Some e, _) \<Rightarrow> (Inl (''parsing REDIS_URL: '' @ e), r)
      | (None, Some e) \<Rightarrow> (Inl (''connecting to Redis: '' @ e), r)
      | (None, None) \<Rightarrow>
          (case EnsureGroup R server_queue r of
             (Inl e, r') \<Rightarrow> (Inl (''creating job queue consumer group: '' @ e), r')
           | (Inr _, r') \<Rightarrow>
               (Inr \<lparr>sv_config = cfg,
                     sv_verifier = NewVerifierWithTools (cfg_AdminKeyHash cfg) (cfg_APIKeyHash cfg) (cfg_ToolsKeyHash cfg) (cfg_AuthCacheTTL cfg),
                     sv_ws = NewWSHandler (if cfg_ToolsKeyHash cfg \<noteq> [] then Some NewToolsWSHandler else None),
                     sv_sessions = []\<rparr>, r')))"

section \<open>Paths\<close>

definition v1Tolerant :: "string \<Rightarrow> string" where
  "v1Tolerant p =
     (if HasPrefix p ''/api/openai/v1/v1/'' then ''/api/openai/'' @ TrimPrefix p ''/api/openai/v1/v1/''
      else if HasPrefix p ''/api/openai/v1/'' then ''/api/openai/'' @ TrimPrefix p ''/api/openai/v1/''
      else if HasPrefix p ''/api/anthropic/v1/v1/'' then ''/api/anthropic/v1/'' @ TrimPrefix p ''/api/anthropic/v1/v1/''
      else if HasPrefix p ''/api/anthropic/'' \<and> \<not> HasPrefix p ''/api/anthropic/v1/'' then
        ''/api/anthropic/v1/'' @ TrimPrefix p ''/api/anthropic/''
      else p)"

text \<open>\<open>cleanPath\<close> of \<open>net/http\<close>: a trailing slash is kept.\<close>

definition cleanPath :: "string \<Rightarrow> string" where
  "cleanPath p =
     (let p' = (if rooted p then p else CHR ''/'' # p); np = path_Clean p' in
      if HasSuffix p' ''/'' \<and> np \<noteq> ''/'' then np @ ''/'' else np)"

datatype mux_pattern = PWs | POpenAI | PAnthropic | PTools | PMcp | PHealth | PCatchAll

definition pattern_text :: "mux_pattern \<Rightarrow> string" where
  "pattern_text m =
     (case m of PWs \<Rightarrow> ''/ws'' | POpenAI \<Rightarrow> ''/api/openai/'' | PAnthropic \<Rightarrow> ''/api/anthropic/'' | PTools \<Rightarrow> ''/api/tools/''
      | PMcp \<Rightarrow> ''/mcp/'' | PHealth \<Rightarrow> ''/health'' | PCatchAll \<Rightarrow> ''/'')"

definition registered :: "bool \<Rightarrow> mux_pattern list" where
  "registered tools = [PWs, POpenAI, PAnthropic] @ (if tools then [PTools, PMcp] else []) @ [PHealth, PCatchAll]"

text \<open>A pattern with a trailing slash matches the paths below it; the catch-all comes last.\<close>

definition pattern_matches :: "string \<Rightarrow> mux_pattern \<Rightarrow> bool" where
  "pattern_matches path m \<longleftrightarrow>
     (if m = PWs \<or> m = PHealth then path = pattern_text m else HasPrefix path (pattern_text m))"

definition mux_match :: "bool \<Rightarrow> string \<Rightarrow> mux_pattern option" where
  "mux_match tools path = List.find (pattern_matches path) (registered tools)"

definition exact_match :: "bool \<Rightarrow> string \<Rightarrow> bool" where
  "exact_match tools path \<longleftrightarrow> map_option pattern_text (mux_match tools path) = Some path"

datatype mux_result = MuxHandler mux_pattern | MuxRedirect string | MuxNone

definition to_slash :: "bool \<Rightarrow> string \<Rightarrow> bool" where
  "to_slash tools path \<longleftrightarrow>
     \<not> exact_match tools path \<and> \<not> HasSuffix path ''/'' \<and> exact_match tools (path @ ''/'')"

definition mux_find :: "bool \<Rightarrow> string \<Rightarrow> string \<Rightarrow> mux_result" where
  "mux_find tools method p =
     (let path = (if method = ''CONNECT'' then p else cleanPath p) in
      if to_slash tools path then MuxRedirect (cleanPath p @ ''/'')
      else if path \<noteq> p then MuxRedirect path
      else (case mux_match tools path of None \<Rightarrow> MuxNone | Some m \<Rightarrow> MuxHandler m))"

section \<open>Serving a request\<close>

text \<open>What a request meets besides \<^typ>\<open>'r api_env\<close>: the IDs of what it starts and the query of its URL.\<close>

record serve_env =
  se_builtin :: "Tool gomap"
  se_session :: string
  se_newID :: string
  se_toolJobID :: string
  se_callID :: string
  se_sent :: bool
  se_cause :: string

datatype server_out =
    SApi "http_out list"
  | SAnthropic "ant_out list"
  | STools execute_result
  | SMcp mcp_result
  | SUpgrade
  | SRedirect int string
  | SText int string

definition api_view :: "server \<Rightarrow> api_handler" where
  "api_view sv = \<lparr>ah_verifier = sv_verifier sv, ah_pool = ws_pool (sv_ws sv), ah_queue = server_queue,
     ah_prefix = token_prefix, ah_config = sv_config sv\<rparr>"

definition ant_view :: "server \<Rightarrow> ant_handler" where
  "ant_view sv = \<lparr>nh_verifier = sv_verifier sv, nh_queue = server_queue, nh_prefix = token_prefix, nh_config = sv_config sv\<rparr>"

definition mcp_view :: "server \<Rightarrow> mcp_handler" where
  "mcp_view sv = (NewMCPHandler (sv_verifier sv) (Some server_queue) (Some token_prefix) (sv_config sv))
     \<lparr>mh_sessions := sv_sessions sv\<rparr>"

definition serve_tools ::
    "'r api_env \<Rightarrow> serve_env \<Rightarrow> http_request \<Rightarrow> tools_handler \<Rightarrow> server \<Rightarrow> (server_out \<times> effect list) \<times> server" where
  "serve_tools env se rq th sv =
     (case Tools_ServeHTTP env (se_builtin se) (se_toolJobID se) (se_callID se) (se_sent se) (se_cause se) rq th
             \<lparr>ta_verifier = sv_verifier sv, ta_config = sv_config sv\<rparr> of
        ((out, th', es), h') \<Rightarrow>
          ((STools out, es),
           sv\<lparr>sv_verifier := ta_verifier h', sv_ws := (sv_ws sv)\<lparr>ws_tools := Some th'\<rparr>\<rparr>))"

definition serve_mcp ::
    "'r api_env \<Rightarrow> serve_env \<Rightarrow> http_request \<Rightarrow> server \<Rightarrow> server_out \<times> server" where
  "serve_mcp env se rq sv =
     (case Mcp_ServeHTTP env (se_newID se) (se_session se) rq (mcp_view sv) of
        (out, h') \<Rightarrow> (SMcp out, sv\<lparr>sv_verifier := mh_verifier h', sv_sessions := mh_sessions h'\<rparr>))"

text \<open>
  The result: the answer, the messages for tools workers, whether the response has ended, and the
  state of Redis.  \<open>SUpgrade\<close> hands the connection to the WebSocket handler.
\<close>

definition mux_ServeHTTP ::
    "'r api_env \<Rightarrow> serve_env \<Rightarrow> http_request \<Rightarrow> server \<Rightarrow> 'r \<Rightarrow> (server_out \<times> effect list \<times> bool \<times> 'r) \<times> server" where
  "mux_ServeHTTP env se rq sv r =
     (let tools = ws_tools (sv_ws sv) in
      case mux_find (tools \<noteq> None) (rq_method rq) (rq_path rq) of
        MuxRedirect to \<Rightarrow> ((SRedirect 301 to, [], True, r), sv)
      | MuxNone \<Rightarrow> ((SText 404 ''404 page not found'', [], True, r), sv)
      | MuxHandler m \<Rightarrow>
          (case m of
             PWs \<Rightarrow> ((SUpgrade, [], True, r), sv)
           | POpenAI \<Rightarrow>
               (case Api_ServeHTTP env rq (api_view sv) r of
                  ((out, fin, r'), h') \<Rightarrow> ((SApi out, [], fin, r'), sv\<lparr>sv_verifier := ah_verifier h'\<rparr>))
           | PHealth \<Rightarrow>
               (case Api_ServeHTTP env rq (api_view sv) r of
                  ((out, fin, r'), h') \<Rightarrow> ((SApi out, [], fin, r'), sv\<lparr>sv_verifier := ah_verifier h'\<rparr>))
           | PAnthropic \<Rightarrow>
               (case Ant_ServeHTTP env (rq\<lparr>rq_path := TrimPrefix (rq_path rq) ''/api/anthropic''\<rparr>) (ant_view sv) r of
                  ((out, fin, r'), h') \<Rightarrow> ((SAnthropic out, [], fin, r'), sv\<lparr>sv_verifier := nh_verifier h'\<rparr>))
           | PTools \<Rightarrow>
               (case tools of
                  None \<Rightarrow> ((SText 404 ''404 page not found'', [], True, r), sv)
                | Some th \<Rightarrow> (case serve_tools env se rq th sv of ((out, es), sv') \<Rightarrow> ((out, es, True, r), sv')))
           | PMcp \<Rightarrow> (case serve_mcp env se rq sv of (out, sv') \<Rightarrow> ((out, [], True, r), sv'))
           | PCatchAll \<Rightarrow> ((SApi (writeErrorJSON 404 ''not_found'' ''endpoint not found''), [], True, r), sv)))"

definition Server_ServeHTTP ::
    "'r api_env \<Rightarrow> serve_env \<Rightarrow> http_request \<Rightarrow> server \<Rightarrow> 'r \<Rightarrow> (server_out \<times> effect list \<times> bool \<times> 'r) \<times> server" where
  "Server_ServeHTTP env se rq sv r = mux_ServeHTTP env se (rq\<lparr>rq_path := v1Tolerant (rq_path rq)\<rparr>) sv r"

section \<open>The spellings of a path\<close>

lemma HasPrefix_mono: "HasPrefix s (p @ q) \<Longrightarrow> HasPrefix s p"
  by (auto simp: HasPrefix_conv)

lemma v1_twice: "\<not> HasPrefix sub ''v1/'' \<Longrightarrow> \<not> HasPrefix sub ''v1/v1/''"
  using HasPrefix_mono [of sub "''v1/''" "''v1/''"] by auto

lemma v1_openai:
  assumes "\<not> HasPrefix sub ''v1/''" and "p \<in> {''/api/openai/'' @ sub, ''/api/openai/v1/'' @ sub, ''/api/openai/v1/v1/'' @ sub}"
  shows "v1Tolerant p = ''/api/openai/'' @ sub"
  using assms v1_twice [OF assms(1)] by (elim insertE) (simp_all add: v1Tolerant_def TrimPrefix_def)

lemma v1_anthropic:
  assumes "\<not> HasPrefix sub ''v1/''"
    and "p \<in> {''/api/anthropic/'' @ sub, ''/api/anthropic/v1/'' @ sub, ''/api/anthropic/v1/v1/'' @ sub}"
  shows "v1Tolerant p = ''/api/anthropic/v1/'' @ sub"
  using assms v1_twice [OF assms(1)] by (elim insertE) (simp_all add: v1Tolerant_def TrimPrefix_def)

lemma same_path:
  assumes "v1Tolerant p = v1Tolerant q"
  shows "Server_ServeHTTP env se (rq\<lparr>rq_path := p\<rparr>) sv r = Server_ServeHTTP env se (rq\<lparr>rq_path := q\<rparr>) sv r"
  using assms by (cases rq) (simp add: Server_ServeHTTP_def)

text \<open>
  Clients may leave out the \<open>/v1\<close> of a path, give it once or twice: whatever the request, the
  server does the same for the three spellings of an OpenAI or an Anthropic path.
\<close>

theorem v1_spellings_agree:
  assumes "\<not> HasPrefix sub ''v1/''" and "api \<in> {''/api/openai/'', ''/api/anthropic/''}"
    and "vs \<in> {[], ''v1/'', ''v1/v1/''}" and "vs' \<in> {[], ''v1/'', ''v1/v1/''}"
  shows "Server_ServeHTTP env se (rq\<lparr>rq_path := api @ vs @ sub\<rparr>) sv r =
    Server_ServeHTTP env se (rq\<lparr>rq_path := api @ vs' @ sub\<rparr>) sv r"
proof (rule same_path)
  have "v1Tolerant (''/api/openai/'' @ v @ sub) = ''/api/openai/'' @ sub \<and>
      v1Tolerant (''/api/anthropic/'' @ v @ sub) = ''/api/anthropic/v1/'' @ sub" if v: "v \<in> {[], ''v1/'', ''v1/v1/''}" for v
    using v v1_openai [OF assms(1), of "''/api/openai/'' @ v @ sub"]
      v1_anthropic [OF assms(1), of "''/api/anthropic/'' @ v @ sub"]
    by (elim insertE) simp_all
  from this [OF assms(3)] this [OF assms(4)] assms(2)
  show "v1Tolerant (api @ vs @ sub) = v1Tolerant (api @ vs' @ sub)"
    by (elim insertE emptyE) (simp_all only: simp_thms)
qed

section \<open>Nothing is served without a key\<close>

definition keys_ok :: "argon2 \<Rightarrow> string \<Rightarrow> Verifier \<Rightarrow> bool" where
  "keys_ok idkey hash v \<longleftrightarrow> cache_ok idkey (v_cache v) \<and> hashes_ok v \<and> v_apiHash v = hash"

lemma bearer_auth_denies:
  assumes "keys_ok (ae_idkey env) hash v" and "VerifyKey (ae_idkey env) (extractBearerToken rq) hash \<noteq> VKey True"
  shows "\<exists>refusal v'. bearer_auth env rq v = (Some refusal, v') \<and> refused refusal {401} \<and> keys_ok (ae_idkey env) hash v'"
  using assms bearer_auth_refuses [of env v rq] bearer_auth_keeps [of env v rq]
  unfolding keys_ok_def by blast

lemma refused_mono: "refused out s \<Longrightarrow> s \<subseteq> t \<Longrightarrow> refused out t"
  unfolding refused_def by blast

lemma ant_refused_mono: "ant_refused out s \<Longrightarrow> s \<subseteq> t \<Longrightarrow> ant_refused out t"
  unfolding ant_refused_def by blast

lemma api_denies:
  assumes "keys_ok (ae_idkey env) hash (ah_verifier h)"
    and "VerifyKey (ae_idkey env) (extractBearerToken rq) hash \<noteq> VKey True"
  shows "\<exists>out v'. Api_ServeHTTP env rq h r = ((out, True, r), h\<lparr>ah_verifier := v'\<rparr>) \<and>
    (refused out {401, 404, 501} \<or> out = handleHealth h) \<and> keys_ok (ae_idkey env) hash v'"
proof -
  obtain refusal v' where auth: "bearer_auth env rq (ah_verifier h) = (Some refusal, v')" "refused refusal {401}"
      "keys_ok (ae_idkey env) hash v'"
    using bearer_auth_denies [OF assms] by blast
  then have "requireAuth env rq h = (Some refusal, h\<lparr>ah_verifier := v'\<rparr>)" by (simp add: requireAuth_def)
  note no = authorized_refuses [OF this]
  let ?denied = "\<lambda>res. \<exists>out v'. res = ((out, True, r), h\<lparr>ah_verifier := v'\<rparr>) \<and>
    (refused out {401, 404, 501} \<or> out = handleHealth h) \<and> keys_ok (ae_idkey env) hash v'"
  have "refused refusal {401, 404, 501}" using auth(2) by (rule refused_mono) simp
  with auth(3) have "?denied ((refusal, True, r), h\<lparr>ah_verifier := v'\<rparr>)" by blast
  moreover have "?denied ((out, True, r), h)" if "refused out {401, 404, 501} \<or> out = handleHealth h" for out
    using that assms(1) by (intro exI [of _ out] exI [of _ "ah_verifier h"]) simp
  moreover have "refused (writeErrorJSON n a b) {401, 404, 501}" if "n = 404 \<or> n = 501" for n a b
    using that by (auto simp: refused_def writeErrorJSON_def)
  ultimately show ?thesis
    by (cases "api_route (rq_method rq) (rq_path rq)")
      (simp_all only: Api_ServeHTTP_def handleChatCompletion_def handleLegacyCompletion_def no answer_with_def
        api_route.case simp_thms)
qed

lemma ant_denies:
  assumes "keys_ok (ae_idkey env) hash (nh_verifier h)"
    and "VerifyKey (ae_idkey env) (request_key rq) hash \<noteq> VKey True"
  shows "\<exists>out v'. Ant_ServeHTTP env rq h r = ((out, True, r), h\<lparr>nh_verifier := v'\<rparr>) \<and>
    ant_refused out {401, 404} \<and> keys_ok (ae_idkey env) hash v'"
proof -
  have "\<exists>out v'. (\<forall>body. ant_requireAuth env rq body h r = ((out, True, r), h\<lparr>nh_verifier := v'\<rparr>)) \<and>
      ant_refused out {401, 404} \<and> keys_ok (ae_idkey env) hash v'"
  proof (cases "request_key rq = []")
    case True
    then show ?thesis
      using assms(1) by (intro exI [of _ "nh_verifier h"] exI)
        (auto simp: ant_requireAuth_def ant_refused_def writeAnthropicError_def)
  next
    case False
    obtain a v' where v: "VerifyAPIKey (ae_idkey env) (ae_check env) (ae_expiry env) (request_key rq) (nh_verifier h) = (a, v')"
      by fastforce
    then have "a \<noteq> VKey True" "keys_ok (ae_idkey env) hash v'"
      using assms VerifyAPIKey_refuses [of env "nh_verifier h" "request_key rq"]
        VerifyAPIKey_keeps [of env "nh_verifier h" "request_key rq" a v'] by (auto simp: keys_ok_def)
    with v False show ?thesis
      by (intro exI [of _ v'] exI [of _ "if a = VPanic then [] else
            writeAnthropicError (ae_rnd env) 401 ''authentication_error'' ''Invalid API key.''"])
        (auto simp: ant_requireAuth_def ant_refused_def writeAnthropicError_def Let_def split: verdict.split bool.split)
  qed
  then obtain out v' where no: "\<And>body. ant_requireAuth env rq body h r = ((out, True, r), h\<lparr>nh_verifier := v'\<rparr>)"
      "ant_refused out {401, 404}" "keys_ok (ae_idkey env) hash v'"
    by blast
  let ?denied = "\<lambda>res. \<exists>out v'. res = ((out, True, r), h\<lparr>nh_verifier := v'\<rparr>) \<and>
    ant_refused out {401, 404} \<and> keys_ok (ae_idkey env) hash v'"
  have "?denied ((out, True, r), h\<lparr>nh_verifier := v'\<rparr>)" using no(2,3) by blast
  moreover have "?denied ((writeAnthropicError (ae_rnd env) 404 a b, True, r), h)" for a b
    using assms(1) by (intro exI [of _ "writeAnthropicError (ae_rnd env) 404 a b"] exI [of _ "nh_verifier h"])
      (simp add: ant_refused_def writeAnthropicError_def)
  ultimately show ?thesis
    by (cases "ant_route (rq_method rq) (rq_path rq)")
      (simp_all only: Ant_ServeHTTP_def handleMessages_def handleCountTokens_def no(1) ant_answer_def ant_route.case simp_thms)
qed

lemma refused_doc: "n \<in> s \<Longrightarrow> refused (writeErrorJSON n a b) s"
  by (simp add: refused_def writeErrorJSON_def)

lemma tools_denies:
  assumes "keys_ok (ae_idkey env) hash (ta_verifier h)"
    and "VerifyKey (ae_idkey env) (extractBearerToken rq) hash \<noteq> VKey True"
  shows "\<exists>out v'. Tools_ServeHTTP env builtinDefs toolJobID callID sent cause rq th h =
      ((Answered out, th, []), h\<lparr>ta_verifier := v'\<rparr>) \<and>
    refused out {401, 404} \<and> keys_ok (ae_idkey env) hash v'"
proof -
  let ?denied = "\<lambda>res. \<exists>out v'. res = ((Answered out, th, []), h\<lparr>ta_verifier := v'\<rparr>) \<and>
    refused out {401, 404} \<and> keys_ok (ae_idkey env) hash v'"
  obtain refusal v' where auth: "bearer_auth env rq (ta_verifier h) = (Some refusal, v')" "refused refusal {401}"
      "keys_ok (ae_idkey env) hash v'"
    using bearer_auth_denies [OF assms] by blast
  have no: "tools_authorized env rq res th h = ((Answered refusal, th, []), h\<lparr>ta_verifier := v'\<rparr>)" for res
    by (simp add: tools_authorized_def tools_requireAuth_def auth(1))
  have "?denied ((Answered refusal, th, []), h\<lparr>ta_verifier := v'\<rparr>)"
    using auth(2,3) refused_mono [of refusal "{401}" "{401, 404}"] by blast
  moreover have "?denied ((Answered (writeErrorJSON 404 a b), th, []), h)" for a b
    using assms(1) refused_doc [of 404 "{401, 404}"]
    by (intro exI [of _ "writeErrorJSON 404 a b"] exI [of _ "ta_verifier h"]) simp
  ultimately show ?thesis
    by (cases "tools_route (rq_method rq) (rq_path rq)")
      (simp_all only: Tools_ServeHTTP_def no tools_route.case)
qed

lemma mcp_denies:
  assumes "keys_ok (ae_idkey env) hash (mh_verifier h)"
    and "VerifyKey (ae_idkey env) (extractBearerToken rq) hash \<noteq> VKey True"
    and "cfg_APIKeyHash (mh_config h) \<noteq> []" and "mget (mh_sessions h) sid = None"
  shows "\<exists>out v'. Mcp_ServeHTTP env newID sid rq h = (McpAnswer out, h\<lparr>mh_verifier := v'\<rparr>) \<and>
    refused out {401, 404} \<and> keys_ok (ae_idkey env) hash v'"
proof -
  let ?denied = "\<lambda>res. \<exists>out v'. res = (McpAnswer out, h\<lparr>mh_verifier := v'\<rparr>) \<and>
    refused out {401, 404} \<and> keys_ok (ae_idkey env) hash v'"
  obtain refusal v' where auth: "bearer_auth env rq (mh_verifier h) = (Some refusal, v')" "refused refusal {401}"
      "keys_ok (ae_idkey env) hash v'"
    using bearer_auth_denies [OF assms(1,2)] by blast
  have no: "handleSSE env newID rq h = (Inl refusal, h\<lparr>mh_verifier := v'\<rparr>)"
    using assms(3) by (simp add: handleSSE_def mcp_requireAuth_def auth(1))
  have "?denied (McpAnswer refusal, h\<lparr>mh_verifier := v'\<rparr>)"
    using auth(2,3) refused_mono [of refusal "{401}" "{401, 404}"] by blast
  moreover have "?denied (McpAnswer (writeErrorJSON 404 a b), h)" for a b
    using assms(1) refused_doc [of 404 "{401, 404}"]
    by (intro exI [of _ "writeErrorJSON 404 a b"] exI [of _ "mh_verifier h"]) simp
  ultimately show ?thesis
    using assms(4)
    by (cases "mcp_route (rq_method rq) (rq_path rq)")
      (simp_all only: Mcp_ServeHTTP_def handleMessage_def no mcp_route.case sum.case prod.case option.case)
qed

text \<open>An answer that tells nothing and starts nothing; the upgrade leads to the handshake of the worker keys.\<close>

fun denied :: "server_out \<Rightarrow> bool" where
  "denied (SApi out) = refused out {401, 404, 501}"
| "denied (SAnthropic out) = ant_refused out {401, 404}"
| "denied (STools (Answered out)) = refused out {401, 404}"
| "denied (STools (Waiting tool cont)) = False"
| "denied (SMcp (McpAnswer out)) = refused out {401, 404}"
| "denied (SMcp res) = False"
| "denied SUpgrade = True"
| "denied (SRedirect status to) = True"
| "denied (SText status msg) = (status = 404)"

text \<open>A request with no key that verifies, neither in the bearer token nor in \<open>x-api-key\<close>, and no open session.\<close>

definition keyless :: "string \<Rightarrow> mcp_sessions \<Rightarrow> 'r api_env \<Rightarrow> serve_env \<Rightarrow> http_request \<Rightarrow> bool" where
  "keyless hash sessions env se rq \<longleftrightarrow>
     VerifyKey (ae_idkey env) (extractBearerToken rq) hash \<noteq> VKey True \<and>
     VerifyKey (ae_idkey env) (request_key rq) hash \<noteq> VKey True \<and> mget sessions (se_session se) = None"

lemma key_of_path [simp]:
  "extractBearerToken (rq\<lparr>rq_path := p\<rparr>) = extractBearerToken rq"
  "request_key (rq\<lparr>rq_path := p\<rparr>) = request_key rq"
  by (simp_all add: extractBearerToken_def request_key_def Let_def)

lemma keyless_path [simp]: "keyless hash sessions env se (rq\<lparr>rq_path := p\<rparr>) = keyless hash sessions env se rq"
  by (simp add: keyless_def)

lemma mux_denies:
  assumes keys: "keys_ok (ae_idkey env) hash (sv_verifier sv)"
    and key: "keyless hash (sv_sessions sv) env se rq" and cfg: "cfg_APIKeyHash (sv_config sv) \<noteq> []"
  shows "\<exists>out v'. mux_ServeHTTP env se rq sv r = ((out, [], True, r), sv\<lparr>sv_verifier := v'\<rparr>) \<and>
    (denied out \<or> out = SApi (handleHealth (api_view sv))) \<and> keys_ok (ae_idkey env) hash v'"
    (is "?denied (mux_ServeHTTP env se rq sv r)")
proof -
  have keep: "?denied ((out, [], True, r), sv)" if "denied out" for out
    using that keys by (intro exI [of _ out] exI [of _ "sv_verifier sv"]) simp
  have api: "?denied (case Api_ServeHTTP env rq (api_view sv) r of
      ((out, fin, r'), h') \<Rightarrow> ((SApi out, [], fin, r'), sv\<lparr>sv_verifier := ah_verifier h'\<rparr>))"
    using api_denies [of env hash "api_view sv" rq r] keys key by (auto simp: keyless_def api_view_def)
  have ant: "?denied (case Ant_ServeHTTP env (rq\<lparr>rq_path := p\<rparr>) (ant_view sv) r of
      ((out, fin, r'), h') \<Rightarrow> ((SAnthropic out, [], fin, r'), sv\<lparr>sv_verifier := nh_verifier h'\<rparr>))" for p
    using ant_denies [of env hash "ant_view sv" "rq\<lparr>rq_path := p\<rparr>" r] keys key
    by (auto simp: keyless_def ant_view_def)
  have tools: "?denied (case serve_tools env se rq th sv of ((out, es), sv') \<Rightarrow> ((out, es, True, r), sv'))"
    if "ws_tools (sv_ws sv) = Some th" for th
  proof -
    have "sv\<lparr>sv_verifier := v', sv_ws := sv_ws sv\<lparr>ws_tools := Some th\<rparr>\<rparr> = sv\<lparr>sv_verifier := v'\<rparr>" for v'
      using that by (cases sv) (cases "sv_ws sv", simp)
    moreover obtain out v' where "Tools_ServeHTTP env (se_builtin se) (se_toolJobID se) (se_callID se) (se_sent se) (se_cause se) rq th
        \<lparr>ta_verifier = sv_verifier sv, ta_config = sv_config sv\<rparr> =
        ((Answered out, th, []), \<lparr>ta_verifier = v', ta_config = sv_config sv\<rparr>)"
        "refused out {401, 404}" "keys_ok (ae_idkey env) hash v'"
      using tools_denies [of env hash "\<lparr>ta_verifier = sv_verifier sv, ta_config = sv_config sv\<rparr>" rq
          "se_builtin se" "se_toolJobID se" "se_callID se" "se_sent se" "se_cause se" th] keys key
      by (auto simp: keyless_def)
    ultimately show ?thesis
      by (intro exI [of _ "STools (Answered out)"] exI [of _ v']) (simp add: serve_tools_def)
  qed
  have mcp: "?denied (case serve_mcp env se rq sv of (out, sv') \<Rightarrow> ((out, [], True, r), sv'))"
  proof -
    have "sv\<lparr>sv_verifier := v', sv_sessions := sv_sessions sv\<rparr> = sv\<lparr>sv_verifier := v'\<rparr>" for v'
      by (cases sv) simp
    moreover obtain out v' where "Mcp_ServeHTTP env (se_newID se) (se_session se) rq (mcp_view sv) =
        (McpAnswer out, (mcp_view sv)\<lparr>mh_verifier := v'\<rparr>)"
        "refused out {401, 404}" "keys_ok (ae_idkey env) hash v'"
      using mcp_denies [of env hash "mcp_view sv" rq "se_session se" "se_newID se"] keys key cfg
      by (auto simp: keyless_def mcp_view_def NewMCPHandler_def)
    ultimately show ?thesis
      by (intro exI [of _ "SMcp (McpAnswer out)"] exI [of _ v']) (simp add: serve_mcp_def mcp_view_def)
  qed
  show ?thesis
  proof (cases "mux_find (ws_tools (sv_ws sv) \<noteq> None) (rq_method rq) (rq_path rq)")
    case (MuxHandler m)
    have nf: "?denied ((SApi (writeErrorJSON 404 a b), [], True, r), sv)" for a b
      by (rule keep) (simp add: refused_doc)
    show ?thesis
      unfolding mux_ServeHTTP_def Let_def MuxHandler mux_result.case
      by (cases m; cases "ws_tools (sv_ws sv)")
        (simp_all only: mux_pattern.case option.case api ant mcp tools keep nf denied.simps simp_thms)
  qed (simp_all only: mux_ServeHTTP_def Let_def mux_result.case keep denied.simps)
qed

fun server_run ::
    "('r api_env \<times> serve_env \<times> http_request) list \<Rightarrow> server \<Rightarrow> 'r \<Rightarrow> server_out list \<times> effect list \<times> server \<times> 'r" where
  "server_run [] sv r = ([], [], sv, r)"
| "server_run ((env, se, rq) # rqs) sv r =
     (case Server_ServeHTTP env se rq sv r of
        ((out, es, fin, r'), sv') \<Rightarrow>
          (case server_run rqs sv' r' of (outs, es', sv'', r'') \<Rightarrow> (out # outs, es @ es', sv'', r'')))"

text \<open>
  C19: whatever requests reach a server with an API key: while none of them has a key that verifies
  or names an open MCP session, each is refused, redirected, upgraded or answered with the public health
  report; no message is sent to a worker, no job is queued, and nothing of the server's state changes but
  the cache of the verifier.
\<close>

theorem server_needs_key:
  assumes "keys_ok idkey hash (sv_verifier sv)" and "cfg_APIKeyHash (sv_config sv) \<noteq> []"
    and "list_all (\<lambda>(env, se, rq). ae_idkey env = idkey \<and> keyless hash (sv_sessions sv) env se rq) rqs"
  shows "\<exists>outs v'. server_run rqs sv r = (outs, [], sv\<lparr>sv_verifier := v'\<rparr>, r) \<and>
    list_all (\<lambda>out. denied out \<or> out = SApi (handleHealth (api_view sv))) outs"
  using assms
proof (induction rqs arbitrary: sv)
  case Nil
  then show ?case by (intro exI [of _ "[]"] exI [of _ "sv_verifier sv"]) simp
next
  case (Cons q rqs)
  obtain env se rq where q: "q = (env, se, rq)" by (cases q) auto
  have key: "ae_idkey env = idkey" "keyless hash (sv_sessions sv) env se (rq\<lparr>rq_path := v1Tolerant (rq_path rq)\<rparr>)"
    using Cons.prems(3) q by simp_all
  obtain out v where out: "Server_ServeHTTP env se rq sv r = ((out, [], True, r), sv\<lparr>sv_verifier := v\<rparr>)"
      "denied out \<or> out = SApi (handleHealth (api_view sv))" "keys_ok idkey hash v"
    using mux_denies [OF _ key(2) Cons.prems(2), of r] Cons.prems(1) key(1) by (auto simp: Server_ServeHTTP_def)
  have health: "handleHealth (api_view (sv\<lparr>sv_verifier := v\<rparr>)) = handleHealth (api_view sv)"
    by (simp add: handleHealth_def api_view_def)
  obtain outs v' where "server_run rqs (sv\<lparr>sv_verifier := v\<rparr>) r = (outs, [], sv\<lparr>sv_verifier := v'\<rparr>, r)"
      "list_all (\<lambda>out. denied out \<or> out = SApi (handleHealth (api_view sv))) outs"
    using Cons.IH [of "sv\<lparr>sv_verifier := v\<rparr>"] Cons.prems out(3) unfolding health by auto
  with out q show ?case by (intro exI [of _ "out # outs"] exI [of _ v']) simp
qed

definition demo_server_state :: server where
  "demo_server_state =
     \<lparr>sv_config = demo_config\<lparr>cfg_APIKeyHash := ''x''\<rparr>, sv_verifier = NewVerifierWithTools [] ''x'' [] 60,
      sv_ws = NewWSHandler None, sv_sessions = []\<rparr>"

definition demo_serve :: serve_env where
  "demo_serve = \<lparr>se_builtin = [], se_session = [], se_newID = ''s'', se_toolJobID = ''t'', se_callID = ''c'',
     se_sent = True, se_cause = []\<rparr>"

abbreviation demo_request :: "string \<Rightarrow> http_request" where
  "demo_request p \<equiv> \<lparr>rq_method = ''POST'', rq_path = p, rq_auth = ''Bearer k'', rq_apiKey = [], rq_body = None\<rparr>"

theorem v1_spellings_agree_witness:
  "Server_ServeHTTP demo_api demo_serve (demo_request []\<lparr>rq_path := ''/api/openai/'' @ [] @ ''chat/completions''\<rparr>) demo_server_state [] =
   Server_ServeHTTP demo_api demo_serve (demo_request []\<lparr>rq_path := ''/api/openai/'' @ ''v1/v1/'' @ ''chat/completions''\<rparr>) demo_server_state []"
  by (rule v1_spellings_agree) simp_all

theorem server_needs_key_witness:
  "\<exists>outs v'. server_run [(demo_api, demo_serve, demo_request ''/api/openai/v1/chat/completions''),
       (demo_api, demo_serve, demo_request ''/api/anthropic/messages'')] demo_server_state [] =
      (outs, [], demo_server_state\<lparr>sv_verifier := v'\<rparr>, []) \<and>
    list_all (\<lambda>out. denied out \<or> out = SApi (handleHealth (api_view demo_server_state))) outs"
proof (rule server_needs_key)
  show "keys_ok pad_idkey ''x'' (sv_verifier demo_server_state)"
    by (simp add: keys_ok_def demo_server_state_def NewVerifierWithTools_def hashes_ok_def)
  show "cfg_APIKeyHash (sv_config demo_server_state) \<noteq> []" by (simp add: demo_server_state_def)
  have "VerifyKey pad_idkey (extractBearerToken (demo_request p)) ''x'' \<noteq> VKey True" for p
  proof -
    have "extractBearerToken (demo_request p) = extractBearerToken (demo_request [])" by (simp add: extractBearerToken_def)
    moreover have "VerifyKey pad_idkey (extractBearerToken (demo_request [])) ''x'' \<noteq> VKey True" by code_simp
    ultimately show ?thesis by simp
  qed
  then show "list_all (\<lambda>(env, se, rq). ae_idkey env = pad_idkey \<and> keyless ''x'' (sv_sessions demo_server_state) env se rq)
      [(demo_api, demo_serve, demo_request ''/api/openai/v1/chat/completions''),
       (demo_api, demo_serve, demo_request ''/api/anthropic/messages'')]"
    by (simp add: keyless_def request_key_def demo_api_def demo_server_state_def)
qed

end
