(* ===== verification/Coding_Tools.thy ===== *)
theory Coding_Tools
  imports Go_Path Go_Strings Base64 Json_Parse
begin

text \<open>
  \<open>pkg/codingtools\<close>: the read, write, edit and bash tools of the agent.  The file system is the
  map from clean absolute paths to the contents of regular files; \<open>io\<close> gives the failures of the
  operating system.  The subprocess of the bash tool is its outcome.  A tool ends with its text,
  an error or a panic.
\<close>

datatype tool_result = TOk string | TErr string | TPanic

type_synonym files = "string gomap"

text \<open>A failing write may leave the file changed (\<open>Some\<close> of what it then holds).\<close>

record io =
  io_read :: "string \<Rightarrow> string option"
  io_mkdir :: "string \<Rightarrow> string option"
  io_write :: "string \<Rightarrow> (string \<times> string option) option"

definition os_ReadFile :: "io \<Rightarrow> files \<Rightarrow> string \<Rightarrow> string + string" where
  "os_ReadFile os fs p =
     (case io_read os p of
        Some e \<Rightarrow> Inl e
      | None \<Rightarrow> (case mget fs p of None \<Rightarrow> Inl (''open '' @ p @ '': no such file or directory'') | Some d \<Rightarrow> Inr d))"

definition os_WriteFile :: "io \<Rightarrow> files \<Rightarrow> string \<Rightarrow> string \<Rightarrow> string option \<times> files" where
  "os_WriteFile os fs p d =
     (case io_write os p of
        None \<Rightarrow> (None, mput p d fs)
      | Some (e, None) \<Rightarrow> (Some e, fs)
      | Some (e, Some rest) \<Rightarrow> (Some e, mput p rest fs))"

section \<open>Paths\<close>

definition resolved :: "string \<Rightarrow> string \<Rightarrow> string" where
  "resolved workDir requestedPath =
     (if rooted requestedPath then path_Clean requestedPath
      else path_Clean (filepath_Join [workDir, requestedPath]))"

definition safePath :: "string \<Rightarrow> string \<Rightarrow> string + string" where
  "safePath workDir requestedPath =
     (let abs = resolved workDir requestedPath;
          outside = Inl (''path '' @ strconv_quote requestedPath @ '' is outside agent directory'')
      in case filepath_Rel workDir abs of
           None \<Rightarrow> outside
         | Some rel \<Rightarrow> if HasPrefix rel ''..'' then outside else Inr abs)"

text \<open>The clean paths at and below a directory, and the elements below it.\<close>

definition below :: "string \<Rightarrow> string \<Rightarrow> string list" where
  "below dir q = drop (length (path_elems dir)) (path_elems q)"

definition inside :: "string \<Rightarrow> string \<Rightarrow> bool" where
  "inside dir q \<longleftrightarrow> path_Clean q = q \<and> rooted q = rooted dir \<and>
     path_elems q = path_elems dir @ below dir q \<and> list_all plain_elem (below dir q)"

section \<open>The edit tool\<close>

record EditArgs =
  ea_path :: string
  ea_old :: string
  ea_new :: string
  ea_all :: bool

definition zero_EditArgs :: EditArgs where
  "zero_EditArgs = \<lparr>ea_path = [], ea_old = [], ea_new = [], ea_all = False\<rparr>"

definition dec_EditArgs :: "EditArgs decoder" where
  "dec_EditArgs = dec_struct
     [(''path'', fld ea_path ea_path_update dec_string), (''old_string'', fld ea_old ea_old_update dec_string),
      (''new_string'', fld ea_new ea_new_update dec_string), (''replace_all'', fld ea_all ea_all_update dec_bool)]"

text \<open>The arguments of a call; \<open>jsonErr\<close> is the text of the decoding error.\<close>

definition tool_args :: "'a decoder \<Rightarrow> 'a \<Rightarrow> raw \<Rightarrow> 'a option" where
  "tool_args d zero r = (case r of None \<Rightarrow> None | Some j \<Rightarrow> (case d j zero of (x, True) \<Rightarrow> Some x | _ \<Rightarrow> None))"

definition edited :: "EditArgs \<Rightarrow> string \<Rightarrow> string + string" where
  "edited args content =
     (let count = Count_from content (ea_old args) in
      if count = 0 then Inl (''old_string not found in '' @ ea_path args)
      else if 1 < count \<and> \<not> ea_all args then
        Inl (''old_string appears '' @ Itoa (int count) @ '' times in '' @ ea_path args @
             ''; set replace_all=true to replace all occurrences'')
      else if ea_all args then Inr (ReplaceAll content (ea_old args) (ea_new args))
      else Inr (Replace content (ea_old args) (ea_new args) 1))"

definition executeEdit :: "io \<Rightarrow> string \<Rightarrow> string \<Rightarrow> raw \<Rightarrow> files \<Rightarrow> tool_result \<times> files" where
  "executeEdit os jsonErr workDir rawArgs fs =
     (case tool_args dec_EditArgs zero_EditArgs rawArgs of
        None \<Rightarrow> (TErr (''invalid edit args: '' @ jsonErr), fs)
      | Some args \<Rightarrow>
          if ea_path args = [] then (TErr ''path is required'', fs)
          else
            (case safePath workDir (ea_path args) of
               Inl e \<Rightarrow> (TErr e, fs)
             | Inr absPath \<Rightarrow>
                 (case os_ReadFile os fs absPath of
                    Inl e \<Rightarrow> (TErr (''read '' @ ea_path args @ '': '' @ e), fs)
                  | Inr content \<Rightarrow>
                      (case edited args content of
                         Inl e \<Rightarrow> (TErr e, fs)
                       | Inr updated \<Rightarrow>
                           (case os_WriteFile os fs absPath updated of
                              (Some e, fs') \<Rightarrow> (TErr (''write '' @ ea_path args @ '': '' @ e), fs')
                            | (None, fs') \<Rightarrow>
                                (TOk (''Replaced '' @
                                   Itoa (if ea_all args then int (Count_from content (ea_old args)) else 1) @
                                   '' occurrence(s) in '' @ ea_path args), fs'))))))"

section \<open>The write tool\<close>

record WriteArgs =
  wa_path :: string
  wa_content :: string

definition zero_WriteArgs :: WriteArgs where
  "zero_WriteArgs = \<lparr>wa_path = [], wa_content = []\<rparr>"

definition dec_WriteArgs :: "WriteArgs decoder" where
  "dec_WriteArgs = dec_struct
     [(''path'', fld wa_path wa_path_update dec_string), (''content'', fld wa_content wa_content_update dec_string)]"

definition executeWrite :: "io \<Rightarrow> string \<Rightarrow> string \<Rightarrow> raw \<Rightarrow> files \<Rightarrow> tool_result \<times> files" where
  "executeWrite os jsonErr workDir rawArgs fs =
     (case tool_args dec_WriteArgs zero_WriteArgs rawArgs of
        None \<Rightarrow> (TErr (''invalid write args: '' @ jsonErr), fs)
      | Some args \<Rightarrow>
          if wa_path args = [] then (TErr ''path is required'', fs)
          else
            (case safePath workDir (wa_path args) of
               Inl e \<Rightarrow> (TErr e, fs)
             | Inr absPath \<Rightarrow>
                 (case io_mkdir os (filepath_Dir absPath) of
                    Some e \<Rightarrow> (TErr (''create parent directories for '' @ wa_path args @ '': '' @ e), fs)
                  | None \<Rightarrow>
                      (case os_WriteFile os fs absPath (wa_content args) of
                         (Some e, fs') \<Rightarrow> (TErr (''write '' @ wa_path args @ '': '' @ e), fs')
                       | (None, fs') \<Rightarrow>
                           (TOk (''Wrote '' @ Itoa (int (length (wa_content args))) @ '' bytes to '' @ wa_path args), fs')))))"

section \<open>The read tool\<close>

definition defaultReadLines :: int where "defaultReadLines = 100"
definition defaultReadBytes :: int where "defaultReadBytes = 4096"
definition maxReadBytes :: int where "maxReadBytes = 100 * 1024"
definition maxImageBytes :: int where "maxImageBytes = 5 * 1024 * 1024"

definition imageMediaTypes :: "string gomap" where
  "imageMediaTypes =
     [(''.png'', ''image/png''), (''.jpg'', ''image/jpeg''), (''.jpeg'', ''image/jpeg''), (''.gif'', ''image/gif''),
      (''.webp'', ''image/webp''), (''.bmp'', ''image/bmp''), (''.tiff'', ''image/tiff''), (''.tif'', ''image/tiff''),
      (''.ico'', ''image/x-icon'')]"

definition imageMediaType :: "string \<Rightarrow> string" where
  "imageMediaType path = (case mget imageMediaTypes (ToLower (filepath_Ext path)) of None \<Rightarrow> [] | Some m \<Rightarrow> m)"

record ReadArgs =
  ra_path :: string
  ra_offset :: int
  ra_limit :: int
  ra_offsetLine :: int
  ra_limitLines :: int
  ra_offsetByte :: int
  ra_limitBytes :: int

definition zero_ReadArgs :: ReadArgs where
  "zero_ReadArgs = \<lparr>ra_path = [], ra_offset = 0, ra_limit = 0, ra_offsetLine = 0, ra_limitLines = 0,
     ra_offsetByte = 0, ra_limitBytes = 0\<rparr>"

definition dec_ReadArgs :: "ReadArgs decoder" where
  "dec_ReadArgs = dec_struct
     [(''path'', fld ra_path ra_path_update dec_string), (''offset'', fld ra_offset ra_offset_update dec_int),
      (''limit'', fld ra_limit ra_limit_update dec_int), (''offset_line'', fld ra_offsetLine ra_offsetLine_update dec_int),
      (''limit_lines'', fld ra_limitLines ra_limitLines_update dec_int),
      (''offset_byte'', fld ra_offsetByte ra_offsetByte_update dec_int),
      (''limit_bytes'', fld ra_limitBytes ra_limitBytes_update dec_int)]"

definition executeReadImage :: "string + string \<Rightarrow> string \<Rightarrow> string \<Rightarrow> tool_result" where
  "executeReadImage file origPath mimeType =
     (case file of
        Inl e \<Rightarrow> TErr (''read '' @ origPath @ '': '' @ e)
      | Inr data \<Rightarrow>
          if maxImageBytes < int (length data) then
            TErr (''image '' @ origPath @ '' is too large ('' @ Itoa (int (length data)) @ '' bytes, max '' @
                  Itoa maxImageBytes @ ''); use offset_byte/limit_bytes to retrieve chunks'')
          else TOk (''data:'' @ mimeType @ '';base64,'' @ std_encode data))"

definition en_dash :: string where
  "en_dash = [CHR 0xE2, CHR 0x80, CHR 0x93]"

definition executeReadBytes :: "string + string \<Rightarrow> string \<Rightarrow> ReadArgs \<Rightarrow> tool_result" where
  "executeReadBytes file absPath args =
     (case file of
        Inl e \<Rightarrow> TErr (''read '' @ ra_path args @ '': '' @ e)
      | Inr data \<Rightarrow>
          (let total = int (length data);
               limitBytes = (let l = (if ra_limitBytes args \<le> 0 then defaultReadBytes else ra_limitBytes args)
                             in if maxReadBytes < l then maxReadBytes else l);
               start = ra_offsetByte args
           in if total \<le> start then
                TOk (''[showing bytes '' @ Itoa start @ en_dash @ Itoa start @ '' of '' @ Itoa total @
                     ''; file has no more content]'')
              else if start < 0 then TErr (''seek '' @ ra_path args @ '': seek '' @ absPath @ '': invalid argument'')
              else
                (let toRead = (if total < start + limitBytes then total - start else limitBytes);
                     content = take (nat toRead) (drop (nat start) data);
                     end_pos = start + toRead
                 in TOk (content @
                      (if end_pos < total then
                         [CHR 0x0A] @ ''[showing bytes '' @ Itoa start @ en_dash @ Itoa end_pos @ '' of '' @ Itoa total @
                         ''; use offset_byte='' @ Itoa end_pos @ '' to continue]''
                       else [])))))"

text \<open>The lines with their numbers; \<open>lines[start:end]\<close> panics when the bounds are not in order.\<close>

fun numbered :: "int \<Rightarrow> string list \<Rightarrow> string" where
  "numbered n [] = []"
| "numbered n (l # ls) = Itoa n @ ''|'' @ l @ [CHR 0x0A] @ numbered (n + 1) ls"

definition executeReadLines :: "string + string \<Rightarrow> ReadArgs \<Rightarrow> tool_result" where
  "executeReadLines file args =
     (case file of
        Inl e \<Rightarrow> TErr (''read '' @ ra_path args @ '': '' @ e)
      | Inr data \<Rightarrow>
          (let lines = Split (CHR 0x0A) data;
               total = int (length lines);
               offsetLine = (if ra_offsetLine args = 0 then ra_offset args else ra_offsetLine args);
               start = (if 0 < offsetLine then offsetLine - 1 else 0)
           in if total \<le> start then
                TErr (''offset '' @ Itoa offsetLine @ '' exceeds file length '' @ Itoa total @ '' lines'')
              else
                (let asked = (if ra_limitLines args = 0 then ra_limit args else ra_limitLines args);
                     usingDefault = (asked = 0);
                     limitLines = (if usingDefault then defaultReadLines else asked);
                     end_line = (if add_int start limitLines < total then add_int start limitLines else total)
                 in if end_line < start then TPanic
                    else
                      TOk (numbered (start + 1) (take (nat (end_line - start)) (drop (nat start) lines)) @
                           (if usingDefault \<and> end_line < total then
                              ''[output capped at '' @ Itoa defaultReadLines @ '' lines '' @ [CHR 0xE2, CHR 0x80, CHR 0x94] @
                              '' file has '' @ Itoa total @
                              '' total lines; use offset_line/limit_lines or offset_byte/limit_bytes to read further]''
                            else [])))))"

definition executeRead :: "io \<Rightarrow> string \<Rightarrow> string \<Rightarrow> raw \<Rightarrow> files \<Rightarrow> tool_result" where
  "executeRead os jsonErr workDir rawArgs fs =
     (case tool_args dec_ReadArgs zero_ReadArgs rawArgs of
        None \<Rightarrow> TErr (''invalid read args: '' @ jsonErr)
      | Some args \<Rightarrow>
          if ra_path args = [] then TErr ''path is required''
          else
            (case safePath workDir (ra_path args) of
               Inl e \<Rightarrow> TErr e
             | Inr absPath \<Rightarrow>
                 (let file = os_ReadFile os fs absPath; mime = imageMediaType (ra_path args) in
                  if mime \<noteq> [] then executeReadImage file (ra_path args) mime
                  else if 0 < ra_offsetByte args \<or> 0 < ra_limitBytes args then executeReadBytes file absPath args
                  else executeReadLines file args)))"

section \<open>Confinement\<close>

lemma resolved_clean [simp]: "path_Clean (resolved dir p) = resolved dir p"
  by (simp add: resolved_def)

lemma HasPrefix_dots: "HasPrefix (join_with ''/'' (h # hs)) ''..'' = HasPrefix h ''..''"
  by (cases hs; cases h; cases "tl h") simp_all

lemma clean_elems_tail:
  assumes clean: "clean_elems r (xs @ ts)" and up: "list_all (\<lambda>t. t \<noteq> ''..'') (take 1 ts)"
  shows "list_all plain_elem ts"
proof -
  obtain n fs where es: "xs @ ts = replicate n ''..'' @ fs" "list_all plain_elem fs"
    using clean by (auto simp only: clean_elems_def)
  from es(1) consider us where "xs = replicate n ''..'' @ us" "us @ ts = fs"
    | us where "xs @ us = replicate n ''..''" "ts = us @ fs"
    unfolding append_eq_append_conv2 by blast
  then show ?thesis
  proof cases
    case 1
    with es(2) show ?thesis by (metis list_all_append)
  next
    case 2
    have "us = []"
    proof (rule ccontr)
      assume "us \<noteq> []"
      then have "hd us \<in> set (replicate n ''..'')" unfolding 2(1) [symmetric] by simp
      then have "hd us = ''..''" by (auto split: if_splits)
      moreover have "take 1 ts = [hd us]" using \<open>us \<noteq> []\<close> 2(2) by (cases us) simp_all
      ultimately show False using up by simp
    qed
    with 2 es(2) show ?thesis by simp
  qed
qed

lemma dot_elem: "clean_elems r es \<Longrightarrow> ''.'' \<notin> set es"
proof
  assume "clean_elems r es" and dot: "''.'' \<in> set es"
  then obtain n fs where es: "es = replicate n ''..'' @ fs" "list_all plain_elem fs"
    by (auto simp only: clean_elems_def)
  from dot have "''.'' \<in> set fs" unfolding es(1) by (simp split: if_splits)
  with es(2) show False by (auto simp: list_all_iff plain_elem_def)
qed

lemma Clean_dot: "path_Clean q = ''.'' \<longleftrightarrow> \<not> rooted q \<and> path_elems q = []"
proof
  assume dot: "path_Clean q = ''.''"
  have "\<not> rooted (path_Clean q)" "path_elems (path_Clean q) = []"
    unfolding dot by (simp_all add: rooted_def path_elems_def clean_step_def)
  then show "\<not> rooted q \<and> path_elems q = []" by simp
qed (simp add: path_Clean_def path_of_def)

lemma Rel_below:
  assumes "path_Clean q = q"
  shows "(\<exists>rel. filepath_Rel dir q = Some rel \<and> \<not> HasPrefix rel ''..'') \<longleftrightarrow>
     inside dir q \<and> list_all (\<lambda>t. \<not> HasPrefix t ''..'') (take 1 (below dir q))"
    (is "?accepted \<longleftrightarrow> ?inside")
proof (cases "path_Clean q = path_Clean dir")
  case True
  then have "path_elems q = path_elems dir" "rooted q = rooted dir"
    by (metis path_elems_Clean, metis rooted_Clean)
  with True assms show ?thesis by (simp add: filepath_Rel_def inside_def below_def)
next
  case False
  show ?thesis
  proof (cases "rooted dir = rooted q \<and> path_Clean q \<noteq> ''.''")
    case True
    obtain bs ts where strip: "strip_common (path_elems dir) (path_elems q) = (bs, ts)" by fastforce
    show ?thesis
    proof (cases bs)
      case Nil
      with strip have q: "path_elems q = path_elems dir @ ts" using strip_common_nil by blast
      then have ts: "below dir q = ts" by (simp add: below_def)
      have "filepath_Rel dir q = Some (join_with ''/'' ts)"
        using False True strip Nil by (simp add: filepath_Rel_def)
      moreover have "\<not> HasPrefix (join_with ''/'' ts) ''..'' \<longleftrightarrow> list_all (\<lambda>t. \<not> HasPrefix t ''..'') (take 1 ts)"
        by (cases ts) (simp_all only: HasPrefix_dots, simp_all)
      moreover have "list_all plain_elem ts" if "list_all (\<lambda>t. \<not> HasPrefix t ''..'') (take 1 ts)"
      proof (rule clean_elems_tail)
        show "clean_elems (rooted q) (path_elems dir @ ts)" unfolding q [symmetric] by (rule path_elems_clean)
        show "list_all (\<lambda>t. t \<noteq> ''..'') (take 1 ts)" using that by (cases ts) auto
      qed
      moreover have "inside dir q = list_all plain_elem ts"
        using True assms q by (simp add: inside_def ts)
      ultimately show ?thesis unfolding ts by auto
    next
      case (Cons b cs)
      have "\<not> ?accepted"
        using False True strip Cons HasPrefix_dots by (auto simp: filepath_Rel_def split: if_splits)
      moreover have "\<not> ?inside"
        using strip_common_rest [OF strip] Cons unfolding inside_def by (metis list.distinct(1))
      ultimately show ?thesis by blast
    qed
  next
    case odd: False
    show ?thesis
    proof (cases "rooted dir = rooted q")
      case True
      with odd have dot: "path_Clean q = ''.''" by simp
      then have q: "\<not> rooted q" "path_elems q = []" using Clean_dot by auto
      with True False dot have ne: "path_elems dir \<noteq> []" using Clean_dot [of dir] by auto
      obtain b cs where "strip_common (path_elems dir) [''.''] = (b # cs, [''.''])"
        using ne dot_elem [OF path_elems_clean [of dir]] by (cases "path_elems dir") auto
      then have "\<not> ?accepted"
        using False dot HasPrefix_dots by (auto simp: filepath_Rel_def split: if_splits)
      with q ne show ?thesis by (simp add: inside_def)
    next
      case False
      with \<open>path_Clean q \<noteq> path_Clean dir\<close> show ?thesis by (auto simp: filepath_Rel_def inside_def)
    qed
  qed
qed


section \<open>What an edit does\<close>

lemma Index_first: "Index s p = Some i \<Longrightarrow> take i s = c @ p @ d \<Longrightarrow> p = []"
proof (induction s arbitrary: i c)
  case (Cons x xs)
  show ?case
  proof (cases "HasPrefix (x # xs) p")
    case True
    with Cons.prems show ?thesis by simp
  next
    case False
    with Cons.prems(1) obtain j where j: "Index xs p = Some j" "i = Suc j" by auto
    show ?thesis
    proof (cases c)
      case Nil
      have "x # xs = take i (x # xs) @ drop i (x # xs)" by (simp only: append_take_drop_id)
      then have "x # xs = p @ d @ drop i (x # xs)" using Cons.prems(2) Nil by (metis append.assoc append_Nil)
      then have "HasPrefix (x # xs) p" unfolding HasPrefix_conv by blast
      with False show ?thesis by simp
    next
      case (Cons y ys)
      with Cons.prems(2) j(2) have "take j xs = ys @ p @ d" by simp
      with Cons.IH [OF j(1)] show ?thesis by blast
    qed
  qed
qed simp

definition free_of :: "string \<Rightarrow> string \<Rightarrow> bool" where
  "free_of p s \<longleftrightarrow> Index s p = None"

lemma free_of_iff: "free_of p s \<longleftrightarrow> \<not> (\<exists>c d. s = c @ p @ d)"
  unfolding free_of_def using Index_None [of s p] Index_Some [of s p]
  by (metis option.exhaust)

lemma replace_pieces:
  assumes "p \<noteq> []"
  shows "\<exists>ps. length ps = Suc (Count_from s p) \<and> list_all (free_of p) ps \<and> s = join_with p ps \<and>
     (\<forall>new. replace_first (Count_from s p) s p new = join_with new ps)"
  using assms
proof (induction s p rule: Count_from.induct)
  case (1 s p)
  show ?case
  proof (cases "Index s p")
    case None
    with 1(2) have "Count_from s p = 0" by (subst Count_from.simps) simp
    with None show ?thesis by (intro exI [of _ "[s]"]) (simp add: free_of_def)
  next
    case (Some i)
    define rest where "rest = drop (i + length p) s"
    obtain ps where ps: "length ps = Suc (Count_from rest p)" "list_all (free_of p) ps"
        "rest = join_with p ps" "\<forall>new. replace_first (Count_from rest p) rest p new = join_with new ps"
      using 1(1) [OF 1(2) Some 1(2)] unfolding rest_def by blast
    from ps(1) obtain x xs where xs: "ps = x # xs" by (cases ps) auto
    have count: "Count_from s p = Suc (Count_from rest p)"
      using Some 1(2) by (subst Count_from.simps) (simp add: rest_def)
    have "s = take i s @ p @ rest" using Index_Some [OF Some] by (simp add: rest_def)
    moreover have "free_of p (take i s)" using Index_first [OF Some] 1(2) by (auto simp: free_of_iff)
    ultimately show ?thesis
      using ps xs count Some by (intro exI [of _ "take i s # ps"]) (simp add: rest_def [symmetric])
  qed
qed

lemma edited_pieces:
  assumes "edited args content = Inr updated" and "ea_old args \<noteq> []"
  shows "\<exists>ps. content = join_with (ea_old args) ps \<and> updated = join_with (ea_new args) ps \<and>
     list_all (free_of (ea_old args)) ps \<and> length ps = Suc (Count_from content (ea_old args)) \<and>
     0 < Count_from content (ea_old args) \<and> (Count_from content (ea_old args) = 1 \<or> ea_all args)"
proof -
  define n where "n = Count_from content (ea_old args)"
  have n: "0 < n" "n = 1 \<or> ea_all args"
    using assms(1) by (auto simp: edited_def Let_def n_def split: if_splits)
  then have "updated = Replace content (ea_old args) (ea_new args) n"
    using assms(1) by (cases "ea_all args") (simp_all add: edited_def ReplaceAll_def n_def [symmetric] split: if_splits)
  note n = n this
  obtain ps where ps: "length ps = Suc n" "list_all (free_of (ea_old args)) ps"
      "content = join_with (ea_old args) ps" "\<forall>new. replace_first n content (ea_old args) new = join_with new ps"
    using replace_pieces [OF assms(2)] unfolding n_def by blast
  have "updated = join_with (ea_new args) ps"
  proof (cases "ea_old args = ea_new args")
    case True
    with n(3) ps(3) show ?thesis by (simp add: Replace_def)
  next
    case False
    with n(1) assms(2) have "Replace content (ea_old args) (ea_new args) n = replace_first n content (ea_old args) (ea_new args)"
      by (simp add: Replace_def n_def)
    with n(3) ps(4) show ?thesis by simp
  qed
  with n(1,2) ps(1,2,3) show ?thesis unfolding n_def [symmetric] by blast
qed

text \<open>
  C22: a successful edit replaces the occurrences of the old string, one unless \<open>replace_all\<close> is
  set, and nothing else: the file is the same pieces, none of which holds the old string, joined by
  the new one; the answer counts the replacements.
\<close>

theorem edit_exact:
  assumes "executeEdit os je dir raw fs = (TOk msg, fs')"
    and "tool_args dec_EditArgs zero_EditArgs raw = Some args" and "ea_old args \<noteq> []"
  shows "\<exists>q ps. safePath dir (ea_path args) = Inr q \<and> mget fs q = Some (join_with (ea_old args) ps) \<and>
     fs' = mput q (join_with (ea_new args) ps) fs \<and> list_all (free_of (ea_old args)) ps \<and>
     1 < length ps \<and> (length ps = 2 \<or> ea_all args) \<and>
     msg = ''Replaced '' @ Itoa (int (length ps) - 1) @ '' occurrence(s) in '' @ ea_path args"
proof -
  obtain q content updated where q: "safePath dir (ea_path args) = Inr q" "mget fs q = Some content"
      "edited args content = Inr updated" "fs' = mput q updated fs"
      "msg = ''Replaced '' @ Itoa (if ea_all args then int (Count_from content (ea_old args)) else 1) @
         '' occurrence(s) in '' @ ea_path args"
    using assms(1,2)
    by (auto simp: executeEdit_def os_ReadFile_def os_WriteFile_def
        split: if_splits option.splits sum.splits prod.splits)
  from edited_pieces [OF q(3) assms(3)] obtain ps where ps:
      "content = join_with (ea_old args) ps" "updated = join_with (ea_new args) ps"
      "list_all (free_of (ea_old args)) ps" "length ps = Suc (Count_from content (ea_old args))"
      "0 < Count_from content (ea_old args)" "Count_from content (ea_old args) = 1 \<or> ea_all args"
    by blast
  have "msg = ''Replaced '' @ Itoa (int (length ps) - 1) @ '' occurrence(s) in '' @ ea_path args"
    using q(5) ps(4,6) by auto
  with q(1,2,4) ps show ?thesis by (intro exI [of _ q] exI [of _ ps]) auto
qed

definition demo_files :: files where
  "demo_files = [(''/w/a'', ''one two''), (''/x'', ''secret'')]"

definition demo_io :: io where
  "demo_io = \<lparr>io_read = (\<lambda>_. None), io_mkdir = (\<lambda>_. None), io_write = (\<lambda>_. None)\<rparr>"

definition demo_edit :: raw where
  "demo_edit = Some (JObj [(''path'', JStr ''a''), (''old_string'', JStr ''two''), (''new_string'', JStr ''2'')])"

theorem edit_exact_witness:
  "\<exists>q ps. safePath ''/w'' ''a'' = Inr q \<and> mget demo_files q = Some (join_with ''two'' ps) \<and>
     [(''/w/a'', ''one 2''), (''/x'', ''secret'')] = mput q (join_with ''2'' ps) demo_files \<and> list_all (free_of ''two'') ps \<and>
     1 < length ps \<and> (length ps = 2 \<or> False) \<and>
     ''Replaced 1 occurrence(s) in a'' = ''Replaced '' @ Itoa (int (length ps) - 1) @ '' occurrence(s) in '' @ ''a''"
proof -
  have e: "executeEdit demo_io [] ''/w'' demo_edit demo_files =
      (TOk ''Replaced 1 occurrence(s) in a'', [(''/w/a'', ''one 2''), (''/x'', ''secret'')])"
    by code_simp
  have a: "tool_args dec_EditArgs zero_EditArgs demo_edit =
      Some \<lparr>ea_path = ''a'', ea_old = ''two'', ea_new = ''2'', ea_all = False\<rparr>"
    by code_simp
  show ?thesis using edit_exact [OF e a] by (simp only: EditArgs.select_convs list.distinct simp_thms if_True)
qed

text \<open>
  Reading lines of a file panics exactly when the lines asked for are bounded from above below
  their start: by a negative limit, or by an offset and a limit whose sum overflows.
\<close>

theorem read_lines_panic:
  "executeReadLines (Inr data) args = TPanic \<longleftrightarrow>
     (let total = int (length (Split (CHR 0x0A) data));
          offset = (if ra_offsetLine args = 0 then ra_offset args else ra_offsetLine args);
          limit = (if ra_limitLines args = 0 then ra_limit args else ra_limitLines args);
          start = (if 0 < offset then offset - 1 else 0)
      in start < total \<and> add_int start (if limit = 0 then defaultReadLines else limit) < start)"
  by (auto simp: executeReadLines_def Let_def)

end
