(* ===== verification/Bash_Tool.thy ===== *)
theory Bash_Tool
  imports Coding_Tools
begin

text \<open>
  The bash tool of \<open>pkg/codingtools\<close> and the set of its tools (\<open>bash.go\<close>, \<open>tools.go\<close>).  The
  environment of the subprocess, the bound of 100 KB on the streams, and the inline document of at
  most 1024 bytes, found by halving, which answers the call.
\<close>

section \<open>The bash tool\<close>

definition defaultBashTimeoutSecs :: int where "defaultBashTimeoutSecs = 120"
definition bashInlineBytes :: nat where "bashInlineBytes = 1024"
definition maxBashOutputBytes :: nat where "maxBashOutputBytes = 100 * 1024"

definition bash100KBTruncationSuffix :: string where
  "bash100KBTruncationSuffix = [CHR 0x0A] @ ''[output truncated at 100KB]''"

record bashResult =
  br_stdout :: string
  br_stderr :: string
  br_output :: string
  br_status :: int

text \<open>\<open>json.Marshal\<close> of the result; the streams hold any bytes.\<close>

definition bash_json :: "bashResult \<Rightarrow> string" where
  "bash_json p =
     ''{\"stdout\":'' @ quote_bytes (br_stdout p) @ '',\"stderr\":'' @ quote_bytes (br_stderr p) @
     '',\"output\":'' @ quote_bytes (br_output p) @ '',\"status\":'' @ Itoa (br_status p) @ ''}''"

record BashArgs =
  ba_command :: string
  ba_timeout :: int

definition zero_BashArgs :: BashArgs where
  "zero_BashArgs = \<lparr>ba_command = [], ba_timeout = 0\<rparr>"

definition dec_BashArgs :: "BashArgs decoder" where
  "dec_BashArgs = dec_struct
     [(''command'', fld ba_command ba_command_update dec_string), (''timeout'', fld ba_timeout ba_timeout_update dec_int)]"

text \<open>\<open>getenv\<close> is the worker's environment, \<open>current\<close> the name of the user it runs as, if known.\<close>

definition processUsernameForBash :: "(string \<Rightarrow> string) \<Rightarrow> string option \<Rightarrow> string" where
  "processUsernameForBash getenv current =
     (if getenv ''USER'' \<noteq> [] then getenv ''USER''
      else if getenv ''USERNAME'' \<noteq> [] then getenv ''USERNAME''
      else (case current of Some u \<Rightarrow> u | None \<Rightarrow> []))"

text \<open>\<open>cwd\<close> is the working directory of the worker; \<open>None\<close> when it is not known.\<close>

definition bash_env :: "(string \<Rightarrow> string) \<Rightarrow> string option \<Rightarrow> string option \<Rightarrow> string \<Rightarrow> string gomap \<Rightarrow> string gomap" where
  "bash_env getenv current cwd workDir extra =
     (let pwd = (if rooted workDir then path_Clean workDir
                 else (case cwd of None \<Rightarrow> path_Clean workDir | Some d \<Rightarrow> path_Clean (filepath_Join [d, workDir])));
          base = [(''HOME'', getenv ''HOME''),
                  (''PATH'', if getenv ''PATH'' = [] then ''/usr/local/bin:/usr/bin:/bin'' else getenv ''PATH''),
                  (''PWD'', pwd), (''USER'', processUsernameForBash getenv current),
                  (''TERM'', if getenv ''TERM'' = [] then ''dumb'' else getenv ''TERM'')]
      in fold (\<lambda>(k, v) env. if k \<noteq> [] then mput k v env else env) extra base)"

definition bashSubprocessEnv ::
    "(string \<Rightarrow> string) \<Rightarrow> string option \<Rightarrow> string option \<Rightarrow> string \<Rightarrow> string gomap \<Rightarrow> string list" where
  "bashSubprocessEnv getenv current cwd workDir extra =
     map (\<lambda>(k, v). k @ ''='' @ v) (bash_env getenv current cwd workDir extra)"

definition applyMaxBashPayload :: "bashResult \<Rightarrow> bashResult" where
  "applyMaxBashPayload p =
     (let total = length (br_stdout p) + length (br_stderr p) in
      if total \<le> maxBashOutputBytes then p\<lparr>br_output := br_stdout p\<rparr>
      else
        (let over = total - (maxBashOutputBytes - length bash100KBTruncationSuffix);
             stderr = take (length (br_stderr p) - over) (br_stderr p);
             over' = over - (length (br_stderr p) - length stderr);
             stdout = take (length (br_stdout p) - over') (br_stdout p)
         in p\<lparr>br_stdout := stdout, br_stderr := stderr @ bash100KBTruncationSuffix, br_output := stdout\<rparr>))"

text \<open>The search for the longest prefix that still fits, by halving.\<close>

function longest :: "(nat \<Rightarrow> bool) \<Rightarrow> int \<Rightarrow> int \<Rightarrow> nat \<Rightarrow> nat" where
  "longest fits lo hi best =
     (if lo \<le> hi then
        (let mid = (lo + hi + 1) div 2 in
         if fits (nat mid) then longest fits (mid + 1) hi (nat mid)
         else longest fits lo (mid - 1) best)
      else best)"
  by pat_completeness auto
termination
  by (relation "measure (\<lambda>(fits, lo, hi, best). nat (hi + 1 - lo))") auto

declare longest.simps [simp del]

text \<open>The last resort: the hint loses its last bytes until the document fits.\<close>

fun shorten :: "int \<Rightarrow> nat \<Rightarrow> string \<Rightarrow> string" where
  "shorten status 0 msg = bash_json \<lparr>br_stdout = [], br_stderr = [], br_output = [], br_status = status\<rparr>"
| "shorten status (Suc n) msg =
     (let p = bash_json \<lparr>br_stdout = [], br_stderr = take n msg, br_output = [], br_status = status\<rparr> in
      if length p \<le> bashInlineBytes then p else shorten status n msg)"

definition minimalBashInlineJSON :: "string gomap \<Rightarrow> int \<Rightarrow> string" where
  "minimalBashInlineJSON toolEnv status =
     (let callID = (case mget toolEnv ''_call_id'' of None \<Rightarrow> ''<call_id>'' | Some i \<Rightarrow> if i = [] then ''<call_id>'' else i);
          msg = ''[output truncated '' @ [CHR 0xE2, CHR 0x80, CHR 0x94] @ '' use tool_recall('' @ strconv_quote callID @
                '', offset_byte=0) to read from the beginning]'';
          p = bash_json \<lparr>br_stdout = [], br_stderr = msg, br_output = [], br_status = status\<rparr>
      in if length p \<le> bashInlineBytes then p else shorten status (length msg) msg)"

definition marshalBashResultInline :: "bashResult \<Rightarrow> string gomap \<Rightarrow> string" where
  "marshalBashResultInline p toolEnv =
     (let so = br_stdout p; se = br_stderr p;
          doc = (\<lambda>ko ke. bash_json \<lparr>br_stdout = take ko so, br_stderr = take ke se, br_output = take ko so, br_status = br_status p\<rparr>);
          fits = (\<lambda>ko ke. length (doc ko ke) \<le> bashInlineBytes)
      in if fits (length so) (length se) then doc (length so) (length se)
         else
           (let bestKE = longest (fits (length so)) 0 (int (length se)) 0;
                bestKO = longest (\<lambda>ko. fits ko bestKE) 0 (int (length so)) 0
            in if fits bestKO bestKE then doc bestKO bestKE else minimalBashInlineJSON toolEnv (br_status p)))"

text \<open>
  The end of the subprocess: what it wrote, and the error of \<open>Run\<close> with the exit code, if it is
  an \<open>ExitError\<close>.
\<close>

record run_outcome =
  ro_stdout :: string
  ro_stderr :: string
  ro_error :: "(int option \<times> string) option"

text \<open>The time the command gets, in nanoseconds; the product is one of 64 bits.\<close>

definition bash_timeout :: "BashArgs \<Rightarrow> int" where
  "bash_timeout args = signed_take_bit 63 ((if 0 < ba_timeout args then ba_timeout args else defaultBashTimeoutSecs) * 1000000000)"

text \<open>\<open>run dir env command time\<close> runs \<open>bash -c command\<close>, which may change any file.\<close>

type_synonym shell = "string \<Rightarrow> string list \<Rightarrow> string \<Rightarrow> int \<Rightarrow> files \<Rightarrow> run_outcome \<times> files"

record bash_host =
  bh_getenv :: "string \<Rightarrow> string"
  bh_current :: "string option"
  bh_cwd :: "string option"
  bh_run :: shell

definition bash_answer :: "run_outcome \<Rightarrow> string gomap \<Rightarrow> tool_result" where
  "bash_answer res toolEnv =
     (case ro_error res of
        None \<Rightarrow>
          TOk (marshalBashResultInline (applyMaxBashPayload
            \<lparr>br_stdout = ro_stdout res, br_stderr = ro_stderr res, br_output = ro_stdout res, br_status = 0\<rparr>) toolEnv)
      | Some (code, text) \<Rightarrow>
          if ro_stdout res = [] \<and> ro_stderr res = [] then TErr (''bash: '' @ text)
          else
            TOk (marshalBashResultInline (applyMaxBashPayload
              \<lparr>br_stdout = ro_stdout res, br_stderr = ro_stderr res @ [CHR 0x0A] @ ''[exit: '' @ text @ '']'',
               br_output = ro_stdout res, br_status = (case code of Some c \<Rightarrow> c | None \<Rightarrow> -1)\<rparr>) toolEnv))"

definition executeBash ::
    "bash_host \<Rightarrow> string \<Rightarrow> string \<Rightarrow> string gomap \<Rightarrow> raw \<Rightarrow> files \<Rightarrow> tool_result \<times> files" where
  "executeBash H jsonErr workDir toolEnv rawArgs fs =
     (case tool_args dec_BashArgs zero_BashArgs rawArgs of
        None \<Rightarrow> (TErr (''invalid bash args: '' @ jsonErr), fs)
      | Some args \<Rightarrow>
          if ba_command args = [] then (TErr ''command is required'', fs)
          else
            (let (res, fs') = bh_run H workDir
                   (bashSubprocessEnv (bh_getenv H) (bh_current H) (bh_cwd H) workDir toolEnv)
                   (ba_command args) (bash_timeout args) fs
             in (bash_answer res toolEnv, fs')))"

section \<open>The set of tools\<close>

datatype coding_tool = ReadTool | WriteTool | EditTool | BashTool

definition AllTools :: "(string \<times> coding_tool) list" where
  "AllTools = [(''read'', ReadTool), (''write'', WriteTool), (''edit'', EditTool), (''bash'', BashTool)]"

definition FindTool :: "string \<Rightarrow> coding_tool option" where
  "FindTool name = map_of AllTools name"

definition execute_tool ::
    "io \<Rightarrow> bash_host \<Rightarrow> string \<Rightarrow> coding_tool \<Rightarrow> string \<Rightarrow> string gomap \<Rightarrow> raw \<Rightarrow> files \<Rightarrow> tool_result \<times> files" where
  "execute_tool os H jsonErr tool workDir toolEnv args fs =
     (case tool of
        ReadTool \<Rightarrow> (executeRead os jsonErr workDir args fs, fs)
      | WriteTool \<Rightarrow> executeWrite os jsonErr workDir args fs
      | EditTool \<Rightarrow> executeEdit os jsonErr workDir args fs
      | BashTool \<Rightarrow> executeBash H jsonErr workDir toolEnv args fs)"

section \<open>Confinement of the file tools\<close>

lemma safePath_inside: "safePath dir p = Inr q \<Longrightarrow> inside dir q"
  using Rel_below [where q = "resolved dir p" and dir = dir]
  by (auto simp: safePath_def Let_def split: option.splits if_splits)

lemma os_ReadFile_inside:
  "(\<And>q. inside dir q \<Longrightarrow> mget fs q = mget gs q) \<Longrightarrow> inside dir q \<Longrightarrow> os_ReadFile os fs q = os_ReadFile os gs q"
  by (simp only: os_ReadFile_def)

lemma os_WriteFile_inside:
  assumes "inside dir p" and "\<And>q. inside dir q \<Longrightarrow> mget fs q = mget gs q"
  shows "fst (os_WriteFile os fs p d) = fst (os_WriteFile os gs p d)"
    and "mget (snd (os_WriteFile os fs p d)) q =
      (if inside dir q then mget (snd (os_WriteFile os gs p d)) q else mget fs q)"
  using assms by (auto simp: os_WriteFile_def split: option.splits)

definition confined :: "string \<Rightarrow> files \<Rightarrow> tool_result \<times> files \<Rightarrow> tool_result \<times> files \<Rightarrow> bool" where
  "confined dir fs a b \<longleftrightarrow> fst a = fst b \<and> (\<forall>q. mget (snd a) q = (if inside dir q then mget (snd b) q else mget fs q))"

lemma confined_same: "(\<And>q. inside dir q \<Longrightarrow> mget fs q = mget gs q) \<Longrightarrow> confined dir fs (r, fs) (r, gs)"
  by (simp add: confined_def)

lemma confined_write:
  assumes "\<And>q. inside dir q \<Longrightarrow> mget fs q = mget gs q" and "inside dir p"
  shows "confined dir fs
    (case os_WriteFile os fs p d of (Some e, fs') \<Rightarrow> (err e, fs') | (None, fs') \<Rightarrow> (ok, fs'))
    (case os_WriteFile os gs p d of (Some e, fs') \<Rightarrow> (err e, fs') | (None, fs') \<Rightarrow> (ok, fs'))"
proof -
  obtain r fs' where f: "os_WriteFile os fs p d = (r, fs')" by fastforce
  obtain r' gs' where g: "os_WriteFile os gs p d = (r', gs')" by fastforce
  have "r = r'" "\<And>q. mget fs' q = (if inside dir q then mget gs' q else mget fs q)"
    using os_WriteFile_inside [OF assms(2) assms(1), where os = os and d = d] f g by simp_all
  note ends = this
  show ?thesis unfolding f g ends(1) by (cases r') (simp_all add: confined_def ends(2))
qed

lemma executeEdit_confined:
  assumes same: "\<And>q. inside dir q \<Longrightarrow> mget fs q = mget gs q"
  shows "confined dir fs (executeEdit os je dir raw fs) (executeEdit os je dir raw gs)"
proof -
  note keep = confined_same [OF same]
  show ?thesis
  proof (cases "tool_args dec_EditArgs zero_EditArgs raw")
    case None
    then show ?thesis by (simp add: executeEdit_def keep)
  next
    case (Some args)
    show ?thesis
    proof (cases "safePath dir (ea_path args)")
      case (Inl e)
      with Some show ?thesis by (simp add: executeEdit_def keep)
    next
      case (Inr q)
      then have q: "inside dir q" by (rule safePath_inside)
      have r: "os_ReadFile os gs q = os_ReadFile os fs q"
        using os_ReadFile_inside [OF same q] by simp
      show ?thesis using Some Inr
        by (simp add: executeEdit_def r keep confined_write [OF same q] split: sum.split)
    qed
  qed
qed

lemma executeWrite_confined:
  assumes same: "\<And>q. inside dir q \<Longrightarrow> mget fs q = mget gs q"
  shows "confined dir fs (executeWrite os je dir raw fs) (executeWrite os je dir raw gs)"
proof -
  note keep = confined_same [OF same]
  show ?thesis
  proof (cases "tool_args dec_WriteArgs zero_WriteArgs raw")
    case None
    then show ?thesis by (simp add: executeWrite_def keep)
  next
    case (Some args)
    then show ?thesis
      using safePath_inside [of dir "wa_path args"]
      by (simp add: executeWrite_def keep confined_write [OF same] split: sum.split option.split)
  qed
qed

lemma executeRead_confined:
  assumes same: "\<And>q. inside dir q \<Longrightarrow> mget fs q = mget gs q"
  shows "executeRead os je dir raw fs = executeRead os je dir raw gs"
  using os_ReadFile_inside [OF same] safePath_inside
  by (auto simp: executeRead_def Let_def split: sum.split option.split)


definition demo_host :: bash_host where
  "demo_host = \<lparr>bh_getenv = (\<lambda>_. []), bh_current = None, bh_cwd = None,
     bh_run = (\<lambda>dir env cmd t fs. (\<lparr>ro_stdout = cmd, ro_stderr = [], ro_error = None\<rparr>, fs))\<rparr>"


section \<open>The environment of the bash tool\<close>

lemma fold_env:
  "wf_map extra \<Longrightarrow> mget (fold (\<lambda>(k, v) env. if k \<noteq> [] then mput k v env else env) extra base) k =
     (if k \<noteq> [] \<and> mget extra k \<noteq> None then mget extra k else mget base k)"
proof (induction extra arbitrary: base)
  case (Cons p extra)
  obtain a b where p: "p = (a, b)" by fastforce
  have "mget extra a = None" "wf_map extra"
    using Cons.prems p by (simp_all add: wf_map_def map_of_eq_None_iff)
  with Cons.IH p show ?case by (cases "a = k") simp_all
qed simp

text \<open>
  C35: a command of the bash tool sees the credentials of its job, which win, and of the worker's
  environment only \<open>HOME\<close>, \<open>PATH\<close>, \<open>PWD\<close>, \<open>USER\<close> and \<open>TERM\<close>, computed from no other variable than those
  and \<open>USERNAME\<close>.
\<close>

theorem bash_env_minimal:
  assumes "wf_map extra"
  shows "(\<forall>k v. k \<noteq> [] \<longrightarrow> mget extra k = Some v \<longrightarrow> mget (bash_env getenv current cwd dir extra) k = Some v) \<and>
    (\<forall>k. mget extra k = None \<longrightarrow> k \<notin> {''HOME'', ''PATH'', ''PWD'', ''USER'', ''TERM''} \<longrightarrow>
      mget (bash_env getenv current cwd dir extra) k = None) \<and>
    (\<forall>getenv'. (\<forall>x\<in>{''HOME'', ''PATH'', ''USER'', ''USERNAME'', ''TERM''}. getenv' x = getenv x) \<longrightarrow>
      bash_env getenv' current cwd dir extra = bash_env getenv current cwd dir extra)"
proof (intro conjI allI impI)
  fix k v assume "k \<noteq> []" "mget extra k = Some v"
  then show "mget (bash_env getenv current cwd dir extra) k = Some v"
    by (simp only: bash_env_def Let_def fold_env [OF assms]) simp
next
  fix k assume "mget extra k = None" "k \<notin> {''HOME'', ''PATH'', ''PWD'', ''USER'', ''TERM''}"
  then show "mget (bash_env getenv current cwd dir extra) k = None"
    by (simp only: bash_env_def Let_def fold_env [OF assms]) auto
next
  fix getenv' assume "\<forall>x\<in>{''HOME'', ''PATH'', ''USER'', ''USERNAME'', ''TERM''}. getenv' x = getenv x"
  then have "getenv' ''HOME'' = getenv ''HOME''" "getenv' ''PATH'' = getenv ''PATH''" "getenv' ''USER'' = getenv ''USER''"
      "getenv' ''USERNAME'' = getenv ''USERNAME''" "getenv' ''TERM'' = getenv ''TERM''"
    by blast+
  then show "bash_env getenv' current cwd dir extra = bash_env getenv current cwd dir extra"
    by (simp only: bash_env_def processUsernameForBash_def)
qed

theorem bash_env_minimal_witness:
  "mget (bash_env (\<lambda>_. ''x'') None None ''/w'' [(''TOKEN'', ''t'')]) ''TOKEN'' = Some ''t'' \<and>
   mget (bash_env (\<lambda>_. ''x'') None None ''/w'' [(''TOKEN'', ''t'')]) ''AUXOT_ROUTER_URL'' = None"
proof -
  have "wf_map [(''TOKEN'', ''t'')]" by (simp add: wf_map_def)
  note env = bash_env_minimal [OF this, of "\<lambda>_. ''x''" None None "''/w''"]
  have "mget (bash_env (\<lambda>_. ''x'') None None ''/w'' [(''TOKEN'', ''t'')]) ''TOKEN'' = Some ''t''"
    using env [THEN conjunct1, rule_format, of "''TOKEN''" "''t''"] by simp
  moreover have "mget (bash_env (\<lambda>_. ''x'') None None ''/w'' [(''TOKEN'', ''t'')]) ''AUXOT_ROUTER_URL'' = None"
    using env [THEN conjunct2, THEN conjunct1, rule_format, of "''AUXOT_ROUTER_URL''"] by simp
  ultimately show ?thesis ..
qed

section \<open>The inline document\<close>

lemma length_Itoa: "- max_int64 - 1 \<le> i \<Longrightarrow> i \<le> max_int64 \<Longrightarrow> length (Itoa i) \<le> 20"
proof (cases "i < 0")
  case True
  moreover assume "- max_int64 - 1 \<le> i"
  ultimately have "length (digits_of (nat (- i))) \<le> 19"
    by (intro length_digits_of) (simp_all add: max_int64_def)
  with True show ?thesis by (simp add: Itoa_def)
next
  case False
  moreover assume "i \<le> max_int64"
  ultimately have "length (digits_of (nat i)) \<le> 19"
    by (intro length_digits_of) (simp_all add: max_int64_def)
  with False show ?thesis by (simp add: Itoa_def)
qed

lemma bash_json_empty:
  "- max_int64 - 1 \<le> st \<Longrightarrow> st \<le> max_int64 \<Longrightarrow>
     length (bash_json \<lparr>br_stdout = [], br_stderr = [], br_output = [], br_status = st\<rparr>) \<le> bashInlineBytes"
  using length_Itoa [of st] by (simp add: bash_json_def quote_bytes_def quote_runes.simps bashInlineBytes_def)

lemma longest_fits: "longest fits lo hi best = best \<or> fits (longest fits lo hi best)"
proof (induction fits lo hi best rule: longest.induct)
  case (1 fits lo hi best)
  then show ?case by (subst longest.simps, subst (3) longest.simps) (auto simp: Let_def)
qed

text \<open>When shorter prefixes fit wherever longer ones do, the search finds the longest.\<close>

lemma longest_max:
  assumes "\<And>i j. i \<le> j \<Longrightarrow> fits j \<Longrightarrow> fits i" and "0 \<le> lo" and "int best \<le> lo"
  shows "best \<le> longest fits lo hi best \<and>
    (\<forall>k. lo \<le> int k \<longrightarrow> int k \<le> hi \<longrightarrow> fits k \<longrightarrow> k \<le> longest fits lo hi best)"
  using assms
proof (induction fits lo hi best rule: longest.induct)
  case (1 fits lo hi best)
  show ?case
  proof (cases "lo \<le> hi")
    case True
    define mid where "mid = (lo + hi + 1) div 2"
    have mid: "lo \<le> mid" "mid \<le> hi" using True by (auto simp: mid_def)
    show ?thesis
    proof (cases "fits (nat mid)")
      case fit: True
      have step: "longest fits lo hi best = longest fits (mid + 1) hi (nat mid)"
        using True fit by (subst longest.simps) (simp add: mid_def Let_def)
      have "nat mid \<le> longest fits (mid + 1) hi (nat mid) \<and>
          (\<forall>k. mid + 1 \<le> int k \<longrightarrow> int k \<le> hi \<longrightarrow> fits k \<longrightarrow> k \<le> longest fits (mid + 1) hi (nat mid))"
        using 1(1) [OF True mid_def fit 1(3)] 1(4,5) mid by simp
      then show ?thesis unfolding step using 1(4,5) mid by (smt (verit) nat_le_iff nat_int le_trans)
    next
      case no: False
      have step: "longest fits lo hi best = longest fits lo (mid - 1) best"
        using True no by (subst longest.simps) (simp add: mid_def Let_def)
      have "best \<le> longest fits lo (mid - 1) best \<and>
          (\<forall>k. lo \<le> int k \<longrightarrow> int k \<le> mid - 1 \<longrightarrow> fits k \<longrightarrow> k \<le> longest fits lo (mid - 1) best)"
        using 1(2) [OF True mid_def no 1(3)] 1(4,5) by simp
      moreover have "int k \<le> mid - 1" if "fits k" for k
        using no 1(3) [of "nat mid" k] that by (cases "int k \<le> mid - 1") auto
      ultimately show ?thesis unfolding step by blast
    qed
  next
    case False
    then show ?thesis using 1(4,5) by (subst (1 2) longest.simps) auto
  qed
qed

lemma quote_runes_ascii: "list_all (\<lambda>c. (of_char c :: nat) < 128) s \<Longrightarrow> quote_runes s = concat (map quote_char s)"
proof (induction s)
  case (Cons c s)
  then have "rune_width (c # s) = 1" by (simp add: rune_width_def)
  with Cons show ?case by (subst quote_runes.simps) (simp add: quote_rune_def)
qed (simp add: quote_runes.simps)

definition inline_doc :: "bashResult \<Rightarrow> nat \<Rightarrow> nat \<Rightarrow> string" where
  "inline_doc p ko ke =
     bash_json \<lparr>br_stdout = take ko (br_stdout p), br_stderr = take ke (br_stderr p),
       br_output = take ko (br_stdout p), br_status = br_status p\<rparr>"

lemma inline_doc_none: "length (inline_doc p 0 ke) \<le> length (inline_doc p ko ke)"
  by (simp add: inline_doc_def bash_json_def quote_bytes_def quote_runes.simps [of "[]"])

lemma inline_doc_mono:
  assumes "list_all (\<lambda>c. (of_char c :: nat) < 128) (br_stdout p)" and "i \<le> j"
  shows "length (inline_doc p i ke) \<le> length (inline_doc p j ke)"
proof -
  define so where "so = br_stdout p"
  have part: "take j so = take i so @ take (j - i) (drop i so)"
    using assms(2) by (metis le_add_diff_inverse take_add)
  have "list_all (\<lambda>c. (of_char c :: nat) < 128) (take n so)" for n
    using assms(1) unfolding so_def list_all_iff by (meson in_set_takeD)
  then have quoted: "quote_runes (take n so) = concat (map quote_char (take n so))" for n
    by (rule quote_runes_ascii)
  have "length (quote_runes (take i so)) \<le> length (quote_runes (take j so))"
    unfolding quoted unfolding part by simp
  then show ?thesis by (simp add: inline_doc_def bash_json_def quote_bytes_def so_def)
qed

lemma marshal_inline:
  assumes "- max_int64 - 1 \<le> br_status p" and "br_status p \<le> max_int64"
  shows "\<exists>ko ke. (\<forall>env. marshalBashResultInline p env = inline_doc p ko ke) \<and> length (inline_doc p ko ke) \<le> bashInlineBytes \<and>
    (list_all (\<lambda>c. (of_char c :: nat) < 128) (br_stdout p) \<longrightarrow>
       (\<forall>k. ko < k \<longrightarrow> k \<le> length (br_stdout p) \<longrightarrow> bashInlineBytes < length (inline_doc p k ke)))"
proof -
  define so where "so = length (br_stdout p)"
  define se where "se = length (br_stderr p)"
  define ke where "ke = longest (\<lambda>k. length (inline_doc p so k) \<le> bashInlineBytes) 0 (int se) 0"
  define ko where "ko = longest (\<lambda>k. length (inline_doc p k ke) \<le> bashInlineBytes) 0 (int so) 0"
  have marshal: "marshalBashResultInline p env =
      (if length (inline_doc p so se) \<le> bashInlineBytes then inline_doc p so se
       else if length (inline_doc p ko ke) \<le> bashInlineBytes then inline_doc p ko ke
       else minimalBashInlineJSON env (br_status p))" for env
    unfolding marshalBashResultInline_def Let_def ko_def ke_def so_def se_def inline_doc_def by (rule refl)
  have "length (inline_doc p 0 ke) \<le> bashInlineBytes"
  proof (cases "ke = 0")
    case True
    then show ?thesis using bash_json_empty [OF assms] by (simp add: inline_doc_def)
  next
    case False
    with longest_fits [of "\<lambda>k. length (inline_doc p so k) \<le> bashInlineBytes" 0 "int se" 0]
    have "length (inline_doc p so ke) \<le> bashInlineBytes" unfolding ke_def by (simp only: simp_thms)
    with inline_doc_none [of p ke so] show ?thesis by (rule le_trans)
  qed
  then have fits: "length (inline_doc p ko ke) \<le> bashInlineBytes"
    unfolding ko_def using longest_fits [of "\<lambda>k. length (inline_doc p k ke) \<le> bashInlineBytes" 0 "int so" 0] by auto
  show ?thesis
  proof (cases "length (inline_doc p so se) \<le> bashInlineBytes")
    case True
    then show ?thesis by (intro exI [of _ so] exI [of _ se]) (auto simp: marshal so_def)
  next
    case False
    have "bashInlineBytes < length (inline_doc p k ke)"
      if ascii: "list_all (\<lambda>c. (of_char c :: nat) < 128) (br_stdout p)" and k: "ko < k" "k \<le> so" for k
    proof -
      have anti: "i \<le> j \<Longrightarrow> length (inline_doc p j ke) \<le> bashInlineBytes \<Longrightarrow> length (inline_doc p i ke) \<le> bashInlineBytes" for i j
        using inline_doc_mono [OF ascii, of i j ke] by linarith
      have "\<forall>k. 0 \<le> int k \<longrightarrow> int k \<le> int so \<longrightarrow> length (inline_doc p k ke) \<le> bashInlineBytes \<longrightarrow> k \<le> ko"
        unfolding ko_def
        by (rule longest_max [where fits = "\<lambda>k. length (inline_doc p k ke) \<le> bashInlineBytes", THEN conjunct2])
          (use anti in auto)
      with k(2) have "length (inline_doc p k ke) \<le> bashInlineBytes \<Longrightarrow> k \<le> ko" by simp
      with k(1) show ?thesis by linarith
    qed
    with False fits show ?thesis by (intro exI [of _ ko] exI [of _ ke]) (auto simp: marshal so_def)
  qed
qed

text \<open>
  C23: the answer to a bash call is a JSON document of at most 1024 bytes that holds a prefix of the
  standard output, the longest one that fits its standard error if the output is ASCII.  It does not
  depend on the call id: the hint to use \<open>tool_recall\<close>, which shows that something was cut off, is never
  given.
\<close>

theorem bash_answer_bounded:
  assumes "\<And>c t. ro_error res = Some (Some c, t) \<Longrightarrow> - max_int64 - 1 \<le> c \<and> c \<le> max_int64"
    and "bash_answer res env = TOk answer"
  shows "length answer \<le> bashInlineBytes \<and> (\<forall>env'. bash_answer res env' = TOk answer) \<and>
    (\<exists>so se st. answer = bash_json \<lparr>br_stdout = so, br_stderr = se, br_output = so, br_status = st\<rparr> \<and>
       HasPrefix (ro_stdout res) so)"
proof -
  obtain p where p: "\<forall>env'. bash_answer res env' = TOk (marshalBashResultInline (applyMaxBashPayload p) env')"
      "- max_int64 - 1 \<le> br_status p" "br_status p \<le> max_int64" "br_stdout p = ro_stdout res"
    using assms by (fastforce simp: bash_answer_def max_int64_def split: option.splits if_splits)
  define q where "q = applyMaxBashPayload p"
  have q: "br_status q = br_status p" "HasPrefix (br_stdout p) (br_stdout q)"
    unfolding q_def applyMaxBashPayload_def Let_def by (auto simp: HasPrefix_def)
  obtain ko ke where k: "\<forall>env. marshalBashResultInline q env = inline_doc q ko ke" "length (inline_doc q ko ke) \<le> bashInlineBytes"
    using marshal_inline [of q] p(2,3) q(1) by auto
  have all: "bash_answer res env' = TOk (inline_doc q ko ke)" for env' using p(1) k(1) unfolding q_def by simp
  then have answer: "answer = inline_doc q ko ke" using assms(2) by simp
  have "HasPrefix (br_stdout p) (take ko (br_stdout q))"
    using q(2) by (auto simp: HasPrefix_conv) (metis append.assoc append_take_drop_id)
  with all k(2) p(4) show ?thesis unfolding answer inline_doc_def by fastforce
qed

theorem bash_answer_bounded_witness:
  "length (marshalBashResultInline (applyMaxBashPayload
     \<lparr>br_stdout = ''ok'', br_stderr = [], br_output = ''ok'', br_status = 0\<rparr>) []) \<le> bashInlineBytes"
proof -
  have "bash_answer \<lparr>ro_stdout = ''ok'', ro_stderr = [], ro_error = None\<rparr> [] =
      TOk (marshalBashResultInline (applyMaxBashPayload
        \<lparr>br_stdout = ''ok'', br_stderr = [], br_output = ''ok'', br_status = 0\<rparr>) [])"
    by (simp add: bash_answer_def)
  from bash_answer_bounded [OF _ this] show ?thesis by simp
qed

end
