(* ===== verification/Llama_Client.thy ===== *)
theory Llama_Client
  imports Openai_Builders Go_Strings Json_Parse
begin

text \<open>
  \<open>pkg/llamacpp\<close>: the client of a llama.cpp server.  Tool schemas are stripped to what its chat
  template takes; the SSE stream is read line by line into tokens; fragments of tool calls are
  merged by their index.  The times of a stream are float literals, on which \<open>fadd\<close> is the sum.
\<close>

section \<open>Tool schemas\<close>

text \<open>
  A value that is decoded into \<open>any\<close> and encoded again: objects are sorted by their keys, the last
  of equal keys wins, and a number is printed as the float it was read as (\<open>fmt\<close>).
\<close>

fun via_any :: "(number \<Rightarrow> number) \<Rightarrow> json \<Rightarrow> json" where
  "via_any fmt (JNum n) = JNum (fmt n)"
| "via_any fmt (JArr js) = JArr (map (via_any fmt) js)"
| "via_any fmt (JObj kvs) =
     JObj (sort_key fst (fold (\<lambda>(k, v). mput k v) (map (\<lambda>(k, v). (k, via_any fmt v)) kvs) []))"
| "via_any fmt j = j"

definition allowedPropertyKeys :: "string list" where
  "allowedPropertyKeys = [''type'', ''description'', ''enum'', ''required'']"

definition as_map :: "json \<Rightarrow> json gomap" where
  "as_map j = (case j of JObj kvs \<Rightarrow> fold (\<lambda>(k, v). mput k v) kvs [] | _ \<Rightarrow> [])"

definition stripToAllowedKeys :: "json gomap \<Rightarrow> json gomap" where
  "stripToAllowedKeys propDef =
     (let stripped = filter (\<lambda>(k, v). k \<in> set allowedPropertyKeys) propDef in
      if mget stripped ''type'' = None then mput ''type'' (JStr ''string'') stripped else stripped)"

definition clean_property :: "(number \<Rightarrow> number) \<Rightarrow> json \<Rightarrow> json option" where
  "clean_property fmt p =
     (case p of JObj kvs \<Rightarrow> Some (enc_map (via_any fmt) (stripToAllowedKeys (as_map p))) | _ \<Rightarrow> None)"

definition clean_properties :: "(number \<Rightarrow> number) \<Rightarrow> json gomap \<Rightarrow> json" where
  "clean_properties fmt props =
     enc_map id (List.map_filter (\<lambda>(k, p). map_option (Pair k) (clean_property fmt p)) props)"

definition clean_params :: "(number \<Rightarrow> number) \<Rightarrow> json gomap \<Rightarrow> json" where
  "clean_params fmt params = JObj
     (opt_raw ''properties''
        (case mget params ''properties'' of Some (JObj kvs) \<Rightarrow> Some (clean_properties fmt (as_map (JObj kvs))) | _ \<Rightarrow> None) @
      opt_raw ''required'' (map_option (via_any fmt) (mget params ''required'')) @
      opt_raw ''type'' (map_option (via_any fmt) (mget params ''type'')))"

text \<open>\<open>jsonErr\<close> is the text of the decoding error.\<close>

definition sanitizeTool :: "(number \<Rightarrow> number) \<Rightarrow> string \<Rightarrow> Oai_Tool \<Rightarrow> string + Oai_Tool" where
  "sanitizeTool fmt jsonErr tool =
     (case otf_params (ot_fn tool) of
        None \<Rightarrow> Inr tool
      | Some (JObj kvs) \<Rightarrow>
          Inr (tool\<lparr>ot_fn := (ot_fn tool)\<lparr>otf_params := Some (clean_params fmt (as_map (JObj kvs)))\<rparr>\<rparr>)
      | Some JNull \<Rightarrow> Inr (tool\<lparr>ot_fn := (ot_fn tool)\<lparr>otf_params := Some (clean_params fmt [])\<rparr>\<rparr>)
      | Some _ \<Rightarrow> Inl (''unmarshaling parameters: '' @ jsonErr))"

fun SanitizeTools :: "(number \<Rightarrow> number) \<Rightarrow> string \<Rightarrow> Oai_Tool list \<Rightarrow> string + Oai_Tool list" where
  "SanitizeTools fmt jsonErr [] = Inr []"
| "SanitizeTools fmt jsonErr (tool # tools) =
     (case sanitizeTool fmt jsonErr tool of
        Inl e \<Rightarrow> Inl (''sanitizing tool '' @ strconv_quote (otf_name (ot_fn tool)) @ '': '' @ e)
      | Inr cleaned \<Rightarrow>
          (case SanitizeTools fmt jsonErr tools of Inl e \<Rightarrow> Inl e | Inr cs \<Rightarrow> Inr (cleaned # cs)))"

section \<open>Chunks of the stream\<close>

record PromptProgress =
  ppg_total :: int
  ppg_cached :: int
  ppg_processed :: int
  ppg_time :: int

definition zero_PromptProgress :: PromptProgress where
  "zero_PromptProgress = \<lparr>ppg_total = 0, ppg_cached = 0, ppg_processed = 0, ppg_time = 0\<rparr>"

definition dec_PromptProgress :: "PromptProgress decoder" where
  "dec_PromptProgress = dec_struct
     [(''total'', fld ppg_total ppg_total_update dec_int), (''cache'', fld ppg_cached ppg_cached_update dec_int),
      (''processed'', fld ppg_processed ppg_processed_update dec_int), (''time_ms'', fld ppg_time ppg_time_update dec_int)]"

record Timings =
  tmg_cache :: int
  tmg_prompt :: int
  tmg_promptMS :: number
  tmg_predicted :: int
  tmg_predictedMS :: number
  tmg_perSecond :: number

definition zero_Timings :: Timings where
  "zero_Timings = \<lparr>tmg_cache = 0, tmg_prompt = 0, tmg_promptMS = NInt 0, tmg_predicted = 0, tmg_predictedMS = NInt 0,
     tmg_perSecond = NInt 0\<rparr>"

definition dec_Timings :: "Timings decoder" where
  "dec_Timings = dec_struct
     [(''cache_n'', fld tmg_cache tmg_cache_update dec_int), (''prompt_n'', fld tmg_prompt tmg_prompt_update dec_int),
      (''prompt_ms'', fld tmg_promptMS tmg_promptMS_update dec_float),
      (''predicted_n'', fld tmg_predicted tmg_predicted_update dec_int),
      (''predicted_ms'', fld tmg_predictedMS tmg_predictedMS_update dec_float),
      (''predicted_per_second'', fld tmg_perSecond tmg_perSecond_update dec_float)]"

record llama_call =
  lcl_index :: "int option"
  lcl_id :: string
  lcl_type :: string
  lcl_fn :: Oai_ToolCallFunction

definition zero_llama_call :: llama_call where
  "zero_llama_call = \<lparr>lcl_index = None, lcl_id = [], lcl_type = [], lcl_fn = zero_Oai_ToolCallFunction\<rparr>"

definition dec_llama_call :: "llama_call decoder" where
  "dec_llama_call = dec_struct
     [(''index'', fld lcl_index lcl_index_update (dec_ptr 0 dec_int)), (''id'', fld lcl_id lcl_id_update dec_string),
      (''type'', fld lcl_type lcl_type_update dec_string),
      (''function'', fld lcl_fn lcl_fn_update dec_Oai_ToolCallFunction)]"

record llama_delta =
  ldl_content :: string
  ldl_reasoning :: string
  ldl_role :: string
  ldl_calls :: "llama_call list"

definition zero_llama_delta :: llama_delta where
  "zero_llama_delta = \<lparr>ldl_content = [], ldl_reasoning = [], ldl_role = [], ldl_calls = []\<rparr>"

definition dec_llama_delta :: "llama_delta decoder" where
  "dec_llama_delta = dec_struct
     [(''content'', fld ldl_content ldl_content_update dec_string),
      (''reasoning_content'', fld ldl_reasoning ldl_reasoning_update dec_string),
      (''role'', fld ldl_role ldl_role_update dec_string),
      (''tool_calls'', fld ldl_calls ldl_calls_update (dec_slice zero_llama_call dec_llama_call))]"

record llama_choice =
  lch_index :: int
  lch_delta :: llama_delta
  lch_finish :: "string option"

definition zero_llama_choice :: llama_choice where
  "zero_llama_choice = \<lparr>lch_index = 0, lch_delta = zero_llama_delta, lch_finish = None\<rparr>"

definition dec_llama_choice :: "llama_choice decoder" where
  "dec_llama_choice = dec_struct
     [(''index'', fld lch_index lch_index_update dec_int), (''delta'', fld lch_delta lch_delta_update dec_llama_delta),
      (''finish_reason'', fld lch_finish lch_finish_update (dec_ptr [] dec_string))]"

record llamaCppChunk =
  lcc_id :: string
  lcc_object :: string
  lcc_created :: int
  lcc_model :: string
  lcc_choices :: "llama_choice list"
  lcc_timings :: "Timings option"
  lcc_progress :: "PromptProgress option"

definition zero_llamaCppChunk :: llamaCppChunk where
  "zero_llamaCppChunk = \<lparr>lcc_id = [], lcc_object = [], lcc_created = 0, lcc_model = [], lcc_choices = [], lcc_timings = None,
     lcc_progress = None\<rparr>"

definition dec_llamaCppChunk :: "llamaCppChunk decoder" where
  "dec_llamaCppChunk = dec_struct
     [(''id'', fld lcc_id lcc_id_update dec_string), (''object'', fld lcc_object lcc_object_update dec_string),
      (''created'', fld lcc_created lcc_created_update dec_int), (''model'', fld lcc_model lcc_model_update dec_string),
      (''choices'', fld lcc_choices lcc_choices_update (dec_slice zero_llama_choice dec_llama_choice)),
      (''timings'', fld lcc_timings lcc_timings_update (dec_ptr zero_Timings dec_Timings)),
      (''prompt_progress'', fld lcc_progress lcc_progress_update (dec_ptr zero_PromptProgress dec_PromptProgress))]"

record StreamToken =
  stk_content :: string
  stk_reasoning :: string
  stk_calls :: "Oai_ToolCall list"
  stk_finish :: string
  stk_timings :: "Timings option"
  stk_progress :: "PromptProgress option"

definition zero_StreamToken :: StreamToken where
  "zero_StreamToken = \<lparr>stk_content = [], stk_reasoning = [], stk_calls = [], stk_finish = [], stk_timings = None,
     stk_progress = None\<rparr>"

definition stream_call :: "llama_call \<Rightarrow> Oai_ToolCall" where
  "stream_call c =
     \<lparr>otc_index = (case lcl_index c of None \<Rightarrow> 0 | Some i \<Rightarrow> i), otc_id = lcl_id c, otc_type = lcl_type c, otc_fn = lcl_fn c\<rparr>"

definition chunkToToken :: "llamaCppChunk \<Rightarrow> StreamToken" where
  "chunkToToken chunk =
     (let token = zero_StreamToken\<lparr>stk_timings := lcc_timings chunk, stk_progress := lcc_progress chunk\<rparr> in
      case lcc_choices chunk of
        [] \<Rightarrow> token
      | choice # _ \<Rightarrow>
          token\<lparr>stk_content := ldl_content (lch_delta choice), stk_reasoning := ldl_reasoning (lch_delta choice),
            stk_finish := (case lch_finish choice of None \<Rightarrow> [] | Some f \<Rightarrow> f),
            stk_calls := map stream_call (ldl_calls (lch_delta choice))\<rparr>)"

section \<open>The stream\<close>

text \<open>
  \<open>bufio.Scanner\<close> with its buffer of 256 KB: the lines without their ends, a carriage return
  included, and whether it stopped at a line that does not fit the buffer.
\<close>

definition drop_cr :: "string \<Rightarrow> string" where
  "drop_cr l = (if l \<noteq> [] \<and> last l = CHR 0x0D then butlast l else l)"

fun take_lines :: "int \<Rightarrow> string list \<Rightarrow> string list \<times> bool" where
  "take_lines limit [] = ([], False)"
| "take_lines limit (l # ls) =
     (if limit < int (length l) then ([], True)
      else (case take_lines limit ls of (rs, long) \<Rightarrow> (drop_cr l # rs, long)))"

text \<open>\<open>bufio.Scanner\<close> with a buffer of one byte more than the longest line.\<close>

definition scan_upto :: "int \<Rightarrow> string \<Rightarrow> string list \<times> bool" where
  "scan_upto limit body =
     (let ls = Split (CHR 0x0A) body in take_lines limit (if last ls = [] then butlast ls else ls))"

definition scan_lines :: "string \<Rightarrow> string list \<times> bool" where
  "scan_lines body = scan_upto 262143 body"

definition error_token :: "string \<Rightarrow> StreamToken" where
  "error_token msg = zero_StreamToken\<lparr>stk_content := msg, stk_finish := ''error''\<rparr>"

text \<open>
  For every line: whether the context is done when the line is read, and when its token is sent.
  \<open>readErr\<close> is the error that ended the reading, if its token is sent before the context is done.
\<close>

fun sse_lines ::
    "string \<Rightarrow> string option \<Rightarrow> (string \<times> bool \<times> bool) list \<Rightarrow> StreamToken list" where
  "sse_lines jsonErr readErr [] =
     (case readErr of None \<Rightarrow> [] | Some e \<Rightarrow> [error_token (''error reading stream: '' @ e)])"
| "sse_lines jsonErr readErr ((line, done, done') # ls) =
     (if done then []
      else if \<not> HasPrefix line ''data: '' then sse_lines jsonErr readErr ls
      else
        (let data = TrimPrefix line ''data: '' in
         if data = ''[DONE]'' then []
         else
           (case Unmarshal dec_llamaCppChunk data zero_llamaCppChunk of
              (_, False) \<Rightarrow> [error_token (''error parsing SSE chunk: '' @ jsonErr)]
            | (chunk, True) \<Rightarrow>
                if done' then [] else chunkToToken chunk # sse_lines jsonErr readErr ls)))"

definition parseSSEStream :: "string \<Rightarrow> string option \<Rightarrow> (nat \<Rightarrow> bool \<times> bool) \<Rightarrow> string \<Rightarrow> StreamToken list" where
  "parseSSEStream jsonErr readErr done body =
     (case scan_lines body of
        (ls, long) \<Rightarrow>
          sse_lines jsonErr
            (if fst (done (length ls)) then None
             else if long then Some ''bufio.Scanner: token too long'' else readErr)
            (map (\<lambda>(n, l). (l, done n)) (enumerate 0 ls)))"

section \<open>The client\<close>

text \<open>
  \<open>newRequest\<close> is the error of making a request to an URL, if any; \<open>post\<close> sends a JSON body to one
  and gives an error or the status, the body and the error that cuts its reading short.
\<close>

record llama_http =
  lhp_newRequest :: "string \<Rightarrow> string option"
  lhp_post :: "string \<Rightarrow> json \<Rightarrow> string + int \<times> string \<times> string option"

definition NewClient :: "string \<Rightarrow> string" where
  "NewClient baseURL = rev (dropWhile (\<lambda>c. c = CHR ''/'') (rev baseURL))"

definition streamCompletionBody ::
    "llama_http \<Rightarrow> string \<Rightarrow> (nat \<Rightarrow> bool \<times> bool) \<Rightarrow> string \<Rightarrow> json \<Rightarrow> string + StreamToken list" where
  "streamCompletionBody http jsonErr done baseURL body =
     (case lhp_newRequest http (baseURL @ ''/v1/chat/completions'') of
        Some e \<Rightarrow> Inl (''creating HTTP request: '' @ e)
      | None \<Rightarrow>
          (case lhp_post http (baseURL @ ''/v1/chat/completions'') body of
             Inl e \<Rightarrow> Inl (''POST /v1/chat/completions: '' @ e)
           | Inr (status, answer, readErr) \<Rightarrow>
               if status \<noteq> 200 then Inl (''chat server returned HTTP '' @ Itoa status @ '': '' @ answer)
               else Inr (parseSSEStream jsonErr readErr done answer)))"

definition StreamCompletion ::
    "llama_http \<Rightarrow> (number \<Rightarrow> number) \<Rightarrow> string \<Rightarrow> (nat \<Rightarrow> bool \<times> bool) \<Rightarrow> string \<Rightarrow> ChatCompletionRequest \<Rightarrow>
       string + StreamToken list" where
  "StreamCompletion http fmt jsonErr done baseURL req =
     (case SanitizeTools fmt jsonErr (ccr_tools req) of
        Inl e \<Rightarrow> Inl (''sanitizing tools: '' @ e)
      | Inr tools \<Rightarrow>
          streamCompletionBody http jsonErr done baseURL
            (enc_ChatCompletionRequest (req\<lparr>ccr_stream := True, ccr_tools := tools\<rparr>)))"

section \<open>Tool calls from their fragments\<close>

type_synonym call_map = "(int \<times> Oai_ToolCall) list"

definition mergeToolCallDelta :: "Oai_ToolCall \<Rightarrow> call_map \<Rightarrow> call_map" where
  "mergeToolCallDelta delta m =
     (case map_of m (otc_index delta) of
        None \<Rightarrow> AList.update (otc_index delta) delta m
      | Some existing \<Rightarrow>
          AList.update (otc_index delta)
            (existing\<lparr>otc_id := (if otc_id delta \<noteq> [] then otc_id delta else otc_id existing),
                      otc_type := (if otc_type delta \<noteq> [] then otc_type delta else otc_type existing),
                      otc_fn :=
                        \<lparr>otcf_name = (if otcf_name (otc_fn delta) \<noteq> [] then otcf_name (otc_fn delta) else otcf_name (otc_fn existing)),
                         otcf_args = otcf_args (otc_fn existing) @ otcf_args (otc_fn delta)\<rparr>\<rparr>) m)"

definition sortedToolCalls :: "call_map \<Rightarrow> Oai_ToolCall list" where
  "sortedToolCalls m = map (\<lambda>i. the (map_of m i)) (sort (map fst m))"

record CompletionResult =
  crs_full :: string
  crs_reasoning :: string
  crs_calls :: "Oai_ToolCall list"
  crs_finish :: string
  crs_cache :: int
  crs_input :: int
  crs_output :: int
  crs_reasoningTokens :: int
  crs_duration :: number

definition zero_CompletionResult :: CompletionResult where
  "zero_CompletionResult = \<lparr>crs_full = [], crs_reasoning = [], crs_calls = [], crs_finish = [], crs_cache = 0, crs_input = 0,
     crs_output = 0, crs_reasoningTokens = 0, crs_duration = NInt 0\<rparr>"

fun collect :: "(number \<Rightarrow> number \<Rightarrow> number) \<Rightarrow> StreamToken list \<Rightarrow> call_map \<Rightarrow> CompletionResult \<Rightarrow> CompletionResult" where
  "collect fadd [] m result = result\<lparr>crs_calls := sortedToolCalls m\<rparr>"
| "collect fadd (token # tokens) m result =
     (if stk_finish token = ''error'' then result\<lparr>crs_finish := ''error'', crs_full := stk_content token\<rparr>
      else
        (let r1 = result\<lparr>crs_full := crs_full result @ stk_content token\<rparr>;
             r2 = (if stk_reasoning token \<noteq> [] then
                     r1\<lparr>crs_reasoning := crs_reasoning r1 @ stk_reasoning token, crs_reasoningTokens := crs_reasoningTokens r1 + 1\<rparr>
                   else r1);
             r3 = (if stk_finish token \<noteq> [] then r2\<lparr>crs_finish := stk_finish token\<rparr> else r2);
             r4 = (case stk_timings token of
                     None \<Rightarrow> r3
                   | Some t \<Rightarrow> r3\<lparr>crs_cache := tmg_cache t, crs_input := tmg_prompt t, crs_output := tmg_predicted t,
                                 crs_duration := fadd (tmg_predictedMS t) (tmg_promptMS t)\<rparr>)
         in collect fadd tokens (fold mergeToolCallDelta (stk_calls token) m) r4))"

definition CollectStream :: "(number \<Rightarrow> number \<Rightarrow> number) \<Rightarrow> StreamToken list \<Rightarrow> CompletionResult" where
  "CollectStream fadd tokens = collect fadd tokens [] zero_CompletionResult"

section \<open>Stripped schemas\<close>

text \<open>What the chat template takes: properties that are objects of the four keys with a type.\<close>

definition safe_property :: "json \<Rightarrow> bool" where
  "safe_property p =
     (case p of
        JObj kvs \<Rightarrow> list_all (\<lambda>(k, v). k \<in> set allowedPropertyKeys) kvs \<and> list_ex (\<lambda>(k, v). k = ''type'') kvs
      | _ \<Rightarrow> False)"

definition template_safe :: "json \<Rightarrow> bool" where
  "template_safe j =
     (case j of
        JObj kvs \<Rightarrow>
          list_all (\<lambda>(k, v). k \<in> {''type'', ''required''} \<or>
            k = ''properties'' \<and> (case v of JObj ps \<Rightarrow> list_all (\<lambda>(k, p). safe_property p) ps | _ \<Rightarrow> False)) kvs
      | _ \<Rightarrow> False)"

lemma fold_mput_distinct:
  "distinct (map fst (m @ kvs)) \<Longrightarrow> fold (\<lambda>(k, v). mput k v) kvs m = m @ kvs"
proof (induction kvs arbitrary: m)
  case (Cons p kvs)
  obtain k v where p: "p = (k, v)" by fastforce
  have "mput k v m = m @ [(k, v)]" using Cons.prems p by (intro mput_new) auto
  with Cons p show ?case by simp
qed simp

lemma set_mput: "set (mput k v m) \<subseteq> insert (k, v) (set m)"
  by (induction m) auto

lemma set_fold_mput: "set (fold (\<lambda>(k, v). mput k v) kvs m) \<subseteq> set kvs \<union> set m"
proof (induction kvs arbitrary: m)
  case (Cons p kvs)
  obtain k v where p: "p = (k, v)" by fastforce
  from Cons [of "mput k v m"] set_mput [of k v m] p show ?case by auto
qed simp

lemma as_map_sorted:
  assumes "distinct (map fst kvs)"
  shows "as_map (JObj kvs) = kvs"
  using fold_mput_distinct [of "[]" kvs] assms by (simp add: as_map_def)

lemma as_map_wf: "wf_map (as_map j)"
  by (cases j) (simp_all add: as_map_def wf_fold_members)

lemma sorted_map_sort:
  assumes "wf_map m"
  shows "sorted_map (map (\<lambda>(k, v). (k, f v)) (sort_key fst m))"
proof -
  have keys: "map fst (map (\<lambda>(k, v). (k, f v)) (sort_key fst m)) = map fst (sort_key fst m)" by (simp add: case_prod_unfold)
  have "distinct (map fst (sort_key fst m))" using assms by (auto simp: wf_map_def distinct_map)
  then show ?thesis unfolding sorted_map_def wf_map_def keys by simp
qed

lemma sort_sorted: "sorted_map kvs \<Longrightarrow> sort_key fst kvs = kvs"
  by (simp add: sorted_map_def wf_map_def sort_key_id_if_sorted)

lemma via_any_idem:
  assumes fmt: "\<And>n. fmt (fmt n) = fmt n"
  shows "via_any fmt (via_any fmt j) = via_any fmt j"
proof (induction j)
  case (JObj kvs)
  let ?kvs = "map (\<lambda>(k, v). (k, via_any fmt v)) kvs"
  define L where "L = sort_key fst (fold (\<lambda>(k, v). mput k v) ?kvs [])"
  have obj: "sorted_map L"
    using sorted_map_sort [of "fold (\<lambda>(k, v). mput k v) ?kvs []" id] wf_fold_members [of "[]" ?kvs]
    by (simp add: L_def case_prod_unfold)
  have "set L \<subseteq> set ?kvs" using set_fold_mput [of ?kvs "[]"] by (simp add: L_def)
  then have "via_any fmt v = v" if "(k, v) \<in> set L" for k v
    using that JObj by fastforce
  then have "map (\<lambda>(k, v). (k, via_any fmt v)) L = L" by (intro map_idI) auto
  moreover have "fold (\<lambda>(k, v). mput k v) L [] = L" using fold_mput_distinct [of "[]" L] obj by (simp add: sorted_map_def wf_map_def)
  ultimately have "via_any fmt (JObj L) = JObj L" by (simp add: sort_sorted [OF obj])
  then show ?case by (simp add: L_def)
qed (simp_all add: fmt)

lemma filter_id_all: "list_all P xs \<Longrightarrow> filter P xs = xs"
  by (simp add: list_all_iff)

lemma strip_shape:
  assumes "wf_map m"
  shows "wf_map (stripToAllowedKeys m)" and "list_all (\<lambda>(k, v). k \<in> set allowedPropertyKeys) (stripToAllowedKeys m)"
    and "mget (stripToAllowedKeys m) ''type'' \<noteq> None"
proof -
  define st where "st = filter (\<lambda>(k, v). k \<in> set allowedPropertyKeys) m"
  have st: "wf_map st" "list_all (\<lambda>(k, v). k \<in> set allowedPropertyKeys) st"
    using assms by (auto simp: st_def wf_map_def distinct_map_filter list_all_iff)
  moreover have "list_all (\<lambda>(k, v). k \<in> set allowedPropertyKeys) (mput ''type'' v st)" for v
    using st(2) set_mput [of "''type''" v st] by (auto simp: list_all_iff allowedPropertyKeys_def)
  ultimately show "wf_map (stripToAllowedKeys m)" "list_all (\<lambda>(k, v). k \<in> set allowedPropertyKeys) (stripToAllowedKeys m)"
      "mget (stripToAllowedKeys m) ''type'' \<noteq> None"
    by (auto simp: stripToAllowedKeys_def st_def [symmetric] Let_def)
qed

lemma strip_stripped:
  "list_all (\<lambda>(k, v). k \<in> set allowedPropertyKeys) m \<Longrightarrow> mget m ''type'' \<noteq> None \<Longrightarrow> stripToAllowedKeys m = m"
  by (auto simp: stripToAllowedKeys_def filter_id_all)

lemma clean_property_shape:
  assumes "clean_property fmt p = Some q"
  shows "\<exists>L. q = JObj L \<and> sorted_map L \<and> list_all (\<lambda>(k, v). k \<in> set allowedPropertyKeys) L \<and> mget L ''type'' \<noteq> None \<and>
    (\<forall>(k, v)\<in>set L. \<exists>v0. v = via_any fmt v0)"
proof -
  define m where "m = stripToAllowedKeys (as_map p)"
  define L where "L = map (\<lambda>(k, v). (k, via_any fmt v)) (sort_key fst m)"
  have m: "wf_map m" "list_all (\<lambda>(k, v). k \<in> set allowedPropertyKeys) m" "mget m ''type'' \<noteq> None"
    unfolding m_def by (rule strip_shape [OF as_map_wf])+
  have "q = JObj L" using assms by (auto simp: clean_property_def enc_map_def L_def m_def split: json.splits)
  moreover have "sorted_map L" unfolding L_def by (rule sorted_map_sort [OF m(1)])
  moreover have "list_all (\<lambda>(k, v). k \<in> set allowedPropertyKeys) L"
    using m(2) by (auto simp: L_def list_all_iff)
  moreover have "mget L ''type'' \<noteq> None"
    using m(3) map_of_sort_key [OF m(1)] by (auto simp: L_def map_of_map)
  ultimately show ?thesis by (intro exI [of _ L]) (auto simp: L_def)
qed

lemma clean_property_again:
  assumes fmt: "\<And>n. fmt (fmt n) = fmt n" and "clean_property fmt p = Some q"
  shows "clean_property fmt q = Some q"
proof -
  obtain L where L: "q = JObj L" "sorted_map L" "list_all (\<lambda>(k, v). k \<in> set allowedPropertyKeys) L" "mget L ''type'' \<noteq> None"
      "\<forall>(k, v)\<in>set L. \<exists>v0. v = via_any fmt v0"
    using clean_property_shape [OF assms(2)] by blast
  have "as_map q = L" using L(2) unfolding L(1) by (intro as_map_sorted) (simp add: sorted_map_def wf_map_def)
  then have "stripToAllowedKeys (as_map q) = L" using strip_stripped L(3,4) by simp
  moreover have "map (\<lambda>(k, v). (k, via_any fmt v)) L = L"
    using L(5) via_any_idem [OF fmt] by (intro map_idI) fastforce
  ultimately show ?thesis
    by (simp add: clean_property_def L(1) enc_map_def sort_sorted [OF L(2)])
qed

lemma clean_properties_shape:
  assumes "wf_map props"
  shows "\<exists>L. clean_properties fmt props = JObj L \<and> sorted_map L \<and> (\<forall>(k, q)\<in>set L. \<exists>p. clean_property fmt p = Some q)"
proof -
  define M where "M = List.map_filter (\<lambda>(k, p). map_option (Pair k) (clean_property fmt p)) props"
  have keys: "set (map fst (List.map_filter (\<lambda>(k, p). map_option (Pair k) (clean_property fmt p)) ps)) \<subseteq> set (map fst ps)" for ps
    by (induction ps) (auto split: option.splits)
  have "wf_map (List.map_filter (\<lambda>(k, p). map_option (Pair k) (clean_property fmt p)) ps)" if "wf_map ps" for ps
    using that
  proof (induction ps)
    case (Cons kp ps)
    obtain k p where "kp = (k, p)" by fastforce
    with Cons keys [of ps] show ?case by (auto simp: wf_map_def split: option.splits)
  qed simp
  then have "wf_map M" using assms by (simp add: M_def)
  have "clean_properties fmt props = JObj (map (\<lambda>(k, v). (k, id v)) (sort_key fst M))"
    by (simp add: clean_properties_def enc_map_def M_def)
  moreover have "\<forall>(k, q)\<in>set (map (\<lambda>(k, v). (k, id v)) (sort_key fst M)). \<exists>p. clean_property fmt p = Some q"
    by (auto simp: M_def List.map_filter_def split: option.splits)
  ultimately show ?thesis using sorted_map_sort [OF \<open>wf_map M\<close>, of id] by blast
qed

lemma clean_properties_again:
  assumes fmt: "\<And>n. fmt (fmt n) = fmt n" and "wf_map props"
  shows "\<exists>L. clean_properties fmt props = JObj L \<and> list_all (\<lambda>(k, p). safe_property p) L \<and>
    clean_properties fmt (as_map (JObj L)) = JObj L"
proof -
  obtain L where L: "clean_properties fmt props = JObj L" "sorted_map L" "\<forall>(k, q)\<in>set L. \<exists>p. clean_property fmt p = Some q"
    using clean_properties_shape [OF assms(2)] by blast
  have "safe_property q" if "(k, q) \<in> set L" for k q
  proof -
    obtain p where "clean_property fmt p = Some q" using L(3) \<open>(k, q) \<in> set L\<close> by blast
    then obtain K where "q = JObj K" "list_all (\<lambda>(k, v). k \<in> set allowedPropertyKeys) K" "mget K ''type'' \<noteq> None"
      using clean_property_shape by blast
    then show ?thesis by (auto simp: safe_property_def list_ex_iff dest: map_of_SomeD)
  qed
  moreover have "as_map (JObj L) = L" using L(2) by (intro as_map_sorted) (simp add: sorted_map_def wf_map_def)
  moreover have "List.map_filter (\<lambda>(k, p). map_option (Pair k) (clean_property fmt p)) L = L"
    using L(3)
  proof (induction L)
    case (Cons kq L)
    obtain k q where kq: "kq = (k, q)" by fastforce
    with Cons.prems have "clean_property fmt q = Some q" using clean_property_again [OF fmt] by auto
    with Cons kq show ?case by simp
  qed simp
  ultimately show ?thesis
    using L(1) by (intro exI [of _ L]) (auto simp: clean_properties_def enc_map_def sort_sorted [OF L(2)] list_all_iff case_prod_unfold)
qed

lemma clean_params_again:
  assumes fmt: "\<And>n. fmt (fmt n) = fmt n"
  shows "\<exists>kvs. clean_params fmt params = JObj kvs \<and> template_safe (JObj kvs) \<and> clean_params fmt (as_map (JObj kvs)) = JObj kvs"
proof -
  define P where "P = (case mget params ''properties'' of Some (JObj kvs) \<Rightarrow> Some (clean_properties fmt (as_map (JObj kvs))) | _ \<Rightarrow> None)"
  define kvs where "kvs = opt_raw ''properties'' P @ opt_raw ''required'' (map_option (via_any fmt) (mget params ''required'')) @
      opt_raw ''type'' (map_option (via_any fmt) (mget params ''type''))"
  have P: "P = None \<or> (\<exists>L. P = Some (JObj L) \<and> list_all (\<lambda>(k, p). safe_property p) L \<and> clean_properties fmt (as_map (JObj L)) = JObj L)"
    using clean_properties_again [OF fmt as_map_wf] by (auto simp: P_def split: option.splits json.splits)
  have "distinct (map fst kvs)" by (auto simp: kvs_def opt_raw_def split: option.splits)
  then have "as_map (JObj kvs) = kvs" by (rule as_map_sorted)
  moreover have "template_safe (JObj kvs)"
    using P by (auto simp: template_safe_def kvs_def opt_raw_def split: option.splits)
  moreover have "clean_params fmt kvs = JObj kvs"
    using P by (auto simp: clean_params_def kvs_def opt_raw_def via_any_idem [OF fmt] split: option.splits)
  ultimately show ?thesis by (auto simp: clean_params_def P_def kvs_def)
qed

lemma sanitizeTool_cases:
  assumes "sanitizeTool fmt e tool = Inr c"
  shows "(otf_params (ot_fn tool) = None \<and> c = tool) \<or>
    (\<exists>m. c = tool\<lparr>ot_fn := (ot_fn tool)\<lparr>otf_params := Some (clean_params fmt m)\<rparr>\<rparr>)"
proof (cases "otf_params (ot_fn tool)")
  case None
  then show ?thesis using assms by (simp add: sanitizeTool_def)
next
  case (Some j)
  then show ?thesis using assms by (cases j) (auto simp: sanitizeTool_def)
qed

lemma sanitizeTool_again:
  assumes fmt: "\<And>n. fmt (fmt n) = fmt n" and c: "sanitizeTool fmt e tool = Inr c"
  shows "sanitizeTool fmt e c = Inr c \<and> (case otf_params (ot_fn c) of None \<Rightarrow> True | Some j \<Rightarrow> template_safe j) \<and>
    ot_type c = ot_type tool \<and> otf_name (ot_fn c) = otf_name (ot_fn tool) \<and> otf_desc (ot_fn c) = otf_desc (ot_fn tool)"
  using sanitizeTool_cases [OF c]
proof
  assume "otf_params (ot_fn tool) = None \<and> c = tool"
  then show ?thesis by (simp add: sanitizeTool_def)
next
  assume "\<exists>m. c = tool\<lparr>ot_fn := (ot_fn tool)\<lparr>otf_params := Some (clean_params fmt m)\<rparr>\<rparr>"
  then obtain m where m: "c = tool\<lparr>ot_fn := (ot_fn tool)\<lparr>otf_params := Some (clean_params fmt m)\<rparr>\<rparr>" by blast
  obtain kvs where kvs: "clean_params fmt m = JObj kvs" "template_safe (JObj kvs)" "clean_params fmt (as_map (JObj kvs)) = JObj kvs"
    using clean_params_again [OF fmt] by blast
  show ?thesis unfolding m kvs(1) by (simp add: sanitizeTool_def kvs(2,3))
qed

text \<open>
  What is sent to llama.cpp are the same tools, with every schema in the form its chat template
  takes: \<open>type\<close>, \<open>required\<close> and \<open>properties\<close>, each of which has a type and only keys that the template
  handles.  Stripping it again changes nothing.
\<close>

theorem sanitize_safe:
  assumes "SanitizeTools fmt e tools = Inr out" and "\<forall>n. fmt (fmt n) = fmt n"
  shows "list_all (\<lambda>t. case otf_params (ot_fn t) of None \<Rightarrow> True | Some j \<Rightarrow> template_safe j) out \<and>
    map (\<lambda>t. (ot_type t, otf_name (ot_fn t), otf_desc (ot_fn t))) out =
      map (\<lambda>t. (ot_type t, otf_name (ot_fn t), otf_desc (ot_fn t))) tools \<and>
    SanitizeTools fmt e out = Inr out"
  using assms(1)
proof (induction tools arbitrary: out)
  case (Cons tool tools)
  obtain c cs where c: "sanitizeTool fmt e tool = Inr c" "SanitizeTools fmt e tools = Inr cs" "out = c # cs"
    using Cons.prems by (auto split: sum.splits)
  have "sanitizeTool fmt e c = Inr c \<and> (case otf_params (ot_fn c) of None \<Rightarrow> True | Some j \<Rightarrow> template_safe j) \<and>
      ot_type c = ot_type tool \<and> otf_name (ot_fn c) = otf_name (ot_fn tool) \<and> otf_desc (ot_fn c) = otf_desc (ot_fn tool)"
    by (rule sanitizeTool_again [OF assms(2) [rule_format] c(1)])
  with Cons.IH [OF c(2)] c(3) show ?case by simp
qed simp

definition demo_tool :: "json gomap \<Rightarrow> Oai_Tool" where
  "demo_tool params = \<lparr>ot_type = ''function'', ot_fn = \<lparr>otf_name = ''find'', otf_desc = [], otf_params = Some (JObj params)\<rparr>\<rparr>"

theorem sanitize_safe_witness:
  "SanitizeTools id [] [demo_tool [(''type'', JStr ''object''), (''$schema'', JStr ''s''),
       (''properties'', JObj [(''n'', JObj [(''minimum'', JNum (NInt 1))])])]] =
     Inr [demo_tool [(''properties'', JObj [(''n'', JObj [(''type'', JStr ''string'')])]), (''type'', JStr ''object'')]] \<and>
   SanitizeTools id [] [demo_tool [(''properties'', JObj [(''n'', JObj [(''type'', JStr ''string'')])]), (''type'', JStr ''object'')]] =
     Inr [demo_tool [(''properties'', JObj [(''n'', JObj [(''type'', JStr ''string'')])]), (''type'', JStr ''object'')]]"
proof -
  have "SanitizeTools id [] [demo_tool [(''type'', JStr ''object''), (''$schema'', JStr ''s''),
       (''properties'', JObj [(''n'', JObj [(''minimum'', JNum (NInt 1))])])]] =
     Inr [demo_tool [(''properties'', JObj [(''n'', JObj [(''type'', JStr ''string'')])]), (''type'', JStr ''object'')]]"
    by code_simp
  from this sanitize_safe [OF this] show ?thesis by simp
qed

section \<open>The fragments of a call are put together\<close>

definition last_set :: "string list \<Rightarrow> string" where
  "last_set ss = (let ts = filter (\<lambda>s. s \<noteq> []) ss in if ts = [] then [] else last ts)"

text \<open>The call that the fragments with an index amount to.\<close>

definition whole_call :: "Oai_ToolCall list \<Rightarrow> int \<Rightarrow> Oai_ToolCall" where
  "whole_call ds i =
     (let fs = filter (\<lambda>d. otc_index d = i) ds in
      \<lparr>otc_index = i, otc_id = last_set (map otc_id fs), otc_type = last_set (map otc_type fs),
       otc_fn = \<lparr>otcf_name = last_set (map (otcf_name \<circ> otc_fn) fs), otcf_args = concat (map (otcf_args \<circ> otc_fn) fs)\<rparr>\<rparr>)"

definition merged :: "Oai_ToolCall list \<Rightarrow> call_map \<Rightarrow> bool" where
  "merged ds m \<longleftrightarrow> distinct (map fst m) \<and>
     map_of m = (\<lambda>i. if i \<in> otc_index ` set ds then Some (whole_call ds i) else None)"

lemma last_set_snoc: "last_set (ss @ [s]) = (if s \<noteq> [] then s else last_set ss)"
  by (simp add: last_set_def)

lemma whole_call_snoc:
  "whole_call (ds @ [d]) i =
     (if otc_index d = i then
        (whole_call ds i)\<lparr>otc_id := (if otc_id d \<noteq> [] then otc_id d else otc_id (whole_call ds i)),
           otc_type := (if otc_type d \<noteq> [] then otc_type d else otc_type (whole_call ds i)),
           otc_fn := \<lparr>otcf_name = (if otcf_name (otc_fn d) \<noteq> [] then otcf_name (otc_fn d) else otcf_name (otc_fn (whole_call ds i))),
                      otcf_args = otcf_args (otc_fn (whole_call ds i)) @ otcf_args (otc_fn d)\<rparr>\<rparr>
      else whole_call ds i)"
  by (simp add: whole_call_def Let_def last_set_snoc)

lemma whole_call_new: "otc_index d \<notin> otc_index ` set ds \<Longrightarrow> whole_call (ds @ [d]) (otc_index d) = d"
proof -
  assume new: "otc_index d \<notin> otc_index ` set ds"
  have "otc_index x \<noteq> otc_index d" if "x \<in> set ds" for x
    using new imageI [OF that, of otc_index] by (intro notI) (simp only:)
  then have "filter (\<lambda>x. otc_index x = otc_index d) ds = []" by (simp only: filter_empty_conv) simp
  then show ?thesis by (cases d; cases "otc_fn d") (simp add: whole_call_def last_set_def)
qed

lemma merge_step:
  assumes "merged ds m"
  shows "merged (ds @ [d]) (mergeToolCallDelta d m)"
proof -
  have m: "distinct (map fst m)" "map_of m = (\<lambda>i. if i \<in> otc_index ` set ds then Some (whole_call ds i) else None)"
    using assms by (simp_all add: merged_def)
  have "map_of (mergeToolCallDelta d m) = (map_of m)(otc_index d \<mapsto> whole_call (ds @ [d]) (otc_index d))"
  proof (cases "otc_index d \<in> otc_index ` set ds")
    case True
    then show ?thesis by (simp add: mergeToolCallDelta_def m(2) update_conv' whole_call_snoc)
  next
    case False
    then show ?thesis by (simp add: mergeToolCallDelta_def m(2) update_conv' whole_call_new)
  qed
  also have "\<dots> = (\<lambda>i. if i \<in> otc_index ` set (ds @ [d]) then Some (whole_call (ds @ [d]) i) else None)"
    by (rule ext) (simp add: m(2) whole_call_snoc)
  finally show ?thesis using m(1)
    by (simp add: merged_def) (simp add: mergeToolCallDelta_def distinct_update split: option.split)
qed

lemma merge_all: "merged ds (fold mergeToolCallDelta ds [])"
proof (induction ds rule: rev_induct)
  case (snoc d ds)
  then show ?case by (simp add: merge_step)
qed (simp add: merged_def)

lemma sorted_merged:
  assumes "merged ds m"
  shows "sortedToolCalls m = map (whole_call ds) (sorted_list_of_set (otc_index ` set ds))"
proof -
  have m: "distinct (map fst m)" "map_of m = (\<lambda>i. if i \<in> otc_index ` set ds then Some (whole_call ds i) else None)"
    using assms by (simp_all add: merged_def)
  have "set (map fst m) = dom (map_of m)" by (simp add: dom_map_of_conv_image_fst)
  also have "\<dots> = otc_index ` set ds" by (auto simp: m(2) dom_def split: if_splits)
  finally have "sort (map fst m) = sorted_list_of_set (otc_index ` set ds)"
    using m(1) by (metis sorted_list_of_set_sort_remdups distinct_remdups_id)
  then show ?thesis unfolding sortedToolCalls_def by (simp add: m(2) cong: map_cong)
qed

lemma collect_fold:
  assumes "list_all (\<lambda>t. stk_finish t \<noteq> ''error'') tokens"
  shows "let res = collect fadd tokens m r in
    crs_full res = crs_full r @ concat (map stk_content tokens) \<and>
    crs_reasoning res = crs_reasoning r @ concat (map stk_reasoning tokens) \<and>
    crs_calls res = sortedToolCalls (fold mergeToolCallDelta (concat (map stk_calls tokens)) m) \<and>
    crs_finish res = (let fs = filter (\<lambda>s. s \<noteq> []) (map stk_finish tokens) in if fs = [] then crs_finish r else last fs)"
  using assms
proof (induction tokens arbitrary: m r)
  case (Cons t tokens)
  then show ?case
    by (cases "stk_timings t"; cases "stk_reasoning t = []"; cases "stk_finish t = []")
      (simp_all add: Let_def)
qed (simp add: Let_def)

lemma stream_collected:
  assumes "list_all (\<lambda>t. stk_finish t \<noteq> ''error'') tokens"
  shows "crs_full (CollectStream fadd tokens) = concat (map stk_content tokens) \<and>
    crs_reasoning (CollectStream fadd tokens) = concat (map stk_reasoning tokens) \<and>
    crs_finish (CollectStream fadd tokens) = last_set (map stk_finish tokens) \<and>
    crs_calls (CollectStream fadd tokens) =
      (let ds = concat (map stk_calls tokens) in map (whole_call ds) (sorted_list_of_set (otc_index ` set ds)))"
  using collect_fold [OF assms, of fadd "[]" zero_CompletionResult]
    sorted_merged [OF merge_all, of "concat (map stk_calls tokens)"]
  by (simp add: CollectStream_def Let_def zero_CompletionResult_def last_set_def)

section \<open>A stream of frames\<close>

definition frame :: "string \<Rightarrow> string" where
  "frame d = ''data: '' @ d @ [CHR 0x0A, CHR 0x0A]"

text \<open>The frames the parser takes: a line that fits its buffer and holds a chunk.\<close>

definition chunk_of :: "string \<Rightarrow> llamaCppChunk \<Rightarrow> bool" where
  "chunk_of d c \<longleftrightarrow> CHR 0x0A \<notin> set d \<and> drop_cr d = d \<and> int (length d) < 262138 \<and> d \<noteq> ''[DONE]'' \<and>
     Unmarshal dec_llamaCppChunk d zero_llamaCppChunk = (c, True)"

lemma drop_cr_data: "drop_cr d = d \<Longrightarrow> drop_cr (''data: '' @ d) = ''data: '' @ d"
  by (auto simp: drop_cr_def split: if_splits)

definition body_lines :: "string \<Rightarrow> string list" where
  "body_lines body = (let ls = Split (CHR 0x0A) body in if last ls = [] then butlast ls else ls)"

lemma body_lines_line: "CHR 0x0A \<notin> set l \<Longrightarrow> body_lines (l @ CHR 0x0A # body) = l # body_lines body"
  by (simp add: body_lines_def Split_append Let_def)

lemma scan_lines_line:
  "CHR 0x0A \<notin> set l \<Longrightarrow> int (length l) \<le> 262143 \<Longrightarrow>
     scan_lines (l @ CHR 0x0A # body) = (drop_cr l # fst (scan_lines body), snd (scan_lines body))"
  using body_lines_line [of l body]
  by (simp add: scan_lines_def scan_upto_def body_lines_def Let_def split: prod.split)

definition live :: "string list \<Rightarrow> (string \<times> bool \<times> bool) list" where
  "live ls = map (\<lambda>l. (l, False, False)) ls"

lemma live_enumerate: "map (\<lambda>p. (snd p, False, False)) (enumerate k ls) = live ls"
  by (induction ls arbitrary: k) (simp_all add: live_def)

lemma sse_data:
  "sse_lines jsonErr readErr (live ((''data: '' @ d) # ls)) =
     (if d = ''[DONE]'' then []
      else (case Unmarshal dec_llamaCppChunk d zero_llamaCppChunk of
              (_, False) \<Rightarrow> [error_token (''error parsing SSE chunk: '' @ jsonErr)]
            | (chunk, True) \<Rightarrow> chunkToToken chunk # sse_lines jsonErr readErr (live ls)))"
  using HasPrefix_append [of "''data: ''" d] TrimPrefix_append [of "''data: ''" d]
  by (simp add: live_def Let_def del: append.simps)

lemma sse_blank: "sse_lines jsonErr readErr (live ([] # ls)) = sse_lines jsonErr readErr (live ls)"
  by (simp add: live_def)

lemma frame_lines:
  assumes "CHR 0x0A \<notin> set d" and "int (length d) < 262138"
  shows "fst (scan_lines (frame d @ body)) = drop_cr (''data: '' @ d) # [] # fst (scan_lines body)"
proof -
  have "CHR 0x0A \<notin> set (''data: '' @ d)" "int (length (''data: '' @ d)) \<le> 262143" using assms by simp_all
  note one = scan_lines_line [OF this]
  have two: "fst (scan_lines ([] @ CHR 0x0A # body)) = [] # fst (scan_lines body)"
    using scan_lines_line [of "[]" body] by (simp add: drop_cr_def)
  have "frame d @ body = (''data: '' @ d) @ CHR 0x0A # ([] @ CHR 0x0A # body)" by (simp add: frame_def)
  then show ?thesis by (simp only: one two fst_conv)
qed

lemma sse_frame:
  assumes "chunk_of d c"
  shows "sse_lines jsonErr readErr (live (fst (scan_lines (frame d @ body)))) =
    chunkToToken c # sse_lines jsonErr readErr (live (fst (scan_lines body)))"
proof -
  have d: "CHR 0x0A \<notin> set d" "int (length d) < 262138" "drop_cr (''data: '' @ d) = ''data: '' @ d" "d \<noteq> ''[DONE]''"
      "Unmarshal dec_llamaCppChunk d zero_llamaCppChunk = (c, True)"
    using assms drop_cr_data [of d] unfolding chunk_of_def by blast+
  show ?thesis
    by (simp only: frame_lines [OF d(1,2)] d(3,5) sse_data if_not_P [OF d(4)] prod.case bool.case sse_blank if_True)
qed

lemma sse_frames:
  assumes "list_all2 chunk_of ds cs"
  shows "sse_lines jsonErr readErr (live (fst (scan_lines (concat (map frame ds) @ body)))) =
    map chunkToToken cs @ sse_lines jsonErr readErr (live (fst (scan_lines body)))"
  using assms by (induction ds cs rule: list_all2_induct) (simp_all add: sse_frame)

lemma sse_done:
  "sse_lines jsonErr readErr (live (fst (scan_lines (frame ''[DONE]'' @ body)))) = []"
proof -
  have "fst (scan_lines (frame ''[DONE]'' @ body)) = (''data: '' @ ''[DONE]'') # [] # fst (scan_lines body)"
    using frame_lines [of "''[DONE]''" body] by (simp add: drop_cr_def)
  then show ?thesis by (simp only: sse_data) simp
qed

text \<open>
  C27: a completion that the server streams as frames up to \<open>[DONE]\<close>, and whose context is not done, is
  received as one token for each chunk, in order, whatever the server sends after it; collecting them
  gives the texts one after the other and, for every index of a tool call in ascending order, one call
  with all fragments of its arguments and the last name, id and type that were given.
\<close>

theorem stream_received:
  assumes "list_all2 chunk_of ds cs" and "list_all (\<lambda>c. stk_finish (chunkToToken c) \<noteq> ''error'') cs"
    and "tokens = parseSSEStream jsonErr readErr (\<lambda>n. (False, False)) (concat (map frame ds) @ frame ''[DONE]'' @ trailer)"
    and "result = CollectStream fadd tokens"
  shows "tokens = map chunkToToken cs \<and>
    crs_full result = concat (map stk_content tokens) \<and>
    crs_reasoning result = concat (map stk_reasoning tokens) \<and>
    crs_finish result = last_set (map stk_finish tokens) \<and>
    crs_calls result =
      (let ds = concat (map stk_calls tokens) in map (whole_call ds) (sorted_list_of_set (otc_index ` set ds)))"
proof -
  have "tokens = map chunkToToken cs"
    using sse_frames [OF assms(1), of _ _ "frame ''[DONE]'' @ trailer"]
    by (simp add: assms(3) parseSSEStream_def live_enumerate case_prod_unfold sse_done)
  moreover have "list_all (\<lambda>t. stk_finish t \<noteq> ''error'') tokens"
    using assms(2) by (simp add: calculation list.pred_map comp_def)
  ultimately show ?thesis using stream_collected unfolding assms(4) by blast
qed

definition demo_frame :: string where
  "demo_frame = [CHR 0x7B, CHR 0x22] @ ''choices'' @ [CHR 0x22] @ '':[{'' @ [CHR 0x22] @ ''delta'' @ [CHR 0x22] @ '':{'' @
     [CHR 0x22] @ ''content'' @ [CHR 0x22, CHR 0x3A, CHR 0x22] @ ''hi'' @ [CHR 0x22] @ ''}}]}''"

definition demo_chunk :: llamaCppChunk where
  "demo_chunk = zero_llamaCppChunk\<lparr>lcc_choices := [zero_llama_choice\<lparr>lch_delta := zero_llama_delta\<lparr>ldl_content := ''hi''\<rparr>\<rparr>]\<rparr>"

theorem stream_received_witness:
  "parseSSEStream [] None (\<lambda>n. (False, False)) (concat (map frame [demo_frame]) @ frame ''[DONE]'' @ ''data: x'') =
     [chunkToToken demo_chunk] \<and> stk_content (chunkToToken demo_chunk) = ''hi''"
proof -
  have "chunk_of demo_frame demo_chunk" by code_simp
  then have "list_all2 chunk_of [demo_frame] [demo_chunk]" by simp
  moreover have "list_all (\<lambda>c. stk_finish (chunkToToken c) \<noteq> ''error'') [demo_chunk]" by code_simp
  moreover have "stk_content (chunkToToken demo_chunk) = ''hi''" by code_simp
  ultimately show ?thesis using stream_received [OF _ _ refl refl, of "[demo_frame]" "[demo_chunk]"] by simp
qed

end
