(* ===== verification/Qwen_Xml.thy ===== *)
theory Qwen_Xml
  imports Go_Strings Json_Parse Protocol_Types
begin

text \<open>
  \<open>internal/worker/qwen_tool_xml.go\<close>: tool calls that a model writes into its text instead of calling
  a tool.  Each regular expression is a matcher: a lazy group is the shortest text that lets
  what follows match, and a match is searched from the left.
\<close>

section \<open>The patterns\<close>

text \<open>\<open>\s\<close> and \<open>\w\<close> of package regexp.\<close>

definition re_space :: "char \<Rightarrow> bool" where
  "re_space c \<longleftrightarrow> (of_char c :: nat) \<in> {9, 10, 12, 13, 32}"

definition re_word :: "char \<Rightarrow> bool" where
  "re_word c \<longleftrightarrow> (let n = (of_char c :: nat) in
     48 \<le> n \<and> n \<le> 57 \<or> 65 \<le> n \<and> n \<le> 90 \<or> 97 \<le> n \<and> n \<le> 122 \<or> n = 95)"

definition re_trim :: "string \<Rightarrow> string" where
  "re_trim s = rev (dropWhile re_space (rev (dropWhile re_space s)))"

text \<open>The text before the first block, what stands between its tags, and what follows it.\<close>

definition toolCallBlockRe :: "string \<Rightarrow> (string \<times> string \<times> string) option" where
  "toolCallBlockRe s =
     (case Index s ''<tool_call>'' of
        None \<Rightarrow> None
      | Some i \<Rightarrow>
          (let body = drop (i + 11) s in
           case Index body ''</tool_call>'' of
             None \<Rightarrow> None
           | Some j \<Rightarrow> Some (take i s, take j body, drop (j + 12) body)))"

text \<open>\<open>(\S+?)>\<close>: the name, and what follows it.\<close>

fun name_end :: "string \<Rightarrow> (string \<times> string) option" where
  "name_end [] = None"
| "name_end (c # cs) =
     (if c = CHR ''>'' then Some ([], cs)
      else if re_space c then None
      else map_option (\<lambda>(n, r). (c # n, r)) (name_end cs))"

definition lazy_name :: "string \<Rightarrow> (string \<times> string) option" where
  "lazy_name s =
     (case s of
        [] \<Rightarrow> None
      | c # cs \<Rightarrow> if re_space c then None else map_option (\<lambda>(n, r). (c # n, r)) (name_end cs))"

fun functionNameRe :: "string \<Rightarrow> string option" where
  "functionNameRe [] = None"
| "functionNameRe (c # cs) =
     (case (if HasPrefix (c # cs) ''<function='' then lazy_name (drop 10 (c # cs)) else None) of
        Some (n, r) \<Rightarrow> Some n
      | None \<Rightarrow> functionNameRe cs)"

definition param_here :: "string \<Rightarrow> ((string \<times> string) \<times> string) option" where
  "param_here s =
     (if HasPrefix s ''<parameter='' then
        (case lazy_name (drop 11 s) of
           None \<Rightarrow> None
         | Some (n, r) \<Rightarrow>
             (case Index r ''</parameter>'' of
                None \<Rightarrow> None
              | Some j \<Rightarrow> Some ((n, take j r), drop (j + 12) r)))
      else None)"

lemma name_end_text: "name_end s = Some (n, r) \<Longrightarrow> s = n @ CHR ''>'' # r"
  by (induction s arbitrary: n) (auto split: if_splits)

lemma lazy_name_text: "lazy_name s = Some (n, r) \<Longrightarrow> s = n @ CHR ''>'' # r"
  by (auto simp: lazy_name_def split: list.splits if_splits dest: name_end_text)

lemma param_here_shorter: "param_here s = Some (p, r) \<Longrightarrow> length r < length s"
proof -
  assume "param_here s = Some (p, r)"
  then obtain n t j where t: "lazy_name (drop 11 s) = Some (n, t)" "r = drop (j + 12) t"
    by (auto simp: param_here_def split: if_splits option.splits)
  from lazy_name_text [OF t(1)] have "length (drop 11 s) = length n + 1 + length t" by simp
  then show ?thesis by (simp add: t(2))
qed

function paramRe :: "string \<Rightarrow> (string \<times> string) list" where
  "paramRe s =
     (case s of
        [] \<Rightarrow> []
      | c # cs \<Rightarrow> (case param_here s of None \<Rightarrow> paramRe cs | Some (p, r) \<Rightarrow> p # paramRe r))"
  by pat_completeness auto
termination
  by (relation "measure length") (auto dest: param_here_shorter)

declare paramRe.simps [simp del]

text \<open>\<open>[Calling tool: NAME({...})]\<close>: the name, the arguments, what follows and the text that matched.\<close>

definition inline_here :: "string \<Rightarrow> (string \<times> string \<times> string \<times> string) option" where
  "inline_here s =
     (if HasPrefix s ''[Calling tool:'' then
        (let s1 = dropWhile re_space (drop 14 s); w = takeWhile re_word s1; s2 = dropWhile re_word s1 in
         if w \<noteq> [] \<and> HasPrefix s2 ''({'' then
           (let s3 = drop 2 s2 in
            case Index s3 ''})]'' of
              None \<Rightarrow> None
            | Some j \<Rightarrow>
                if CHR 0x0A \<in> set (take j s3) then None
                else (let after = drop (j + 3) s3 in
                      Some (w, ''{'' @ take j s3 @ ''}'', after, take (length s - length after) s)))
         else None)
      else None)"

lemma inline_here_shorter: "inline_here s = Some (w, a, r, m) \<Longrightarrow> length r < length s"
proof -
  assume m: "inline_here s = Some (w, a, r, m)"
  define s1 where "s1 = dropWhile re_space (drop 14 s)"
  define s2 where "s2 = dropWhile re_word s1"
  have p: "HasPrefix s ''[Calling tool:''" using m by (simp add: inline_here_def split: if_splits)
  obtain j where "r = drop (j + 3) (drop 2 s2)"
    using m by (auto simp: inline_here_def Let_def s1_def s2_def split: if_splits option.splits)
  moreover have "length s2 \<le> length (drop 14 s)"
    using length_dropWhile_le [of re_word s1] length_dropWhile_le [of re_space "drop 14 s"] by (simp add: s2_def s1_def)
  moreover have "s \<noteq> []" using p by auto
  ultimately show ?thesis by (cases s) auto
qed

section \<open>The calls\<close>

text \<open>The compact text of a valid JSON text, as \<open>json.Marshal\<close> writes a \<open>RawMessage\<close>.\<close>

fun compact :: "bool \<Rightarrow> string \<Rightarrow> string" where
  "compact inStr [] = []"
| "compact inStr (c # cs) =
     (if \<not> inStr then
        (if json_space c then compact False cs else c # compact (c = CHR 0x22) cs)
      else if c = CHR 0x5C then c # take 1 cs @ compact True (drop 1 cs)
      else if c = CHR 0x22 then c # compact False cs
      else if c = CHR ''<'' \<or> c = CHR ''>'' \<or> c = CHR ''&'' then u_escape (of_char c) @ compact True cs
      else if c = CHR 0xE2 \<and> take 2 cs = [CHR 0x80, CHR 0xA8] then CHR 0x5C # ''u2028'' @ compact True (drop 2 cs)
      else if c = CHR 0xE2 \<and> take 2 cs = [CHR 0x80, CHR 0xA9] then CHR 0x5C # ''u2029'' @ compact True (drop 2 cs)
      else c # compact True cs)"

definition param_text :: "string \<Rightarrow> string" where
  "param_text v =
     (let val = TrimSpace v in
      if (HasPrefix val ''{'' \<or> HasPrefix val ''['') \<and> json_valid val then compact False val
      else quote_bytes val)"

definition args_text :: "(string \<times> string) list \<Rightarrow> string" where
  "args_text params =
     (let paramsRaw = fold (\<lambda>(k, v). mput k (param_text v)) params [] in
      ''{'' @ commas (map (\<lambda>(k, t). quote_bytes k @ '':'' @ t) (sort_key fst paramsRaw)) @ ''}'')"

text \<open>\<open>ids\<close> are the random identifiers, in hexadecimal, of the calls in the order they are found.\<close>

definition xml_call :: "string \<Rightarrow> string \<Rightarrow> string \<Rightarrow> ToolCall" where
  "xml_call callID name args = \<lparr>tc_id = ''xml_'' @ callID, tc_type = ''function'', tc_fn = \<lparr>tf_name = name, tf_args = args\<rparr>\<rparr>"

lemma toolCallBlockRe_shorter: "toolCallBlockRe s = Some (pre, content, r) \<Longrightarrow> length r < length s"
proof -
  assume m: "toolCallBlockRe s = Some (pre, content, r)"
  then obtain i j where i: "Index s ''<tool_call>'' = Some i" and r: "r = drop (j + 12) (drop (i + 11) s)"
    by (auto simp: toolCallBlockRe_def Let_def split: option.splits)
  then have "s \<noteq> []" by auto
  with r show ?thesis by (cases s) auto
qed

function xml_blocks :: "(nat \<Rightarrow> string) \<Rightarrow> nat \<Rightarrow> string \<Rightarrow> ToolCall list \<times> string" where
  "xml_blocks ids n s =
     (case toolCallBlockRe s of
        None \<Rightarrow> ([], s)
      | Some (pre, content, r) \<Rightarrow>
          (case functionNameRe (re_trim content) of
             None \<Rightarrow>
               (case xml_blocks ids n r of
                  (calls, t) \<Rightarrow> (calls, pre @ ''<tool_call>'' @ content @ ''</tool_call>'' @ t))
           | Some toolName \<Rightarrow>
               (case xml_blocks ids (Suc n) r of
                  (calls, t) \<Rightarrow> (xml_call (ids n) toolName (args_text (paramRe (re_trim content))) # calls, pre @ t))))"
  by pat_completeness auto
termination
  by (relation "measure (\<lambda>(ids, n, s). length s)") (auto dest: toolCallBlockRe_shorter)

declare xml_blocks.simps [simp del]

function inline_calls :: "(nat \<Rightarrow> string) \<Rightarrow> nat \<Rightarrow> string \<Rightarrow> ToolCall list \<times> string" where
  "inline_calls ids n s =
     (case s of
        [] \<Rightarrow> ([], [])
      | c # cs \<Rightarrow>
          (case inline_here s of
             None \<Rightarrow> (case inline_calls ids n cs of (calls, t) \<Rightarrow> (calls, c # t))
           | Some (toolName, argsJSON, r, matched) \<Rightarrow>
               if \<not> json_valid argsJSON then (case inline_calls ids n r of (calls, t) \<Rightarrow> (calls, matched @ t))
               else (case inline_calls ids (Suc n) r of (calls, t) \<Rightarrow> (xml_call (ids n) toolName argsJSON # calls, t))))"
  by pat_completeness auto
termination
  by (relation "measure (\<lambda>(ids, n, s). length s)") (auto dest: inline_here_shorter)

declare inline_calls.simps [simp del]

definition extractXMLToolCalls :: "(nat \<Rightarrow> string) \<Rightarrow> string \<Rightarrow> ToolCall list \<times> string" where
  "extractXMLToolCalls ids reasoning =
     (if \<not> Contains reasoning ''<tool_call>'' then ([], reasoning)
      else
        (case xml_blocks ids 0 reasoning of
           (calls, stripped) \<Rightarrow>
             (case inline_calls ids (length calls) stripped of
                (inlines, stripped') \<Rightarrow> (calls @ inlines, TrimSpace stripped'))))"

section \<open>A call that is written out is read\<close>

definition good_name :: "string \<Rightarrow> bool" where
  "good_name n \<longleftrightarrow> n \<noteq> [] \<and> list_all (\<lambda>c. \<not> re_space c \<and> c \<noteq> CHR ''>'' \<and> c \<noteq> CHR ''<'') n"

definition xml_param :: "string \<times> string \<Rightarrow> string" where
  "xml_param p = ''<parameter='' @ fst p @ ''>'' @ snd p @ ''</parameter>'' @ [CHR 0x0A]"

definition xml_content :: "string \<Rightarrow> (string \<times> string) list \<Rightarrow> string" where
  "xml_content name params = ''<function='' @ name @ ''>'' @ [CHR 0x0A] @ concat (map xml_param params) @ ''</function>''"

text \<open>The format of the comment of \<open>extractXMLToolCalls\<close>.\<close>

definition xml_text :: "string \<Rightarrow> (string \<times> string) list \<Rightarrow> string" where
  "xml_text name params = ''<tool_call>'' @ [CHR 0x0A] @ xml_content name params @ [CHR 0x0A] @ ''</tool_call>''"

definition good_param :: "string \<times> string \<Rightarrow> bool" where
  "good_param p \<longleftrightarrow> good_name (fst p) \<and> \<not> Contains (snd p) ''</parameter>'' \<and> \<not> Contains (snd p) ''</tool_call>''"

lemma HasPrefix_long:
  "HasPrefix (a @ c # b) q \<Longrightarrow> c \<notin> set q \<Longrightarrow> HasPrefix a q"
proof (induction a arbitrary: q)
  case Nil
  then show ?case by (cases q) auto
next
  case (Cons x a)
  then show ?case by (cases q) auto
qed

lemma HasPrefix_more: "HasPrefix a q \<Longrightarrow> HasPrefix (a @ b) q"
  by (auto simp: HasPrefix_conv)

lemma Contains_next:
  "c \<notin> set q \<Longrightarrow> Contains (a @ c # b) (c # q) \<longleftrightarrow> Contains a (c # q) \<or> Contains (c # b) (c # q)"
proof (induction a)
  case (Cons x a)
  have "HasPrefix (x # a @ c # b) (c # q) \<longleftrightarrow> HasPrefix (x # a) (c # q)"
    using Cons.prems HasPrefix_long [of a c b q] HasPrefix_more [of a q "c # b"] by auto
  with Cons show ?case by (simp del: HasPrefix_Cons)
qed simp

lemma Index_next:
  "c \<notin> set q \<Longrightarrow> \<not> Contains a (c # q) \<Longrightarrow> Index (a @ (c # q) @ b) (c # q) = Some (length a)"
proof (induction a)
  case (Cons x a)
  have "\<not> HasPrefix (x # a @ c # q @ b) (c # q)"
    using Cons.prems HasPrefix_long [of a c "q @ b" q] by auto
  with Cons show ?case by (simp del: HasPrefix_Cons)
qed (simp add: HasPrefix_conv)

lemma Contains_without: "c \<notin> set a \<Longrightarrow> \<not> Contains a (c # q)"
  by (induction a) auto

lemma Contains_skip: "c \<notin> set w \<Longrightarrow> Contains (w @ u) (c # q) \<longleftrightarrow> Contains u (c # q)"
  by (induction w) auto

lemma Index_not: "\<not> Contains s p \<Longrightarrow> Index s p = None"
  by (induction s) auto

lemma name_end_good: "list_all (\<lambda>c. \<not> re_space c \<and> c \<noteq> CHR ''>'') n \<Longrightarrow> name_end (n @ CHR ''>'' # r) = Some (n, r)"
  by (induction n) auto

lemma lazy_name_good: "good_name n \<Longrightarrow> lazy_name (n @ CHR ''>'' # r) = Some (n, r)"
  using name_end_good by (cases n) (auto simp: lazy_name_def good_name_def list_all_iff)

lemma good_name_open: "good_name n \<Longrightarrow> CHR ''<'' \<notin> set n"
  by (auto simp: good_name_def list_all_iff)

lemma param_here_written:
  assumes "good_param p"
  shows "param_here (xml_param p @ s) = Some (p, CHR 0x0A # s)"
proof -
  define v where "v = snd p"
  have v: "\<not> Contains v ''</parameter>''" "good_name (fst p)" using assms by (simp_all add: good_param_def v_def)
  have x: "xml_param p @ s = ''<parameter='' @ fst p @ CHR ''>'' # v @ ''</parameter>'' @ CHR 0x0A # s"
    by (simp add: xml_param_def v_def)
  have i: "Index (v @ ''</parameter>'' @ CHR 0x0A # s) ''</parameter>'' = Some (length v)"
    by (rule Index_next [OF _ v(1)]) simp
  have l: "lazy_name (drop 11 (xml_param p @ s)) = Some (fst p, v @ ''</parameter>'' @ CHR 0x0A # s)"
    using lazy_name_good [OF v(2)] by (simp add: x)
  have "HasPrefix (xml_param p @ s) ''<parameter=''" unfolding x by (rule HasPrefix_append)
  then show ?thesis unfolding param_here_def using l i by (simp add: v_def)
qed

lemma paramRe_skip: "CHR ''<'' \<notin> set a \<Longrightarrow> paramRe (a @ s) = paramRe s"
proof (induction a)
  case (Cons c a)
  then have "c \<noteq> CHR ''<''" by auto
  then have "param_here (c # a @ s) = None" by (simp add: param_here_def)
  with Cons show ?case by (simp add: paramRe.simps [of "c # a @ s"])
qed simp

lemma paramRe_none: "CHR ''<'' \<notin> set s \<Longrightarrow> paramRe s = []"
  using paramRe_skip [of s "[]"] by (simp add: paramRe.simps)

lemma paramRe_params: "list_all good_param ps \<Longrightarrow> paramRe (concat (map xml_param ps) @ s) = ps @ paramRe s"
proof (induction ps)
  case (Cons p ps)
  have "paramRe (xml_param p @ t) = p # paramRe t" for t
  proof -
    have "xml_param p @ t \<noteq> []" by (simp add: xml_param_def)
    then obtain c cs where "xml_param p @ t = c # cs" by (cases "xml_param p @ t") auto
    then show ?thesis
      using param_here_written [of p t] Cons.prems paramRe.simps [of "xml_param p @ t"] paramRe_skip [of "[CHR 0x0A]" t] by simp
  qed
  with Cons show ?case by simp
qed simp

lemma paramRe_content:
  assumes "good_name name" and "list_all good_param ps"
  shows "paramRe (xml_content name ps) = ps"
proof -
  have "xml_content name ps =
      ''<function='' @ (name @ ''>'' @ [CHR 0x0A]) @ concat (map xml_param ps) @ ''</function>''"
    by (simp add: xml_content_def)
  moreover have "paramRe (''<function='' @ t) = paramRe t" for t
    by (simp add: paramRe.simps [of "_ # _"] param_here_def)
  moreover have "paramRe ''</function>'' = []" by (simp add: paramRe.simps param_here_def)
  ultimately show ?thesis
    using paramRe_skip [of "name @ ''>'' @ [CHR 0x0A]"] good_name_open [OF assms(1)] paramRe_params [OF assms(2)] by simp
qed

lemma function_content: "good_name name \<Longrightarrow> functionNameRe (xml_content name ps) = Some name"
  using lazy_name_good [of name "[CHR 0x0A] @ concat (map xml_param ps) @ ''</function>''"] by (simp add: xml_content_def)

lemma trim_content: "re_trim ([CHR 0x0A] @ xml_content name ps @ [CHR 0x0A]) = xml_content name ps"
proof -
  have lf: "re_space (CHR 0x0A)" "\<not> re_space (CHR ''<'')" "\<not> re_space (CHR ''>'')" by (simp_all add: re_space_def)
  obtain m where m: "xml_content name ps = CHR ''<'' # m @ [CHR ''>'']" by (simp add: xml_content_def)
  show ?thesis unfolding m by (simp add: re_trim_def lf)
qed

lemma content_close:
  assumes "good_name name" and "list_all good_param ps"
  shows "\<not> Contains ([CHR 0x0A] @ xml_content name ps @ [CHR 0x0A]) ''</tool_call>''"
proof -
  let ?q = "''/tool_call>''"
  have q: "CHR ''<'' \<notin> set ?q" by simp
  have fin: "\<not> Contains (''</function>'' @ [CHR 0x0A]) (CHR ''<'' # ?q)" by simp
  have "\<not> Contains (concat (map xml_param ps) @ ''</function>'' @ [CHR 0x0A]) (CHR ''<'' # ?q)"
    using assms(2)
  proof (induction ps)
    case (Cons p ps)
    define t where "t = concat (map xml_param ps) @ ''</function>'' @ [CHR 0x0A]"
    obtain m where m: "t = CHR ''<'' # m" by (cases ps) (simp_all add: t_def xml_param_def)
    have t: "\<not> Contains t (CHR ''<'' # ?q)" using Cons by (simp add: t_def)
    define n where "n = fst p"
    define v where "v = snd p"
    have v: "\<not> Contains v (CHR ''<'' # ?q)" "CHR ''<'' \<notin> set n"
      using Cons.prems good_name_open by (auto simp: good_param_def n_def v_def)
    have "\<not> Contains (''parameter='' @ n @ ''>'') (CHR ''<'' # ?q)" by (rule Contains_without) (use v(2) in simp)
    have "\<not> Contains (''/parameter>'' @ [CHR 0x0A] @ t) (CHR ''<'' # ?q)"
      using t unfolding m by (subst append_assoc [symmetric], subst Contains_next [OF q]) simp
    then have a: "\<not> Contains (CHR ''<'' # ''/parameter>'' @ [CHR 0x0A] @ t) (CHR ''<'' # ?q)" by simp
    then have b: "\<not> Contains (v @ CHR ''<'' # ''/parameter>'' @ [CHR 0x0A] @ t) (CHR ''<'' # ?q)"
      using v(1) by (subst Contains_next [OF q]) simp
    have "\<not> Contains ((''parameter='' @ n @ ''>'') @ v @ CHR ''<'' # ''/parameter>'' @ [CHR 0x0A] @ t) (CHR ''<'' # ?q)"
      using b v(2) by (subst Contains_skip) simp_all
    then have "\<not> Contains (CHR ''<'' # (''parameter='' @ n @ ''>'') @ v @ CHR ''<'' # ''/parameter>'' @ [CHR 0x0A] @ t) (CHR ''<'' # ?q)"
      by (simp only: Contains.simps(2) HasPrefix_Cons) simp
    moreover have "concat (map xml_param (p # ps)) @ ''</function>'' @ [CHR 0x0A] =
        CHR ''<'' # (''parameter='' @ n @ ''>'') @ v @ CHR ''<'' # ''/parameter>'' @ [CHR 0x0A] @ t"
      by (simp add: xml_param_def t_def n_def v_def)
    ultimately show ?case by (simp only: not_False_eq_True)
  qed simp
  moreover have "CHR ''<'' \<notin> set name" by (rule good_name_open [OF assms(1)])
  ultimately have "\<not> Contains ((''function='' @ name @ ''>'' @ [CHR 0x0A]) @ concat (map xml_param ps) @ ''</function>'' @ [CHR 0x0A]) (CHR ''<'' # ?q)"
    by (subst Contains_skip) simp_all
  then show ?thesis by (simp add: xml_content_def)
qed

lemma block_written:
  assumes "good_name name" and "list_all good_param ps" and "\<not> Contains pre ''<tool_call>''"
  shows "toolCallBlockRe (pre @ xml_text name ps @ post) =
    Some (pre, [CHR 0x0A] @ xml_content name ps @ [CHR 0x0A], post)"
proof -
  define content where "content = [CHR 0x0A] @ xml_content name ps @ [CHR 0x0A]"
  have x: "pre @ xml_text name ps @ post = pre @ ''<tool_call>'' @ content @ ''</tool_call>'' @ post"
    by (simp add: xml_text_def content_def)
  have i: "Index (pre @ ''<tool_call>'' @ content @ ''</tool_call>'' @ post) ''<tool_call>'' = Some (length pre)"
    by (rule Index_next [OF _ assms(3)]) simp
  have j: "Index (content @ ''</tool_call>'' @ post) ''</tool_call>'' = Some (length content)"
    by (rule Index_next [OF _ content_close [OF assms(1,2), folded content_def]]) simp
  have "drop (length pre + 11) (pre @ ''<tool_call>'' @ content @ ''</tool_call>'' @ post) = content @ ''</tool_call>'' @ post"
    by simp
  then show ?thesis unfolding x toolCallBlockRe_def i option.case Let_def content_def [symmetric]
    by (simp only: j option.case) simp
qed

lemma inline_none: "\<not> Contains s ''[Calling tool:'' \<Longrightarrow> inline_calls ids n s = ([], s)"
proof (induction s)
  case (Cons c cs)
  then have "inline_here (c # cs) = None" by (simp add: inline_here_def del: HasPrefix_Cons)
  with Cons show ?case by (simp add: inline_calls.simps [of ids n "c # cs"])
qed (simp add: inline_calls.simps)

text \<open>
  C26: a tool call that the model writes out, in the format of the comment of \<open>extractXMLToolCalls\<close> and with
  whatever text around it, is extracted as one call with that name and those parameters, and the text that is
  left is what stood around it.
\<close>

theorem xml_call_extracted:
  assumes "good_name name" and "list_all good_param params"
    and "\<not> Contains pre ''<tool_call>''" and "\<not> Contains post ''<tool_call>''"
    and "\<not> Contains (pre @ post) ''[Calling tool:''"
  shows "extractXMLToolCalls ids (pre @ xml_text name params @ post) =
    ([xml_call (ids 0) name (args_text params)], TrimSpace (pre @ post))"
proof -
  have "xml_blocks ids 1 post = ([], post)"
    using Index_not [OF assms(4)] by (simp add: xml_blocks.simps toolCallBlockRe_def)
  then have "xml_blocks ids 0 (pre @ xml_text name params @ post) =
      ([xml_call (ids 0) name (args_text params)], pre @ post)"
    using block_written [OF assms(1-3), of post]
    by (simp add: xml_blocks.simps [of ids 0] trim_content function_content [OF assms(1)] paramRe_content [OF assms(1,2)] del: append.simps)
  moreover have "Contains (pre @ xml_text name params @ post) ''<tool_call>''"
  proof (rule ccontr)
    assume "\<not> ?thesis"
    from Index_not [OF this] block_written [OF assms(1-3), of post] show False by (simp add: toolCallBlockRe_def)
  qed
  ultimately show ?thesis using inline_none [OF assms(5)] by (simp add: extractXMLToolCalls_def del: append.simps)
qed

theorem xml_call_extracted_witness:
  "extractXMLToolCalls (\<lambda>n. ''0a1b2c3d'') (''Let me look. '' @ xml_text ''read'' [(''path'', '' a.txt ''), (''range'', ''{ }'')] @ []) =
    ([xml_call ''0a1b2c3d'' ''read'' (args_text [(''path'', '' a.txt ''), (''range'', ''{ }'')])],
     TrimSpace (''Let me look. '' @ []))"
  by (rule xml_call_extracted; code_simp)

lemma inline_needs_block: "\<not> Contains s ''<tool_call>'' \<Longrightarrow> extractXMLToolCalls ids s = ([], s)"
  by (simp add: extractXMLToolCalls_def)

end
