(* ===== verification/Worker_Executor.thy ===== *)
theory Worker_Executor
  imports Llama_Client Qwen_Xml
begin

text \<open>
  \<open>internal/worker/executor.go\<close>: a job of the GPU worker, from the conversation the router sent to the
  completion that goes back.  The callbacks of \<open>Execute\<close> are the constructors of \<open>worker_out\<close>; it
  ignores what they return.
\<close>

section \<open>The conversation\<close>

record content_part =
  cpt_type :: string
  cpt_text :: string
  cpt_image :: "string option"

definition dec_content_part :: "content_part decoder" where
  "dec_content_part = dec_struct
     [(''type'', fld cpt_type cpt_type_update dec_string), (''text'', fld cpt_text cpt_text_update dec_string),
      (''image_url'', fld cpt_image cpt_image_update (dec_ptr [] (dec_struct [(''url'', dec_string)])))]"

definition part_text :: "content_part \<Rightarrow> string" where
  "part_text p =
     (if cpt_type p = ''text'' \<and> cpt_text p \<noteq> [] then cpt_text p
      else if cpt_type p = ''image_url'' \<and> cpt_image p \<noteq> None then ''[image]''
      else [])"

definition ContentString :: "raw \<Rightarrow> string" where
  "ContentString content =
     (case content of
        None \<Rightarrow> []
      | Some j \<Rightarrow>
          (case dec_string j [] of
             (s, True) \<Rightarrow> s
           | (_, False) \<Rightarrow>
               (case dec_slice \<lparr>cpt_type = [], cpt_text = [], cpt_image = None\<rparr> dec_content_part j [] of
                  (parts, True) \<Rightarrow> concat (map part_text parts)
                | (_, False) \<Rightarrow> json_text j)))"

type_synonym toolCallKey = "string \<times> string \<times> string"

text \<open>The rounds at the end of the conversation, whose messages come last to first.\<close>

fun loop_rounds :: "nat \<Rightarrow> ChatMessage list \<Rightarrow> toolCallKey list" where
  "loop_rounds (Suc window) (t # a # ms) =
     (if cm_role t \<noteq> ''tool'' then []
      else
        (case cm_calls a of
           [tc] \<Rightarrow>
             if cm_role a \<noteq> ''assistant'' then []
             else (tf_name (tc_fn tc), tf_args (tc_fn tc), ContentString (cm_content t)) # loop_rounds window ms
         | _ \<Rightarrow> []))"
| "loop_rounds window ms = []"

definition detectToolLoop :: "ChatMessage list \<Rightarrow> string option" where
  "detectToolLoop messages =
     (case loop_rounds 3 (rev messages) of
        (name, k) # rs \<Rightarrow>
          if length rs < 2 \<or> list_ex (\<lambda>r. r \<noteq> (name, k)) rs then None
          else Some (''Tool loop detected: '' @ strconv_quote name @
                 '' called 3 times with identical input and output. Stopping.'')
      | [] \<Rightarrow> None)"

text \<open>\<open>trunc\<close> is the integer part of a float.\<close>

definition extractContextSize :: "(number \<Rightarrow> int) \<Rightarrow> json gomap \<Rightarrow> int" where
  "extractContextSize trunc data = (case mget data ''context_size'' of Some (JNum n) \<Rightarrow> trunc n | _ \<Rightarrow> 0)"

definition msgContentBytes :: "Oai_Message \<Rightarrow> int" where
  "msgContentBytes m =
     (case omsg_content m of None \<Rightarrow> 0 | Some j \<Rightarrow> int (length (json_text j))) +
     sum_list (map (\<lambda>tc. int (length (otcf_name (otc_fn tc)) + length (otcf_args (otc_fn tc)))) (omsg_calls m))"

definition total_bytes :: "Oai_Message list \<Rightarrow> int" where
  "total_bytes ms = sum_list (map msgContentBytes ms)"

fun drop_oldest :: "int \<Rightarrow> int \<Rightarrow> Oai_Message list \<Rightarrow> Oai_Message list" where
  "drop_oldest maxBytes held (m # m' # ms) =
     (if maxBytes < held then drop_oldest maxBytes (held - msgContentBytes m) (m' # ms) else m # m' # ms)"
| "drop_oldest maxBytes held ms = ms"

text \<open>
  The float product \<open>contextSize * 0.80 * 3\<close> is within a tenth of \<open>contextSize * 12 / 5\<close> for every window
  below \<open>2 ^ 48\<close>, so their integer parts agree.
\<close>

definition lastResortContextTruncation :: "Oai_Message list \<Rightarrow> int \<Rightarrow> Oai_Message list" where
  "lastResortContextTruncation messages contextSize =
     (if contextSize \<le> 0 then messages
      else
        (let maxBytes = contextSize * 12 div 5; held = total_bytes messages in
         if held \<le> maxBytes then messages
         else takeWhile (\<lambda>m. omsg_role m = ''system'') messages @
              drop_oldest maxBytes held (dropWhile (\<lambda>m. omsg_role m = ''system'') messages)))"

definition messagesContainImage :: "Oai_Message list \<Rightarrow> bool" where
  "messagesContainImage msgs =
     list_ex (\<lambda>m. case omsg_content m of
        Some (JArr js) \<Rightarrow> Contains (json_text (JArr js)) (CHR 0x22 # ''image_url'' @ [CHR 0x22])
      | _ \<Rightarrow> False) msgs"

definition visionNote :: string where
  "visionNote = [CHR 0x0A, CHR 0x0A] @ ''You have native vision '' @ [CHR 0xE2, CHR 0x80, CHR 0x94] @
     '' images in user messages are visible to you. Incorporate what you see into your response.''"

fun appendVisionNote :: "Oai_Message list \<Rightarrow> Oai_Message list" where
  "appendVisionNote [] = []"
| "appendVisionNote (m # ms) =
     (if omsg_role m \<noteq> ''system'' then m # appendVisionNote ms
      else
        (case omsg_content m of
           Some (JStr s) \<Rightarrow> m\<lparr>omsg_content := Some (JStr (s @ visionNote))\<rparr> # ms
         | Some JNull \<Rightarrow> m\<lparr>omsg_content := Some (JStr visionNote)\<rparr> # ms
         | _ \<Rightarrow> m # appendVisionNote ms))"

section \<open>The request\<close>

record Executor =
  ex_llamaURL :: string
  ex_vision :: bool
  ex_model :: string

definition exec_call :: "ToolCall \<Rightarrow> Oai_ToolCall" where
  "exec_call tc =
     \<lparr>otc_index = 0, otc_id = tc_id tc, otc_type = tc_type tc,
      otc_fn = \<lparr>otcf_name = tf_name (tc_fn tc), otcf_args = (if tf_args (tc_fn tc) = [] then ''{}'' else tf_args (tc_fn tc))\<rparr>\<rparr>"

definition exec_message :: "ChatMessage \<Rightarrow> Oai_Message" where
  "exec_message m =
     zero_Oai_Message\<lparr>omsg_role := cm_role m,
       omsg_content := NormalizeVisionContent (case cm_content m of None \<Rightarrow> Some (JStr []) | Some j \<Rightarrow> Some j),
       omsg_call_id := cm_call_id m, omsg_calls := map exec_call (cm_calls m)\<rparr>"

definition exec_tool :: "Tool \<Rightarrow> Oai_Tool" where
  "exec_tool t =
     \<lparr>ot_type = tl_type t,
      ot_fn = \<lparr>otf_name = td_name (tl_fn t), otf_desc = td_desc (tl_fn t), otf_params = td_params (tl_fn t)\<rparr>\<rparr>"

definition suppressThinking :: "JobMessage \<Rightarrow> bool" where
  "suppressThinking job = EqualFold (jm_effort job) ''none''"

definition exec_request :: "(number \<Rightarrow> int) \<Rightarrow> Executor \<Rightarrow> JobMessage \<Rightarrow> ChatCompletionRequest" where
  "exec_request trunc e job =
     (let messages = lastResortContextTruncation (map exec_message (jm_messages job)) (extractContextSize trunc (jm_data job));
          messages' = (if ex_vision e \<and> messagesContainImage messages then appendVisionNote messages else messages);
          modelName = TrimSpace (ex_model e)
      in zero_ChatCompletionRequest\<lparr>ccr_model := (if modelName = [] then ''local'' else modelName), ccr_messages := messages',
           ccr_tools := map exec_tool (jm_tools job), ccr_temp := jm_temp job, ccr_max := jm_max job, ccr_stream := True,
           ccr_effort := jm_effort job, ccr_progress := True,
           ccr_kwargs := (if suppressThinking job then [(''enable_thinking'', JBool False), (''thinking'', JBool False)] else [])\<rparr>)"

section \<open>Thinking in the text\<close>

text \<open>The tag that is looked for; the parts of a chunk, with whether they are thinking, and the state after it.\<close>

definition think_tag :: "bool \<Rightarrow> string" where
  "think_tag inThink = (if inThink then ''</think>'' else ''<think>'')"

function splitThinkContent :: "bool \<Rightarrow> string \<Rightarrow> (string \<times> bool) list \<times> bool" where
  "splitThinkContent inThink s =
     (if s = [] then ([], inThink)
      else
        (let tag = think_tag inThink in
         case Index s tag of
           None \<Rightarrow> ([(s, inThink)], inThink)
         | Some i \<Rightarrow>
             (case splitThinkContent (\<not> inThink) (drop (i + length tag) s) of
                (ps, t) \<Rightarrow> ((if 0 < i then [(take i s, inThink)] else []) @ ps, t))))"
  by pat_completeness auto
termination
proof (relation "measure (\<lambda>(t, s). length s)", goal_cases)
  case (2 inThink s tag i)
  from Index_shorter [OF 2(3)] 2(2) show ?case by (auto simp: think_tag_def)
qed simp

declare splitThinkContent.simps [simp del]

function strip_think_tags :: "string \<Rightarrow> string" where
  "strip_think_tags s =
     (case s of
        [] \<Rightarrow> []
      | c # cs \<Rightarrow>
          if HasPrefix s ''<think>'' then strip_think_tags (drop 7 s)
          else if HasPrefix s ''</think>'' then strip_think_tags (drop 8 s)
          else c # strip_think_tags cs)"
  by pat_completeness auto
termination
  by (relation "measure length") auto

declare strip_think_tags.simps [simp del]

section \<open>The loop over the stream\<close>

datatype worker_out =
    OutToken string
  | OutReasoning string
  | OutToolGenerating
  | OutProgress int int int
  | OutComplete string string int int int int int "ToolCall list"
      \<comment> \<open>response, reasoning; cached, input, output and reasoning tokens; milliseconds; calls\<close>
  | OutError string string

record exec_state =
  xs_full :: string
  xs_reasoning :: string
  xs_count :: int
  xs_calls :: call_map
  xs_notified :: bool
  xs_timings :: "Timings option"
  xs_inXML :: bool
  xs_inXMLContent :: bool
  xs_inThink :: bool

definition exec_init :: exec_state where
  "exec_init = \<lparr>xs_full = [], xs_reasoning = [], xs_count = 0, xs_calls = [], xs_notified = False, xs_timings = None,
     xs_inXML = False, xs_inXMLContent = False, xs_inThink = False\<rparr>"

definition marked :: "string \<Rightarrow> bool" where
  "marked s \<longleftrightarrow> Contains s ''<tool_call>'' \<or> Contains s ''[Calling tool:''"

definition exec_part :: "bool \<Rightarrow> string \<times> bool \<Rightarrow> exec_state \<Rightarrow> exec_state \<times> worker_out list" where
  "exec_part suppress p st =
     (case p of
        (s, True) \<Rightarrow>
          if suppress then (st, [])
          else (st\<lparr>xs_reasoning := xs_reasoning st @ s, xs_count := xs_count st + 1\<rparr>,
                if xs_inXML st then [] else [OutReasoning s])
      | (s, False) \<Rightarrow>
          (let tail = drop (length (xs_full st) - 20) (xs_full st);
               inXML = (xs_inXMLContent st \<or> marked (tail @ s))
           in (st\<lparr>xs_full := xs_full st @ s, xs_inXMLContent := inXML\<rparr>, if inXML then [] else [OutToken s])))"

fun exec_parts :: "bool \<Rightarrow> (string \<times> bool) list \<Rightarrow> exec_state \<Rightarrow> exec_state \<times> worker_out list" where
  "exec_parts suppress [] st = (st, [])"
| "exec_parts suppress (p # ps) st =
     (case exec_part suppress p st of (st1, outs1) \<Rightarrow>
      case exec_parts suppress ps st1 of (st2, outs2) \<Rightarrow> (st2, outs1 @ outs2))"

definition exec_content :: "bool \<Rightarrow> string \<Rightarrow> exec_state \<Rightarrow> exec_state \<times> worker_out list" where
  "exec_content suppress content st =
     (case splitThinkContent (xs_inThink st) content of
        (ps, t) \<Rightarrow> exec_parts suppress ps (st\<lparr>xs_inThink := t\<rparr>))"

definition exec_reasoning :: "bool \<Rightarrow> string \<Rightarrow> exec_state \<Rightarrow> exec_state \<times> worker_out list" where
  "exec_reasoning suppress r st =
     (if r = [] then (st, [])
      else if suppress then (st\<lparr>xs_full := xs_full st @ r\<rparr>, [])
      else
        (let inXML = (xs_inXML st \<or> Contains r ''<tool_call>'') in
         (st\<lparr>xs_inXML := inXML, xs_reasoning := xs_reasoning st @ r, xs_count := xs_count st + 1\<rparr>,
          if inXML then [] else [OutReasoning r])))"

definition exec_calls :: "Oai_ToolCall list \<Rightarrow> exec_state \<Rightarrow> exec_state \<times> worker_out list" where
  "exec_calls tcs st =
     (st\<lparr>xs_notified := (xs_notified st \<or> tcs \<noteq> []), xs_calls := fold mergeToolCallDelta tcs (xs_calls st)\<rparr>,
      if tcs \<noteq> [] \<and> \<not> xs_notified st then [OutToolGenerating] else [])"

definition exec_progress :: "StreamToken \<Rightarrow> worker_out list" where
  "exec_progress token =
     (case stk_progress token of None \<Rightarrow> [] | Some p \<Rightarrow> [OutProgress (ppg_total p) (ppg_cached p) (ppg_processed p)])"

definition exec_token :: "bool \<Rightarrow> StreamToken \<Rightarrow> exec_state \<Rightarrow> exec_state \<times> worker_out list" where
  "exec_token suppress token st =
     (case exec_content suppress (stk_content token) st of (st1, outs1) \<Rightarrow>
      case exec_reasoning suppress (stk_reasoning token) st1 of (st2, outs2) \<Rightarrow>
      case exec_calls (stk_calls token) st2 of (st3, outs3) \<Rightarrow>
        (st3\<lparr>xs_timings := (case stk_timings token of None \<Rightarrow> xs_timings st3 | Some t \<Rightarrow> Some t)\<rparr>,
         exec_progress token @ outs1 @ outs2 @ outs3))"

text \<open>\<open>None\<close> when a token reported an error, after which \<open>Execute\<close> returns.\<close>

fun exec_tokens :: "bool \<Rightarrow> StreamToken list \<Rightarrow> exec_state \<Rightarrow> exec_state option \<times> worker_out list" where
  "exec_tokens suppress [] st = (Some st, [])"
| "exec_tokens suppress (token # tokens) st =
     (if stk_finish token = ''error'' then (None, [OutError (''inference: '' @ stk_content token) []])
      else
        (case exec_token suppress token st of (st1, outs1) \<Rightarrow>
         case exec_tokens suppress tokens st1 of (st2, outs2) \<Rightarrow> (st2, outs1 @ outs2)))"

section \<open>The completion\<close>

text \<open>
  What \<open>Execute\<close> meets: the server, the float operations of its documents, when the context of the job
  is done while the stream is read (\<open>xe_done\<close>) and after it (\<open>xe_expired\<close>), and random identifiers.
\<close>

record exec_env =
  xe_http :: llama_http
  xe_fmt :: "number \<Rightarrow> number"
  xe_jsonErr :: string
  xe_done :: "nat \<Rightarrow> bool \<times> bool"
  xe_expired :: bool
  xe_trunc :: "number \<Rightarrow> int"
  xe_millis :: "number \<Rightarrow> number \<Rightarrow> int"
  xe_ids :: "nat \<Rightarrow> string"

definition proto_call :: "Oai_ToolCall \<Rightarrow> ToolCall" where
  "proto_call tc = \<lparr>tc_id = otc_id tc, tc_type = otc_type tc,
     tc_fn = \<lparr>tf_name = otcf_name (otc_fn tc), tf_args = otcf_args (otc_fn tc)\<rparr>\<rparr>"

definition extract_calls :: "(nat \<Rightarrow> string) \<Rightarrow> string \<Rightarrow> string \<Rightarrow> string \<times> string \<times> ToolCall list" where
  "extract_calls ids response reasoning =
     (case (if Contains reasoning ''<tool_call>'' then extractXMLToolCalls ids reasoning else ([], reasoning)) of
        (c # cs, stripped) \<Rightarrow> (response, stripped, c # cs)
      | ([], _) \<Rightarrow>
          (case (if Contains response ''<tool_call>'' then extractXMLToolCalls ids response else ([], response)) of
             (c # cs, stripped) \<Rightarrow> (stripped, reasoning, c # cs)
           | ([], _) \<Rightarrow> (response, reasoning, [])))"

definition exec_complete :: "exec_env \<Rightarrow> bool \<Rightarrow> exec_state \<Rightarrow> worker_out" where
  "exec_complete env suppress st =
     (let calls = map proto_call (sortedToolCalls (xs_calls st));
          response = (if suppress then TrimSpace (strip_think_tags (xs_full st)) else xs_full st);
          reasoning = (if suppress then [] else xs_reasoning st);
          count = (if suppress then 0 else xs_count st)
      in case (if calls = [] then extract_calls (xe_ids env) response reasoning else (response, reasoning, calls)) of
           (response', reasoning', calls') \<Rightarrow>
             (case xs_timings st of
                None \<Rightarrow> OutComplete response' reasoning' 0 0 0 count 0 calls'
              | Some t \<Rightarrow> OutComplete response' reasoning' (tmg_cache t) (tmg_prompt t) (tmg_predicted t) count
                  (xe_millis env (tmg_promptMS t) (tmg_predictedMS t)) calls'))"

definition Execute :: "exec_env \<Rightarrow> Executor \<Rightarrow> JobMessage \<Rightarrow> worker_out list" where
  "Execute env e job =
     (case detectToolLoop (jm_messages job) of
        Some msg \<Rightarrow> [OutError msg []]
      | None \<Rightarrow>
          (case StreamCompletion (xe_http env) (xe_fmt env) (xe_jsonErr env) (xe_done env) (NewClient (ex_llamaURL e))
                  (exec_request (xe_trunc env) e job) of
             Inl err \<Rightarrow> [OutError (''inference error: '' @ err) []]
           | Inr tokens \<Rightarrow>
               (case exec_tokens (suppressThinking job) tokens exec_init of
                  (None, outs) \<Rightarrow> outs
                | (Some st, outs) \<Rightarrow>
                    outs @ (if xe_expired env then [] else [exec_complete env (suppressThinking job) st]))))"

section \<open>Loops of tool calls\<close>

definition tool_exchange :: "toolCallKey \<Rightarrow> ChatMessage list \<Rightarrow> bool" where
  "tool_exchange k ms \<longleftrightarrow>
     (case (k, ms) of
        ((name, args, res), [a, t]) \<Rightarrow>
          cm_role a = ''assistant'' \<and> map (\<lambda>tc. (tf_name (tc_fn tc), tf_args (tc_fn tc))) (cm_calls a) = [(name, args)] \<and>
          cm_role t = ''tool'' \<and> ContentString (cm_content t) = res
      | _ \<Rightarrow> False)"

lemma loop_rounds_length: "length (loop_rounds n ms) \<le> n"
  by (induction n ms rule: loop_rounds.induct) (auto split: list.split)

lemma loop_rounds_exact:
  "length (loop_rounds n rms) = n \<Longrightarrow>
     \<exists>front ess. rev rms = front @ concat ess \<and> list_all2 tool_exchange (rev (loop_rounds n rms)) ess"
proof (induction n arbitrary: rms)
  case 0
  then show ?case by (intro exI [of _ "rev rms"] exI [of _ "[]"]) simp
next
  case (Suc n)
  obtain t a ms where r: "rms = t # a # ms"
    using Suc.prems by (cases rms; cases "tl rms") auto
  obtain tc where tc: "cm_role t = ''tool''" "cm_calls a = [tc]" "cm_role a = ''assistant''"
    using Suc.prems unfolding r by (auto split: if_splits list.splits)
  define k where "k = (tf_name (tc_fn tc), tf_args (tc_fn tc), ContentString (cm_content t))"
  have ks: "loop_rounds (Suc n) rms = k # loop_rounds n ms"
    unfolding r by (simp add: tc k_def)
  then have "length (loop_rounds n ms) = n" using Suc.prems by simp
  from Suc.IH [OF this] obtain front ess where
    f: "rev ms = front @ concat ess" "list_all2 tool_exchange (rev (loop_rounds n ms)) ess" by blast
  have "tool_exchange k [a, t]" using tc by (simp add: k_def tool_exchange_def)
  then have "list_all2 tool_exchange (rev (loop_rounds (Suc n) rms)) (ess @ [[a, t]])"
    unfolding ks using f(2) by (simp add: list_all2_appendI)
  moreover have "rev rms = front @ concat (ess @ [[a, t]])" using f(1) by (simp add: r)
  ultimately show ?case by blast
qed

lemma loop_rounds_of:
  "list_all2 tool_exchange ks ess \<Longrightarrow> length ks = n \<Longrightarrow> loop_rounds n (rev (front @ concat ess)) = rev ks"
proof (induction ks arbitrary: ess n rule: rev_induct)
  case Nil
  then show ?case by simp
next
  case (snoc k ks)
  obtain ess' es where e: "ess = ess' @ [es]" "list_all2 tool_exchange ks ess'" "tool_exchange k es"
    using snoc.prems(1) by (auto simp: list_all2_append1 list_all2_Cons1)
  obtain a t where at: "es = [a, t]" using e(3) by (auto simp: tool_exchange_def split: prod.splits list.splits)
  obtain tc where "cm_calls a = [tc]" "k = (tf_name (tc_fn tc), tf_args (tc_fn tc), ContentString (cm_content t))"
      "cm_role a = ''assistant''" "cm_role t = ''tool''"
    using e(3) by (auto simp: at tool_exchange_def split: prod.splits)
  then show ?case using snoc.IH [OF e(2) refl] snoc.prems(2) by (cases n) (auto simp: e(1) at)
qed

text \<open>
  A job is refused as a loop exactly when its conversation ends in three exchanges that are the same: an
  assistant turn with one call of the same tool with the same arguments, and a result of the same text.
\<close>

theorem tool_loop_exact:
  "detectToolLoop messages \<noteq> None \<longleftrightarrow>
     (\<exists>k front e1 e2 e3. messages = front @ e1 @ e2 @ e3 \<and>
        tool_exchange k e1 \<and> tool_exchange k e2 \<and> tool_exchange k e3)"
proof
  assume det: "detectToolLoop messages \<noteq> None"
  obtain k ks where ks: "loop_rounds 3 (rev messages) = k # ks" "2 \<le> length ks" "list_all (\<lambda>r. r = k) ks"
    using det by (cases "loop_rounds 3 (rev messages)") (auto simp: detectToolLoop_def list_all_iff list_ex_iff split: if_splits prod.splits)
  then have "length ks = 2" using loop_rounds_length [of 3 "rev messages"] by simp
  then obtain k2 k3 where "ks = [k2, k3]" by (auto simp: length_Suc_conv numeral_2_eq_2)
  with ks have k: "loop_rounds 3 (rev messages) = [k, k, k]" by simp
  then obtain front ess where f: "messages = front @ concat ess" "list_all2 tool_exchange [k, k, k] ess"
    using loop_rounds_exact [of 3 "rev messages"] by auto
  from f(2) obtain e1 e2 e3 where "ess = [e1, e2, e3]" "tool_exchange k e1" "tool_exchange k e2" "tool_exchange k e3"
    by (auto simp: list_all2_Cons1)
  with f(1) show "\<exists>k front e1 e2 e3. messages = front @ e1 @ e2 @ e3 \<and>
        tool_exchange k e1 \<and> tool_exchange k e2 \<and> tool_exchange k e3"
    by (intro exI [of _ k] exI [of _ front] exI [of _ e1] exI [of _ e2] exI [of _ e3]) simp
next
  assume "\<exists>k front e1 e2 e3. messages = front @ e1 @ e2 @ e3 \<and>
        tool_exchange k e1 \<and> tool_exchange k e2 \<and> tool_exchange k e3"
  then obtain k front e1 e2 e3 where m: "messages = front @ concat [e1, e2, e3]"
      "list_all2 tool_exchange [k, k, k] [e1, e2, e3]" by auto
  have "loop_rounds 3 (rev messages) = [k, k, k]"
    using loop_rounds_of [OF m(2), of 3 front] m(1) by simp
  then show "detectToolLoop messages \<noteq> None" by (simp add: detectToolLoop_def split: prod.split)
qed

section \<open>The context window\<close>

lemma total_bytes_append: "total_bytes (xs @ ys) = total_bytes xs + total_bytes ys"
  by (simp add: total_bytes_def)

lemma drop_oldest_shape:
  assumes "held = other + total_bytes ms"
  shows "\<exists>k. drop_oldest maxBytes held ms = drop k ms \<and> (k = 0 \<or> k < length ms) \<and>
    (other + total_bytes (drop k ms) \<le> maxBytes \<or> length (drop k ms) \<le> 1) \<and>
    (k = 0 \<or> maxBytes < other + total_bytes (drop (k - 1) ms))"
  using assms
proof (induction maxBytes held ms rule: drop_oldest.induct)
  case (1 maxBytes held m m' ms)
  show ?case
  proof (cases "maxBytes < held")
    case True
    have "held - msgContentBytes m = other + total_bytes (m' # ms)" using 1(2) by (simp add: total_bytes_def)
    from 1(1) [OF True this] obtain k where k: "drop_oldest maxBytes (held - msgContentBytes m) (m' # ms) = drop k (m' # ms)"
        "k = 0 \<or> k < length (m' # ms)"
        "other + total_bytes (drop k (m' # ms)) \<le> maxBytes \<or> length (drop k (m' # ms)) \<le> 1"
        "k = 0 \<or> maxBytes < other + total_bytes (drop (k - 1) (m' # ms))" by blast
    have "maxBytes < other + total_bytes (drop k (m # m' # ms))"
      using k(4) True 1(2) by (cases k) auto
    with k True show ?thesis by (intro exI [of _ "Suc k"]) auto
  next
    case False
    with 1(2) show ?thesis by (intro exI [of _ 0]) simp
  qed
qed (rule exI [of _ 0], simp)+

text \<open>
  C28: what is sent to the model keeps the leading system messages and the last messages of the conversation:
  only the oldest others are dropped, never the last one, no more than it takes, and the rest fits the window
  unless it is a single message.
\<close>

theorem truncation_exact:
  assumes "0 < contextSize"
  shows "\<exists>k. lastResortContextTruncation ms contextSize =
      takeWhile (\<lambda>m. omsg_role m = ''system'') ms @ drop k (dropWhile (\<lambda>m. omsg_role m = ''system'') ms) \<and>
    (k = 0 \<or> k < length (dropWhile (\<lambda>m. omsg_role m = ''system'') ms)) \<and>
    (total_bytes (lastResortContextTruncation ms contextSize) \<le> contextSize * 12 div 5 \<or>
       length (drop k (dropWhile (\<lambda>m. omsg_role m = ''system'') ms)) \<le> 1) \<and>
    (k = 0 \<or> contextSize * 12 div 5 <
       total_bytes (takeWhile (\<lambda>m. omsg_role m = ''system'') ms @
         drop (k - 1) (dropWhile (\<lambda>m. omsg_role m = ''system'') ms)))"
proof (cases "total_bytes ms \<le> contextSize * 12 div 5")
  case True
  then have "lastResortContextTruncation ms contextSize = ms" by (simp add: lastResortContextTruncation_def Let_def)
  with True show ?thesis by (intro exI [of _ 0]) simp
next
  case False
  let ?sys = "takeWhile (\<lambda>m. omsg_role m = ''system'') ms"
  let ?os = "dropWhile (\<lambda>m. omsg_role m = ''system'') ms"
  have "total_bytes ms = total_bytes ?sys + total_bytes ?os" by (simp add: total_bytes_append [symmetric])
  from drop_oldest_shape [OF this, of "contextSize * 12 div 5"] obtain k where
    k: "drop_oldest (contextSize * 12 div 5) (total_bytes ms) ?os = drop k ?os" "k = 0 \<or> k < length ?os"
      "total_bytes ?sys + total_bytes (drop k ?os) \<le> contextSize * 12 div 5 \<or> length (drop k ?os) \<le> 1"
      "k = 0 \<or> contextSize * 12 div 5 < total_bytes ?sys + total_bytes (drop (k - 1) ?os)" by blast
  have "lastResortContextTruncation ms contextSize = ?sys @ drop k ?os"
    using False assms by (simp add: lastResortContextTruncation_def Let_def k(1))
  with k(2-4) show ?thesis by (intro exI [of _ k]) (simp add: total_bytes_append)
qed

definition demo_message :: "string \<Rightarrow> string \<Rightarrow> Oai_Message" where
  "demo_message r s = zero_Oai_Message\<lparr>omsg_role := r, omsg_content := Some (JStr s)\<rparr>"

theorem truncation_exact_witness:
  "lastResortContextTruncation
       [demo_message ''system'' ''s'', demo_message ''user'' ''aaaaaaaaaa'', demo_message ''user'' ''bbbbbbbbbb''] 10 =
     [demo_message ''system'' ''s'', demo_message ''user'' ''bbbbbbbbbb''] \<and>
   (\<exists>k. [demo_message ''system'' ''s'', demo_message ''user'' ''bbbbbbbbbb''] =
      [demo_message ''system'' ''s''] @ drop k [demo_message ''user'' ''aaaaaaaaaa'', demo_message ''user'' ''bbbbbbbbbb''])"
proof -
  let ?ms = "[demo_message ''system'' ''s'', demo_message ''user'' ''aaaaaaaaaa'', demo_message ''user'' ''bbbbbbbbbb'']"
  have 1: "lastResortContextTruncation ?ms 10 = [demo_message ''system'' ''s'', demo_message ''user'' ''bbbbbbbbbb'']"
    by code_simp
  have 2: "takeWhile (\<lambda>m. omsg_role m = ''system'') ?ms = [demo_message ''system'' ''s'']"
      "dropWhile (\<lambda>m. omsg_role m = ''system'') ?ms = [demo_message ''user'' ''aaaaaaaaaa'', demo_message ''user'' ''bbbbbbbbbb'']"
    by code_simp+
  have "(0 :: int) < 10" by simp
  from truncation_exact [OF this, of ?ms] show ?thesis unfolding 1 2 by blast
qed

section \<open>What is streamed\<close>

definition sent :: "worker_out list \<Rightarrow> string" where
  "sent outs = concat (map (\<lambda>w. case w of OutToken s \<Rightarrow> s | _ \<Rightarrow> []) outs)"

lemma sent_append [simp]: "sent (xs @ ys) = sent xs @ sent ys"
  by (simp add: sent_def)

lemma sent_simps [simp]:
  "sent [] = []" "sent [OutToken s] = s" "sent [OutReasoning s] = []" "sent [OutToolGenerating] = []"
  "sent [OutProgress i j k] = []" "sent [OutError e d] = []" "sent [OutComplete a b i j k l m cs] = []"
  by (simp_all add: sent_def)

lemma Contains_conv: "Contains s p \<longleftrightarrow> (\<exists>a b. s = a @ p @ b)"
proof (induction s)
  case (Cons c cs)
  have "(\<exists>a b. c # cs = a @ p @ b) \<longleftrightarrow> (\<exists>b. c # cs = p @ b) \<or> (\<exists>a b. cs = a @ p @ b)"
    by (metis append_Cons append_Nil list.inject list.exhaust)
  with Cons show ?case by (simp add: HasPrefix_conv)
qed auto

lemma Contains_tail:
  assumes "\<not> Contains a p" and "length p \<le> n"
  shows "Contains (drop (length a - n) a @ s) p \<longleftrightarrow> Contains (a @ s) p"
proof
  assume "Contains (drop (length a - n) a @ s) p"
  then obtain x y where "drop (length a - n) a @ s = x @ p @ y" by (auto simp: Contains_conv)
  then have "a @ s = (take (length a - n) a @ x) @ p @ y" by (metis append_assoc append_take_drop_id)
  then show "Contains (a @ s) p" unfolding Contains_conv by blast
next
  assume "Contains (a @ s) p"
  then obtain x y where xy: "a @ s = x @ p @ y" by (auto simp: Contains_conv)
  have "\<not> length (x @ p) \<le> length a"
  proof
    assume "length (x @ p) \<le> length a"
    then have "take (length (x @ p)) a = x @ p"
      using arg_cong [OF xy, of "take (length (x @ p))"] by simp
    then have "a = x @ p @ drop (length (x @ p)) a" using append_take_drop_id [of "length (x @ p)" a] by simp
    then show False using assms(1) unfolding Contains_conv by blast
  qed
  then have "length a - n \<le> length x" using assms(2) by simp
  then have "drop (length a - n) a @ s = drop (length a - n) x @ p @ y"
    using arg_cong [OF xy, of "drop (length a - n)"] by simp
  then show "Contains (drop (length a - n) a @ s) p" unfolding Contains_conv by blast
qed

lemma marked_tail: "\<not> marked a \<Longrightarrow> marked (drop (length a - 20) a @ s) \<longleftrightarrow> marked (a @ s)"
  unfolding marked_def using Contains_tail [of a "''<tool_call>''" 20 s] Contains_tail [of a "''[Calling tool:''" 20 s] by simp

lemma Contains_more: "Contains a p \<Longrightarrow> Contains (a @ s) p"
  unfolding Contains_conv by (metis append_assoc)

lemma marked_more: "marked a \<Longrightarrow> marked (a @ s)"
  using Contains_more by (simp only: marked_def) blast

lemma HasPrefix_self: "HasPrefix s s"
  by (simp add: HasPrefix_def)

text \<open>What was sent of the response so far.\<close>

definition sent_of :: "exec_state \<Rightarrow> string \<Rightarrow> bool" where
  "sent_of st out \<longleftrightarrow> \<not> marked out \<and>
     (if xs_inXMLContent st then marked (xs_full st) \<and> HasPrefix (xs_full st) out else out = xs_full st)"

lemma sent_part:
  assumes "sent_of st out" and "exec_part False p st = (st', outs)"
  shows "sent_of st' (out @ sent outs)"
proof (cases p)
  case (Pair s f)
  show ?thesis
  proof (cases f)
    case True
    then show ?thesis using assms by (auto simp: Pair exec_part_def sent_of_def split: if_splits)
  next
    case False
    then show ?thesis using assms HasPrefix_more [of "xs_full st" out s] marked_tail [of "xs_full st" s] marked_more [of "xs_full st" s]
      by (auto simp: Pair exec_part_def sent_of_def Let_def split: if_splits)
  qed
qed

lemma sent_parts: "sent_of st out \<Longrightarrow> exec_parts False ps st = (st', outs) \<Longrightarrow> sent_of st' (out @ sent outs)"
proof (induction ps arbitrary: st out outs)
  case (Cons p ps)
  obtain st1 outs1 outs2 where s1: "exec_part False p st = (st1, outs1)" "exec_parts False ps st1 = (st', outs2)" "outs = outs1 @ outs2"
    using Cons.prems(2) by (auto split: prod.splits)
  from Cons.IH [OF sent_part [OF Cons.prems(1) s1(1)] s1(2)] show ?case by (simp add: s1(3))
qed simp

lemma sent_token:
  assumes "sent_of st out" and "exec_token False token st = (st', outs)"
  shows "sent_of st' (out @ sent outs)"
proof -
  obtain st1 outs1 where c: "exec_content False (stk_content token) st = (st1, outs1)" by fastforce
  obtain st2 outs2 where r: "exec_reasoning False (stk_reasoning token) st1 = (st2, outs2)" by fastforce
  obtain st3 outs3 where tc: "exec_calls (stk_calls token) st2 = (st3, outs3)" by fastforce
  have "sent_of (st\<lparr>xs_inThink := t\<rparr>) out" for t using assms(1) by (simp add: sent_of_def)
  then have 1: "sent_of st1 (out @ sent outs1)"
    using c by (auto simp: exec_content_def split: prod.splits intro: sent_parts)
  have 2: "sent_of st2 (out @ sent outs1)" "sent outs2 = []"
    using r 1 by (auto simp: exec_reasoning_def sent_of_def Let_def split: if_splits)
  have 3: "sent_of st3 (out @ sent outs1)" "sent outs3 = []"
    using tc 2(1) by (auto simp: exec_calls_def sent_of_def split: if_splits)
  have "sent (exec_progress token) = []" by (simp add: exec_progress_def split: option.split)
  then show ?thesis using assms(2) 2(2) 3 by (auto simp: exec_token_def c r tc sent_of_def)
qed

lemma sent_tokens:
  "sent_of st out \<Longrightarrow> exec_tokens False tokens st = (res, outs) \<Longrightarrow>
     \<not> marked (out @ sent outs) \<and> (\<forall>st'. res = Some st' \<longrightarrow> sent_of st' (out @ sent outs))"
proof (induction tokens arbitrary: st out outs)
  case Nil
  then show ?case by (auto simp: sent_of_def)
next
  case (Cons token tokens)
  show ?case
  proof (cases "stk_finish token = ''error''")
    case True
    then show ?thesis using Cons.prems by (auto simp: sent_of_def)
  next
    case False
    obtain st1 outs1 outs2 where s1: "exec_token False token st = (st1, outs1)" "exec_tokens False tokens st1 = (res, outs2)" "outs = outs1 @ outs2"
      using Cons.prems(2) False by (auto split: prod.splits)
    from Cons.IH [OF sent_token [OF Cons.prems(1) s1(1)] s1(2)] show ?thesis by (simp add: s1(3))
  qed
qed

lemma extract_response:
  "extract_calls ids raw reasoning = (full, reasoning', calls) \<Longrightarrow>
     full = raw \<or> (calls \<noteq> [] \<and> extractXMLToolCalls ids raw = (calls, full))"
  by (auto simp: extract_calls_def split: list.splits prod.splits if_splits)

lemma complete_response:
  assumes "exec_complete env False st = OutComplete full reasoning i j k l m calls"
  shows "full = xs_full st \<or> (calls \<noteq> [] \<and> extractXMLToolCalls (xe_ids env) (xs_full st) = (calls, full))"
proof (cases "map proto_call (sortedToolCalls (xs_calls st)) = []")
  case True
  obtain full' reasoning' calls' where e: "extract_calls (xe_ids env) (xs_full st) (xs_reasoning st) = (full', reasoning', calls')"
    by (cases "extract_calls (xe_ids env) (xs_full st) (xs_reasoning st)") auto
  then have "full' = full" "calls' = calls"
    using assms True by (auto simp: exec_complete_def Let_def split: option.splits)
  then show ?thesis using extract_response [OF e] by simp
next
  case False
  then show ?thesis using assms by (auto simp: exec_complete_def Let_def split: option.splits)
qed

definition terminal :: "worker_out \<Rightarrow> bool" where
  "terminal w \<longleftrightarrow> (case w of OutComplete _ _ _ _ _ _ _ _ \<Rightarrow> True | OutError _ _ \<Rightarrow> True | _ \<Rightarrow> False)"

definition quiet :: "worker_out list \<Rightarrow> bool" where
  "quiet outs \<longleftrightarrow> list_all (\<lambda>w. \<not> terminal w) outs"

lemma quiet_simps [simp]:
  "quiet []" "quiet (xs @ ys) \<longleftrightarrow> quiet xs \<and> quiet ys" "quiet [OutToken s]" "quiet [OutReasoning s]"
  "quiet [OutToolGenerating]" "quiet [OutProgress i j k]"
  by (simp_all add: quiet_def terminal_def)

lemma quiet_parts: "quiet (snd (exec_parts suppress ps st))"
proof (induction ps arbitrary: st)
  case (Cons p ps)
  have "quiet (snd (exec_part suppress p st))"
    by (cases p) (simp add: exec_part_def Let_def split: bool.split)
  with Cons show ?case by (simp add: case_prod_unfold)
qed simp

lemma quiet_token: "quiet (snd (exec_token suppress token st))"
proof -
  have "quiet (snd (exec_content suppress c st))" for c st
    using quiet_parts by (simp add: exec_content_def split: prod.split)
  moreover have "quiet (snd (exec_reasoning suppress r st))" for r st
    by (simp add: exec_reasoning_def Let_def)
  moreover have "quiet (snd (exec_calls cs st))" for cs st
    by (simp add: exec_calls_def)
  moreover have "quiet (exec_progress token)" by (simp add: exec_progress_def split: option.split)
  ultimately show ?thesis by (simp add: exec_token_def case_prod_unfold)
qed

lemma quiet_tokens:
  "exec_tokens suppress tokens st = (res, outs) \<Longrightarrow>
     \<exists>outs' ends. outs = outs' @ ends \<and> quiet outs' \<and>
       (case res of None \<Rightarrow> \<exists>e. ends = [OutError e []] | Some _ \<Rightarrow> ends = [])"
proof (induction tokens arbitrary: st outs)
  case Nil
  then show ?case by (intro exI [of _ "[]"]) auto
next
  case (Cons token tokens)
  show ?case
  proof (cases "stk_finish token = ''error''")
    case True
    with Cons.prems show ?thesis by (intro exI [of _ "[]"] exI [of _ outs]) auto
  next
    case False
    obtain st1 outs1 outs2 where s1: "exec_token suppress token st = (st1, outs1)"
        "exec_tokens suppress tokens st1 = (res, outs2)" "outs = outs1 @ outs2"
      using Cons.prems False by (auto split: prod.splits)
    obtain outs' ends where o: "outs2 = outs' @ ends" "quiet outs'"
        "case res of None \<Rightarrow> \<exists>e. ends = [OutError e []] | Some _ \<Rightarrow> ends = []"
      using Cons.IH [OF s1(2)] by blast
    have "quiet outs1" using quiet_token [of suppress token st] by (simp add: s1(1))
    with o show ?thesis by (intro exI [of _ "outs1 @ outs'"] exI [of _ ends]) (simp add: s1(3))
  qed
qed

lemma no_completion:
  assumes "exec_tokens suppress tokens st = (res, outs)"
  shows "OutComplete a b i j k l m cs \<notin> set outs"
proof -
  obtain outs' ends where o: "outs = outs' @ ends" "quiet outs'"
      "case res of None \<Rightarrow> \<exists>e. ends = [OutError e []] | Some _ \<Rightarrow> ends = []"
    using quiet_tokens [OF assms] by blast
  have "OutComplete a b i j k l m cs \<notin> set outs'"
    using o(2) by (auto simp: quiet_def list_all_iff terminal_def)
  moreover have "OutComplete a b i j k l m cs \<notin> set ends" using o(3) by (auto split: option.splits)
  ultimately show ?thesis by (simp add: o(1))
qed

lemma Execute_cases:
  obtains (refused) err where "Execute env e job = [OutError err []]"
  | (streamed) tokens res outs where "exec_tokens (suppressThinking job) tokens exec_init = (res, outs)"
      and "Execute env e job =
        outs @ (case res of None \<Rightarrow> [] | Some st \<Rightarrow>
                  if xe_expired env then [] else [exec_complete env (suppressThinking job) st])"
proof (cases "detectToolLoop (jm_messages job)")
  case (Some msg)
  then show thesis by (intro refused) (simp add: Execute_def)
next
  case None
  show thesis
  proof (cases "StreamCompletion (xe_http env) (xe_fmt env) (xe_jsonErr env) (xe_done env) (NewClient (ex_llamaURL e))
                  (exec_request (xe_trunc env) e job)")
    case (Inl err)
    with None show thesis by (intro refused) (simp add: Execute_def)
  next
    case (Inr tokens)
    with None show thesis
      by (intro streamed [of tokens]) (auto simp: Execute_def prod_eq_iff split: prod.split option.split)
  qed
qed

lemma complete_terminal_out: "terminal (exec_complete env suppress st)"
  by (simp add: exec_complete_def terminal_def Let_def split: option.split prod.split)

text \<open>
  C25: a job has one outcome, a completion or an error, after everything else the worker sends for it, and has
  none only when its context ended: then, be it cancelled or at its time limit, it is dropped in silence.
\<close>

theorem executor_one_outcome:
  "\<exists>outs ends. Execute env e job = outs @ ends \<and> quiet outs \<and> list_all terminal ends \<and>
     (length ends = 1 \<or> (length ends = 0 \<and> xe_expired env))"
proof (cases rule: Execute_cases [of env e job])
  case (refused err)
  then show ?thesis by (intro exI [of _ "[]"] exI [of _ "[OutError err []]"]) (simp add: terminal_def)
next
  case (streamed tokens res outs)
  obtain outs' ends where o: "outs = outs' @ ends" "quiet outs'"
      "case res of None \<Rightarrow> \<exists>e. ends = [OutError e []] | Some _ \<Rightarrow> ends = []"
    using quiet_tokens [OF streamed(1)] by blast
  show ?thesis
  proof (cases res)
    case None
    then have "Execute env e job = outs' @ ends" using streamed(2) by (simp add: o(1))
    with o None show ?thesis by (intro exI [of _ outs'] exI [of _ ends]) (auto simp: terminal_def)
  next
    case (Some st)
    with o streamed(2) complete_terminal_out [of env "suppressThinking job" st] show ?thesis
      by (intro exI [of _ outs'] exI [of _ "if xe_expired env then [] else [exec_complete env (suppressThinking job) st]"]) simp
  qed
qed


definition demo_data :: "string \<Rightarrow> string" where
  "demo_data t = json_text (JObj [(''choices'', JArr [JObj [(''delta'', JObj [(''content'', JStr t)])]])])"

definition demo_env :: exec_env where
  "demo_env = \<lparr>xe_http = \<lparr>lhp_newRequest = (\<lambda>u. None),
       lhp_post = (\<lambda>u b. Inr (200, frame (demo_data ''I read: [Calling t'') @ frame (demo_data ''ool: read({})]'') @ frame ''[DONE]'', None))\<rparr>,
     xe_fmt = id, xe_jsonErr = [], xe_done = (\<lambda>n. (False, False)), xe_expired = False, xe_trunc = (\<lambda>n. 0),
     xe_millis = (\<lambda>a b. 0), xe_ids = (\<lambda>n. ''0a1b2c3d'')\<rparr>"

definition demo_job :: JobMessage where
  "demo_job = zero_JobMessage\<lparr>jm_messages := [zero_ChatMessage\<lparr>cm_role := ''user'', cm_content := Some (JStr ''hi'')\<rparr>]\<rparr>"

definition demo_executor :: Executor where
  "demo_executor = \<lparr>ex_llamaURL = ''http://localhost:1/'', ex_vision = False, ex_model = []\<rparr>"


section \<open>Thinking across chunks\<close>

text \<open>Where every byte of a chunk goes.\<close>

definition route :: "(string \<times> bool) list \<Rightarrow> (char \<times> bool) list" where
  "route ps = concat (map (\<lambda>(s, f). map (\<lambda>c. (c, f)) s) ps)"

text \<open>Two chunks cut the tag that is looked for.\<close>

definition cuts_tag :: "bool \<Rightarrow> string \<Rightarrow> string \<Rightarrow> bool" where
  "cuts_tag inThink a b \<longleftrightarrow>
     list_ex (\<lambda>k. HasSuffix a (take k (think_tag inThink)) \<and> HasPrefix b (drop k (think_tag inThink)))
       [1..<length (think_tag inThink)]"

lemma HasSuffix_conv: "HasSuffix s p \<longleftrightarrow> (\<exists>t. s = t @ p)"
  by (simp add: HasSuffix_def HasPrefix_conv) (metis rev_append rev_rev_ident)

lemma HasPrefix_short: "length p \<le> length a \<Longrightarrow> HasPrefix (a @ b) p \<longleftrightarrow> HasPrefix a p"
  by (simp add: HasPrefix_def)

lemma Index_more: "Index a p = Some i \<Longrightarrow> Index (a @ b) p = Some i"
proof (induction a arbitrary: i)
  case (Cons x a)
  from Index_Some [OF Cons.prems] have "length p \<le> length (x # a)" by simp
  from HasPrefix_short [OF this, of b] Cons show ?case by (auto split: if_splits simp del: HasPrefix_Cons)
next
  case Nil
  then show ?case by (cases b) (auto split: if_splits)
qed

lemma Index_uncut:
  assumes "Index a p = None"
    and "\<not> list_ex (\<lambda>k. HasSuffix a (take k p) \<and> HasPrefix b (drop k p)) [1..<length p]"
  shows "Index (a @ b) p = map_option ((+) (length a)) (Index b p)"
  using assms
proof (induction a)
  case Nil
  then show ?case by (cases "Index b p") auto
next
  case (Cons x a)
  have sub: "HasSuffix a t \<Longrightarrow> HasSuffix (x # a) t" for t unfolding HasSuffix_conv by (metis append_Cons)
  have "\<not> list_ex (\<lambda>k. HasSuffix a (take k p) \<and> HasPrefix b (drop k p)) [1..<length p]"
    using Cons.prems(2) sub by (auto simp: list_ex_iff)
  then have ih: "Index (a @ b) p = map_option ((+) (length a)) (Index b p)"
    using Cons by (auto split: if_splits)
  have np: "\<not> HasPrefix (x # a) p" using Cons.prems(1) by (auto split: if_splits)
  have "\<not> HasPrefix (x # a @ b) p"
  proof
    assume hp: "HasPrefix (x # a @ b) p"
    have short: "length (x # a) < length p"
    proof (rule ccontr)
      assume "\<not> length (x # a) < length p"
      then have "HasPrefix (x # a) p" using hp HasPrefix_short [of p "x # a" b] by (simp del: HasPrefix_Cons)
      with np show False ..
    qed
    obtain t where t: "(x # a) @ b = p @ t" using hp by (auto simp: HasPrefix_conv)
    have "take (length (x # a)) p = x # a" using arg_cong [OF t, of "take (length (x # a))"] short by simp
    moreover have "b = drop (length (x # a)) p @ t" using arg_cong [OF t, of "drop (length (x # a))"] short by simp
    ultimately have "HasSuffix (x # a) (take (length (x # a)) p) \<and> HasPrefix b (drop (length (x # a)) p)"
      by (simp only: HasSuffix_conv HasPrefix_conv) blast
    moreover have "length (x # a) \<in> set [1..<length p]" using short by simp
    ultimately show False using Cons.prems(2) unfolding list_ex_iff by blast
  qed
  with ih np show ?case by (simp add: option.map_comp comp_def)
qed

lemma split_cases:
  "splitThinkContent inThink s =
     (if s = [] then ([], inThink)
      else (case Index s (think_tag inThink) of
        None \<Rightarrow> ([(s, inThink)], inThink)
      | Some i \<Rightarrow> (case splitThinkContent (\<not> inThink) (drop (i + length (think_tag inThink)) s) of
             (ps, t) \<Rightarrow> ((if 0 < i then [(take i s, inThink)] else []) @ ps, t))))"
  by (simp add: splitThinkContent.simps [of inThink s] Let_def)

lemma split_uncut_end:
  assumes "Index a (think_tag inThink) = None" and "a \<noteq> []" and "\<not> cuts_tag inThink a b"
  shows "route (fst (splitThinkContent inThink (a @ b))) =
      map (\<lambda>c. (c, inThink)) a @ route (fst (splitThinkContent inThink b)) \<and>
    snd (splitThinkContent inThink (a @ b)) = snd (splitThinkContent inThink b)"
proof (cases "b = []")
  case True
  then show ?thesis using assms by (simp add: split_cases route_def)
next
  case False
  have "Index (a @ b) (think_tag inThink) = map_option ((+) (length a)) (Index b (think_tag inThink))"
    using assms(3) by (intro Index_uncut [OF assms(1)]) (simp add: cuts_tag_def)
  then show ?thesis using assms(2) False
    by (simp add: split_cases [of inThink "a @ b"] split_cases [of inThink b] route_def case_prod_unfold split: option.split)
qed

lemma cuts_tag_later:
  "cuts_tag inThink (drop n a) b \<Longrightarrow> cuts_tag inThink a b"
proof -
  have "HasSuffix (drop n a) t \<Longrightarrow> HasSuffix a t" for t
    unfolding HasSuffix_conv by (metis append_assoc append_take_drop_id)
  then show "cuts_tag inThink (drop n a) b \<Longrightarrow> cuts_tag inThink a b" by (auto simp: cuts_tag_def list_ex_iff)
qed

text \<open>
  What is thinking does not depend on how the server cuts the text into chunks, as long as no cut goes
  through the tag that is looked for: every byte goes where it would go if both chunks came as one.
\<close>

theorem thinking_across_chunks:
  assumes "\<not> cuts_tag (snd (splitThinkContent inThink a)) a b"
  shows "route (fst (splitThinkContent inThink (a @ b))) =
      route (fst (splitThinkContent inThink a)) @ route (fst (splitThinkContent (snd (splitThinkContent inThink a)) b)) \<and>
    snd (splitThinkContent inThink (a @ b)) = snd (splitThinkContent (snd (splitThinkContent inThink a)) b)"
  using assms
proof (induction inThink a rule: splitThinkContent.induct)
  case (1 inThink a)
  show ?case
  proof (cases "a = []")
    case True
    then show ?thesis by (simp add: split_cases [of inThink "[]"] route_def)
  next
    case ne: False
    show ?thesis
    proof (cases "Index a (think_tag inThink)")
      case None
      then have a: "splitThinkContent inThink a = ([(a, inThink)], inThink)" using ne by (simp add: split_cases)
      with split_uncut_end [OF None ne, of b] 1(2) show ?thesis by (simp add: route_def)
    next
      case (Some i)
      define a' where "a' = drop (i + length (think_tag inThink)) a"
      have bound: "i + length (think_tag inThink) \<le> length a" using Index_Some [OF Some] by blast
      have a: "splitThinkContent inThink a = (case splitThinkContent (\<not> inThink) a' of
          (ps, t) \<Rightarrow> ((if 0 < i then [(take i a, inThink)] else []) @ ps, t))"
        using ne Some by (simp add: split_cases [of inThink a] a'_def)
      have ab: "splitThinkContent inThink (a @ b) = (case splitThinkContent (\<not> inThink) (a' @ b) of
          (ps, t) \<Rightarrow> ((if 0 < i then [(take i a, inThink)] else []) @ ps, t))"
        using ne Index_more [OF Some] bound by (simp add: split_cases [of inThink "a @ b"] a'_def)
      have "\<not> cuts_tag (snd (splitThinkContent (\<not> inThink) a')) a' b"
        using 1(2) cuts_tag_later [of _ _ a b, folded a'_def] by (auto simp: a a'_def case_prod_unfold)
      note ih = 1(1) [OF ne refl Some, folded a'_def, OF this]
      show ?thesis using ih by (simp add: a ab case_prod_unfold route_def)
    qed
  qed
qed

theorem thinking_across_chunks_witness:
  "route (fst (splitThinkContent False (''a<think>b'' @ ''c</think>d''))) =
      [(CHR ''a'', False), (CHR ''b'', True)] @ [(CHR ''c'', True), (CHR ''d'', False)]"
proof -
  have 1: "splitThinkContent False ''a<think>b'' = ([(''a'', False), (''b'', True)], True)"
      "splitThinkContent True ''c</think>d'' = ([(''c'', True), (''d'', False)], False)" by code_simp+
  have "\<not> cuts_tag (snd (splitThinkContent False ''a<think>b'')) ''a<think>b'' ''c</think>d''" by code_simp
  from thinking_across_chunks [OF this] show ?thesis by (simp only: 1 fst_conv snd_conv) (simp add: route_def)
qed

text \<open>A tag that two chunks do cut is shown to the user.\<close>

lemma cut_tag_is_text:
  "splitThinkContent False ''<thi'' = ([(''<thi'', False)], False)"
  "splitThinkContent False ''nk>why'' = ([(''nk>why'', False)], False)"
  by code_simp+

text \<open>With thinking suppressed, what a server leaves between the tags in the text is lost.\<close>

lemma suppressed_thinking_lost: "exec_part True (s, True) st = (st, [])"
  by (simp add: exec_part_def)

end
