(* ===== verification/Image_Executor.thy ===== *)
theory Image_Executor
  imports Worker_Executor
begin

text \<open>
  \<open>internal/worker/image_executor.go\<close>: a job of a worker that generates images, over the HTTP answer of
  the image server.  \<open>Decode\<close> is the decoder of a stream, which reads its first document only.
\<close>

definition Decode :: "'a decoder \<Rightarrow> string \<Rightarrow> 'a \<Rightarrow> 'a \<times> bool" where
  "Decode d s cur = (case p_value (2 * length s + 1) s of None \<Rightarrow> (cur, False) | Some (j, r) \<Rightarrow> d j cur)"

text \<open>
  \<open>ih_post\<close> gives an error or the status with its text and the body, and the milliseconds it took;
  \<open>ih_positive\<close> and \<open>ih_trunc\<close> read a float.
\<close>

record image_http =
  ih_newRequest :: "string \<Rightarrow> string option"
  ih_post :: "string \<Rightarrow> json \<Rightarrow> (string + int \<times> string \<times> string) \<times> int"
  ih_jsonErr :: string
  ih_positive :: "number \<Rightarrow> bool"
  ih_trunc :: "number \<Rightarrow> int"

text \<open>The messages come last to first.\<close>

fun last_prompt :: "ChatMessage list \<Rightarrow> string" where
  "last_prompt [] = []"
| "last_prompt (m # ms) =
     (if cm_role m \<noteq> ''user'' then last_prompt ms
      else (let s = TrimSpace (ContentString (cm_content m)) in if s \<noteq> [] then s else last_prompt ms))"

definition extractPromptFromMessages :: "ChatMessage list \<Rightarrow> string" where
  "extractPromptFromMessages messages = last_prompt (rev messages)"

definition image_args :: "JobMessage \<Rightarrow> json gomap" where
  "image_args job = (case mget (jm_data job) ''arguments'' of Some (JObj kvs) \<Rightarrow> as_map (JObj kvs) | _ \<Rightarrow> [])"

definition image_size :: "JobMessage \<Rightarrow> string" where
  "image_size job =
     (case mget (image_args job) ''size'' of
        Some (JStr s) \<Rightarrow> if s \<noteq> [] then s else ''512x512''
      | _ \<Rightarrow> ''512x512'')"

definition image_steps :: "image_http \<Rightarrow> JobMessage \<Rightarrow> int" where
  "image_steps http job =
     (case mget (image_args job) ''steps'' of
        Some (JNum n) \<Rightarrow> if ih_positive http n then ih_trunc http n else 4
      | _ \<Rightarrow> 4)"

definition image_request :: "image_http \<Rightarrow> string \<Rightarrow> JobMessage \<Rightarrow> json" where
  "image_request http prompt job =
     JObj [(''n'', JNum (NInt 1)), (''prompt'', JStr prompt), (''size'', JStr (image_size job)),
       (''steps'', JNum (NInt (image_steps http job)))]"

definition image_error :: "string \<Rightarrow> string \<Rightarrow> string" where
  "image_error status body =
     (case Decode (dec_struct [(''error'', fld fst (\<lambda>f (a, b). (f a, b)) dec_string), (''message'', fld snd (\<lambda>f (a, b). (a, f b)) dec_string)])
             body ([], []) of
        ((err, message), _) \<Rightarrow> if message \<noteq> [] then message else if err \<noteq> [] then err else status)"

definition dec_image_result :: "string list decoder" where
  "dec_image_result = dec_struct [(''data'', dec_slice [] (dec_struct [(''b64_json'', dec_string)]))]"

definition Image_Execute :: "image_http \<Rightarrow> string \<Rightarrow> JobMessage \<Rightarrow> worker_out list" where
  "Image_Execute http sdURL job =
     (let prompt = extractPromptFromMessages (jm_messages job); url = sdURL @ ''/v1/images/generations'' in
      if prompt = [] then [OutError ''No prompt found'' ''Image generation requires a text prompt in the user message'']
      else
        (case ih_newRequest http url of
           Some e \<Rightarrow> [OutError ''Failed to create request'' e]
         | None \<Rightarrow>
             (case ih_post http url (image_request http prompt job) of
                (Inl e, _) \<Rightarrow> [OutError ''Image generation request failed'' e]
              | (Inr (code, status, body), durationMS) \<Rightarrow>
                  if code \<noteq> 200 then [OutError ''Image generation failed'' (image_error status body)]
                  else
                    (case Decode dec_image_result body [] of
                       (_, False) \<Rightarrow> [OutError ''Failed to decode response'' (ih_jsonErr http)]
                     | (b64 # _, True) \<Rightarrow>
                         if b64 = [] then [OutError ''No image in response'' ''sd-server returned empty data'']
                         else [OutComplete (''data:image/png;base64,'' @ b64) [] 0 0 0 0 durationMS []]
                     | ([], True) \<Rightarrow> [OutError ''No image in response'' ''sd-server returned empty data'']))))"

lemma image_one_outcome: "\<exists>w. Image_Execute http sdURL job = [w] \<and> terminal w"
  by (simp add: Image_Execute_def Let_def terminal_def split: option.split prod.split sum.split bool.split list.split)

lemma last_prompt_user:
  "last_prompt ms \<noteq> [] \<Longrightarrow> \<exists>m \<in> set ms. cm_role m = ''user'' \<and> last_prompt ms = TrimSpace (ContentString (cm_content m))"
  by (induction ms) (auto simp: Let_def split: if_splits)

end
