(* ===== verification/Worker_Connection.thy ===== *)
theory Worker_Connection
  imports Protocol Worker_Executor
begin

text \<open>
  \<open>internal/worker/connection.go\<close> and the handling of jobs in \<open>cmd/auxot-worker/main.go\<close>: the handshakes of
  the GPU worker, its message loop, the messages it sends for a job, and which executions are running,
  registered and cancelled.
\<close>

section \<open>Handshakes\<close>

datatype connect_error =
    DialError string
  | SendError string string
  | ReadError string
  | ParseError parse_error
  | UnexpectedMessage message
  | AuthFailed string
  | NoPolicy

text \<open>What a connection meets: the error of the dial, those of the writes in order, and the first read.\<close>

record dialer =
  dl_dial :: "string option"
  dl_write :: "nat \<Rightarrow> string option"
  dl_read :: "string + string"

record Connection =
  cn_key :: string
  cn_gpuID :: string

record DiscoveredCaps =
  dc_backend :: string
  dc_model :: string
  dc_ctx :: int
  dc_vram :: number
  dc_params :: string
  dc_slots :: int
  dc_engines :: "string list"

definition caps_sent :: "DiscoveredCaps \<Rightarrow> Capabilities" where
  "caps_sent caps = \<lparr>cap_backend = dc_backend caps, cap_model = dc_model caps, cap_ctx = dc_ctx caps, cap_vram = dc_vram caps,
     cap_params = dc_params caps, cap_slots = dc_slots caps, cap_caps = []\<rparr>"

definition hello :: "string \<Rightarrow> Capabilities \<Rightarrow> message" where
  "hello key caps = MHello (zero_HelloMessage\<lparr>hm_type := ''hello'', hm_key := key, hm_caps := caps\<rparr>)"

text \<open>The answer to a hello that was sent.\<close>

definition read_ack :: "dialer \<Rightarrow> connect_error + HelloAckMessage" where
  "read_ack d =
     (case dl_read d of
        Inl e \<Rightarrow> Inl (ReadError e)
      | Inr text \<Rightarrow>
          (case ParseMessage (json_parse text) of
             Inl e \<Rightarrow> Inl (ParseError e)
           | Inr (MHelloAck ack) \<Rightarrow> if ham_success ack then Inr ack else Inl (AuthFailed (ham_error ack))
           | Inr m \<Rightarrow> Inl (UnexpectedMessage m)))"

definition FetchPolicy :: "dialer \<Rightarrow> Connection \<Rightarrow> (connect_error + Policy) \<times> Connection \<times> message list" where
  "FetchPolicy d c =
     (case dl_dial d of
        Some e \<Rightarrow> (Inl (DialError e), c, [])
      | None \<Rightarrow>
          (let h = hello (cn_key c) (zero_Capabilities\<lparr>cap_backend := ''pending'', cap_model := ''pending''\<rparr>) in
           case dl_write d 0 of
             Some e \<Rightarrow> (Inl (SendError ''hello'' e), c, [])
           | None \<Rightarrow>
               (case read_ack d of
                  Inl e \<Rightarrow> (Inl e, c, [h])
                | Inr ack \<Rightarrow>
                    (case ham_policy ack of
                       None \<Rightarrow> (Inl NoPolicy, c, [h])
                     | Some p \<Rightarrow> (Inr p, c\<lparr>cn_gpuID := ham_gpu ack\<rparr>, [h])))))"

definition config_sent :: "DiscoveredCaps \<Rightarrow> Policy option \<Rightarrow> message" where
  "config_sent caps policy =
     MConfig \<lparr>cfgm_type = ''config'',
       cfgm_caps = (caps_sent caps)\<lparr>cap_caps := (case policy of Some p \<Rightarrow> pol_caps p | None \<Rightarrow> [])\<rparr>\<rparr>"

definition ConnectPermanent :: "dialer \<Rightarrow> DiscoveredCaps \<Rightarrow> Connection \<Rightarrow> connect_error option \<times> Connection \<times> message list" where
  "ConnectPermanent d caps c =
     (case dl_dial d of
        Some e \<Rightarrow> (Some (DialError e), c, [])
      | None \<Rightarrow>
          (case dl_write d 0 of
             Some e \<Rightarrow> (Some (SendError ''hello'' e), c, [])
           | None \<Rightarrow>
               (case read_ack d of
                  Inl e \<Rightarrow> (Some e, c, [hello (cn_key c) (caps_sent caps)])
                | Inr ack \<Rightarrow>
                    (let c' = c\<lparr>cn_gpuID := ham_gpu ack\<rparr> in
                     case dl_write d 1 of
                       Some e \<Rightarrow> (Some (SendError ''config'' e), c', [hello (cn_key c) (caps_sent caps)])
                     | None \<Rightarrow> (None, c', [hello (cn_key c) (caps_sent caps), config_sent caps (ham_policy ack)])))))"

section \<open>The messages of a job\<close>

definition appendErrorDetails :: "string \<Rightarrow> string \<Rightarrow> string" where
  "appendErrorDetails errMsg details =
     (if details = [] then errMsg
      else
        (let d = TrimSpace details in
         errMsg @ '' '' @ [CHR 0xE2, CHR 0x80, CHR 0x94] @ '' '' @
         (if 800 < length d then take 800 d @ [CHR 0xE2, CHR 0x80, CHR 0xA6] else d)))"

definition SendToken :: "string \<Rightarrow> string \<Rightarrow> message" where
  "SendToken jobID token = MToken (zero_TokenMessage\<lparr>tm_type := ''token'', tm_job := jobID, tm_token := token\<rparr>)"

definition SendReasoningToken :: "string \<Rightarrow> string \<Rightarrow> message" where
  "SendReasoningToken jobID token =
     MToken \<lparr>tm_type = ''token'', tm_job = jobID, tm_token = token, tm_reasoning = True\<rparr>"

definition SendToolGenerating :: "string \<Rightarrow> message" where
  "SendToolGenerating jobID = MToolGenerating \<lparr>tgm_type = ''tool_generating'', tgm_job = jobID\<rparr>"

definition SendPromptProgress :: "string \<Rightarrow> int \<Rightarrow> int \<Rightarrow> int \<Rightarrow> message" where
  "SendPromptProgress jobID n cached processed =
     MPromptProgress \<lparr>ppm_type = ''prompt_progress'', ppm_job = jobID, ppm_total = n, ppm_cached = cached, ppm_processed = processed\<rparr>"

definition SendComplete :: "string \<Rightarrow> string \<Rightarrow> string \<Rightarrow> int \<Rightarrow> int \<Rightarrow> int \<Rightarrow> int \<Rightarrow> int \<Rightarrow> ToolCall list \<Rightarrow> message" where
  "SendComplete jobID full reasoning durationMS cached inp outp rtokens calls =
     MComplete (zero_CompleteMessage\<lparr>com_type := ''complete'', com_job := jobID, com_full := full, com_reasoning := reasoning,
       com_duration := durationMS, com_cache := cached, com_input := inp, com_output := outp, com_rtokens := rtokens,
       com_calls := calls\<rparr>)"

definition Send_Error :: "string \<Rightarrow> string \<Rightarrow> message" where
  "Send_Error jobID errMsg = MError (zero_ErrorMessage\<lparr>em_type := ''error'', em_job := jobID, em_error := errMsg\<rparr>)"

fun send_out :: "string \<Rightarrow> worker_out \<Rightarrow> message" where
  "send_out jobID (OutToken s) = SendToken jobID s"
| "send_out jobID (OutReasoning s) = SendReasoningToken jobID s"
| "send_out jobID OutToolGenerating = SendToolGenerating jobID"
| "send_out jobID (OutProgress n cached processed) = SendPromptProgress jobID n cached processed"
| "send_out jobID (OutComplete full reasoning cached inp outp rtokens durationMS calls) =
     SendComplete jobID full reasoning durationMS cached inp outp rtokens calls"
| "send_out jobID (OutError errMsg details) = Send_Error jobID (appendErrorDetails errMsg details)"

definition job_messages :: "exec_env \<Rightarrow> Executor \<Rightarrow> JobMessage \<Rightarrow> message list" where
  "job_messages env e job = map (send_out (jm_job job)) (Execute env e job)"

section \<open>Executions\<close>

text \<open>
  The executions of jobs, by a number: those whose goroutine has not come to register itself, those that
  run, the cancel functions that are registered under the IDs of jobs, and the executions they cancelled.
\<close>

record worker_jobs =
  wj_next :: nat
  wj_spawned :: "(nat \<times> JobMessage) list"
  wj_running :: "(nat \<times> JobMessage) list"
  wj_activeJobs :: "nat gomap"
  wj_cancelled :: "nat list"

definition no_jobs :: worker_jobs where
  "no_jobs = \<lparr>wj_next = 0, wj_spawned = [], wj_running = [], wj_activeJobs = [], wj_cancelled = []\<rparr>"

definition spawn_job :: "JobMessage \<Rightarrow> worker_jobs \<Rightarrow> worker_jobs" where
  "spawn_job job s = s\<lparr>wj_next := Suc (wj_next s), wj_spawned := wj_spawned s @ [(wj_next s, job)]\<rparr>"

definition start_job :: "nat \<Rightarrow> worker_jobs \<Rightarrow> worker_jobs" where
  "start_job k s =
     (case map_of (wj_spawned s) k of
        None \<Rightarrow> s
      | Some job \<Rightarrow>
          s\<lparr>wj_spawned := filter (\<lambda>p. fst p \<noteq> k) (wj_spawned s), wj_running := wj_running s @ [(k, job)],
            wj_activeJobs := mput (jm_job job) k (wj_activeJobs s)\<rparr>)"

definition finish_job :: "nat \<Rightarrow> worker_jobs \<Rightarrow> worker_jobs" where
  "finish_job k s =
     (case map_of (wj_running s) k of
        None \<Rightarrow> s
      | Some job \<Rightarrow>
          s\<lparr>wj_running := filter (\<lambda>p. fst p \<noteq> k) (wj_running s), wj_activeJobs := mdel (jm_job job) (wj_activeJobs s),
            wj_cancelled := k # wj_cancelled s\<rparr>)"

definition onCancel :: "string \<Rightarrow> worker_jobs \<Rightarrow> worker_jobs" where
  "onCancel jobID s =
     (case mget (wj_activeJobs s) jobID of None \<Rightarrow> s | Some k \<Rightarrow> s\<lparr>wj_cancelled := k # wj_cancelled s\<rparr>)"

definition cancelAllActiveJobs :: "worker_jobs \<Rightarrow> worker_jobs" where
  "cancelAllActiveJobs s = s\<lparr>wj_cancelled := map snd (wj_activeJobs s) @ wj_cancelled s\<rparr>"

text \<open>A message of the router; a new policy is applied by the process around the loop.\<close>

definition worker_message :: "message \<Rightarrow> worker_jobs \<Rightarrow> worker_jobs \<times> Policy option" where
  "worker_message msg s =
     (case msg of
        MJob job \<Rightarrow> (spawn_job job s, None)
      | MCancel m \<Rightarrow> (onCancel (canm_job m) s, None)
      | MPolicyUpdate m \<Rightarrow> (s, pum_policy m)
      | _ \<Rightarrow> (s, None))"

definition worker_receive :: "string \<Rightarrow> worker_jobs \<Rightarrow> worker_jobs \<times> Policy option" where
  "worker_receive msgData s =
     (case ParseMessage (json_parse msgData) of Inl e \<Rightarrow> (s, None) | Inr msg \<Rightarrow> worker_message msg s)"

text \<open>The message loop and the goroutines it starts; the loop ends in a disconnect.\<close>

inductive jobs_step :: "worker_jobs \<Rightarrow> worker_jobs \<Rightarrow> bool" where
  receive: "jobs_step s (fst (worker_receive msgData s))"
| start: "jobs_step s (start_job k s)"
| finish: "jobs_step s (finish_job k s)"
| disconnect: "jobs_step s (cancelAllActiveJobs s)"

text \<open>Delays between the attempts to reconnect.\<close>

fun reconnect_delay :: "int \<Rightarrow> int \<Rightarrow> nat \<Rightarrow> int" where
  "reconnect_delay base maxDelay 0 = base"
| "reconnect_delay base maxDelay (Suc n) = min (2 * reconnect_delay base maxDelay n) maxDelay"

section \<open>Cancellation reaches what runs\<close>

definition live_jobs :: "worker_jobs \<Rightarrow> string list" where
  "live_jobs s = map (\<lambda>p. jm_job (snd p)) (wj_spawned s @ wj_running s)"

text \<open>The runs in which the router sends no job that the worker still has.\<close>

inductive jobs_reach :: "worker_jobs \<Rightarrow> bool" where
  init: "jobs_reach no_jobs"
| step: "jobs_reach s \<Longrightarrow> jobs_step s s' \<Longrightarrow> distinct (live_jobs s') \<Longrightarrow> jobs_reach s'"

definition registered :: "worker_jobs \<Rightarrow> bool" where
  "registered s \<longleftrightarrow> list_all (\<lambda>(k, job). mget (wj_activeJobs s) (jm_job job) = Some k) (wj_running s)"

lemma onCancel_jobs [simp]:
  "wj_running (onCancel i s) = wj_running s" "wj_activeJobs (onCancel i s) = wj_activeJobs s"
  by (simp_all add: onCancel_def split: option.split)

lemma receive_jobs:
  "wj_running (fst (worker_receive msgData s)) = wj_running s \<and>
   wj_activeJobs (fst (worker_receive msgData s)) = wj_activeJobs s"
  by (simp add: worker_receive_def worker_message_def spawn_job_def split: sum.split message.split)

lemma registered_start:
  assumes "registered s" and "distinct (live_jobs s)"
  shows "registered (start_job k s)"
proof (cases "map_of (wj_spawned s) k")
  case None
  then show ?thesis using assms by (simp add: start_job_def)
next
  case (Some job)
  have "jm_job job \<in> (\<lambda>p. jm_job (snd p)) ` set (wj_spawned s)"
    using imageI [OF map_of_SomeD [OF Some], of "\<lambda>p. jm_job (snd p)"] by simp
  then have "jm_job job \<notin> (\<lambda>p. jm_job (snd p)) ` set (wj_running s)"
    using assms(2) by (auto simp: live_jobs_def)
  then have "jm_job job' \<noteq> jm_job job" if "(k', job') \<in> set (wj_running s)" for k' job'
    using imageI [OF that, of "\<lambda>p. jm_job (snd p)"] by (metis snd_conv)
  with assms(1) Some show ?thesis by (auto simp: registered_def start_job_def list_all_iff)
qed

lemma registered_finish:
  assumes "registered s" and "distinct (live_jobs s)"
  shows "registered (finish_job k s)"
proof (cases "map_of (wj_running s) k")
  case None
  then show ?thesis using assms by (simp add: finish_job_def)
next
  case (Some job)
  have inj: "inj_on (\<lambda>p. jm_job (snd p)) (set (wj_running s))"
    using assms(2) by (simp add: live_jobs_def distinct_map)
  have "jm_job job' \<noteq> jm_job job" if "(k', job') \<in> set (wj_running s)" "k' \<noteq> k" for k' job'
    using inj_onD [OF inj, of "(k', job')" "(k, job)"] map_of_SomeD [OF Some] that by auto
  with assms(1) Some show ?thesis by (auto simp: registered_def finish_job_def list_all_iff)
qed

lemma reach_registered: "jobs_reach s \<Longrightarrow> registered s \<and> distinct (live_jobs s)"
proof (induction rule: jobs_reach.induct)
  case init
  then show ?case by (simp add: registered_def no_jobs_def live_jobs_def)
next
  case (step s s')
  from step(2) have "registered s'"
  proof cases
    case (receive msgData)
    with step show ?thesis using receive_jobs [of msgData s] by (simp add: registered_def)
  next
    case (start k)
    with step show ?thesis using registered_start by simp
  next
    case (finish k)
    with step show ?thesis using registered_finish by simp
  next
    case disconnect
    with step show ?thesis by (simp add: registered_def cancelAllActiveJobs_def)
  qed
  with step(3) show ?case by blast
qed


definition demo_job_data :: "string \<Rightarrow> string" where
  "demo_job_data i = json_text (enc_message (MJob (zero_JobMessage\<lparr>jm_type := ''job'', jm_job := i\<rparr>)))"

definition demo_running :: worker_jobs where
  "demo_running = start_job 1 (start_job 0 (fst (worker_receive (demo_job_data ''K'') (fst (worker_receive (demo_job_data ''J'') no_jobs)))))"


text \<open>
  The registration is the first thing the goroutine of a job does, not the message loop: a cancel message, or
  a disconnect, that comes before it is lost, and the job runs to its end.
\<close>

lemma early_cancel_lost:
  "wj_cancelled (start_job 0 (onCancel (jm_job job) (spawn_job job no_jobs))) = [] \<and>
   wj_cancelled (start_job 0 (cancelAllActiveJobs (spawn_job job no_jobs))) = [] \<and>
   wj_running (start_job 0 (onCancel (jm_job job) (spawn_job job no_jobs))) = [(0, job)]"
  by (simp add: onCancel_def cancelAllActiveJobs_def spawn_job_def start_job_def no_jobs_def)

lemma reconnect_delay_exact:
  "0 < base \<Longrightarrow> base \<le> maxDelay \<Longrightarrow> reconnect_delay base maxDelay n = min (base * 2 ^ n) maxDelay"
  by (induction n) auto

end
