(* ===== verification/Cli_Session.thy ===== *)
theory Cli_Session
  imports Worker_Executor
begin

text \<open>
  The messages that the CLI worker gives to Claude Code: \<open>internal/cliworker/strip_job_images.go\<close>, and of
  \<open>claude.go\<close> the trimming of a conversation that is too long, the session file and the images of a message.
  A nonempty part of a message is a JSON object with the keys of a Go map, which are sorted.
\<close>

section \<open>Images\<close>

text \<open>\<open>dataURIRe\<close> of \<open>mcp_stdio.go\<close>: what follows an image URI, if the text begins with one.\<close>

definition base64_char :: "char \<Rightarrow> bool" where
  "base64_char c \<longleftrightarrow> (let n = (of_char c :: nat) in
     65 \<le> n \<and> n \<le> 90 \<or> 97 \<le> n \<and> n \<le> 122 \<or> 48 \<le> n \<and> n \<le> 57 \<or> n = 43 \<or> n = 47)"

definition mime_char :: "char \<Rightarrow> bool" where
  "mime_char c \<longleftrightarrow> c \<noteq> CHR '';'' \<and> c \<noteq> CHR 0x22 \<and> c \<noteq> CHR 0x5C"

definition dataURIRe :: "string \<Rightarrow> string option" where
  "dataURIRe s =
     (if \<not> HasPrefix s ''data:image/'' then None
      else
        (let s1 = drop 11 s; s2 = dropWhile mime_char s1; s3 = drop 8 s2 in
         if takeWhile mime_char s1 = [] \<or> \<not> HasPrefix s2 '';base64,'' \<or> takeWhile base64_char s3 = [] then None
         else Some (dropWhile (\<lambda>c. c = CHR ''='') (dropWhile base64_char s3))))"

lemma dataURIRe_shorter: "dataURIRe s = Some r \<Longrightarrow> length r < length s"
proof -
  assume m: "dataURIRe s = Some r"
  define s2 where "s2 = dropWhile mime_char (drop 11 s)"
  have p: "HasPrefix s ''data:image/''" and r: "r = dropWhile (\<lambda>c. c = CHR ''='') (dropWhile base64_char (drop 8 s2))"
    using m by (auto simp: dataURIRe_def Let_def s2_def split: if_splits)
  have "length r \<le> length (drop 11 s)"
    unfolding r using length_dropWhile_le [of "\<lambda>c. c = CHR ''=''" "dropWhile base64_char (drop 8 s2)"]
      length_dropWhile_le [of base64_char "drop 8 s2"] length_dropWhile_le [of mime_char "drop 11 s"] by (simp add: s2_def)
  moreover have "s \<noteq> []" using p by auto
  ultimately show ?thesis by (cases s) auto
qed

function replace_data_uris :: "string \<Rightarrow> string \<Rightarrow> string" where
  "replace_data_uris new s =
     (case s of
        [] \<Rightarrow> []
      | c # cs \<Rightarrow> (case dataURIRe s of None \<Rightarrow> c # replace_data_uris new cs | Some r \<Rightarrow> new @ replace_data_uris new r))"
  by pat_completeness auto
termination
  by (relation "measure (\<lambda>(new, s). length s)") (auto dest: dataURIRe_shorter)

declare replace_data_uris.simps [simp del]

fun has_data_uri :: "string \<Rightarrow> bool" where
  "has_data_uri [] = False"
| "has_data_uri (c # cs) = (dataURIRe (c # cs) \<noteq> None \<or> has_data_uri cs)"

definition imageOmittedRetryText :: string where
  "imageOmittedRetryText = ''[image omitted '' @ [CHR 0xE2, CHR 0x80, CHR 0x94] @ '' retry without vision]''"

definition text_block :: "string \<Rightarrow> json" where
  "text_block t = JObj [(''text'', JStr t), (''type'', JStr ''text'')]"

definition part_type :: "json \<Rightarrow> string \<times> bool" where
  "part_type p = dec_struct [(''type'', dec_string)] p []"

definition image_type :: "string \<Rightarrow> bool" where
  "image_type t \<longleftrightarrow> ToLower (TrimSpace t) = ''image_url'' \<or> ToLower (TrimSpace t) = ''image''"

definition image_part :: "json \<Rightarrow> bool" where
  "image_part p \<longleftrightarrow> (case part_type p of (t, ok) \<Rightarrow> ok \<and> image_type t)"

definition stripMultimodalContentArray :: "json list \<Rightarrow> json" where
  "stripMultimodalContentArray parts =
     (if list_ex image_part parts then JArr (filter (\<lambda>p. \<not> image_part p) parts @ [text_block imageOmittedRetryText])
      else JArr parts)"

definition stripChatMessageContent :: "raw \<Rightarrow> raw" where
  "stripChatMessageContent content =
     (case content of
        Some (JArr parts) \<Rightarrow> Some (stripMultimodalContentArray parts)
      | Some (JStr s) \<Rightarrow> Some (JStr (replace_data_uris imageOmittedRetryText s))
      | _ \<Rightarrow> content)"

definition strip_message :: "ChatMessage \<Rightarrow> ChatMessage" where
  "strip_message m = m\<lparr>cm_content := stripChatMessageContent (cm_content m)\<rparr>"

definition stripJobChatMessages :: "ChatMessage list \<Rightarrow> ChatMessage list" where
  "stripJobChatMessages msgs = map strip_message msgs"

definition chatMessageHasImage :: "raw \<Rightarrow> bool" where
  "chatMessageHasImage content =
     (case content of
        Some (JArr parts) \<Rightarrow> list_all (\<lambda>p. snd (part_type p)) parts \<and> list_ex (\<lambda>p. image_type (fst (part_type p))) parts
      | Some (JStr s) \<Rightarrow> has_data_uri s
      | _ \<Rightarrow> False)"

text \<open>The messages of the current turn, last to first.\<close>

fun keep_latest :: "bool \<Rightarrow> ChatMessage list \<Rightarrow> ChatMessage list" where
  "keep_latest latestKept [] = []"
| "keep_latest latestKept (m # ms) =
     (if \<not> chatMessageHasImage (cm_content m) then m # keep_latest latestKept ms
      else if \<not> latestKept then m # keep_latest True ms
      else strip_message m # keep_latest True ms)"

definition last_index :: "(ChatMessage \<Rightarrow> bool) \<Rightarrow> ChatMessage list \<Rightarrow> nat option" where
  "last_index P ms =
     (case dropWhile (\<lambda>m. \<not> P m) (rev ms) of [] \<Rightarrow> None | _ # before \<Rightarrow> Some (length before))"

text \<open>\<open>None\<close>: without a user message the second loop of the code runs down to the index \<open>-1\<close>, and panics.\<close>

definition stripJobImagesExceptLatestInCurrentTurn :: "ChatMessage list \<Rightarrow> ChatMessage list option" where
  "stripJobImagesExceptLatestInCurrentTurn msgs =
     (if msgs = [] then Some []
      else
        (case last_index (\<lambda>m. cm_role m = ''user'') msgs of
           None \<Rightarrow> None
         | Some i \<Rightarrow> Some (map strip_message (take i msgs) @ rev (keep_latest False (rev (drop i msgs))))))"

text \<open>
  \<open>trimOldestMessages\<close> is called with the fraction 0.20, whose product with a length has the integer part
  of a fifth of it.
\<close>

definition trimOldestMessages :: "ChatMessage list \<Rightarrow> ChatMessage list" where
  "trimOldestMessages msgs =
     (let sys = filter (\<lambda>m. cm_role m = ''system'') msgs; conv = filter (\<lambda>m. cm_role m \<noteq> ''system'') msgs;
          n = max 1 (length conv div 5)
      in sys @ drop (if length conv \<le> n then length conv div 2 else n) conv)"

definition stderrIndicatesImageLoadError :: "string \<Rightarrow> bool" where
  "stderrIndicatesImageLoadError stderr = Contains (ToLower stderr) ''could not process image''"

section \<open>The session file\<close>

definition IndexByte :: "string \<Rightarrow> char \<Rightarrow> nat option" where
  "IndexByte s c = Index s [c]"

definition image_url_of :: "json \<Rightarrow> string option" where
  "image_url_of j =
     (case dec_struct [(''url'', dec_string)] j [] of
        (url, ok) \<Rightarrow>
          if ok \<and> url \<noteq> [] then Some url
          else (case dec_string j [] of (url', ok') \<Rightarrow> if ok' \<and> url' \<noteq> [] then Some url' else None))"

definition image_source :: "string \<Rightarrow> json option" where
  "image_source url =
     (if HasPrefix url ''data:'' then
        (let uri = TrimPrefix url ''data:'' in
         case (IndexByte uri (CHR '';''), IndexByte uri (CHR '','')) of
           (Some semi, Some comma) \<Rightarrow>
             if comma \<le> semi \<or> drop (semi + 1) (take comma uri) \<noteq> ''base64'' then None
             else Some (JObj [(''data'', JStr (drop (comma + 1) uri)), (''media_type'', JStr (take semi uri)), (''type'', JStr ''base64'')])
         | _ \<Rightarrow> None)
      else Some (JObj [(''type'', JStr ''url''), (''url'', JStr url)]))"

definition image_block :: "string \<times> raw \<Rightarrow> json option" where
  "image_block p =
     (case p of
        (t, Some j) \<Rightarrow>
          if t \<noteq> ''image_url'' then None
          else
            (case image_url_of j of
               None \<Rightarrow> None
             | Some url \<Rightarrow> map_option (\<lambda>src. JObj [(''source'', src), (''type'', JStr ''image'')]) (image_source url))
      | (_, None) \<Rightarrow> None)"

definition extractImageBlocks :: "raw \<Rightarrow> json list" where
  "extractImageBlocks content =
     (case content of
        Some (JArr parts) \<Rightarrow>
          (case dec_slice ([], None)
                  (dec_struct [(''type'', fld fst (\<lambda>f (a, b). (f a, b)) dec_string), (''image_url'', fld snd (\<lambda>f (a, b). (a, f b)) dec_raw)])
                  (JArr parts) [] of
             (ps, ok) \<Rightarrow> if ok then List.map_filter image_block ps else [])
      | _ \<Rightarrow> [])"

definition text_and_images :: "ChatMessage \<Rightarrow> json list" where
  "text_and_images m =
     (let t = ContentString (cm_content m) in
      (if t \<noteq> [] then [text_block t] else []) @ extractImageBlocks (cm_content m))"

definition buildToolResultContent :: "ChatMessage \<Rightarrow> json list" where
  "buildToolResultContent m =
     (let blocks = text_and_images m in if blocks = [] then [text_block ''(empty)''] else blocks)"

definition tool_result_block :: "ChatMessage \<Rightarrow> json" where
  "tool_result_block tr = JObj [(''content'', JArr (buildToolResultContent tr)), (''is_error'', JBool False),
     (''tool_use_id'', JStr (cm_call_id tr)), (''type'', JStr ''tool_result'')]"

text \<open>\<open>None\<close>: the arguments of a call are not JSON, and the entry cannot be written.\<close>

definition tool_use_block :: "string gomap \<Rightarrow> ToolCall \<Rightarrow> json option" where
  "tool_use_block mcpToolNames tc =
     (let name = tf_name (tc_fn tc); args = tf_args (tc_fn tc) in
      map_option (\<lambda>j. JObj [(''id'', JStr (tc_id tc)), (''input'', j),
          (''name'', JStr (case mget mcpToolNames name of Some prefixed \<Rightarrow> prefixed | None \<Rightarrow> name)), (''type'', JStr ''tool_use'')])
        (if args = [] then Some (JObj []) else json_parse args))"

text \<open>The messages of the history as the roles and contents of entries; \<open>None\<close> for one that cannot be written.\<close>

function session_turns :: "string gomap \<Rightarrow> ChatMessage list \<Rightarrow> (string \<times> json list) option list" where
  "session_turns names [] = []"
| "session_turns names (m # ms) =
     (if cm_role m = ''user'' then Some (''user'', text_and_images m) # session_turns names ms
      else if cm_role m = ''assistant'' then
        map_option (\<lambda>uses. (''assistant'',
            (let t = ContentString (cm_content m) in if t \<noteq> [] then [text_block t] else []) @ uses))
          (all_some (map (tool_use_block names) (cm_calls m))) # session_turns names ms
      else if cm_role m = ''tool'' then
        Some (''user'', map tool_result_block (m # takeWhile (\<lambda>m. cm_role m = ''tool'') ms)) #
          session_turns names (dropWhile (\<lambda>m. cm_role m = ''tool'') ms)
      else session_turns names ms)"
  by pat_completeness auto
termination
  by (relation "measure (\<lambda>(n, ms). length ms)") (auto simp: le_imp_less_Suc length_dropWhile_le)

record session_meta =
  sm_model :: string
  sm_time :: string
  sm_cwd :: string
  sm_uuid :: "nat \<Rightarrow> string"

definition syntheticSessionUUID :: string where
  "syntheticSessionUUID = ''00000000-0000-4000-a000-000000000000''"

definition session_message :: "session_meta \<Rightarrow> string \<Rightarrow> string \<times> json list \<Rightarrow> json" where
  "session_message sm entryUUID turn =
     (case turn of
        (role, content) \<Rightarrow>
          if role = ''assistant'' then
            JObj [(''content'', JArr content), (''id'', JStr entryUUID), (''model'', JStr (sm_model sm)), (''role'', JStr ''assistant''),
              (''stop_reason'', JStr ''tool_use''), (''type'', JStr ''message''),
              (''usage'', JObj [(''input_tokens'', JNum (NInt 0)), (''output_tokens'', JNum (NInt 0))])]
          else JObj [(''content'', JArr content), (''role'', JStr role)])"

definition session_entry :: "session_meta \<Rightarrow> nat \<Rightarrow> string \<times> json list \<Rightarrow> json" where
  "session_entry sm n turn = JObj
     [(''cwd'', JStr (sm_cwd sm)), (''isSidechain'', JBool False), (''message'', session_message sm (sm_uuid sm n) turn),
      (''parentUuid'', if n = 0 then JNull else JStr (sm_uuid sm (n - 1))), (''sessionId'', JStr syntheticSessionUUID),
      (''timestamp'', JStr (sm_time sm)), (''type'', JStr (fst turn)), (''userType'', JStr ''external''),
      (''uuid'', JStr (sm_uuid sm n)), (''version'', JStr ''1.0.0'')]"

definition session_file :: "session_meta \<Rightarrow> string gomap \<Rightarrow> ChatMessage list \<Rightarrow> json list option" where
  "session_file sm names history =
     map_option (\<lambda>turns. map (\<lambda>(n, turn). session_entry sm n turn) (enumerate 0 turns)) (all_some (session_turns names history))"

definition parallelToolInstr :: string where
  "parallelToolInstr =
     ''IMPORTANT: You are operating in an environment where ALL actions must be performed via tool calls. '' @
     ''Never describe what you are about to do without also including the tool_use block in the same response '' @
     [CHR 0xE2, CHR 0x80, CHR 0x94] @ '' narrating an action is not the same as performing it. '' @
     ''If you intend to run a command, read a file, search the web, or take any other action, include the tool_use block immediately in your current response. '' @
     ''When you need to call multiple tools and their results are independent of each other, include ALL of the tool_use blocks in a single response rather than calling them one at a time. This enables parallel execution and faster responses.''"

record session_plan =
  sp_history :: "ChatMessage list option"
  sp_system :: string
  sp_prompt :: string
  sp_images :: "json list"
  sp_continuation :: bool

definition system_prompt :: "ChatMessage list \<Rightarrow> string" where
  "system_prompt messages =
     (case rev (filter (\<lambda>m. cm_role m = ''system'') messages) of
        [] \<Rightarrow> parallelToolInstr
      | m # _ \<Rightarrow>
          (let s = ContentString (cm_content m) in
           if s \<noteq> [] then s @ [CHR 0x0A, CHR 0x0A] @ parallelToolInstr else parallelToolInstr))"

definition maxHistoryMessages :: nat where
  "maxHistoryMessages = 120"

definition capped :: "ChatMessage list \<Rightarrow> ChatMessage list" where
  "capped history = drop (length history - maxHistoryMessages) history"

text \<open>What is to go into the session file, if there is to be one, and what is sent to the standard input.\<close>

definition session_plan_of :: "ChatMessage list \<Rightarrow> session_plan" where
  "session_plan_of messages =
     (let conv = filter (\<lambda>m. cm_role m \<noteq> ''system'') messages;
          base = \<lparr>sp_history = None, sp_system = system_prompt messages, sp_prompt = [], sp_images = [], sp_continuation = False\<rparr>
      in case last_index (\<lambda>m. cm_role m = ''user'') conv of
           None \<Rightarrow> base
         | Some i \<Rightarrow>
             (let tail = drop (i + 1) conv in
              if list_all (\<lambda>m. cm_role m = ''tool'' \<or> cm_role m = ''assistant'') tail \<and> list_ex (\<lambda>m. cm_role m = ''tool'') tail then
                base\<lparr>sp_continuation := True,
                  sp_history := (if list_ex (\<lambda>m. cm_role m = ''assistant'') conv then Some (capped conv) else None)\<rparr>
              else
                base\<lparr>sp_prompt := ContentString (cm_content (conv ! i)), sp_images := extractImageBlocks (cm_content (conv ! i)),
                  sp_history :=
                    (case last_index (\<lambda>m. cm_role m = ''assistant'') (take i conv) of
                       None \<Rightarrow> None
                     | Some k \<Rightarrow> Some (capped (take (k + 1) conv)))\<rparr>))"

section \<open>Stripping removes images\<close>

lemma dataURIRe_conv:
  "dataURIRe s \<noteq> None \<longleftrightarrow>
     (\<exists>m b r. s = ''data:image/'' @ m @ '';base64,'' @ b # r \<and> m \<noteq> [] \<and> list_all mime_char m \<and> base64_char b)"
proof
  assume "dataURIRe s \<noteq> None"
  then have p: "HasPrefix s ''data:image/''" "takeWhile mime_char (drop 11 s) \<noteq> []"
      "HasPrefix (dropWhile mime_char (drop 11 s)) '';base64,''"
      "takeWhile base64_char (drop 8 (dropWhile mime_char (drop 11 s))) \<noteq> []"
    by (auto simp: dataURIRe_def Let_def split: if_splits)
  obtain s1 where s1: "s = ''data:image/'' @ s1" using p(1) by (auto simp: HasPrefix_conv)
  have d1: "drop 11 s = s1" by (simp add: s1)
  obtain s3 where s3: "dropWhile mime_char s1 = '';base64,'' @ s3" using p(3) unfolding d1 by (auto simp: HasPrefix_conv)
  obtain b r where b: "s3 = b # r" "base64_char b"
    using p(4) unfolding d1 s3 by (cases s3) (auto split: if_splits)
  have "s = ''data:image/'' @ takeWhile mime_char s1 @ '';base64,'' @ b # r"
    using takeWhile_dropWhile_id [of mime_char s1] s1 s3 b(1) by simp
  moreover have "list_all mime_char (takeWhile mime_char s1)" by (auto simp: list_all_iff dest: set_takeWhileD)
  ultimately show "\<exists>m b r. s = ''data:image/'' @ m @ '';base64,'' @ b # r \<and> m \<noteq> [] \<and> list_all mime_char m \<and> base64_char b"
    using p(2) b(2) unfolding d1 by blast
next
  assume "\<exists>m b r. s = ''data:image/'' @ m @ '';base64,'' @ b # r \<and> m \<noteq> [] \<and> list_all mime_char m \<and> base64_char b"
  then obtain m b r where m: "s = ''data:image/'' @ m @ '';base64,'' @ b # r" "m \<noteq> []" "list_all mime_char m" "base64_char b"
    by blast
  have all: "\<forall>c\<in>set m. mime_char c" and stop: "\<not> mime_char (CHR '';'')"
    using m(3) by (simp_all add: list_all_iff mime_char_def)
  have t: "takeWhile mime_char (drop 11 s) = m" "dropWhile mime_char (drop 11 s) = '';base64,'' @ b # r"
    using all stop by (simp_all add: m(1) takeWhile_append dropWhile_append)
  have "HasPrefix s ''data:image/''" unfolding m(1) by (rule HasPrefix_append)
  then show "dataURIRe s \<noteq> None"
    unfolding dataURIRe_def Let_def t using m(2,4) by simp
qed

lemma uri_not_made:
  assumes t: "dataURIRe t \<noteq> None" and u: "dataURIRe (u @ t) = None"
    and p: "list_all mime_char (CHR ''['' # p)"
  shows "dataURIRe (u @ (CHR ''['' # p) @ rr) = None"
proof (rule ccontr)
  assume "\<not> ?thesis"
  then obtain m b r where m: "u @ (CHR ''['' # p) @ rr = ''data:image/'' @ m @ '';base64,'' @ b # r" "m \<noteq> []" "list_all mime_char m" "base64_char b"
    using dataURIRe_conv by blast
  have long: "x = y @ drop (length y) x" if "x @ (CHR ''['' # p) @ rr = y @ z" "CHR ''['' \<notin> set y" for x y z :: string
  proof -
    have "length y \<le> length x"
    proof (rule ccontr)
      assume "\<not> length y \<le> length x"
      then have "y ! length x = CHR ''[''" using arg_cong [OF that(1), of "\<lambda>l. l ! length x"] by (simp add: nth_append)
      with that(2) \<open>\<not> length y \<le> length x\<close> show False using nth_mem [of "length x" y] by simp
    qed
    then have "take (length y) x = y" using arg_cong [OF that(1), of "take (length y)"] by simp
    then show ?thesis by (metis append_take_drop_id)
  qed
  define v where "v = drop (length ''data:image/'') u"
  have uv: "u = ''data:image/'' @ v" unfolding v_def by (rule long [OF m(1)]) simp
  have vm: "v @ (CHR ''['' # p) @ rr = m @ '';base64,'' @ b # r" using m(1) unfolding uv by simp
  show False
  proof (cases "length m < length v")
    case True
    then have "take (length m) v = m" using arg_cong [OF vm, of "take (length m)"] by simp
    then obtain w where w: "v = m @ w" by (metis append_take_drop_id)
    have wb: "w @ (CHR ''['' # p) @ rr = ('';base64,'' @ [b]) @ r" using vm unfolding w by simp
    have "b \<noteq> CHR ''[''" using m(4) by (auto simp: base64_char_def)
    then have nb: "CHR ''['' \<notin> set ('';base64,'' @ [b])" by simp
    obtain w' where w': "w = ('';base64,'' @ [b]) @ w'" using long [OF wb nb] by blast
    have "u @ t = ''data:image/'' @ m @ '';base64,'' @ b # w' @ t" unfolding uv w w' by simp
    then have "dataURIRe (u @ t) \<noteq> None" using m(2-4) dataURIRe_conv by blast
    with u show False by simp
  next
    case False
    then have "take (length v) m = v" using arg_cong [OF vm, of "take (length v)"] by simp
    then have mv: "list_all mime_char v" using m(3) by (metis append_take_drop_id list_all_append)
    obtain m' b' r' where t': "t = ''data:image/'' @ m' @ '';base64,'' @ b' # r'" "m' \<noteq> []" "list_all mime_char m'" "base64_char b'"
      using t dataURIRe_conv by blast
    have "u @ t = ''data:image/'' @ (v @ ''data:image/'' @ m') @ '';base64,'' @ b' # r'" unfolding uv t'(1) by simp
    moreover have "list_all mime_char (v @ ''data:image/'' @ m')" using mv t'(3) by (simp add: mime_char_def)
    ultimately have "dataURIRe (u @ t) \<noteq> None" using t'(2,4) dataURIRe_conv by blast
    with u show False by simp
  qed
qed

lemma replace_first_uri:
  "replace_data_uris new s = s \<or>
   (\<exists>u t r. s = u @ t \<and> dataURIRe t = Some r \<and> replace_data_uris new s = u @ new @ replace_data_uris new r)"
proof (induction s)
  case (Cons c cs)
  show ?case
  proof (cases "dataURIRe (c # cs)")
    case None
    then have r: "replace_data_uris new (c # cs) = c # replace_data_uris new cs" by (simp add: replace_data_uris.simps [of new "c # cs"])
    from Cons show ?thesis
    proof
      assume "\<exists>u t r. cs = u @ t \<and> dataURIRe t = Some r \<and> replace_data_uris new cs = u @ new @ replace_data_uris new r"
      then obtain u t w where "cs = u @ t" "dataURIRe t = Some w" "replace_data_uris new cs = u @ new @ replace_data_uris new w" by blast
      then show ?thesis unfolding r by (intro disjI2 exI [of _ "c # u"] exI [of _ t] exI [of _ w]) simp
    qed (simp add: r)
  next
    case (Some r)
    then show ?thesis
      by (intro disjI2 exI [of _ "[]"] exI [of _ "c # cs"] exI [of _ r]) (simp add: replace_data_uris.simps [of new "c # cs"])
  qed
qed (simp add: replace_data_uris.simps)

lemma omitted_text:
  "\<exists>p. imageOmittedRetryText = CHR ''['' # p \<and> list_all mime_char (CHR ''['' # p)"
  "has_data_uri (imageOmittedRetryText @ s) = has_data_uri s"
  by (simp_all add: imageOmittedRetryText_def mime_char_def dataURIRe_def)

lemma no_uri_left:
  assumes new: "new = CHR ''['' # p" "list_all mime_char (CHR ''['' # p)" and skip: "\<And>s. has_data_uri (new @ s) = has_data_uri s"
  shows "\<not> has_data_uri (replace_data_uris new s)"
proof (induction s rule: measure_induct_rule [where f = length])
  case (less s)
  show ?case
  proof (cases s)
    case Nil
    then show ?thesis by (simp add: replace_data_uris.simps)
  next
    case s: (Cons c cs)
    show ?thesis
    proof (cases "dataURIRe (c # cs)")
      case (Some r)
      then have "length r < length s" using dataURIRe_shorter [of "c # cs" r] s by simp
      then show ?thesis using less [of r] skip Some unfolding s by (simp add: replace_data_uris.simps [of new "c # cs"])
    next
      case None
      have r: "replace_data_uris new s = c # replace_data_uris new cs"
        using None by (simp add: s replace_data_uris.simps [of new "c # cs"])
      have "dataURIRe (c # replace_data_uris new cs) = None"
        using replace_first_uri [of new cs]
      proof
        assume "\<exists>u t r. cs = u @ t \<and> dataURIRe t = Some r \<and> replace_data_uris new cs = u @ new @ replace_data_uris new r"
        then obtain u t w where w: "cs = u @ t" "dataURIRe t = Some w"
            "replace_data_uris new cs = u @ new @ replace_data_uris new w" by blast
        have "dataURIRe t \<noteq> None" "dataURIRe ((c # u) @ t) = None" using None w(1,2) by simp_all
        from uri_not_made [OF this new(2)] have "dataURIRe ((c # u) @ new @ replace_data_uris new w) = None"
          by (simp only: new(1) [symmetric])
        then show ?thesis unfolding w(3) by simp
      qed (simp add: None)
      then show ?thesis using less [of cs] unfolding r by (simp add: s)
    qed
  qed
qed

lemma no_uri_in_text: "\<not> has_data_uri (replace_data_uris imageOmittedRetryText s)"
proof -
  obtain p where "imageOmittedRetryText = CHR ''['' # p" "list_all mime_char (CHR ''['' # p)" using omitted_text(1) by blast
  then show ?thesis using omitted_text(2) by (rule no_uri_left)
qed

lemma image_part_conv: "image_part p \<longleftrightarrow> snd (part_type p) \<and> image_type (fst (part_type p))"
  by (simp add: image_part_def case_prod_unfold)

lemma omitted_block_no_image: "\<not> image_part (text_block imageOmittedRetryText)"
  by code_simp

lemma strip_no_image: "\<not> chatMessageHasImage (stripChatMessageContent content)"
proof (cases content)
  case (Some j)
  show ?thesis
  proof (cases j)
    case (JArr ps)
    have "\<not> list_ex image_part (filter (\<lambda>p. \<not> image_part p) ps @ [text_block imageOmittedRetryText])"
      using omitted_block_no_image by (simp add: list_ex_iff)
    then have "\<exists>qs. stripChatMessageContent content = Some (JArr qs) \<and> \<not> list_ex image_part qs"
      unfolding Some JArr stripChatMessageContent_def stripMultimodalContentArray_def by simp
    then show ?thesis by (auto simp: chatMessageHasImage_def list_ex_iff list_all_iff image_part_conv)
  qed (simp_all add: Some stripChatMessageContent_def chatMessageHasImage_def no_uri_in_text)
qed (simp add: stripChatMessageContent_def chatMessageHasImage_def)

section \<open>Recovery from a prompt that is too long\<close>

definition is_user :: "ChatMessage \<Rightarrow> bool" where
  "is_user m \<longleftrightarrow> cm_role m = ''user''"

definition has_image :: "ChatMessage \<Rightarrow> bool" where
  "has_image m \<longleftrightarrow> chatMessageHasImage (cm_content m)"

lemma strip_message_no_image [simp]: "\<not> has_image (strip_message m)"
  by (simp add: has_image_def strip_message_def strip_no_image)

lemma no_image_stripped: "filter has_image (map strip_message ms) = []"
  by (induction ms) simp_all

lemma keep_latest_images: "filter has_image (keep_latest kept ms) = (if kept then [] else take 1 (filter has_image ms))"
  by (induction ms arbitrary: kept) (simp_all add: has_image_def [symmetric])

definition kept_or_stripped :: "ChatMessage \<Rightarrow> ChatMessage \<Rightarrow> bool" where
  "kept_or_stripped m m' \<longleftrightarrow> m' = m \<or> m' = strip_message m"

lemma keep_latest_kept: "list_all2 kept_or_stripped ms (keep_latest kept ms)"
  by (induction ms arbitrary: kept) (simp_all add: kept_or_stripped_def)

lemma strip_messages_kept: "list_all2 kept_or_stripped ms (map strip_message ms)"
  by (induction ms) (simp_all add: kept_or_stripped_def)

lemma last_index_split:
  assumes "last_index P ms = Some i"
  obtains m where "ms = take i ms @ m # drop (Suc i) ms" "P m" "\<forall>x\<in>set (drop (Suc i) ms). \<not> P x" "i < length ms" "ms ! i = m"
proof -
  obtain m before where d: "dropWhile (\<lambda>m. \<not> P m) (rev ms) = m # before" "i = length before"
    using assms by (auto simp: last_index_def split: list.splits)
  have "P m" using d(1) hd_dropWhile [of "\<lambda>m. \<not> P m" "rev ms"] by auto
  have "rev ms = takeWhile (\<lambda>m. \<not> P m) (rev ms) @ m # before" using takeWhile_dropWhile_id [of "\<lambda>m. \<not> P m" "rev ms"] d(1) by simp
  then have ms: "ms = rev before @ m # rev (takeWhile (\<lambda>m. \<not> P m) (rev ms))"
    by (metis append.assoc append_Cons append_Nil rev.simps(2) rev_append rev_rev_ident)
  have "take i ms = rev before" "drop (Suc i) ms = rev (takeWhile (\<lambda>m. \<not> P m) (rev ms))"
    by (subst ms; simp add: d(2))+
  moreover have "ms ! i = m" by (subst ms) (simp add: d(2) nth_append)
  moreover have "i < length ms" by (subst ms) (simp add: d(2))
  ultimately show ?thesis using that [of m] ms \<open>P m\<close> by (auto dest: set_takeWhileD)
qed

text \<open>
  When the prompt is too long, every message of the job is kept or loses its images; of all images only the last one of the
  current turn, if there is one, goes into the second attempt.
\<close>

theorem recovery_keeps_latest_image:
  assumes "last_index is_user msgs = Some i"
  shows "\<exists>out. stripJobImagesExceptLatestInCurrentTurn msgs = Some out \<and>
    filter has_image out = take 1 (rev (filter has_image (drop i msgs))) \<and> list_all2 kept_or_stripped msgs out"
proof -
  have ne: "msgs \<noteq> []" using assms by (auto simp: last_index_def)
  have "list_all2 kept_or_stripped (rev (rev (drop i msgs))) (rev (keep_latest False (rev (drop i msgs))))"
    using keep_latest_kept [of "rev (drop i msgs)" False] by (simp only: list_all2_rev)
  then have "list_all2 kept_or_stripped (take i msgs @ drop i msgs)
      (map strip_message (take i msgs) @ rev (keep_latest False (rev (drop i msgs))))"
    by (intro list_all2_appendI strip_messages_kept) simp
  moreover have "filter has_image (rev (keep_latest False (rev (drop i msgs)))) = rev (take 1 (filter has_image (rev (drop i msgs))))"
    by (simp only: rev_filter [symmetric] keep_latest_images if_False simp_thms if_False)
  moreover have "rev (take 1 xs) = take 1 xs" for xs :: "ChatMessage list" by (cases xs) simp_all
  ultimately show ?thesis
    using assms ne by (simp add: stripJobImagesExceptLatestInCurrentTurn_def is_user_def [abs_def] no_image_stripped rev_filter)
qed

definition demo_cli :: "string \<Rightarrow> json \<Rightarrow> ChatMessage" where
  "demo_cli role content = zero_ChatMessage\<lparr>cm_role := role, cm_content := Some content\<rparr>"

theorem recovery_keeps_latest_image_witness:
  "\<exists>out. stripJobImagesExceptLatestInCurrentTurn [demo_cli ''user'' (JArr [JObj [(''type'', JStr ''image_url'')]]), demo_cli ''assistant'' (JStr ''hm''),
       demo_cli ''user'' (JStr ''data:image/png;base64,AAAA'')] = Some out \<and>
     filter has_image out = take 1 (rev (filter has_image (drop 2 [demo_cli ''user'' (JArr [JObj [(''type'', JStr ''image_url'')]]),
       demo_cli ''assistant'' (JStr ''hm''), demo_cli ''user'' (JStr ''data:image/png;base64,AAAA'')]))) \<and>
     list_all2 kept_or_stripped [demo_cli ''user'' (JArr [JObj [(''type'', JStr ''image_url'')]]), demo_cli ''assistant'' (JStr ''hm''),
       demo_cli ''user'' (JStr ''data:image/png;base64,AAAA'')] out"
  by (rule recovery_keeps_latest_image) code_simp

lemma last_index_None: "last_index P ms = None \<longleftrightarrow> list_all (\<lambda>m. \<not> P m) ms"
proof -
  have "last_index P ms = None \<longleftrightarrow> dropWhile (\<lambda>m. \<not> P m) (rev ms) = []"
    by (cases "dropWhile (\<lambda>m. \<not> P m) (rev ms)") (simp_all only: last_index_def list.case option.distinct list.distinct simp_thms)
  then show ?thesis by (simp only: dropWhile_eq_Nil_conv list_all_iff set_rev)
qed

text \<open>
  Trimming may drop the only message of the user: a first turn whose tools ran, and whose prompt is then too long,
  is tried again with neither a prompt nor a history.
\<close>

lemma recovery_loses_prompt:
  assumes "filter (\<lambda>m. cm_role m \<noteq> ''system'') msgs = u # later" and "later \<noteq> []" and "\<forall>m\<in>set later. cm_role m \<noteq> ''user''"
  shows "sp_history (session_plan_of (trimOldestMessages msgs)) = None \<and> sp_prompt (session_plan_of (trimOldestMessages msgs)) = [] \<and>
    \<not> sp_continuation (session_plan_of (trimOldestMessages msgs))"
proof -
  define n where "n = (let n = max 1 (length (u # later) div 5) in if length (u # later) \<le> n then length (u # later) div 2 else n)"
  have "0 < n" using assms(2) by (cases later) (auto simp: n_def Let_def)
  then obtain k where k: "n = Suc k" by (cases n) auto
  have t: "trimOldestMessages msgs = filter (\<lambda>m. cm_role m = ''system'') msgs @ drop n (u # later)"
    unfolding trimOldestMessages_def Let_def assms(1) n_def ..
  have "filter (\<lambda>m. cm_role m \<noteq> ''system'') (trimOldestMessages msgs) = drop k later"
  proof -
    have "\<forall>m\<in>set later. cm_role m \<noteq> ''system''" using arg_cong [OF assms(1), of set] by auto
    then show ?thesis unfolding t k by (auto simp: filter_id_conv dest: in_set_dropD)
  qed
  moreover have "last_index (\<lambda>m. cm_role m = ''user'') (drop k later) = None"
    using assms(3) by (auto simp: last_index_None list_all_iff dest: in_set_dropD)
  ultimately show ?thesis by (simp add: session_plan_of_def Let_def)
qed

text \<open>Without any message of the user, the recovery panics.\<close>

lemma recovery_panics: "msgs \<noteq> [] \<Longrightarrow> \<forall>m\<in>set msgs. cm_role m \<noteq> ''user'' \<Longrightarrow> stripJobImagesExceptLatestInCurrentTurn msgs = None"
  using last_index_None [of "\<lambda>m. cm_role m = ''user''" msgs] by (simp add: stripJobImagesExceptLatestInCurrentTurn_def list_all_iff)

section \<open>What the session holds\<close>

definition message_blocks :: "string gomap \<Rightarrow> ChatMessage \<Rightarrow> json list" where
  "message_blocks names m =
     (if cm_role m = ''user'' then text_and_images m
      else if cm_role m = ''assistant'' then
        (if ContentString (cm_content m) \<noteq> [] then [text_block (ContentString (cm_content m))] else []) @
        List.map_filter (tool_use_block names) (cm_calls m)
      else if cm_role m = ''tool'' then [tool_result_block m]
      else [])"

lemma all_some_iff: "all_some xs = Some ys \<longleftrightarrow> xs = map Some ys"
  by (induction xs arbitrary: ys rule: all_some.induct) auto

lemma map_filter_Some: "map f xs = map Some ys \<Longrightarrow> List.map_filter f xs = ys"
  by (induction xs arbitrary: ys) (auto simp: map_filter_simps)

lemma turns_blocks:
  "session_turns names ms = map Some turns \<Longrightarrow> concat (map snd turns) = concat (map (message_blocks names) ms)"
proof (induction names ms arbitrary: turns rule: session_turns.induct)
  case (2 names m ms)
  consider "cm_role m = ''user''" | "cm_role m = ''assistant''" | "cm_role m = ''tool''"
    | "cm_role m \<notin> {''user'', ''assistant'', ''tool''}" by blast
  then show ?case
  proof cases
    case 3
    let ?ts = "takeWhile (\<lambda>m. cm_role m = ''tool'') ms" and ?ms = "dropWhile (\<lambda>m. cm_role m = ''tool'') ms"
    obtain more_turns where t: "turns = (''user'', map tool_result_block (m # ?ts)) # more_turns" "session_turns names ?ms = map Some more_turns"
      using 2(5) 3 by (auto simp: Cons_eq_map_conv)
    have "concat (map (message_blocks names) ?ts) = map tool_result_block ?ts"
      by (induction ms) (simp_all add: message_blocks_def)
    moreover have "concat (map snd more_turns) = concat (map (message_blocks names) ?ms)" using 2(3) 3 t(2) by simp
    ultimately have "concat (map snd turns) = message_blocks names m @ concat (map (message_blocks names) (?ts @ ?ms))"
      unfolding t(1) using 3 by (simp add: message_blocks_def del: takeWhile_dropWhile_id)
    then show ?thesis by simp
  next
    case 4
    then show ?thesis using 2(4,5) by (simp add: message_blocks_def)
  next
    case 1
    then show ?thesis using 2(1,5) by (auto simp: message_blocks_def Cons_eq_map_conv)
  next
    case 2
    then show ?thesis using "2.IH"(2) "2.prems"
      by (auto simp: message_blocks_def Cons_eq_map_conv all_some_iff map_filter_Some)
  qed
qed simp

lemma capped_split: "\<exists>dropped. xs = dropped @ capped xs \<and> (dropped = [] \<or> length (capped xs) = 120)"
  by (rule exI [of _ "take (length xs - 120) xs"]) (auto simp: capped_def maxHistoryMessages_def)

lemma capped_short: "length (capped xs) \<le> 120" "xs \<noteq> [] \<Longrightarrow> capped xs \<noteq> [] \<and> last (capped xs) = last xs"
  using last_drop [of "length xs - 120" xs] by (cases xs; simp add: capped_def maxHistoryMessages_def)+

text \<open>
  The conversation of a job as the session has it: what was dropped as too old, the history, what was
  skipped because no answer follows it, and the last message of the user with what comes after it.
\<close>

definition session_parts :: "session_plan \<Rightarrow> ChatMessage list \<Rightarrow> ChatMessage list \<Rightarrow> ChatMessage list \<Rightarrow> ChatMessage list \<Rightarrow> bool" where
  "session_parts sp conv history dropped skipped \<longleftrightarrow>
     (if sp_continuation sp then conv = dropped @ history \<and> skipped = [] \<and> sp_prompt sp = []
      else cm_role (last history) = ''assistant'' \<and> list_all (\<lambda>m. cm_role m \<noteq> ''assistant'') skipped \<and>
        (\<exists>u later. conv = dropped @ history @ skipped @ u # later \<and> cm_role u = ''user'' \<and>
           list_all (\<lambda>m. cm_role m \<noteq> ''user'') later \<and> sp_prompt sp = ContentString (cm_content u) \<and>
           sp_images sp = extractImageBlocks (cm_content u)))"

text \<open>
  C33: the history that goes into the session file is the whole conversation before the last message of the
  user, less what is older than 120 messages and what no answer follows, or, when the results of tools end the
  conversation, up to its end; every text, image, call and result of these messages is in the file once and in
  order, and the last message of the user is the prompt.
\<close>

theorem session_history_exact:
  assumes "sp_history (session_plan_of msgs) = Some history"
    and "all_some (session_turns names history) = Some turns"
  shows "length history \<le> 120 \<and>
    (\<exists>dropped skipped. session_parts (session_plan_of msgs) (filter (\<lambda>m. cm_role m \<noteq> ''system'') msgs) history dropped skipped \<and>
       (dropped = [] \<or> length history = 120)) \<and>
    concat (map snd turns) = concat (map (message_blocks names) history)"
proof -
  define conv where "conv = filter (\<lambda>m. cm_role m \<noteq> ''system'') msgs"
  obtain i where i: "last_index (\<lambda>m. cm_role m = ''user'') conv = Some i"
    using assms(1) by (auto simp: session_plan_of_def Let_def conv_def split: option.splits)
  note plan = session_plan_of_def [of msgs, folded conv_def, unfolded Let_def i option.case]
  have blocks: "concat (map snd turns) = concat (map (message_blocks names) history)"
    using assms(2) by (intro turns_blocks) (simp add: all_some_iff)
  have parts: "\<exists>dropped skipped. session_parts (session_plan_of msgs) conv history dropped skipped \<and> (dropped = [] \<or> length history = 120)"
  proof (cases "sp_continuation (session_plan_of msgs)")
    case True
    then have "history = capped conv" "sp_prompt (session_plan_of msgs) = []" using assms(1) by (auto simp: plan split: if_splits)
    then show ?thesis using capped_split [of conv] True by (auto simp: session_parts_def)
  next
    case False
    then obtain k where k: "last_index (\<lambda>m. cm_role m = ''assistant'') (take i conv) = Some k" "history = capped (take (k + 1) conv)"
        and p: "sp_prompt (session_plan_of msgs) = ContentString (cm_content (conv ! i))"
          "sp_images (session_plan_of msgs) = extractImageBlocks (cm_content (conv ! i))"
      using assms(1) by (auto simp: plan split: if_splits option.splits)
    obtain u where u: "conv = take i conv @ u # drop (Suc i) conv" "cm_role u = ''user''"
        "\<forall>m\<in>set (drop (Suc i) conv). cm_role m \<noteq> ''user''" "i < length conv" "conv ! i = u"
      using i by (rule last_index_split) 
    obtain a where a: "take i conv = take k (take i conv) @ a # drop (Suc k) (take i conv)" "cm_role a = ''assistant''"
        "\<forall>m\<in>set (drop (Suc k) (take i conv)). cm_role m \<noteq> ''assistant''" "k < length (take i conv)" "take i conv ! k = a"
      using k(1) by (rule last_index_split)
    have ki: "k < i" "k < length conv" "conv ! k = a" using a(4,5) by simp_all
    then have tk: "take (k + 1) conv = take k (take i conv) @ [a]"
      by (simp add: take_Suc_conv_app_nth min_def)
    obtain dropped where d: "take (k + 1) conv = dropped @ history" "dropped = [] \<or> length history = 120"
      using capped_split [of "take (k + 1) conv"] k(2) by auto
    have "last history = a" using capped_short(2) [of "take (k + 1) conv"] k(2) unfolding tk by simp
    moreover have "conv = dropped @ history @ drop (Suc k) (take i conv) @ u # drop (Suc i) conv"
      using a(1) u(1) tk d(1) by (metis append.assoc append_Cons append_Nil)
    ultimately have "session_parts (session_plan_of msgs) conv history dropped (drop (Suc k) (take i conv))"
      unfolding session_parts_def list_all_iff using False a(2,3) u(2,3,5) p by auto
    then show ?thesis using d(2) by blast
  qed
  have "length history \<le> 120" using assms(1) capped_short(1) by (auto simp: plan split: if_splits option.splits)
  then show ?thesis using parts blocks unfolding conv_def by blast
qed

definition demo_turns :: "ChatMessage list" where
  "demo_turns = [demo_cli ''user'' (JStr ''a''), demo_cli ''assistant'' (JStr ''b''), demo_cli ''tool'' (JStr ''c''),
     demo_cli ''tool'' (JStr ''d''), demo_cli ''assistant'' (JStr ''e''), demo_cli ''user'' (JStr ''f'')]"

theorem session_history_exact_witness:
  "\<exists>turns. all_some (session_turns [] (take 5 demo_turns)) = Some turns \<and> length (take 5 demo_turns) \<le> 120 \<and>
     (\<exists>dropped skipped. session_parts (session_plan_of demo_turns) (filter (\<lambda>m. cm_role m \<noteq> ''system'') demo_turns) (take 5 demo_turns) dropped skipped \<and>
        (dropped = [] \<or> length (take 5 demo_turns) = 120)) \<and>
     concat (map snd turns) = concat (map (message_blocks []) (take 5 demo_turns))"
proof -
  have h: "sp_history (session_plan_of demo_turns) = Some (take 5 demo_turns)" by code_simp
  have "all_some (session_turns [] (take 5 demo_turns)) \<noteq> None" by code_simp
  then obtain turns where t: "all_some (session_turns [] (take 5 demo_turns)) = Some turns" by blast
  show ?thesis using session_history_exact [OF h t] t by blast
qed

end
