(* ===== verification/Cli_Worker.thy ===== *)
theory Cli_Worker
  imports Cli_Session Go_Path
begin

text \<open>
  \<open>internal/cliworker/claude.go\<close>: a job that Claude Code runs.  The process is a parameter: what it
  writes and how it ends is a function of its command, of the files it is given and of the one message it reads.
  The callbacks of \<open>RunJob\<close> are the constructors of \<open>cli_out\<close>; all are given, as \<open>runCLIWorker\<close> does, and
  \<open>RunJob\<close> ignores what they return.
\<close>

section \<open>What Claude Code writes\<close>

record claudeUsage =
  cu_input :: int
  cu_output :: int
  cu_creation :: int
  cu_read :: int

definition zero_claudeUsage :: claudeUsage where
  "zero_claudeUsage = \<lparr>cu_input = 0, cu_output = 0, cu_creation = 0, cu_read = 0\<rparr>"

definition dec_claudeUsage :: "claudeUsage decoder" where
  "dec_claudeUsage = dec_struct
     [(''input_tokens'', fld cu_input cu_input_update dec_int), (''output_tokens'', fld cu_output cu_output_update dec_int),
      (''cache_creation_input_tokens'', fld cu_creation cu_creation_update dec_int),
      (''cache_read_input_tokens'', fld cu_read cu_read_update dec_int)]"

definition totalInputTokens :: "claudeUsage \<Rightarrow> int" where
  "totalInputTokens u = add_int (add_int (cu_input u) (cu_creation u)) (cu_read u)"

record claudeBlock =
  cb_type :: string
  cb_text :: string
  cb_thinking :: string
  cb_id :: string
  cb_name :: string
  cb_input :: raw
  cb_use :: string
  cb_result :: raw

definition zero_claudeBlock :: claudeBlock where
  "zero_claudeBlock = \<lparr>cb_type = [], cb_text = [], cb_thinking = [], cb_id = [], cb_name = [], cb_input = None, cb_use = [], cb_result = None\<rparr>"

definition dec_claudeBlock :: "claudeBlock decoder" where
  "dec_claudeBlock = dec_struct
     [(''type'', fld cb_type cb_type_update dec_string), (''text'', fld cb_text cb_text_update dec_string),
      (''thinking'', fld cb_thinking cb_thinking_update dec_string), (''id'', fld cb_id cb_id_update dec_string),
      (''name'', fld cb_name cb_name_update dec_string), (''input'', fld cb_input cb_input_update dec_raw),
      (''tool_use_id'', fld cb_use cb_use_update dec_string), (''content'', fld cb_result cb_result_update dec_raw)]"

record claudeMessage =
  clm_id :: string
  clm_content :: "claudeBlock list"
  clm_usage :: "claudeUsage option"
  clm_stop :: "string option"

definition zero_claudeMessage :: claudeMessage where
  "zero_claudeMessage = \<lparr>clm_id = [], clm_content = [], clm_usage = None, clm_stop = None\<rparr>"

definition dec_claudeMessage :: "claudeMessage decoder" where
  "dec_claudeMessage = dec_struct
     [(''id'', fld clm_id clm_id_update dec_string),
      (''content'', fld clm_content clm_content_update (dec_slice zero_claudeBlock dec_claudeBlock)),
      (''usage'', fld clm_usage clm_usage_update (dec_ptr zero_claudeUsage dec_claudeUsage)),
      (''stop_reason'', fld clm_stop clm_stop_update (dec_ptr [] dec_string))]"

record claudeRateLimitInfo =
  rli_status :: string
  rli_resets :: int
  rli_type :: string
  rli_overage :: string
  rli_disabled :: string
  rli_using :: bool

definition zero_claudeRateLimitInfo :: claudeRateLimitInfo where
  "zero_claudeRateLimitInfo = \<lparr>rli_status = [], rli_resets = 0, rli_type = [], rli_overage = [], rli_disabled = [], rli_using = False\<rparr>"

definition dec_claudeRateLimitInfo :: "claudeRateLimitInfo decoder" where
  "dec_claudeRateLimitInfo = dec_struct
     [(''status'', fld rli_status rli_status_update dec_string), (''resetsat'', fld rli_resets rli_resets_update dec_int),
      (''ratelimittype'', fld rli_type rli_type_update dec_string), (''overagestatus'', fld rli_overage rli_overage_update dec_string),
      (''overagedisabledreason'', fld rli_disabled rli_disabled_update dec_string), (''isusingoverage'', fld rli_using rli_using_update dec_bool)]"

record claudeControlRequest =
  ccr_subtype :: string
  ccr_tool :: string
  ccr_input :: raw
  ccr_use :: string

definition zero_claudeControlRequest :: claudeControlRequest where
  "zero_claudeControlRequest = \<lparr>ccr_subtype = [], ccr_tool = [], ccr_input = None, ccr_use = []\<rparr>"

definition dec_claudeControlRequest :: "claudeControlRequest decoder" where
  "dec_claudeControlRequest = dec_struct
     [(''subtype'', fld ccr_subtype ccr_subtype_update dec_string), (''tool_name'', fld ccr_tool ccr_tool_update dec_string),
      (''input'', fld ccr_input ccr_input_update dec_raw), (''tool_use_id'', fld ccr_use ccr_use_update dec_string)]"

record claudeEvent =
  ce_type :: string
  ce_message :: "claudeMessage option"
  ce_usage :: "claudeUsage option"
  ce_limit :: "claudeRateLimitInfo option"
  ce_cost :: number
  ce_session :: string
  ce_requestID :: string
  ce_request :: "claudeControlRequest option"

definition zero_claudeEvent :: claudeEvent where
  "zero_claudeEvent = \<lparr>ce_type = [], ce_message = None, ce_usage = None, ce_limit = None, ce_cost = NInt 0, ce_session = [],
     ce_requestID = [], ce_request = None\<rparr>"

definition dec_claudeEvent :: "claudeEvent decoder" where
  "dec_claudeEvent = dec_struct
     [(''type'', fld ce_type ce_type_update dec_string),
      (''message'', fld ce_message ce_message_update (dec_ptr zero_claudeMessage dec_claudeMessage)),
      (''usage'', fld ce_usage ce_usage_update (dec_ptr zero_claudeUsage dec_claudeUsage)),
      (''rate_limit_info'', fld ce_limit ce_limit_update (dec_ptr zero_claudeRateLimitInfo dec_claudeRateLimitInfo)),
      (''total_cost_usd'', fld ce_cost ce_cost_update dec_float), (''session_id'', fld ce_session ce_session_update dec_string),
      (''request_id'', fld ce_requestID ce_requestID_update dec_string),
      (''request'', fld ce_request ce_request_update (dec_ptr zero_claudeControlRequest dec_claudeControlRequest))]"

definition raw_text :: "raw \<Rightarrow> string" where
  "raw_text r = (case r of None \<Rightarrow> [] | Some j \<Rightarrow> json_text j)"

definition dec_typed_text :: "(string \<times> string) decoder" where
  "dec_typed_text = dec_struct
     [(''type'', fld fst (\<lambda>f (a, b). (f a, b)) dec_string), (''text'', fld snd (\<lambda>f (a, b). (a, f b)) dec_string)]"

definition ResultContent :: "claudeBlock \<Rightarrow> string" where
  "ResultContent b =
     (case cb_result b of
        None \<Rightarrow> []
      | Some j \<Rightarrow>
          (case dec_string j [] of
             (s, True) \<Rightarrow> s
           | (_, False) \<Rightarrow>
               (case dec_slice ([], []) dec_typed_text j [] of
                  (blocks, True) \<Rightarrow> join_with [CHR 0x0A] (map snd (filter (\<lambda>(t, s). t = ''text'' \<and> s \<noteq> []) blocks))
                | (_, False) \<Rightarrow> json_text j)))"

section \<open>The command\<close>

record JobConfig =
  jc_path :: string
  jc_model :: string
  jc_builtins :: "string list"
  jc_workDir :: string
  jc_configDir :: string
  jc_live :: bool
  jc_onToolCall :: bool

definition or_else :: "string \<Rightarrow> string \<Rightarrow> string" where
  "or_else s d = (if s = [] then d else s)"

definition filterShadowedBuiltins :: "string list \<Rightarrow> Tool list \<Rightarrow> string list" where
  "filterShadowedBuiltins builtins jobTools =
     filter (\<lambda>b. b \<notin> set (map (\<lambda>t. td_name (tl_fn t)) jobTools)) builtins"

definition buildToolsFlag :: "string list \<Rightarrow> string" where
  "buildToolsFlag tools = (if tools = [] then ''none'' else join_with '','' tools)"

definition stripMCPPrefix :: "string \<Rightarrow> string" where
  "stripMCPPrefix name =
     (if \<not> HasPrefix name ''mcp__'' then name
      else (case Index (drop 5 name) ''__'' of Some i \<Rightarrow> drop (i + 7) name | None \<Rightarrow> name))"

definition workerEnv :: "string list \<Rightarrow> string \<Rightarrow> string \<Rightarrow> string gomap \<Rightarrow> string list" where
  "workerEnv environ configDir proxyAddr credentials =
     environ @
     [''CLAUDE_CONFIG_DIR='' @ configDir, ''DISABLE_PROMPT_CACHING=1'', ''CLAUDE_CODE_DISABLE_AUTO_MEMORY=1'',
      ''CLAUDE_CODE_DISABLE_BACKGROUND_TASKS=1'', ''CLAUDE_CODE_DISABLE_CRON=1'', ''CLAUDE_CODE_DISABLE_FEEDBACK_SURVEY=1'',
      ''CLAUDE_CODE_DISABLE_NONESSENTIAL_TRAFFIC=1'', ''DISABLE_TELEMETRY=1'', ''CLAUDE_CODE_RESUME_INTERRUPTED_TURN=1''] @
     (if proxyAddr \<noteq> [] then [''ANTHROPIC_BASE_URL='' @ proxyAddr] else []) @
     map (\<lambda>(k, v). k @ ''='' @ v) credentials"

definition effective_model :: "JobConfig \<Rightarrow> JobMessage \<Rightarrow> string" where
  "effective_model cfg job = or_else (TrimSpace (jm_model job)) (or_else (TrimSpace (jc_model cfg)) ''claude-sonnet-4-6'')"

definition mcp_tool_names :: "Tool list \<Rightarrow> string gomap" where
  "mcp_tool_names tools = fold (\<lambda>t. mput (td_name (tl_fn t)) (''mcp__auxot__'' @ td_name (tl_fn t))) tools []"

text \<open>The configuration of the MCP server: this binary, which reads the tools from a file.\<close>

definition mcp_config :: "string \<Rightarrow> (string \<times> json) list \<Rightarrow> json" where
  "mcp_config workerBin env = JObj
     [(''mcpServers'', JObj [(''auxot'', JObj [(''args'', JArr []), (''command'', JStr workerBin), (''env'', JObj env)])])]"

definition setupMCP :: "string \<Rightarrow> string \<Rightarrow> json" where
  "setupMCP workerBin toolsFile = mcp_config workerBin [(''AUXOT_MCP_TOOLS_FILE'', JStr toolsFile)]"

definition setupMCPLive :: "string \<Rightarrow> string \<Rightarrow> string \<Rightarrow> string \<Rightarrow> json" where
  "setupMCPLive workerBin toolsFile proxyURL jobID = mcp_config workerBin
     [(''AUXOT_MCP_JOB_ID'', JStr jobID), (''AUXOT_MCP_TOOLS_FILE'', JStr toolsFile), (''AUXOT_MCP_TOOL_PROXY'', JStr proxyURL)]"

text \<open>
  The command with the files its arguments name: the session, the system prompt, and the configuration of
  the MCP server with the tools that it offers.
\<close>

record claude_cmd =
  cc_path :: string
  cc_args :: "string list"
  cc_dir :: string
  cc_env :: "string list"
  cc_session :: "json list option"
  cc_prompt :: string
  cc_mcp :: "(json \<times> json) option"

record claude_run =
  crn_stdout :: string
  crn_stderr :: string
  crn_exit :: "string option"

datatype cli_step = SessionFile | PromptFile | PromptWrite | LiveProxy | McpTools | McpConfig | StdoutPipe | StdinPipe | Start | StdinWrite

text \<open>
  What a run meets: the error of a step if it fails (\<open>cle_fault\<close>), the file or address that it makes
  (\<open>cle_path\<close>), the process, and whether the context of the job is done when the process has ended.
\<close>

record cli_env =
  cle_environ :: "string list"
  cle_now :: int
  cle_positive :: "number \<Rightarrow> bool"
  cle_time :: string
  cle_real :: "string \<Rightarrow> string option"
  cle_uuid :: "nat \<Rightarrow> string"
  cle_badJSON :: string
  cle_binary :: string
  cle_fault :: "cli_step \<Rightarrow> string option"
  cle_path :: "cli_step \<Rightarrow> string"
  cle_run :: "claude_cmd \<Rightarrow> json \<Rightarrow> claude_run"
  cle_stopped :: bool

definition cli_session :: "cli_env \<Rightarrow> JobMessage \<Rightarrow> string \<Rightarrow> string \<Rightarrow> session_plan \<Rightarrow> string + json list option" where
  "cli_session env job model workDir sp =
     (case sp_history sp of
        None \<Rightarrow> Inr None
      | Some h \<Rightarrow>
          (case cle_fault env SessionFile of
             Some e \<Rightarrow> Inl (''create session file: '' @ e)
           | None \<Rightarrow>
               (case session_file \<lparr>sm_model = model, sm_time = cle_time env,
                       sm_cwd = (case cle_real env workDir of Some d \<Rightarrow> d | None \<Rightarrow> workDir), sm_uuid = cle_uuid env\<rparr>
                     (mcp_tool_names (jm_tools job)) h of
                  None \<Rightarrow> Inl (''write session entry: '' @ cle_badJSON env)
                | Some entries \<Rightarrow> Inr (Some entries))))"

definition cli_args :: "cli_env \<Rightarrow> JobMessage \<Rightarrow> JobConfig \<Rightarrow> string \<Rightarrow> bool \<Rightarrow> bool \<Rightarrow> string list" where
  "cli_args env job cfg model resume mcp =
     [''--output-format'', ''stream-json'', ''--verbose'', ''--tools'',
      buildToolsFlag (filterShadowedBuiltins (jc_builtins cfg) (jm_tools job))] @
     (if resume then [''--resume'', cle_path env SessionFile] else [''--no-session-persistence'']) @
     [''--print'', ''--input-format'', ''stream-json''] @
     (if jm_tools job \<noteq> [] \<and> \<not> jc_live cfg then [''--permission-prompt-tool'', ''stdio''] else [''--dangerously-skip-permissions'']) @
     [''--model'', model, ''--system-prompt-file'', cle_path env PromptFile] @
     (if mcp then [''--strict-mcp-config'', ''--mcp-config'', cle_path env McpConfig] else [])"

text \<open>The MCP configuration of a job with tools; \<open>None\<close> when it fails, after which Claude runs without the tools.\<close>

definition cli_mcp :: "cli_env \<Rightarrow> JobMessage \<Rightarrow> JobConfig \<Rightarrow> (json \<times> json) option" where
  "cli_mcp env job cfg =
     (if jm_tools job = [] \<or> cle_fault env McpTools \<noteq> None \<or> cle_fault env McpConfig \<noteq> None then None
      else Some
        (if jc_live cfg \<and> jc_onToolCall cfg
         then setupMCPLive (cle_binary env) (cle_path env McpTools) (cle_path env LiveProxy) (jm_job job)
         else setupMCP (cle_binary env) (cle_path env McpTools), JArr (map enc_Tool (jm_tools job))))"

definition user_message :: "session_plan \<Rightarrow> json" where
  "user_message sp = JObj
     [(''message'', JObj
         [(''content'', JArr (if sp_continuation sp then [text_block ''Continue.''] else text_block (sp_prompt sp) # sp_images sp)),
          (''role'', JStr ''user'')]),
      (''type'', JStr ''user'')]"

fun first_fault :: "cli_env \<Rightarrow> (cli_step \<times> string) list \<Rightarrow> (string \<times> string) option" where
  "first_fault env [] = None"
| "first_fault env ((s, msg) # ss) = (case cle_fault env s of Some e \<Rightarrow> Some (msg, e) | None \<Rightarrow> first_fault env ss)"

text \<open>The error and its details, or the command and the message.\<close>

definition cli_setup :: "cli_env \<Rightarrow> JobMessage \<Rightarrow> JobConfig \<Rightarrow> (string \<times> string) + claude_cmd \<times> json" where
  "cli_setup env job cfg =
     (let model = effective_model cfg job; workDir = or_else (jc_workDir cfg) ''/tmp/auxot-worker''; sp = session_plan_of (jm_messages job)
      in case cli_session env job model workDir sp of
           Inl e \<Rightarrow> Inl (''failed to write synthetic session file'', e)
         | Inr ses \<Rightarrow>
             (case first_fault env
                 ([(PromptFile, ''failed to create system-prompt temp file''), (PromptWrite, ''failed to write system-prompt temp file'')] @
                  (if jm_tools job \<noteq> [] \<and> jc_live cfg \<and> jc_onToolCall cfg then [(LiveProxy, ''failed to start live tool proxy'')] else []) @
                  [(StdoutPipe, ''failed to create stdout pipe''), (StdinPipe, ''failed to create stdin pipe''), (Start, ''failed to start claude''),
                   (StdinWrite, ''failed to write user message'')]) of
                Some err \<Rightarrow> Inl err
              | None \<Rightarrow>
                  (let mcp = cli_mcp env job cfg in
                   Inr (\<lparr>cc_path = or_else (jc_path cfg) ''claude'', cc_args = cli_args env job cfg model (ses \<noteq> None) (mcp \<noteq> None),
                     cc_dir = workDir, cc_env = workerEnv (cle_environ env) (or_else (jc_configDir cfg) ''/tmp/auxot-worker/.claude'') [] (jm_creds job),
                     cc_session = ses, cc_prompt = sp_system sp, cc_mcp = mcp\<rparr>, user_message sp))))"

section \<open>The events\<close>

text \<open>
  A reply to a \<open>control_request\<close> is \<open>CliLostReply\<close>: the pipe it is written to was closed
  after the first message, and the write fails.
\<close>

datatype cli_out =
    CliToken string
  | CliReasoning string
  | CliBuiltin string string string string
  | CliLostReply json
  | CliComplete string string string int int number string string int string "ToolCall list" "BuiltinToolUse list"
      \<comment> \<open>text before and after the tools, reasoning; input and output tokens, cost; session; status, reset and type of the limit; calls; resolved uses\<close>
  | CliError string string
  | CliOverload int int string string
  | CliPanic

datatype cli_result =
    CliDone
  | CliCacheRetry
  | CliImageRetry
  | CliTooLong
  | CliLimited int int string string

record cli_state =
  cs_full :: string
  cs_pre :: string
  cs_post :: string
  cs_reasoning :: string
  cs_input :: int
  cs_output :: int
  cs_cost :: number
  cs_session :: string
  cs_resets :: int
  cs_status :: string
  cs_type :: string
  cs_calls :: "ToolCall list"
  cs_seenMCP :: bool
  cs_seenResult :: bool
  cs_batch :: bool
  cs_pending :: "BuiltinToolUse gomap"
  cs_completed :: "BuiltinToolUse list"
  cs_live :: "string gomap"
  cs_pipe :: bool
  cs_killed :: bool

definition cli_init :: cli_state where
  "cli_init = \<lparr>cs_full = [], cs_pre = [], cs_post = [], cs_reasoning = [], cs_input = 0, cs_output = 0, cs_cost = NInt 0, cs_session = [],
     cs_resets = 0, cs_status = [], cs_type = [], cs_calls = [], cs_seenMCP = False, cs_seenResult = False, cs_batch = False,
     cs_pending = [], cs_completed = [], cs_live = [], cs_pipe = True, cs_killed = False\<rparr>"

definition cli_call :: "claudeBlock \<Rightarrow> ToolCall" where
  "cli_call b = \<lparr>tc_id = cb_id b, tc_type = ''function'', tc_fn = \<lparr>tf_name = stripMCPPrefix (cb_name b), tf_args = raw_text (cb_input b)\<rparr>\<rparr>"

definition call_out :: "ToolCall \<Rightarrow> cli_out" where
  "call_out tc = CliBuiltin (tc_id tc) (tf_name (tc_fn tc)) (tf_args (tc_fn tc)) []"

definition use_out :: "BuiltinToolUse \<Rightarrow> cli_out" where
  "use_out u = CliBuiltin (btu_id u) (btu_name u) (btu_args u) (btu_result u)"

definition cli_text :: "bool \<Rightarrow> string \<Rightarrow> cli_state \<Rightarrow> cli_state \<times> cli_out list" where
  "cli_text isLive t st =
     (if t = [] then (st, [])
      else
        (let st1 = st\<lparr>cs_full := cs_full st @ t\<rparr> in
         if cs_seenMCP st \<and> \<not> isLive then (st1, [])
         else if cs_seenResult st then (st1\<lparr>cs_post := cs_post st @ t\<rparr>, [CliToken t])
         else (st1\<lparr>cs_pre := cs_pre st @ t\<rparr>, [CliToken t])))"

definition cli_block :: "bool \<Rightarrow> claudeBlock \<Rightarrow> cli_state \<Rightarrow> cli_state \<times> cli_out list" where
  "cli_block isLive b st =
     (if cb_type b = ''text'' then cli_text isLive (cb_text b) st
      else if cb_type b = ''thinking'' then
        (if cb_thinking b = [] then (st, [])
         else (st\<lparr>cs_reasoning := cs_reasoning st @ cb_thinking b\<rparr>, if cs_seenMCP st then [] else [CliReasoning (cb_thinking b)]))
      else if cb_type b = ''tool_use'' then
        (if HasPrefix (cb_name b) ''mcp__'' then
           (st\<lparr>cs_seenMCP := True, cs_calls := cs_calls st @ [cli_call b]\<rparr>, [call_out (cli_call b)])
         else
           (st\<lparr>cs_pending := mput (cb_id b) \<lparr>btu_id = cb_id b, btu_name = cb_name b, btu_args = raw_text (cb_input b), btu_result = []\<rparr> (cs_pending st)\<rparr>, []))
      else (st, []))"

fun cli_each :: "(claudeBlock \<Rightarrow> cli_state \<Rightarrow> cli_state \<times> cli_out list) \<Rightarrow> claudeBlock list \<Rightarrow> cli_state \<Rightarrow> cli_state \<times> cli_out list" where
  "cli_each f [] st = (st, [])"
| "cli_each f (b # bs) st =
     (case f b st of (st1, outs1) \<Rightarrow> case cli_each f bs st1 of (st2, outs2) \<Rightarrow> (st2, outs1 @ outs2))"

definition cli_usage :: "claudeUsage option \<Rightarrow> cli_state \<Rightarrow> cli_state" where
  "cli_usage usage st =
     (case usage of None \<Rightarrow> st | Some u \<Rightarrow> st\<lparr>cs_input := totalInputTokens u, cs_output := cu_output u\<rparr>)"

definition cli_assistant :: "bool \<Rightarrow> claudeEvent \<Rightarrow> cli_state \<Rightarrow> cli_state \<times> cli_out list" where
  "cli_assistant isLive event st =
     (case ce_message event of
        None \<Rightarrow> (st, [])
      | Some m \<Rightarrow>
          if cs_batch st \<and> cs_calls st \<noteq> [] then (st, [])
          else (case cli_each (cli_block isLive) (clm_content m) st of (st1, outs) \<Rightarrow> (cli_usage (clm_usage m) st1, outs)))"

text \<open>The process is killed when everything that is needed from it is there.\<close>

definition cli_kill :: "cli_state \<Rightarrow> cli_state" where
  "cli_kill st =
     (if cs_batch st \<and> cs_calls st \<noteq> [] \<and> cs_pending st = [] \<and> cs_pipe st then st\<lparr>cs_pipe := False, cs_killed := True\<rparr> else st)"

definition cli_tool_result :: "bool \<Rightarrow> claudeBlock \<Rightarrow> cli_state \<Rightarrow> cli_state \<times> cli_out list" where
  "cli_tool_result isLive b st =
     (if cb_type b \<noteq> ''tool_result'' \<or> cb_use b = [] then (st, [])
      else
        (case mget (cs_pending st) (cb_use b) of
           Some u \<Rightarrow>
             (let u1 = u\<lparr>btu_result := ResultContent b\<rparr> in
              (cli_kill (st\<lparr>cs_completed := cs_completed st @ [u1], cs_pending := mdel (cb_use b) (cs_pending st), cs_seenResult := True\<rparr>),
               [use_out u1]))
         | None \<Rightarrow>
             if isLive then (st\<lparr>cs_live := mput (cb_use b) (ResultContent b) (cs_live st), cs_seenResult := True\<rparr>, [])
             else (st, [])))"

definition cli_user :: "bool \<Rightarrow> claudeEvent \<Rightarrow> cli_state \<Rightarrow> cli_state \<times> cli_out list" where
  "cli_user isLive event st =
     (case ce_message event of None \<Rightarrow> (st, []) | Some m \<Rightarrow> cli_each (cli_tool_result isLive) (clm_content m) st)"

definition cli_snapshot :: "claudeRateLimitInfo option \<Rightarrow> cli_state \<Rightarrow> cli_state" where
  "cli_snapshot info st =
     (case info of
        None \<Rightarrow> st
      | Some r \<Rightarrow> st\<lparr>cs_resets := rli_resets r, cs_status := rli_status r, cs_type := rli_type r\<rparr>)"

definition cli_limited :: "int \<Rightarrow> claudeRateLimitInfo option \<Rightarrow> cli_result option" where
  "cli_limited now info =
     (case info of
        None \<Rightarrow> None
      | Some r \<Rightarrow>
          if rli_status r = ''allowed'' then None
          else Some (CliLimited (if 0 < rli_resets r then max 0 (rli_resets r - now) else 0) (rli_resets r) (rli_status r) (rli_type r)))"

definition cli_batch :: "bool \<Rightarrow> cli_state \<Rightarrow> cli_state" where
  "cli_batch isLive st = (if isLive then st else cli_kill (st\<lparr>cs_batch := True\<rparr>))"

definition cli_total :: "(number \<Rightarrow> bool) \<Rightarrow> claudeEvent \<Rightarrow> cli_state \<Rightarrow> cli_state" where
  "cli_total positive event st =
     (let st1 = (case ce_usage event of
          None \<Rightarrow> st
        | Some u \<Rightarrow> st\<lparr>cs_input := max (cs_input st) (totalInputTokens u), cs_output := max (cs_output st) (cu_output u)\<rparr>)
      in st1\<lparr>cs_cost := (if positive (ce_cost event) then ce_cost event else cs_cost st),
           cs_session := or_else (ce_session event) (cs_session st), cs_pipe := False\<rparr>)"

definition control_reply :: "string \<Rightarrow> claudeControlRequest \<Rightarrow> json" where
  "control_reply requestID r = JObj
     [(''response'', JObj
         [(''request_id'', JStr requestID),
          (''response'',
             if HasPrefix (ccr_tool r) ''mcp__''
             then JObj [(''behavior'', JStr ''deny''), (''message'', JStr ''Tool execution is handled externally'')]
             else JObj [(''behavior'', JStr ''allow''),
               (''updatedInput'', (case ccr_input r of None \<Rightarrow> JObj [] | Some JNull \<Rightarrow> JObj [] | Some j \<Rightarrow> j))]),
          (''subtype'', JStr ''success'')]),
      (''type'', JStr ''control_response'')]"

definition cli_control :: "claudeEvent \<Rightarrow> cli_state \<Rightarrow> cli_out list" where
  "cli_control event st =
     (case ce_request event of
        None \<Rightarrow> []
      | Some r \<Rightarrow> if ccr_subtype r \<noteq> ''can_use_tool'' \<or> \<not> cs_pipe st then [] else [CliLostReply (control_reply (ce_requestID event) r)])"

definition cli_event :: "bool \<Rightarrow> (number \<Rightarrow> bool) \<Rightarrow> claudeEvent \<Rightarrow> cli_state \<Rightarrow> cli_state \<times> cli_out list" where
  "cli_event isLive positive event st =
     (if ce_type event = ''assistant'' then cli_assistant isLive event st
      else if ce_type event = ''user'' then cli_user isLive event st
      else if ce_type event = ''rate_limit_event'' then (cli_batch isLive (cli_snapshot (ce_limit event) st), [])
      else if ce_type event = ''result'' then (cli_total positive event st, [])
      else if ce_type event = ''control_request'' then (st, cli_control event st)
      else (st, []))"

definition line_event :: "string \<Rightarrow> claudeEvent option" where
  "line_event line =
     (if line = [] then None
      else (case Unmarshal dec_claudeEvent line zero_claudeEvent of (event, ok) \<Rightarrow> if ok then Some event else None))"

fun cli_events :: "bool \<Rightarrow> (number \<Rightarrow> bool) \<Rightarrow> int \<Rightarrow> claudeEvent list \<Rightarrow> cli_state \<Rightarrow> cli_out list \<times> (cli_result + cli_state)" where
  "cli_events isLive positive now [] st = ([], Inr st)"
| "cli_events isLive positive now (event # events) st =
     (case (if ce_type event = ''rate_limit_event'' then cli_limited now (ce_limit event) else None) of
        Some r \<Rightarrow> ([], Inl r)
      | None \<Rightarrow>
          (case cli_event isLive positive event st of
             (st1, outs1) \<Rightarrow>
               (case cli_events isLive positive now events st1 of (outs2, res) \<Rightarrow> (outs1 @ outs2, res))))"

text \<open>A line of a megabyte or more ends the reading, without an error.\<close>

definition cli_read :: "string \<Rightarrow> claudeEvent list" where
  "cli_read stdout = List.map_filter line_event (fst (scan_upto 1048575 stdout))"

section \<open>The end of the run\<close>

definition live_uses :: "cli_state \<Rightarrow> BuiltinToolUse list" where
  "live_uses st = map (\<lambda>tc. \<lparr>btu_id = tc_id tc, btu_name = tf_name (tc_fn tc), btu_args = tf_args (tc_fn tc),
     btu_result = (case mget (cs_live st) (tc_id tc) of Some r \<Rightarrow> r | None \<Rightarrow> [])\<rparr>) (cs_calls st)"

definition cli_complete :: "bool \<Rightarrow> cli_state \<Rightarrow> cli_out list \<times> cli_result" where
  "cli_complete isLive st =
     (let calls = (if isLive then [] else cs_calls st);
          uses = cs_completed st @ (if isLive then live_uses st else [])
      in if calls = [] \<and> uses = [] \<and> Contains (ToLower (cs_full st)) ''prompt is too long'' then ([], CliTooLong)
         else
           (let pre = (if calls \<noteq> [] \<or> uses \<noteq> [] then cs_pre st else cs_full st);
                post = (if calls = [] \<and> uses \<noteq> [] then cs_post st else [])
            in ([CliComplete pre post (cs_reasoning st) (cs_input st) (cs_output st) (cs_cost st) (cs_session st)
                   (cs_status st) (cs_resets st) (cs_type st) calls uses], CliDone)))"

definition stderr_text :: "string \<Rightarrow> string" where
  "stderr_text s = (let t = TrimSpace s in if 4096 < length t then take 4096 t @ ''...(truncated)'' else t)"

definition cli_exit :: "bool \<Rightarrow> bool \<Rightarrow> claude_run \<Rightarrow> cli_state \<Rightarrow> cli_out list \<times> cli_result" where
  "cli_exit isLive stopped run st =
     (case crn_exit run of
        None \<Rightarrow> cli_complete isLive st
      | Some e \<Rightarrow>
          if cs_full st \<noteq> [] \<or> cs_calls st \<noteq> [] then cli_complete isLive st
          else if stopped then ([], CliDone)
          else
            (let stderr = stderr_text (crn_stderr run) in
             if Contains stderr ''cache_control'' \<and> Contains stderr ''maximum of 4'' then ([], CliCacheRetry)
             else if stderrIndicatesImageLoadError stderr then ([], CliImageRetry)
             else ([CliError (''claude exited: '' @ e) stderr], CliDone)))"

definition cli_unresolved :: "cli_state \<Rightarrow> cli_out list" where
  "cli_unresolved st = map (\<lambda>(k, u). CliBuiltin (btu_id u) (btu_name u) (btu_args u) []) (cs_pending st)"

definition cli_outcome :: "bool \<Rightarrow> bool \<Rightarrow> claude_run \<Rightarrow> cli_out list \<times> (cli_result + cli_state) \<Rightarrow> cli_out list \<times> cli_result" where
  "cli_outcome isLive stopped run r =
     (case r of
        (outs, Inl res) \<Rightarrow> (outs, res)
      | (outs, Inr st) \<Rightarrow>
          (case cli_exit isLive stopped run st of (outs2, res) \<Rightarrow> (outs @ cli_unresolved st @ outs2, res)))"

definition runJobOnce :: "cli_env \<Rightarrow> JobMessage \<Rightarrow> JobConfig \<Rightarrow> cli_out list \<times> cli_result" where
  "runJobOnce env job cfg =
     (case cli_setup env job cfg of
        Inl (msg, details) \<Rightarrow> ([CliError msg details], CliDone)
      | Inr (cmd, msg) \<Rightarrow>
          (let run = cle_run env cmd msg in
           cli_outcome (jc_live cfg) (cle_stopped env) run
             (cli_events (jc_live cfg) (cle_positive env) (cle_now env) (cli_read (crn_stdout run)) cli_init)))"

definition prompt_too_long_messages :: "ChatMessage list \<Rightarrow> ChatMessage list option" where
  "prompt_too_long_messages msgs = map_option trimOldestMessages (stripJobImagesExceptLatestInCurrentTurn msgs)"

definition retry_job :: "cli_result \<Rightarrow> JobMessage \<Rightarrow> JobMessage option" where
  "retry_job res job =
     (case res of
        CliCacheRetry \<Rightarrow> Some job
      | CliImageRetry \<Rightarrow> Some (job\<lparr>jm_messages := stripJobChatMessages (jm_messages job)\<rparr>)
      | CliTooLong \<Rightarrow> map_option (\<lambda>msgs. job\<lparr>jm_messages := msgs\<rparr>) (prompt_too_long_messages (jm_messages job))
      | _ \<Rightarrow> None)"

text \<open>A second attempt, in \<open>env2\<close>: what it returns is ignored.\<close>

definition RunJob :: "cli_env \<Rightarrow> cli_env \<Rightarrow> JobMessage \<Rightarrow> JobConfig \<Rightarrow> cli_out list" where
  "RunJob env env2 job cfg =
     (case runJobOnce env job cfg of
        (outs, CliDone) \<Rightarrow> outs
      | (outs, CliLimited secs resets status limit) \<Rightarrow> outs @ [CliOverload secs resets status limit]
      | (outs, res) \<Rightarrow>
          outs @ (case retry_job res job of None \<Rightarrow> [CliPanic] | Some job2 \<Rightarrow> fst (runJobOnce env2 job2 cfg)))"

section \<open>The invariant of a run\<close>

text \<open>
  A call was seen when there is one; text that is not shown is what follows a call outside live mode; what is
  shown as the text after the tools follows a result; and Claude is killed only when the batch
  is complete, has calls, and no result of a tool of its own is outstanding.
\<close>

definition cs_inv :: "bool \<Rightarrow> cli_state \<Rightarrow> bool" where
  "cs_inv isLive st \<longleftrightarrow>
     (cs_seenMCP st \<longleftrightarrow> cs_calls st \<noteq> []) \<and>
     (isLive \<or> \<not> cs_seenMCP st \<longrightarrow> cs_full st = cs_pre st @ cs_post st) \<and>
     (cs_post st \<noteq> [] \<longrightarrow> cs_seenResult st) \<and>
     (cs_batch st \<longrightarrow> \<not> isLive) \<and>
     (cs_killed st \<longrightarrow> cs_batch st \<and> cs_calls st \<noteq> [] \<and> cs_pending st = [] \<and> \<not> cs_pipe st)"

definition cli_said :: "cli_out list \<Rightarrow> string" where
  "cli_said outs = concat (map (\<lambda>c. case c of CliToken t \<Rightarrow> t | _ \<Rightarrow> []) outs)"

definition cli_terminal :: "cli_out \<Rightarrow> bool" where
  "cli_terminal c \<longleftrightarrow> (case c of CliComplete _ _ _ _ _ _ _ _ _ _ _ _ \<Rightarrow> True | CliError _ _ \<Rightarrow> True | CliOverload _ _ _ _ \<Rightarrow> True
     | CliPanic \<Rightarrow> True | _ \<Rightarrow> False)"

text \<open>An operation keeps the invariant, says what it adds to the texts, and ends nothing.\<close>

definition cli_step_ok :: "bool \<Rightarrow> cli_state \<Rightarrow> cli_state \<times> cli_out list \<Rightarrow> bool" where
  "cli_step_ok isLive st r \<longleftrightarrow> (case r of (st', outs) \<Rightarrow>
     cs_inv isLive st' \<and> cs_pre st' @ cs_post st' = cs_pre st @ cs_post st @ cli_said outs \<and> list_all (\<lambda>c. \<not> cli_terminal c) outs)"

lemma cli_said_simps [simp]:
  "cli_said [] = []" "cli_said (CliToken t # outs) = t @ cli_said outs" "cli_said (xs @ ys) = cli_said xs @ cli_said ys"
  "cli_said (CliReasoning t # outs) = cli_said outs" "cli_said (CliBuiltin i n a r # outs) = cli_said outs"
  "cli_said (CliLostReply j # outs) = cli_said outs"
  by (simp_all add: cli_said_def)

lemma cli_terminal_simps [simp]:
  "\<not> cli_terminal (CliToken t)" "\<not> cli_terminal (CliReasoning t)" "\<not> cli_terminal (CliBuiltin i n a r)" "\<not> cli_terminal (CliLostReply j)"
  "cli_terminal (CliComplete pre post reasoning ins outs cost ses status resets limit calls uses)" "cli_terminal (CliError m d)"
  "cli_terminal (CliOverload secs resets status limit)" "cli_terminal CliPanic"
  by (simp_all add: cli_terminal_def)

lemma step_ok_same: "cs_inv isLive st \<Longrightarrow> cli_step_ok isLive st (st, [])"
  by (simp add: cli_step_ok_def)

lemma cli_text_ok: "cs_inv isLive st \<Longrightarrow> \<not> cs_killed st \<Longrightarrow> cli_step_ok isLive st (cli_text isLive t st)"
  by (auto simp: cli_text_def Let_def cs_inv_def cli_step_ok_def)

lemma cli_block_ok: "cs_inv isLive st \<Longrightarrow> \<not> cs_killed st \<Longrightarrow> cli_step_ok isLive st (cli_block isLive b st)"
  using cli_text_ok [of isLive st "cb_text b"]
  by (simp add: cli_block_def; simp add: cs_inv_def cli_step_ok_def call_out_def)

lemma cli_block_killed: "cs_killed (fst (cli_block isLive b st)) = cs_killed st"
  by (simp add: cli_block_def cli_text_def Let_def)

lemma cli_kill_ok:
  assumes "cs_inv isLive (st\<lparr>cs_killed := False\<rparr>)" and "cs_killed st \<longrightarrow> cs_pending st = [] \<and> \<not> cs_pipe st \<and> cs_batch st \<and> cs_calls st \<noteq> []"
  shows "cs_inv isLive (cli_kill st) \<and> cs_pre (cli_kill st) = cs_pre st \<and> cs_post (cli_kill st) = cs_post st"
  using assms by (auto simp: cli_kill_def cs_inv_def)

lemma cli_tool_result_ok: "cs_inv isLive st \<Longrightarrow> cli_step_ok isLive st (cli_tool_result isLive b st)"
proof -
  assume inv: "cs_inv isLive st"
  show ?thesis
  proof (cases "cb_type b \<noteq> ''tool_result'' \<or> cb_use b = []")
    case True
    then show ?thesis using inv by (simp add: cli_tool_result_def step_ok_same)
  next
    case False
    show ?thesis
    proof (cases "mget (cs_pending st) (cb_use b)")
      case None
      then show ?thesis using inv False by (auto simp: cli_tool_result_def cs_inv_def cli_step_ok_def)
    next
      case (Some u)
      then have "\<not> cs_killed st" using inv by (auto simp: cs_inv_def)
      then show ?thesis using inv Some False cli_kill_ok [of isLive "st\<lparr>cs_completed := cs_completed st @ [u\<lparr>btu_result := ResultContent b\<rparr>],
          cs_pending := mdel (cb_use b) (cs_pending st), cs_seenResult := True\<rparr>"]
        by (simp add: cli_tool_result_def Let_def cli_step_ok_def use_out_def cs_inv_def)
    qed
  qed
qed

lemma cli_each_ok:
  assumes "\<And>b st. cs_inv isLive st \<Longrightarrow> P st \<Longrightarrow> cli_step_ok isLive st (f b st) \<and> P (fst (f b st))"
  shows "cs_inv isLive st \<Longrightarrow> P st \<Longrightarrow> cli_step_ok isLive st (cli_each f bs st)"
proof (induction bs arbitrary: st)
  case (Cons b bs)
  obtain st1 outs1 where f: "f b st = (st1, outs1)" by (cases "f b st")
  have one: "cli_step_ok isLive st (st1, outs1)" "P st1" using assms [OF Cons.prems, of b] by (simp_all add: f)
  then have "cli_step_ok isLive st1 (cli_each f bs st1)" using Cons.IH by (simp add: cli_step_ok_def)
  then show ?case using one(1) by (auto simp: f cli_step_ok_def split: prod.splits)
qed (simp add: step_ok_same)

lemma cli_usage_ok: "cli_step_ok isLive st (st', outs) \<Longrightarrow> cli_step_ok isLive st (cli_usage u st', outs)"
  by (simp add: cli_usage_def cli_step_ok_def cs_inv_def split: option.splits)

lemma cli_assistant_ok: "cs_inv isLive st \<Longrightarrow> cli_step_ok isLive st (cli_assistant isLive event st)"
proof (cases "ce_message event")
  case (Some m)
  assume inv: "cs_inv isLive st"
  show ?thesis
  proof (cases "cs_batch st \<and> cs_calls st \<noteq> []")
    case False
    then have "\<not> cs_killed st" using inv by (auto simp: cs_inv_def)
    then have "cli_step_ok isLive st (cli_each (cli_block isLive) (clm_content m) st)"
      using inv by (intro cli_each_ok [where P = "\<lambda>st. \<not> cs_killed st"]) (simp_all add: cli_block_ok cli_block_killed)
    moreover have "cli_assistant isLive event st =
        (case cli_each (cli_block isLive) (clm_content m) st of (st1, outs) \<Rightarrow> (cli_usage (clm_usage m) st1, outs))"
      using False by (simp only: cli_assistant_def Some option.case if_False)
    ultimately show ?thesis by (cases "cli_each (cli_block isLive) (clm_content m) st") (simp add: cli_usage_ok)
  qed (simp add: Some cli_assistant_def inv step_ok_same)
qed (simp add: cli_assistant_def step_ok_same)

lemma cli_user_ok: "cs_inv isLive st \<Longrightarrow> cli_step_ok isLive st (cli_user isLive event st)"
  using cli_each_ok [where P = "\<lambda>_. True" and f = "cli_tool_result isLive" and isLive = isLive] cli_tool_result_ok
  by (cases "ce_message event") (simp_all add: cli_user_def step_ok_same)

lemma cli_snapshot_inv: "cs_inv isLive (cli_snapshot info st) = cs_inv isLive st"
  by (simp add: cli_snapshot_def cs_inv_def split: option.splits)

lemma cli_batch_ok: "cs_inv isLive st \<Longrightarrow> cli_step_ok isLive st (cli_batch isLive st, [])"
  by (auto simp: cli_batch_def cli_kill_def cs_inv_def cli_step_ok_def)

lemma cli_total_ok: "cs_inv isLive st \<Longrightarrow> cli_step_ok isLive st (cli_total positive event st, [])"
  by (simp add: cli_total_def Let_def cs_inv_def cli_step_ok_def split: option.splits)

lemma cli_event_ok: "cs_inv isLive st \<Longrightarrow> cli_step_ok isLive st (cli_event isLive positive event st)"
proof -
  assume inv: "cs_inv isLive st"
  have "cli_step_ok isLive (cli_snapshot (ce_limit event) st) (cli_batch isLive (cli_snapshot (ce_limit event) st), [])"
    using inv by (simp add: cli_batch_ok cli_snapshot_inv)
  then have "cli_step_ok isLive st (cli_batch isLive (cli_snapshot (ce_limit event) st), [])"
    by (simp add: cli_step_ok_def cli_snapshot_def split: option.splits)
  moreover have "cli_step_ok isLive st (st, cli_control event st)"
    using inv by (simp add: cli_control_def cli_step_ok_def split: option.splits)
  ultimately show ?thesis using inv
    by (simp add: cli_event_def cli_assistant_ok cli_user_ok cli_total_ok step_ok_same)
qed

lemma cli_events_ok:
  "cs_inv isLive st \<Longrightarrow> cli_events isLive positive now events st = (outs, res) \<Longrightarrow>
     list_all (\<lambda>c. \<not> cli_terminal c) outs \<and> res \<noteq> Inl CliDone \<and>
     (\<forall>st'. res = Inr st' \<longrightarrow> cs_inv isLive st' \<and> cs_pre st' @ cs_post st' = cs_pre st @ cs_post st @ cli_said outs)"
proof (induction events arbitrary: st outs res)
  case (Cons event events)
  show ?case
  proof (cases "if ce_type event = ''rate_limit_event'' then cli_limited now (ce_limit event) else None")
    case (Some r)
    then have "r \<noteq> CliDone" by (auto simp: cli_limited_def split: if_splits option.splits)
    then show ?thesis using Cons.prems(2) Some by auto
  next
    case None
    obtain st1 outs1 where e: "cli_event isLive positive event st = (st1, outs1)" by (cases "cli_event isLive positive event st")
    have ok: "cli_step_ok isLive st (st1, outs1)" using cli_event_ok [OF Cons.prems(1), of positive event] by (simp add: e)
    obtain outs2 res2 where r: "cli_events isLive positive now events st1 = (outs2, res2)" by (cases "cli_events isLive positive now events st1")
    have "outs = outs1 @ outs2" "res = res2" using Cons.prems(2) unfolding cli_events.simps None option.case e prod.case r by simp_all
    then show ?thesis using ok Cons.IH [OF _ r] by (auto simp: cli_step_ok_def)
  qed
qed simp

lemma cli_init_inv: "cs_inv isLive cli_init"
  by (simp add: cs_inv_def cli_init_def)

text \<open>Of every run the process was killed only when everything that it was needed for was there.\<close>

lemma killed_when_complete:
  assumes "cli_events isLive positive now events cli_init = (outs, Inr st)" and "cs_killed st"
  shows "\<not> isLive \<and> cs_calls st \<noteq> [] \<and> cs_pending st = []"
  using cli_events_ok [OF cli_init_inv assms(1)] assms(2) by (auto simp: cs_inv_def)

section \<open>The outcome\<close>

text \<open>What the end of a run puts out: one outcome, or none when the run is to be tried again or nobody waits for it.\<close>

definition ends_well :: "bool \<Rightarrow> cli_out list \<times> cli_result \<Rightarrow> bool" where
  "ends_well stopped r \<longleftrightarrow> (case r of (outs, res) \<Rightarrow>
     (if res = CliDone then (\<exists>t. outs = [t] \<and> cli_terminal t) \<or> stopped \<and> outs = [] else outs = []))"

lemma cli_complete_ends: "ends_well stopped (cli_complete isLive st)"
  unfolding cli_complete_def Let_def ends_well_def by (simp split: if_split)

lemma cli_exit_ends: "ends_well stopped (cli_exit isLive stopped run st)"
proof (cases "crn_exit run")
  case None
  then show ?thesis by (simp add: cli_exit_def cli_complete_ends)
next
  case (Some e)
  then show ?thesis using cli_complete_ends [of stopped isLive st]
    unfolding cli_exit_def Some option.case Let_def by (simp add: ends_well_def)
qed

text \<open>One run: what it puts out and what it returns.\<close>

definition run_shape :: "bool \<Rightarrow> cli_out list \<times> cli_result \<Rightarrow> bool" where
  "run_shape stopped r \<longleftrightarrow> (case r of (outs, res) \<Rightarrow>
     \<exists>before last. outs = before @ last \<and> list_all (\<lambda>c. \<not> cli_terminal c) before \<and> ends_well stopped (last, res))"

lemma unresolved_quiet: "list_all (\<lambda>c. \<not> cli_terminal c) (cli_unresolved st)" "cli_said (cli_unresolved st) = []"
  by (auto simp: cli_unresolved_def list_all_iff cli_said_def)

lemma cli_outcome_shape:
  assumes "cli_events isLive positive now events cli_init = r"
  shows "run_shape stopped (cli_outcome isLive stopped run r)"
proof (cases r)
  case (Pair outs res)
  note ok = cli_events_ok [OF cli_init_inv assms [unfolded Pair]]
  show ?thesis
  proof (cases res)
    case (Inl x)
    then show ?thesis using ok unfolding Pair
      by (auto simp: cli_outcome_def run_shape_def ends_well_def intro!: exI [of _ outs])
  next
    case (Inr st)
    obtain outs2 res2 where e: "cli_exit isLive stopped run st = (outs2, res2)" by (cases "cli_exit isLive stopped run st")
    have "list_all (\<lambda>c. \<not> cli_terminal c) (outs @ cli_unresolved st)" using ok unresolved_quiet(1) by simp
    moreover have "ends_well stopped (outs2, res2)" using cli_exit_ends [of stopped isLive run st] by (simp only: e)
    ultimately show ?thesis unfolding Pair Inr cli_outcome_def prod.case sum.case e run_shape_def
      by (intro exI [of _ "outs @ cli_unresolved st"] exI [of _ outs2]) simp
  qed
qed

lemma runJobOnce_shape: "run_shape (cle_stopped env) (runJobOnce env job cfg)"
proof (cases "cli_setup env job cfg")
  case (Inl err)
  then show ?thesis by (cases err) (simp add: runJobOnce_def run_shape_def ends_well_def, rule exI [of _ "[]"], simp)
next
  case (Inr p)
  then show ?thesis by (cases p) (simp only: runJobOnce_def sum.case prod.case Let_def cli_outcome_shape [OF refl])
qed

definition one_outcome :: "cli_out list \<Rightarrow> bool" where
  "one_outcome outs \<longleftrightarrow> (\<exists>before t. outs = before @ [t] \<and> list_all (\<lambda>c. \<not> cli_terminal c) before \<and> cli_terminal t)"

lemma run_done_one: "run_shape False (outs, CliDone) \<Longrightarrow> one_outcome outs"
  by (auto simp: run_shape_def ends_well_def one_outcome_def)

lemma run_retry_none: "run_shape stopped (outs, res) \<Longrightarrow> res \<noteq> CliDone \<Longrightarrow> list_all (\<lambda>c. \<not> cli_terminal c) outs"
  by (auto simp: run_shape_def ends_well_def)

lemma one_outcome_append: "list_all (\<lambda>c. \<not> cli_terminal c) before \<Longrightarrow> one_outcome outs \<Longrightarrow> one_outcome (before @ outs)"
  unfolding one_outcome_def by (metis append.assoc list_all_append)

lemma one_outcome_single: "cli_terminal t \<Longrightarrow> one_outcome [t]"
  by (auto simp: one_outcome_def)


definition demo_line :: "string \<Rightarrow> json list \<Rightarrow> string" where
  "demo_line role blocks = json_text (JObj [(''type'', JStr role), (''message'', JObj [(''content'', JArr blocks)])]) @ [CHR 0x0A]"

definition demo_claude :: "(claude_cmd \<Rightarrow> json \<Rightarrow> claude_run) \<Rightarrow> cli_env" where
  "demo_claude run = \<lparr>cle_environ = [], cle_now = 0, cle_positive = (\<lambda>n. False), cle_time = [], cle_real = (\<lambda>d. None), cle_uuid = (\<lambda>n. []),
     cle_badJSON = [], cle_binary = ''auxot-worker'', cle_fault = (\<lambda>s. None), cle_path = (\<lambda>s. ''/tmp/f''), cle_run = run, cle_stopped = False\<rparr>"

definition demo_cli_job :: JobMessage where
  "demo_cli_job = zero_JobMessage\<lparr>jm_job := ''J'', jm_messages := [demo_cli ''user'' (JStr ''Hi'')]\<rparr>"

definition demo_config :: JobConfig where
  "demo_config = \<lparr>jc_path = [], jc_model = [], jc_builtins = [''Bash''], jc_workDir = [], jc_configDir = [], jc_live = False, jc_onToolCall = False\<rparr>"

definition demo_failing :: cli_env where
  "demo_failing = demo_claude (\<lambda>cmd msg. \<lparr>crn_stdout = [], crn_stderr = ''Could not process image'', crn_exit = Some ''exit status 1''\<rparr>)"

definition demo_missing :: cli_env where
  "demo_missing = demo_failing\<lparr>cle_fault := (\<lambda>s. if s = Start then Some ''no such file'' else None)\<rparr>"

definition demo_answer :: cli_env where
  "demo_answer = demo_claude (\<lambda>cmd msg. \<lparr>crn_stdout =
     demo_line ''assistant'' [JObj [(''type'', JStr ''text''), (''text'', JStr ''Hi'')]], crn_stderr = [], crn_exit = None\<rparr>)"


text \<open>A second attempt that is cut off by a rate limit, or is to be tried again, is lost: nobody hears of the job.\<close>

lemma second_retry_silent:
  assumes "runJobOnce env job cfg = (outs, CliCacheRetry)" and "snd (runJobOnce env2 job cfg) \<noteq> CliDone"
  shows "list_all (\<lambda>c. \<not> cli_terminal c) (RunJob env env2 job cfg)"
proof -
  have "list_all (\<lambda>c. \<not> cli_terminal c) outs"
    using run_retry_none [of "cle_stopped env" outs CliCacheRetry] runJobOnce_shape [of env job cfg] by (simp add: assms(1))
  moreover have "list_all (\<lambda>c. \<not> cli_terminal c) (fst (runJobOnce env2 job cfg))"
    using runJobOnce_shape [of env2 job cfg] assms(2) run_retry_none by (cases "runJobOnce env2 job cfg") simp
  ultimately show ?thesis by (simp add: RunJob_def assms(1) retry_job_def)
qed

section \<open>The texts of a completion\<close>

lemma cli_exit_complete:
  "CliComplete pre post reasoning ins outp cost ses status resets limit calls uses \<in> set (fst (cli_exit isLive stopped run st)) \<Longrightarrow>
     cli_exit isLive stopped run st = cli_complete isLive st"
  by (cases "crn_exit run"; cases "cs_full st \<noteq> [] \<or> cs_calls st \<noteq> []") (simp_all add: cli_exit_def Let_def split: if_split_asm)

lemma cli_complete_one: "c \<in> set (fst (cli_complete isLive st)) \<Longrightarrow> cli_complete isLive st = ([c], CliDone)"
  unfolding cli_complete_def Let_def by (simp split: if_split_asm)

text \<open>A completion comes from the state that all events of the process lead to.\<close>

lemma completion_state:
  assumes "runJobOnce env job cfg = (outs, res)" and "c \<in> set outs"
    and c: "c = CliComplete pre post reasoning ins outp cost ses status resets limit calls uses"
  obtains cmd msg outs1 st where "cli_setup env job cfg = Inr (cmd, msg)"
    "cli_events (jc_live cfg) (cle_positive env) (cle_now env) (cli_read (crn_stdout (cle_run env cmd msg))) cli_init = (outs1, Inr st)"
    "outs = outs1 @ cli_unresolved st @ [c]" "cli_complete (jc_live cfg) st = ([c], CliDone)"
proof -
  obtain cmd msg where s: "cli_setup env job cfg = Inr (cmd, msg)"
    using assms by (cases "cli_setup env job cfg") (auto simp: runJobOnce_def)
  define run where "run = cle_run env cmd msg"
  define ev where "ev = cli_events (jc_live cfg) (cle_positive env) (cle_now env) (cli_read (crn_stdout run)) cli_init"
  obtain outs1 r1 where e: "ev = (outs1, r1)" by (cases ev)
  note ok = cli_events_ok [OF cli_init_inv e [unfolded ev_def]]
  have o: "(outs, res) = cli_outcome (jc_live cfg) (cle_stopped env) run (outs1, r1)"
    using assms(1) s by (simp add: runJobOnce_def Let_def run_def [symmetric] ev_def [symmetric] e)
  have quiet1: "c \<notin> set outs1" using ok by (auto simp: list_all_iff c)
  show thesis
  proof (cases r1)
    case (Inl x)
    then show ?thesis using o quiet1 assms(2) by (simp add: cli_outcome_def)
  next
    case (Inr st)
    obtain outs2 res2 where x: "cli_exit (jc_live cfg) (cle_stopped env) run st = (outs2, res2)"
      by (cases "cli_exit (jc_live cfg) (cle_stopped env) run st")
    have all: "outs = outs1 @ cli_unresolved st @ outs2" using o by (simp add: Inr cli_outcome_def x)
    have "c \<notin> set (cli_unresolved st)" using unresolved_quiet(1) [of st] by (auto simp: list_all_iff c)
    then have "c \<in> set outs2" using quiet1 assms(2) all by simp
    then have ex: "(outs2, res2) = cli_complete (jc_live cfg) st"
      using cli_exit_complete [of pre post reasoning ins outp cost ses status resets limit calls uses "jc_live cfg" "cle_stopped env" run st]
      by (simp add: x c)
    then have "outs2 = [c]" "cli_complete (jc_live cfg) st = ([c], CliDone)"
      using cli_complete_one [of c "jc_live cfg" st] \<open>c \<in> set outs2\<close> by (simp_all add: ex [symmetric])
    with that [OF s] e show ?thesis by (simp only: ev_def run_def Inr all)
  qed
qed



section \<open>Calls in live mode\<close>

definition mcp_blocks :: "claudeEvent \<Rightarrow> claudeBlock list" where
  "mcp_blocks event =
     (if ce_type event = ''assistant'' then
        (case ce_message event of
           None \<Rightarrow> []
         | Some m \<Rightarrow> filter (\<lambda>b. cb_type b = ''tool_use'' \<and> HasPrefix (cb_name b) ''mcp__'') (clm_content m))
      else [])"

lemma cli_each_fst: "f b st = (st1, outs1) \<Longrightarrow> fst (cli_each f (b # bs) st) = fst (cli_each f bs st1)"
  by (simp add: case_prod_unfold)

lemma cli_blocks_calls:
  "cs_calls (fst (cli_each (cli_block isLive) bs st)) =
     cs_calls st @ map cli_call (filter (\<lambda>b. cb_type b = ''tool_use'' \<and> HasPrefix (cb_name b) ''mcp__'') bs)"
proof (induction bs arbitrary: st)
  case (Cons b bs)
  obtain st1 outs1 where b: "cli_block isLive b st = (st1, outs1)" by (cases "cli_block isLive b st")
  have "cs_calls st1 = cs_calls st @ (if cb_type b = ''tool_use'' \<and> HasPrefix (cb_name b) ''mcp__'' then [cli_call b] else [])"
    using b by (auto simp: cli_block_def cli_text_def Let_def split: if_splits)
  moreover have "fst (cli_each (cli_block isLive) (b # bs) st) = fst (cli_each (cli_block isLive) bs st1)" by (rule cli_each_fst) (rule b)
  ultimately show ?case using Cons.IH [of st1] by (simp del: cli_each.simps)
qed simp

lemma cli_results_calls: "cs_calls (fst (cli_each (cli_tool_result isLive) bs st)) = cs_calls st"
proof (induction bs arbitrary: st)
  case (Cons b bs)
  obtain st1 outs1 where b: "cli_tool_result isLive b st = (st1, outs1)" by (cases "cli_tool_result isLive b st")
  have "cs_calls st1 = cs_calls st"
    using b by (auto simp: cli_tool_result_def cli_kill_def Let_def split: if_splits option.splits)
  moreover have "fst (cli_each (cli_tool_result isLive) (b # bs) st) = fst (cli_each (cli_tool_result isLive) bs st1)" by (rule cli_each_fst) (rule b)
  ultimately show ?case using Cons.IH [of st1] by (simp del: cli_each.simps)
qed simp

lemma cli_event_calls:
  assumes "\<not> cs_batch st"
  shows "cs_calls (fst (cli_event isLive positive event st)) = cs_calls st @ map cli_call (mcp_blocks event)"
  using assms cli_blocks_calls [of isLive _ st] cli_results_calls [of isLive _ st]
  by (simp add: cli_event_def cli_assistant_def cli_user_def cli_usage_def cli_batch_def cli_kill_def cli_snapshot_def cli_total_def Let_def
      mcp_blocks_def case_prod_unfold split: option.split)

lemma live_events_calls:
  "cs_inv True st \<Longrightarrow> cli_events True positive now events st = (outs, Inr st') \<Longrightarrow>
     cs_calls st' = cs_calls st @ map cli_call (concat (map mcp_blocks events))"
proof (induction events arbitrary: st outs)
  case (Cons event events)
  obtain st1 outs1 where e: "cli_event True positive event st = (st1, outs1)" by (cases "cli_event True positive event st")
  obtain outs2 where r: "cli_events True positive now events st1 = (outs2, Inr st')"
    using Cons.prems(2) by (auto simp: e split: option.splits prod.splits)
  have "cs_inv True st1" using cli_event_ok [OF Cons.prems(1), of positive event] by (simp add: e cli_step_ok_def)
  moreover have "cs_calls st1 = cs_calls st @ map cli_call (mcp_blocks event)"
    using cli_event_calls [of st True positive event] Cons.prems(1) by (simp add: e cs_inv_def)
  ultimately show ?case using Cons.IH [OF _ r] by simp
qed simp


definition demo_live :: cli_env where
  "demo_live = demo_claude (\<lambda>cmd msg. \<lparr>crn_stdout =
     demo_line ''assistant'' [JObj [(''type'', JStr ''tool_use''), (''id'', JStr ''t1''), (''name'', JStr ''mcp__auxot__web'')]],
     crn_stderr = [], crn_exit = None\<rparr>)"


end
