(* ===== verification/Cli_Mcp.thy ===== *)
theory Cli_Mcp
  imports Cli_Worker
begin

text \<open>
  The MCP server that Claude Code starts for the tools of a job (\<open>internal/cliworker/mcp_stdio.go\<close>) and the proxy in
  the worker that runs its calls (\<open>liveproxy.go\<close>).  The bridge from the proxy to the router is a parameter.
\<close>

section \<open>Requests\<close>

record mcpRequest =
  mrq_jsonrpc :: string
  mrq_method :: string
  mrq_params :: raw
  mrq_id :: json

definition zero_mcpRequest :: mcpRequest where
  "zero_mcpRequest = \<lparr>mrq_jsonrpc = [], mrq_method = [], mrq_params = None, mrq_id = JNull\<rparr>"

definition dec_mcpRequest :: "mcpRequest decoder" where
  "dec_mcpRequest = dec_struct
     [(''jsonrpc'', fld mrq_jsonrpc mrq_jsonrpc_update dec_string), (''method'', fld mrq_method mrq_method_update dec_string),
      (''params'', fld mrq_params mrq_params_update dec_raw), (''id'', fld mrq_id mrq_id_update dec_any)]"

text \<open>The requests among the lines of the input: a last line without its end is not read, and a notification has no identifier.\<close>

definition mcp_request :: "string \<Rightarrow> mcpRequest option" where
  "mcp_request line =
     (if line = [] then None
      else
        (case Unmarshal dec_mcpRequest line zero_mcpRequest of
           (req, ok) \<Rightarrow> if ok \<and> mrq_id req \<noteq> JNull then Some req else None))"

definition mcp_requests :: "string \<Rightarrow> mcpRequest list" where
  "mcp_requests input = List.map_filter mcp_request (butlast (Split (CHR 0x0A) input))"

definition mcpInitResult :: json where
  "mcpInitResult = JObj
     [(''capabilities'', JObj [(''tools'', JObj [])]), (''protocolVersion'', JStr ''2024-11-05''),
      (''serverInfo'', JObj [(''name'', JStr ''auxot''), (''version'', JStr ''1.0.0'')])]"

definition mcpErrorResp :: "json \<Rightarrow> int \<Rightarrow> string \<Rightarrow> json" where
  "mcpErrorResp i code msg = JObj
     [(''error'', JObj [(''code'', JNum (NInt code)), (''message'', JStr msg)]), (''id'', i), (''jsonrpc'', JStr ''2.0'')]"

definition mcpResultResp :: "json \<Rightarrow> json \<Rightarrow> json" where
  "mcpResultResp i result = JObj [(''id'', i), (''jsonrpc'', JStr ''2.0''), (''result'', result)]"

definition buildMCPTools :: "Tool list \<Rightarrow> json list" where
  "buildMCPTools tools = map (\<lambda>t. JObj
     ([(''description'', JStr (td_desc (tl_fn t)))] @
      (case td_params (tl_fn t) of None \<Rightarrow> [] | Some schema \<Rightarrow> [(''inputSchema'', schema)]) @
      [(''name'', JStr (td_name (tl_fn t)))])) tools"

text \<open>What both servers answer to a method that is no call; \<open>fmt\<close> prints a number as the float that was read.\<close>

definition mcp_plain :: "Tool list \<Rightarrow> mcpRequest \<Rightarrow> json" where
  "mcp_plain tools req =
     (if mrq_method req = ''initialize'' then mcpInitResult
      else if mrq_method req = ''tools/list'' then JObj [(''tools'', JArr (buildMCPTools tools))]
      else JObj [])"

definition mcp_reply :: "(number \<Rightarrow> number) \<Rightarrow> Tool list \<Rightarrow> mcpRequest \<Rightarrow> json" where
  "mcp_reply fmt tools req =
     (let i = via_any fmt (mrq_id req) in
      if mrq_method req = ''tools/call'' then mcpErrorResp i (- 32603) ''tool execution is handled by the auxot server''
      else mcpResultResp i (mcp_plain tools req))"

text \<open>\<open>file\<close>: the text of the file with the tools, or the error of reading it.\<close>

definition read_tools :: "string \<Rightarrow> string + string \<Rightarrow> string + Tool list" where
  "read_tools jsonErr file =
     (case file of
        Inl e \<Rightarrow> Inl (''reading tools file: '' @ e)
      | Inr data \<Rightarrow>
          (case Unmarshal (dec_slice zero_Tool dec_Tool) data [] of
             (tools, ok) \<Rightarrow> if ok then Inr tools else Inl (''parsing tools: '' @ jsonErr)))"

definition RunMCPStdio :: "(number \<Rightarrow> number) \<Rightarrow> string \<Rightarrow> string + string \<Rightarrow> string \<Rightarrow> string + json list" where
  "RunMCPStdio fmt jsonErr file input =
     (case read_tools jsonErr file of
        Inl e \<Rightarrow> Inl e
      | Inr tools \<Rightarrow> Inr (map (mcp_reply fmt tools) (mcp_requests input)))"

section \<open>The proxy\<close>

text \<open>An answer over HTTP: its status, and its body as a text and as a document.\<close>

record http_answer =
  ha_status :: nat
  ha_text :: string
  ha_doc :: "json option"

record tool_answer =
  ta_result :: string
  ta_images :: "ImagePart list"
  ta_isError :: bool

record proxy_call =
  pxc_job :: string
  pxc_call :: string
  pxc_tool :: string
  pxc_args :: string

definition zero_proxy_call :: proxy_call where
  "zero_proxy_call = \<lparr>pxc_job = [], pxc_call = [], pxc_tool = [], pxc_args = []\<rparr>"

definition enc_proxy_call :: "proxy_call \<Rightarrow> json" where
  "enc_proxy_call c = JObj
     [(''arguments'', JStr (pxc_args c)), (''call_id'', JStr (pxc_call c)), (''job_id'', JStr (pxc_job c)), (''tool_name'', JStr (pxc_tool c))]"

definition dec_proxy_call :: "proxy_call decoder" where
  "dec_proxy_call = dec_struct
     [(''job_id'', fld pxc_job pxc_job_update dec_string), (''call_id'', fld pxc_call pxc_call_update dec_string),
      (''tool_name'', fld pxc_tool pxc_tool_update dec_string), (''arguments'', fld pxc_args pxc_args_update dec_string)]"

text \<open>Of the images a nil slice is \<open>null\<close>; it is what the bridge gives when there are none.\<close>

definition enc_tool_answer :: "string + tool_answer \<Rightarrow> json" where
  "enc_tool_answer r =
     (case r of
        Inl e \<Rightarrow> JObj [(''error'', JStr e)]
      | Inr a \<Rightarrow> JObj
          [(''image_parts'', if ta_images a = [] then JNull else JArr (map enc_ImagePart (ta_images a))),
           (''is_error'', JBool (ta_isError a)), (''result'', JStr (ta_result a))])"

definition liveproxy_handle :: "string \<Rightarrow> (proxy_call \<Rightarrow> string + tool_answer) \<Rightarrow> string \<Rightarrow> json option \<Rightarrow> http_answer" where
  "liveproxy_handle jsonErr onToolCall method body =
     (if method \<noteq> ''POST'' then \<lparr>ha_status = 405, ha_text = ''method not allowed'' @ [CHR 0x0A], ha_doc = None\<rparr>
      else
        (case body of
           None \<Rightarrow> \<lparr>ha_status = 400, ha_text = ''bad request: '' @ jsonErr @ [CHR 0x0A], ha_doc = None\<rparr>
         | Some j \<Rightarrow>
             (case dec_proxy_call j zero_proxy_call of
                (c, False) \<Rightarrow> \<lparr>ha_status = 400, ha_text = ''bad request: '' @ jsonErr @ [CHR 0x0A], ha_doc = None\<rparr>
              | (c, True) \<Rightarrow>
                  (let doc = enc_tool_answer (onToolCall c) in
                   \<lparr>ha_status = 200, ha_text = json_text doc @ [CHR 0x0A], ha_doc = Some doc\<rparr>))))"

record proxy_answer =
  pxa_result :: string
  pxa_isError :: bool
  pxa_images :: "ImagePart list"
  pxa_error :: string

definition zero_proxy_answer :: proxy_answer where
  "zero_proxy_answer = \<lparr>pxa_result = [], pxa_isError = False, pxa_images = [], pxa_error = []\<rparr>"

definition dec_proxy_answer :: "proxy_answer decoder" where
  "dec_proxy_answer = dec_struct
     [(''result'', fld pxa_result pxa_result_update dec_string), (''is_error'', fld pxa_isError pxa_isError_update dec_bool),
      (''image_parts'', fld pxa_images pxa_images_update (dec_slice zero_ImagePart dec_ImagePart)),
      (''error'', fld pxa_error pxa_error_update dec_string)]"

text \<open>
  \<open>send\<close> posts a document to an URL: \<open>Inl\<close> an error of making the request (\<open>True\<close>) or of sending it, \<open>Inr\<close> the answer.
\<close>

definition callToolProxy :: "string \<Rightarrow> (string \<Rightarrow> json \<Rightarrow> (bool \<times> string) + http_answer) \<Rightarrow> string \<Rightarrow> proxy_call \<Rightarrow> string + tool_answer" where
  "callToolProxy jsonErr send proxyURL c =
     (case send (proxyURL @ ''/tool-call'') (enc_proxy_call c) of
        Inl (True, e) \<Rightarrow> Inl (''building proxy request: '' @ e)
      | Inl (False, e) \<Rightarrow> Inl (''posting to proxy: '' @ e)
      | Inr answer \<Rightarrow>
          if ha_status answer \<noteq> 200 then Inl (''proxy returned '' @ Itoa (int (ha_status answer)) @ '': '' @ TrimSpace (ha_text answer))
          else
            (case map_option (\<lambda>j. dec_proxy_answer j zero_proxy_answer) (ha_doc answer) of
               Some (d, True) \<Rightarrow>
                 if pxa_error d \<noteq> [] then Inr \<lparr>ta_result = pxa_error d, ta_images = [], ta_isError = True\<rparr>
                 else Inr \<lparr>ta_result = pxa_result d, ta_images = pxa_images d, ta_isError = pxa_isError d\<rparr>
             | _ \<Rightarrow> Inl (''decoding proxy response: '' @ jsonErr)))"

section \<open>Calls in live mode\<close>

record call_params =
  cpr_name :: string
  cpr_args :: raw
  cpr_use :: string

definition dec_call_params :: "call_params decoder" where
  "dec_call_params = dec_struct
     [(''name'', fld cpr_name cpr_name_update dec_string), (''arguments'', fld cpr_args cpr_args_update dec_raw),
      (''_meta'', fld cpr_use cpr_use_update (dec_struct [(''claudecode/tooluseid'', dec_string)]))]"

definition image_content :: "ImagePart \<Rightarrow> json" where
  "image_content img = JObj
     [(''data'', JStr (std_encode (ip_data img))), (''mimeType'', JStr (ip_mime img)), (''type'', JStr ''image'')]"

text \<open>The text without the images that are in it, then the images.\<close>

definition content_blocks :: "tool_answer \<Rightarrow> json list" where
  "content_blocks a =
     (let t = replace_data_uris ''[image]'' (ta_result a);
          blocks = (if t \<noteq> [] then [text_block t] else []) @ map image_content (ta_images a)
      in if blocks = [] then [text_block t] else blocks)"

definition call_result :: "tool_answer \<Rightarrow> json" where
  "call_result a = JObj ([(''content'', JArr (content_blocks a))] @ (if ta_isError a then [(''isError'', JBool True)] else []))"

definition live_call :: "string \<Rightarrow> (proxy_call \<Rightarrow> string + tool_answer) \<Rightarrow> string \<Rightarrow> json \<Rightarrow> raw \<Rightarrow> json" where
  "live_call jsonErr proxy jobID i params =
     (case map_option (\<lambda>j. dec_call_params j \<lparr>cpr_name = [], cpr_args = None, cpr_use = []\<rparr>) params of
        Some (p, True) \<Rightarrow>
          (case proxy \<lparr>pxc_job = jobID, pxc_call = or_else (cpr_use p) (json_text i), pxc_tool = cpr_name p,
                  pxc_args = or_else (raw_text (cpr_args p)) ''{}''\<rparr> of
             Inl e \<Rightarrow> mcpErrorResp i (- 32603) (''tool proxy error: '' @ e)
           | Inr a \<Rightarrow> mcpResultResp i (call_result a))
      | _ \<Rightarrow> mcpErrorResp i (- 32602) (''invalid params: '' @ jsonErr))"

definition live_reply :: "(number \<Rightarrow> number) \<Rightarrow> string \<Rightarrow> (proxy_call \<Rightarrow> string + tool_answer) \<Rightarrow> string \<Rightarrow> Tool list \<Rightarrow> mcpRequest \<Rightarrow> json" where
  "live_reply fmt jsonErr proxy jobID tools req =
     (let i = via_any fmt (mrq_id req) in
      if mrq_method req = ''tools/call'' then live_call jsonErr proxy jobID i (mrq_params req)
      else mcpResultResp i (mcp_plain tools req))"

definition RunMCPStdioLive ::
    "(number \<Rightarrow> number) \<Rightarrow> string \<Rightarrow> (string \<Rightarrow> json \<Rightarrow> (bool \<times> string) + http_answer) \<Rightarrow> string + string \<Rightarrow> string \<Rightarrow> string \<Rightarrow> string \<Rightarrow> string + json list" where
  "RunMCPStdioLive fmt jsonErr send file proxyURL jobID input =
     (case read_tools jsonErr file of
        Inl e \<Rightarrow> Inl e
      | Inr tools \<Rightarrow> Inr (map (live_reply fmt jsonErr (callToolProxy jsonErr send proxyURL) jobID tools) (mcp_requests input)))"

section \<open>Every request is answered once\<close>

definition reply_id :: "json \<Rightarrow> json option" where
  "reply_id j = (case j of JObj kvs \<Rightarrow> mget kvs ''id'' | _ \<Rightarrow> None)"

lemma reply_ids [simp]: "reply_id (mcpErrorResp i code msg) = Some i" "reply_id (mcpResultResp i result) = Some i"
  by (simp_all add: reply_id_def mcpErrorResp_def mcpResultResp_def)

lemma live_reply_id: "reply_id (live_reply fmt jsonErr proxy jobID tools req) = Some (via_any fmt (mrq_id req))"
  by (simp add: live_reply_def live_call_def Let_def split: option.split prod.split bool.split sum.split)

lemma mcp_reply_id: "reply_id (mcp_reply fmt tools req) = Some (via_any fmt (mrq_id req))"
  by (simp add: mcp_reply_def Let_def)

text \<open>Both servers answer the requests of their input one by one, in order and under their identifiers.\<close>

lemma mcp_answers_each:
  "RunMCPStdio fmt jsonErr file input = Inr replies \<or> RunMCPStdioLive fmt jsonErr send file proxyURL jobID input = Inr replies \<Longrightarrow>
     map reply_id replies = map (\<lambda>req. Some (via_any fmt (mrq_id req))) (mcp_requests input)"
  by (auto simp: RunMCPStdio_def RunMCPStdioLive_def live_reply_id mcp_reply_id comp_def split: sum.splits)

text \<open>In the other mode no call is ever run by the server.\<close>

lemma mcp_never_calls: "mrq_method req = ''tools/call'' \<Longrightarrow>
    mcp_reply fmt tools req = mcpErrorResp (via_any fmt (mrq_id req)) (- 32603) ''tool execution is handled by the auxot server''"
  by (simp add: mcp_reply_def)

section \<open>The way of a call\<close>

text \<open>The proxy as the subprocess reaches it.\<close>

definition in_worker :: "string \<Rightarrow> (proxy_call \<Rightarrow> string + tool_answer) \<Rightarrow> string \<Rightarrow> json \<Rightarrow> (bool \<times> string) + http_answer" where
  "in_worker jsonErr onToolCall url body = Inr (liveproxy_handle jsonErr onToolCall ''POST'' (Some body))"

lemma proxy_call_decoded: "dec_proxy_call (enc_proxy_call c) zero_proxy_call = (c, True)"
  by (cases c) (simp add: dec_proxy_call_def enc_proxy_call_def zero_proxy_call_def wire_simps)

lemma tool_answer_decoded:
  "dec_proxy_answer (enc_tool_answer (Inr a)) zero_proxy_answer =
     (\<lparr>pxa_result = ta_result a, pxa_isError = ta_isError a, pxa_images = ta_images a, pxa_error = []\<rparr>, True)"
  "dec_proxy_answer (enc_tool_answer (Inl e)) zero_proxy_answer = (\<lparr>pxa_result = [], pxa_isError = False, pxa_images = [], pxa_error = e\<rparr>, True)"
  by (simp_all add: dec_proxy_answer_def enc_tool_answer_def zero_proxy_answer_def wire_simps ip_codec.elems)

text \<open>What the bridge answers comes back, an error of it as a result that is an error.\<close>

lemma proxy_transparent:
  "callToolProxy jsonErr (in_worker jsonErr onToolCall) proxyURL c =
     (case onToolCall c of
        Inr a \<Rightarrow> Inr a
      | Inl e \<Rightarrow> Inr \<lparr>ta_result = e, ta_images = [], ta_isError = e \<noteq> []\<rparr>)"
  by (cases "onToolCall c")
    (simp_all add: callToolProxy_def in_worker_def liveproxy_handle_def proxy_call_decoded Let_def tool_answer_decoded)

lemma no_uri_in_content: "\<not> has_data_uri (replace_data_uris ''[image]'' s)"
  by (rule no_uri_left [where p = "''image]''"]) (simp_all add: mime_char_def dataURIRe_def)

lemma lower_U: "lower_char CHR ''U'' = CHR ''u''" "lower_char CHR ''/'' = CHR ''/''"
  by code_simp+

text \<open>Images reach Claude as images only: no text block has one, and the blocks of type image are those of the answer.\<close>

definition call_meta :: "string \<Rightarrow> json \<Rightarrow> string \<Rightarrow> json" where
  "call_meta name args use = JObj [(''name'', JStr name), (''arguments'', args), (''_meta'', JObj [(''claudecode/toolUseId'', JStr use)])]"



end
