(* ===== verification/Agent_Worker.thy ===== *)
theory Agent_Worker
  imports Bash_Tool Protocol_Types "HOL-Library.Sublist"
begin

text \<open>
  The agent worker (\<open>internal/agentworker\<close>): the prompt it builds from the files of its directory, the
  tools it runs for the server with the credentials kept out of what it answers, the files it takes in, and
  its message loop.  The file system is the map of \<open>Coding_Tools\<close>; parsing YAML is a parameter.
\<close>

section \<open>The prompt\<close>

record SkillMeta =
  skm_id :: string
  skm_name :: string
  skm_description :: string
  skm_version :: string
  skm_category :: string
  skm_path :: string

record AgentConfig =
  agc_name :: string
  agc_description :: string
  agc_maxTurns :: "int option"

definition zero_AgentConfig :: AgentConfig where
  "zero_AgentConfig = \<lparr>agc_name = [], agc_description = [], agc_maxTurns = None\<rparr>"

record GitAgent =
  ga_dir :: string
  ga_soul :: string
  ga_rules :: string
  ga_agents :: string
  ga_skills :: "SkillMeta list"
  ga_memory :: string
  ga_context :: string
  ga_knowledge :: string
  ga_bootstrap :: string
  ga_config :: AgentConfig

text \<open>
  What the worker meets: the operating system, the directories below one (in the order of \<open>os.ReadDir\<close>), the
  YAML parser with the text of its error, and the host of the bash tool.
\<close>

record agent_env =
  age_io :: io
  age_dirs :: "string \<Rightarrow> string list"
  age_config :: "string \<Rightarrow> string + AgentConfig"
  age_front :: "string \<Rightarrow> SkillMeta option"
  age_host :: bash_host
  age_jsonErr :: string
  age_stat :: "string \<Rightarrow> string"
  age_random :: "string + string"
  age_stale :: "string \<Rightarrow> bool"
  age_rename :: "string \<Rightarrow> string option"
  age_abs :: "string \<Rightarrow> string option"

definition SoulMarkdownExists :: "files \<Rightarrow> string \<Rightarrow> bool" where
  "SoulMarkdownExists fs dir \<longleftrightarrow> mget fs (filepath_Join [dir, ''SOUL.md'']) \<noteq> None"

definition read_optional :: "agent_env \<Rightarrow> files \<Rightarrow> string \<Rightarrow> string list \<Rightarrow> string" where
  "read_optional env fs dir rel =
     (case os_ReadFile (age_io env) fs (filepath_Join [dir, filepath_Join rel]) of Inl e \<Rightarrow> [] | Inr data \<Rightarrow> data)"

definition ReadAgentConfigOptional :: "agent_env \<Rightarrow> files \<Rightarrow> string \<Rightarrow> AgentConfig" where
  "ReadAgentConfigOptional env fs dir =
     (case os_ReadFile (age_io env) fs (filepath_Join [dir, ''agent.yaml'']) of
        Inl e \<Rightarrow> zero_AgentConfig
      | Inr data \<Rightarrow> (case age_config env data of Inl e \<Rightarrow> zero_AgentConfig | Inr cfg \<Rightarrow> cfg))"

definition parseSkillFrontmatter :: "(string \<Rightarrow> SkillMeta option) \<Rightarrow> string \<Rightarrow> SkillMeta option" where
  "parseSkillFrontmatter front content =
     (let t = TrimSpace content; body = drop 3 t in
      if \<not> HasPrefix t ''---'' then None
      else (case Index body (CHR 0x0A # ''---'') of None \<Rightarrow> None | Some i \<Rightarrow> front (take i body)))"

definition skill_of :: "agent_env \<Rightarrow> files \<Rightarrow> string \<Rightarrow> string \<Rightarrow> SkillMeta option" where
  "skill_of env fs dir name =
     (case os_ReadFile (age_io env) fs (filepath_Join [filepath_Join [dir, ''skills''], name, ''SKILL.md'']) of
        Inl e \<Rightarrow> None
      | Inr data \<Rightarrow>
          map_option (\<lambda>sm. sm\<lparr>skm_id := name, skm_path := filepath_Join [''skills'', name, ''SKILL.md'']\<rparr>)
            (parseSkillFrontmatter (age_front env) data))"

definition scanSkills :: "agent_env \<Rightarrow> files \<Rightarrow> string \<Rightarrow> SkillMeta list" where
  "scanSkills env fs dir = List.map_filter (skill_of env fs dir) (age_dirs env (filepath_Join [dir, ''skills'']))"

definition LoadGitAgent :: "agent_env \<Rightarrow> files \<Rightarrow> string \<Rightarrow> string + GitAgent" where
  "LoadGitAgent env fs dir =
     (case os_ReadFile (age_io env) fs (filepath_Join [dir, ''SOUL.md'']) of
        Inl e \<Rightarrow> Inl (''SOUL.md is required: '' @ e)
      | Inr soul \<Rightarrow>
          (let ga = \<lparr>ga_dir = dir, ga_soul = soul, ga_rules = read_optional env fs dir [''RULES.md''],
                 ga_agents = read_optional env fs dir [''AGENTS.md''], ga_skills = scanSkills env fs dir,
                 ga_memory = read_optional env fs dir [''memory'', ''MEMORY.md''], ga_context = read_optional env fs dir [''memory'', ''context.md''],
                 ga_knowledge = read_optional env fs dir [''knowledge'', ''index.yaml''],
                 ga_bootstrap = read_optional env fs dir [''hooks'', ''bootstrap.md''], ga_config = zero_AgentConfig\<rparr>
           in case os_ReadFile (age_io env) fs (filepath_Join [dir, ''agent.yaml'']) of
                Inl e \<Rightarrow> Inr ga
              | Inr data \<Rightarrow>
                  (case age_config env data of
                     Inl e \<Rightarrow> Inl (''parse agent.yaml: '' @ e)
                   | Inr cfg \<Rightarrow> Inr (ga\<lparr>ga_config := cfg\<rparr>))))"

definition nl :: string where
  "nl = [CHR 0x0A]"

definition skill_line :: "SkillMeta \<Rightarrow> string" where
  "skill_line s = ''- **'' @ skm_name s @ ''** ('' @ skm_id s @ ''): '' @ skm_description s @ nl"

definition prompt_skills :: "GitAgent \<Rightarrow> string" where
  "prompt_skills ga =
     (if ga_skills ga = [] then []
      else nl @ nl @ ''[available skills]'' @ nl @
        ''Skills available in your skills/ directory. Use Read on skills/<skill_id>/SKILL.md to load full instructions.'' @ nl @ nl @
        concat (map skill_line (ga_skills ga)) @ ''[/available skills]'')"

definition prompt_memory :: "GitAgent \<Rightarrow> string" where
  "prompt_memory ga =
     (if ga_memory ga = [] \<and> ga_context ga = [] then []
      else nl @ nl @ ''[memory]'' @ nl @ ''Your persistent memory from previous sessions:'' @ nl @ nl @
        (if ga_memory ga \<noteq> [] then ga_memory ga @ nl else []) @
        (if ga_context ga \<noteq> [] then (if ga_memory ga \<noteq> [] then nl else []) @ ga_context ga @ nl else []) @
        nl @ ''Use Read/Write on memory/ for full history and to persist learnings for the next session.'' @ nl @ ''[/memory]'')"

definition paragraph_of :: "string \<Rightarrow> string" where
  "paragraph_of t = (if t = [] then [] else nl @ nl @ t)"

definition bracketed :: "string \<Rightarrow> string \<Rightarrow> string" where
  "bracketed tag t = (if t = [] then [] else nl @ nl @ ''['' @ tag @ '']'' @ nl @ t @ nl @ ''[/'' @ tag @ '']'')"

definition BuildSystemPrompt :: "GitAgent \<Rightarrow> string \<Rightarrow> string" where
  "BuildSystemPrompt ga auxotContext =
     ga_soul ga @ paragraph_of (ga_rules ga) @ paragraph_of (ga_agents ga) @ prompt_skills ga @ prompt_memory ga @
     bracketed ''knowledge index'' (ga_knowledge ga) @ paragraph_of auxotContext @
     nl @ nl @ ''[operational rules]'' @ nl @ ''- You are running inside Auxot. Respond conversationally.'' @ nl @
     ''- Write to memory/ to persist state across sessions.'' @ nl @ ''[/operational rules]'' @
     bracketed ''bootstrap'' (ga_bootstrap ga)"

definition RefreshMemory :: "agent_env \<Rightarrow> files \<Rightarrow> GitAgent \<Rightarrow> GitAgent" where
  "RefreshMemory env fs ga = ga\<lparr>ga_memory := read_optional env fs (ga_dir ga) [''memory'', ''MEMORY.md''],
     ga_context := read_optional env fs (ga_dir ga) [''memory'', ''context.md'']\<rparr>"

section \<open>What is watched\<close>

definition isSkillSKILLRel :: "string \<Rightarrow> bool" where
  "isSkillSKILLRel rel \<longleftrightarrow>
     HasPrefix rel ''skills/'' \<and> HasSuffix rel ''/SKILL.md'' \<and>
     (let mid = TrimPrefix rel ''skills/'';
          mid = (if HasSuffix mid ''/SKILL.md'' then take (length mid - 9) mid else mid)
      in mid \<noteq> [] \<and> CHR ''/'' \<notin> set mid)"

definition isPromptSourceRel :: "string \<Rightarrow> bool" where
  "isPromptSourceRel rel \<longleftrightarrow>
     rel \<in> {''SOUL.md'', ''RULES.md'', ''AGENTS.md'', ''agent.yaml'', ''memory/MEMORY.md'', ''memory/context.md'',
       ''knowledge/index.yaml'', ''hooks/bootstrap.md''} \<or> isSkillSKILLRel rel"

text \<open>An event of the watcher: whether it is of a watched kind, whether it creates, and whether its path is then a directory.\<close>

record watch_event =
  wev_relevant :: bool
  wev_create :: bool
  wev_isDir :: bool
  wev_rel :: "string option"

definition promptWatchEventRelevant :: "watch_event \<Rightarrow> bool" where
  "promptWatchEventRelevant ev \<longleftrightarrow>
     wev_relevant ev \<and>
     (case wev_rel ev of
        None \<Rightarrow> False
      | Some rel \<Rightarrow>
          \<not> HasPrefix rel ''..'' \<and>
          (isPromptSourceRel rel \<or>
           wev_create ev \<and> wev_isDir ev \<and>
             (rel = ''skills'' \<or> HasPrefix rel ''skills/'' \<and> CHR ''/'' \<notin> set (TrimPrefix rel ''skills/''))))"

section \<open>Redaction\<close>

definition redacted :: string where
  "redacted = ''********''"

text \<open>The values in the order of the code: the longest first; \<open>sort.Slice\<close> leaves the order of equally long ones open.\<close>

definition redact_values :: "string gomap \<Rightarrow> string list" where
  "redact_values env =
     sort_key (\<lambda>v. - int (length v)) (remdups (filter (\<lambda>v. 3 \<le> length v) (map snd env)))"

definition redactEnvValues :: "string \<Rightarrow> string gomap \<Rightarrow> string" where
  "redactEnvValues output env =
     (if env = [] \<or> output = [] then output else fold (\<lambda>v out. ReplaceAll out v redacted) (redact_values env) output)"

section \<open>Tools\<close>

record tool_execute =
  txm_call :: string
  txm_tool :: string
  txm_args :: string
  txm_env :: "string gomap"

record agent_state =
  ags_dir :: string
  ags_gitagent :: "GitAgent option"
  ags_bootstrap :: bool
  ags_files :: files

datatype agent_out =
    AgentHello string string string string string
      \<comment> \<open>key and prompt; name, description and digest of the metadata\<close>
  | AgentToolResult string string string
      \<comment> \<open>call, result, error\<close>
  | AgentContext string
  | AgentAck string string string
      \<comment> \<open>correlation, path, error\<close>
  | AgentCrash

definition tool_names_text :: string where
  "tool_names_text = join_with '', '' (map fst AllTools)"

text \<open>Loading and pushing the context, when \<open>SOUL.md\<close> is there; what the bootstrap prompt says is a parameter.\<close>

definition load_context :: "agent_env \<Rightarrow> agent_state \<Rightarrow> agent_state \<times> agent_out list" where
  "load_context env st =
     (case LoadGitAgent env (ags_files st) (ags_dir st) of
        Inl e \<Rightarrow> (st, [])
      | Inr ga \<Rightarrow> (st\<lparr>ags_gitagent := Some ga, ags_bootstrap := False\<rparr>, [AgentContext (BuildSystemPrompt ga [])]))"

definition sendContextUpdate :: "agent_env \<Rightarrow> (string \<Rightarrow> string) \<Rightarrow> agent_state \<Rightarrow> agent_state \<times> agent_out list" where
  "sendContextUpdate env bootstrapPrompt st =
     (if \<not> SoulMarkdownExists (ags_files st) (ags_dir st) then (st, [AgentContext (bootstrapPrompt tool_names_text)])
      else load_context env st)"

definition maybeLeaveBootstrapAfterTool :: "agent_env \<Rightarrow> agent_state \<Rightarrow> agent_state \<times> agent_out list" where
  "maybeLeaveBootstrapAfterTool env st =
     (if \<not> ags_bootstrap st \<or> \<not> SoulMarkdownExists (ags_files st) (ags_dir st) then (st, []) else load_context env st)"

definition handleToolExecute :: "agent_env \<Rightarrow> tool_execute \<Rightarrow> agent_state \<Rightarrow> agent_state \<times> agent_out list" where
  "handleToolExecute env m st =
     (case FindTool (txm_tool m) of
        None \<Rightarrow> (st, [AgentToolResult (txm_call m) [] (''unknown tool: '' @ txm_tool m)])
      | Some tool \<Rightarrow>
          (case execute_tool (age_io env) (age_host env) (age_jsonErr env) tool (ags_dir st) (txm_env m) (json_parse (txm_args m)) (ags_files st) of
             (TErr e, fs) \<Rightarrow> (st\<lparr>ags_files := fs\<rparr>, [AgentToolResult (txm_call m) [] (redactEnvValues e (txm_env m))])
           | (TPanic, fs) \<Rightarrow> (st\<lparr>ags_files := fs\<rparr>, [AgentCrash])
           | (TOk result, fs) \<Rightarrow>
               (case maybeLeaveBootstrapAfterTool env (st\<lparr>ags_files := fs\<rparr>) of
                  (st', outs) \<Rightarrow> (st', AgentToolResult (txm_call m) (redactEnvValues result (txm_env m)) [] # outs))))"

section \<open>Files from the server\<close>

record file_upload =
  fum_correlation :: string
  fum_name :: string
  fum_data :: string

definition sanitizeUploadFileName :: "string \<Rightarrow> string" where
  "sanitizeUploadFileName name =
     (let n = take 200 (ReplaceAll (ReplaceAll name ''/'' []) [CHR 0x5C] []) in if n = [] then ''upload'' else n)"

definition cleanupOldUploads :: "agent_env \<Rightarrow> string \<Rightarrow> files \<Rightarrow> files" where
  "cleanupOldUploads env dir fs = filter (\<lambda>(p, d). \<not> (filepath_Dir p = dir \<and> age_stale env p)) fs"

definition hex_text :: "string \<Rightarrow> string" where
  "hex_text s = concat (map (\<lambda>c. let n = (of_char c :: nat) in [hex_digit (n div 16), hex_digit (n mod 16)]) s)"

definition save_upload :: "agent_env \<Rightarrow> string \<Rightarrow> string \<Rightarrow> files \<Rightarrow> (string + string) \<times> files" where
  "save_upload env finalPath data fs =
     (case os_WriteFile (age_io env) fs (finalPath @ ''.tmp'') data of
        (Some e, fs1) \<Rightarrow> (Inl (''write failed: '' @ e), fs1)
      | (None, fs1) \<Rightarrow>
          (case age_rename env finalPath of
             Some e \<Rightarrow> (Inl (''rename failed: '' @ e), mdel (finalPath @ ''.tmp'') fs1)
           | None \<Rightarrow> (Inr (case age_abs env finalPath of Some p \<Rightarrow> p | None \<Rightarrow> finalPath),
               mput finalPath data (mdel (finalPath @ ''.tmp'') fs1))))"

definition handleFileUpload :: "agent_env \<Rightarrow> int \<Rightarrow> file_upload \<Rightarrow> agent_state \<Rightarrow> agent_state \<times> agent_out list" where
  "handleFileUpload env maxUploadBytes m st =
     (let ack = AgentAck (fum_correlation m); tmpDir = filepath_Join [ags_dir st, ''tmp''] in
      if maxUploadBytes < int (length (fum_data m)) then (st, [ack [] ''file exceeds 100 MB limit''])
      else
        (let fs = cleanupOldUploads env tmpDir (ags_files st) in
         case io_mkdir (age_io env) tmpDir of
           Some e \<Rightarrow> (st\<lparr>ags_files := fs\<rparr>, [ack [] (''failed to create tmp directory: '' @ e)])
         | None \<Rightarrow>
             (case age_random env of
                Inl e \<Rightarrow> (st\<lparr>ags_files := fs\<rparr>, [ack [] (''failed to generate file prefix: '' @ e)])
              | Inr r \<Rightarrow>
                  (case save_upload env (filepath_Join [tmpDir, hex_text r @ ''-'' @ sanitizeUploadFileName (fum_name m)]) (fum_data m) fs of
                     (Inl e, fs') \<Rightarrow> (st\<lparr>ags_files := fs'\<rparr>, [ack [] e])
                   | (Inr p, fs') \<Rightarrow> (st\<lparr>ags_files := fs'\<rparr>, [ack p []])))))"

section \<open>The connection\<close>

text \<open>The greeting: an error, or the state and the message; the bootstrap prompt is a function of the tools.\<close>

definition agent_hello :: "agent_env \<Rightarrow> (string \<Rightarrow> string) \<Rightarrow> string \<Rightarrow> agent_state \<Rightarrow> string + agent_state \<times> agent_out" where
  "agent_hello env bootstrapPrompt key st =
     (if SoulMarkdownExists (ags_files st) (ags_dir st) then
        (case LoadGitAgent env (ags_files st) (ags_dir st) of
           Inl e \<Rightarrow> Inl (''load gitagent: '' @ e)
         | Inr ga \<Rightarrow>
             Inr (st\<lparr>ags_gitagent := Some ga, ags_bootstrap := False\<rparr>,
               AgentHello key (BuildSystemPrompt ga []) (agc_name (ga_config ga)) (agc_description (ga_config ga))
                 (age_stat env (filepath_Join [ags_dir st, ''SOUL.md'']))))
      else
        (let cfg = ReadAgentConfigOptional env (ags_files st) (ags_dir st) in
         Inr (st\<lparr>ags_gitagent := None, ags_bootstrap := True\<rparr>,
           AgentHello key (bootstrapPrompt tool_names_text)
             (if agc_name cfg = [] then ''Agent (configuring)'' else agc_name cfg)
             (if agc_description cfg = []
              then ''No SOUL.md yet '' @ [CHR 0xE2, CHR 0x80, CHR 0x94] @ '' discover identity and purpose with the user, then write SOUL.md.''
              else agc_description cfg) [])))"

definition zero_tool_execute :: tool_execute where
  "zero_tool_execute = \<lparr>txm_call = [], txm_tool = [], txm_args = [], txm_env = []\<rparr>"

definition dec_tool_execute :: "tool_execute decoder" where
  "dec_tool_execute = dec_struct
     [(''call_id'', fld txm_call txm_call_update dec_string), (''tool_name'', fld txm_tool txm_tool_update dec_string),
      (''arguments'', fld txm_args txm_args_update dec_string), (''env'', fld txm_env txm_env_update (dec_map [] dec_string))]"

definition zero_file_upload :: file_upload where
  "zero_file_upload = \<lparr>fum_correlation = [], fum_name = [], fum_data = []\<rparr>"

definition dec_file_upload :: "file_upload decoder" where
  "dec_file_upload = dec_struct
     [(''correlation_id'', fld fum_correlation fum_correlation_update dec_string), (''file_name'', fld fum_name fum_name_update dec_string),
      (''data'', fld fum_data fum_data_update dec_bytes)]"

text \<open>One message of the loop; its handler runs to its end before the next one.\<close>

definition agent_receive :: "agent_env \<Rightarrow> (string \<Rightarrow> string) \<Rightarrow> string \<Rightarrow> agent_state \<Rightarrow> agent_state \<times> agent_out list" where
  "agent_receive env bootstrapPrompt msg st =
     (case Unmarshal (dec_struct [(''type'', dec_string)]) msg [] of
        (t, False) \<Rightarrow> (st, [])
      | (t, True) \<Rightarrow>
          if t = ''tool.execute'' then
            (case Unmarshal dec_tool_execute msg zero_tool_execute of (m, ok) \<Rightarrow> if ok then handleToolExecute env m st else (st, []))
          else if t = ''file.upload'' then
            (case Unmarshal dec_file_upload msg zero_file_upload of (m, ok) \<Rightarrow> if ok then handleFileUpload env 104857600 m st else (st, []))
          else if t = ''reload_policy'' then sendContextUpdate env bootstrapPrompt st
          else (st, []))"

text \<open>The waits in seconds before the next attempts, after failed ones without a connection between them.\<close>

fun agent_backoff :: "nat \<Rightarrow> int" where
  "agent_backoff 0 = 1"
| "agent_backoff (Suc n) = (if agent_backoff n < 30 then 2 * agent_backoff n else agent_backoff n)"

lemma agent_backoff_exact: "agent_backoff n = 2 ^ min n 5"
proof (induction n)
  case (Suc n)
  show ?case
  proof (cases "n < 5")
    case True
    then have "n \<in> {0, 1, 2, 3, 4}" by auto
    then show ?thesis using Suc by auto
  qed (simp add: Suc min_def)
qed simp

section \<open>No credential is left\<close>

lemma Index_no_earlier: "Index s p = Some i \<Longrightarrow> p \<noteq> [] \<Longrightarrow> \<not> sublist p (take i s)"
  by (auto simp: sublist_def dest: Index_first)

lemma Index_absent: "Index s p = None \<Longrightarrow> \<not> sublist p s"
  using Index_None [of s p] by (auto simp: sublist_def)

lemma sublist_around:
  assumes "sublist w (x @ y @ z)" and "w \<noteq> []" and "y \<noteq> []" and "set w \<inter> set y = {}"
  shows "sublist w x \<or> sublist w z"
proof -
  have hd: "xs2 = [] " if "w = xs1 @ xs2" "prefix xs2 (y @ z)" for xs1 xs2
    using that assms(3,4) by (cases xs2; cases y) auto
  have tl: "xs1 = []" if "w = xs1 @ xs2" "suffix xs1 y" for xs1 xs2
    using that assms(4) set_mono_suffix [OF that(2)] by (cases xs1) auto
  have inner: "sublist w z" if "sublist w (y @ z)"
  proof -
    have "\<not> sublist w y" using assms(2,4) set_mono_sublist [of w y] by (cases w) auto
    moreover have "sublist w y \<or> sublist w z \<or> (\<exists>xs1 xs2. w = xs1 @ xs2 \<and> suffix xs1 y \<and> prefix xs2 z)"
      using that by (simp only: sublist_append)
    ultimately consider "sublist w z" | xs1 xs2 where "w = xs1 @ xs2" "suffix xs1 y" "prefix xs2 z"
      by blast
    then show ?thesis
    proof cases
      case 2
      then show ?thesis using tl [OF 2(1,2)] by (simp add: prefix_imp_sublist)
    qed
  qed
  have "sublist w x \<or> sublist w (y @ z) \<or> (\<exists>xs1 xs2. w = xs1 @ xs2 \<and> suffix xs1 x \<and> prefix xs2 (y @ z))"
    using assms(1) by (simp only: sublist_append)
  then consider "sublist w x" | "sublist w (y @ z)" | xs1 xs2 where "w = xs1 @ xs2" "suffix xs1 x" "prefix xs2 (y @ z)" by blast
  then show ?thesis
  proof cases
    case 3
    then show ?thesis using hd [OF 3(1,3)] by (simp add: suffix_imp_sublist)
  qed (simp_all add: inner)
qed

definition star_free :: "string \<Rightarrow> bool" where
  "star_free w \<longleftrightarrow> CHR ''*'' \<notin> set w"

lemma redacted_free: "star_free w \<Longrightarrow> set w \<inter> set redacted = {}" "redacted \<noteq> []" "star_free v \<Longrightarrow> v \<noteq> [] \<Longrightarrow> v \<noteq> redacted"
  by (auto simp: star_free_def redacted_def)

lemma replace_keeps_away:
  assumes "star_free v" "v \<noteq> []" "star_free w" "w \<noteq> []"
  shows "sublist w (ReplaceAll s v redacted) \<Longrightarrow> sublist w s \<and> w \<noteq> v"
proof (induction s rule: measure_induct_rule [where f = length])
  case (less s)
  note step = ReplaceAll_step [OF assms(2) redacted_free(3) [OF assms(1,2)]]
  show ?case
  proof (cases "Index s v")
    case None
    then show ?thesis using less.prems Index_absent by (auto simp: step [of s])
  next
    case (Some i)
    let ?t = "drop (i + length v) s"
    have s: "s = take i s @ v @ ?t" and short: "length ?t < length s"
      using Index_Some [OF Some] Index_shorter [OF Some assms(2)] by simp_all
    have "sublist w (take i s @ redacted @ ReplaceAll ?t v redacted)" using less.prems by (simp add: step [of s] Some)
    then have "sublist w (take i s) \<or> sublist w (ReplaceAll ?t v redacted)"
      using assms(4) redacted_free(2) redacted_free(1) [OF assms(3)] by (rule sublist_around)
    moreover have "sublist w s \<and> w \<noteq> v" if "sublist w (take i s)"
      using that Index_no_earlier [OF Some assms(2)] sublist_order.order.trans [OF that sublist_take] by auto
    moreover have "sublist w s \<and> w \<noteq> v" if "sublist w (ReplaceAll ?t v redacted)"
      using less.IH [OF short that] sublist_order.order.trans [OF _ sublist_drop] by auto
    ultimately show ?thesis by blast
  qed
qed

lemma redact_fold:
  assumes "\<forall>v\<in>set vs. star_free v \<and> v \<noteq> []" and "star_free w" "w \<noteq> []"
  shows "sublist w (fold (\<lambda>v out. ReplaceAll out v redacted) vs out) \<Longrightarrow> sublist w out \<and> w \<notin> set vs"
  using assms(1)
proof (induction vs arbitrary: out)
  case (Cons v vs)
  then have "sublist w (ReplaceAll out v redacted) \<and> w \<notin> set vs" by simp
  then show ?case using replace_keeps_away [of v w out] Cons.prems(2) assms(2,3) by simp
qed simp

lemma redaction_complete:
  assumes "v \<in> snd ` set env" and "3 \<le> length v" and "\<forall>u\<in>snd ` set env. star_free u"
  shows "\<not> sublist v (redactEnvValues output env)"
proof
  assume occurs: "sublist v (redactEnvValues output env)"
  have v: "star_free v" "v \<noteq> []" "v \<in> set (redact_values env)" using assms by (auto simp: redact_values_def)
  have "\<forall>u\<in>set (redact_values env). star_free u \<and> u \<noteq> []" using assms(3) by (auto simp: redact_values_def)
  then have "\<not> sublist v (fold (\<lambda>v out. ReplaceAll out v redacted) (redact_values env) output)"
    using redact_fold [of "redact_values env" v] v by blast
  moreover have "env \<noteq> []" using assms(1) by auto
  ultimately show False using occurs v(2) by (auto simp: redactEnvValues_def split: if_splits)
qed


text \<open>
  What a JSON text escapes is not found: the answer of the bash tool, which is a document, keeps a credential
  with a quote in its escaped form.
\<close>

lemma escaped_credential_stays:
  "redactEnvValues (json_quote ''pa\"ss'') [(''KEY'', ''pa\"ss'')] = json_quote ''pa\"ss''"
  by code_simp

section \<open>Where uploads go\<close>

lemma remove_char: "ReplaceAll s [c] [] = filter (\<lambda>x. x \<noteq> c) s"
proof (induction s rule: measure_induct_rule [where f = length])
  case (less s)
  note step = ReplaceAll_step [of "[c]" "[]" s, simplified]
  show ?case
  proof (cases "Index s [c]")
    case None
    then have "c \<notin> set s" using Index_absent [OF None] by (auto simp: sublist_def in_set_conv_decomp)
    then have "filter (\<lambda>x. x \<noteq> c) s = s" by (auto intro: filter_True)
    then show ?thesis by (simp add: step None)
  next
    case (Some i)
    let ?t = "drop (Suc i) s"
    have s: "s = take i s @ c # ?t" and short: "length ?t < length s"
      using Index_Some [OF Some] Index_shorter [OF Some] by simp_all
    have "c \<notin> set (take i s)" using Index_no_earlier [OF Some] by (auto simp: sublist_def in_set_conv_decomp)
    then have "filter (\<lambda>x. x \<noteq> c) (take i s) = take i s" by (auto intro: filter_True)
    then have "filter (\<lambda>x. x \<noteq> c) s = take i s @ filter (\<lambda>x. x \<noteq> c) ?t" by (subst s) simp
    then show ?thesis using less [OF short] by (simp add: step Some)
  qed
qed

lemma sanitized_plain: "CHR ''/'' \<notin> set (sanitizeUploadFileName name)"
  by (auto simp: sanitizeUploadFileName_def Let_def remove_char dest: in_set_takeD)

lemma hex_plain: "CHR ''/'' \<notin> set (hex_text r)"
proof -
  have "\<forall>n\<in>set [0..<16]. hex_digit n \<noteq> CHR ''/''" by code_simp
  then have d: "hex_digit n \<noteq> CHR ''/''" if "n < 16" for n using that by simp
  have "of_char c div 16 < (16::nat)" for c :: char
    by (rule less_mult_imp_div_less) (use nat_of_char_less_256 [of c] in simp)
  then show ?thesis using d by (auto simp: hex_text_def Let_def dest!: sym [of "CHR ''/''"])
qed

text \<open>The path of a plain name in a directory.\<close>

lemma Join_name:
  assumes "d \<noteq> []" "plain_elem n"
  shows "filepath_Join [d, n] = path_of (rooted d) (path_elems d @ [n])"
proof -
  have n: "n \<noteq> []" "CHR ''/'' \<notin> set n" using assms(2) by (auto simp: plain_elem_def)
  have j: "filepath_Join [d, n] = path_Clean (d @ ''/'' @ n)" using assms(1) n(1) by (simp add: filepath_Join_def)
  have r: "rooted (d @ CHR ''/'' # n) = rooted d" using assms(1) by (cases d) (simp_all add: rooted_def HasPrefix_def)
  have "Split (CHR ''/'') (d @ CHR ''/'' # n) = Split (CHR ''/'') d @ [n]"
    using Split_no_sep [OF n(2)] by (induction d) (auto split: list.splits)
  then have "path_elems (d @ ''/'' @ n) = path_elems d @ [n]"
    using fold_plain [of "[n]" "rooted d"] assms(2) by (simp add: path_elems_def r)
  then show ?thesis by (simp add: j path_Clean_def r)
qed

lemma join_snoc: "es \<noteq> [] \<Longrightarrow> join_with ''/'' (es @ [n]) = join_with ''/'' es @ ''/'' @ n"
  by (induction es rule: induct_list012) simp_all

lemma Dir_of_name:
  assumes "clean_elems r es" "es \<noteq> []" "CHR ''/'' \<notin> set n"
  shows "filepath_Dir (path_of r (es @ [n])) = path_of r es"
proof -
  have p: "path_of r (es @ [n]) = path_of r es @ ''/'' @ n" using assms(2) by (simp add: path_of_def join_snoc)
  have "dropWhile (\<lambda>c. c \<noteq> CHR ''/'') (rev n @ CHR ''/'' # t) = CHR ''/'' # t" for t
    using assms(3) by (subst dropWhile_append2) auto
  then have d: "filepath_Dir (path_of r (es @ [n])) = path_Clean (path_of r es @ ''/'')" by (simp add: filepath_Dir_def p)
  have ne: "path_of r es \<noteq> []" using assms(2) clean_elems_no_slash [OF assms(1)] by (cases es; cases "tl es") (auto simp: path_of_def)
  have rt: "rooted (path_of r es @ ''/'') = r" using ne rooted_path_of [OF assms(1)] by (cases "path_of r es") (simp_all add: rooted_def HasPrefix_def)
  have "Split (CHR ''/'') (q @ ''/'') = Split (CHR ''/'') q @ [[]]" for q by (induction q) (auto split: list.splits)
  then have "path_elems (path_of r es @ ''/'') = path_elems (path_of r es)"
    using rooted_path_of [OF assms(1)] by (simp add: path_elems_def rt clean_step_def)
  then show ?thesis using path_elems_path_of [OF assms(1)] by (simp add: d path_Clean_def rt)
qed

lemma upload_dir:
  assumes "d \<noteq> []" "plain_elem n" "CHR ''/'' \<notin> set x"
  shows "filepath_Dir (filepath_Join [filepath_Join [d, ''tmp''], n] @ x) = filepath_Join [d, ''tmp'']"
proof -
  let ?es = "path_elems d @ [''tmp'']"
  have tmp: "filepath_Join [d, ''tmp''] = path_of (rooted d) ?es" using assms(1) by (rule Join_name) (simp add: plain_elem_def)
  have clean: "clean_elems (rooted d) ?es" using path_elems_clean by (rule clean_elems_snoc) (simp add: plain_elem_def)
  have ne: "path_of (rooted d) ?es \<noteq> []" by (cases "path_elems d"; cases "tl (path_elems d)") (auto simp: path_of_def)
  have n: "CHR ''/'' \<notin> set (n @ x)" using assms(2,3) by (simp add: plain_elem_def)
  have "filepath_Join [path_of (rooted d) ?es, n] = path_of (rooted d) (?es @ [n])"
    using Join_name [OF ne assms(2)] by (simp only: rooted_path_of [OF clean] path_elems_path_of [OF clean])
  then have "filepath_Join [path_of (rooted d) ?es, n] @ x = path_of (rooted d) (?es @ [n @ x])"
    using join_snoc [of ?es] by (simp add: path_of_def)
  then show ?thesis unfolding tmp using Dir_of_name [OF clean _ n] by simp
qed

lemma cleanup_get: "mget (cleanupOldUploads env dir fs) q =
    (if filepath_Dir q = dir \<and> age_stale env q then None else mget fs q)"
proof (induction fs)
  case Nil
  then show ?case by (simp add: cleanupOldUploads_def)
next
  case (Cons x fs)
  obtain p d where x: "x = (p, d)" by (cases x)
  show ?case using Cons.IH by (cases "p = q") (simp_all add: x cleanupOldUploads_def)
qed

lemma os_WriteFile_only: "mget (snd (os_WriteFile os fs p d)) q \<noteq> mget fs q \<Longrightarrow> q = p"
  by (auto simp: os_WriteFile_def split: option.splits if_splits)

lemma save_upload_only:
  assumes "mget (snd (save_upload env p d fs)) q \<noteq> mget fs q"
  shows "q = p \<or> q = p @ ''.tmp''"
proof (rule ccontr)
  assume q: "\<not> (q = p \<or> q = p @ ''.tmp'')"
  obtain e fs1 where w: "os_WriteFile (age_io env) fs (p @ ''.tmp'') d = (e, fs1)"
    by (cases "os_WriteFile (age_io env) fs (p @ ''.tmp'') d")
  have "mget fs1 q = mget fs q" using os_WriteFile_only [of "age_io env" fs "p @ ''.tmp''" d q] q by (auto simp: w)
  then show False using assms q
    by (cases e; cases "age_rename env p") (simp_all add: save_upload_def w)
qed

text \<open>
  C40: whatever name the server gives a file, taking it in changes no file outside the directory \<open>tmp\<close> of the worker's own directory;
  there is one acknowledgement, and if it has no error the data are in a file of that directory and within the limit.
\<close>

theorem upload_confined:
  assumes "ags_dir st \<noteq> []" and "handleFileUpload env maxUploadBytes m st = (st', outs)"
  shows "(\<forall>q. mget (ags_files st') q \<noteq> mget (ags_files st) q \<longrightarrow> filepath_Dir q = filepath_Join [ags_dir st, ''tmp'']) \<and>
    (\<exists>path err. outs = [AgentAck (fum_correlation m) path err] \<and>
       (err = [] \<longrightarrow> int (length (fum_data m)) \<le> maxUploadBytes \<and>
          (\<exists>p. filepath_Dir p = filepath_Join [ags_dir st, ''tmp''] \<and> mget (ags_files st') p = Some (fum_data m))))"
proof -
  let ?tmp = "filepath_Join [ags_dir st, ''tmp'']"
  define fs where "fs = cleanupOldUploads env ?tmp (ags_files st)"
  have fs: "filepath_Dir q = ?tmp" if "mget fs q \<noteq> mget (ags_files st) q" for q
    using that by (auto simp: fs_def cleanup_get split: if_splits)
  note unfolded = assms(2) [unfolded handleFileUpload_def Let_def, folded fs_def]
  show ?thesis
  proof (cases "maxUploadBytes < int (length (fum_data m)) \<or> io_mkdir (age_io env) ?tmp \<noteq> None \<or> isl (age_random env)")
    case True
    then show ?thesis using unfolded fs by (auto split: if_splits option.splits sum.splits)
  next
    case False
    then obtain r where r: "age_random env = Inr r" by (cases "age_random env") auto
    define n where "n = hex_text r @ ''-'' @ sanitizeUploadFileName (fum_name m)"
    define p where "p = filepath_Join [?tmp, n]"
    have "plain_elem n" using hex_plain [of r] sanitized_plain [of "fum_name m"]
      by (cases "hex_text r"; cases "tl (hex_text r)") (auto simp: plain_elem_def n_def)
    then have dirs: "filepath_Dir p = ?tmp" "filepath_Dir (p @ ''.tmp'') = ?tmp"
      using upload_dir [OF assms(1), of n "[]"] upload_dir [OF assms(1), of n "''.tmp''"] by (simp_all add: p_def)
    obtain res fs' where s: "save_upload env p (fum_data m) fs = (res, fs')" by (cases "save_upload env p (fum_data m) fs")
    have run: "(case save_upload env p (fum_data m) fs of
        (Inl e, fs') \<Rightarrow> (st\<lparr>ags_files := fs'\<rparr>, [AgentAck (fum_correlation m) [] e])
      | (Inr a, fs') \<Rightarrow> (st\<lparr>ags_files := fs'\<rparr>, [AgentAck (fum_correlation m) a []])) = (st', outs)"
      using unfolded False r by (simp add: n_def p_def)
    have st: "st' = st\<lparr>ags_files := fs'\<rparr>" "outs = [case res of Inl e \<Rightarrow> AgentAck (fum_correlation m) [] e | Inr a \<Rightarrow> AgentAck (fum_correlation m) a []]"
      using s run by (cases res; simp)+
    have "filepath_Dir q = ?tmp" if "mget fs' q \<noteq> mget (ags_files st) q" for q
    proof (cases "mget fs' q = mget fs q")
      case False
      then show ?thesis using save_upload_only [of env p "fum_data m" fs q] dirs by (auto simp: s)
    qed (use that fs in simp)
    moreover have "\<exists>path err. outs = [AgentAck (fum_correlation m) path err] \<and> (err = [] \<longrightarrow> mget fs' p = Some (fum_data m))"
      using s by (auto simp: st(2) save_upload_def split: option.splits prod.splits)
    ultimately show ?thesis using False dirs(1) by (auto simp: st(1))
  qed
qed

definition demo_agent :: agent_env where
  "demo_agent = \<lparr>age_io = \<lparr>io_read = (\<lambda>p. None), io_mkdir = (\<lambda>p. None), io_write = (\<lambda>p. None)\<rparr>, age_dirs = (\<lambda>d. []),
     age_config = (\<lambda>s. Inl ''yaml''), age_front = (\<lambda>s. None), age_host = demo_host, age_jsonErr = ''bad JSON'', age_stat = (\<lambda>p. []),
     age_random = Inr [CHR 0x01, CHR 0xAB], age_stale = (\<lambda>p. False), age_rename = (\<lambda>p. None), age_abs = (\<lambda>p. None)\<rparr>"

definition demo_agent_state :: agent_state where
  "demo_agent_state = \<lparr>ags_dir = ''/w'', ags_gitagent = None, ags_bootstrap = False, ags_files = [(''/w/a'', ''key hunter22.'')]\<rparr>"

theorem upload_confined_witness:
  "mget (ags_files (fst (handleFileUpload demo_agent 10 \<lparr>fum_correlation = ''c'', fum_name = ''../../etc'', fum_data = ''x''\<rparr> demo_agent_state))) ''/w/a'' =
     Some ''key hunter22.''"
proof -
  let ?m = "\<lparr>fum_correlation = ''c'', fum_name = ''../../etc'', fum_data = ''x''\<rparr>"
  have "ags_dir demo_agent_state \<noteq> []" by (simp add: demo_agent_state_def)
  from upload_confined [OF this prod.collapse [symmetric]]
  have "mget (ags_files (fst (handleFileUpload demo_agent 10 ?m demo_agent_state))) ''/w/a'' \<noteq> mget (ags_files demo_agent_state) ''/w/a'' \<longrightarrow>
      filepath_Dir ''/w/a'' = filepath_Join [ags_dir demo_agent_state, ''tmp'']" by blast
  moreover have "filepath_Dir ''/w/a'' \<noteq> filepath_Join [ags_dir demo_agent_state, ''tmp'']" by code_simp
  moreover have "mget (ags_files demo_agent_state) ''/w/a'' = Some ''key hunter22.''" by code_simp
  ultimately show ?thesis by simp
qed

definition demo_read :: tool_execute where
  "demo_read = \<lparr>txm_call = ''c'', txm_tool = ''read'', txm_args = json_text (JObj [(''path'', JStr ''a'')]), txm_env = [(''PASS'', ''hunter2''), (''LONG'', ''hunter22'')]\<rparr>"

lemma result_shape: "(case c of AgentToolResult i r e \<Rightarrow> c = AgentToolResult k r [] | _ \<Rightarrow> False) \<Longrightarrow> \<exists>r. c = AgentToolResult k r []"
  by (cases c) auto


section \<open>The context\<close>

text \<open>Leaving the bootstrap mode: the tool that wrote \<open>SOUL.md\<close> is answered first, then the server gets the new prompt.\<close>

lemma bootstrap_left:
  assumes "ags_bootstrap st" and "LoadGitAgent env (ags_files st) (ags_dir st) = Inr ga" and "SoulMarkdownExists (ags_files st) (ags_dir st)"
  shows "maybeLeaveBootstrapAfterTool env st =
    (st\<lparr>ags_gitagent := Some ga, ags_bootstrap := False\<rparr>, [AgentContext (BuildSystemPrompt ga [])])"
  using assms by (simp add: maybeLeaveBootstrapAfterTool_def load_context_def)

text \<open>
  A reload after \<open>SOUL.md\<close> was removed sends the bootstrap prompt but does not set the flag, so that a tool that
  writes the file again does not end the bootstrap mode.
\<close>

lemma bootstrap_flag_stale:
  assumes "\<not> ags_bootstrap st" and "\<not> SoulMarkdownExists (ags_files st) (ags_dir st)"
  shows "sendContextUpdate env bootstrapPrompt st = (st, [AgentContext (bootstrapPrompt tool_names_text)]) \<and>
    maybeLeaveBootstrapAfterTool env (st\<lparr>ags_files := fs\<rparr>) = (st\<lparr>ags_files := fs\<rparr>, [])"
  using assms by (simp add: sendContextUpdate_def maybeLeaveBootstrapAfterTool_def)

text \<open>A file that no skill is read from counts as one.\<close>

lemma skills_root_watched: "isPromptSourceRel ''skills/SKILL.md''"
  by code_simp

end
