(* ===== verification/Agent_Loop.thy ===== *)
theory Agent_Loop
  imports Agent_Worker Tools_Api
begin

text \<open>
  The agentic loop of the agent worker (\<open>loop.go\<close>) and its client for the tools of the router
  (\<open>toolclient.go\<close>).  The model is a parameter: what it streams in a turn is a function of the turn and the
  messages it is sent.
\<close>

section \<open>Calls of the router's tools\<close>

record ToolExecRequest =
  ter_tool :: string
  ter_args :: raw
  ter_job :: string

record ToolExecResponse =
  tes_result :: string
  tes_error :: string

definition enc_ToolExecRequest :: "ToolExecRequest \<Rightarrow> json" where
  "enc_ToolExecRequest r = JObj
     ([(''tool_name'', JStr (ter_tool r)), (''arguments'', enc_raw (ter_args r))] @ (if ter_job r = [] then [] else [(''job_id'', JStr (ter_job r))]))"

definition zero_ToolExecResponse :: ToolExecResponse where
  "zero_ToolExecResponse = \<lparr>tes_result = [], tes_error = []\<rparr>"

definition dec_ToolExecResponse :: "ToolExecResponse decoder" where
  "dec_ToolExecResponse = dec_struct
     [(''result'', fld tes_result tes_result_update dec_string), (''error'', fld tes_error tes_error_update dec_string)]"

text \<open>
  \<open>send\<close> posts a document to an URL with the key as bearer: \<open>Inl\<close> an error of making the request (\<open>True\<close>) or of
  sending it, \<open>Inr\<close> the status and the document of the answer, if it is one.  Arguments that are no JSON text
  (\<open>None\<close>) cannot be marshalled.
\<close>

type_synonym tool_send = "string \<Rightarrow> string \<Rightarrow> json \<Rightarrow> (bool \<times> string) + int \<times> raw"

record ToolClient =
  tcl_url :: string
  tcl_key :: string

definition ToolClient_Execute :: "tool_send \<Rightarrow> string \<Rightarrow> ToolClient \<Rightarrow> ToolExecRequest \<Rightarrow> string + ToolExecResponse" where
  "ToolClient_Execute send jsonErr c req =
     (if ter_args req = None then Inl (''marshal request: '' @ jsonErr)
      else
        (case send (tcl_url c @ ''/api/tools/v1/execute'') (tcl_key c) (enc_ToolExecRequest req) of
           Inl (True, e) \<Rightarrow> Inl (''create request: '' @ e)
         | Inl (False, e) \<Rightarrow> Inl (''http request: '' @ e)
         | Inr (status, doc) \<Rightarrow>
             if status = 403 then Inr (zero_ToolExecResponse\<lparr>tes_error := ''tool not allowed by policy''\<rparr>)
             else if status \<noteq> 200 then Inr (zero_ToolExecResponse\<lparr>tes_error := ''server error: '' @ Itoa status\<rparr>)
             else
               (case map_option (\<lambda>j. dec_ToolExecResponse j zero_ToolExecResponse) doc of
                  Some (r, True) \<Rightarrow> Inr r
                | _ \<Rightarrow> Inl (''decode response: '' @ jsonErr))))"

section \<open>The messages\<close>

record loop_call =
  lcl_id :: string
  lcl_type :: string
  lcl_name :: string
  lcl_args :: string

record loop_message =
  lms_role :: string
  lms_content :: string
  lms_calls :: "loop_call list"
  lms_callId :: string

definition plain_message :: "string \<Rightarrow> string \<Rightarrow> loop_message" where
  "plain_message role content = \<lparr>lms_role = role, lms_content = content, lms_calls = [], lms_callId = []\<rparr>"

definition loop_role :: "string \<Rightarrow> string" where
  "loop_role role = (if role = ''human'' then ''user'' else if role = ''ai'' \<or> role = ''assistant'' then ''assistant'' else role)"

definition buildMessages :: "AgentJobMessage \<Rightarrow> loop_message list" where
  "buildMessages job =
     (if ajm_prompt job = [] then [] else [plain_message ''system'' (ajm_prompt job)]) @
     map (\<lambda>m. plain_message (loop_role (acm_role m)) (acm_content m)) (ajm_messages job)"

section \<open>Collecting a stream\<close>

record tool_delta =
  tdl_index :: "int option"
  tdl_id :: string
  tdl_type :: string
  tdl_name :: string
  tdl_args :: string

record loop_choice =
  lch_content :: string
  lch_deltas :: "tool_delta list"

text \<open>What \<open>Recv\<close> gives before the end of the stream: the choices of a chunk, or an error.\<close>

datatype stream_item = Chunk "loop_choice list" | Broken string

type_synonym pending = "(int \<times> loop_call) list"

record collected =
  col_content :: string
  col_pending :: pending
  col_tokens :: "string list"

definition zero_collected :: collected where
  "zero_collected = \<lparr>col_content = [], col_pending = [], col_tokens = []\<rparr>"

definition keep_new :: "string \<Rightarrow> string \<Rightarrow> string" where
  "keep_new new old = (if new \<noteq> [] then new else old)"

definition merge_delta :: "tool_delta \<Rightarrow> loop_call \<Rightarrow> loop_call" where
  "merge_delta d p = \<lparr>lcl_id = keep_new (tdl_id d) (lcl_id p), lcl_type = keep_new (tdl_type d) (lcl_type p),
     lcl_name = keep_new (tdl_name d) (lcl_name p), lcl_args = lcl_args p @ tdl_args d\<rparr>"

definition zero_loop_call :: loop_call where
  "zero_loop_call = \<lparr>lcl_id = [], lcl_type = [], lcl_name = [], lcl_args = []\<rparr>"

definition pend_delta :: "tool_delta \<Rightarrow> pending \<Rightarrow> pending" where
  "pend_delta d m =
     (case tdl_index d of
        None \<Rightarrow> m
      | Some i \<Rightarrow> AList.update i (merge_delta d (case map_of m i of None \<Rightarrow> zero_loop_call | Some p \<Rightarrow> p)) m)"

text \<open>\<open>taken n\<close>: the reader of the tokens takes the one after \<open>n\<close> others, before the context ends.\<close>

fun collect_choices :: "(nat \<Rightarrow> bool) \<Rightarrow> string \<Rightarrow> loop_choice list \<Rightarrow> collected \<Rightarrow> string option \<times> collected" where
  "collect_choices taken ctxErr [] st = (None, st)"
| "collect_choices taken ctxErr (c # cs) st =
     (let t = lch_content c; st1 = st\<lparr>col_content := col_content st @ t\<rparr> in
      if t \<noteq> [] \<and> \<not> taken (length (col_tokens st)) then (Some ctxErr, st1)
      else collect_choices taken ctxErr cs
        (st1\<lparr>col_tokens := col_tokens st @ (if t \<noteq> [] then [t] else []), col_pending := fold pend_delta (lch_deltas c) (col_pending st)\<rparr>))"

fun collect_items :: "(nat \<Rightarrow> bool) \<Rightarrow> string \<Rightarrow> stream_item list \<Rightarrow> collected \<Rightarrow> string option \<times> collected" where
  "collect_items taken ctxErr [] st = (None, st)"
| "collect_items taken ctxErr (Broken e # items) st = (Some e, st)"
| "collect_items taken ctxErr (Chunk cs # items) st =
     (case collect_choices taken ctxErr cs st of
        (Some e, st') \<Rightarrow> (Some e, st')
      | (None, st') \<Rightarrow> collect_items taken ctxErr items st')"

definition finished_call :: "loop_call \<Rightarrow> loop_call" where
  "finished_call p = p\<lparr>lcl_type := if lcl_type p \<noteq> [] then lcl_type p else ''function''\<rparr>"

text \<open>The calls in the order of their indices, \<open>n\<close> of them at most from index \<open>i\<close> on.\<close>

fun assemble :: "nat \<Rightarrow> nat \<Rightarrow> pending \<Rightarrow> loop_call list" where
  "assemble 0 i m = []"
| "assemble (Suc n) i m = (case map_of m (int i) of None \<Rightarrow> [] | Some p \<Rightarrow> finished_call p # assemble n (Suc i) m)"

text \<open>An error, or the content and the calls; with the tokens that were forwarded.\<close>

definition collectStream :: "(nat \<Rightarrow> bool) \<Rightarrow> string \<Rightarrow> stream_item list \<Rightarrow> (string + string \<times> loop_call list) \<times> string list" where
  "collectStream taken ctxErr items =
     (case collect_items taken ctxErr items zero_collected of
        (Some e, st) \<Rightarrow> (Inl e, col_tokens st)
      | (None, st) \<Rightarrow> (Inr (col_content st, assemble (length (col_pending st)) 0 (col_pending st)), col_tokens st))"

section \<open>Tools\<close>

datatype loop_out =
    LoopToken string
  | LoopCall string string string
      \<comment> \<open>id, name, arguments\<close>
  | LoopResult string string bool
      \<comment> \<open>id, content, error\<close>

datatype loop_end = LoopDone | LoopError string | LoopCrash

text \<open>
  The loop with what it meets: the model, the reader of the tokens, and for the router's tools the client
  (or none) with the network.
\<close>

record AgenticLoop =
  agl_env :: agent_env
  agl_workDir :: string
  agl_maxTurns :: int
  agl_external :: "string list"
  agl_client :: "ToolClient option"
  agl_send :: tool_send
  agl_model :: "nat \<Rightarrow> loop_message list \<Rightarrow> string + stream_item list"
  agl_taken :: "nat \<Rightarrow> nat \<Rightarrow> bool"
  agl_ctxErr :: string
  agl_events :: bool

definition loop_maxTurns :: "GitAgent option \<Rightarrow> int" where
  "loop_maxTurns ga =
     (case ga of
        None \<Rightarrow> 25
      | Some g \<Rightarrow> (case agc_maxTurns (ga_config g) of Some n \<Rightarrow> if 0 < n then n else 25 | None \<Rightarrow> 25))"

text \<open>The content, whether it is an error, and the files; no content is a panic of the tool.\<close>

definition tool_outcome :: "AgenticLoop \<Rightarrow> string \<Rightarrow> loop_call \<Rightarrow> files \<Rightarrow> (string \<times> bool) option \<times> files" where
  "tool_outcome l jobID tc fs =
     (case FindTool (lcl_name tc) of
        Some tool \<Rightarrow>
          (case execute_tool (age_io (agl_env l)) (age_host (agl_env l)) (age_jsonErr (agl_env l)) tool (agl_workDir l) [] (json_parse (lcl_args tc)) fs of
             (TErr e, fs') \<Rightarrow> (Some (''Error: '' @ e, True), fs')
           | (TOk out, fs') \<Rightarrow> (Some (out, False), fs')
           | (TPanic, fs') \<Rightarrow> (None, fs'))
      | None \<Rightarrow>
          (Some
            (case agl_client l of
               Some c \<Rightarrow>
                 if lcl_name tc \<in> set (agl_external l) then
                   (case ToolClient_Execute (agl_send l) (age_jsonErr (agl_env l)) c
                      \<lparr>ter_tool = lcl_name tc, ter_args = json_parse (lcl_args tc), ter_job = jobID\<rparr> of
                      Inl e \<Rightarrow> (''Error executing '' @ lcl_name tc @ '': '' @ e, True)
                    | Inr r \<Rightarrow> if tes_error r \<noteq> [] then (''Tool error: '' @ tes_error r, True) else (tes_result r, False))
                 else (''Unknown tool: '' @ lcl_name tc, True)
             | None \<Rightarrow> (''Unknown tool: '' @ lcl_name tc, True)), fs))"

definition loop_events :: "AgenticLoop \<Rightarrow> loop_out list \<Rightarrow> loop_out list" where
  "loop_events l outs = (if agl_events l then outs else [])"

text \<open>The message of the result, with the events around the call.\<close>

definition loop_executeTool :: "AgenticLoop \<Rightarrow> string \<Rightarrow> loop_call \<Rightarrow> files \<Rightarrow> loop_message option \<times> loop_out list \<times> files" where
  "loop_executeTool l jobID tc fs =
     (case tool_outcome l jobID tc fs of
        (None, fs') \<Rightarrow> (None, loop_events l [LoopCall (lcl_id tc) (lcl_name tc) (lcl_args tc)], fs')
      | (Some (result, isError), fs') \<Rightarrow>
          (Some \<lparr>lms_role = ''tool'', lms_content = result, lms_calls = [], lms_callId = lcl_id tc\<rparr>,
           loop_events l [LoopCall (lcl_id tc) (lcl_name tc) (lcl_args tc), LoopResult (lcl_id tc) result isError], fs'))"

fun run_calls :: "AgenticLoop \<Rightarrow> string \<Rightarrow> loop_call list \<Rightarrow> files \<Rightarrow> loop_message list option \<times> loop_out list \<times> files" where
  "run_calls l jobID [] fs = (Some [], [], fs)"
| "run_calls l jobID (tc # tcs) fs =
     (case loop_executeTool l jobID tc fs of
        (None, outs, fs1) \<Rightarrow> (None, outs, fs1)
      | (Some m, outs, fs1) \<Rightarrow>
          (case run_calls l jobID tcs fs1 of (ms, outs2, fs2) \<Rightarrow> (map_option ((#) m) ms, outs @ outs2, fs2)))"

section \<open>The loop\<close>

record loop_run =
  lrn_requests :: "loop_message list list"
  lrn_outs :: "loop_out list"
  lrn_files :: files
  lrn_end :: loop_end

text \<open>\<open>n\<close> turns are left; the requests are those from this turn on.\<close>

fun run_turns :: "AgenticLoop \<Rightarrow> string \<Rightarrow> nat \<Rightarrow> nat \<Rightarrow> loop_message list \<Rightarrow> files \<Rightarrow> loop_run" where
  "run_turns l jobID 0 turn messages fs =
     \<lparr>lrn_requests = [], lrn_outs = [], lrn_files = fs,
       lrn_end = LoopError (''max turns ('' @ Itoa (agl_maxTurns l) @ '') exceeded without end_turn'')\<rparr>"
| "run_turns l jobID (Suc n) turn messages fs =
     (let ended = (\<lambda>outs fs e. \<lparr>lrn_requests = [messages], lrn_outs = outs, lrn_files = fs, lrn_end = e\<rparr>) in
      case agl_model l turn messages of
        Inl e \<Rightarrow> ended [] fs (LoopError (''create stream (turn '' @ Itoa (int turn + 1) @ ''): '' @ e))
      | Inr items \<Rightarrow>
          (case collectStream (agl_taken l turn) (agl_ctxErr l) items of
             (Inl e, tokens) \<Rightarrow> ended (map LoopToken tokens) fs (LoopError (''collect stream (turn '' @ Itoa (int turn + 1) @ ''): '' @ e))
           | (Inr (content, calls), tokens) \<Rightarrow>
               if calls = [] then ended (map LoopToken tokens) fs LoopDone
               else
                 (case run_calls l jobID calls fs of
                    (None, outs, fs') \<Rightarrow> ended (map LoopToken tokens @ outs) fs' LoopCrash
                  | (Some results, outs, fs') \<Rightarrow>
                      (let r = run_turns l jobID n (Suc turn)
                         (messages @ \<lparr>lms_role = ''assistant'', lms_content = content, lms_calls = calls, lms_callId = []\<rparr> # results) fs'
                       in r\<lparr>lrn_requests := messages # lrn_requests r, lrn_outs := map LoopToken tokens @ outs @ lrn_outs r\<rparr>))))"

definition AgenticLoop_Run :: "AgenticLoop \<Rightarrow> AgentJobMessage \<Rightarrow> files \<Rightarrow> loop_run" where
  "AgenticLoop_Run l job fs = run_turns l (ajm_job job) (nat (agl_maxTurns l)) 0 (buildMessages job) fs"

section \<open>What a turn gives\<close>

definition turn_answer :: "AgenticLoop \<Rightarrow> nat \<Rightarrow> loop_message list \<Rightarrow> (string \<times> loop_call list) option" where
  "turn_answer l turn messages =
     (case agl_model l turn messages of
        Inl e \<Rightarrow> None
      | Inr items \<Rightarrow> (case fst (collectStream (agl_taken l turn) (agl_ctxErr l) items) of Inl e \<Rightarrow> None | Inr a \<Rightarrow> Some a))"

lemma first_request: "lrn_requests (run_turns l j (Suc n) turn messages fs) = messages # tl (lrn_requests (run_turns l j (Suc n) turn messages fs))"
  by (simp add: Let_def split: sum.split prod.split option.split)

lemma no_turns: "lrn_requests (run_turns l j 0 turn messages fs) = []" "lrn_end (run_turns l j 0 turn messages fs) \<noteq> LoopDone"
  by simp_all

lemma run_turns_cases:
  obtains e where "lrn_requests (run_turns l j (Suc n) turn messages fs) = [messages]"
      "lrn_end (run_turns l j (Suc n) turn messages fs) = e" "e \<noteq> LoopDone" "\<And>c. turn_answer l turn messages \<noteq> Some (c, [])"
  | c where "turn_answer l turn messages = Some (c, [])" "lrn_requests (run_turns l j (Suc n) turn messages fs) = [messages]"
      "lrn_end (run_turns l j (Suc n) turn messages fs) = LoopDone"
  | c calls results outs fs1 fs2 where "turn_answer l turn messages = Some (c, calls)" "calls \<noteq> []" "run_calls l j calls fs1 = (Some results, outs, fs2)"
      "lrn_requests (run_turns l j (Suc n) turn messages fs) = messages # lrn_requests (run_turns l j n (Suc turn)
         (messages @ \<lparr>lms_role = ''assistant'', lms_content = c, lms_calls = calls, lms_callId = []\<rparr> # results) fs2)"
      "lrn_end (run_turns l j (Suc n) turn messages fs) = lrn_end (run_turns l j n (Suc turn)
         (messages @ \<lparr>lms_role = ''assistant'', lms_content = c, lms_calls = calls, lms_callId = []\<rparr> # results) fs2)"
proof (cases "agl_model l turn messages")
  case (Inl e)
  then show ?thesis by (intro that(1) [OF _ refl]) (simp_all add: turn_answer_def)
next
  case (Inr items)
  obtain res tokens where c: "collectStream (agl_taken l turn) (agl_ctxErr l) items = (res, tokens)" by fastforce
  show ?thesis
  proof (cases res)
    case (Inl e)
    then show ?thesis using Inr c by (intro that(1) [OF _ refl]) (simp_all add: turn_answer_def)
  next
    case a: (Inr a)
    obtain content calls where ac: "a = (content, calls)" by (cases a)
    obtain ms outs fs2 where r: "run_calls l j calls fs = (ms, outs, fs2)" by (cases "run_calls l j calls fs")
    have answer: "turn_answer l turn messages = Some (content, calls)" using Inr c a ac by (simp add: turn_answer_def)
    show ?thesis
    proof (cases "calls = []")
      case True
      then show ?thesis using Inr c a ac answer by (intro that(2)) simp_all
    next
      case False
      show ?thesis
      proof (cases ms)
        case None
        then show ?thesis using Inr c a ac r False answer by (intro that(1) [OF _ refl]) simp_all
      next
        case (Some results)
        then show ?thesis using Inr c a ac r False answer by (intro that(3) [OF answer False]) (simp_all add: Let_def)
      qed
    qed
  qed
qed

lemma requests_bounded: "length (lrn_requests (run_turns l j n turn messages fs)) \<le> n"
proof (induction n arbitrary: turn messages fs)
  case (Suc n)
  show ?case by (cases rule: run_turns_cases [where l = l and j = j and n = n and turn = turn and messages = messages and fs = fs]) (use Suc.IH in simp_all)
qed simp

lemma done_exact:
  "lrn_end (run_turns l j n turn messages fs) = LoopDone \<longleftrightarrow>
     (let rs = lrn_requests (run_turns l j n turn messages fs) in
      rs \<noteq> [] \<and> (\<exists>c. turn_answer l (turn + length rs - 1) (last rs) = Some (c, [])))"
proof (induction n arbitrary: turn messages fs)
  case (Suc n)
  show ?case
  proof (cases rule: run_turns_cases [where l = l and j = j and n = n and turn = turn and messages = messages and fs = fs])
    case (3 c calls results outs fs1 fs2)
    let ?r = "run_turns l j n (Suc turn) (messages @ \<lparr>lms_role = ''assistant'', lms_content = c, lms_calls = calls, lms_callId = []\<rparr> # results) fs2"
    show ?thesis
    proof (cases "lrn_requests ?r = []")
      case True
      then show ?thesis using Suc.IH [of "Suc turn" _ fs2] 3 by (simp only: Let_def) (simp add: 3(1,2))
    next
      case False
      then show ?thesis using Suc.IH [of "Suc turn" _ fs2] 3(4,5) by (simp add: Let_def)
    qed
  qed (simp_all add: Let_def)
qed simp


section \<open>The conversation\<close>

text \<open>Every call of an assistant message is answered by one message of a tool, in the order of the calls, before anything else.\<close>

fun well_formed :: "string list \<Rightarrow> loop_message list \<Rightarrow> bool" where
  "well_formed open [] \<longleftrightarrow> open = []"
| "well_formed [] (m # ms) \<longleftrightarrow> lms_callId m = [] \<and> well_formed (map lcl_id (lms_calls m)) ms"
| "well_formed (i # is) (m # ms) \<longleftrightarrow> lms_role m = ''tool'' \<and> lms_callId m = i \<and> lms_calls m = [] \<and> well_formed is ms"

definition assistant_message :: "string \<Rightarrow> loop_call list \<Rightarrow> loop_message" where
  "assistant_message content calls = \<lparr>lms_role = ''assistant'', lms_content = content, lms_calls = calls, lms_callId = []\<rparr>"

text \<open>Each request is the one before it, the answer of the model to that, and the results of its calls.\<close>

fun continued :: "AgenticLoop \<Rightarrow> nat \<Rightarrow> loop_message list list \<Rightarrow> bool" where
  "continued l turn (a # b # rs) \<longleftrightarrow>
     (\<exists>content calls results. turn_answer l turn a = Some (content, calls) \<and> calls \<noteq> [] \<and>
        b = a @ assistant_message content calls # results \<and> well_formed (map lcl_id calls) results) \<and>
     continued l (Suc turn) (b # rs)"
| "continued l turn rs \<longleftrightarrow> True"

lemma well_formed_append: "well_formed is ms \<Longrightarrow> well_formed is (ms @ ns) \<longleftrightarrow> well_formed [] ns"
  by (induction "is" ms rule: well_formed.induct) simp_all

lemma results_well_formed: "run_calls l j calls fs = (Some results, outs, fs2) \<Longrightarrow> well_formed (map lcl_id calls) results"
proof (induction calls arbitrary: fs results outs fs2)
  case (Cons tc calls)
  obtain m o1 fs1 where e: "loop_executeTool l j tc fs = (m, o1, fs1)" by (cases "loop_executeTool l j tc fs")
  obtain ms o2 fs3 where r: "run_calls l j calls fs1 = (ms, o2, fs3)" by (cases "run_calls l j calls fs1")
  have "\<exists>x. m = Some x \<and> lms_role x = ''tool'' \<and> lms_callId x = lcl_id tc \<and> lms_calls x = []" if "m \<noteq> None"
    using that e by (auto simp: loop_executeTool_def split: prod.splits option.splits)
  then show ?case using Cons.prems Cons.IH [OF r [THEN trans]] e r
    by (cases m; cases ms) auto
qed simp

lemma plain_well_formed: "well_formed [] (buildMessages job)"
proof -
  have w: "well_formed [] (map (\<lambda>(role, content). plain_message (loop_role role) content) ms)" for ms
    by (induction ms) (auto simp: plain_message_def)
  have "well_formed [] (plain_message ''system'' p # ms) \<longleftrightarrow> well_formed [] ms" for p ms by (simp add: plain_message_def)
  moreover have "plain_message (loop_role (acm_role m)) (acm_content m) = (\<lambda>(role, content). plain_message (loop_role role) content) (acm_role m, acm_content m)" for m
    by simp
  ultimately show ?thesis using w [of "map (\<lambda>m. (acm_role m, acm_content m)) (ajm_messages job)"]
    by (simp add: buildMessages_def comp_def)
qed

lemma requests_well_formed:
  "well_formed [] messages \<Longrightarrow> list_all (well_formed []) (lrn_requests (run_turns l j n turn messages fs))"
proof (induction n arbitrary: turn messages fs)
  case (Suc n)
  show ?case
  proof (cases rule: run_turns_cases [where l = l and j = j and n = n and turn = turn and messages = messages and fs = fs])
    case (3 c calls results outs fs1 fs2)
    have "well_formed [] (messages @ assistant_message c calls # results)"
      using Suc.prems results_well_formed [OF 3(3)] by (simp add: well_formed_append assistant_message_def)
    then show ?thesis using Suc.IH Suc.prems 3(4) by (simp add: assistant_message_def)
  qed (use Suc.prems in simp_all)
qed simp

lemma requests_continued: "continued l turn (lrn_requests (run_turns l j n turn messages fs))"
proof (induction n arbitrary: turn messages fs)
  case (Suc n)
  show ?case
  proof (cases rule: run_turns_cases [where l = l and j = j and n = n and turn = turn and messages = messages and fs = fs])
    case (3 c calls results outs fs1 fs2)
    let ?b = "messages @ assistant_message c calls # results"
    note IH = Suc.IH [of "Suc turn" ?b fs2]
    have rs: "lrn_requests (run_turns l j (Suc n) turn messages fs) = messages # lrn_requests (run_turns l j n (Suc turn) ?b fs2)"
      using 3(4) by (simp add: assistant_message_def)
    show ?thesis
    proof (cases n)
      case 0
      show ?thesis unfolding rs unfolding 0 by simp
    next
      case (Suc k)
      then have "lrn_requests (run_turns l j n (Suc turn) ?b fs2) = ?b # tl (lrn_requests (run_turns l j n (Suc turn) ?b fs2))"
        using first_request by blast
      then show ?thesis using IH 3(1,2) results_well_formed [OF 3(3)] unfolding rs by (metis continued.simps(1))
    qed
  qed simp_all
qed simp

text \<open>
  C38: every request of the loop is a conversation in which each call is answered once and in order, and each
  request but the first is the one before it with the answer of the model and the results of its calls, nothing else.
\<close>

theorem loop_conversation:
  "list_all (well_formed []) (lrn_requests (AgenticLoop_Run l job fs)) \<and> continued l 0 (lrn_requests (AgenticLoop_Run l job fs))"
  using requests_well_formed [OF plain_well_formed] requests_continued by (simp add: AgenticLoop_Run_def)

section \<open>Gaps in the indices\<close>

text \<open>Calls after an index that is missing are dropped: an answer whose only call has the index 1 is taken as one without calls, which ends the run.\<close>

lemma calls_after_gap_lost:
  "collectStream (\<lambda>n. True) [] [Chunk [\<lparr>lch_content = [], lch_deltas = [\<lparr>tdl_index = Some 1, tdl_id = ''c'', tdl_type = [], tdl_name = ''read'', tdl_args = []\<rparr>]\<rparr>]] =
     (Inr ([], []), [])"
  by code_simp

section \<open>The client and the router\<close>

text \<open>The request the client makes, and the answer of the router as the client gets it.\<close>

definition posted :: "string \<Rightarrow> json \<Rightarrow> http_request" where
  "posted key doc = \<lparr>rq_method = ''POST'', rq_path = ''/api/tools/v1/execute'', rq_auth = ''Bearer '' @ key, rq_apiKey = [], rq_body = Some doc\<rparr>"

definition carried :: "execute_result \<Rightarrow> (bool \<times> string) + int \<times> raw" where
  "carried r = (case r of Answered [OReply status doc] \<Rightarrow> Inr (status, Some doc) | _ \<Rightarrow> Inl (False, ''EOF''))"

definition tool_failed :: "string + ToolExecResponse \<Rightarrow> bool" where
  "tool_failed r = (case r of Inl e \<Rightarrow> True | Inr x \<Rightarrow> tes_error x \<noteq> [])"

lemma no_tool_named: "\<exists>args. from_raw dec_executeRequest (Some (enc_ToolExecRequest req)) zero_executeRequest = (\<lparr>xr_tool = [], xr_args = args\<rparr>, True)"
proof -
  have lower: "ToLower ''tool_name'' = ''tool_name''" "ToLower ''arguments'' = ''arguments''" "ToLower ''job_id'' = ''job_id''" by code_simp+
  show ?thesis
    by (cases "ter_job req = []")
      (simp_all add: from_raw_def dec_executeRequest_def enc_ToolExecRequest_def zero_executeRequest_def dec_struct_obj dec_pairs_Cons
        dec_pairs_Nil lower fld_def dec_raw_Some)
qed

lemma client_request_refused:
  "handleExecuteTool cfg toolJobID callID sent cause jsonErr (posted key (enc_ToolExecRequest req)) th =
     (Answered (writeErrorJSON 400 ''invalid_request_error'' ''tool name is required''), th, [])"
  using no_tool_named [of req] by (auto simp: handleExecuteTool_def posted_def TrimSpace_def)

text \<open>
  C39: no tool of the router can be called through the client of the agent worker: its request names the tool
  under another key than the one that the router reads, so that whatever it asks for reaches no tools worker,
  changes nothing of them, and comes back as an error.
\<close>

theorem external_tool_refused:
  "(\<exists>answer h'. Tools_ServeHTTP env defs toolJobID callID sent cause (posted (tcl_key c) (enc_ToolExecRequest req)) th h = ((answer, th, []), h') \<and>
      tool_failed (ToolClient_Execute (\<lambda>url key doc. carried (fst (fst (Tools_ServeHTTP env defs toolJobID callID sent cause (posted key doc) th h)))) jsonErr c req))"
proof -
  let ?rq = "posted (tcl_key c) (enc_ToolExecRequest req)"
  let ?run = "Tools_ServeHTTP env defs toolJobID callID sent cause ?rq th h"
  have route: "?run = tools_authorized env ?rq (Answered (writeErrorJSON 400 ''invalid_request_error'' ''tool name is required''), th, []) th h"
    by (simp add: Tools_ServeHTTP_def tools_route_def client_request_refused) (simp add: posted_def)
  have "fst (bearer_auth env ?rq v) \<in> {None, Some []} \<or> (\<exists>t m. fst (bearer_auth env ?rq v) = Some (writeErrorJSON 401 t m))" for v
    by (auto simp: bearer_auth_def Let_def split: prod.split verdict.split bool.split)
  from this [of "ta_verifier h"]
  have "fst (tools_requireAuth env ?rq h) \<in> {None, Some []} \<or> (\<exists>t m. fst (tools_requireAuth env ?rq h) = Some (writeErrorJSON 401 t m))"
    by (cases "bearer_auth env ?rq (ta_verifier h)") (simp add: tools_requireAuth_def)
  then obtain out h' where run: "?run = ((Answered out, th, []), h')" "out = [] \<or> (\<exists>s doc. out = [OReply s doc] \<and> s \<noteq> 403 \<and> s \<noteq> 200)"
    unfolding route by (cases "tools_requireAuth env ?rq h") (auto simp: tools_authorized_def writeErrorJSON_def)
  have "tool_failed (ToolClient_Execute (\<lambda>url key doc. carried (fst (fst (Tools_ServeHTTP env defs toolJobID callID sent cause (posted key doc) th h)))) jsonErr c req)"
    using run(2) by (auto simp: ToolClient_Execute_def run(1) carried_def tool_failed_def zero_ToolExecResponse_def)
  with run(1) show ?thesis by blast
qed

end
