(* ===== verification/Tools_Mcp.thy ===== *)
theory Tools_Mcp
  imports Llama_Client Http_Api Go_Path
begin

text \<open>
  The clients of MCP servers of the tools worker (\<open>pkg/tools/mcp.go\<close>, \<open>pkg/tools/mcp_http.go\<close>): the exchange with
  a server that is a process, over its standard input and output, and with one over HTTP.  The server is a
  parameter: what it writes, or its answers.  \<open>trunc\<close> is the integral part of a number that is not
  written as an integer.
\<close>

section \<open>Messages\<close>

record jsonRPCError =
  rpe_code :: int
  rpe_message :: string

definition zero_jsonRPCError :: jsonRPCError where
  "zero_jsonRPCError = \<lparr>rpe_code = 0, rpe_message = []\<rparr>"

definition dec_jsonRPCError :: "jsonRPCError decoder" where
  "dec_jsonRPCError = dec_struct [(''code'', fld rpe_code rpe_code_update dec_int), (''message'', fld rpe_message rpe_message_update dec_string)]"

record jsonRPCResponse =
  rpr_jsonrpc :: string
  rpr_id :: raw
  rpr_result :: raw
  rpr_error :: "jsonRPCError option"

definition zero_jsonRPCResponse :: jsonRPCResponse where
  "zero_jsonRPCResponse = \<lparr>rpr_jsonrpc = [], rpr_id = None, rpr_result = None, rpr_error = None\<rparr>"

definition dec_jsonRPCResponse :: "jsonRPCResponse decoder" where
  "dec_jsonRPCResponse = dec_struct
     [(''jsonrpc'', fld rpr_jsonrpc rpr_jsonrpc_update dec_string), (''id'', fld rpr_id rpr_id_update dec_raw),
      (''result'', fld rpr_result rpr_result_update dec_raw),
      (''error'', fld rpr_error rpr_error_update (dec_ptr zero_jsonRPCError dec_jsonRPCError))]"

text \<open>\<open>fmt.Sscanf\<close> with \<open>%d\<close>: blanks but no newline, a sign, and the digits up to the first other character.\<close>

definition sscanf_d :: "string \<Rightarrow> int option" where
  "sscanf_d s =
     (let t = dropWhile (\<lambda>c. is_space c \<and> c \<noteq> CHR 0x0A) s;
          sign = takeWhile (\<lambda>c. c = CHR ''-'' \<or> c = CHR ''+'') (take 1 t)
      in Atoi (sign @ takeWhile is_digit (drop (length sign) t)))"

definition jsonRPCIDMatches :: "(string \<Rightarrow> int option) \<Rightarrow> raw \<Rightarrow> int \<Rightarrow> bool" where
  "jsonRPCIDMatches trunc r want \<longleftrightarrow>
     (case r of
        Some (JNum (NInt i)) \<Rightarrow> i = want
      | Some (JNum (NLit t)) \<Rightarrow> trunc t = Some want
      | Some (JStr s) \<Rightarrow> sscanf_d s = Some want
      | _ \<Rightarrow> False)"

definition normalizeMCPArguments :: "raw \<Rightarrow> json" where
  "normalizeMCPArguments args = (case args of Some (JObj kvs) \<Rightarrow> JObj kvs | _ \<Rightarrow> JObj [])"

fun has_adjacent :: "string \<Rightarrow> string \<Rightarrow> string list \<Rightarrow> bool" where
  "has_adjacent a b (x # y # zs) \<longleftrightarrow> x = a \<and> y = b \<or> has_adjacent a b (y # zs)"
| "has_adjacent a b zs \<longleftrightarrow> False"

definition argumentsHint :: string where
  "argumentsHint =
     ''Auxot maps this to your aggregate tool's \"arguments\" field: use a JSON object (not null). Example: '' @
     ''{\"command\":\"get_file_contents\",\"arguments\":{\"owner\":\"YOUR_ORG\",\"repo\":\"YOUR_REPO\",\"path\":\"README.md\"}}.''"

definition hintForMCPToolValidationError :: "string \<Rightarrow> string" where
  "hintForMCPToolValidationError message =
     (let s = TrimSpace message in
      if length s < 2 \<or> hd s \<noteq> CHR ''['' then []
      else
        (case Unmarshal (dec_slice [] (dec_struct [(''path'', dec_slice [] dec_string)])) s [] of
           (issues, False) \<Rightarrow> []
         | (issues, True) \<Rightarrow> if \<exists>path\<in>set issues. has_adjacent ''params'' ''arguments'' path then argumentsHint else []))"

definition mcpJSONRPCToolCallError :: "string \<Rightarrow> int \<Rightarrow> string \<Rightarrow> string" where
  "mcpJSONRPCToolCallError toolName code message =
     (let msg = TrimSpace message; hint = hintForMCPToolValidationError msg in
      ''MCP tool '' @ strconv_quote toolName @ '': server rejected the request (JSON-RPC '' @ Itoa code @ ''): '' @ msg @
      (if hint = [] then [] else [CHR 0x0A, CHR 0x0A] @ hint))"

section \<open>Tools and results\<close>

record McpToolDef =
  mtd_name :: string
  mtd_desc :: string
  mtd_params :: "string list"
  mtd_schema :: raw

record listed_tool =
  ltl_name :: string
  ltl_desc :: string
  ltl_schema :: raw

definition zero_listed_tool :: listed_tool where
  "zero_listed_tool = \<lparr>ltl_name = [], ltl_desc = [], ltl_schema = None\<rparr>"

definition dec_listed_tool :: "listed_tool decoder" where
  "dec_listed_tool = dec_struct
     [(''name'', fld ltl_name ltl_name_update dec_string), (''description'', fld ltl_desc ltl_desc_update dec_string),
      (''inputschema'', fld ltl_schema ltl_schema_update dec_raw)]"

definition dec_listed :: "listed_tool list decoder" where
  "dec_listed = dec_struct [(''tools'', dec_slice zero_listed_tool dec_listed_tool)]"

record schema_params =
  scp_properties :: "raw gomap"
  scp_required :: "string list"

definition dec_schema_params :: "schema_params decoder" where
  "dec_schema_params = dec_struct
     [(''properties'', fld scp_properties scp_properties_update (dec_map None dec_raw)),
      (''required'', fld scp_required scp_required_update (dec_slice [] dec_string))]"

text \<open>The required parameters, then the other properties in the order of the map.\<close>

definition param_names :: "raw \<Rightarrow> string list" where
  "param_names schema =
     (let s = fst (from_raw dec_schema_params schema \<lparr>scp_properties = [], scp_required = []\<rparr>) in
      scp_required s @ filter (\<lambda>k. k \<notin> set (scp_required s)) (mkeys (scp_properties s)))"

definition tool_def_of :: "listed_tool \<Rightarrow> McpToolDef" where
  "tool_def_of t = \<lparr>mtd_name = ltl_name t, mtd_desc = ltl_desc t, mtd_params = param_names (ltl_schema t), mtd_schema = ltl_schema t\<rparr>"

record tool_image =
  tim_mime :: string
  tim_data :: string

record tool_Result =
  trs_output :: raw
  trs_images :: "tool_image list"

definition output_of :: "raw \<Rightarrow> tool_Result" where
  "output_of r = \<lparr>trs_output = r, trs_images = []\<rparr>"

record call_content =
  ccn_type :: string
  ccn_text :: string

record call_envelope =
  cen_isError :: bool
  cen_content :: "call_content list"

definition dec_call_envelope :: "call_envelope decoder" where
  "dec_call_envelope = dec_struct
     [(''iserror'', fld cen_isError cen_isError_update dec_bool),
      (''content'', fld cen_content cen_content_update (dec_slice \<lparr>ccn_type = [], ccn_text = []\<rparr>
         (dec_struct [(''type'', fld ccn_type ccn_type_update dec_string), (''text'', fld ccn_text ccn_text_update dec_string)])))]"

definition interpretMcpToolsCallResult :: "string \<Rightarrow> json \<Rightarrow> string + tool_Result" where
  "interpretMcpToolsCallResult toolName r =
     (case dec_call_envelope r \<lparr>cen_isError = False, cen_content = []\<rparr> of
        (e, ok) \<Rightarrow>
          if \<not> ok \<or> \<not> cen_isError e then Inr (output_of (Some r))
          else
            (let parts = map ccn_text (filter (\<lambda>c. ccn_type c = ''text'' \<and> ccn_text c \<noteq> []) (cen_content e));
                 msg = join_with [CHR 0x0A] parts
             in Inl (''MCP tool '' @ strconv_quote toolName @ '': '' @
                  (if msg = [] then ''MCP tool returned isError with no text content'' else msg))))"

section \<open>A server that is a process\<close>

text \<open>
  What the process meets: the error of starting it (\<open>Inl\<close> the first pipe, the second, the start), the errors of the
  writes, its output and the error that ends the reading when the output has not ended.
\<close>

datatype start_error = StdinPipe string | StdoutPipe string | StartFailed string

record mcp_process =
  mpc_start :: "start_error option"
  mpc_write :: "nat \<Rightarrow> string option"
  mpc_stdout :: string
  mpc_late :: "string option"
  mpc_stderr :: string

definition rpc_request :: "int option \<Rightarrow> string \<Rightarrow> json option \<Rightarrow> json" where
  "rpc_request i method params = JObj
     ([(''jsonrpc'', JStr ''2.0'')] @ (case i of None \<Rightarrow> [] | Some n \<Rightarrow> [(''id'', JNum (NInt n))]) @ [(''method'', JStr method)] @
      (case params of None \<Rightarrow> [] | Some p \<Rightarrow> [(''params'', p)]))"

definition initialize_params :: json where
  "initialize_params = JObj
     [(''capabilities'', JObj []), (''clientInfo'', JObj [(''name'', JStr ''auxot-tools''), (''version'', JStr ''1.0'')]),
      (''protocolVersion'', JStr ''2024-11-05'')]"

definition mcp_call_params :: "string \<Rightarrow> json \<Rightarrow> json" where
  "mcp_call_params toolName args = JObj [(''arguments'', args), (''name'', JStr toolName)]"

text \<open>The next response with the id, and the lines after it; lines that are no response are skipped.\<close>

fun read_resp :: "(string \<Rightarrow> int option) \<Rightarrow> int \<Rightarrow> string list \<Rightarrow> (jsonRPCResponse \<times> string list) option" where
  "read_resp trunc want [] = None"
| "read_resp trunc want (l # ls) =
     (case Unmarshal dec_jsonRPCResponse l zero_jsonRPCResponse of
        (r, ok) \<Rightarrow> if ok \<and> jsonRPCIDMatches trunc (rpr_id r) want then Some (r, ls) else read_resp trunc want ls)"

definition rpc_error_text :: "jsonRPCError \<Rightarrow> string" where
  "rpc_error_text e = ''MCP JSON-RPC error '' @ Itoa (rpe_code e) @ '': '' @ rpe_message e"

text \<open>A response, or the error of waiting for it, or the error it reports.\<close>

definition await_resp ::
    "(string \<Rightarrow> int option) \<Rightarrow> (jsonRPCError \<Rightarrow> string) \<Rightarrow> string \<Rightarrow> int \<Rightarrow> string list \<Rightarrow> string + jsonRPCResponse \<times> string list" where
  "await_resp trunc errText ended want ls =
     (case read_resp trunc want ls of
        None \<Rightarrow> Inl ended
      | Some (r, ls') \<Rightarrow> (case rpr_error r of Some e \<Rightarrow> Inl (errText e) | None \<Rightarrow> Inr (r, ls')))"

definition started :: "(string \<Rightarrow> string) \<Rightarrow> (string \<Rightarrow> string) \<Rightarrow> (string \<Rightarrow> string) \<Rightarrow> start_error \<Rightarrow> string" where
  "started pin pout st e = (case e of StdinPipe t \<Rightarrow> pin t | StdoutPipe t \<Rightarrow> pout t | StartFailed t \<Rightarrow> st t)"

definition McpIntrospect :: "(string \<Rightarrow> int option) \<Rightarrow> string \<Rightarrow> string \<Rightarrow> string \<Rightarrow> mcp_process \<Rightarrow> string + McpToolDef list" where
  "McpIntrospect trunc jsonErr pkg version p =
     (let pkgSpec = pkg @ ''@'' @ version; lines = scan_upto 262143 (mpc_stdout p);
          ended = (case mpc_late p of None \<Rightarrow> ''MCP server closed stdout''
            | Some e \<Rightarrow> if snd lines then ''MCP server closed stdout'' else e)
      in case mpc_start p of
           Some e \<Rightarrow> Inl (started (\<lambda>t. ''stdin pipe for MCP introspect '' @ pkgSpec @ '': '' @ t) (\<lambda>t. ''stdout pipe for MCP introspect '' @ pkgSpec @ '': '' @ t)
             (\<lambda>t. ''starting MCP server '' @ pkgSpec @ '' for introspect: '' @ t) e)
         | None \<Rightarrow>
             (case await_resp trunc rpc_error_text ended 1 (fst lines) of
                Inl e \<Rightarrow> Inl (''MCP introspect initialize: '' @ e)
              | Inr (r1, ls) \<Rightarrow>
                  (case await_resp trunc rpc_error_text ended 2 ls of
                     Inl e \<Rightarrow> Inl (''MCP introspect tools/list: '' @ e)
                   | Inr (r2, ls') \<Rightarrow>
                       (case from_raw dec_listed (rpr_result r2) [] of
                          (tools, False) \<Rightarrow> Inl (''parsing tools/list result: '' @ jsonErr)
                        | (tools, True) \<Rightarrow> Inr (map tool_def_of tools)))))"

text \<open>The result, and what was written to the process, in order.\<close>

definition McpExecute ::
    "(string \<Rightarrow> int option) \<Rightarrow> string \<Rightarrow> string \<Rightarrow> string \<Rightarrow> raw \<Rightarrow> mcp_process \<Rightarrow> (string + tool_Result) \<times> json list" where
  "McpExecute trunc pkg version toolName args p =
     (let pkgSpec = pkg @ ''@'' @ version; lines = scan_upto 1048575 (mpc_stdout p);
          closed = ''MCP server '' @ pkgSpec @ '' stdout closed unexpectedly (stderr: '' @ mpc_stderr p @ '')'';
          ended = (case mpc_late p of None \<Rightarrow> closed | Some e \<Rightarrow> if snd lines then closed else ''MCP '' @ pkgSpec @ '' timed out: '' @ e);
          req1 = rpc_request (Some 1) ''initialize'' (Some initialize_params);
          note = rpc_request None ''notifications/initialized'' None;
          req2 = rpc_request (Some 2) ''tools/call'' (Some (mcp_call_params toolName (normalizeMCPArguments args)))
      in case mpc_start p of
           Some e \<Rightarrow> (Inl (started (\<lambda>t. ''creating stdin pipe for MCP '' @ pkgSpec @ '': '' @ t) (\<lambda>t. ''creating stdout pipe for MCP '' @ pkgSpec @ '': '' @ t)
             (\<lambda>t. ''starting MCP server '' @ pkgSpec @ '': '' @ t) e), [])
         | None \<Rightarrow>
             (case mpc_write p 0 of
                Some e \<Rightarrow> (Inl (''MCP initialize request: writing to MCP stdin: '' @ e), [])
              | None \<Rightarrow>
                  (case await_resp trunc rpc_error_text ended 1 (fst lines) of
                     Inl e \<Rightarrow> (Inl (''MCP initialize response: '' @ e), [req1])
                   | Inr (r1, ls) \<Rightarrow>
                       (case mpc_write p 1 of
                          Some e \<Rightarrow> (Inl (''MCP initialized notification: writing to MCP stdin: '' @ e), [req1])
                        | None \<Rightarrow>
                            (case mpc_write p 2 of
                               Some e \<Rightarrow> (Inl (''MCP tools/call request: writing to MCP stdin: '' @ e), [req1, note])
                             | None \<Rightarrow>
                                 ((case await_resp trunc (\<lambda>e. mcpJSONRPCToolCallError toolName (rpe_code e) (rpe_message e)) ended 2 ls of
                                     Inl e \<Rightarrow> Inl (''MCP tools/call response: '' @ e)
                                   | Inr (r2, ls') \<Rightarrow>
                                       (case rpr_result r2 of
                                          None \<Rightarrow> Inr (output_of (Some JNull))
                                        | Some r \<Rightarrow> interpretMcpToolsCallResult toolName r)), [req1, note, req2]))))))"

section \<open>A server over HTTP\<close>

text \<open>\<open>post\<close>: a request of a session, or the error of making it (\<open>True\<close>) or of sending it.\<close>

record mcp_http_answer =
  mha_status :: int
  mha_session :: string
  mha_sse :: bool
  mha_body :: string
  mha_readErr :: "string option"

type_synonym mcp_post = "string \<Rightarrow> json \<Rightarrow> (bool \<times> string) + mcp_http_answer"

text \<open>\<open>*json.Number\<close>: a number, or a string that is one.\<close>

fun dec_id_number :: "number option decoder" where
  "dec_id_number (JNum n) cur = (Some n, True)"
| "dec_id_number JNull cur = (None, True)"
| "dec_id_number (JStr s) cur =
     (case json_parse s of
        Some (JNum n) \<Rightarrow> if TrimSpace s = s then (Some n, True) else (cur, False)
      | _ \<Rightarrow> (cur, False))"
| "dec_id_number j cur = (cur, False)"

definition sse_id_matches :: "int \<Rightarrow> string \<Rightarrow> bool" where
  "sse_id_matches want data \<longleftrightarrow>
     (case Unmarshal (dec_struct [(''id'', dec_id_number)]) data None of
        (Some (NInt i), True) \<Rightarrow> in_int64 i \<and> i = want
      | _ \<Rightarrow> False)"

definition trim_line_end :: "string \<Rightarrow> string" where
  "trim_line_end l = rev (dropWhile (\<lambda>c. c = CHR 0x0D \<or> c = CHR 0x0A) (rev l))"

text \<open>The lines of the body with the data of the event so far; the last line is what the end of the body cuts off.\<close>

fun sse_response :: "string \<Rightarrow> int \<Rightarrow> string \<Rightarrow> string list \<Rightarrow> string + string" where
  "sse_response ended want data [] = Inl ended"
| "sse_response ended want data (l # ls) =
     (let line = trim_line_end l in
      if HasPrefix line ''data: '' then sse_response ended want (data @ TrimPrefix line ''data: '') ls
      else if line = [] \<and> data \<noteq> [] then
        (if want = - 1 \<or> sse_id_matches want data then Inr data else sse_response ended want [] ls)
      else sse_response ended want data ls)"

definition mcpReadSSEResponse :: "int \<Rightarrow> string \<Rightarrow> string option \<Rightarrow> string + string" where
  "mcpReadSSEResponse want body readErr =
     sse_response
       (case readErr of None \<Rightarrow> ''SSE stream closed before matching response (wantID='' @ Itoa want @ '')'' | Some e \<Rightarrow> ''reading SSE stream: '' @ e)
       want [] (Split (CHR 0x0A) body)"

text \<open>The document if there is one, the session, and the error.\<close>

definition mcpHTTPPost :: "mcp_post \<Rightarrow> string \<Rightarrow> string \<Rightarrow> int \<Rightarrow> json \<Rightarrow> string option \<times> string \<times> string option" where
  "mcpHTTPPost post baseURL sessionID want payload =
     (case post sessionID payload of
        Inl (True, e) \<Rightarrow> (None, [], Some (''build MCP HTTP request: '' @ e))
      | Inl (False, e) \<Rightarrow> (None, [], Some (''POST MCP '' @ baseURL @ '': '' @ e))
      | Inr a \<Rightarrow>
          (let session = (if mha_session a = [] then sessionID else mha_session a) in
           if mha_status a = 202 then (None, session, None)
           else if 400 \<le> mha_status a then
             (None, session, Some (''MCP HTTP server returned '' @ Itoa (mha_status a) @ '': '' @ TrimSpace (mha_body a)))
           else if mha_sse a then
             (case mcpReadSSEResponse want (mha_body a) (mha_readErr a) of
                Inl e \<Rightarrow> (None, session, Some e)
              | Inr data \<Rightarrow> (Some data, session, None))
           else
             (case mha_readErr a of
                Some e \<Rightarrow> (None, session, Some (''reading MCP HTTP JSON response: '' @ e))
              | None \<Rightarrow> (Some (mha_body a), session, None))))"

text \<open>The payloads are maps, so their keys are sorted.\<close>

definition http_request_doc :: "int option \<Rightarrow> string \<Rightarrow> json option \<Rightarrow> json" where
  "http_request_doc i method params = JObj
     ((case i of None \<Rightarrow> [] | Some n \<Rightarrow> [(''id'', JNum (NInt n))]) @ [(''jsonrpc'', JStr ''2.0''), (''method'', JStr method)] @
      (case params of None \<Rightarrow> [] | Some p \<Rightarrow> [(''params'', p)]))"

definition init_error :: "string option \<Rightarrow> jsonRPCError option" where
  "init_error doc =
     (case doc of
        None \<Rightarrow> None
      | Some d \<Rightarrow>
          (case Unmarshal (dec_struct [(''error'', dec_ptr zero_jsonRPCError dec_jsonRPCError)]) d None of
             (e, ok) \<Rightarrow> if ok then e else None))"

definition mcpHTTPHandshake :: "mcp_post \<Rightarrow> string \<Rightarrow> string + string" where
  "mcpHTTPHandshake post baseURL =
     (case mcpHTTPPost post baseURL [] 1 (http_request_doc (Some 1) ''initialize'' (Some initialize_params)) of
        (doc, session, Some e) \<Rightarrow> Inl (''MCP HTTP initialize: '' @ e)
      | (doc, session, None) \<Rightarrow>
          (case init_error doc of
             Some e \<Rightarrow> Inl (''MCP HTTP initialize error '' @ Itoa (rpe_code e) @ '': '' @ rpe_message e)
           | None \<Rightarrow> Inr (fst (snd (mcpHTTPPost post baseURL session (- 1) (http_request_doc None ''notifications/initialized'' None))))))"

record list_envelope =
  lev_result :: "listed_tool list option"
  lev_error :: "jsonRPCError option"

definition dec_list_envelope :: "list_envelope decoder" where
  "dec_list_envelope = dec_struct
     [(''result'', fld lev_result lev_result_update (dec_ptr [] dec_listed)),
      (''error'', fld lev_error lev_error_update (dec_ptr zero_jsonRPCError dec_jsonRPCError))]"

text \<open>No document is the empty text.\<close>

definition doc_text :: "string option \<Rightarrow> string" where
  "doc_text doc = (case doc of None \<Rightarrow> [] | Some d \<Rightarrow> d)"

definition McpHttpIntrospect :: "string \<Rightarrow> mcp_post \<Rightarrow> string \<Rightarrow> string + McpToolDef list" where
  "McpHttpIntrospect jsonErr post baseURL =
     (case mcpHTTPHandshake post baseURL of
        Inl e \<Rightarrow> Inl e
      | Inr session \<Rightarrow>
          (case mcpHTTPPost post baseURL session 2 (http_request_doc (Some 2) ''tools/list'' None) of
             (doc, s, Some e) \<Rightarrow> Inl (''MCP HTTP tools/list: '' @ e)
           | (doc, s, None) \<Rightarrow>
               (case Unmarshal dec_list_envelope (doc_text doc) \<lparr>lev_result = None, lev_error = None\<rparr> of
                  (env, False) \<Rightarrow> Inl (''parsing MCP HTTP tools/list response: '' @ jsonErr)
                | (env, True) \<Rightarrow>
                    (case lev_error env of
                       Some e \<Rightarrow> Inl (''MCP HTTP tools/list error '' @ Itoa (rpe_code e) @ '': '' @ rpe_message e)
                     | None \<Rightarrow>
                         (case lev_result env of
                            None \<Rightarrow> Inl ''MCP HTTP tools/list: missing result field''
                          | Some tools \<Rightarrow> Inr (map tool_def_of tools))))))"

definition McpHttpExecute :: "string \<Rightarrow> mcp_post \<Rightarrow> string \<Rightarrow> string \<Rightarrow> raw \<Rightarrow> string + tool_Result" where
  "McpHttpExecute jsonErr post baseURL toolName args =
     (case mcpHTTPHandshake post baseURL of
        Inl e \<Rightarrow> Inl e
      | Inr session \<Rightarrow>
          (case mcpHTTPPost post baseURL session 2
                  (http_request_doc (Some 2) ''tools/call'' (Some (mcp_call_params toolName (normalizeMCPArguments args)))) of
             (doc, s, Some e) \<Rightarrow> Inl (''MCP HTTP tools/call: '' @ e)
           | (doc, s, None) \<Rightarrow>
               (case Unmarshal (dec_struct [(''result'', fld rpr_result rpr_result_update dec_raw),
                        (''error'', fld rpr_error rpr_error_update (dec_ptr zero_jsonRPCError dec_jsonRPCError))]) (doc_text doc) zero_jsonRPCResponse of
                  (env, False) \<Rightarrow> Inl (''parsing MCP HTTP tools/call response: '' @ jsonErr)
                | (env, True) \<Rightarrow>
                    (case rpr_error env of
                       Some e \<Rightarrow> Inl (mcpJSONRPCToolCallError toolName (rpe_code e) (rpe_message e))
                     | None \<Rightarrow>
                         (case rpr_result env of
                            None \<Rightarrow> Inr (output_of (Some JNull))
                          | Some r \<Rightarrow> interpretMcpToolsCallResult toolName r)))))"

section \<open>Names\<close>

text \<open>What is after the last occurrence of a byte, and what is before it (all of it when there is none).\<close>

definition after_last :: "char \<Rightarrow> string \<Rightarrow> string" where
  "after_last c s = rev (takeWhile (\<lambda>x. x \<noteq> c) (rev s))"

definition before_last :: "char \<Rightarrow> string \<Rightarrow> string" where
  "before_last c s = (if c \<in> set s then rev (tl (dropWhile (\<lambda>x. x \<noteq> c) (rev s))) else s)"

definition McpPackageSlug :: "string \<Rightarrow> string" where
  "McpPackageSlug pkg =
     (let p = after_last (CHR ''/'') pkg;
          p = (if HasPrefix p ''server-'' then drop 7 p else if HasPrefix p ''mcp-'' then drop 4 p else p)
      in ReplaceAll p ''-'' ''_'')"

definition mcpHTTPHostnameSlug :: "string \<Rightarrow> string" where
  "mcpHTTPHostnameSlug rawURL =
     (if TrimSpace rawURL = [] then []
      else
        (let host = (case Index rawURL ''://'' of None \<Rightarrow> rawURL | Some i \<Rightarrow> drop (i + 3) rawURL);
             host = takeWhile (\<lambda>c. c \<noteq> CHR ''/'') host;
             host = TrimPrefix (before_last (CHR '':'') host) ''api.'';
             parts = Split (CHR ''.'') host;
             host = (if 2 \<le> length parts then parts ! (length parts - 2) else host)
         in ReplaceAll host ''-'' ''_''))"

definition McpHttpSlug :: "(string \<Rightarrow> bool) \<Rightarrow> string \<Rightarrow> string \<Rightarrow> string" where
  "McpHttpSlug isUUID i rawURL =
     (let i = TrimSpace i; urlSlug = mcpHTTPHostnameSlug rawURL in
      if i \<noteq> [] \<and> \<not> isUUID i then ReplaceAll i ''-'' ''_''
      else if urlSlug \<noteq> [] then urlSlug
      else if i \<noteq> [] then ReplaceAll i ''-'' ''_''
      else ''remote_mcp'')"

section \<open>Lemmas\<close>

text \<open>The response with an id that a line is, if it is one.\<close>

definition response_of :: "(string \<Rightarrow> int option) \<Rightarrow> int \<Rightarrow> string \<Rightarrow> jsonRPCResponse option" where
  "response_of trunc want l =
     (case Unmarshal dec_jsonRPCResponse l zero_jsonRPCResponse of
        (r, ok) \<Rightarrow> if ok \<and> jsonRPCIDMatches trunc (rpr_id r) want then Some r else None)"

lemma read_resp_noise: "list_all (\<lambda>l. response_of trunc want l = None) noise \<Longrightarrow> read_resp trunc want (noise @ ls) = read_resp trunc want ls"
  by (induction noise) (auto simp: response_of_def split: prod.splits if_splits)

lemma read_resp_found: "response_of trunc want l = Some r \<Longrightarrow> read_resp trunc want (l # ls) = Some (r, ls)"
  by (auto simp: response_of_def split: prod.splits if_splits)

lemma read_resp_Some:
  "read_resp trunc want ls = Some (r, ls') \<Longrightarrow> \<exists>noise l. ls = noise @ l # ls' \<and> response_of trunc want l = Some r \<and>
     list_all (\<lambda>l. response_of trunc want l = None) noise"
proof (induction ls)
  case (Cons l ls)
  show ?case
  proof (cases "response_of trunc want l")
    case None
    then have "read_resp trunc want ls = Some (r, ls')" using Cons.prems by (auto simp: response_of_def split: prod.splits if_splits)
    then obtain noise x where "ls = noise @ x # ls'" "response_of trunc want x = Some r" "list_all (\<lambda>l. response_of trunc want l = None) noise"
      using Cons.IH by blast
    then show ?thesis using None by (intro exI [of _ "l # noise"] exI [of _ x]) simp
  next
    case (Some r')
    then show ?thesis using Cons.prems read_resp_found [OF Some] by (intro exI [of _ "[]"] exI [of _ l]) simp
  qed
qed simp

text \<open>
  A call is answered with the first response to it after the first response to the greeting; what else the server
  writes, logs or notifications or responses to others, changes nothing.
\<close>

lemma mcp_call_answered:
  assumes "mpc_start p = None" and "\<And>n. mpc_write p n = None"
    and "fst (scan_upto 1048575 (mpc_stdout p)) = noise1 @ l1 # noise2 @ l2 # ls"
    and "list_all (\<lambda>l. response_of trunc 1 l = None) noise1" and "response_of trunc 1 l1 = Some r1" and "rpr_error r1 = None"
    and "list_all (\<lambda>l. response_of trunc 2 l = None) noise2" and "response_of trunc 2 l2 = Some r2"
  shows "McpExecute trunc pkg version toolName args p =
    (case rpr_error r2 of
       Some e \<Rightarrow> Inl (''MCP tools/call response: '' @ mcpJSONRPCToolCallError toolName (rpe_code e) (rpe_message e))
     | None \<Rightarrow> (case rpr_result r2 of None \<Rightarrow> Inr (output_of (Some JNull)) | Some r \<Rightarrow> interpretMcpToolsCallResult toolName r),
     [rpc_request (Some 1) ''initialize'' (Some initialize_params), rpc_request None ''notifications/initialized'' None,
      rpc_request (Some 2) ''tools/call'' (Some (mcp_call_params toolName (normalizeMCPArguments args)))])"
proof -
  have r1: "read_resp trunc 1 (fst (scan_upto 1048575 (mpc_stdout p))) = Some (r1, noise2 @ l2 # ls)"
    unfolding assms(3) read_resp_noise [OF assms(4)] by (rule read_resp_found [OF assms(5)])
  have r2: "read_resp trunc 2 (noise2 @ l2 # ls) = Some (r2, ls)"
    unfolding read_resp_noise [OF assms(7)] by (rule read_resp_found [OF assms(8)])
  show ?thesis
    by (cases "rpr_error r2") (simp_all add: McpExecute_def assms(1,2,6) await_resp_def r1 r2 Let_def)
qed

text \<open>The call is written only when the server has answered the greeting without an error.\<close>

lemma mcp_call_after_greeting:
  assumes "McpExecute trunc pkg version toolName args p = (res, reqs)" and "length reqs = 3"
  shows "\<exists>noise l ls r. fst (scan_upto 1048575 (mpc_stdout p)) = noise @ l # ls \<and> response_of trunc 1 l = Some r \<and> rpr_error r = None"
proof (cases "read_resp trunc 1 (fst (scan_upto 1048575 (mpc_stdout p)))")
  case None
  then show ?thesis using assms by (auto simp: McpExecute_def Let_def await_resp_def split: option.splits)
next
  case (Some x)
  obtain r ls where x: "x = (r, ls)" by (cases x)
  have "rpr_error r = None"
    using assms Some x by (cases "rpr_error r") (auto simp: McpExecute_def Let_def await_resp_def split: option.splits)
  then show ?thesis using read_resp_Some [OF Some [unfolded x]] by blast
qed

lemma normalized_object: "\<exists>kvs. normalizeMCPArguments args = JObj kvs"
  by (cases args; cases "the args") (auto simp: normalizeMCPArguments_def)

text \<open>Every server over HTTP has a name, so that it is advertised even when it cannot be asked for its tools; one of a package may have none.\<close>

lemma http_slug_nonempty: "McpHttpSlug isUUID i rawURL \<noteq> []"
  by (simp add: McpHttpSlug_def Let_def ReplaceAll_nonempty)

lemma package_slug_examples:
  "McpPackageSlug ''@modelcontextprotocol/server-github'' = ''github''" "McpPackageSlug ''@company/mcp-weather'' = ''weather''"
  "McpPackageSlug ''my-custom-server'' = ''my_custom_server''" "McpPackageSlug ''@company/mcp-'' = []"
  by code_simp+

lemma http_slug_examples:
  "mcpHTTPHostnameSlug ''https://api.githubcopilot.com/mcp/'' = ''githubcopilot''" "mcpHTTPHostnameSlug ''http://localhost:8080/mcp'' = ''localhost''"
  by code_simp+

text \<open>When the notification cannot be sent, the session of the greeting is lost and the call goes out without one.\<close>

lemma session_lost:
  assumes "post [] (http_request_doc (Some 1) ''initialize'' (Some initialize_params)) = Inr \<lparr>mha_status = 202, mha_session = s, mha_sse = False, mha_body = [], mha_readErr = None\<rparr>"
    and "s \<noteq> []" and "post s (http_request_doc None ''notifications/initialized'' None) = Inl (False, e)"
  shows "mcpHTTPHandshake post url = Inr []"
  using assms by (simp add: mcpHTTPHandshake_def mcpHTTPPost_def init_error_def Let_def)

end
