(* ===== verification/Tools_Worker.thy ===== *)
theory Tools_Worker
  imports Tools_Mcp Tools_Api
begin

text \<open>
  The tools worker (\<open>internal/tools\<close>): its greeting, the messages of the router it acts on, the policy it
  applies, and the tool jobs it runs, each in its own goroutine.  The executors of the built-in tools, the
  installer of packages and the MCP servers are parameters.
\<close>

section \<open>The worker\<close>

datatype tool_run = RunOk tool_Result | RunError string | RunPanic string

record tools_env =
  twe_registry :: "(string \<Rightarrow> string gomap \<Rightarrow> raw \<Rightarrow> tool_run) gomap"
    \<comment> \<open>thread, credentials, arguments\<close>
  twe_install :: "string \<Rightarrow> string \<Rightarrow> string option"
  twe_process :: "string \<Rightarrow> string \<Rightarrow> string gomap \<Rightarrow> mcp_process"
  twe_http :: "string \<Rightarrow> string gomap \<Rightarrow> mcp_post"
  twe_isUUID :: "string \<Rightarrow> bool"
  twe_trunc :: "string \<Rightarrow> int option"
  twe_jsonErr :: string

record tools_worker =
  twk_tools :: "string list"
  twk_id :: string
  twk_policy :: ToolsPolicy

text \<open>\<open>Registry.Execute\<close>; a name that is not there is an error.\<close>

definition Registry_Execute :: "tools_env \<Rightarrow> string \<Rightarrow> string gomap \<Rightarrow> string \<Rightarrow> raw \<Rightarrow> tool_run" where
  "Registry_Execute env thread creds name args =
     (case mget (twe_registry env) name of
        None \<Rightarrow> RunError (''unknown tool: '' @ strconv_quote name)
      | Some exec \<Rightarrow> exec thread creds args)"

definition Registry_Names :: "tools_env \<Rightarrow> string list" where
  "Registry_Names env = mkeys (twe_registry env)"

definition run_of :: "string + tool_Result \<Rightarrow> tool_run" where
  "run_of r = (case r of Inl e \<Rightarrow> RunError e | Inr x \<Rightarrow> RunOk x)"

section \<open>Tool jobs\<close>

definition tool_job_run :: "tools_env \<Rightarrow> ToolJobMessage \<Rightarrow> tool_run" where
  "tool_job_run env job =
     (if tjm_url job \<noteq> [] then
        run_of (McpHttpExecute (twe_jsonErr env) (twe_http env (tjm_url job) (tjm_headers job)) (tjm_url job) (tjm_tool job) (tjm_args job))
      else if tjm_pkg job \<noteq> [] then
        (case twe_install env (tjm_pkg job) (tjm_version job) of
           Some e \<Rightarrow> RunError (''MCP package install for '' @ tjm_pkg job @ ''@'' @ tjm_version job @ '': '' @ e)
         | None \<Rightarrow>
             run_of (fst (McpExecute (twe_trunc env) (tjm_pkg job) (tjm_version job) (tjm_tool job) (tjm_args job)
               (twe_process env (tjm_pkg job) (tjm_version job) (tjm_creds job)))))
      else Registry_Execute env (tjm_thread job) (tjm_creds job) (tjm_tool job) (tjm_args job))"

text \<open>The result, whatever the run was; \<open>duration\<close> in milliseconds.\<close>

definition tool_job_result :: "int \<Rightarrow> ToolJobMessage \<Rightarrow> tool_run \<Rightarrow> ToolResultMessage" where
  "tool_job_result duration job run =
     (let msg = zero_ToolResultMessage\<lparr>trm_type := ''tool_result'', trm_job := tjm_job job, trm_parent := tjm_parent job,
            trm_call := tjm_call job, trm_tool := tjm_tool job, trm_duration := duration\<rparr>
      in case run of
           RunPanic p \<Rightarrow> msg\<lparr>trm_error := ''tool worker panic: '' @ p\<rparr>
         | RunError e \<Rightarrow> msg\<lparr>trm_error := e\<rparr>
         | RunOk r \<Rightarrow> msg\<lparr>trm_result := trs_output r,
             trm_images := map (\<lambda>i. \<lparr>ip_mime = tim_mime i, ip_data = tim_data i\<rparr>) (trs_images r)\<rparr>)"

text \<open>\<open>sent n\<close>: whether the \<open>n\<close>-th write succeeds.\<close>

definition sendToolResultWithRetry :: "(nat \<Rightarrow> bool) \<Rightarrow> ToolResultMessage \<Rightarrow> message list" where
  "sendToolResultWithRetry sent msg = (if sent 0 \<or> sent 1 then [MToolResult msg] else [])"

definition handleToolJob :: "tools_env \<Rightarrow> int \<Rightarrow> (nat \<Rightarrow> bool) \<Rightarrow> ToolJobMessage \<Rightarrow> message list" where
  "handleToolJob env duration sent job = sendToolResultWithRetry sent (tool_job_result duration job (tool_job_run env job))"

section \<open>The policy\<close>

definition cut_desc :: "string \<Rightarrow> string" where
  "cut_desc d = (if 80 < length d then take 77 d @ ''...'' else d)"

definition mcp_line :: "McpToolDef \<Rightarrow> string" where
  "mcp_line d = ''  - '' @ mtd_name d @
     (if mtd_params d = [] then [] else ''('' @ join_with '', '' (mtd_params d) @ '')'') @
     (if mtd_desc d = [] then [] else '': '' @ cut_desc (mtd_desc d)) @ [CHR 0x0A]"

definition mcp_usage :: string where
  "mcp_usage = [CHR 0x0A] @ ''Call this tool with {\"command\": \"<command_name>\", \"arguments\": {\"<param>\": \"<value>\", ...}} '' @ em_dash @
     '' \"arguments\" must be a JSON object (use {} if the command needs no parameters).'' @ [CHR 0x0A] @
     ''Example: {\"command\": \"create_issue\", \"arguments\": {\"owner\": \"acme\", \"repo\": \"api\", \"title\": \"Bug\"}}''"

definition buildMcpDescription :: "string \<Rightarrow> McpToolDef list \<Rightarrow> string" where
  "buildMcpDescription pkg defs =
     (if defs = [] then ''MCP server '' @ pkg @ '' (no tools advertised)''
      else ''MCP integration via '' @ pkg @ ''.'' @ [CHR 0x0A, CHR 0x0A] @ ''Available commands:'' @ [CHR 0x0A] @
        concat (map mcp_line defs) @ mcp_usage)"

definition introspectHTTPServer :: "tools_env \<Rightarrow> McpServerConfig \<Rightarrow> McpAggregateSchema" where
  "introspectHTTPServer env srv =
     (let slug = McpHttpSlug (twe_isUUID env) (msc_id srv) (msc_url srv) in
      case McpHttpIntrospect (twe_jsonErr env) (twe_http env (msc_url srv) (msc_resolved srv)) (msc_url srv) of
        Inl e \<Rightarrow> zero_McpAggregateSchema\<lparr>mas_tool := slug, mas_desc := ''HTTP MCP server '' @ msc_url srv @ '' (schema unavailable)''\<rparr>
      | Inr defs \<Rightarrow> zero_McpAggregateSchema\<lparr>mas_tool := slug, mas_desc := buildMcpDescription (msc_url srv) defs, mas_commands := map mtd_name defs\<rparr>)"

definition introspectStdioServer :: "tools_env \<Rightarrow> McpServerConfig \<Rightarrow> McpAggregateSchema" where
  "introspectStdioServer env srv =
     (case twe_install env (msc_pkg srv) (msc_version srv) of
        Some e \<Rightarrow> zero_McpAggregateSchema
      | None \<Rightarrow>
          (let sch = zero_McpAggregateSchema\<lparr>mas_tool := McpPackageSlug (msc_pkg srv), mas_pkg := msc_pkg srv, mas_version := msc_version srv\<rparr> in
           case McpIntrospect (twe_trunc env) (twe_jsonErr env) (msc_pkg srv) (msc_version srv) (twe_process env (msc_pkg srv) (msc_version srv) []) of
             Inl e \<Rightarrow> sch\<lparr>mas_desc := ''MCP server '' @ msc_pkg srv @ '' (schema unavailable)''\<rparr>
           | Inr defs \<Rightarrow> sch\<lparr>mas_desc := buildMcpDescription (msc_pkg srv) defs, mas_commands := map mtd_name defs\<rparr>))"

definition policy_schemas :: "tools_env \<Rightarrow> ToolsPolicy \<Rightarrow> McpAggregateSchema list" where
  "policy_schemas env policy =
     filter (\<lambda>s. mas_tool s \<noteq> [])
       (map (\<lambda>srv. if msc_url srv \<noteq> [] then introspectHTTPServer env srv else introspectStdioServer env srv) (tpol_servers policy))"

definition handleReloadPolicy :: "tools_env \<Rightarrow> ToolsPolicy \<Rightarrow> tools_worker \<Rightarrow> tools_worker \<times> PolicyReloadedMessage" where
  "handleReloadPolicy env policy w =
     (let schemas = policy_schemas env policy; advertised = Registry_Names env @ map mas_tool schemas in
      (w\<lparr>twk_policy := policy, twk_tools := advertised\<rparr>,
       \<lparr>prm_type = ''policy_reloaded'', prm_tools = advertised, prm_schemas = schemas\<rparr>))"

section \<open>Checking a configuration\<close>

record ValidateConfigurationTool =
  vct_name :: string
  vct_desc :: string
  vct_schema :: raw

record ValidateConfigurationResultMessage =
  vcr_type :: string
  vcr_req :: string
  vcr_tools :: "ValidateConfigurationTool list"
  vcr_error :: string

definition handleValidateConfiguration :: "tools_env \<Rightarrow> ValidateConfigurationMessage \<Rightarrow> ValidateConfigurationResultMessage" where
  "handleValidateConfiguration env req =
     (let version = (if vcm_version req = [] then ''latest'' else vcm_version req);
          defs = (if vcm_url req \<noteq> [] then McpHttpIntrospect (twe_jsonErr env) (twe_http env (vcm_url req) (vcm_headers req)) (vcm_url req)
            else McpIntrospect (twe_trunc env) (twe_jsonErr env) (vcm_pkg req) version (twe_process env (vcm_pkg req) version []))
      in \<lparr>vcr_type = ''validate_configuration_result'', vcr_req = vcm_req req,
          vcr_tools = (case defs of Inl e \<Rightarrow> []
            | Inr ds \<Rightarrow> map (\<lambda>d. \<lparr>vct_name = mtd_name d, vct_desc = mtd_desc d, vct_schema = mtd_schema d\<rparr>) ds),
          vcr_error = (case defs of Inl e \<Rightarrow> e | Inr ds \<Rightarrow> [])\<rparr>)"

section \<open>The connection\<close>

definition tools_hello :: "string \<Rightarrow> tools_worker \<Rightarrow> HelloMessage" where
  "tools_hello key w = zero_HelloMessage\<lparr>hm_type := ''hello'', hm_key := key, hm_worker := ''tools'',
     hm_tools := Some \<lparr>tcap_tools = twk_tools w\<rparr>\<rparr>"

text \<open>What the router's answer to the greeting leads to: an error, or the worker and the first policy.\<close>

definition tools_ack :: "string \<Rightarrow> (message \<Rightarrow> string) \<Rightarrow> message option \<Rightarrow> tools_worker \<Rightarrow> string + tools_worker \<times> ToolsPolicy option" where
  "tools_ack parseErr typeText msg w =
     (case msg of
        None \<Rightarrow> Inl (''parsing hello_ack: '' @ parseErr)
      | Some (MHelloAck ack) \<Rightarrow>
          if \<not> ham_success ack then Inl (''authentication failed: '' @ ham_error ack)
          else Inr (w\<lparr>twk_id := ham_gpu ack\<rparr>, ham_tools ack)
      | Some m \<Rightarrow> Inl (''expected hello_ack, got '' @ typeText m))"

datatype tools_action =
    RunToolJob ToolJobMessage
  | ApplyPolicy ToolsPolicy
  | Validate ValidateConfigurationMessage

definition tools_dispatch :: "message option \<Rightarrow> tools_action option" where
  "tools_dispatch msg =
     (case msg of
        Some (MToolJob m) \<Rightarrow> Some (RunToolJob m)
      | Some (MReloadPolicy m) \<Rightarrow> Some (ApplyPolicy (rpm_policy m))
      | Some (MValidateConfiguration m) \<Rightarrow> Some (Validate m)
      | _ \<Rightarrow> None)"

text \<open>The delay in seconds after that many failed attempts in a row: none, two, and twice the last up to a minute.\<close>

fun tools_delay :: "nat \<Rightarrow> int" where
  "tools_delay 0 = 0"
| "tools_delay (Suc n) = (let d = tools_delay n in if d = 0 then 2 else if 60 < d * 2 then 60 else d * 2)"

section \<open>Lemmas\<close>

lemma tools_delay_bounds: "0 \<le> tools_delay n \<and> tools_delay n \<le> 60" "tools_delay n \<le> tools_delay (Suc n)"
proof -
  show b: "0 \<le> tools_delay n \<and> tools_delay n \<le> 60" for n by (induction n) (auto simp: Let_def)
  show "tools_delay n \<le> tools_delay (Suc n)" using b [of n] by (simp add: Let_def)
qed

lemma result_ids [simp]:
  "trm_job (tool_job_result duration job run) = tjm_job job" "trm_parent (tool_job_result duration job run) = tjm_parent job"
  "trm_call (tool_job_result duration job run) = tjm_call job" "trm_tool (tool_job_result duration job run) = tjm_tool job"
  by (simp_all add: tool_job_result_def Let_def zero_ToolResultMessage_def split: tool_run.split)

text \<open>A panic of an executor is an answer too: of every job there is exactly one, unless two writes fail.\<close>

lemma job_answered_once:
  "handleToolJob env duration sent job =
     (if sent 0 \<or> sent 1 then [MToolResult (tool_job_result duration job (tool_job_run env job))] else [])"
  by (simp add: handleToolJob_def sendToolResultWithRetry_def)

text \<open>
  C34: a direct call is answered: the job that the router sends to a tools worker has the tool and the arguments of the
  request; the worker runs it and sends one result, be the run a success, an error or a panic, and when it
  has come nothing of the call stays registered with the router.
\<close>

theorem tool_call_completes:
  assumes "handleExecuteTool cfg toolJobID callID sent cause jsonErr rq th = (Waiting tool cont, th', es)"
    and "mget (th_conts th) (''direct:'' @ toolJobID) = None" and "mget (th_refs th) toolJobID = None"
    and "delivered 0 \<or> delivered 1"
  shows "\<exists>w job. es = [ESend w (MToolJob job)] \<and> w \<in> tcn_id ` set (map snd (th_workers th)) \<and> tjm_tool job = tool \<and>
    (\<exists>req. from_raw dec_executeRequest (rq_body rq) zero_executeRequest = (req, True) \<and> xr_tool req = tool \<and>
       tjm_args job = (case xr_args req of None \<Rightarrow> Some (JObj []) | Some j \<Rightarrow> Some j)) \<and>
    tools_dispatch (Some (MToolJob job)) = Some (RunToolJob job) \<and>
    (\<exists>result. handleToolJob env duration delivered job = [MToolResult result] \<and>
       tool_job_result duration job (tool_job_run env job) = result \<and> handleToolResult result th' = (th, []))"
proof -
  obtain req where req: "from_raw dec_executeRequest (rq_body rq) zero_executeRequest = (req, True)"
      "TrimSpace (xr_tool req) \<noteq> []" "xr_tool req = tool"
      "DispatchDirectToolCall cfg toolJobID callID sent (xr_tool req)
         (case xr_args req of None \<Rightarrow> Some (JObj []) | Some j \<Rightarrow> Some j) th = (Inr cont, th', es)"
    using assms(1) by (auto simp: handleExecuteTool_def Let_def split: prod.splits bool.splits if_splits sum.splits)
  from direct_call_sent [OF req(4) assms(2,3)] obtain w job where job: "w \<in> set (map snd (th_workers th))"
      "es = [ESend (tcn_id w) (MToolJob job)]" "tjm_tool job = tool"
      "tjm_args job = (case xr_args req of None \<Rightarrow> Some (JObj []) | Some j \<Rightarrow> Some j)"
      "\<And>msg. trm_job msg = tjm_job job \<Longrightarrow> trm_parent msg = tjm_parent job \<Longrightarrow> trm_call msg = tjm_call job \<Longrightarrow> handleToolResult msg th' = (th, [])"
    using req(3) by blast
  have "handleToolResult (tool_job_result duration job (tool_job_run env job)) th' = (th, [])" by (rule job(5)) simp_all
  then show ?thesis using job(1-4) req(1,3) assms(4)
    by (intro exI [of _ "tcn_id w"] exI [of _ job] conjI exI [of _ req]
        exI [of _ "tool_job_result duration job (tool_job_run env job)"] imageI)
      (simp_all only: job_answered_once tools_dispatch_def message.case option.case if_True)
qed

definition demo_tools_env :: tools_env where
  "demo_tools_env = \<lparr>twe_registry = [(''web_fetch'', \<lambda>thread creds args. RunPanic ''nil map'')], twe_install = (\<lambda>p v. None),
     twe_process = (\<lambda>p v c. \<lparr>mpc_start = None, mpc_write = (\<lambda>n. None), mpc_stdout = [], mpc_late = None, mpc_stderr = []\<rparr>),
     twe_http = (\<lambda>u h s d. Inl (False, ''refused'')), twe_isUUID = (\<lambda>s. False), twe_trunc = (\<lambda>t. None), twe_jsonErr = ''bad JSON''\<rparr>"

theorem tool_call_completes_witness:
  "\<exists>result. trm_error result = ''tool worker panic: nil map'' \<and>
     handleToolResult result (fst (snd (handleExecuteTool demo_config ''1'' ''2'' True [] []
        \<lparr>rq_method = ''POST'', rq_path = [], rq_auth = [], rq_apiKey = [], rq_body = Some (JObj [(''tool'', JStr ''web_fetch'')])\<rparr>
        demo_tools))) = (demo_tools, [])"
proof -
  let ?rq = "\<lparr>rq_method = ''POST'', rq_path = [], rq_auth = [], rq_apiKey = [], rq_body = Some (JObj [(''tool'', JStr ''web_fetch'')])\<rparr>"
  let ?res = "handleExecuteTool demo_config ''1'' ''2'' True [] [] ?rq demo_tools"
  have "case fst ?res of Waiting t c \<Rightarrow> True | _ \<Rightarrow> False" by code_simp
  then obtain tool cont where res: "?res = (Waiting tool cont, fst (snd ?res), snd (snd ?res))"
    by (cases ?res; cases "fst ?res") auto
  have fresh: "mget (th_conts demo_tools) (''direct:'' @ ''1'') = None" "mget (th_refs demo_tools) ''1'' = None"
    by (simp_all add: NewToolsWSHandler_def)
  have yes: "(\<lambda>n. n = (1::nat)) 0 \<or> (\<lambda>n. n = (1::nat)) 1" by simp
  from tool_call_completes [OF res fresh yes, of demo_tools_env 5]
  obtain w job where j: "snd (snd ?res) = [ESend w (MToolJob job)]"
      "handleToolResult (tool_job_result 5 job (tool_job_run demo_tools_env job)) (fst (snd ?res)) = (demo_tools, [])" by blast
  have "case snd (snd ?res) of [ESend w (MToolJob job)] \<Rightarrow>
      trm_error (tool_job_result 5 job (tool_job_run demo_tools_env job)) = ''tool worker panic: nil map'' | _ \<Rightarrow> False" by code_simp
  then have "trm_error (tool_job_result 5 job (tool_job_run demo_tools_env job)) = ''tool worker panic: nil map''"
    by (simp only: j(1) list.case effect.case message.case)
  then show ?thesis using j(2) by blast
qed

text \<open>What is advertised after a policy: the built-in tools, and a name per server that has one.\<close>

lemma policy_advertised:
  assumes "handleReloadPolicy env policy w = (w', msg)"
  shows "twk_tools w' = prm_tools msg \<and> prm_tools msg = Registry_Names env @ map mas_tool (prm_schemas msg) \<and>
    [] \<notin> mas_tool ` set (prm_schemas msg)"
  using assms by (auto simp: handleReloadPolicy_def policy_schemas_def Let_def)

end
