(* ===== verification/Spec2Isabelle.thy ===== *)
theory Spec2Isabelle
  imports Protocol Gpu_Pool Json_Parse Job_Queue Auth Openai_Types Anthropic_Types Registry_Types
    Tool_Env Model_Registry Router_Config Tools_Handler Go_Time Ws_Handler Ws_System
    Openai_Builders Token_Loop Http_Api Api_Handler Anthropic_Builders Anthropic_Handler
    Tools_Api Mcp_Handler Server Bash_Tool
    Llama_Client Qwen_Xml Worker_Executor Image_Executor Worker_Connection Cli_Mcp Agent_Loop Tools_Worker
begin

text \<open>
  A model of the auxot router and of the parts of its workers that compute: what the Go program
  under \<open>src/\<close> does with the requests, messages, queues and files it meets, as HOL functions, and the
  theorems that make it correct.

  \<^bold>\<open>The program.\<close>  The router (\<open>internal/router\<close>) takes OpenAI and Anthropic requests over HTTP, puts
  a job per request into a Redis stream, and reads the events of the answer from a token stream.
  GPU workers connect over a WebSocket; one reader loop per worker takes jobs from the
  stream for the free slots of its worker, sends them and publishes the tokens that come back.
  Tools workers run the tool calls of a model: a completion with tool calls opens a round, and its
  last result enqueues the next job.  A sweeper gives the jobs of dead workers to live ones.
  A GPU worker runs its jobs on a llama.cpp or image server beside it (\<open>internal/worker\<close>) or with the
  Claude Code program (\<open>internal/cliworker\<close>); an agent worker (\<open>internal/agentworker\<close>) serves the files
  and tools of a directory.

  \<^bold>\<open>Theories.\<close>
  \<^item> \<^theory_text>\<open>Go_Prelude\<close>, \<^theory_text>\<open>Go_Path\<close>, \<^theory_text>\<open>Go_Strings\<close>, \<^theory_text>\<open>Go_Time\<close>, \<^theory_text>\<open>Json\<close>, \<^theory_text>\<open>Json_Parse\<close>, \<^theory_text>\<open>Base64\<close>: what the code uses
    of Go's library: maps, strings, paths, \<open>encoding/json\<close> with its decoder rules, a parser for the
    text of documents.  The locale \<open>codec\<close> of \<^theory_text>\<open>Json\<close> is the contract of a struct's encoder and decoder.
  \<^item> \<^theory_text>\<open>Protocol_Types\<close>, \<^theory_text>\<open>Protocol\<close> (\<open>pkg/protocol\<close>): the messages between router and workers.
  \<^item> \<^theory_text>\<open>Openai_Types\<close>, \<^theory_text>\<open>Openai_Builders\<close> (\<open>pkg/openai\<close>), \<^theory_text>\<open>Anthropic_Types\<close>, \<^theory_text>\<open>Anthropic_Builders\<close>
    (\<open>pkg/anthropic\<close>): the documents of both APIs and what builds them.
  \<^item> \<^theory_text>\<open>Auth\<close> (\<open>pkg/auth\<close>): keys, their Argon2 hashes, the verifier with its cache.
  \<^item> \<^theory_text>\<open>Slots\<close>, \<^theory_text>\<open>Gpu_Pool\<close> (\<open>pkg/gpu/pool.go\<close>): the slots of the workers; \<open>Slots\<close> is the abstract
    contract, a locale that \<^theory_text>\<open>Gpu_Pool\<close> interprets.
  \<^item> \<^theory_text>\<open>Job_Queue\<close> (\<open>pkg/queue\<close>): job queue, token streams, heartbeats and sweeper over a record of
    the Redis commands.
  \<^item> \<^theory_text>\<open>Registry_Types\<close>, \<^theory_text>\<open>Model_Registry\<close> (\<open>pkg/registry\<close>), \<^theory_text>\<open>Router_Config\<close> (\<open>config.go\<close>), \<^theory_text>\<open>Tool_Env\<close>
    (\<open>pkg/tools/env.go\<close>): the models, the configuration from the environment, the environment of a tool.
  \<^item> \<^theory_text>\<open>Tools_Handler\<close> (\<open>toolshandler.go\<close>, \<open>dispatch.go\<close>), \<^theory_text>\<open>Ws_Handler\<close> (\<open>wshandler.go\<close>), \<^theory_text>\<open>Ws_System\<close>: the
    handlers of the workers, and the runs of the WebSocket server as a step relation over them.
  \<^item> \<^theory_text>\<open>Token_Loop\<close>, \<^theory_text>\<open>Http_Api\<close>, \<^theory_text>\<open>Api_Handler\<close> (\<open>apihandler.go\<close>), \<^theory_text>\<open>Anthropic_Handler\<close>
    (\<open>anthropichandler.go\<close>), \<^theory_text>\<open>Tools_Api\<close> (\<open>toolsapihandler.go\<close>), \<^theory_text>\<open>Mcp_Handler\<close> (\<open>mcphandler.go\<close>), \<^theory_text>\<open>Server\<close>
    (\<open>server.go\<close>): the HTTP side, from the loop that reads a token stream to the composed server.
  \<^item> \<^theory_text>\<open>Llama_Client\<close> (\<open>pkg/llamacpp\<close>), \<^theory_text>\<open>Qwen_Xml\<close> (\<open>qwen_tool_xml.go\<close>), \<^theory_text>\<open>Worker_Executor\<close> (\<open>executor.go\<close>),
    \<^theory_text>\<open>Image_Executor\<close> (\<open>image_executor.go\<close>), \<^theory_text>\<open>Worker_Connection\<close> (\<open>connection.go\<close> and the jobs of
    \<open>cmd/auxot-worker/main.go\<close>): the GPU worker, from the frames of a stream to the messages of a job.
  \<^item> \<^theory_text>\<open>Cli_Session\<close>, \<^theory_text>\<open>Cli_Worker\<close> (\<open>claude.go\<close>, \<open>strip_job_images.go\<close>), \<^theory_text>\<open>Cli_Mcp\<close> (\<open>mcp_stdio.go\<close>,
    \<open>liveproxy.go\<close>): the worker that runs Claude Code: the session it writes, the events it reads, and the
    MCP server that gives Claude the tools of the caller.
  \<^item> \<^theory_text>\<open>Coding_Tools\<close>, \<^theory_text>\<open>Bash_Tool\<close> (\<open>pkg/codingtools\<close>): the tools of the agent worker; \<^theory_text>\<open>Agent_Worker\<close>
    (\<open>worker.go\<close>, \<open>gitagent.go\<close>, \<open>prompt_watch.go\<close>, \<open>file_upload.go\<close>), \<^theory_text>\<open>Agent_Loop\<close> (\<open>loop.go\<close>, \<open>toolclient.go\<close>): the
    worker itself and its agentic loop.
  \<^item> \<^theory_text>\<open>Tools_Mcp\<close> (\<open>pkg/tools/mcp.go\<close>, \<open>mcp_http.go\<close>), \<^theory_text>\<open>Tools_Worker\<close> (\<open>internal/tools\<close>): the tools worker and
    its clients of MCP servers.

  \<^bold>\<open>How state and operations correspond.\<close>  A struct is a record whose fields carry a prefix of
  their own, a method is a function from the record (and what it reads) to the record and its
  effects.  What a handler does to others is a list of \<open>effect\<close>s in the order of the code (a
  message sent, an event published, an entry acknowledged, a job enqueued); \<^theory_text>\<open>Ws_System\<close> says what they do.
  A goroutine is a kind of step, so that every interleaving at the granularity of the handlers is a
  run; the mutexes of the code make the handlers' accesses to a record such units.  Errors are
  values: a sum, an option or a constructor per failure, and a panic of the code is one too.
  Clocks, random bytes, identifiers, the network and the file system are arguments.

  \<^bold>\<open>Conventions.\<close>  A string is its bytes.  Text that \<open>encoding/json\<close> writes is taken to be
  well-formed UTF-8 without \<open>U+2028\<close> and \<open>U+2029\<close>, except in \<^theory_text>\<open>Bash_Tool\<close>, which covers every byte string.
  A map is an association list in the order of one iteration, so a lemma holds for every order.  Raw
  JSON is its parse tree.  Go's \<open>int\<close> is \<open>int\<close>; where a sum may overflow it is \<open>add_int\<close>, and the hash that
  picks a tools worker works on 64-bit words.

  \<^bold>\<open>What the lemmas show.\<close>  The codecs of all messages are round trips, up to the text on the wire.
  The verifier's cache never changes an answer.  The pool and the connections agree on the jobs
  of every worker in every run, no worker has more jobs than slots, and every queue entry handed out is
  in flight or acknowledged.  A round of tool calls ends in one job with one reply per call.  The
  streaming and the blocking mode of both APIs tell the same text, and the response is a function of
  the log, however the reads split it.  No request without a key reaches the queue, whichever handler
  it goes to.  The coding tools touch nothing outside their directory.  A stream of llama.cpp is received as it was
  framed, and what a GPU worker streams is its response, without the markup of tool calls.  A job of either
  worker ends in one outcome, after all else it sends; the session that Claude Code is given is the
  conversation, and a call of it in live mode is answered with the result.  What the agent worker answers shows no
  credential of the call, what it is sent stays in its directory, and its loop ends.  A tool job is answered once, even
  by an executor that panics, and the answer settles the call at the router.

  \<^bold>\<open>Bounds and fuel.\<close>  The recursion of the JSON parser has fuel; the length of the text is enough, which
  the round trip proves.  The loop over \<open>SCAN\<close> cursors may run for ever with a server that never
  ends it and is a \<open>partial_function\<close>; \<open>sweep_loses_nothing\<close> proves that the sweep returns.  The loops that read a
  token stream run over the list of polls the client stays for.

  \<^bold>\<open>Not modelled.\<close>  Process wiring, flags and logging (\<open>cmd\<close>, \<open>pkg/logutil\<close>), downloads and hardware
  detection (\<open>pkg/llamabin\<close>, \<open>pkg/sdbin\<close>, \<open>pkg/modeldown\<close>, \<open>pkg/gpudetect\<close>), the processes of the servers beside a
  worker (\<open>llamaproc.go\<close>, \<open>sdproc.go\<close>), the tickers that only call modelled operations, response headers and
  flushing, the executors of the built-in tools (\<open>pkg/tools\<close> but for \<open>env.go\<close> and the MCP clients) and the browser,
  the URLs of the router (\<open>pkg/routerurl\<close>, which is Go's URL parser): these talk to the
  outside and decide little.  Claude Code, llama.cpp, a model, an MCP client, the file watcher and the YAML parser are
  parameters: what they give is an argument of what reads it.
\<close>

section \<open>Messages on the wire\<close>



text \<open>
  Not every message of the protocol is parsed: what a worker sends when it is overloaded is
  refused as a message of an unknown type.
\<close>

theorem overload_refused:
  assumes "om_type m = ''job.overload''" and "wf_json (enc_OverloadMessage m)"
  shows "ParseMessage (json_parse (json_text (enc_OverloadMessage m))) = Inl (UnknownType ''job.overload'')"
  using assms by (simp add: parse_json_text parse_overload)

theorem overload_refused_witness:
  "ParseMessage (json_parse (json_text (enc_OverloadMessage (zero_OverloadMessage\<lparr>om_type := ''job.overload''\<rparr>)))) =
   Inl (UnknownType ''job.overload'')"
  by (rule overload_refused; code_simp)

end
